(* ===== verification/Prelude.thy ===== *)
theory Prelude
  imports Main "HOL-Library.Word"
begin

text \<open>
  Shared vocabulary of the development: fallible stateful operations (the shape of a Rust
  method that takes the receiver by reference and returns \<open>anyhow::Result\<close>), SQLite
  connections with an explicit supply of statement failures, table primitives
  (\<open>SELECT\<close>, \<open>UPDATE\<close>, \<open>DELETE\<close>) on lists of rows, and the locale
  \<open>step_relation\<close>, which carries a reflexive and transitive relation on states through
  every way of composing operations.
\<close>

section \<open>Basic types\<close>

type_synonym u8 = "8 word"
type_synonym u16 = "16 word"
type_synonym u32 = "32 word"
type_synonym u64 = "64 word"

text \<open>
  An instant of \<open>chrono::DateTime<Utc>\<close>, in nanoseconds. The program stores instants as
  RFC 3339 text in UTC; on such text the lexicographic order that SQLite uses is the
  chronological order, so a column of instants is a column of integers here.
\<close>

type_synonym instant = int

text \<open>Errors of fallible operations (\<open>rusqlite::Error\<close> and \<open>anyhow::Error\<close>).\<close>

datatype err =
    SqliteErr                    \<comment> \<open>the statement did not run (I/O, lock, disk)\<close>
  | ConstraintErr string         \<comment> \<open>a UNIQUE or PRIMARY KEY constraint refused it\<close>
  | FromSqlErr string            \<comment> \<open>a column could not be read as its Rust type\<close>
  | NotFoundErr string           \<comment> \<open>\<open>anyhow::bail!("... not found")\<close>\<close>
  | ContextErr string            \<comment> \<open>an \<open>Option\<close> that had to be there was \<open>None\<close>\<close>

section \<open>Fallible stateful operations\<close>

type_synonym ('s, 'a) op = "'s \<Rightarrow> (err + 'a) \<times> 's"

definition ok :: "'a \<Rightarrow> ('s, 'a) op" where
  "ok x s = (Inr x, s)"

definition bail :: "err \<Rightarrow> ('s, 'a) op" where
  "bail e s = (Inl e, s)"

text \<open>The \<open>?\<close> operator: an error ends the caller at once, with the state as it is.\<close>

definition try_op :: "('s, 'a) op \<Rightarrow> ('a \<Rightarrow> ('s, 'b) op) \<Rightarrow> ('s, 'b) op" where
  "try_op m f s = (case m s of (Inl e, s') \<Rightarrow> (Inl e, s') | (Inr x, s') \<Rightarrow> f x s')"

text \<open>A \<open>Result\<close> kept as a value: \<open>let _ = ...\<close>, \<open>if let Err(e) = ...\<close>, \<open>match ...\<close>.\<close>

definition match_op :: "('s, 'a) op \<Rightarrow> (err + 'a \<Rightarrow> ('s, 'b) op) \<Rightarrow> ('s, 'b) op" where
  "match_op m f s = (case m s of (r, s') \<Rightarrow> f r s')"

text \<open>\<open>let _ = m;\<close> and \<open>if let Err(e) = m { log }\<close>: the result is dropped.\<close>

definition ignore_op :: "('s, 'a) op \<Rightarrow> ('s, 'b) op \<Rightarrow> ('s, 'b) op" where
  "ignore_op m k = match_op m (\<lambda>_. k)"

text \<open>A state update that cannot fail, and a read of the state.\<close>

definition modify_op :: "('s \<Rightarrow> 's) \<Rightarrow> ('s, unit) op" where
  "modify_op f s = (Inr (), f s)"

definition asks_op :: "('s \<Rightarrow> 'a) \<Rightarrow> ('s, 'a) op" where
  "asks_op f s = (Inr (f s), s)"

text \<open>\<open>Result::ok().flatten()\<close> of an operation that returns an \<open>Option\<close>.\<close>

definition ok_flatten :: "err + 'a option \<Rightarrow> 'a option" where
  "ok_flatten r = (case r of Inl _ \<Rightarrow> None | Inr x \<Rightarrow> x)"

definition to_op :: "err + 'a \<Rightarrow> ('s, 'a) op" where
  "to_op r s = (r, s)"

text \<open>Run an operation on a part of the state.\<close>

definition zoom_op :: "('s \<Rightarrow> 'c) \<Rightarrow> ('c \<Rightarrow> 's \<Rightarrow> 's) \<Rightarrow> ('c, 'a) op \<Rightarrow> ('s, 'a) op" where
  "zoom_op get put m s = (case m (get s) of (r, c) \<Rightarrow> (r, put c s))"

text \<open>A loop whose body is an operation: stops at the first error, as \<open>for\<close> with \<open>?\<close>.\<close>

primrec for_op :: "'a list \<Rightarrow> ('a \<Rightarrow> ('s, unit) op) \<Rightarrow> ('s, unit) op" where
  "for_op [] f = ok ()"
| "for_op (x # xs) f = try_op (f x) (\<lambda>_. for_op xs f)"

text \<open>\<open>iter().map(f).collect::<Result<Vec<_>, _>>()\<close>: the first error wins.\<close>

primrec collect_results :: "('a \<Rightarrow> err + 'b) \<Rightarrow> 'a list \<Rightarrow> err + 'b list" where
  "collect_results f [] = Inr []"
| "collect_results f (x # xs) =
     (case f x of Inl e \<Rightarrow> Inl e
      | Inr y \<Rightarrow> (case collect_results f xs of Inl e \<Rightarrow> Inl e | Inr ys \<Rightarrow> Inr (y # ys)))"

lemma collect_results_all:
  "(\<And>x. x \<in> set xs \<Longrightarrow> f x = Inr (g x)) \<Longrightarrow> collect_results f xs = Inr (map g xs)"
  by (induction xs) auto

lemma mem_map_filter: "y \<in> set (List.map_filter f xs) \<longleftrightarrow> (\<exists>x \<in> set xs. f x = Some y)"
  by (force simp: List.map_filter_def)

named_theorems op_defs "unfolding of the operation combinators"

declare ok_def [op_defs] bail_def [op_defs] try_op_def [op_defs] match_op_def [op_defs]
  ignore_op_def [op_defs] modify_op_def [op_defs] asks_op_def [op_defs] to_op_def [op_defs]
  zoom_op_def [op_defs]

section \<open>SQLite connections\<close>

text \<open>
  A connection holds the database and the coming failures of the engine: the next statement
  fails when the head of \<open>cn_faults\<close> is \<open>True\<close>, and past the end of the list no statement
  fails. A statement that fails leaves the database unchanged (SQLite rolls a failed
  statement back). Theorems that hold for every connection therefore hold for every pattern
  of database failures.
\<close>

record 'db conn =
  cn_db :: 'db
  cn_faults :: "bool list"

definition sql :: "('db \<Rightarrow> (err + 'a) \<times> 'db) \<Rightarrow> ('db conn, 'a) op" where
  "sql f c =
     (case cn_faults c of
        True # fs \<Rightarrow> (Inl SqliteErr, c\<lparr>cn_faults := fs\<rparr>)
      | fs \<Rightarrow> (case f (cn_db c) of
                (Inl e, _) \<Rightarrow> (Inl e, c\<lparr>cn_faults := tl fs\<rparr>)
              | (Inr r, d) \<Rightarrow> (Inr r, c\<lparr>cn_db := d, cn_faults := tl fs\<rparr>)))"

text \<open>A statement that only reads.\<close>

definition query :: "('db \<Rightarrow> err + 'a) \<Rightarrow> ('db conn, 'a) op" where
  "query f = sql (\<lambda>d. (f d, d))"

text \<open>A transaction: the statements run on a copy, an error drops the copy.\<close>

definition transaction :: "('db conn, 'a) op \<Rightarrow> ('db conn, 'a) op" where
  "transaction m c =
     (case m c of
        (Inl e, c') \<Rightarrow> (Inl e, c\<lparr>cn_faults := cn_faults c'\<rparr>)
      | (Inr r, c') \<Rightarrow> (Inr r, c'))"

text \<open>\<open>BEGIN\<close> and \<open>COMMIT\<close> are statements of their own: they can fail and change nothing.\<close>

definition tx_mark :: "('db conn, unit) op" where
  "tx_mark = sql (\<lambda>d. (Inr (), d))"

section \<open>Tables\<close>

text \<open>
  A table is the list of its rows in \<open>rowid\<close> order. \<open>UPDATE ... WHERE\<close> changes the rows
  that satisfy the condition and returns how many there were.
\<close>

definition upd_where :: "('r \<Rightarrow> bool) \<Rightarrow> ('r \<Rightarrow> 'r) \<Rightarrow> 'r list \<Rightarrow> 'r list" where
  "upd_where P f t = map (\<lambda>r. if P r then f r else r) t"

definition count_where :: "('r \<Rightarrow> bool) \<Rightarrow> 'r list \<Rightarrow> nat" where
  "count_where P t = length (filter P t)"

definition delete_where :: "('r \<Rightarrow> bool) \<Rightarrow> 'r list \<Rightarrow> 'r list" where
  "delete_where P t = filter (\<lambda>r. \<not> P r) t"

text \<open>The first row with a key, as \<open>rows.next()\<close> of a \<open>WHERE key = ?\<close> query gives it.\<close>

definition row_of :: "('r \<Rightarrow> 'k) \<Rightarrow> 'k \<Rightarrow> 'r list \<Rightarrow> 'r option" where
  "row_of key k t = find (\<lambda>r. key r = k) t"

text \<open>The primary-key invariant of a table.\<close>

definition keyed :: "('r \<Rightarrow> 'k) \<Rightarrow> 'r list \<Rightarrow> bool" where
  "keyed key t \<longleftrightarrow> distinct (map key t)"

lemma length_upd_where [simp]: "length (upd_where P f t) = length t"
  by (simp add: upd_where_def)

lemma upd_where_Nil [simp]: "upd_where P f [] = []"
  by (simp add: upd_where_def)

lemma upd_where_Cons [simp]:
  "upd_where P f (r # t) = (if P r then f r else r) # upd_where P f t"
  by (simp add: upd_where_def)

lemma set_upd_where: "set (upd_where P f t) = (\<lambda>r. if P r then f r else r) ` set t"
  by (simp add: upd_where_def)

lemma map_key_upd_where [simp]:
  "(\<And>r. key (f r) = key r) \<Longrightarrow> map key (upd_where P f t) = map key t"
  by (auto simp: upd_where_def)

lemma keyed_upd_where:
  "(\<And>r. key (f r) = key r) \<Longrightarrow> keyed key (upd_where P f t) = keyed key t"
  unfolding keyed_def by (simp only: map_key_upd_where)

lemma keyed_Nil [simp]: "keyed key []"
  by (simp add: keyed_def)

lemma keyed_snoc:
  "keyed key (t @ [r]) \<longleftrightarrow> keyed key t \<and> key r \<notin> key ` set t"
  by (auto simp: keyed_def)

lemma keyed_filter: "keyed key t \<Longrightarrow> keyed key (filter P t)"
  by (auto simp: keyed_def distinct_map_filter)

lemma keyed_delete_where: "keyed key t \<Longrightarrow> keyed key (delete_where P t)"
  by (simp add: delete_where_def keyed_filter)

lemma row_of_Nil [simp]: "row_of key k [] = None"
  by (simp add: row_of_def)

lemma row_of_Cons [simp]:
  "row_of key k (r # t) = (if key r = k then Some r else row_of key k t)"
  by (simp add: row_of_def)

lemma row_of_SomeD: "row_of key k t = Some r \<Longrightarrow> r \<in> set t \<and> key r = k"
  by (induction t) (auto split: if_splits)

lemma row_of_Some_key: "row_of key k t = Some r \<Longrightarrow> k \<in> key ` set t"
  by (auto dest: row_of_SomeD)

lemma row_of_None_iff: "row_of key k t = None \<longleftrightarrow> k \<notin> key ` set t"
  by (induction t) auto

lemma row_of_append:
  "row_of key k (t @ u) = (case row_of key k t of None \<Rightarrow> row_of key k u | Some r \<Rightarrow> Some r)"
  by (induction t) auto

lemma row_of_upd_where:
  assumes "\<And>r. key (f r) = key r"
  shows "row_of key k (upd_where P f t) =
     map_option (\<lambda>r. if P r then f r else r) (row_of key k t)"
  using assms by (induction t) auto

lemma row_of_upd_key:
  assumes "\<And>r. key (f r) = key r"
  shows "row_of key i (upd_where (\<lambda>r. key r = k \<and> P r) f t) =
     (if i = k then map_option (\<lambda>r. if P r then f r else r) (row_of key k t)
      else row_of key i t)"
  using assms by (induction t) auto

lemmas row_of_upd_key' = row_of_upd_key [where P = "\<lambda>_. True", simplified]

lemma keyed_row_of:
  "keyed key t \<Longrightarrow> r \<in> set t \<Longrightarrow> row_of key (key r) t = Some r"
  by (induction t) (auto simp: keyed_def)

lemma count_where_key:
  "keyed key t \<Longrightarrow>
   count_where (\<lambda>r. key r = k \<and> P r) t =
     (case row_of key k t of None \<Rightarrow> 0 | Some r \<Rightarrow> if P r then 1 else 0)"
  by (induction t)
    (auto simp: keyed_def count_where_def row_of_None_iff filter_empty_conv
      dest: row_of_Some_key split: option.splits)

lemmas count_where_key' = count_where_key [where P = "\<lambda>_. True", simplified]

lemma count_where_0: "count_where P t = 0 \<longleftrightarrow> (\<forall>r \<in> set t. \<not> P r)"
  by (simp add: count_where_def filter_empty_conv)

lemma row_of_filter:
  "keyed key t \<Longrightarrow>
   row_of key k (filter P t) =
     (case row_of key k t of None \<Rightarrow> None | Some r \<Rightarrow> if P r then Some r else None)"
  by (induction t)
    (auto simp: keyed_def row_of_None_iff dest: row_of_Some_key split: option.splits)

lemma row_of_delete_where:
  "keyed key t \<Longrightarrow>
   row_of key k (delete_where P t) =
     (case row_of key k t of None \<Rightarrow> None | Some r \<Rightarrow> if P r then None else Some r)"
  by (auto simp: delete_where_def row_of_filter split: option.splits)

section \<open>Relations kept by operations\<close>

text \<open>
  \<open>moves R m\<close>: whatever the operation answers, the state before and the state after are
  related by \<open>R\<close>. An invariant is the case \<open>R s s' \<longleftrightarrow> (P s \<longrightarrow> P s')\<close>.
\<close>

definition moves :: "('s \<Rightarrow> 's \<Rightarrow> bool) \<Rightarrow> ('s, 'a) op \<Rightarrow> bool" where
  "moves R m \<longleftrightarrow> (\<forall>s. R s (snd (m s)))"

lemma movesI: "(\<And>s. R s (snd (m s))) \<Longrightarrow> moves R m"
  by (simp add: moves_def)

lemma movesD: "moves R m \<Longrightarrow> m s = (r, s') \<Longrightarrow> R s s'"
  by (metis moves_def snd_conv)

named_theorems moves_intro "operations keep a step relation"

locale step_relation =
  fixes R :: "'s \<Rightarrow> 's \<Rightarrow> bool"
  assumes step_refl: "R s s"
    and step_trans: "R s t \<Longrightarrow> R t u \<Longrightarrow> R s u"
begin

lemma moves_ok: "moves R (ok x)"
  by (simp add: moves_def ok_def step_refl)

lemma moves_bail: "moves R (bail e)"
  by (simp add: moves_def bail_def step_refl)

lemma moves_to_op: "moves R (to_op r)"
  by (simp add: moves_def to_op_def step_refl)

lemma moves_asks: "moves R (asks_op f)"
  by (simp add: moves_def asks_op_def step_refl)

lemma moves_try:
  assumes "moves R m" and "\<And>x. moves R (f x)"
  shows "moves R (try_op m f)"
proof (rule movesI)
  fix s
  obtain r s' where m: "m s = (r, s')" by fastforce
  have 1: "R s s'" using assms(1) m by (rule movesD)
  show "R s (snd (try_op m f s))"
  proof (cases r)
    case (Inl e)
    with m 1 show ?thesis by (simp add: try_op_def)
  next
    case (Inr x)
    have "R s' (snd (f x s'))" using assms(2) by (simp add: moves_def)
    with m Inr 1 show ?thesis by (auto simp: try_op_def intro: step_trans)
  qed
qed

text \<open>The same for one state, where what follows may depend on what the operation answered.\<close>

lemma step_try:
  assumes "moves R m" and "\<And>x s1. m s = (Inr x, s1) \<Longrightarrow> R s1 (snd (f x s1))"
  shows "R s (snd (try_op m f s))"
proof -
  obtain r s1 where m: "m s = (r, s1)" by fastforce
  have "R s s1" using assms(1) m by (rule movesD)
  with m assms(2) show ?thesis by (cases r) (auto simp: try_op_def intro: step_trans)
qed

lemma moves_match:
  assumes "moves R m" and "\<And>r. moves R (f r)"
  shows "moves R (match_op m f)"
proof (rule movesI)
  fix s
  obtain r s' where m: "m s = (r, s')" by fastforce
  have "R s s'" using assms(1) m by (rule movesD)
  moreover have "R s' (snd (f r s'))" using assms(2) by (simp add: moves_def)
  ultimately show "R s (snd (match_op m f s))"
    using m by (auto simp: match_op_def intro: step_trans)
qed

lemma moves_ignore: "moves R m \<Longrightarrow> moves R k \<Longrightarrow> moves R (ignore_op m k)"
  by (auto simp: ignore_op_def intro: moves_match)

lemma moves_for: "(\<And>x. x \<in> set xs \<Longrightarrow> moves R (f x)) \<Longrightarrow> moves R (for_op xs f)"
  by (induction xs) (auto intro: moves_ok moves_try)

lemma moves_option:
  "(x = None \<Longrightarrow> moves R m) \<Longrightarrow> (\<And>y. x = Some y \<Longrightarrow> moves R (f y)) \<Longrightarrow>
   moves R (case x of None \<Rightarrow> m | Some y \<Rightarrow> f y)"
  by (cases x) auto

lemma moves_sum:
  "(\<And>e. x = Inl e \<Longrightarrow> moves R (f e)) \<Longrightarrow> (\<And>y. x = Inr y \<Longrightarrow> moves R (g y)) \<Longrightarrow>
   moves R (case x of Inl e \<Rightarrow> f e | Inr y \<Rightarrow> g y)"
  by (cases x) auto

lemma moves_if:
  "(b \<Longrightarrow> moves R m) \<Longrightarrow> (\<not> b \<Longrightarrow> moves R n) \<Longrightarrow> moves R (if b then m else n)"
  by simp

lemmas moves_rules = moves_ok moves_bail moves_to_op moves_asks moves_try moves_match
  moves_ignore moves_for moves_option moves_sum moves_if

end

text \<open>An invariant gives the step relation "if it held before, it holds after".\<close>

locale invariant =
  fixes P :: "'s \<Rightarrow> bool"

sublocale invariant \<subseteq> inv: step_relation "\<lambda>s s'. P s \<longrightarrow> P s'"
  by unfold_locales auto

text \<open>A statement moves the database by its own effect, or not at all.\<close>

lemma moves_sql:
  assumes "\<And>d. R d d" and "\<And>d r d'. f d = (Inr r, d') \<Longrightarrow> R d d'"
  shows "moves (\<lambda>c c'. R (cn_db c) (cn_db c')) (sql f)"
proof (rule movesI)
  fix c :: "'a conn"
  show "R (cn_db c) (cn_db (snd (sql f c)))"
    using assms
    by (auto simp: sql_def split: list.splits bool.splits prod.splits sum.splits)
qed

lemma moves_query:
  assumes "\<And>d. R d d"
  shows "moves (\<lambda>c c'. R (cn_db c) (cn_db c')) (query f)"
  unfolding query_def by (rule moves_sql) (use assms in auto)

lemma moves_transaction:
  assumes "\<And>d. R d d" and "moves (\<lambda>c c'. R (cn_db c) (cn_db c')) m"
  shows "moves (\<lambda>c c'. R (cn_db c) (cn_db c')) (transaction m)"
proof (rule movesI)
  fix c
  obtain r c' where m: "m c = (r, c')" by fastforce
  have "R (cn_db c) (cn_db c')" using assms(2) m by (rule movesD)
  with m assms(1) show "R (cn_db c) (cn_db (snd (transaction m c)))"
    by (cases r) (auto simp: transaction_def)
qed

lemma moves_zoom:
  assumes "moves R m" and "\<And>c s. get (put c s) = c"
  shows "moves (\<lambda>s s'. R (get s) (get s')) (zoom_op get put m)"
proof (rule movesI)
  fix s
  obtain r c where m: "m (get s) = (r, c)" by fastforce
  have "R (get s) c" using assms(1) m by (rule movesD)
  with m assms(2) show "R (get s) (get (snd (zoom_op get put m s)))"
    by (simp add: zoom_op_def)
qed

lemma moves_modify: "(\<And>s. R s (f s)) \<Longrightarrow> moves R (modify_op f)"
  by (simp add: moves_def modify_op_def)

lemma keeps_sql:
  assumes "\<And>d r d'. P d \<Longrightarrow> f d = (Inr r, d') \<Longrightarrow> P d'"
  shows "moves (\<lambda>c c'. P (cn_db c) \<longrightarrow> P (cn_db c')) (sql f)"
  by (rule moves_sql [where R = "\<lambda>d d'. P d \<longrightarrow> P d'"]) (use assms in auto)

lemma keeps_query: "moves (\<lambda>c c'. P (cn_db c) \<longrightarrow> P (cn_db c')) (query f)"
  by (rule moves_query [where R = "\<lambda>d d'. P d \<longrightarrow> P d'"]) simp

lemma keeps_transaction:
  "moves (\<lambda>c c'. P (cn_db c) \<longrightarrow> P (cn_db c')) m \<Longrightarrow>
   moves (\<lambda>c c'. P (cn_db c) \<longrightarrow> P (cn_db c')) (transaction m)"
  by (rule moves_transaction [where R = "\<lambda>d d'. P d \<longrightarrow> P d'"]) simp_all

text \<open>With no failure ahead a statement has its plain effect.\<close>

lemma sql_no_faults [simp]:
  "cn_faults c = [] \<Longrightarrow>
   sql f c = (case f (cn_db c) of (Inl e, _) \<Rightarrow> (Inl e, c) | (Inr r, d) \<Rightarrow> (Inr r, c\<lparr>cn_db := d\<rparr>))"
  by (cases c) (auto simp: sql_def split: prod.splits sum.splits)

lemma query_no_faults [simp]:
  "cn_faults c = [] \<Longrightarrow> query f c = (f (cn_db c), c)"
  by (auto simp: query_def split: sum.splits)

text \<open>What a statement that succeeded did, whatever failures lie ahead.\<close>

lemma sql_InrD: "sql f c = (Inr r, c') \<Longrightarrow> f (cn_db c) = (Inr r, cn_db c')"
  by (auto simp: sql_def split: list.splits bool.splits prod.splits sum.splits)

lemma sql_Inr_effect:
  "sql f c = (Inr r, c') \<Longrightarrow> fst (f (cn_db c)) = Inr r \<and> cn_db c' = snd (f (cn_db c))"
  using sql_InrD [of f c r c'] by simp

lemma sql_InlD: "sql f c = (Inl e, c') \<Longrightarrow> cn_db c' = cn_db c"
  by (auto simp: sql_def split: list.splits bool.splits prod.splits sum.splits)

lemma query_InrD: "query f c = (Inr r, c') \<Longrightarrow> f (cn_db c) = Inr r \<and> cn_db c' = cn_db c"
  unfolding query_def by (auto dest: sql_InrD)

lemma query_same_db: "query f c = (r, c') \<Longrightarrow> cn_db c' = cn_db c"
  by (cases r) (auto simp: query_def dest: sql_InrD sql_InlD)

lemma try_op_InrE:
  assumes "try_op m f s = (Inr y, s')"
  obtains x s1 where "m s = (Inr x, s1)" and "f x s1 = (Inr y, s')"
  using assms by (auto simp: try_op_def split: prod.splits sum.splits)

lemma transaction_InlD: "transaction m c = (Inl e, c') \<Longrightarrow> cn_db c' = cn_db c"
  by (auto simp: transaction_def split: prod.splits sum.splits)

lemma transaction_InrD: "transaction m c = (Inr r, c') \<Longrightarrow> m c = (Inr r, c')"
  by (auto simp: transaction_def split: prod.splits sum.splits)

section \<open>Text\<close>

text \<open>
  A Rust \<open>String\<close> is the list of its UTF-8 bytes. \<open>blank s\<close> decides
  \<open>s.trim().is_empty()\<close>: every character has the Unicode property \<open>White_Space\<close>.
\<close>

definition wide_space :: "nat \<Rightarrow> nat \<Rightarrow> nat \<Rightarrow> bool" where
  "wide_space a b c \<longleftrightarrow>
     a = 0xE1 \<and> b = 0x9A \<and> c = 0x80
   \<or> a = 0xE2 \<and> b = 0x80 \<and> (0x80 \<le> c \<and> c \<le> 0x8A \<or> c = 0xA8 \<or> c = 0xA9 \<or> c = 0xAF)
   \<or> a = 0xE2 \<and> b = 0x81 \<and> c = 0x9F
   \<or> a = 0xE3 \<and> b = 0x80 \<and> c = 0x80"

fun blank_codes :: "nat list \<Rightarrow> bool" where
  "blank_codes [] = True"
| "blank_codes (a # s) =
     (if 9 \<le> a \<and> a \<le> 13 \<or> a = 32 then blank_codes s
      else (case s of
              [] \<Rightarrow> False
            | b # s' \<Rightarrow>
                if a = 0xC2 then (b = 0x85 \<or> b = 0xA0) \<and> blank_codes s'
                else (case s' of
                        [] \<Rightarrow> False
                      | c # s'' \<Rightarrow> wide_space a b c \<and> blank_codes s'')))"

definition blank :: "string \<Rightarrow> bool" where
  "blank s = blank_codes (map of_char s)"

definition starts_with :: "string \<Rightarrow> string \<Rightarrow> bool" where
  "starts_with p s \<longleftrightarrow> take (length p) s = p"

definition ascii_lower :: "char \<Rightarrow> char" where
  "ascii_lower c =
     (if 65 \<le> (of_char c :: nat) \<and> (of_char c :: nat) \<le> 90
      then char_of ((of_char c :: nat) + 32) else c)"

end
