(* ===== verification/Core_Types.thy ===== *)
theory Core_Types
  imports Prelude
begin

text \<open>
  The shared types of \<open>crates/devbridge-core\<close>: print jobs and their states (\<open>job.rs\<close>), the
  audit trail and the event emitter (\<open>job_event.rs\<close>), client registrations and pairing
  (\<open>client_registration.rs\<close>) and virtual printers (\<open>virtual_printer.rs\<close>). Rust scopes
  the variants of an enum by its name; here every constructor carries a prefix
  (\<open>JS_\<close> job state, \<open>PS_\<close> pipeline stage, \<open>Pair_\<close> pairing state) and every record field the
  prefix of its struct.
\<close>

section \<open>Print jobs\<close>

datatype JobState =
    JS_Queued | JS_Downloading | JS_Printing | JS_Completed | JS_Failed | JS_Cancelled
  | JS_Unconfirmed

datatype JobEvent =
    JE_Created string string "string option" string
      \<comment> \<open>job id, document name, requesting user, target printer\<close>
  | JE_StateChanged string JobState "string option"
      \<comment> \<open>job id, new state, requesting user\<close>

record JobMetadata =
  jm_job_id :: string
  jm_document_name :: string
  jm_target_printer :: string
  jm_target_client_id :: "string option"
  jm_copies :: u32
  jm_paper_size :: string
  jm_duplex :: bool
  jm_color :: bool
  jm_payload_size :: u64
  jm_payload_sha256 :: string
  jm_state :: JobState
  jm_retry_count :: u32
  jm_error_detail :: string
  jm_requesting_user :: "string option"
  jm_created_at :: instant
  jm_updated_at :: instant

text \<open>
  The states in which the server considers a job finished (issue 114): the printer may have
  printed it, so it is never sent again.
\<close>

fun finished :: "JobState \<Rightarrow> bool" where
  "finished JS_Completed = True"
| "finished JS_Cancelled = True"
| "finished JS_Unconfirmed = True"
| "finished _ = False"

section \<open>Audit trail\<close>

datatype PrintStage =
    PS_Received | PS_Routed | PS_Downloading | PS_Downloaded | PS_Rendering | PS_Rendered
  | PS_Sending | PS_Sent | PS_Verified | PS_Acknowledged | PS_Completed | PS_Failed
  | PS_Retrying | PS_Unconfirmed

record PrintJobEvent =
  ev_job_id :: string
  ev_requesting_user :: "string option"
  ev_stage :: PrintStage
  ev_success :: bool
  ev_detail :: string
  ev_verification_method :: string
  ev_verification_evidence :: string
  ev_timestamp :: instant

definition event_new :: "instant \<Rightarrow> string \<Rightarrow> PrintStage \<Rightarrow> bool \<Rightarrow> string \<Rightarrow> PrintJobEvent" where
  "event_new now job_id stage success detail =
     \<lparr>ev_job_id = job_id, ev_requesting_user = None, ev_stage = stage, ev_success = success,
      ev_detail = detail, ev_verification_method = [], ev_verification_evidence = [],
      ev_timestamp = now\<rparr>"

definition event_ok :: "instant \<Rightarrow> string \<Rightarrow> PrintStage \<Rightarrow> string \<Rightarrow> PrintJobEvent" where
  "event_ok now job_id stage detail = event_new now job_id stage True detail"

definition event_fail :: "instant \<Rightarrow> string \<Rightarrow> PrintStage \<Rightarrow> string \<Rightarrow> PrintJobEvent" where
  "event_fail now job_id stage detail = event_new now job_id stage False detail"

definition event_verified :: "instant \<Rightarrow> string \<Rightarrow> string \<Rightarrow> string \<Rightarrow> PrintJobEvent" where
  "event_verified now job_id meth evidence =
     \<lparr>ev_job_id = job_id, ev_requesting_user = None, ev_stage = PS_Verified,
      ev_success = True, ev_detail = evidence, ev_verification_method = meth,
      ev_verification_evidence = evidence, ev_timestamp = now\<rparr>"

text \<open>
  The event emitter of one job: the broadcast channel is the list of the events sent on it,
  oldest first; every clone of the emitter shares the two cells.
\<close>

record EventEmitter =
  em_sender :: "PrintJobEvent list"
  em_verification :: "string \<times> string"
  em_printer_accepted :: bool

definition emitter_new :: "EventEmitter" where
  "emitter_new = \<lparr>em_sender = [], em_verification = ([], []), em_printer_accepted = False\<rparr>"

definition emit :: "PrintJobEvent \<Rightarrow> EventEmitter \<Rightarrow> EventEmitter" where
  "emit ev em =
     (let em1 = (if ev_stage ev = PS_Acknowledged \<and> ev_success ev
                 then em\<lparr>em_printer_accepted := True\<rparr> else em);
          em2 = (if ev_stage ev = PS_Verified \<or> ev_verification_method ev \<noteq> []
                 then em1\<lparr>em_verification :=
                            (ev_verification_method ev, ev_verification_evidence ev)\<rparr>
                 else em1)
      in em2\<lparr>em_sender := em_sender em2 @ [ev]\<rparr>)"

definition emit_ok :: "instant \<Rightarrow> string \<Rightarrow> PrintStage \<Rightarrow> string \<Rightarrow> EventEmitter \<Rightarrow> EventEmitter" where
  "emit_ok now job_id stage detail = emit (event_ok now job_id stage detail)"

definition emit_fail :: "instant \<Rightarrow> string \<Rightarrow> PrintStage \<Rightarrow> string \<Rightarrow> EventEmitter \<Rightarrow> EventEmitter" where
  "emit_fail now job_id stage detail = emit (event_fail now job_id stage detail)"

definition emit_verified :: "instant \<Rightarrow> string \<Rightarrow> string \<Rightarrow> string \<Rightarrow> EventEmitter \<Rightarrow> EventEmitter" where
  "emit_verified now job_id meth evidence = emit (event_verified now job_id meth evidence)"

text \<open>
  The emitter after a list of events: the acceptance flag is exactly "some event was a
  successful acknowledgement", and the stored verification is that of the last event that
  carried one.
\<close>

definition accepts :: "PrintJobEvent \<Rightarrow> bool" where
  "accepts ev \<longleftrightarrow> ev_stage ev = PS_Acknowledged \<and> ev_success ev"

definition carries_verification :: "PrintJobEvent \<Rightarrow> bool" where
  "carries_verification ev \<longleftrightarrow> ev_stage ev = PS_Verified \<or> ev_verification_method ev \<noteq> []"

lemma emit_simps [simp]:
  "em_sender (emit ev em) = em_sender em @ [ev]"
  "em_printer_accepted (emit ev em) \<longleftrightarrow> em_printer_accepted em \<or> accepts ev"
  "em_verification (emit ev em) =
     (if carries_verification ev
      then (ev_verification_method ev, ev_verification_evidence ev) else em_verification em)"
  by (auto simp: emit_def accepts_def carries_verification_def Let_def)

lemma fold_emit_accepted:
  "em_printer_accepted (fold emit evs em) \<longleftrightarrow>
     em_printer_accepted em \<or> (\<exists>ev \<in> set evs. accepts ev)"
  by (induction evs arbitrary: em) auto

lemma fold_emit_verification:
  "em_verification (fold emit evs em) =
     (case filter carries_verification (rev evs) of
        [] \<Rightarrow> em_verification em
      | ev # _ \<Rightarrow> (ev_verification_method ev, ev_verification_evidence ev))"
  by (induction evs rule: rev_induct) auto

section \<open>Clients\<close>

datatype PairingState = Pair_Pending | Pair_Approved | Pair_Rejected

text \<open>\<open>impl fmt::Display for PairingState\<close>\<close>

fun pairing_text :: "PairingState \<Rightarrow> string" where
  "pairing_text Pair_Pending = ''pending''"
| "pairing_text Pair_Approved = ''approved''"
| "pairing_text Pair_Rejected = ''rejected''"

text \<open>
  \<open>to_lowercase\<close> maps no character outside ASCII to a letter of \<open>approved\<close> or \<open>rejected\<close>
  (only the Kelvin sign becomes an ASCII letter, \<open>k\<close>), so lower-casing the ASCII letters
  decides the same comparison.
\<close>

definition from_str_lossy :: "string \<Rightarrow> PairingState" where
  "from_str_lossy s =
     (let l = map ascii_lower s
      in if l = ''approved'' then Pair_Approved
         else if l = ''rejected'' then Pair_Rejected
         else Pair_Pending)"

record ClientRegistration =
  cr_machine_id :: string
  cr_hostname :: string
  cr_printer_names :: "string list"
  cr_client_version :: string
  cr_last_seen :: instant
  cr_is_online :: bool
  cr_pairing_state :: PairingState
  cr_virtual_printer_name :: "string option"
  cr_virtual_printer_driver :: "string option"

definition takes_default_queue :: "ClientRegistration \<Rightarrow> bool" where
  "takes_default_queue c =
     (case cr_virtual_printer_driver c of None \<Rightarrow> True | Some d \<Rightarrow> blank d)"

lemma from_str_lossy_text [simp]: "from_str_lossy (pairing_text p) = p"
  by (cases p) (simp_all add: from_str_lossy_def ascii_lower_def of_char_def char_of_def)

section \<open>Virtual printers\<close>

definition DEFAULT_WINDOWS_DRIVER :: string where
  "DEFAULT_WINDOWS_DRIVER = ''Microsoft IPP Class Driver''"

record VirtualPrinter =
  vp_id :: string
  vp_display_name :: string
  vp_ipp_name :: string
  vp_paired_client_id :: "string option"
  vp_driver :: "string option"
  vp_created_at :: instant
  vp_updated_at :: instant

definition effective_driver :: "VirtualPrinter \<Rightarrow> string" where
  "effective_driver vp =
     (case vp_driver vp of None \<Rightarrow> DEFAULT_WINDOWS_DRIVER | Some d \<Rightarrow> d)"

end
