(* ===== verification/Server_Storage.thy ===== *)
theory Server_Storage
  imports Core_Types
begin

text \<open>
  The SQLite storage of \<open>crates/devbridge-server/src/storage.rs\<close>: the tables \<open>jobs\<close>,
  \<open>virtual_printers\<close>, \<open>clients\<close> and \<open>job_events\<close> as lists of rows, one definition per
  method of \<open>Storage\<close>, the row conversions, and the schema migration of \<open>Storage::new\<close>.
  The \<open>state\<close> column is text, as in the database: a text this version cannot read is kept
  by every conditional update and is read as \<open>unconfirmed\<close>. The clock (\<open>Utc::now()\<close>) is an
  argument. The JSON text of \<open>clients.printer_names\<close> is represented by the list it denotes.
\<close>

section \<open>Rows\<close>

record job_row =
  jr_job_id :: string
  jr_document_name :: string
  jr_target_printer :: string
  jr_target_client_id :: "string option"
  jr_copies :: int
  jr_paper_size :: string
  jr_duplex :: int
  jr_color :: int
  jr_payload_size :: int
  jr_payload_sha256 :: string
  jr_state :: string
  jr_retry_count :: int
  jr_error_detail :: string
  jr_requesting_user :: "string option"
  jr_spool_path :: string
  jr_created_at :: instant
  jr_updated_at :: instant

record client_row =
  cw_machine_id :: string
  cw_hostname :: string
  cw_printer_names :: "string list"
  cw_client_version :: string
  cw_last_seen :: instant
  cw_is_online :: int
  cw_pairing_state :: string
  cw_virtual_printer_name :: "string option"
  cw_virtual_printer_driver :: "string option"

record event_row =
  ew_job_id :: string
  ew_stage :: string
  ew_success :: int
  ew_detail :: string
  ew_verification_method :: string
  ew_verification_evidence :: string
  ew_timestamp :: instant

text \<open>
  The database. Every column of \<open>virtual_printers\<close> is a field of \<open>VirtualPrinter\<close> of the same
  type, so its rows are those records. \<open>job_events.id\<close> is \<open>AUTOINCREMENT\<close>: its order is the
  order of the list.
\<close>

record store =
  st_jobs :: "job_row list"
  st_virtual_printers :: "VirtualPrinter list"
  st_clients :: "client_row list"
  st_job_events :: "event_row list"

section \<open>Conversions\<close>

fun state_to_str :: "JobState \<Rightarrow> string" where
  "state_to_str JS_Queued = ''queued''"
| "state_to_str JS_Downloading = ''downloading''"
| "state_to_str JS_Printing = ''printing''"
| "state_to_str JS_Completed = ''completed''"
| "state_to_str JS_Failed = ''failed''"
| "state_to_str JS_Cancelled = ''cancelled''"
| "state_to_str JS_Unconfirmed = ''unconfirmed''"

definition str_to_state :: "string \<Rightarrow> JobState" where
  "str_to_state s =
     (if s = ''queued'' then JS_Queued
      else if s = ''downloading'' then JS_Downloading
      else if s = ''printing'' then JS_Printing
      else if s = ''completed'' then JS_Completed
      else if s = ''failed'' then JS_Failed
      else if s = ''cancelled'' then JS_Cancelled
      else if s = ''unconfirmed'' then JS_Unconfirmed
      else JS_Unconfirmed)"

definition bool_to_int :: "bool \<Rightarrow> int" where
  "bool_to_int b = (if b then 1 else 0)"

text \<open>The parameters bound by \<open>insert_job\<close>: \<open>as i32\<close>, \<open>as i64\<close> of each field.\<close>

definition job_to_row :: "JobMetadata \<Rightarrow> string \<Rightarrow> job_row" where
  "job_to_row m spool_path =
     \<lparr>jr_job_id = jm_job_id m, jr_document_name = jm_document_name m,
      jr_target_printer = jm_target_printer m, jr_target_client_id = jm_target_client_id m,
      jr_copies = uint (jm_copies m), jr_paper_size = jm_paper_size m,
      jr_duplex = bool_to_int (jm_duplex m), jr_color = bool_to_int (jm_color m),
      jr_payload_size = sint (jm_payload_size m), jr_payload_sha256 = jm_payload_sha256 m,
      jr_state = state_to_str (jm_state m), jr_retry_count = uint (jm_retry_count m),
      jr_error_detail = jm_error_detail m, jr_requesting_user = jm_requesting_user m,
      jr_spool_path = spool_path, jr_created_at = jm_created_at m,
      jr_updated_at = jm_updated_at m\<rparr>"

text \<open>\<open>row.get("copies")?\<close> reads a \<open>u32\<close> and refuses a value outside its range.\<close>

definition row_to_job :: "job_row \<Rightarrow> err + JobMetadata" where
  "row_to_job r =
     (if 0 \<le> jr_copies r \<and> jr_copies r < 2 ^ 32
      then Inr \<lparr>jm_job_id = jr_job_id r, jm_document_name = jr_document_name r,
                jm_target_printer = jr_target_printer r,
                jm_target_client_id = jr_target_client_id r,
                jm_copies = word_of_int (jr_copies r), jm_paper_size = jr_paper_size r,
                jm_duplex = (jr_duplex r \<noteq> 0), jm_color = (jr_color r \<noteq> 0),
                jm_payload_size = word_of_int (jr_payload_size r),
                jm_payload_sha256 = jr_payload_sha256 r, jm_state = str_to_state (jr_state r),
                jm_retry_count = word_of_int (jr_retry_count r),
                jm_error_detail = jr_error_detail r, jm_requesting_user = jr_requesting_user r,
                jm_created_at = jr_created_at r, jm_updated_at = jr_updated_at r\<rparr>
      else Inl (FromSqlErr ''copies''))"

text \<open>The serde name of a stage, and the lossy reading back (\<open>unwrap_or(Failed)\<close>).\<close>

fun stage_text :: "PrintStage \<Rightarrow> string" where
  "stage_text PS_Received = ''received''"
| "stage_text PS_Routed = ''routed''"
| "stage_text PS_Downloading = ''downloading''"
| "stage_text PS_Downloaded = ''downloaded''"
| "stage_text PS_Rendering = ''rendering''"
| "stage_text PS_Rendered = ''rendered''"
| "stage_text PS_Sending = ''sending''"
| "stage_text PS_Sent = ''sent''"
| "stage_text PS_Verified = ''verified''"
| "stage_text PS_Acknowledged = ''acknowledged''"
| "stage_text PS_Completed = ''completed''"
| "stage_text PS_Failed = ''failed''"
| "stage_text PS_Retrying = ''retrying''"
| "stage_text PS_Unconfirmed = ''unconfirmed''"

definition all_stages :: "PrintStage list" where
  "all_stages = [PS_Received, PS_Routed, PS_Downloading, PS_Downloaded, PS_Rendering,
     PS_Rendered, PS_Sending, PS_Sent, PS_Verified, PS_Acknowledged, PS_Completed, PS_Failed,
     PS_Retrying, PS_Unconfirmed]"

definition stage_of_text :: "string \<Rightarrow> PrintStage" where
  "stage_of_text s =
     (case find (\<lambda>p. stage_text p = s) all_stages of Some p \<Rightarrow> p | None \<Rightarrow> PS_Failed)"

definition event_to_row :: "PrintJobEvent \<Rightarrow> event_row" where
  "event_to_row e =
     \<lparr>ew_job_id = ev_job_id e, ew_stage = stage_text (ev_stage e),
      ew_success = bool_to_int (ev_success e), ew_detail = ev_detail e,
      ew_verification_method = ev_verification_method e,
      ew_verification_evidence = ev_verification_evidence e, ew_timestamp = ev_timestamp e\<rparr>"

definition row_to_event :: "event_row \<Rightarrow> PrintJobEvent" where
  "row_to_event r =
     \<lparr>ev_job_id = ew_job_id r, ev_requesting_user = None,
      ev_stage = stage_of_text (ew_stage r), ev_success = (ew_success r \<noteq> 0),
      ev_detail = ew_detail r, ev_verification_method = ew_verification_method r,
      ev_verification_evidence = ew_verification_evidence r, ev_timestamp = ew_timestamp r\<rparr>"

definition client_to_row :: "ClientRegistration \<Rightarrow> client_row" where
  "client_to_row c =
     \<lparr>cw_machine_id = cr_machine_id c, cw_hostname = cr_hostname c,
      cw_printer_names = cr_printer_names c, cw_client_version = cr_client_version c,
      cw_last_seen = cr_last_seen c, cw_is_online = bool_to_int (cr_is_online c),
      cw_pairing_state = pairing_text (cr_pairing_state c),
      cw_virtual_printer_name = cr_virtual_printer_name c,
      cw_virtual_printer_driver = cr_virtual_printer_driver c\<rparr>"

definition row_to_client :: "client_row \<Rightarrow> ClientRegistration" where
  "row_to_client r =
     \<lparr>cr_machine_id = cw_machine_id r, cr_hostname = cw_hostname r,
      cr_printer_names = cw_printer_names r, cr_client_version = cw_client_version r,
      cr_last_seen = cw_last_seen r, cr_is_online = (cw_is_online r \<noteq> 0),
      cr_pairing_state = from_str_lossy (cw_pairing_state r),
      cr_virtual_printer_name = cw_virtual_printer_name r,
      cr_virtual_printer_driver = cw_virtual_printer_driver r\<rparr>"

section \<open>Jobs\<close>

text \<open>\<open>INSERT ... ON CONFLICT(job_id) DO UPDATE\<close> of the mutable columns only.\<close>

definition upsert_job_row :: "job_row \<Rightarrow> job_row list \<Rightarrow> job_row list" where
  "upsert_job_row row t =
     (if row_of jr_job_id (jr_job_id row) t = None then t @ [row]
      else upd_where (\<lambda>r. jr_job_id r = jr_job_id row)
             (\<lambda>r. r\<lparr>jr_state := jr_state row, jr_retry_count := jr_retry_count row,
                    jr_error_detail := jr_error_detail row,
                    jr_updated_at := jr_updated_at row\<rparr>) t)"

definition insert_job :: "JobMetadata \<Rightarrow> string \<Rightarrow> (store conn, unit) op" where
  "insert_job m spool_path =
     sql (\<lambda>d. (Inr (), d\<lparr>st_jobs := upsert_job_row (job_to_row m spool_path) (st_jobs d)\<rparr>))"

text \<open>\<open>UPDATE jobs SET ... WHERE ...\<close>, answering the number of rows changed.\<close>

definition update_jobs :: "(job_row \<Rightarrow> bool) \<Rightarrow> (job_row \<Rightarrow> job_row) \<Rightarrow> (store conn, nat) op" where
  "update_jobs P f =
     sql (\<lambda>d. (Inr (count_where P (st_jobs d)), d\<lparr>st_jobs := upd_where P f (st_jobs d)\<rparr>))"

definition select_jobs :: "(job_row list \<Rightarrow> job_row list) \<Rightarrow> (store conn, JobMetadata list) op" where
  "select_jobs f = query (\<lambda>d. collect_results row_to_job (f (st_jobs d)))"

definition update_job_state :: "instant \<Rightarrow> string \<Rightarrow> JobState \<Rightarrow> (store conn, unit) op" where
  "update_job_state now job_id state =
     try_op (update_jobs (\<lambda>r. jr_job_id r = job_id)
               (\<lambda>r. r\<lparr>jr_state := state_to_str state, jr_updated_at := now\<rparr>))
       (\<lambda>rows. if rows = 0 then bail (NotFoundErr job_id) else ok ())"

text \<open>The states an update may still move (\<open>WHERE ... state IN (...)\<close>).\<close>

definition IN_PROGRESS :: "string list" where
  "IN_PROGRESS = [''queued'', ''downloading'', ''printing'', ''failed'']"

definition REQUEUABLE :: "string list" where
  "REQUEUABLE = [''failed'', ''downloading'', ''printing'']"

definition ACTIVE :: "string list" where
  "ACTIVE = [''downloading'', ''printing'']"

definition existing_state_text :: "string \<Rightarrow> (store conn, string) op" where
  "existing_state_text job_id =
     try_op (query (\<lambda>d. Inr (map_option jr_state (row_of jr_job_id job_id (st_jobs d)))))
       (\<lambda>x. case x of None \<Rightarrow> bail (NotFoundErr job_id) | Some s \<Rightarrow> ok s)"

definition update_job_state_unless_terminal ::
    "instant \<Rightarrow> string \<Rightarrow> JobState \<Rightarrow> (store conn, bool) op" where
  "update_job_state_unless_terminal now job_id state =
     try_op (update_jobs (\<lambda>r. jr_job_id r = job_id \<and> jr_state r \<in> set IN_PROGRESS)
               (\<lambda>r. r\<lparr>jr_state := state_to_str state, jr_updated_at := now\<rparr>))
       (\<lambda>rows. if rows = 0 then try_op (existing_state_text job_id) (\<lambda>_. ok False) else ok True)"

definition unconfirm_completed_job :: "instant \<Rightarrow> string \<Rightarrow> (store conn, bool) op" where
  "unconfirm_completed_job now job_id =
     try_op (update_jobs (\<lambda>r. jr_job_id r = job_id \<and> jr_state r = ''completed'')
               (\<lambda>r. r\<lparr>jr_state := ''unconfirmed'', jr_updated_at := now\<rparr>))
       (\<lambda>rows. ok (rows > 0))"

definition storage_requeue_job :: "instant \<Rightarrow> string \<Rightarrow> string \<Rightarrow> (store conn, bool) op" where
  "storage_requeue_job now job_id error_detail =
     try_op (update_jobs (\<lambda>r. jr_job_id r = job_id \<and> jr_state r \<in> set REQUEUABLE)
               (\<lambda>r. r\<lparr>jr_state := ''queued'', jr_retry_count := jr_retry_count r + 1,
                      jr_error_detail := error_detail, jr_updated_at := now\<rparr>))
       (\<lambda>rows. if rows = 0 then try_op (existing_state_text job_id) (\<lambda>_. ok False) else ok True)"

definition get_retriable_jobs :: "u32 \<Rightarrow> (store conn, JobMetadata list) op" where
  "get_retriable_jobs max_retries =
     select_jobs (\<lambda>t. sort_key jr_updated_at
       (filter (\<lambda>r. jr_state r = ''failed'' \<and> jr_retry_count r < uint max_retries) t))"

definition storage_get_stale_jobs :: "instant \<Rightarrow> (store conn, JobMetadata list) op" where
  "storage_get_stale_jobs older_than =
     select_jobs (\<lambda>t. sort_key jr_updated_at
       (filter (\<lambda>r. jr_state r \<in> set ACTIVE \<and> jr_updated_at r < older_than) t))"

definition set_job_target_client :: "string \<Rightarrow> string \<Rightarrow> (store conn, unit) op" where
  "set_job_target_client job_id client_id =
     try_op (update_jobs (\<lambda>r. jr_job_id r = job_id)
               (\<lambda>r. r\<lparr>jr_target_client_id := Some client_id\<rparr>)) (\<lambda>_. ok ())"

definition get_pending_jobs :: "(store conn, JobMetadata list) op" where
  "get_pending_jobs =
     select_jobs (\<lambda>t. sort_key jr_created_at (filter (\<lambda>r. jr_state r = ''queued'') t))"

definition storage_get_job :: "string \<Rightarrow> (store conn, JobMetadata option) op" where
  "storage_get_job job_id =
     query (\<lambda>d. case row_of jr_job_id job_id (st_jobs d) of
                  None \<Rightarrow> Inr None
                | Some r \<Rightarrow> (case row_to_job r of Inl e \<Rightarrow> Inl e | Inr m \<Rightarrow> Inr (Some m)))"

definition get_all_jobs :: "(store conn, JobMetadata list) op" where
  "get_all_jobs = select_jobs (\<lambda>t. sort_key (\<lambda>r. - jr_created_at r) t)"

definition get_queued_jobs_for_client :: "string \<Rightarrow> (store conn, JobMetadata list) op" where
  "get_queued_jobs_for_client client_id =
     select_jobs (\<lambda>t. sort_key jr_created_at
       (filter (\<lambda>r. jr_target_client_id r = Some client_id \<and> jr_state r = ''queued'') t))"

text \<open>\<open>date(created_at) = date('now')\<close>: the same UTC day.\<close>

definition utc_day :: "instant \<Rightarrow> int" where
  "utc_day t = t div (86400 * 10 ^ 9)"

definition count_jobs_today :: "instant \<Rightarrow> (store conn, nat) op" where
  "count_jobs_today now =
     query (\<lambda>d. Inr (count_where (\<lambda>r. utc_day (jr_created_at r) = utc_day now) (st_jobs d)))"

definition count_active_jobs :: "(store conn, nat) op" where
  "count_active_jobs = query (\<lambda>d. Inr (count_where (\<lambda>r. jr_state r \<in> set ACTIVE) (st_jobs d)))"

definition clear_jobs :: "(store conn, unit) op" where
  "clear_jobs =
     try_op (sql (\<lambda>d. (Inr (), d\<lparr>st_job_events := []\<rparr>)))
       (\<lambda>_. sql (\<lambda>d. (Inr (), d\<lparr>st_jobs := []\<rparr>)))"

definition get_spool_path :: "string \<Rightarrow> (store conn, string option) op" where
  "get_spool_path job_id =
     query (\<lambda>d. Inr (map_option jr_spool_path (row_of jr_job_id job_id (st_jobs d))))"

section \<open>Job events\<close>

definition insert_job_event :: "PrintJobEvent \<Rightarrow> (store conn, unit) op" where
  "insert_job_event ev =
     sql (\<lambda>d. (Inr (), d\<lparr>st_job_events := st_job_events d @ [event_to_row ev]\<rparr>))"

definition get_job_events :: "string \<Rightarrow> (store conn, PrintJobEvent list) op" where
  "get_job_events job_id =
     query (\<lambda>d. Inr (map row_to_event (filter (\<lambda>r. ew_job_id r = job_id) (st_job_events d))))"

text \<open>The grouping loop: \<open>map.entry(id).or_default().push(event)\<close>.\<close>

definition push_event ::
    "PrintJobEvent \<Rightarrow> (string \<Rightarrow> PrintJobEvent list option) \<Rightarrow> (string \<Rightarrow> PrintJobEvent list option)" where
  "push_event ev m =
     m(ev_job_id ev \<mapsto> (case m (ev_job_id ev) of None \<Rightarrow> [ev] | Some evs \<Rightarrow> evs @ [ev]))"

definition get_all_job_events ::
    "(store conn, string \<Rightarrow> PrintJobEvent list option) op" where
  "get_all_job_events =
     query (\<lambda>d. Inr (fold push_event (map row_to_event (st_job_events d)) Map.empty))"

text \<open>
  Client start-up recovery: one transaction that fails every in-flight job and records a
  \<open>failed\<close> event for each. Beginning and committing are statements of their own.
\<close>

definition begin_tx :: "(store conn, unit) op" where
  "begin_tx = sql (\<lambda>d. (Inr (), d))"

definition commit_tx :: "(store conn, unit) op" where
  "commit_tx = sql (\<lambda>d. (Inr (), d))"

definition fail_interrupted_jobs :: "instant \<Rightarrow> string \<Rightarrow> (store conn, nat) op" where
  "fail_interrupted_jobs now reason =
     transaction
       (try_op begin_tx (\<lambda>_.
        try_op (query (\<lambda>d. Inr (map jr_job_id (sort_key jr_created_at
                  (filter (\<lambda>r. jr_state r \<in> set ACTIVE) (st_jobs d))))))
          (\<lambda>job_ids.
             if job_ids = [] then ok 0
             else try_op (update_jobs (\<lambda>r. jr_state r \<in> set ACTIVE)
                            (\<lambda>r. r\<lparr>jr_state := ''failed'', jr_error_detail := reason,
                                   jr_updated_at := now\<rparr>))
                    (\<lambda>rows. try_op (for_op job_ids (\<lambda>job_id.
                              insert_job_event (event_new now job_id PS_Failed False reason)))
                      (\<lambda>_. try_op commit_tx (\<lambda>_. ok rows))))))"

section \<open>Virtual printers\<close>

definition insert_virtual_printer :: "VirtualPrinter \<Rightarrow> (store conn, unit) op" where
  "insert_virtual_printer vp =
     sql (\<lambda>d. if vp_id vp \<in> vp_id ` set (st_virtual_printers d)
                 \<or> vp_ipp_name vp \<in> vp_ipp_name ` set (st_virtual_printers d)
              then (Inl (ConstraintErr ''virtual_printers''), d)
              else (Inr (), d\<lparr>st_virtual_printers := st_virtual_printers d @ [vp]\<rparr>))"

definition get_virtual_printer :: "string \<Rightarrow> (store conn, VirtualPrinter option) op" where
  "get_virtual_printer i = query (\<lambda>d. Inr (row_of vp_id i (st_virtual_printers d)))"

definition get_virtual_printer_by_ipp_name ::
    "string \<Rightarrow> (store conn, VirtualPrinter option) op" where
  "get_virtual_printer_by_ipp_name ipp_name =
     query (\<lambda>d. Inr (row_of vp_ipp_name ipp_name (st_virtual_printers d)))"

definition list_virtual_printers :: "(store conn, VirtualPrinter list) op" where
  "list_virtual_printers = query (\<lambda>d. Inr (sort_key vp_created_at (st_virtual_printers d)))"

definition update_virtual_printer :: "instant \<Rightarrow> VirtualPrinter \<Rightarrow> (store conn, unit) op" where
  "update_virtual_printer now vp =
     try_op
       (sql (\<lambda>d. let t = st_virtual_printers d; P = (\<lambda>r. vp_id r = vp_id vp)
                 in if (\<exists>r \<in> set t. P r) \<and>
                       (\<exists>r \<in> set t. \<not> P r \<and> vp_ipp_name r = vp_ipp_name vp)
                    then (Inl (ConstraintErr ''virtual_printers.ipp_name''), d)
                    else (Inr (count_where P t),
                          d\<lparr>st_virtual_printers := upd_where P
                             (\<lambda>r. r\<lparr>vp_display_name := vp_display_name vp,
                                    vp_ipp_name := vp_ipp_name vp,
                                    vp_paired_client_id := vp_paired_client_id vp,
                                    vp_driver := vp_driver vp, vp_updated_at := now\<rparr>) t\<rparr>)))
       (\<lambda>rows. if rows = 0 then bail (NotFoundErr (vp_id vp)) else ok ())"

definition delete_virtual_printer :: "string \<Rightarrow> (store conn, unit) op" where
  "delete_virtual_printer i =
     try_op
       (sql (\<lambda>d. (Inr (count_where (\<lambda>r. vp_id r = i) (st_virtual_printers d)),
                  d\<lparr>st_virtual_printers :=
                      delete_where (\<lambda>r. vp_id r = i) (st_virtual_printers d)\<rparr>)))
       (\<lambda>rows. if rows = 0 then bail (NotFoundErr i) else ok ())"

section \<open>Clients\<close>

definition coalesce :: "'a option \<Rightarrow> 'a option \<Rightarrow> 'a option" where
  "coalesce a b = (case a of None \<Rightarrow> b | Some _ \<Rightarrow> a)"

text \<open>The upsert leaves \<open>pairing_state\<close> of an existing row alone.\<close>

definition upsert_client_row :: "client_row \<Rightarrow> client_row list \<Rightarrow> client_row list" where
  "upsert_client_row row t =
     (if row_of cw_machine_id (cw_machine_id row) t = None then t @ [row]
      else upd_where (\<lambda>r. cw_machine_id r = cw_machine_id row)
             (\<lambda>r. r\<lparr>cw_hostname := cw_hostname row, cw_printer_names := cw_printer_names row,
                    cw_client_version := cw_client_version row,
                    cw_last_seen := cw_last_seen row, cw_is_online := cw_is_online row,
                    cw_virtual_printer_name :=
                      coalesce (cw_virtual_printer_name row) (cw_virtual_printer_name r),
                    cw_virtual_printer_driver :=
                      coalesce (cw_virtual_printer_driver row) (cw_virtual_printer_driver r)\<rparr>) t)"

definition upsert_client :: "ClientRegistration \<Rightarrow> (store conn, unit) op" where
  "upsert_client reg =
     sql (\<lambda>d. (Inr (), d\<lparr>st_clients := upsert_client_row (client_to_row reg) (st_clients d)\<rparr>))"

definition list_clients :: "(store conn, ClientRegistration list) op" where
  "list_clients =
     query (\<lambda>d. Inr (map row_to_client (sort_key (\<lambda>r. - cw_last_seen r) (st_clients d))))"

definition update_clients ::
    "(client_row \<Rightarrow> bool) \<Rightarrow> (client_row \<Rightarrow> client_row) \<Rightarrow> (store conn, nat) op" where
  "update_clients P f =
     sql (\<lambda>d. (Inr (count_where P (st_clients d)),
               d\<lparr>st_clients := upd_where P f (st_clients d)\<rparr>))"

definition set_client_online :: "instant \<Rightarrow> string \<Rightarrow> bool \<Rightarrow> (store conn, unit) op" where
  "set_client_online now machine_id online =
     try_op (update_clients (\<lambda>r. cw_machine_id r = machine_id)
               (\<lambda>r. r\<lparr>cw_is_online := bool_to_int online, cw_last_seen := now\<rparr>)) (\<lambda>_. ok ())"

definition touch_client :: "instant \<Rightarrow> string \<Rightarrow> (store conn, unit) op" where
  "touch_client now machine_id =
     try_op (update_clients (\<lambda>r. cw_machine_id r = machine_id)
               (\<lambda>r. r\<lparr>cw_last_seen := now, cw_is_online := 1\<rparr>)) (\<lambda>_. ok ())"

definition set_all_clients_offline :: "(store conn, unit) op" where
  "set_all_clients_offline =
     try_op (update_clients (\<lambda>_. True) (\<lambda>r. r\<lparr>cw_is_online := 0\<rparr>)) (\<lambda>_. ok ())"

definition get_client :: "string \<Rightarrow> (store conn, ClientRegistration option) op" where
  "get_client machine_id =
     query (\<lambda>d. Inr (map_option row_to_client (row_of cw_machine_id machine_id (st_clients d))))"

definition update_pairing_state :: "string \<Rightarrow> PairingState \<Rightarrow> (store conn, unit) op" where
  "update_pairing_state machine_id state =
     try_op (update_clients (\<lambda>r. cw_machine_id r = machine_id)
               (\<lambda>r. r\<lparr>cw_pairing_state := pairing_text state\<rparr>))
       (\<lambda>rows. if rows = 0 then bail (NotFoundErr machine_id) else ok ())"

section \<open>Round trips\<close>

lemma str_to_state_to_str [simp]: "str_to_state (state_to_str s) = s"
  by (cases s) (simp_all add: str_to_state_def)

lemma str_to_state_literals [simp]:
  "str_to_state ''queued'' = JS_Queued" "str_to_state ''downloading'' = JS_Downloading"
  "str_to_state ''printing'' = JS_Printing" "str_to_state ''completed'' = JS_Completed"
  "str_to_state ''failed'' = JS_Failed" "str_to_state ''cancelled'' = JS_Cancelled"
  "str_to_state ''unconfirmed'' = JS_Unconfirmed"
  by (simp_all add: str_to_state_def)

lemma bool_to_int_0 [simp]: "bool_to_int b = 0 \<longleftrightarrow> \<not> b"
  by (simp add: bool_to_int_def)

lemma stage_of_text_text [simp]: "stage_of_text (stage_text p) = p"
  by (cases p) (simp_all add: stage_of_text_def all_stages_def)

text \<open>What a text means to the conditional updates is what the reader makes of it.\<close>

lemma in_progress_iff: "s \<in> set IN_PROGRESS \<longleftrightarrow> \<not> finished (str_to_state s)"
  by (simp add: IN_PROGRESS_def str_to_state_def)

lemma in_progress_text [simp]: "state_to_str s \<in> set IN_PROGRESS \<longleftrightarrow> \<not> finished s"
  by (simp add: in_progress_iff)

lemma requeuable_in_progress: "s \<in> set REQUEUABLE \<Longrightarrow> s \<in> set IN_PROGRESS"
  by (auto simp: REQUEUABLE_def IN_PROGRESS_def)

lemma active_in_progress: "s \<in> set ACTIVE \<Longrightarrow> s \<in> set IN_PROGRESS"
  by (auto simp: ACTIVE_def IN_PROGRESS_def)

lemma queued_text_iff: "str_to_state s = JS_Queued \<longleftrightarrow> s = ''queued''"
  by (simp add: str_to_state_def)

lemma row_to_job_job_to_row: "row_to_job (job_to_row m spool_path) = Inr m"
proof -
  have "uint (jm_copies m) < 2 ^ 32" using uint_lt2p [of "jm_copies m"] by simp
  then show ?thesis by (simp add: row_to_job_def job_to_row_def)
qed

lemma row_to_client_client_to_row: "row_to_client (client_to_row c) = c"
  by (simp add: row_to_client_def client_to_row_def)

lemma row_to_event_event_to_row:
  "row_to_event (event_to_row e) = e\<lparr>ev_requesting_user := None\<rparr>"
  by (simp add: row_to_event_def event_to_row_def)

section \<open>Well-formed databases\<close>

text \<open>
  The constraints of the schema (primary keys, the unique IPP name) and that every job row
  can be read back.
\<close>

definition readable :: "job_row \<Rightarrow> bool" where
  "readable r \<longleftrightarrow> 0 \<le> jr_copies r \<and> jr_copies r < 2 ^ 32"

definition store_wf :: "store \<Rightarrow> bool" where
  "store_wf d \<longleftrightarrow>
     keyed jr_job_id (st_jobs d) \<and> (\<forall>r \<in> set (st_jobs d). readable r) \<and>
     keyed vp_id (st_virtual_printers d) \<and> keyed vp_ipp_name (st_virtual_printers d) \<and>
     keyed cw_machine_id (st_clients d)"

definition empty_store :: store where
  "empty_store = \<lparr>st_jobs = [], st_virtual_printers = [], st_clients = [], st_job_events = []\<rparr>"

lemma store_wf_empty: "store_wf empty_store"
  by (simp add: store_wf_def empty_store_def)

interpretation wf: invariant "\<lambda>c :: store conn. store_wf (cn_db c)" .

named_theorems wf_keeps "operations that keep the database well-formed"

lemma keyed_upsert:
  assumes "keyed key t" and "\<And>r. key (f r) = key r"
  shows "keyed key (if row_of key (key row) t = None then t @ [row]
                    else upd_where (\<lambda>r. key r = key row) f t)"
  using assms by (simp add: keyed_snoc row_of_None_iff keyed_upd_where)

lemma readable_job_to_row: "readable (job_to_row m spool_path)"
  using uint_lt2p [of "jm_copies m"] by (simp add: readable_def job_to_row_def)

lemma keyed_upsert_job_row:
  "keyed jr_job_id t \<Longrightarrow> keyed jr_job_id (upsert_job_row row t)"
  unfolding upsert_job_row_def by (rule keyed_upsert) simp_all

lemma readable_upsert_job_row:
  "\<forall>r \<in> set t. readable r \<Longrightarrow> readable row \<Longrightarrow> r \<in> set (upsert_job_row row t) \<Longrightarrow> readable r"
  by (auto simp: upsert_job_row_def set_upd_where readable_def split: if_splits)

lemma wf_insert_job [wf_keeps]:
  "moves (\<lambda>c c'. store_wf (cn_db c) \<longrightarrow> store_wf (cn_db c')) (insert_job m spool_path)"
  unfolding insert_job_def
  by (rule keeps_sql)
    (auto simp: store_wf_def keyed_upsert_job_row intro: readable_upsert_job_row
       [OF _ readable_job_to_row])

lemma wf_update_jobs [wf_keeps]:
  assumes "\<And>r. jr_job_id (f r) = jr_job_id r" and "\<And>r. jr_copies (f r) = jr_copies r"
  shows "moves (\<lambda>c c'. store_wf (cn_db c) \<longrightarrow> store_wf (cn_db c')) (update_jobs P f)"
  unfolding update_jobs_def
  by (rule keeps_sql)
    (use assms in \<open>auto simp: store_wf_def keyed_upd_where readable_def set_upd_where\<close>)

lemma wf_update_clients [wf_keeps]:
  assumes "\<And>r. cw_machine_id (f r) = cw_machine_id r"
  shows "moves (\<lambda>c c'. store_wf (cn_db c) \<longrightarrow> store_wf (cn_db c')) (update_clients P f)"
  unfolding update_clients_def
  by (rule keeps_sql) (use assms in \<open>auto simp: store_wf_def keyed_upd_where\<close>)

lemma wf_query [wf_keeps]:
  "moves (\<lambda>c c'. store_wf (cn_db c) \<longrightarrow> store_wf (cn_db c')) (query f)"
  by (rule keeps_query)

lemma wf_insert_job_event [wf_keeps]:
  "moves (\<lambda>c c'. store_wf (cn_db c) \<longrightarrow> store_wf (cn_db c')) (insert_job_event ev)"
  unfolding insert_job_event_def by (rule keeps_sql) (auto simp: store_wf_def)

lemma wf_clear_jobs [wf_keeps]:
  "moves (\<lambda>c c'. store_wf (cn_db c) \<longrightarrow> store_wf (cn_db c')) clear_jobs"
  unfolding clear_jobs_def
  by (intro wf.inv.moves_rules keeps_sql) (auto simp: store_wf_def)

lemma wf_upsert_client [wf_keeps]:
  "moves (\<lambda>c c'. store_wf (cn_db c) \<longrightarrow> store_wf (cn_db c')) (upsert_client reg)"
  unfolding upsert_client_def
  by (rule keeps_sql)
    (auto simp: store_wf_def upsert_client_row_def keyed_snoc row_of_None_iff keyed_upd_where)

lemma keyed_unique_upd:
  assumes "keyed vp_id t" and "keyed vp_ipp_name t"
    and "\<not> (\<exists>r \<in> set t. vp_id r \<noteq> i \<and> vp_ipp_name r = n)"
    and "\<And>r. vp_id (f r) = vp_id r" and "\<And>r. vp_ipp_name (f r) = n"
  shows "keyed vp_ipp_name (upd_where (\<lambda>r. vp_id r = i) f t)"
  using assms
proof (induction t)
  case Nil
  then show ?case by simp
next
  case (Cons r t)
  have "keyed vp_ipp_name (upd_where (\<lambda>r. vp_id r = i) f t)"
    using Cons by (auto simp: keyed_def)
  moreover have "n \<notin> vp_ipp_name ` set (upd_where (\<lambda>r. vp_id r = i) f t)" if "vp_id r = i"
    using Cons.prems that by (auto simp: keyed_def set_upd_where) (metis image_eqI)
  moreover have "vp_ipp_name r \<notin> vp_ipp_name ` set (upd_where (\<lambda>r. vp_id r = i) f t)"
    if "vp_id r \<noteq> i"
    using Cons.prems that by (auto simp: keyed_def set_upd_where)
  ultimately show ?case
    using assms(5) by (auto simp: keyed_def)
qed

lemma wf_insert_virtual_printer [wf_keeps]:
  "moves (\<lambda>c c'. store_wf (cn_db c) \<longrightarrow> store_wf (cn_db c')) (insert_virtual_printer vp)"
  unfolding insert_virtual_printer_def
  by (rule keeps_sql) (auto simp: store_wf_def keyed_snoc split: if_splits)

lemma wf_update_virtual_printer [wf_keeps]:
  "moves (\<lambda>c c'. store_wf (cn_db c) \<longrightarrow> store_wf (cn_db c')) (update_virtual_printer now vp)"
  unfolding update_virtual_printer_def
proof (intro wf.inv.moves_rules keeps_sql)
  fix d :: store and r d'
  let ?t = "st_virtual_printers d" and ?P = "\<lambda>r. vp_id r = vp_id vp"
  assume wf: "store_wf d"
    and step: "(let t = ?t; P = ?P
        in if (\<exists>r \<in> set t. P r) \<and> (\<exists>r \<in> set t. \<not> P r \<and> vp_ipp_name r = vp_ipp_name vp)
           then (Inl (ConstraintErr ''virtual_printers.ipp_name''), d)
           else (Inr (count_where P t),
                 d\<lparr>st_virtual_printers := upd_where P
                     (\<lambda>r. r\<lparr>vp_display_name := vp_display_name vp,
                            vp_ipp_name := vp_ipp_name vp,
                            vp_paired_client_id := vp_paired_client_id vp,
                            vp_driver := vp_driver vp, vp_updated_at := now\<rparr>) t\<rparr>)) = (Inr r, d')"
  show "store_wf d'"
  proof (cases "\<exists>r \<in> set ?t. ?P r")
    case True
    with step have free: "\<not> (\<exists>r \<in> set ?t. \<not> ?P r \<and> vp_ipp_name r = vp_ipp_name vp)"
      by (auto simp: Let_def split: if_splits)
    with step have d': "d' = d\<lparr>st_virtual_printers := upd_where ?P
                     (\<lambda>r. r\<lparr>vp_display_name := vp_display_name vp,
                            vp_ipp_name := vp_ipp_name vp,
                            vp_paired_client_id := vp_paired_client_id vp,
                            vp_driver := vp_driver vp, vp_updated_at := now\<rparr>) ?t\<rparr>"
      by (auto simp: Let_def)
    show ?thesis
      using wf free unfolding d'
      by (auto simp: store_wf_def keyed_upd_where intro: keyed_unique_upd)
  next
    case False
    then have "upd_where ?P f ?t = ?t" for f
      by (induction ?t) (auto simp: upd_where_def map_idI)
    with step False have "d' = d"
      by (auto simp: Let_def)
    with wf show ?thesis by simp
  qed
qed

lemma wf_delete_virtual_printer [wf_keeps]:
  "moves (\<lambda>c c'. store_wf (cn_db c) \<longrightarrow> store_wf (cn_db c')) (delete_virtual_printer i)"
  unfolding delete_virtual_printer_def
  by (intro wf.inv.moves_rules keeps_sql) (auto simp: store_wf_def keyed_delete_where)

section \<open>Finished jobs stay finished\<close>

text \<open>
  A job is closed when it has no row or its state text is none of the four that a
  conditional update may still move. Every operation of the storage keeps a closed job
  closed, except an unconditional write of an open state and an upsert of that very job.
\<close>

definition job_closed :: "string \<Rightarrow> store \<Rightarrow> bool" where
  "job_closed k d \<longleftrightarrow>
     (case row_of jr_job_id k (st_jobs d) of None \<Rightarrow> True | Some r \<Rightarrow> jr_state r \<notin> set IN_PROGRESS)"

interpretation closed: invariant "\<lambda>c :: store conn. job_closed k (cn_db c)" for k .

named_theorems closed_keeps "operations that keep a closed job closed"

lemma closed_same_jobs: "st_jobs d' = st_jobs d \<Longrightarrow> job_closed k d' = job_closed k d"
  by (simp add: job_closed_def)

lemma closed_insert_job:
  assumes "jm_job_id m \<noteq> k"
  shows "moves (\<lambda>c c'. job_closed k (cn_db c) \<longrightarrow> job_closed k (cn_db c')) (insert_job m spool_path)"
  unfolding insert_job_def
proof (rule keeps_sql)
  fix d :: store and r d'
  let ?row = "job_to_row m spool_path"
  assume "job_closed k d"
    and "(Inr (), d\<lparr>st_jobs := upsert_job_row ?row (st_jobs d)\<rparr>) = (Inr r :: err + unit, d')"
  moreover have "row_of jr_job_id k (upsert_job_row ?row (st_jobs d)) = row_of jr_job_id k (st_jobs d)"
    using assms
    by (auto simp: upsert_job_row_def job_to_row_def row_of_append row_of_upd_where
        split: option.splits dest: row_of_SomeD)
  ultimately show "job_closed k d'"
    by (auto simp: job_closed_def)
qed

lemma closed_update_jobs:
  assumes "\<And>r. jr_job_id (f r) = jr_job_id r"
    and "\<And>r. P r \<Longrightarrow> jr_state r \<notin> set IN_PROGRESS \<Longrightarrow> jr_state (f r) \<notin> set IN_PROGRESS"
  shows "moves (\<lambda>c c'. job_closed k (cn_db c) \<longrightarrow> job_closed k (cn_db c')) (update_jobs P f)"
  unfolding update_jobs_def
  by (rule keeps_sql)
    (use assms in \<open>auto simp: job_closed_def row_of_upd_where split: option.splits\<close>)

lemma closed_query [closed_keeps]:
  "moves (\<lambda>c c'. job_closed k (cn_db c) \<longrightarrow> job_closed k (cn_db c')) (query f)"
  by (rule keeps_query)

lemma closed_update_job_state:
  assumes "finished s"
  shows "moves (\<lambda>c c'. job_closed k (cn_db c) \<longrightarrow> job_closed k (cn_db c')) (update_job_state now i s)"
  unfolding update_job_state_def
  by (intro closed.inv.moves_rules closed_update_jobs) (use assms in auto)

lemma closed_update_unless_terminal [closed_keeps]:
  "moves (\<lambda>c c'. job_closed k (cn_db c) \<longrightarrow> job_closed k (cn_db c'))
     (update_job_state_unless_terminal now i s)"
  unfolding update_job_state_unless_terminal_def existing_state_text_def
  by (intro closed.inv.moves_rules closed_update_jobs closed_keeps) auto

lemma closed_unconfirm [closed_keeps]:
  "moves (\<lambda>c c'. job_closed k (cn_db c) \<longrightarrow> job_closed k (cn_db c')) (unconfirm_completed_job now i)"
  unfolding unconfirm_completed_job_def
  by (intro closed.inv.moves_rules closed_update_jobs) (auto simp: IN_PROGRESS_def)

lemma closed_requeue [closed_keeps]:
  "moves (\<lambda>c c'. job_closed k (cn_db c) \<longrightarrow> job_closed k (cn_db c'))
     (storage_requeue_job now i detail)"
  unfolding storage_requeue_job_def existing_state_text_def
  by (intro closed.inv.moves_rules closed_update_jobs closed_keeps)
    (auto dest: requeuable_in_progress)

lemma closed_set_target [closed_keeps]:
  "moves (\<lambda>c c'. job_closed k (cn_db c) \<longrightarrow> job_closed k (cn_db c')) (set_job_target_client i cl)"
  unfolding set_job_target_client_def
  by (intro closed.inv.moves_rules closed_update_jobs) auto

lemma closed_clear_jobs [closed_keeps]:
  "moves (\<lambda>c c'. job_closed k (cn_db c) \<longrightarrow> job_closed k (cn_db c')) clear_jobs"
  unfolding clear_jobs_def
  by (intro closed.inv.moves_rules keeps_sql) (auto simp: job_closed_def)

lemma closed_insert_job_event [closed_keeps]:
  "moves (\<lambda>c c'. job_closed k (cn_db c) \<longrightarrow> job_closed k (cn_db c')) (insert_job_event ev)"
  unfolding insert_job_event_def by (rule keeps_sql) (auto simp: job_closed_def)

lemma closed_fail_interrupted [closed_keeps]:
  "moves (\<lambda>c c'. job_closed k (cn_db c) \<longrightarrow> job_closed k (cn_db c')) (fail_interrupted_jobs now reason)"
  unfolding fail_interrupted_jobs_def begin_tx_def commit_tx_def
  by (intro keeps_transaction closed.inv.moves_rules closed_update_jobs closed_keeps keeps_sql)
    (auto dest: active_in_progress)

lemma closed_update_clients [closed_keeps]:
  "moves (\<lambda>c c'. job_closed k (cn_db c) \<longrightarrow> job_closed k (cn_db c')) (update_clients P f)"
  unfolding update_clients_def by (rule keeps_sql) (auto simp: job_closed_def)

lemma closed_upsert_client [closed_keeps]:
  "moves (\<lambda>c c'. job_closed k (cn_db c) \<longrightarrow> job_closed k (cn_db c')) (upsert_client reg)"
  unfolding upsert_client_def by (rule keeps_sql) (auto simp: job_closed_def)

section \<open>The job board: an abstract contract for the job table\<close>

text \<open>
  What the queue relies on: a map from job ids to the state and the retry count, and four
  commands on it. A command answers \<open>None\<close> for "no such job", otherwise whether it changed
  the job.
\<close>

type_synonym board = "string \<Rightarrow> (JobState \<times> int) option"

datatype board_cmd = B_Set JobState | B_SetUnlessTerminal JobState | B_Requeue | B_UnconfirmCompleted

fun board_step :: "board_cmd \<Rightarrow> string \<Rightarrow> board \<Rightarrow> bool option \<times> board" where
  "board_step (B_Set s) k b =
     (case b k of None \<Rightarrow> (None, b) | Some (_, n) \<Rightarrow> (Some True, b(k \<mapsto> (s, n))))"
| "board_step (B_SetUnlessTerminal s) k b =
     (case b k of None \<Rightarrow> (None, b)
      | Some (x, n) \<Rightarrow> if finished x then (Some False, b) else (Some True, b(k \<mapsto> (s, n))))"
| "board_step B_Requeue k b =
     (case b k of None \<Rightarrow> (None, b)
      | Some (x, n) \<Rightarrow> if x \<in> {JS_Failed, JS_Downloading, JS_Printing}
                     then (Some True, b(k \<mapsto> (JS_Queued, n + 1))) else (Some False, b))"
| "board_step B_UnconfirmCompleted k b =
     (case b k of None \<Rightarrow> (Some False, b)
      | Some (x, n) \<Rightarrow> if x = JS_Completed then (Some True, b(k \<mapsto> (JS_Unconfirmed, n)))
                     else (Some False, b))"

fun opens :: "board_cmd \<Rightarrow> bool" where
  "opens (B_Set s) = (\<not> finished s)"
| "opens _ = False"

locale job_board =
  fixes view :: "'d \<Rightarrow> board"
    and exec :: "board_cmd \<Rightarrow> string \<Rightarrow> 'd \<Rightarrow> 'd"
    and good :: "'d \<Rightarrow> bool"
  assumes exec_view: "good d \<Longrightarrow> view (exec c k d) = snd (board_step c k (view d))"
    and exec_good: "good d \<Longrightarrow> good (exec c k d)"
begin

lemma exec_other: "good d \<Longrightarrow> i \<noteq> k \<Longrightarrow> view (exec c k d) i = view d i"
  by (cases c) (auto simp: exec_view split: option.splits)

lemma exec_finished:
  "good d \<Longrightarrow> view d k = Some (x, n) \<Longrightarrow> finished x \<Longrightarrow> \<not> opens c \<Longrightarrow>
   \<exists>y. view (exec c k d) k = Some (y, n) \<and> finished y"
  by (cases c) (auto simp: exec_view)

text \<open>Any run of commands, on any jobs: a finished job stays finished, with its retry count.\<close>

lemma run_finished:
  assumes "good d" and "view d k = Some (x, n)" and "finished x"
    and "\<forall>(c, i) \<in> set cmds. i = k \<longrightarrow> \<not> opens c"
  shows "\<exists>y. view (fold (\<lambda>(c, i). exec c i) cmds d) k = Some (y, n) \<and> finished y"
  using assms
proof (induction cmds arbitrary: d x)
  case Nil
  then show ?case by auto
next
  case (Cons ci cmds)
  obtain c i where ci: "ci = (c, i)" by fastforce
  have "\<exists>y. view (exec c i d) k = Some (y, n) \<and> finished y"
  proof (cases "i = k")
    case True
    with Cons.prems ci show ?thesis by (auto intro: exec_finished)
  next
    case False
    with Cons.prems exec_other [of d k i c] show ?thesis by auto
  qed
  then obtain y where "view (exec c i d) k = Some (y, n)" and "finished y" by blast
  with Cons.IH [where d = "exec c i d" and x = y] exec_good [OF Cons.prems(1)] Cons.prems ci
  show ?case by auto
qed

text \<open>The retry count is the number of requeues that took effect.\<close>

lemma exec_retry:
  assumes "good d" and "view d k = Some (x, n)"
  shows "\<exists>y. view (exec c k d) k =
     Some (y, n + (if c = B_Requeue \<and> x \<in> {JS_Failed, JS_Downloading, JS_Printing} then 1 else 0))"
  using assms by (cases c) (auto simp: exec_view)

end

text \<open>The storage implements the board.\<close>

definition board_of :: "store \<Rightarrow> board" where
  "board_of d k = map_option (\<lambda>r. (str_to_state (jr_state r), jr_retry_count r))
                    (row_of jr_job_id k (st_jobs d))"

fun storage_cmd :: "instant \<Rightarrow> string \<Rightarrow> board_cmd \<Rightarrow> string \<Rightarrow> (store conn, bool) op" where
  "storage_cmd now detail (B_Set s) k = try_op (update_job_state now k s) (\<lambda>_. ok True)"
| "storage_cmd now detail (B_SetUnlessTerminal s) k = update_job_state_unless_terminal now k s"
| "storage_cmd now detail B_Requeue k = storage_requeue_job now k detail"
| "storage_cmd now detail B_UnconfirmCompleted k = unconfirm_completed_job now k"

lemma board_upd_where:
  assumes "\<And>r. jr_job_id (f r) = jr_job_id r"
  shows "board_of (d\<lparr>st_jobs := upd_where (\<lambda>r. jr_job_id r = k \<and> P r) f (st_jobs d)\<rparr>) =
    (case row_of jr_job_id k (st_jobs d) of
       None \<Rightarrow> board_of d
     | Some r \<Rightarrow> if P r then (board_of d)(k \<mapsto> (str_to_state (jr_state (f r)), jr_retry_count (f r)))
               else board_of d)"
  using assms by (auto simp: board_of_def row_of_upd_key fun_eq_iff split: option.splits)

lemmas board_upd_where' = board_upd_where [where P = "\<lambda>_. True", simplified]

lemma update_jobs_no_faults:
  "cn_faults c = [] \<Longrightarrow>
   update_jobs P f c =
     (Inr (count_where P (st_jobs (cn_db c))),
      c\<lparr>cn_db := (cn_db c)\<lparr>st_jobs := upd_where P f (st_jobs (cn_db c))\<rparr>\<rparr>)"
  by (simp add: update_jobs_def)

lemma upd_where_none:
  "\<forall>r \<in> set t. \<not> P r \<Longrightarrow> upd_where P f t = t"
  by (induction t) auto

lemma state_requeuable:
  "s \<in> set REQUEUABLE \<longleftrightarrow> str_to_state s \<in> {JS_Failed, JS_Downloading, JS_Printing}"
  by (simp add: REQUEUABLE_def str_to_state_def)

lemma state_completed: "s = ''completed'' \<longleftrightarrow> str_to_state s = JS_Completed"
  by (simp add: str_to_state_def)

lemma storage_cmd_board:
  assumes "cn_faults c = []" and "keyed jr_job_id (st_jobs (cn_db c))"
  shows "board_of (cn_db (snd (storage_cmd now detail cmd k c))) =
           snd (board_step cmd k (board_of (cn_db c)))
       \<and> (case fst (board_step cmd k (board_of (cn_db c))) of
            None \<Rightarrow> fst (storage_cmd now detail cmd k c) = Inl (NotFoundErr k)
          | Some b \<Rightarrow> fst (storage_cmd now detail cmd k c) = Inr b)"
proof (cases cmd)
  case (B_Set s)
  show ?thesis
    unfolding B_Set using assms
    by (auto simp: update_job_state_def update_jobs_no_faults op_defs count_where_key'
        board_upd_where' board_of_def split: option.splits)
next
  case (B_SetUnlessTerminal s)
  show ?thesis
    unfolding B_SetUnlessTerminal using assms
    by (auto simp: update_job_state_unless_terminal_def existing_state_text_def
        update_jobs_no_faults op_defs count_where_key row_of_upd_key board_upd_where in_progress_iff
        board_of_def split: option.splits)
next
  case B_Requeue
  show ?thesis
    unfolding B_Requeue using assms
    by (auto simp: storage_requeue_job_def existing_state_text_def
        update_jobs_no_faults op_defs count_where_key row_of_upd_key board_upd_where state_requeuable
        board_of_def split: option.splits)
next
  case B_UnconfirmCompleted
  show ?thesis
    unfolding B_UnconfirmCompleted using assms
    by (auto simp: unconfirm_completed_job_def update_jobs_no_faults op_defs count_where_key
        board_upd_where state_completed board_of_def split: option.splits)
qed

text \<open>A connection on which no statement fails.\<close>

definition quiet :: "'d \<Rightarrow> 'd conn" where
  "quiet d = \<lparr>cn_db = d, cn_faults = []\<rparr>"

lemma quiet_simps [simp]: "cn_db (quiet d) = d" "cn_faults (quiet d) = []"
  by (simp_all add: quiet_def)

lemma wf_storage_cmd:
  "moves (\<lambda>c c'. store_wf (cn_db c) \<longrightarrow> store_wf (cn_db c')) (storage_cmd now detail cmd k)"
  by (cases cmd)
    (auto simp: update_job_state_def update_job_state_unless_terminal_def
      storage_requeue_job_def unconfirm_completed_job_def existing_state_text_def
      intro!: wf.inv.moves_rules wf_keeps)

interpretation storage_board: job_board board_of
  "\<lambda>cmd k d. cn_db (snd (storage_cmd now detail cmd k (quiet d)))" store_wf for now detail
proof
  fix d c k
  assume wf: "store_wf d"
  then show "board_of (cn_db (snd (storage_cmd now detail c k (quiet d)))) =
      snd (board_step c k (board_of d))"
    using storage_cmd_board [of "quiet d"] by (simp add: store_wf_def)
  show "store_wf (cn_db (snd (storage_cmd now detail c k (quiet d))))"
    using wf_storage_cmd [of now detail c k] wf by (simp add: moves_def)
qed

section \<open>Properties of the storage\<close>

text \<open>A job table with one job in a given state, for concrete instances.\<close>

definition sample_job :: "string \<Rightarrow> JobState \<Rightarrow> JobMetadata" where
  "sample_job k s =
     \<lparr>jm_job_id = k, jm_document_name = ''doc'', jm_target_printer = ''lp'',
      jm_target_client_id = None, jm_copies = 1, jm_paper_size = ''A4'', jm_duplex = False,
      jm_color = False, jm_payload_size = 7, jm_payload_sha256 = ''00'', jm_state = s,
      jm_retry_count = 0, jm_error_detail = [], jm_requesting_user = None, jm_created_at = 0,
      jm_updated_at = 0\<rparr>"

definition sample_store :: "string \<Rightarrow> JobState \<Rightarrow> store" where
  "sample_store k s = empty_store\<lparr>st_jobs := [job_to_row (sample_job k s) ''spool'']\<rparr>"

lemma sample_store_jobs [simp]:
  "st_jobs (sample_store k s) = [job_to_row (sample_job k s) ''spool'']"
  by (simp add: sample_store_def)

lemma sample_job_row [simp]:
  "jr_job_id (job_to_row (sample_job k s) path) = k"
  "jr_state (job_to_row (sample_job k s) path) = state_to_str s"
  "jr_retry_count (job_to_row (sample_job k s) path) = 0"
  "jr_target_client_id (job_to_row (sample_job k s) path) = None"
  by (simp_all add: sample_job_def job_to_row_def)

lemma sample_store_wf: "store_wf (sample_store k s)"
  by (simp add: store_wf_def sample_store_def empty_store_def keyed_def readable_job_to_row)

text \<open>
  C7. On a database that answers, the four job commands of the storage (the unconditional
  write, the write unless finished, the requeue, the late failure of a completed job)
  implement the abstract job board: the states and retry counts change as the board says, the
  answer is the board's, and a missing job is the error "not found".
\<close>

theorem storage_refines_board:
  assumes "cn_faults c = []" and "store_wf (cn_db c)"
  shows "board_of (cn_db (snd (storage_cmd now detail cmd k c))) =
           snd (board_step cmd k (board_of (cn_db c)))
       \<and> (case fst (board_step cmd k (board_of (cn_db c))) of
            None \<Rightarrow> fst (storage_cmd now detail cmd k c) = Inl (NotFoundErr k)
          | Some b \<Rightarrow> fst (storage_cmd now detail cmd k c) = Inr b)"
  using assms by (intro storage_cmd_board) (simp_all add: store_wf_def)

theorem storage_refines_board_witness:
  "cn_faults (quiet (sample_store ''j'' JS_Completed)) = []
   \<and> store_wf (cn_db (quiet (sample_store ''j'' JS_Completed)))
   \<and> board_of (cn_db (snd (storage_cmd 5 ''late'' B_Requeue ''j''
        (quiet (sample_store ''j'' JS_Completed))))) ''j'' = Some (JS_Completed, 0)
   \<and> fst (storage_cmd 5 ''late'' B_Requeue ''j'' (quiet (sample_store ''j'' JS_Completed))) = Inr False"
  using storage_refines_board [of "quiet (sample_store ''j'' JS_Completed)" 5 "''late''"
      B_Requeue "''j''"] sample_store_wf [of "''j''" JS_Completed]
  by (simp add: board_of_def del: storage_cmd.simps)

text \<open>
  Whatever commands of the storage run, on whatever jobs and in whatever order, as long as
  none of them is an unconditional write of an open state: a finished job (completed,
  cancelled, unconfirmed) stays finished and its retry count stays as it was.
\<close>

theorem finished_job_survives_commands:
  assumes "store_wf d" and "board_of d k = Some (x, n)" and "finished x"
    and "\<forall>(cmd, i) \<in> set cmds. \<not> opens cmd"
  shows "\<exists>y. board_of (fold (\<lambda>(cmd, i) d. cn_db (snd (storage_cmd now detail cmd i (quiet d)))) cmds d) k
             = Some (y, n) \<and> finished y"
  using storage_board.run_finished [of d k x n cmds now detail] assms by auto

theorem finished_job_survives_commands_witness:
  "store_wf (sample_store ''j'' JS_Unconfirmed)
   \<and> (\<exists>y. board_of (fold (\<lambda>(cmd, i) d. cn_db (snd (storage_cmd 9 ''x'' cmd i (quiet d))))
        [(B_Requeue, ''j''), (B_SetUnlessTerminal JS_Failed, ''j''), (B_Requeue, ''other'')]
        (sample_store ''j'' JS_Unconfirmed)) ''j'' = Some (y, 0) \<and> finished y)"
  using finished_job_survives_commands [of "sample_store ''j'' JS_Unconfirmed" "''j''" JS_Unconfirmed 0
      "[(B_Requeue, ''j''), (B_SetUnlessTerminal JS_Failed, ''j''), (B_Requeue, ''other'')]" 9 "''x''"]
    sample_store_wf [of "''j''" JS_Unconfirmed]
  by (simp add: board_of_def del: storage_cmd.simps)

text \<open>
  Storing a job under a new id and reading it back gives the job that was stored: all
  sixteen fields survive the conversion to and from the row, the 64-bit payload size and the
  32-bit counters included.
\<close>

theorem insert_job_get_job:
  assumes "cn_faults c = []" and "row_of jr_job_id (jm_job_id m) (st_jobs (cn_db c)) = None"
  shows "fst (insert_job m path c) = Inr ()
       \<and> fst (storage_get_job (jm_job_id m) (snd (insert_job m path c))) = Inr (Some m)
       \<and> fst (get_spool_path (jm_job_id m) (snd (insert_job m path c))) = Inr (Some path)"
proof -
  have id: "jr_job_id (job_to_row m path) = jm_job_id m" by (simp add: job_to_row_def)
  have "jr_spool_path (job_to_row m path) = path" by (simp add: job_to_row_def)
  with assms id show ?thesis
    by (simp add: insert_job_def upsert_job_row_def storage_get_job_def get_spool_path_def
        row_of_append row_to_job_job_to_row)
qed

theorem insert_job_get_job_witness:
  "fst (storage_get_job ''new'' (snd (insert_job (sample_job ''new'' JS_Queued) ''p''
      (quiet (sample_store ''j'' JS_Failed))))) = Inr (Some (sample_job ''new'' JS_Queued))"
  using insert_job_get_job [of "quiet (sample_store ''j'' JS_Failed)" "sample_job ''new'' JS_Queued" "''p''"]
  by (simp add: sample_job_def [of "''new''"])

text \<open>A loop of event inserts that went through appended exactly its events.\<close>

lemma for_insert_events:
  "for_op is (\<lambda>i. insert_job_event (ev i)) c = (Inr (), c') \<Longrightarrow>
   cn_db c' = (cn_db c)\<lparr>st_job_events := st_job_events (cn_db c) @ map (\<lambda>i. event_to_row (ev i)) is\<rparr>"
proof (induction "is" arbitrary: c)
  case Nil
  then show ?case by (simp add: ok_def)
next
  case (Cons i "is")
  from Cons.prems obtain c1 where one: "insert_job_event (ev i) c = (Inr (), c1)"
      and rest: "for_op is (\<lambda>i. insert_job_event (ev i)) c1 = (Inr (), c')"
    by (auto elim!: try_op_InrE)
  from one have "cn_db c1 = (cn_db c)\<lparr>st_job_events := st_job_events (cn_db c) @ [event_to_row (ev i)]\<rparr>"
    unfolding insert_job_event_def by (auto dest: sql_InrD)
  with Cons.IH [OF rest] show ?case by simp
qed

text \<open>
  C28. The start-up recovery of the client is all or nothing, whatever statement fails: on an
  error the database is unchanged; on success exactly the jobs that were downloading or
  printing are failed with the reason, their number is the answer, and each got exactly one
  \<open>failed\<close> event, in creation order.
\<close>

theorem fail_interrupted_all_or_nothing:
  "case fail_interrupted_jobs now reason c of
     (Inl e, c') \<Rightarrow> cn_db c' = cn_db c
   | (Inr n, c') \<Rightarrow>
       (let t = st_jobs (cn_db c); active = (\<lambda>r. jr_state r \<in> set ACTIVE)
        in n = count_where active t
         \<and> cn_db c' = (cn_db c)
             \<lparr>st_jobs := upd_where active (\<lambda>r. r\<lparr>jr_state := ''failed'', jr_error_detail := reason,
                                                 jr_updated_at := now\<rparr>) t,
              st_job_events := st_job_events (cn_db c) @
                map (\<lambda>r. event_to_row (event_new now (jr_job_id r) PS_Failed False reason))
                  (sort_key jr_created_at (filter active t))\<rparr>)"
proof -
  obtain r c' where run: "fail_interrupted_jobs now reason c = (r, c')" by fastforce
  show ?thesis
  proof (cases r)
    case (Inl e)
    with run show ?thesis
      by (auto simp: fail_interrupted_jobs_def dest: transaction_InlD)
  next
    case (Inr n)
    let ?active = "\<lambda>r. jr_state r \<in> set ACTIVE"
    let ?f = "\<lambda>r. r\<lparr>jr_state := ''failed'', jr_error_detail := reason, jr_updated_at := now\<rparr>"
    let ?ids = "map jr_job_id (sort_key jr_created_at (filter ?active (st_jobs (cn_db c))))"
    from transaction_InrD [OF run [unfolded fail_interrupted_jobs_def Inr]]
    obtain c1 ids c2 where b: "begin_tx c = (Inr (), c1)"
      and q: "query (\<lambda>d. Inr (map jr_job_id (sort_key jr_created_at (filter ?active (st_jobs d))))) c1
                = (Inr ids, c2)"
      and rest': "(if ids = [] then ok 0
          else try_op (update_jobs ?active ?f)
                 (\<lambda>rows. try_op (for_op ids (\<lambda>i. insert_job_event (event_new now i PS_Failed False reason)))
                   (\<lambda>_. try_op commit_tx (\<lambda>_. ok rows)))) c2 = (Inr n, c')"
      by (elim try_op_InrE) simp
    have c2: "cn_db c2 = cn_db c"
      using b q by (auto simp: begin_tx_def dest!: sql_InrD query_InrD)
    have "ids = ?ids"
      using b q by (auto simp: begin_tx_def dest!: sql_InrD query_InrD)
    note rest = rest' [unfolded this]
    show ?thesis
    proof (cases "?ids = []")
      case True
      have none: "\<forall>r \<in> set (st_jobs (cn_db c)). \<not> ?active r"
        using arg_cong [OF True, of length] by (simp add: filter_empty_conv)
      with rest True c2 run Inr show ?thesis
        by (auto simp: ok_def count_where_0 upd_where_none filter_empty_conv)
    next
      case False
      with rest obtain c3 c4 where u: "update_jobs ?active ?f c2 = (Inr n, c3)"
          and ev: "for_op ?ids (\<lambda>i. insert_job_event (event_new now i PS_Failed False reason)) c3 = (Inr (), c4)"
          and cm: "commit_tx c4 = (Inr (), c')"
        by (auto simp: ok_def elim!: try_op_InrE)
      have "n = count_where ?active (st_jobs (cn_db c))"
        and "cn_db c3 = (cn_db c)\<lparr>st_jobs := upd_where ?active ?f (st_jobs (cn_db c))\<rparr>"
        using u c2 by (auto simp: update_jobs_def dest: sql_InrD)
      moreover have "cn_db c' = cn_db c4"
        using cm by (auto simp: commit_tx_def dest: sql_InrD)
      ultimately show ?thesis
        using for_insert_events [OF ev] run Inr by (simp add: comp_def)
    qed
  qed
qed

text \<open>
  A registration never changes the pairing state of a client the server knows, nor its
  driver or printer name when the client sends none, and never touches another client; this
  holds whatever statement fails.
\<close>

theorem upsert_client_keeps_pairing:
  assumes "row_of cw_machine_id m (st_clients (cn_db c)) = Some r"
  shows "\<exists>r'. row_of cw_machine_id m (st_clients (cn_db (snd (upsert_client reg c)))) = Some r'
           \<and> cw_pairing_state r' = cw_pairing_state r
           \<and> (cr_virtual_printer_driver reg = None \<or> cr_machine_id reg \<noteq> m \<longrightarrow>
                cw_virtual_printer_driver r' = cw_virtual_printer_driver r)
           \<and> (cr_virtual_printer_name reg = None \<or> cr_machine_id reg \<noteq> m \<longrightarrow>
                cw_virtual_printer_name r' = cw_virtual_printer_name r)"
proof -
  let ?row = "client_to_row reg"
  let ?d = "(cn_db c)\<lparr>st_clients := upsert_client_row ?row (st_clients (cn_db c))\<rparr>"
  have row: "cw_machine_id ?row = cr_machine_id reg"
      "cw_virtual_printer_driver ?row = cr_virtual_printer_driver reg"
      "cw_virtual_printer_name ?row = cr_virtual_printer_name reg"
    by (simp_all add: client_to_row_def)
  have "cn_db (snd (upsert_client reg c)) \<in> {cn_db c, ?d}"
    by (auto simp: upsert_client_def sql_def split: list.splits bool.splits)
  moreover have "\<exists>r'. row_of cw_machine_id m (upsert_client_row ?row (st_clients (cn_db c))) = Some r'
     \<and> cw_pairing_state r' = cw_pairing_state r
     \<and> (cr_virtual_printer_driver reg = None \<or> cr_machine_id reg \<noteq> m \<longrightarrow>
          cw_virtual_printer_driver r' = cw_virtual_printer_driver r)
     \<and> (cr_virtual_printer_name reg = None \<or> cr_machine_id reg \<noteq> m \<longrightarrow>
          cw_virtual_printer_name r' = cw_virtual_printer_name r)"
    using assms row_of_SomeD [OF assms] row
    by (auto simp: upsert_client_row_def row_of_append row_of_upd_where coalesce_def)
  ultimately show ?thesis using assms by auto
qed

theorem upsert_client_keeps_pairing_witness:
  "\<exists>r'. row_of cw_machine_id ''pc'' (st_clients (cn_db (snd (upsert_client
       \<lparr>cr_machine_id = ''pc'', cr_hostname = ''h2'', cr_printer_names = [], cr_client_version = ''2'',
        cr_last_seen = 9, cr_is_online = True, cr_pairing_state = Pair_Pending,
        cr_virtual_printer_name = None, cr_virtual_printer_driver = None\<rparr>
       (quiet (empty_store\<lparr>st_clients := [\<lparr>cw_machine_id = ''pc'', cw_hostname = ''h'',
          cw_printer_names = [], cw_client_version = ''1'', cw_last_seen = 0, cw_is_online = 0,
          cw_pairing_state = ''rejected'', cw_virtual_printer_name = None,
          cw_virtual_printer_driver = Some ''TSC''\<rparr>]\<rparr>)))))) = Some r'
     \<and> cw_pairing_state r' = ''rejected'' \<and> cw_virtual_printer_driver r' = Some ''TSC''"
  using upsert_client_keeps_pairing [of "''pc''" "quiet (empty_store\<lparr>st_clients := [\<lparr>cw_machine_id = ''pc'',
          cw_hostname = ''h'', cw_printer_names = [], cw_client_version = ''1'', cw_last_seen = 0,
          cw_is_online = 0, cw_pairing_state = ''rejected'', cw_virtual_printer_name = None,
          cw_virtual_printer_driver = Some ''TSC''\<rparr>]\<rparr>)"
     "\<lparr>cw_machine_id = ''pc'',
          cw_hostname = ''h'', cw_printer_names = [], cw_client_version = ''1'', cw_last_seen = 0,
          cw_is_online = 0, cw_pairing_state = ''rejected'', cw_virtual_printer_name = None,
          cw_virtual_printer_driver = Some ''TSC''\<rparr>"
     "\<lparr>cr_machine_id = ''pc'', cr_hostname = ''h2'', cr_printer_names = [], cr_client_version = ''2'',
        cr_last_seen = 9, cr_is_online = True, cr_pairing_state = Pair_Pending,
        cr_virtual_printer_name = None, cr_virtual_printer_driver = None\<rparr>"]
  by auto

text \<open>The grouping loop keeps, per job, the events of that job in their order.\<close>

lemma fold_push_event:
  "fold push_event evs m k =
     (case filter (\<lambda>e. ev_job_id e = k) evs of
        [] \<Rightarrow> m k
      | es \<Rightarrow> Some ((case m k of None \<Rightarrow> [] | Some xs \<Rightarrow> xs) @ es))"
  by (induction evs arbitrary: m) (auto simp: push_event_def split: option.splits list.splits)

text \<open>
  The grouped read of the audit trail answers, for every job, exactly what the per-job
  read answers, in the same order; a job without events has no group.
\<close>

theorem all_job_events_grouped:
  assumes "cn_faults c = []"
  shows "\<exists>m. fst (get_all_job_events c) = Inr m \<and>
     (\<forall>k. fst (get_job_events k c) = Inr (case m k of None \<Rightarrow> [] | Some es \<Rightarrow> es) \<and> m k \<noteq> Some [])"
proof -
  have filt: "filter (\<lambda>e. ev_job_id e = k) (map row_to_event rows) =
      map row_to_event (filter (\<lambda>r. ew_job_id r = k) rows)" for k rows
    by (simp add: filter_map comp_def row_to_event_def)
  show ?thesis
    using assms
    by (auto simp: get_all_job_events_def get_job_events_def fold_push_event filt
        split: list.splits)
qed

definition sample_trail :: store where
  "sample_trail = empty_store\<lparr>st_job_events :=
     [event_to_row (event_ok 1 ''a'' PS_Received ''r''), event_to_row (event_ok 2 ''b'' PS_Received ''r''),
      event_to_row (event_fail 3 ''a'' PS_Failed ''f'')]\<rparr>"

theorem all_job_events_grouped_witness:
  "\<exists>m. fst (get_all_job_events (quiet sample_trail)) = Inr m
     \<and> m ''a'' = Some [event_ok 1 ''a'' PS_Received ''r'', event_fail 3 ''a'' PS_Failed ''f'']"
proof -
  obtain m where m: "fst (get_all_job_events (quiet sample_trail)) = Inr m"
    and k: "\<And>k. fst (get_job_events k (quiet sample_trail)) = Inr (case m k of None \<Rightarrow> [] | Some es \<Rightarrow> es)"
    using all_job_events_grouped [of "quiet sample_trail"] by auto
  have "fst (get_job_events ''a'' (quiet sample_trail)) =
      Inr [event_ok 1 ''a'' PS_Received ''r'', event_fail 3 ''a'' PS_Failed ''f'']"
    by (simp add: get_job_events_def sample_trail_def event_to_row_def row_to_event_def event_ok_def
        event_fail_def event_new_def stage_of_text_def all_stages_def)
  with k [of "''a''"] m show ?thesis by (auto split: option.splits)
qed

end
