(* ===== verification/Storage_Schema.thy ===== *)
theory Storage_Schema
  imports Server_Storage
begin

text \<open>
  \<open>Storage::new\<close> of \<open>crates/devbridge-server/src/storage.rs\<close>: creating the tables and adding
  the columns an older database lacks. A schema maps a table to the list of its columns. The
  probe \<open>conn.prepare("SELECT c FROM t LIMIT 0")\<close> fails for a missing column and for a
  failing engine alike, and the results of \<open>ALTER TABLE\<close> are dropped, as in the source.
\<close>

type_synonym schema = "string \<Rightarrow> string list option"

definition create_table :: "string \<Rightarrow> string list \<Rightarrow> (schema conn, unit) op" where
  "create_table t cols = sql (\<lambda>s. (Inr (), case s t of None \<Rightarrow> s(t \<mapsto> cols) | Some _ \<Rightarrow> s))"

definition prepare_column :: "string \<Rightarrow> string \<Rightarrow> (schema conn, unit) op" where
  "prepare_column t col =
     query (\<lambda>s. case s t of
                  None \<Rightarrow> Inl (ConstraintErr t)
                | Some cs \<Rightarrow> if col \<in> set cs then Inr () else Inl (ConstraintErr col))"

definition alter_add :: "string \<Rightarrow> string \<Rightarrow> (schema conn, unit) op" where
  "alter_add t col =
     sql (\<lambda>s. case s t of
                None \<Rightarrow> (Inl (ConstraintErr t), s)
              | Some cs \<Rightarrow> if col \<in> set cs then (Inl (ConstraintErr col), s)
                         else (Inr (), s(t \<mapsto> cs @ [col])))"

text \<open>\<open>execute_batch\<close> of several \<open>ALTER TABLE\<close>: stops at the first that fails.\<close>

definition alter_batch :: "string \<Rightarrow> string list \<Rightarrow> (schema conn, unit) op" where
  "alter_batch t cols = for_op cols (alter_add t)"

definition migrate :: "string \<Rightarrow> string list \<Rightarrow> (schema conn, unit) op" where
  "migrate t cols =
     match_op (prepare_column t (hd cols))
       (\<lambda>r. case r of Inr _ \<Rightarrow> ok () | Inl _ \<Rightarrow> ignore_op (alter_batch t cols) (ok ()))"

definition JOBS_COLUMNS :: "string list" where
  "JOBS_COLUMNS = [''job_id'', ''document_name'', ''target_printer'', ''target_client_id'',
     ''copies'', ''paper_size'', ''duplex'', ''color'', ''payload_size'', ''payload_sha256'',
     ''state'', ''spool_path'', ''created_at'', ''updated_at'']"

definition VP_COLUMNS :: "string list" where
  "VP_COLUMNS = [''id'', ''display_name'', ''ipp_name'', ''paired_client_id'', ''created_at'',
     ''updated_at'']"

definition CLIENTS_COLUMNS :: "string list" where
  "CLIENTS_COLUMNS = [''machine_id'', ''hostname'', ''printer_names'', ''client_version'',
     ''last_seen'', ''is_online'']"

definition EVENTS_COLUMNS :: "string list" where
  "EVENTS_COLUMNS = [''id'', ''job_id'', ''stage'', ''success'', ''detail'', ''timestamp'']"

definition migrations :: "(string \<times> string list) list" where
  "migrations =
     [(''job_events'', [''verification_method'', ''verification_evidence'']),
      (''clients'', [''pairing_state'']),
      (''clients'', [''virtual_printer_name'']),
      (''virtual_printers'', [''driver'']),
      (''clients'', [''virtual_printer_driver'']),
      (''jobs'', [''requesting_user''])]"

definition storage_new :: "(schema conn, unit) op" where
  "storage_new =
     try_op (create_table ''jobs'' JOBS_COLUMNS) (\<lambda>_.
     try_op (create_table ''virtual_printers'' VP_COLUMNS) (\<lambda>_.
     try_op (create_table ''clients'' CLIENTS_COLUMNS) (\<lambda>_.
     try_op (migrate ''jobs'' [''target_client_id'']) (\<lambda>_.
     try_op (migrate ''jobs'' [''retry_count'']) (\<lambda>_.
     try_op (migrate ''jobs'' [''error_detail'']) (\<lambda>_.
     try_op (create_table ''job_events'' EVENTS_COLUMNS) (\<lambda>_.
     for_op migrations (\<lambda>(t, cols). migrate t cols))))))))"

section \<open>No column is lost\<close>

text \<open>Whatever statements fail: a table keeps its columns, in their order.\<close>

definition extends :: "schema \<Rightarrow> schema \<Rightarrow> bool" where
  "extends s s' \<longleftrightarrow> (\<forall>t cs. s t = Some cs \<longrightarrow> (\<exists>ds. s' t = Some (cs @ ds)))"

lemma extends_refl: "extends s s"
  unfolding extends_def by (metis append_Nil2)

lemma extends_trans: "extends s t \<Longrightarrow> extends t u \<Longrightarrow> extends s u"
  unfolding extends_def by (metis append_assoc)

interpretation schema_step: step_relation "\<lambda>c c'. extends (cn_db c) (cn_db c')"
  by unfold_locales (auto intro: extends_refl extends_trans)

lemma extends_create_table: "moves (\<lambda>c c'. extends (cn_db c) (cn_db c')) (create_table t cols)"
  unfolding create_table_def
  by (rule moves_sql) (auto simp: extends_refl extends_def split: option.splits)

lemma extends_prepare: "moves (\<lambda>c c'. extends (cn_db c) (cn_db c')) (prepare_column t col)"
  unfolding prepare_column_def by (rule moves_query) (rule extends_refl)

lemma extends_alter: "moves (\<lambda>c c'. extends (cn_db c) (cn_db c')) (alter_add t col)"
  unfolding alter_add_def
  by (rule moves_sql) (auto simp: extends_refl extends_def split: option.splits if_splits)

lemma extends_migrate: "moves (\<lambda>c c'. extends (cn_db c) (cn_db c')) (migrate t cols)"
  unfolding migrate_def alter_batch_def
  by (intro schema_step.moves_rules extends_prepare extends_alter)

lemma extends_storage_new: "moves (\<lambda>c c'. extends (cn_db c) (cn_db c')) storage_new"
  unfolding storage_new_def
  by (intro schema_step.moves_rules extends_create_table)
    (auto intro: extends_migrate)

section \<open>Every column is there after a start without failures\<close>

definition create_fun :: "string \<Rightarrow> string list \<Rightarrow> schema \<Rightarrow> schema" where
  "create_fun t cols s = (case s t of None \<Rightarrow> s(t \<mapsto> cols) | Some _ \<Rightarrow> s)"

definition migrate_fun :: "string \<Rightarrow> string list \<Rightarrow> schema \<Rightarrow> schema" where
  "migrate_fun t cols s =
     (case s t of None \<Rightarrow> s
      | Some cs \<Rightarrow> if hd cols \<in> set cs then s
                 else s(t \<mapsto> cs @ takeWhile (\<lambda>c. c \<notin> set cs) cols))"

lemma create_table_quiet:
  "cn_faults c = [] \<Longrightarrow> create_table t cols c = (Inr (), c\<lparr>cn_db := create_fun t cols (cn_db c)\<rparr>)"
  by (simp add: create_table_def create_fun_def)

lemma alter_batch_quiet:
  assumes "cn_faults c = []" and "cn_db c t = Some cs" and "distinct cols"
  shows "snd (alter_batch t cols c) =
     c\<lparr>cn_db := (cn_db c)(t \<mapsto> cs @ takeWhile (\<lambda>x. x \<notin> set cs) cols)\<rparr>"
  using assms
proof (induction cols arbitrary: c cs)
  case Nil
  then show ?case
    by (cases c) (auto simp: alter_batch_def ok_def)
next
  case (Cons x cols)
  show ?case
  proof (cases "x \<in> set cs")
    case True
    with Cons.prems show ?thesis
      by (cases c) (auto simp: alter_batch_def alter_add_def try_op_def)
  next
    case False
    let ?c = "c\<lparr>cn_db := (cn_db c)(t \<mapsto> cs @ [x])\<rparr>"
    have tw: "takeWhile (\<lambda>y. y \<notin> set (cs @ [x])) cols = takeWhile (\<lambda>y. y \<notin> set cs) cols"
      using Cons.prems(3) by (intro takeWhile_cong) auto
    have ih: "snd (alter_batch t cols ?c) =
        ?c\<lparr>cn_db := (cn_db ?c)(t \<mapsto> (cs @ [x]) @ takeWhile (\<lambda>y. y \<notin> set cs) cols)\<rparr>"
      unfolding tw [symmetric] by (rule Cons.IH) (use Cons.prems in simp_all)
    have upd: "?c\<lparr>cn_db := (cn_db ?c)(t \<mapsto> y)\<rparr> = c\<lparr>cn_db := (cn_db c)(t \<mapsto> y)\<rparr>" for y
      by (cases c) (simp add: fun_eq_iff)
    have "snd (alter_batch t (x # cols) c) = snd (alter_batch t cols ?c)"
      using Cons.prems False by (simp add: alter_batch_def alter_add_def try_op_def)
    moreover have "takeWhile (\<lambda>y. y \<notin> set cs) (x # cols) = x # takeWhile (\<lambda>y. y \<notin> set cs) cols"
      using False by simp
    ultimately show ?thesis unfolding ih upd by (simp only: append_Cons append_Nil append_assoc)
  qed
qed

lemma migrate_quiet:
  assumes "cn_faults c = []" and "distinct cols"
  shows "migrate t cols c = (Inr (), c\<lparr>cn_db := migrate_fun t cols (cn_db c)\<rparr>)"
proof (cases "cn_db c t")
  case None
  with assms show ?thesis
    by (cases cols; cases c)
      (auto simp: migrate_def migrate_fun_def prepare_column_def op_defs alter_batch_def
        alter_add_def)
next
  case (Some cs)
  with assms alter_batch_quiet [of c t cs cols] show ?thesis
    by (cases "alter_batch t cols c"; cases c)
      (auto simp: migrate_def migrate_fun_def prepare_column_def op_defs)
qed

definition new_fun :: "schema \<Rightarrow> schema" where
  "new_fun s = fold (\<lambda>(t, cols). migrate_fun t cols) migrations
     (create_fun ''job_events'' EVENTS_COLUMNS
       (migrate_fun ''jobs'' [''error_detail''] (migrate_fun ''jobs'' [''retry_count'']
         (migrate_fun ''jobs'' [''target_client_id''] (create_fun ''clients'' CLIENTS_COLUMNS
           (create_fun ''virtual_printers'' VP_COLUMNS (create_fun ''jobs'' JOBS_COLUMNS s)))))))"

lemma for_migrate_quiet:
  "cn_faults c = [] \<Longrightarrow> \<forall>(t, cols) \<in> set ms. distinct cols \<Longrightarrow>
   for_op ms (\<lambda>(t, cols). migrate t cols) c =
     (Inr (), c\<lparr>cn_db := fold (\<lambda>(t, cols). migrate_fun t cols) ms (cn_db c)\<rparr>)"
proof (induction ms arbitrary: c)
  case Nil
  then show ?case by (cases c) (simp add: ok_def)
next
  case (Cons m ms)
  then show ?case
    by (cases m) (simp add: try_op_def migrate_quiet)
qed

lemma migrations_distinct: "\<forall>(t, cols) \<in> set migrations. distinct cols"
  by (simp add: migrations_def)

lemma storage_new_quiet:
  assumes "cn_faults c = []"
  shows "storage_new c = (Inr (), c\<lparr>cn_db := new_fun (cn_db c)\<rparr>)"
  using assms migrations_distinct
  by (simp add: storage_new_def new_fun_def try_op_def create_table_quiet migrate_quiet
      for_migrate_quiet)

text \<open>The columns a table has once a start went through without a failure.\<close>

definition has_column :: "schema \<Rightarrow> string \<Rightarrow> string \<Rightarrow> bool" where
  "has_column s t c \<longleftrightarrow> (case s t of None \<Rightarrow> False | Some cs \<Rightarrow> c \<in> set cs)"

definition has_columns :: "schema \<Rightarrow> string \<Rightarrow> string list \<Rightarrow> bool" where
  "has_columns s t cols \<longleftrightarrow> list_all (has_column s t) cols"

lemma create_fun_None: "create_fun t cols s u = None \<longleftrightarrow> u \<noteq> t \<and> s u = None"
  by (auto simp: create_fun_def split: option.splits)

lemma migrate_fun_None: "migrate_fun t cols s u = None \<longleftrightarrow> s u = None"
  by (auto simp: migrate_fun_def split: option.splits)

lemma has_create_fun:
  "has_column (create_fun t cols s) u c \<longleftrightarrow> has_column s u c \<or> u = t \<and> s t = None \<and> c \<in> set cols"
  by (auto simp: create_fun_def has_column_def split: option.splits)

lemma has_migrate_fun:
  "has_column (migrate_fun t [x] s) u c \<longleftrightarrow> has_column s u c \<or> u = t \<and> c = x \<and> s t \<noteq> None"
  by (auto simp: migrate_fun_def has_column_def split: option.splits)

lemma has_migrate_fun_pair:
  "has_column (migrate_fun t [x, y] s) u c \<longleftrightarrow>
     has_column s u c \<or> u = t \<and> s t \<noteq> None \<and> \<not> has_column s t x \<and> c \<in> {x, y}"
  by (auto simp: migrate_fun_def has_column_def split: option.splits if_splits)

lemmas schema_simps = create_fun_None migrate_fun_None has_create_fun has_migrate_fun
  has_migrate_fun_pair

text \<open>The columns \<open>row_to_job\<close>, \<open>row_to_client\<close> and the event queries read.\<close>

definition READ_COLUMNS :: "(string \<times> string list) list" where
  "READ_COLUMNS =
     [(''jobs'', JOBS_COLUMNS @ [''retry_count'', ''error_detail'', ''requesting_user'']),
      (''virtual_printers'', VP_COLUMNS @ [''driver'']),
      (''clients'', CLIENTS_COLUMNS @ [''pairing_state'', ''virtual_printer_name'',
         ''virtual_printer_driver'']),
      (''job_events'', EVENTS_COLUMNS @ [''verification_method'', ''verification_evidence''])]"

text \<open>
  Every table the database has carries the columns it was created with. (The oldest job table had no
  \<open>target_client_id\<close>.) Then the same with both verification columns or none.
\<close>

definition intact :: "schema \<Rightarrow> bool" where
  "intact s \<longleftrightarrow>
     (\<forall>cs. s ''jobs'' = Some cs \<longrightarrow> set JOBS_COLUMNS - {''target_client_id''} \<subseteq> set cs) \<and>
     (\<forall>cs. s ''virtual_printers'' = Some cs \<longrightarrow> set VP_COLUMNS \<subseteq> set cs) \<and>
     (\<forall>cs. s ''clients'' = Some cs \<longrightarrow> set CLIENTS_COLUMNS \<subseteq> set cs) \<and>
     (\<forall>cs. s ''job_events'' = Some cs \<longrightarrow> set EVENTS_COLUMNS \<subseteq> set cs)"

definition upgradable :: "schema \<Rightarrow> bool" where
  "upgradable s \<longleftrightarrow>
     (\<forall>cs. s ''jobs'' = Some cs \<longrightarrow> set JOBS_COLUMNS - {''target_client_id''} \<subseteq> set cs) \<and>
     (\<forall>cs. s ''virtual_printers'' = Some cs \<longrightarrow> set VP_COLUMNS \<subseteq> set cs) \<and>
     (\<forall>cs. s ''clients'' = Some cs \<longrightarrow> set CLIENTS_COLUMNS \<subseteq> set cs) \<and>
     (\<forall>cs. s ''job_events'' = Some cs \<longrightarrow> set EVENTS_COLUMNS \<subseteq> set cs \<and>
        (''verification_method'' \<in> set cs \<longrightarrow> ''verification_evidence'' \<in> set cs))"

lemmas column_lists = JOBS_COLUMNS_def VP_COLUMNS_def CLIENTS_COLUMNS_def EVENTS_COLUMNS_def

lemma upgradable_columns:
  assumes "upgradable s"
  shows "s ''jobs'' = None \<or> has_columns s ''jobs'' (removeAll ''target_client_id'' JOBS_COLUMNS)"
    and "s ''virtual_printers'' = None \<or> has_columns s ''virtual_printers'' VP_COLUMNS"
    and "s ''clients'' = None \<or> has_columns s ''clients'' CLIENTS_COLUMNS"
    and "s ''job_events'' = None \<or> has_columns s ''job_events'' EVENTS_COLUMNS"
    and "has_column s ''job_events'' ''verification_method'' \<longrightarrow>
         has_column s ''job_events'' ''verification_evidence''"
  using assms
  by (auto simp: upgradable_def has_columns_def has_column_def list_all_iff split: option.splits)

lemma new_fun_columns:
  assumes "upgradable s"
  shows "list_all (\<lambda>(t, cols). has_columns (new_fun s) t cols) READ_COLUMNS"
  using upgradable_columns [OF assms]
  unfolding READ_COLUMNS_def new_fun_def migrations_def column_lists has_columns_def
  by (simp add: schema_simps) satx

section \<open>A half-applied migration\<close>

text \<open>
  The two verification columns are added by one batch whose probe looks for the first one
  only. Once the first exists and the second does not, no later start adds the second.
\<close>

definition half_migrated :: "schema \<Rightarrow> bool" where
  "half_migrated s \<longleftrightarrow>
     (case s ''job_events'' of None \<Rightarrow> False
      | Some cs \<Rightarrow> ''verification_method'' \<in> set cs \<and> ''verification_evidence'' \<notin> set cs)"

interpretation half: invariant "\<lambda>c :: schema conn. half_migrated (cn_db c)" .

lemma half_create: "moves (\<lambda>c c'. half_migrated (cn_db c) \<longrightarrow> half_migrated (cn_db c'))
    (create_table t cols)"
  unfolding create_table_def
  by (rule keeps_sql) (auto simp: half_migrated_def split: option.splits if_splits)

lemma half_prepare: "moves (\<lambda>c c'. half_migrated (cn_db c) \<longrightarrow> half_migrated (cn_db c'))
    (prepare_column t col)"
  unfolding prepare_column_def by (rule keeps_query)

lemma half_alter:
  "(t = ''job_events'' \<Longrightarrow> col \<noteq> ''verification_evidence'') \<Longrightarrow>
   moves (\<lambda>c c'. half_migrated (cn_db c) \<longrightarrow> half_migrated (cn_db c')) (alter_add t col)"
  unfolding alter_add_def
  by (rule keeps_sql) (auto simp: half_migrated_def split: option.splits if_splits)

text \<open>In the batch, adding the column that is there already ends the batch.\<close>

lemma half_batch: "moves (\<lambda>c c'. half_migrated (cn_db c) \<longrightarrow> half_migrated (cn_db c'))
    (alter_batch ''job_events'' [''verification_method'', ''verification_evidence''])"
proof (rule movesI)
  fix c :: "schema conn"
  let ?m = "alter_add ''job_events'' ''verification_method''"
  have "isl (fst (?m c))" if "half_migrated (cn_db c)"
    using that
    by (auto simp: half_migrated_def alter_add_def sql_def
        split: option.splits list.splits bool.splits)
  moreover have "half_migrated (cn_db (snd (?m c)))" if "half_migrated (cn_db c)"
    using half_alter [of "''job_events''" "''verification_method''"] that
    by (simp add: moves_def)
  ultimately show "half_migrated (cn_db c) \<longrightarrow> half_migrated (cn_db (snd
      (alter_batch ''job_events'' [''verification_method'', ''verification_evidence''] c)))"
    by (auto simp: alter_batch_def try_op_def split: prod.splits sum.splits)
qed

lemma half_batch_other:
  "t \<noteq> ''job_events'' \<Longrightarrow>
   moves (\<lambda>c c'. half_migrated (cn_db c) \<longrightarrow> half_migrated (cn_db c')) (alter_batch t cols)"
  unfolding alter_batch_def by (intro half.inv.moves_rules half_alter) simp

lemma half_migrate:
  assumes "t \<noteq> ''job_events'' \<or> cols = [''verification_method'', ''verification_evidence'']"
  shows "moves (\<lambda>c c'. half_migrated (cn_db c) \<longrightarrow> half_migrated (cn_db c')) (migrate t cols)"
proof -
  have "moves (\<lambda>c c'. half_migrated (cn_db c) \<longrightarrow> half_migrated (cn_db c')) (alter_batch t cols)"
  proof (cases "t = ''job_events''")
    case True
    with assms show ?thesis using half_batch by simp
  qed (rule half_batch_other)
  then show ?thesis
    unfolding migrate_def by (intro half.inv.moves_rules half_prepare)
qed

lemma half_storage_new: "moves (\<lambda>c c'. half_migrated (cn_db c) \<longrightarrow> half_migrated (cn_db c')) storage_new"
  unfolding storage_new_def
  by (intro half.inv.moves_rules half_create)
    (auto simp: migrations_def intro!: half_migrate)

section \<open>Properties of a start\<close>

text \<open>Starts with failures leave no table without the columns it was created with.\<close>

interpretation intact: invariant "\<lambda>c :: schema conn. intact (cn_db c)" .

lemma intact_mono:
  assumes "intact s" and "\<And>t cs. s' t = Some cs \<Longrightarrow> \<exists>cs0. s t = Some cs0 \<and> set cs0 \<subseteq> set cs"
  shows "intact s'"
  using assms unfolding intact_def by (meson subset_trans)

lemma intact_alter: "moves (\<lambda>c c'. intact (cn_db c) \<longrightarrow> intact (cn_db c')) (alter_add t col)"
  unfolding alter_add_def
  by (rule keeps_sql) (auto elim!: intact_mono split: option.splits if_splits)

lemma intact_migrate: "moves (\<lambda>c c'. intact (cn_db c) \<longrightarrow> intact (cn_db c')) (migrate t cols)"
  unfolding migrate_def alter_batch_def prepare_column_def
  by (intro intact.inv.moves_rules keeps_query intact_alter)

lemma intact_create:
  assumes "(t, cols) \<in> {(''jobs'', JOBS_COLUMNS), (''virtual_printers'', VP_COLUMNS), (''clients'', CLIENTS_COLUMNS), (''job_events'', EVENTS_COLUMNS)}"
  shows "moves (\<lambda>c c'. intact (cn_db c) \<longrightarrow> intact (cn_db c')) (create_table t cols)"
  unfolding create_table_def
  by (rule keeps_sql) (use assms in \<open>auto simp: intact_def split: option.splits if_splits\<close>)

lemma intact_storage_new: "moves (\<lambda>c c'. intact (cn_db c) \<longrightarrow> intact (cn_db c')) storage_new"
  unfolding storage_new_def
  by (intro intact.inv.moves_rules intact_migrate intact_create) (auto intro: intact_migrate)

text \<open>The starts of the server one after the other, each with its own failures.\<close>

definition restarts :: "bool list list \<Rightarrow> schema \<Rightarrow> schema" where
  "restarts fss s = fold (\<lambda>fs s. cn_db (snd (storage_new \<lparr>cn_db = s, cn_faults = fs\<rparr>))) fss s"

lemma half_restarts: "half_migrated s \<Longrightarrow> half_migrated (restarts fss s)"
proof (induction fss arbitrary: s)
  case (Cons fs fss)
  then show ?case using half_storage_new by (simp add: restarts_def moves_def)
qed (simp add: restarts_def)

lemma intact_restarts: "intact s \<Longrightarrow> intact (restarts fss s)"
proof (induction fss arbitrary: s)
  case (Cons fs fss)
  then show ?case using intact_storage_new by (simp add: restarts_def moves_def)
qed (simp add: restarts_def)

lemma intact_columns:
  assumes "intact s"
  shows "s ''jobs'' = None \<or> has_columns s ''jobs'' (removeAll ''target_client_id'' JOBS_COLUMNS)"
    and "s ''virtual_printers'' = None \<or> has_columns s ''virtual_printers'' VP_COLUMNS"
    and "s ''clients'' = None \<or> has_columns s ''clients'' CLIENTS_COLUMNS"
    and "s ''job_events'' = None \<or> has_columns s ''job_events'' EVENTS_COLUMNS"
  using assms
  by (auto simp: intact_def has_columns_def has_column_def list_all_iff split: option.splits)

lemma intact_start_columns:
  assumes "intact s"
  shows "list_all (\<lambda>(t, cols). has_columns (new_fun s) t (removeAll ''verification_evidence'' cols)) READ_COLUMNS"
  using intact_columns [OF assms]
  unfolding READ_COLUMNS_def new_fun_def migrations_def column_lists has_columns_def
  by (simp add: schema_simps) satx

lemma intact_upgradable: "intact s \<Longrightarrow> \<not> half_migrated s \<Longrightarrow> upgradable s"
  by (auto simp: intact_def upgradable_def half_migrated_def)

text \<open>
  C32. A start of the server in which no statement fails, on the database that any number of earlier starts
  left (each with any statements failing, on a database whose tables have the columns they were created
  with), succeeds, loses no column of a table and ends with every column the queries of the storage
  read, with one exception: on a database with the first verification column and without the second, the second
  stays missing.
\<close>

theorem start_completes_schema:
  assumes "intact s" and "cn_db c = restarts fss s" and "cn_faults c = []"
  shows "\<exists>c'. storage_new c = (Inr (), c') \<and> extends (cn_db c) (cn_db c') \<and>
     list_all (\<lambda>(t, cols). list_all (\<lambda>col. has_column (cn_db c') t col \<longleftrightarrow>
        \<not> (half_migrated (cn_db c) \<and> t = ''job_events'' \<and> col = ''verification_evidence'')) cols) READ_COLUMNS"
proof -
  let ?n = "new_fun (cn_db c)"
  have run: "storage_new c = (Inr (), c\<lparr>cn_db := ?n\<rparr>)" by (rule storage_new_quiet) fact
  have i: "intact (cn_db c)" unfolding assms(2) by (rule intact_restarts) fact
  have "list_all (\<lambda>(t, cols). list_all (\<lambda>col. has_column ?n t col \<longleftrightarrow>
        \<not> (half_migrated (cn_db c) \<and> t = ''job_events'' \<and> col = ''verification_evidence'')) cols) READ_COLUMNS"
  proof (cases "half_migrated (cn_db c)")
    case False
    then show ?thesis using new_fun_columns [OF intact_upgradable [OF i]] by (simp add: has_columns_def)
  next
    case True
    then have "half_migrated ?n" using movesD [OF half_storage_new run] by simp
    then have "\<not> has_column ?n ''job_events'' ''verification_evidence''"
      by (auto simp: half_migrated_def has_column_def split: option.splits)
    moreover have "has_column ?n t col" if "(t, cols) \<in> set READ_COLUMNS" "col \<in> set cols" "col \<noteq> ''verification_evidence''" for t cols col
      using intact_start_columns [OF i] that by (auto simp: list_all_iff has_columns_def)
    moreover have "t = ''job_events''" if "(t, cols) \<in> set READ_COLUMNS" "''verification_evidence'' \<in> set cols" for t cols
      using that by (auto simp: READ_COLUMNS_def column_lists)
    ultimately have "has_column ?n t col \<longleftrightarrow> \<not> (t = ''job_events'' \<and> col = ''verification_evidence'')"
      if "(t, cols) \<in> set READ_COLUMNS" "col \<in> set cols" for t cols col using that by blast
    then show ?thesis using True by (auto simp: list_all_iff)
  qed
  then show ?thesis using movesD [OF extends_storage_new run] run by auto
qed

definition old_schema :: schema where
  "old_schema = Map.empty(''jobs'' \<mapsto> removeAll ''target_client_id'' JOBS_COLUMNS)"

theorem start_completes_schema_witness:
  "\<exists>c'. storage_new \<lparr>cn_db = restarts [[True]] old_schema, cn_faults = []\<rparr> = (Inr (), c') \<and>
     has_column (cn_db c') ''jobs'' ''target_client_id''"
proof -
  have "intact old_schema" by (auto simp: intact_def old_schema_def)
  then show ?thesis
    using start_completes_schema [of old_schema "\<lparr>cn_db = restarts [[True]] old_schema, cn_faults = []\<rparr>" "[[True]]"]
    by (auto simp: READ_COLUMNS_def JOBS_COLUMNS_def)
qed

text \<open>
  C34. The two verification columns are added by two statements behind a probe for the first
  column only. When the second statement fails, the start still succeeds, and no later start,
  with or without failures, ever adds the second column.
\<close>

theorem half_migration_never_repaired:
  "let first = storage_new \<lparr>cn_db = Map.empty, cn_faults = replicate 11 False @ [True]\<rparr>
   in fst first = Inr () \<and> (\<forall>fss. half_migrated (restarts fss (cn_db (snd first))))"
proof -
  have "fst (storage_new \<lparr>cn_db = Map.empty, cn_faults = replicate 11 False @ [True]\<rparr>) = Inr () \<and>
    half_migrated (cn_db (snd (storage_new \<lparr>cn_db = Map.empty, cn_faults = replicate 11 False @ [True]\<rparr>)))"
    by code_simp
  then show ?thesis unfolding Let_def using half_restarts by blast
qed

end
