(* ===== verification/Job_Queue.thy ===== *)
theory Job_Queue
  imports Server_Storage
begin

text \<open>
  The job queue of \<open>crates/devbridge-server/src/queue.rs\<close>: \<open>JobQueue\<close> as a record (the storage
  behind its mutex, the client channels, the default queue, the event and notification
  channels) and one definition per method. An unbounded channel is an entry of
  \<open>q_chans\<close>: the machine it was created for with the ids sent and not yet received, \<open>None\<close>
  once its receiver is dropped. A
  \<open>Notify\<close> is the number of times it was fired. A method that takes the storage mutex and
  then another one is written as its successive critical sections; every theorem about
  states quantifies over the state in which a section starts.
\<close>

section \<open>State\<close>

record queue =
  q_storage :: "store conn"
  q_client_channels :: "string \<Rightarrow> (string \<times> nat) option"
  q_chans :: "nat \<Rightarrow> (string \<times> string list) option"  \<comment> \<open>machine it was made for, ids\<close>
  q_next_chan :: nat
  q_default_pending :: "string list"
  q_default_notify :: nat
  q_job_events :: "JobEvent list option"
  q_pairing_notify :: nat
  q_reconciler_signal :: "(nat \<times> nat) option"  \<comment> \<open>capacity, signals waiting\<close>

definition on_storage :: "(store conn, 'a) op \<Rightarrow> (queue, 'a) op" where
  "on_storage m = zoom_op q_storage (\<lambda>c q. q\<lparr>q_storage := c\<rparr>) m"

text \<open>The loading loop of \<open>JobQueue::new\<close>: paired jobs stay in storage.\<close>

definition default_ids :: "JobMetadata list \<Rightarrow> string list" where
  "default_ids jobs = map jm_job_id (filter (\<lambda>j. jm_target_client_id j = None) jobs)"

definition queue_new :: "store conn \<Rightarrow> err + queue" where
  "queue_new storage =
     (case get_pending_jobs storage of
        (Inl e, _) \<Rightarrow> Inl e
      | (Inr jobs, storage') \<Rightarrow>
          Inr \<lparr>q_storage = storage', q_client_channels = Map.empty, q_chans = Map.empty,
               q_next_chan = 0, q_default_pending = default_ids jobs, q_default_notify = 0,
               q_job_events = None, q_pairing_notify = 0, q_reconciler_signal = None\<rparr>)"

definition set_job_events :: "JobEvent list \<Rightarrow> queue \<Rightarrow> queue" where
  "set_job_events sender q = q\<lparr>q_job_events := Some sender\<rparr>"

definition set_reconciler_signal :: "nat \<times> nat \<Rightarrow> queue \<Rightarrow> queue" where
  "set_reconciler_signal tx q = q\<lparr>q_reconciler_signal := Some tx\<rparr>"

definition emit_event :: "JobEvent \<Rightarrow> queue \<Rightarrow> queue" where
  "emit_event ev q =
     (case q_job_events q of None \<Rightarrow> q | Some evs \<Rightarrow> q\<lparr>q_job_events := Some (evs @ [ev])\<rparr>)"

section \<open>Client channels\<close>

definition register_client :: "string \<Rightarrow> string \<Rightarrow> queue \<Rightarrow> nat \<times> queue" where
  "register_client machine_id connection_id q =
     (let ch = q_next_chan q
      in (ch, q\<lparr>q_client_channels := (q_client_channels q)(machine_id \<mapsto> (connection_id, ch)),
                q_chans := (q_chans q)(ch \<mapsto> (machine_id, [])), q_next_chan := Suc ch\<rparr>))"

definition unregister_client :: "string \<Rightarrow> string \<Rightarrow> queue \<Rightarrow> queue" where
  "unregister_client machine_id connection_id q =
     (case q_client_channels q machine_id of
        None \<Rightarrow> q
      | Some (stored_id, _) \<Rightarrow>
          if stored_id = connection_id
          then q\<lparr>q_client_channels := (q_client_channels q)(machine_id := None)\<rparr>
          else q)"

definition is_active_connection :: "string \<Rightarrow> string \<Rightarrow> queue \<Rightarrow> bool" where
  "is_active_connection machine_id connection_id q =
     (case q_client_channels q machine_id of
        None \<Rightarrow> False | Some (stored_id, _) \<Rightarrow> stored_id = connection_id)"

text \<open>\<open>let _ = tx.send(job_id)\<close>: lost when the receiver is gone.\<close>

definition chan_send :: "nat \<Rightarrow> string \<Rightarrow> queue \<Rightarrow> queue" where
  "chan_send ch job_id q =
     (case q_chans q ch of
        None \<Rightarrow> q
      | Some (m, ids) \<Rightarrow> q\<lparr>q_chans := (q_chans q)(ch \<mapsto> (m, ids @ [job_id]))\<rparr>)"

text \<open>\<open>client_rx.try_recv()\<close>\<close>

definition chan_recv :: "nat \<Rightarrow> queue \<Rightarrow> string option \<times> queue" where
  "chan_recv ch q =
     (case q_chans q ch of
        Some (m, i # ids) \<Rightarrow> (Some i, q\<lparr>q_chans := (q_chans q)(ch \<mapsto> (m, ids))\<rparr>)
      | _ \<Rightarrow> (None, q))"

definition chan_drop :: "nat \<Rightarrow> queue \<Rightarrow> queue" where
  "chan_drop ch q = q\<lparr>q_chans := (q_chans q)(ch := None)\<rparr>"

text \<open>\<open>channels.get(target)\<close>, then send if there is one.\<close>

definition send_to_client :: "string \<Rightarrow> string \<Rightarrow> queue \<Rightarrow> queue" where
  "send_to_client client_id job_id q =
     (case q_client_channels q client_id of None \<Rightarrow> q | Some (_, ch) \<Rightarrow> chan_send ch job_id q)"

section \<open>Routing\<close>

text \<open>The text of \<open>format!("{} \<rightarrow> {}", ...)\<close>, its arrow in UTF-8.\<close>

definition route_detail :: "JobMetadata \<Rightarrow> string" where
  "route_detail meta =
     jm_target_printer meta @ [CHR 0x20, CHR 0xE2, CHR 0x86, CHR 0x92, CHR 0x20] @
     (case jm_target_client_id meta of Some client_id \<Rightarrow> client_id | None \<Rightarrow> ''default queue'')"

definition queue_insert_job_event :: "PrintJobEvent \<Rightarrow> (queue, unit) op" where
  "queue_insert_job_event ev = on_storage (insert_job_event ev)"

definition push_default :: "string \<Rightarrow> queue \<Rightarrow> queue" where
  "push_default job_id q =
     q\<lparr>q_default_pending := q_default_pending q @ [job_id],
       q_default_notify := Suc (q_default_notify q)\<rparr>"

text \<open>Paired: to the client's channel or held in storage. Unpaired: to the default queue.\<close>

definition route :: "string option \<Rightarrow> string \<Rightarrow> queue \<Rightarrow> queue" where
  "route target job_id q =
     (case target of
        Some client_id \<Rightarrow> send_to_client client_id job_id q
      | None \<Rightarrow> push_default job_id q)"

text \<open>The pairing lookup of \<open>push\<close>, inside the critical section of the insert.\<close>

definition resolve_target :: "JobMetadata \<Rightarrow> (store conn, JobMetadata) op" where
  "resolve_target meta =
     (if jm_target_printer meta = [] then ok meta
      else match_op (get_virtual_printer_by_ipp_name (jm_target_printer meta))
        (\<lambda>r. case r of
               Inr (Some vp) \<Rightarrow>
                 (case vp_paired_client_id vp of
                    Some client_id \<Rightarrow> ok (meta\<lparr>jm_target_client_id := Some client_id\<rparr>)
                  | None \<Rightarrow> ok meta)
             | _ \<Rightarrow> ok meta))"

definition push_store :: "JobMetadata \<Rightarrow> string \<Rightarrow> (store conn, JobMetadata) op" where
  "push_store meta spool_path =
     try_op (resolve_target meta) (\<lambda>meta'.
     try_op (insert_job meta' spool_path) (\<lambda>_. ok meta'))"

definition push :: "instant \<Rightarrow> JobMetadata \<Rightarrow> string \<Rightarrow> (queue, unit) op" where
  "push now meta spool_path =
     try_op (on_storage (push_store meta spool_path)) (\<lambda>meta'.
     try_op (modify_op (emit_event (JE_Created (jm_job_id meta') (jm_document_name meta')
               (jm_requesting_user meta') (jm_target_printer meta')))) (\<lambda>_.
     ignore_op (queue_insert_job_event
                  (event_ok now (jm_job_id meta') PS_Routed (route_detail meta')))
       (modify_op (route (jm_target_client_id meta') (jm_job_id meta')))))"

definition next_job :: "queue \<Rightarrow> string option \<times> queue" where
  "next_job q =
     (case q_default_pending q of
        [] \<Rightarrow> (None, q) | i # ids \<Rightarrow> (Some i, q\<lparr>q_default_pending := ids\<rparr>))"

definition drain_pending_for_client :: "string \<Rightarrow> (queue, unit) op" where
  "drain_pending_for_client client_id =
     match_op (on_storage (get_queued_jobs_for_client client_id))
       (\<lambda>r. case r of
              Inl _ \<Rightarrow> ok ()
            | Inr jobs \<Rightarrow> modify_op (\<lambda>q. fold (send_to_client client_id) (map jm_job_id jobs) q))"

section \<open>Job states\<close>

text \<open>\<open>get_job(..).ok().flatten().and_then(f)\<close>, inside the critical section of the update.\<close>

definition lookup_field :: "(JobMetadata \<Rightarrow> 'a option) \<Rightarrow> string \<Rightarrow> (store conn, 'a option) op" where
  "lookup_field f job_id =
     match_op (storage_get_job job_id)
       (\<lambda>r. ok (case ok_flatten r of None \<Rightarrow> None | Some j \<Rightarrow> f j))"

definition update_state :: "instant \<Rightarrow> string \<Rightarrow> JobState \<Rightarrow> (queue, unit) op" where
  "update_state now job_id state =
     try_op (on_storage (try_op (update_job_state now job_id state)
                          (\<lambda>_. lookup_field jm_requesting_user job_id)))
       (\<lambda>requesting_user. modify_op (emit_event (JE_StateChanged job_id state requesting_user)))"

definition update_state_unless_terminal :: "instant \<Rightarrow> string \<Rightarrow> JobState \<Rightarrow> (queue, bool) op" where
  "update_state_unless_terminal now job_id state =
     try_op (on_storage (try_op (update_job_state_unless_terminal now job_id state)
               (\<lambda>changed. if \<not> changed then ok None
                  else try_op (lookup_field jm_requesting_user job_id) (\<lambda>u. ok (Some u)))))
       (\<lambda>r. case r of
              None \<Rightarrow> ok False
            | Some requesting_user \<Rightarrow>
                try_op (modify_op (emit_event (JE_StateChanged job_id state requesting_user)))
                  (\<lambda>_. ok True))"

definition unconfirm_completed :: "instant \<Rightarrow> string \<Rightarrow> (queue, bool) op" where
  "unconfirm_completed now job_id =
     try_op (on_storage (try_op (unconfirm_completed_job now job_id)
               (\<lambda>changed. if \<not> changed then ok None
                  else try_op (lookup_field jm_requesting_user job_id) (\<lambda>u. ok (Some u)))))
       (\<lambda>r. case r of
              None \<Rightarrow> ok False
            | Some requesting_user \<Rightarrow>
                try_op (modify_op (emit_event
                          (JE_StateChanged job_id JS_Unconfirmed requesting_user)))
                  (\<lambda>_. ok True))"

definition requeue_job :: "instant \<Rightarrow> string \<Rightarrow> string \<Rightarrow> (queue, bool) op" where
  "requeue_job now job_id error_detail =
     try_op (on_storage (try_op (storage_requeue_job now job_id error_detail)
               (\<lambda>changed. if \<not> changed then ok None
                  else try_op (lookup_field jm_target_client_id job_id) (\<lambda>t. ok (Some t)))))
       (\<lambda>r. case r of
              None \<Rightarrow> ok False
            | Some target_client \<Rightarrow>
                try_op (modify_op (route target_client job_id)) (\<lambda>_. ok True))"

text \<open>\<open>Utc::now() - Duration::seconds(stale_timeout_secs as i64)\<close>\<close>

definition get_stale_jobs :: "instant \<Rightarrow> u64 \<Rightarrow> (queue, JobMetadata list) op" where
  "get_stale_jobs now stale_timeout_secs =
     on_storage (storage_get_stale_jobs (now - sint stale_timeout_secs * 10 ^ 9))"

section \<open>Delegations\<close>

definition get_job :: "string \<Rightarrow> (queue, JobMetadata option) op" where
  "get_job job_id = on_storage (storage_get_job job_id)"

definition queue_get_all_jobs :: "(queue, JobMetadata list) op" where
  "queue_get_all_jobs = on_storage get_all_jobs"

definition record_job :: "JobMetadata \<Rightarrow> string \<Rightarrow> (queue, unit) op" where
  "record_job meta spool_path = on_storage (insert_job meta spool_path)"

definition queue_update_job_state :: "instant \<Rightarrow> string \<Rightarrow> JobState \<Rightarrow> (queue, unit) op" where
  "queue_update_job_state now job_id state =
     try_op (on_storage (try_op (update_job_state now job_id state)
                          (\<lambda>_. lookup_field jm_requesting_user job_id)))
       (\<lambda>requesting_user. modify_op (emit_event (JE_StateChanged job_id state requesting_user)))"

definition queue_count_jobs_today :: "instant \<Rightarrow> (queue, nat) op" where
  "queue_count_jobs_today now = on_storage (count_jobs_today now)"

definition queue_count_active_jobs :: "(queue, nat) op" where
  "queue_count_active_jobs = on_storage count_active_jobs"

definition queue_fail_interrupted_jobs :: "instant \<Rightarrow> string \<Rightarrow> (queue, nat) op" where
  "queue_fail_interrupted_jobs now reason = on_storage (fail_interrupted_jobs now reason)"

definition queue_get_spool_path :: "string \<Rightarrow> (queue, string option) op" where
  "queue_get_spool_path job_id = on_storage (get_spool_path job_id)"

text \<open>\<open>tx.try_send(())\<close> on the bounded signal channel: a full channel drops the signal.\<close>

definition signal_reconciler :: "queue \<Rightarrow> queue" where
  "signal_reconciler q =
     (case q_reconciler_signal q of
        None \<Rightarrow> q
      | Some (cap, n) \<Rightarrow> if n < cap then q\<lparr>q_reconciler_signal := Some (cap, Suc n)\<rparr> else q)"

definition queue_insert_virtual_printer :: "VirtualPrinter \<Rightarrow> (queue, unit) op" where
  "queue_insert_virtual_printer vp =
     try_op (on_storage (insert_virtual_printer vp)) (\<lambda>_. modify_op signal_reconciler)"

definition queue_get_virtual_printer :: "string \<Rightarrow> (queue, VirtualPrinter option) op" where
  "queue_get_virtual_printer i = on_storage (get_virtual_printer i)"

definition queue_get_virtual_printer_by_ipp_name :: "string \<Rightarrow> (queue, VirtualPrinter option) op" where
  "queue_get_virtual_printer_by_ipp_name n = on_storage (get_virtual_printer_by_ipp_name n)"

definition queue_list_virtual_printers :: "(queue, VirtualPrinter list) op" where
  "queue_list_virtual_printers = on_storage list_virtual_printers"

definition queue_update_virtual_printer :: "instant \<Rightarrow> VirtualPrinter \<Rightarrow> (queue, unit) op" where
  "queue_update_virtual_printer now vp =
     try_op (on_storage (update_virtual_printer now vp)) (\<lambda>_. modify_op signal_reconciler)"

definition queue_delete_virtual_printer :: "string \<Rightarrow> (queue, unit) op" where
  "queue_delete_virtual_printer i = on_storage (delete_virtual_printer i)"

definition queue_upsert_client :: "ClientRegistration \<Rightarrow> (queue, unit) op" where
  "queue_upsert_client reg = on_storage (upsert_client reg)"

definition queue_list_clients :: "(queue, ClientRegistration list) op" where
  "queue_list_clients = on_storage list_clients"

definition queue_set_client_online :: "instant \<Rightarrow> string \<Rightarrow> bool \<Rightarrow> (queue, unit) op" where
  "queue_set_client_online now machine_id online = on_storage (set_client_online now machine_id online)"

definition queue_touch_client :: "instant \<Rightarrow> string \<Rightarrow> (queue, unit) op" where
  "queue_touch_client now machine_id = on_storage (touch_client now machine_id)"

definition queue_set_all_clients_offline :: "(queue, unit) op" where
  "queue_set_all_clients_offline = on_storage set_all_clients_offline"

definition queue_get_client :: "string \<Rightarrow> (queue, ClientRegistration option) op" where
  "queue_get_client machine_id = on_storage (get_client machine_id)"

definition queue_update_pairing_state :: "string \<Rightarrow> PairingState \<Rightarrow> (queue, unit) op" where
  "queue_update_pairing_state machine_id state =
     try_op (on_storage (update_pairing_state machine_id state))
       (\<lambda>_. modify_op (\<lambda>q. q\<lparr>q_pairing_notify := Suc (q_pairing_notify q)\<rparr>))"

definition queue_get_job_events :: "string \<Rightarrow> (queue, PrintJobEvent list) op" where
  "queue_get_job_events job_id = on_storage (get_job_events job_id)"

definition queue_get_all_job_events :: "(queue, string \<Rightarrow> PrintJobEvent list option) op" where
  "queue_get_all_job_events = on_storage get_all_job_events"

definition queue_clear_jobs :: "(queue, unit) op" where
  "queue_clear_jobs = on_storage clear_jobs"

section \<open>Laws of the queue\<close>

lemma moves_on_storage:
  "moves R m \<Longrightarrow> moves (\<lambda>q q'. R (q_storage q) (q_storage q')) (on_storage m)"
  unfolding on_storage_def by (rule moves_zoom) simp_all

text \<open>The database of a queue, and the parts of the state no routing touches.\<close>

abbreviation q_db :: "queue \<Rightarrow> store" where
  "q_db q \<equiv> cn_db (q_storage q)"

lemma storage_emit_event [simp]: "q_storage (emit_event ev q) = q_storage q"
  by (simp add: emit_event_def split: option.splits)

lemma storage_chan_send [simp]: "q_storage (chan_send ch i q) = q_storage q"
  by (simp add: chan_send_def split: option.splits)

lemma storage_send_to_client [simp]: "q_storage (send_to_client m i q) = q_storage q"
  by (simp add: send_to_client_def split: option.splits)

lemma storage_push_default [simp]: "q_storage (push_default i q) = q_storage q"
  by (simp add: push_default_def)

lemma storage_route [simp]: "q_storage (route t i q) = q_storage q"
  by (simp add: route_def split: option.splits)

lemma storage_signal [simp]: "q_storage (signal_reconciler q) = q_storage q"
  by (simp add: signal_reconciler_def split: option.splits)

lemma storage_register [simp]: "q_storage (snd (register_client m c q)) = q_storage q"
  by (simp add: register_client_def Let_def)

lemma storage_unregister [simp]: "q_storage (unregister_client m c q) = q_storage q"
  by (simp add: unregister_client_def split: option.splits)

lemma storage_recv [simp]: "q_storage (snd (chan_recv ch q)) = q_storage q"
  by (simp add: chan_recv_def split: option.splits list.splits)

lemma storage_drop [simp]: "q_storage (chan_drop ch q) = q_storage q"
  by (simp add: chan_drop_def)

lemma storage_next_job [simp]: "q_storage (snd (next_job q)) = q_storage q"
  by (simp add: next_job_def split: list.splits)

lemma chan_recv_storage: "chan_recv ch q = (x, q') \<Longrightarrow> q_storage q' = q_storage q"
  by (metis snd_conv storage_recv)

lemma next_job_storage: "next_job q = (x, q') \<Longrightarrow> q_storage q' = q_storage q"
  by (metis snd_conv storage_next_job)

lemma storage_fold_send [simp]: "q_storage (fold (send_to_client m) ids q) = q_storage q"
  by (induction ids arbitrary: q) simp_all

subsection \<open>Finished jobs stay finished\<close>

interpretation qclosed: invariant "\<lambda>q :: queue. job_closed k (q_db q)" for k .

named_theorems qclosed_keeps "queue operations that keep a closed job closed"

lemma qclosed_on_storage:
  "moves (\<lambda>c c'. job_closed k (cn_db c) \<longrightarrow> job_closed k (cn_db c')) m \<Longrightarrow>
   moves (\<lambda>q q'. job_closed k (q_db q) \<longrightarrow> job_closed k (q_db q')) (on_storage m)"
  by (rule moves_on_storage)

lemma qclosed_modify:
  "(\<And>q. q_storage (f q) = q_storage q) \<Longrightarrow>
   moves (\<lambda>q q'. job_closed k (q_db q) \<longrightarrow> job_closed k (q_db q')) (modify_op f)"
  by (rule moves_modify) simp

lemma closed_lookup_field [closed_keeps]:
  "moves (\<lambda>c c'. job_closed k (cn_db c) \<longrightarrow> job_closed k (cn_db c')) (lookup_field f i)"
  unfolding lookup_field_def storage_get_job_def
  by (intro closed.inv.moves_rules closed_keeps)

lemma qclosed_insert_event [qclosed_keeps]:
  "moves (\<lambda>q q'. job_closed k (q_db q) \<longrightarrow> job_closed k (q_db q')) (queue_insert_job_event ev)"
  unfolding queue_insert_job_event_def by (intro qclosed_on_storage closed_keeps)

lemma qclosed_get_job [qclosed_keeps]:
  "moves (\<lambda>q q'. job_closed k (q_db q) \<longrightarrow> job_closed k (q_db q')) (get_job i)"
  unfolding get_job_def storage_get_job_def by (intro qclosed_on_storage closed_keeps)

lemma closed_resolve_target [closed_keeps]:
  "moves (\<lambda>c c'. job_closed k (cn_db c) \<longrightarrow> job_closed k (cn_db c')) (resolve_target meta)"
  unfolding resolve_target_def get_virtual_printer_by_ipp_name_def
  by (intro closed.inv.moves_rules closed_keeps)

lemma resolve_target_id:
  "resolve_target meta c = (Inr meta', c') \<Longrightarrow>
   \<exists>t. meta' = meta\<lparr>jm_target_client_id := t\<rparr>"
  by (auto simp: resolve_target_def op_defs split: if_splits prod.splits sum.splits option.splits)
    (metis JobMetadata.surjective JobMetadata.update_convs(4))+

lemma closed_push_store:
  assumes "jm_job_id meta \<noteq> k"
  shows "moves (\<lambda>c c'. job_closed k (cn_db c) \<longrightarrow> job_closed k (cn_db c')) (push_store meta path)"
proof (rule movesI)
  fix c
  obtain r c' where m: "resolve_target meta c = (r, c')" by fastforce
  have closed: "job_closed k (cn_db c) \<longrightarrow> job_closed k (cn_db c')"
    using closed_resolve_target m by (rule movesD)
  have id: "r = Inr meta' \<Longrightarrow> jm_job_id meta' = jm_job_id meta" for meta'
    using resolve_target_id m by fastforce
  show "job_closed k (cn_db c) \<longrightarrow> job_closed k (cn_db (snd (push_store meta path c)))"
  proof (cases r)
    case (Inl e)
    with m closed show ?thesis by (simp add: push_store_def try_op_def)
  next
    case (Inr meta')
    have "moves (\<lambda>c c'. job_closed k (cn_db c) \<longrightarrow> job_closed k (cn_db c'))
            (try_op (insert_job meta' path) (\<lambda>_. ok meta'))"
      using id [OF Inr] assms by (intro closed.inv.moves_rules closed_insert_job) simp
    with m Inr closed show ?thesis by (simp add: push_store_def try_op_def moves_def)
  qed
qed

lemma qclosed_push:
  "jm_job_id meta \<noteq> k \<Longrightarrow>
   moves (\<lambda>q q'. job_closed k (q_db q) \<longrightarrow> job_closed k (q_db q')) (push now meta path)"
  unfolding push_def
  by (intro qclosed.inv.moves_rules qclosed_on_storage closed_push_store qclosed_modify
      qclosed_keeps) simp_all

lemma qclosed_update_state:
  "finished s \<Longrightarrow>
   moves (\<lambda>q q'. job_closed k (q_db q) \<longrightarrow> job_closed k (q_db q')) (update_state now i s)"
  unfolding update_state_def
  by (intro qclosed.inv.moves_rules qclosed_on_storage closed.inv.moves_rules
      closed_update_job_state closed_keeps qclosed_modify) simp_all

lemma qclosed_update_unless_terminal [qclosed_keeps]:
  "moves (\<lambda>q q'. job_closed k (q_db q) \<longrightarrow> job_closed k (q_db q'))
     (update_state_unless_terminal now i s)"
  unfolding update_state_unless_terminal_def
  by (intro qclosed.inv.moves_rules qclosed_on_storage closed.inv.moves_rules
      closed_keeps qclosed_modify) simp_all

lemma qclosed_unconfirm [qclosed_keeps]:
  "moves (\<lambda>q q'. job_closed k (q_db q) \<longrightarrow> job_closed k (q_db q')) (unconfirm_completed now i)"
  unfolding unconfirm_completed_def
  by (intro qclosed.inv.moves_rules qclosed_on_storage closed.inv.moves_rules
      closed_keeps qclosed_modify) simp_all

lemma qclosed_requeue [qclosed_keeps]:
  "moves (\<lambda>q q'. job_closed k (q_db q) \<longrightarrow> job_closed k (q_db q')) (requeue_job now i detail)"
  unfolding requeue_job_def
  by (intro qclosed.inv.moves_rules qclosed_on_storage closed.inv.moves_rules
      closed_keeps qclosed_modify) simp_all

lemma qclosed_drain [qclosed_keeps]:
  "moves (\<lambda>q q'. job_closed k (q_db q) \<longrightarrow> job_closed k (q_db q')) (drain_pending_for_client m)"
  unfolding drain_pending_for_client_def get_queued_jobs_for_client_def select_jobs_def
  by (intro qclosed.inv.moves_rules qclosed_on_storage closed_keeps qclosed_modify) simp_all

lemma qclosed_clients [qclosed_keeps]:
  "moves (\<lambda>q q'. job_closed k (q_db q) \<longrightarrow> job_closed k (q_db q')) (queue_upsert_client reg)"
  "moves (\<lambda>q q'. job_closed k (q_db q) \<longrightarrow> job_closed k (q_db q')) (queue_get_client m)"
  "moves (\<lambda>q q'. job_closed k (q_db q) \<longrightarrow> job_closed k (q_db q')) (queue_set_client_online now m b)"
  "moves (\<lambda>q q'. job_closed k (q_db q) \<longrightarrow> job_closed k (q_db q')) (queue_touch_client now m)"
  "moves (\<lambda>q q'. job_closed k (q_db q) \<longrightarrow> job_closed k (q_db q')) (queue_update_pairing_state m ps)"
  "moves (\<lambda>q q'. job_closed k (q_db q) \<longrightarrow> job_closed k (q_db q')) queue_set_all_clients_offline"
  unfolding queue_upsert_client_def queue_get_client_def queue_set_client_online_def
    queue_touch_client_def get_client_def set_client_online_def touch_client_def
    queue_update_pairing_state_def update_pairing_state_def queue_set_all_clients_offline_def
    set_all_clients_offline_def
  by (intro qclosed.inv.moves_rules qclosed_on_storage closed.inv.moves_rules closed_keeps
      qclosed_modify; simp)+

lemma qclosed_clear [qclosed_keeps]:
  "moves (\<lambda>q q'. job_closed k (q_db q) \<longrightarrow> job_closed k (q_db q')) queue_clear_jobs"
  unfolding queue_clear_jobs_def by (intro qclosed_on_storage closed_keeps)

lemma qclosed_get_stale [qclosed_keeps]:
  "moves (\<lambda>q q'. job_closed k (q_db q) \<longrightarrow> job_closed k (q_db q')) (get_stale_jobs now t)"
  unfolding get_stale_jobs_def storage_get_stale_jobs_def select_jobs_def
  by (intro qclosed_on_storage closed_keeps)

end
