(* ===== verification/Dispatch.thy ===== *)
theory Dispatch
  imports Job_Queue
begin

text \<open>
  The gRPC dispatch service of \<open>crates/devbridge-server/src/dispatch.rs\<close>: the peers of the live
  job streams, the life of one \<open>SubscribeJobs\<close> connection as a process whose program counter
  stands between the critical sections of the handler and of the delivery task it spawns,
  payload chunking, status updates, job completion with its retry schedule, heartbeats, and
  the stale-job reaper of \<open>crates/devbridge-service/src/runtime.rs\<close>.
\<close>

section \<open>Wire messages\<close>

datatype WireState =
    Wire_Unspecified | Wire_Queued | Wire_Downloading | Wire_Printing | Wire_Completed
  | Wire_Failed | Wire_Cancelled | Wire_Rendering | Wire_Sending

text \<open>\<open>update.state()\<close>: a number outside the enumeration reads as the default.\<close>

definition wire_state :: "int \<Rightarrow> WireState" where
  "wire_state n =
     (if n = 1 then Wire_Queued else if n = 2 then Wire_Downloading
      else if n = 3 then Wire_Printing else if n = 4 then Wire_Completed
      else if n = 5 then Wire_Failed else if n = 6 then Wire_Cancelled
      else if n = 7 then Wire_Rendering else if n = 8 then Wire_Sending
      else Wire_Unspecified)"

type_synonym ip = "u8 list"

record ClientIdentity =
  ci_machine_id :: string
  ci_hostname :: string
  ci_printer_names :: "string list"
  ci_client_version :: string
  ci_virtual_printer_name :: string
  ci_virtual_printer_driver :: string

record PrintJob =
  pj_job_id :: string
  pj_target_printer :: string
  pj_document_name :: string
  pj_copies :: u32
  pj_paper_size :: string
  pj_duplex :: bool
  pj_color :: bool
  pj_payload_size :: u64
  pj_payload_sha256 :: string
  pj_created_at :: "int \<times> int"
  pj_retry_count :: u32

record PayloadChunk =
  pc_job_id :: string
  pc_offset :: u64
  pc_data :: "u8 list"
  pc_is_last :: bool

record JobStatusUpdate =
  su_job_id :: string
  su_state :: int
  su_message :: string

record JobCompletion =
  jc_job_id :: string
  jc_success :: bool
  jc_error_detail :: string
  jc_pages_printed :: u32
  jc_printer_status :: string
  jc_spooler_status :: string
  jc_verification_method :: string
  jc_verification_evidence :: string
  jc_client_id :: string
  jc_unconfirmed :: bool

datatype grpc_status =
    PermissionDenied string
  | Internal err
  | StatusNotFound string
  | SpoolUnreadable string

section \<open>Stream peers\<close>

type_synonym stream_peers = "string \<Rightarrow> (string \<times> ip option) option"

definition connected :: "string \<Rightarrow> string \<Rightarrow> ip option \<Rightarrow> stream_peers \<Rightarrow> stream_peers" where
  "connected machine_id connection_id peer m = m(machine_id \<mapsto> (connection_id, peer))"

definition disconnected :: "string \<Rightarrow> string \<Rightarrow> stream_peers \<Rightarrow> stream_peers" where
  "disconnected machine_id connection_id m =
     (case m machine_id of
        Some (live, _) \<Rightarrow> if live = connection_id then m(machine_id := None) else m
      | None \<Rightarrow> m)"

definition peer_of :: "string \<Rightarrow> stream_peers \<Rightarrow> ip option" where
  "peer_of machine_id m = (case m machine_id of None \<Rightarrow> None | Some (_, peer) \<Rightarrow> peer)"

section \<open>Service state\<close>

text \<open>Where a \<open>SubscribeJobs\<close> connection stands, between two critical sections.\<close>

datatype conn_pc =
    C_Upsert                  \<comment> \<open>handler: registration not stored yet\<close>
  | C_PairCheck               \<comment> \<open>handler: pairing state not read yet\<close>
  | C_Register                \<comment> \<open>handler: channel not registered yet\<close>
  | C_Online                  \<comment> \<open>handler: not marked online yet\<close>
  | C_Drain                   \<comment> \<open>handler: held jobs not drained yet\<close>
  | C_Check                   \<comment> \<open>task: head of the loop\<close>
  | C_Gate                    \<comment> \<open>task: found not approved, not yet waiting\<close>
  | C_PairWait nat            \<comment> \<open>task: waiting on \<open>pairing_notify\<close>, created at this count\<close>
  | C_Poll bool               \<comment> \<open>task: approved; may take default jobs\<close>
  | C_Default bool nat        \<comment> \<open>task: own channel empty; \<open>notified\<close> created at this count\<close>
  | C_Select nat              \<comment> \<open>task: in \<open>tokio::select!\<close>\<close>
  | C_Send string             \<comment> \<open>task: about to \<open>send_job\<close>\<close>
  | C_Deliver PrintJob        \<comment> \<open>task: in \<open>send_job\<close>, waiting for room on the stream\<close>
  | C_Closing                 \<comment> \<open>task: left the loop\<close>
  | C_IsActive                \<comment> \<open>cleanup: about to ask \<open>is_active_connection\<close>\<close>
  | C_Unregister              \<comment> \<open>cleanup: was active\<close>
  | C_Offline                 \<comment> \<open>cleanup: about to mark offline\<close>
  | C_Rejected                \<comment> \<open>answered \<open>permission_denied\<close>\<close>
  | C_Ended

record conn_proc =
  pr_identity :: ClientIdentity
  pr_peer :: "ip option"
  pr_conn :: string
  pr_chan :: nat
  pr_pc :: conn_pc

text \<open>A scheduled requeue: the task of \<open>complete_job\<close> that sleeps out the backoff.\<close>

record retry_task =
  rt_job_id :: string
  rt_detail :: string
  rt_due :: instant

record server =
  sv_queue :: queue
  sv_peers :: stream_peers
  sv_connected_clients :: u64
  sv_conns :: "conn_proc list"
  sv_retries :: "retry_task list"
  sv_stale :: "JobMetadata list"          \<comment> \<open>the reaper's list, still to visit\<close>
  sv_streamed :: "(conn_proc \<times> PrintJob) list"   \<comment> \<open>what was put on which stream, in order\<close>
  sv_used_ids :: "string list"            \<comment> \<open>job ids (UUIDs) given out so far\<close>

definition machine :: "conn_proc \<Rightarrow> string" where
  "machine p = ci_machine_id (pr_identity p)"

definition opt_text :: "string \<Rightarrow> string option" where
  "opt_text s = (if s = [] then None else Some s)"

definition registration_of :: "instant \<Rightarrow> ClientIdentity \<Rightarrow> ClientRegistration" where
  "registration_of now ident =
     \<lparr>cr_machine_id = ci_machine_id ident, cr_hostname = ci_hostname ident,
      cr_printer_names = ci_printer_names ident, cr_client_version = ci_client_version ident,
      cr_last_seen = now, cr_is_online = True, cr_pairing_state = Pair_Pending,
      cr_virtual_printer_name = opt_text (ci_virtual_printer_name ident),
      cr_virtual_printer_driver = opt_text (ci_virtual_printer_driver ident)\<rparr>"

section \<open>Sending a job\<close>

definition proto_job :: "JobMetadata \<Rightarrow> PrintJob" where
  "proto_job meta =
     \<lparr>pj_job_id = jm_job_id meta, pj_target_printer = jm_target_printer meta,
      pj_document_name = jm_document_name meta, pj_copies = jm_copies meta,
      pj_paper_size = jm_paper_size meta, pj_duplex = jm_duplex meta, pj_color = jm_color meta,
      pj_payload_size = jm_payload_size meta, pj_payload_sha256 = jm_payload_sha256 meta,
      pj_created_at = (jm_created_at meta div 10 ^ 9, jm_created_at meta mod 10 ^ 9),
      pj_retry_count = jm_retry_count meta\<rparr>"

text \<open>
  The first half of \<open>send_job\<close>: the job to put on the stream for a job id, from the storage as it is now,
  if it is still queued. Then the task awaits \<open>tx.send\<close>: the stream has a bounded buffer, so anything
  can happen before the message is taken.
\<close>

definition load_job :: "string \<Rightarrow> queue \<Rightarrow> PrintJob option \<times> queue" where
  "load_job job_id q =
     (case get_job job_id q of
        (Inr (Some meta), q') \<Rightarrow>
          (if jm_state meta \<noteq> JS_Queued then None else Some (proto_job meta), q')
      | (_, q') \<Rightarrow> (None, q'))"

section \<open>One connection\<close>

text \<open>
  What happens around a step: the clock, a fresh connection id, a dropped stream, and which
  ready branch \<open>tokio::select!\<close> picks.
\<close>

record step_env =
  en_now :: instant
  en_uuid :: string
  en_gone :: bool
  en_notified_first :: bool

text \<open>\<open>is_approved\<close> and \<open>takes_default_queue\<close> of one \<open>get_client\<close> answer.\<close>

definition approved :: "ClientRegistration option \<Rightarrow> bool" where
  "approved r = (case r of None \<Rightarrow> False | Some c \<Rightarrow> cr_pairing_state c = Pair_Approved)"

definition may_take_default :: "ClientRegistration option \<Rightarrow> bool" where
  "may_take_default r = (case r of None \<Rightarrow> True | Some c \<Rightarrow> takes_default_queue c)"

definition at :: "conn_pc \<Rightarrow> conn_proc \<Rightarrow> conn_proc" where
  "at pc p = p\<lparr>pr_pc := pc\<rparr>"

definition with_queue :: "server \<Rightarrow> queue \<Rightarrow> server" where
  "with_queue sv q = sv\<lparr>sv_queue := q\<rparr>"

text \<open>One section of the connection; a section that cannot run yet changes nothing.\<close>

definition conn_step :: "step_env \<Rightarrow> conn_proc \<Rightarrow> server \<Rightarrow> conn_proc \<times> server" where
  "conn_step env p sv =
     (let q = sv_queue sv; now = en_now env in
      case pr_pc p of
        C_Upsert \<Rightarrow>
          (at C_PairCheck p,
           with_queue sv (snd (queue_upsert_client (registration_of now (pr_identity p)) q)))
      | C_PairCheck \<Rightarrow>
          (case queue_get_client (machine p) q of
             (Inr (Some stored), q') \<Rightarrow>
               (at (if cr_pairing_state stored = Pair_Rejected then C_Rejected else C_Register) p,
                with_queue sv q')
           | (_, q') \<Rightarrow> (at C_Register p, with_queue sv q'))
      | C_Register \<Rightarrow>
          (case register_client (machine p) (en_uuid env) q of
             (ch, q') \<Rightarrow>
               (at C_Online (p\<lparr>pr_conn := en_uuid env, pr_chan := ch\<rparr>),
                sv\<lparr>sv_queue := q',
                   sv_peers := connected (machine p) (en_uuid env) (pr_peer p) (sv_peers sv)\<rparr>))
      | C_Online \<Rightarrow>
          (at C_Drain p,
           sv\<lparr>sv_queue := snd (queue_set_client_online now (machine p) True q),
              sv_connected_clients := sv_connected_clients sv + 1\<rparr>)
      | C_Drain \<Rightarrow> (at C_Check p, with_queue sv (snd (drain_pending_for_client (machine p) q)))
      | C_Check \<Rightarrow>
          (case queue_get_client (machine p) q of
             (r, q') \<Rightarrow>
               (at (if approved (ok_flatten r) then C_Poll (may_take_default (ok_flatten r))
                    else C_Gate) p,
                with_queue sv q'))
      | C_Gate \<Rightarrow> (at (C_PairWait (q_pairing_notify q)) p, sv)
      | C_PairWait n \<Rightarrow> if n < q_pairing_notify q then (at C_Check p, sv) else (p, sv)
      | C_Poll takes \<Rightarrow>
          (case chan_recv (pr_chan p) q of
             (Some job_id, q') \<Rightarrow> (at (C_Send job_id) p, with_queue sv q')
           | (None, _) \<Rightarrow> (at (C_Default takes (q_default_notify q)) p, sv))
      | C_Default takes n \<Rightarrow>
          if \<not> takes then (at (C_Select n) p, sv)
          else (case next_job q of
                  (Some job_id, q') \<Rightarrow> (at (C_Send job_id) p, with_queue sv q')
                | (None, _) \<Rightarrow> (at (C_Select n) p, sv))
      | C_Select n \<Rightarrow>
          if en_notified_first env \<and> n < q_default_notify q then (at C_Check p, sv)
          else (case chan_recv (pr_chan p) q of
                  (Some job_id, q') \<Rightarrow> (at (C_Send job_id) p, with_queue sv q')
                | (None, _) \<Rightarrow> if n < q_default_notify q then (at C_Check p, sv) else (p, sv))
      | C_Send job_id \<Rightarrow>
          (case load_job job_id q of
             (None, q') \<Rightarrow> (at C_Check p, with_queue sv q')
           | (Some job, q') \<Rightarrow> (at (C_Deliver job) p, with_queue sv q'))
      | C_Deliver job \<Rightarrow>
          if en_gone env then (at C_Closing p, sv)
          else (at C_Check p, sv\<lparr>sv_streamed := sv_streamed sv @ [(p, job)]\<rparr>)
      | C_Closing \<Rightarrow>
          (at C_IsActive p,
           sv\<lparr>sv_connected_clients := sv_connected_clients sv - 1,
              sv_peers := disconnected (machine p) (pr_conn p) (sv_peers sv)\<rparr>)
      | C_IsActive \<Rightarrow>
          if is_active_connection (machine p) (pr_conn p) q then (at C_Unregister p, sv)
          else (at C_Ended p, with_queue sv (chan_drop (pr_chan p) q))
      | C_Unregister \<Rightarrow>
          (at C_Offline p, with_queue sv (unregister_client (machine p) (pr_conn p) q))
      | C_Offline \<Rightarrow>
          (at C_Ended p,
           with_queue sv (chan_drop (pr_chan p)
             (snd (queue_set_client_online now (machine p) False q))))
      | C_Rejected \<Rightarrow> (p, sv)
      | C_Ended \<Rightarrow> (p, sv))"

section \<open>Payload download\<close>

definition CHUNK_SIZE :: nat where
  "CHUNK_SIZE = 64 * 1024"

text \<open>The loop \<open>while offset < total\<close> of the streaming task.\<close>

function chunks_from :: "string \<Rightarrow> u8 list \<Rightarrow> nat \<Rightarrow> PayloadChunk list" where
  "chunks_from job_id data offset =
     (if offset < length data
      then let stop = min (offset + CHUNK_SIZE) (length data)
           in \<lparr>pc_job_id = job_id, pc_offset = of_nat offset,
               pc_data = take (stop - offset) (drop offset data),
               pc_is_last = (stop \<ge> length data)\<rparr> # chunks_from job_id data stop
      else [])"
  by pat_completeness auto
termination
  by (relation "measure (\<lambda>(_, data, offset). length data - offset)") (auto simp: CHUNK_SIZE_def)

declare chunks_from.simps [simp del]

text \<open>
  \<open>read_spool\<close> stands for \<open>tokio::fs::read\<close>. The offset of the request is a \<open>u64\<close>.
\<close>

definition download_payload ::
    "(string \<Rightarrow> u8 list option) \<Rightarrow> string \<Rightarrow> u64 \<Rightarrow> queue \<Rightarrow> (grpc_status + PayloadChunk list) \<times> queue" where
  "download_payload read_spool job_id start_offset q =
     (case queue_get_spool_path job_id q of
        (Inl e, q') \<Rightarrow> (Inl (Internal e), q')
      | (Inr None, q') \<Rightarrow> (Inl (StatusNotFound job_id), q')
      | (Inr (Some spool_path), q') \<Rightarrow>
          (case read_spool spool_path of
             None \<Rightarrow> (Inl (SpoolUnreadable spool_path), q')
           | Some data \<Rightarrow> (Inr (chunks_from job_id data (unat start_offset)), q')))"

section \<open>Status updates\<close>

definition status_update_state :: "JobState \<Rightarrow> PrintStage option \<Rightarrow> JobState" where
  "status_update_state wire stage =
     (if stage = Some PS_Unconfirmed then JS_Unconfirmed else wire)"

fun proto_state_to_core :: "WireState \<Rightarrow> JobState" where
  "proto_state_to_core Wire_Unspecified = JS_Queued"
| "proto_state_to_core Wire_Queued = JS_Queued"
| "proto_state_to_core Wire_Downloading = JS_Downloading"
| "proto_state_to_core Wire_Printing = JS_Printing"
| "proto_state_to_core Wire_Completed = JS_Completed"
| "proto_state_to_core Wire_Failed = JS_Failed"
| "proto_state_to_core Wire_Cancelled = JS_Cancelled"
| "proto_state_to_core Wire_Rendering = JS_Printing"
| "proto_state_to_core Wire_Sending = JS_Printing"

text \<open>\<open>parse\<close> stands for \<open>serde_json::from_str::<PrintJobEvent>\<close>.\<close>

definition apply_status_update ::
    "(string \<Rightarrow> PrintJobEvent option) \<Rightarrow> instant \<Rightarrow> JobStatusUpdate \<Rightarrow> (queue, unit) op" where
  "apply_status_update parse now upd =
     (let event = (if su_message upd = [] then None else parse (su_message upd));
          state = status_update_state (proto_state_to_core (wire_state (su_state upd)))
                    (map_option ev_stage event)
      in try_op (update_state_unless_terminal now (su_job_id upd) state) (\<lambda>_.
           case event of
             None \<Rightarrow> ok ()
           | Some ev \<Rightarrow> ignore_op (queue_insert_job_event ev) (ok ())))"

text \<open>\<open>report_status\<close>: the stream of updates, ended by the first that fails.\<close>

definition report_status ::
    "(string \<Rightarrow> PrintJobEvent option) \<Rightarrow> instant \<Rightarrow> JobStatusUpdate list \<Rightarrow> (queue, unit) op" where
  "report_status parse now upds = for_op upds (apply_status_update parse now)"

section \<open>Job completion\<close>

text \<open>An audit event of \<open>complete_job\<close> with the verification the client sent.\<close>

definition completion_event ::
    "instant \<Rightarrow> JobCompletion \<Rightarrow> PrintStage \<Rightarrow> bool \<Rightarrow> string \<Rightarrow> PrintJobEvent" where
  "completion_event now c stage success detail =
     \<lparr>ev_job_id = jc_job_id c, ev_requesting_user = None, ev_stage = stage,
      ev_success = success, ev_detail = detail,
      ev_verification_method = jc_verification_method c,
      ev_verification_evidence = jc_verification_evidence c, ev_timestamp = now\<rparr>"

definition mismatch_event :: "instant \<Rightarrow> JobCompletion \<Rightarrow> string \<Rightarrow> PrintJobEvent" where
  "mismatch_event now c expected =
     \<lparr>ev_job_id = jc_job_id c, ev_requesting_user = None, ev_stage = PS_Completed,
      ev_success = True,
      ev_detail = ''Completed by '' @ jc_client_id c @ '' (originally routed to '' @ expected @ '')'',
      ev_verification_method = ''client_mismatch'',
      ev_verification_evidence = ''expected='' @ expected @ '', actual='' @ jc_client_id c,
      ev_timestamp = now\<rparr>"

text \<open>The warning written when another client than the routed one completes the job.\<close>

definition warn_mismatch :: "instant \<Rightarrow> JobCompletion \<Rightarrow> (queue, unit) op" where
  "warn_mismatch now c =
     match_op (get_job (jc_job_id c))
       (\<lambda>r. case r of
              Inr (Some job) \<Rightarrow>
                (case jm_target_client_id job of
                   Some expected \<Rightarrow>
                     if jc_client_id c \<noteq> [] \<and> jc_client_id c \<noteq> expected
                     then ignore_op (queue_insert_job_event (mismatch_event now c expected)) (ok ())
                     else ok ()
                 | None \<Rightarrow> ok ())
            | _ \<Rightarrow> ok ())"

definition completed_detail :: "JobCompletion \<Rightarrow> string" where
  "completed_detail c =
     ''Completed ('' @ (if jc_verification_method c = [] then ''no verification''
                        else jc_verification_method c) @ '')''"

text \<open>\<open>retry_delay_secs.saturating_mul(1u64 << current_retry.min(6))\<close>, in seconds.\<close>

definition retry_delay :: "u64 \<Rightarrow> u32 \<Rightarrow> nat" where
  "retry_delay retry_delay_secs current_retry =
     min (unat retry_delay_secs * 2 ^ min (unat current_retry) 6) (2 ^ 64 - 1)"

definition late_failure_detail :: "JobCompletion \<Rightarrow> string" where
  "late_failure_detail c =
     ''failed after it was reported completed - maybe partly printed, not resent: '' @
     jc_error_detail c"

text \<open>The branch of a failed job: marked failed, and a retry when the limit allows.\<close>

definition fail_branch ::
    "u32 \<Rightarrow> u64 \<Rightarrow> instant \<Rightarrow> JobCompletion \<Rightarrow> (queue, retry_task option) op" where
  "fail_branch max_retries retry_delay_secs now c =
     try_op (update_state_unless_terminal now (jc_job_id c) JS_Failed) (\<lambda>marked_failed.
     if \<not> marked_failed then
       try_op (unconfirm_completed now (jc_job_id c)) (\<lambda>unconfirmed.
         if unconfirmed
         then ignore_op (queue_insert_job_event
                (event_fail now (jc_job_id c) PS_Unconfirmed (late_failure_detail c))) (ok None)
         else ok None)
     else match_op (get_job (jc_job_id c)) (\<lambda>r.
       case ok_flatten r of
         Some job \<Rightarrow>
           if jm_retry_count job < max_retries
           then ok (Some \<lparr>rt_job_id = jc_job_id c, rt_detail = jc_error_detail c,
                          rt_due = now + int (retry_delay retry_delay_secs (jm_retry_count job)) * 10 ^ 9\<rparr>)
           else ok None
       | None \<Rightarrow> ok None))"

definition complete_job ::
    "u32 \<Rightarrow> u64 \<Rightarrow> instant \<Rightarrow> JobCompletion \<Rightarrow> (queue, retry_task option) op" where
  "complete_job max_retries retry_delay_secs now c =
     ignore_op (warn_mismatch now c)
     (if jc_success c then
        ignore_op (queue_insert_job_event
                     (completion_event now c PS_Completed True (completed_detail c)))
          (try_op (update_state now (jc_job_id c) JS_Completed) (\<lambda>_. ok None))
      else if jc_unconfirmed c then
        ignore_op (queue_insert_job_event
                     (completion_event now c PS_Unconfirmed False (jc_error_detail c)))
          (try_op (update_state now (jc_job_id c) JS_Unconfirmed) (\<lambda>_. ok None))
      else
        ignore_op (queue_insert_job_event
                     (completion_event now c PS_Failed False (jc_error_detail c)))
          (fail_branch max_retries retry_delay_secs now c))"

section \<open>Heartbeat, reaper\<close>

definition heartbeat :: "instant \<Rightarrow> string \<Rightarrow> (queue, unit) op" where
  "heartbeat now machine_id =
     (if machine_id = [] then ok () else ignore_op (queue_touch_client now machine_id) (ok ()))"

text \<open>The requeue task of the service: the stale list, then one visit per job of it.\<close>

definition reaper_tick :: "u64 \<Rightarrow> instant \<Rightarrow> (queue, JobMetadata list) op" where
  "reaper_tick retry_delay_secs now =
     match_op (get_stale_jobs now (retry_delay_secs * 10))
       (\<lambda>r. ok (case r of Inl _ \<Rightarrow> [] | Inr stale \<Rightarrow> stale))"

definition reaper_visit :: "u32 \<Rightarrow> instant \<Rightarrow> JobMetadata \<Rightarrow> (queue, unit) op" where
  "reaper_visit max_retries now job =
     (if jm_retry_count job < max_retries
      then ignore_op (requeue_job now (jm_job_id job) ''stale: stuck in progress'') (ok ())
      else ok ())"

section \<open>Properties of the download\<close>

lemma chunks_concat: "concat (map pc_data (chunks_from j data off)) = drop off data"
proof (induction j data off rule: chunks_from.induct)
  case (1 j data off)
  show ?case
  proof (cases "off < length data")
    case True
    let ?stop = "min (off + CHUNK_SIZE) (length data)"
    have "take (?stop - off) (drop off data) @ drop ?stop data = drop off data"
      using True
      by (metis append_take_drop_id drop_drop le_add_diff_inverse2 less_imp_le_nat min.bounded_iff
          le_add1)
    with True 1 show ?thesis by (subst chunks_from.simps) (simp add: Let_def)
  next
    case False
    then show ?thesis by (simp add: chunks_from.simps)
  qed
qed

lemma chunks_sizes:
  "list_all (\<lambda>c. pc_job_id c = j \<and> pc_data c \<noteq> [] \<and> length (pc_data c) \<le> CHUNK_SIZE)
     (chunks_from j data off)"
proof (induction j data off rule: chunks_from.induct)
  case (1 j data off)
  then show ?case
    by (subst chunks_from.simps) (auto simp: Let_def CHUNK_SIZE_def min_def)
qed

lemma chunks_empty: "chunks_from j data off = [] \<longleftrightarrow> length data \<le> off"
  by (subst chunks_from.simps) (simp add: Let_def not_less)

lemma chunks_last:
  "map pc_is_last (chunks_from j data off) =
     (if off < length data then replicate (length (chunks_from j data off) - 1) False @ [True] else [])"
proof (induction j data off rule: chunks_from.induct)
  case (1 j data off)
  show ?case
  proof (cases "off < length data")
    case True
    let ?stop = "min (off + CHUNK_SIZE) (length data)"
    have unfolded: "chunks_from j data off =
      \<lparr>pc_job_id = j, pc_offset = of_nat off, pc_data = take (?stop - off) (drop off data),
       pc_is_last = (?stop \<ge> length data)\<rparr> # chunks_from j data ?stop"
      using True by (subst chunks_from.simps) (simp add: Let_def)
    show ?thesis
    proof (cases "?stop < length data")
      case More: True
      then have "chunks_from j data ?stop \<noteq> []" by (simp add: chunks_empty)
      then obtain n where "length (chunks_from j data ?stop) = Suc n"
        by (cases "chunks_from j data ?stop") auto
      with 1 [OF True refl] More True show ?thesis
        unfolding unfolded by simp
    next
      case False
      then have "chunks_from j data ?stop = []" by (simp add: chunks_empty)
      with False True show ?thesis unfolding unfolded by simp
    qed
  next
    case False
    then show ?thesis by (simp add: chunks_from.simps)
  qed
qed

text \<open>Resuming at a chunk boundary continues the same stream.\<close>

lemma chunks_resume:
  "i < length (chunks_from j data off) \<Longrightarrow>
   chunks_from j data (off + i * CHUNK_SIZE) = drop i (chunks_from j data off) \<and>
   pc_offset (chunks_from j data off ! i) = of_nat (off + i * CHUNK_SIZE)"
proof (induction i arbitrary: off)
  case 0
  then have "off < length data" using chunks_empty [of j data off] by auto
  then show ?case by (simp add: chunks_from.simps [of j data off] Let_def)
next
  case (Suc i)
  then have off: "off < length data" using chunks_empty [of j data off] by auto
  let ?stop = "min (off + CHUNK_SIZE) (length data)"
  have tail: "tl (chunks_from j data off) = chunks_from j data ?stop"
    and cons: "chunks_from j data off = hd (chunks_from j data off) # chunks_from j data ?stop"
    using off by (subst chunks_from.simps, simp add: Let_def)+
  have i: "i < length (chunks_from j data ?stop)"
    using Suc.prems tail by (metis length_tl less_diff_conv Suc_eq_plus1)
  then have "?stop < length data" using chunks_empty [of j data ?stop] by auto
  then have stop: "?stop = off + CHUNK_SIZE" by simp
  have "drop (Suc i) (chunks_from j data off) = drop i (chunks_from j data ?stop)"
    and "chunks_from j data off ! Suc i = chunks_from j data ?stop ! i"
    by (subst cons, simp)+
  with Suc.IH [of ?stop] i stop show ?case by (simp add: algebra_simps)
qed

text \<open>
  C26. The download of a spool file from an offset: the chunks put together are exactly the
  bytes from the offset on, each chunk carries the job id and between 1 and 65536 bytes, only
  the last one is marked last, and nothing is sent when the offset is at or past the end.
\<close>

theorem download_chunks_complete:
  "concat (map pc_data (chunks_from job_id data offset)) = drop offset data
   \<and> list_all (\<lambda>c. pc_job_id c = job_id \<and> 0 < length (pc_data c) \<and> length (pc_data c) \<le> 65536)
       (chunks_from job_id data offset)
   \<and> (chunks_from job_id data offset = [] \<longleftrightarrow> length data \<le> offset)
   \<and> map pc_is_last (chunks_from job_id data offset) =
       (if offset < length data
        then replicate (length (chunks_from job_id data offset) - 1) False @ [True] else [])"
  using chunks_concat chunks_sizes [of job_id data offset] chunks_empty chunks_last
  by (auto simp: CHUNK_SIZE_def list_all_iff)

text \<open>
  A download can be resumed: asking again from the offset that a chunk carries gives the
  rest of the same stream, beginning with that chunk.
\<close>

theorem download_resumes:
  assumes "i < length (chunks_from job_id data offset)" and "length data < 2 ^ 64"
  shows "chunks_from job_id data (unat (pc_offset (chunks_from job_id data offset ! i))) =
           drop i (chunks_from job_id data offset)"
proof -
  have r: "chunks_from job_id data (offset + i * CHUNK_SIZE) = drop i (chunks_from job_id data offset)"
    "pc_offset (chunks_from job_id data offset ! i) = of_nat (offset + i * CHUNK_SIZE)"
    using chunks_resume [OF assms(1)] by auto
  have "drop i (chunks_from job_id data offset) \<noteq> []" using assms(1) by simp
  then have "offset + i * CHUNK_SIZE < length data"
    using r(1) chunks_empty [of job_id data "offset + i * CHUNK_SIZE"] by auto
  with assms(2) have "offset + i * CHUNK_SIZE < 2 ^ 64" by linarith
  then have "unat (of_nat (offset + i * CHUNK_SIZE) :: u64) = offset + i * CHUNK_SIZE"
    by (simp only: unat_of_nat) simp
  with r show ?thesis by (simp only:)
qed

theorem download_resumes_witness:
  "chunks_from ''j'' (replicate 7 1) (unat (pc_offset (chunks_from ''j'' (replicate 7 1) 3 ! 0))) =
     drop 0 (chunks_from ''j'' (replicate 7 (1 :: u8)) 3)"
  using chunks_empty [of "''j''" "replicate 7 1" 3]
  by (intro download_resumes) simp_all

text \<open>
  The backoff before a retry never overflows and stays between the configured delay and
  64 times that delay (or the largest 64-bit number of seconds), doubling per retry up to the
  sixth.
\<close>

theorem retry_delay_bounds:
  "unat d \<le> retry_delay d n \<and> retry_delay d n \<le> 64 * unat d \<and> retry_delay d n < 2 ^ 64
   \<and> (unat n < 6 \<and> unat d * 128 < 2 ^ 64 \<longrightarrow> retry_delay d (n + 1) = 2 * retry_delay d n)"
proof -
  have d: "unat d < 2 ^ 64" using unsigned_less [of d] by simp
  have p: "2 ^ min (unat n) 6 \<le> (64 :: nat)"
    using power_increasing [of "min (unat n) 6" 6 "2 :: nat"] by simp
  have hi: "unat d * 2 ^ min (unat n) 6 \<le> unat d * 64" using p by (rule mult_le_mono2)
  have lo: "unat d \<le> unat d * 2 ^ min (unat n) 6" by simp
  have twice: "retry_delay d (n + 1) = 2 * retry_delay d n"
    if n: "unat n < 6" and small: "unat d * 128 < 2 ^ 64"
  proof -
    have suc: "unat (n + 1) = Suc (unat n)"
      using n by (simp add: unat_word_ariths(1))
    have le: "2 ^ Suc (unat n) \<le> (64 :: nat)"
      using n power_increasing [of "Suc (unat n)" 6 "2 :: nat"] by simp
    have "unat d * 2 ^ Suc (unat n) \<le> unat d * 64" using le by (rule mult_le_mono2)
    with small have "unat d * 2 ^ Suc (unat n) < 2 ^ 64" by linarith
    with n suc show ?thesis by (simp add: retry_delay_def min_def)
  qed
  have "unat d \<le> retry_delay d n" using lo d unfolding retry_delay_def by (intro min.boundedI) linarith+
  moreover have "retry_delay d n \<le> 64 * unat d" using hi unfolding retry_delay_def by linarith
  moreover have "retry_delay d n < 2 ^ 64" by (simp add: retry_delay_def min_less_iff_disj)
  ultimately show ?thesis using twice by blast
qed

theorem retry_delay_bounds_witness:
  "retry_delay 30 (2 + 1) = 2 * retry_delay 30 2 \<and> retry_delay 30 2 \<le> 64 * unat (30 :: u64)"
  using retry_delay_bounds [of 30 2] by simp

section \<open>The outcome of a completion\<close>

text \<open>A queue whose database answers and is well-formed, and its job board.\<close>

definition qgood :: "queue \<Rightarrow> bool" where
  "qgood q \<longleftrightarrow> cn_faults (q_storage q) = [] \<and> store_wf (q_db q)"

abbreviation qboard :: "queue \<Rightarrow> board" where
  "qboard q \<equiv> board_of (q_db q)"

text \<open>\<open>yields m q x b\<close>: the operation answers \<open>x\<close> and leaves a good queue with board \<open>b\<close>.\<close>

definition yields :: "(queue, 'a) op \<Rightarrow> queue \<Rightarrow> err + 'a \<Rightarrow> board \<Rightarrow> bool" where
  "yields m q x b \<longleftrightarrow> (\<exists>q'. m q = (x, q') \<and> qgood q' \<and> qboard q' = b)"

lemma yields_ok: "qgood q \<Longrightarrow> yields (ok x) q (Inr x) (qboard q)"
  by (simp add: yields_def ok_def)

lemma yields_ignore:
  "yields m q x b \<Longrightarrow> (\<And>q'. qgood q' \<Longrightarrow> qboard q' = b \<Longrightarrow> yields k q' y b') \<Longrightarrow>
   yields (ignore_op m k) q y b'"
  by (auto simp: yields_def ignore_op_def match_op_def)

lemma yields_try:
  "yields m q (Inr x) b \<Longrightarrow> (\<And>q'. qgood q' \<Longrightarrow> qboard q' = b \<Longrightarrow> yields (f x) q' y b') \<Longrightarrow>
   yields (try_op m f) q y b'"
  by (auto simp: yields_def try_op_def)

lemma yields_match:
  "yields m q x b \<Longrightarrow> (\<And>q'. qgood q' \<Longrightarrow> qboard q' = b \<Longrightarrow> yields (f x) q' y b') \<Longrightarrow>
   yields (match_op m f) q y b'"
  by (auto simp: yields_def match_op_def)

lemma board_same_jobs: "st_jobs d' = st_jobs d \<Longrightarrow> board_of d' = board_of d"
  by (simp add: board_of_def fun_eq_iff)

lemma yields_event: "qgood q \<Longrightarrow> yields (queue_insert_job_event ev) q (Inr ()) (qboard q)"
  by (auto simp: yields_def queue_insert_job_event_def on_storage_def zoom_op_def
      insert_job_event_def qgood_def store_wf_def intro!: board_same_jobs)

lemma get_job_quiet:
  assumes "qgood q"
  shows "get_job k q = (Inr (case row_of jr_job_id k (st_jobs (q_db q)) of None \<Rightarrow> None
           | Some r \<Rightarrow> (case row_to_job r of Inr m \<Rightarrow> Some m)), q)
       \<and> (\<forall>r. row_of jr_job_id k (st_jobs (q_db q)) = Some r \<longrightarrow> (\<exists>m. row_to_job r = Inr m))"
proof -
  have "row_of jr_job_id k (st_jobs (q_db q)) = Some r \<Longrightarrow> \<exists>m. row_to_job r = Inr m" for r
    using assms row_of_SomeD [of jr_job_id k "st_jobs (q_db q)" r]
    by (auto simp: qgood_def store_wf_def readable_def row_to_job_def)
  with assms show ?thesis
    by (fastforce simp: get_job_def on_storage_def zoom_op_def storage_get_job_def qgood_def
        split: option.splits)
qed

lemma yields_get_job:
  assumes "qgood q" and "qboard q k = Some (x, n)"
  shows "\<exists>job. jm_job_id job = k \<and> jm_state job = x \<and> jm_retry_count job = word_of_int n
       \<and> yields (get_job k) q (Inr (Some job)) (qboard q)"
proof -
  obtain r where r: "row_of jr_job_id k (st_jobs (q_db q)) = Some r"
      and x: "x = str_to_state (jr_state r)" and n: "n = jr_retry_count r"
    using assms(2) by (auto simp: board_of_def)
  obtain m where m: "row_to_job r = Inr m" using get_job_quiet [OF assms(1), of k] r by blast
  have "jm_job_id m = k \<and> jm_state m = x \<and> jm_retry_count m = word_of_int n"
    using m x n row_of_SomeD [OF r] by (auto simp: row_to_job_def split: if_splits)
  moreover have "yields (get_job k) q (Inr (Some m)) (qboard q)"
    using get_job_quiet [OF assms(1), of k] r m assms(1) by (simp add: yields_def)
  ultimately show ?thesis by blast
qed

lemma yields_warn: "qgood q \<Longrightarrow> \<exists>r. yields (warn_mismatch now c) q r (qboard q)"
proof -
  assume q: "qgood q"
  have "yields (ignore_op (queue_insert_job_event ev) (ok ())) q (Inr ()) (qboard q)" for ev
    using q by (intro yields_ignore [OF yields_event]) (auto simp: yields_def ok_def)
  then have event: "\<exists>r q'. ignore_op (queue_insert_job_event ev) (ok ()) q = (r, q') \<and> qgood q' \<and>
      qboard q' = qboard q" for ev
    by (meson yields_def)
  have skip: "\<exists>r q'. ok () q = (r, q') \<and> qgood q' \<and> qboard q' = qboard q"
    using q by (simp add: ok_def)
  obtain job where "get_job (jc_job_id c) q = (Inr job, q)"
    using get_job_quiet [OF q, of "jc_job_id c"] by auto
  then show ?thesis
    unfolding yields_def warn_mismatch_def match_op_def
    by (simp split: option.splits if_splits) (use event skip in \<open>auto\<close>)
qed

text \<open>The storage commands behind the queue methods.\<close>

lemma storage_cmd_good:
  assumes "qgood q"
  shows "\<exists>r c. storage_cmd now detail cmd k (q_storage q) = (r, c) \<and> cn_faults c = [] \<and>
     store_wf (cn_db c) \<and> board_of (cn_db c) = snd (board_step cmd k (qboard q)) \<and>
     (case fst (board_step cmd k (qboard q)) of None \<Rightarrow> r = Inl (NotFoundErr k) | Some b \<Rightarrow> r = Inr b)"
proof -
  obtain r c where rc: "storage_cmd now detail cmd k (q_storage q) = (r, c)" by fastforce
  have "store_wf (cn_db c)"
    using movesD [OF wf_storage_cmd rc] assms by (simp add: qgood_def)
  moreover have "cn_faults c = []"
    using rc assms
    by (cases cmd)
      (auto simp: qgood_def update_job_state_def update_job_state_unless_terminal_def
        storage_requeue_job_def unconfirm_completed_job_def existing_state_text_def
        update_jobs_no_faults op_defs split: if_splits option.splits)
  moreover have "keyed jr_job_id (st_jobs (q_db q))"
    using assms by (simp add: qgood_def store_wf_def)
  ultimately show ?thesis
    using storage_cmd_board [of "q_storage q" now detail cmd k] rc assms
    by (auto simp: qgood_def simp del: storage_cmd.simps split: option.splits)
qed

lemma lookup_quiet:
  assumes "cn_faults c = []"
  shows "\<exists>u. lookup_field f k c = (Inr u, c)"
  using assms by (auto simp: lookup_field_def storage_get_job_def op_defs)

lemma emit_event_good: "qgood (emit_event ev q) = qgood q"
  by (simp add: qgood_def)

lemma yields_update_state:
  assumes "qgood q" and "qboard q k = Some (x, n)"
  shows "yields (update_state now k s) q (Inr ()) ((qboard q)(k \<mapsto> (s, n)))"
proof -
  obtain c where c: "update_job_state now k s (q_storage q) = (Inr (), c)" "cn_faults c = []"
      "store_wf (cn_db c)" "board_of (cn_db c) = (qboard q)(k \<mapsto> (s, n))"
    using storage_cmd_good [OF assms(1), of now "[]" "B_Set s" k] assms(2)
    by (auto simp: try_op_def ok_def split: prod.splits sum.splits)
  obtain u where "lookup_field jm_requesting_user k c = (Inr u, c)"
    using lookup_quiet [OF c(2)] by blast
  with c show ?thesis
    by (simp add: yields_def update_state_def on_storage_def zoom_op_def try_op_def modify_op_def
        emit_event_good qgood_def)
qed

lemma yields_unless_terminal:
  assumes "qgood q" and "qboard q k = Some (x, n)"
  shows "yields (update_state_unless_terminal now k s) q (Inr (\<not> finished x))
           (if finished x then qboard q else (qboard q)(k \<mapsto> (s, n)))"
proof -
  obtain c where c: "update_job_state_unless_terminal now k s (q_storage q) = (Inr (\<not> finished x), c)"
      "cn_faults c = []" "store_wf (cn_db c)"
      "board_of (cn_db c) = (if finished x then qboard q else (qboard q)(k \<mapsto> (s, n)))"
    using storage_cmd_good [OF assms(1), of now "[]" "B_SetUnlessTerminal s" k] assms(2)
    by (auto split: if_splits)
  obtain u where "lookup_field jm_requesting_user k c = (Inr u, c)"
    using lookup_quiet [OF c(2)] by blast
  with c show ?thesis
    by (simp add: yields_def update_state_unless_terminal_def on_storage_def zoom_op_def try_op_def
        modify_op_def ok_def emit_event_good qgood_def)
qed

lemma yields_unconfirm:
  assumes "qgood q" and "qboard q k = Some (x, n)"
  shows "yields (unconfirm_completed now k) q (Inr (x = JS_Completed))
           (if x = JS_Completed then (qboard q)(k \<mapsto> (JS_Unconfirmed, n)) else qboard q)"
proof -
  obtain c where c: "unconfirm_completed_job now k (q_storage q) = (Inr (x = JS_Completed), c)"
      "cn_faults c = []" "store_wf (cn_db c)"
      "board_of (cn_db c) = (if x = JS_Completed then (qboard q)(k \<mapsto> (JS_Unconfirmed, n)) else qboard q)"
    using storage_cmd_good [OF assms(1), of now "[]" "B_UnconfirmCompleted" k] assms(2)
    by (auto split: if_splits)
  obtain u where "lookup_field jm_requesting_user k c = (Inr u, c)"
    using lookup_quiet [OF c(2)] by blast
  with c show ?thesis
    by (simp add: yields_def unconfirm_completed_def on_storage_def zoom_op_def try_op_def
        modify_op_def ok_def emit_event_good qgood_def)
qed

text \<open>What a completion makes of a job that was in state \<open>x\<close>.\<close>

fun completion_state :: "JobCompletion \<Rightarrow> JobState \<Rightarrow> JobState" where
  "completion_state c x =
     (if jc_success c then JS_Completed
      else if jc_unconfirmed c then JS_Unconfirmed
      else if x = JS_Completed then JS_Unconfirmed
      else if finished x then x
      else JS_Failed)"

definition completion_retry :: "u32 \<Rightarrow> u64 \<Rightarrow> instant \<Rightarrow> JobCompletion \<Rightarrow> JobState \<Rightarrow> int \<Rightarrow> retry_task option" where
  "completion_retry max_retries delay_secs now c x n =
     (if \<not> jc_success c \<and> \<not> jc_unconfirmed c \<and> \<not> finished x \<and> word_of_int n < max_retries
      then Some \<lparr>rt_job_id = jc_job_id c, rt_detail = jc_error_detail c,
                 rt_due = now + int (retry_delay delay_secs (word_of_int n)) * 10 ^ 9\<rparr>
      else None)"

lemma fail_branch_yields:
  assumes "qgood q" and b: "qboard q (jc_job_id c) = Some (x, n)"
    and "\<not> jc_success c" and "\<not> jc_unconfirmed c"
  shows "yields (fail_branch mr rd now c) q (Inr (completion_retry mr rd now c x n))
           ((qboard q)(jc_job_id c \<mapsto> (completion_state c x, n)))"
proof (cases "finished x")
  case True
  have tail: "yields (if unconfirmed then ignore_op (queue_insert_job_event ev) (ok None) else ok None)
      q' (Inr (None :: retry_task option)) (qboard q')" if "qgood q'" for unconfirmed ev q'
    using that yields_ok [of _ "None :: retry_task option"]
    by (auto intro!: yields_ignore [OF yields_event [OF that]]) metis
  have none: "completion_retry mr rd now c x n = None" using True by (simp add: completion_retry_def)
  have board: "(qboard q)(jc_job_id c \<mapsto> (completion_state c x, n)) =
      (if x = JS_Completed then (qboard q)(jc_job_id c \<mapsto> (JS_Unconfirmed, n)) else qboard q)"
    using True assms(3,4) b by (auto simp: fun_upd_idem)
  have late: "yields (try_op (unconfirm_completed now (jc_job_id c)) (\<lambda>unconfirmed.
        if unconfirmed then ignore_op (queue_insert_job_event (ev :: PrintJobEvent)) (ok None)
        else ok None)) q' (Inr (None :: retry_task option))
      (if x = JS_Completed then (qboard q)(jc_job_id c \<mapsto> (JS_Unconfirmed, n)) else qboard q)"
    if "qgood q'" "qboard q' = qboard q" for q' ev
  proof (rule yields_try [OF yields_unconfirm [OF that(1), of _ x n]])
    fix q2 assume q2: "qgood q2"
      "qboard q2 = (if x = JS_Completed then (qboard q')(jc_job_id c \<mapsto> (JS_Unconfirmed, n)) else qboard q')"
    then show "yields (if x = JS_Completed
        then ignore_op (queue_insert_job_event ev) (ok None) else ok None) q2
      (Inr (None :: retry_task option))
      (if x = JS_Completed then (qboard q)(jc_job_id c \<mapsto> (JS_Unconfirmed, n)) else qboard q)"
      using tail [OF q2(1), of "x = JS_Completed" ev] that(2) by (simp split: if_splits)
  qed (use that b in simp)
  show ?thesis
    unfolding fail_branch_def none board
  proof (rule yields_try [OF yields_unless_terminal [OF assms(1) b]])
    fix q' assume "qgood q'"
      and "qboard q' = (if finished x then qboard q else (qboard q)(jc_job_id c \<mapsto> (JS_Failed, n)))"
    with late [of q'] True show "yields
       (if \<not> (\<not> finished x)
        then try_op (unconfirm_completed now (jc_job_id c)) (\<lambda>unconfirmed.
          if unconfirmed then ignore_op (queue_insert_job_event (event_fail now (jc_job_id c)
            PS_Unconfirmed (late_failure_detail c))) (ok None) else ok None)
        else match_op (get_job (jc_job_id c)) (\<lambda>r. case ok_flatten r of None \<Rightarrow> ok None
          | Some job \<Rightarrow> if jm_retry_count job < mr
              then ok (Some \<lparr>rt_job_id = jc_job_id c, rt_detail = jc_error_detail c,
                rt_due = now + int (retry_delay rd (jm_retry_count job)) * 10 ^ 9\<rparr>)
              else ok None)) q' (Inr None)
       (if x = JS_Completed then (qboard q)(jc_job_id c \<mapsto> (JS_Unconfirmed, n)) else qboard q)"
      by (simp only: True simp_thms if_True)
  qed
next
  case False
  have "yields (match_op (get_job (jc_job_id c)) f) q' (Inr (completion_retry mr rd now c x n)) (qboard q')"
    if q': "qgood q'" and b': "qboard q' = (qboard q)(jc_job_id c \<mapsto> (JS_Failed, n))"
      and f: "\<And>job. jm_retry_count job = word_of_int n \<Longrightarrow>
                f (Inr (Some job)) = ok (completion_retry mr rd now c x n)" for q' f
  proof -
    obtain job where "jm_retry_count job = word_of_int n"
        and "yields (get_job (jc_job_id c)) q' (Inr (Some job)) (qboard q')"
      using yields_get_job [OF q', of "jc_job_id c" JS_Failed n] b' by auto
    with f show ?thesis by (intro yields_match) (auto simp: yields_def ok_def)
  qed
  with False assms(3,4) show ?thesis
    unfolding fail_branch_def
    by (intro yields_try [OF yields_unless_terminal [OF assms(1) b]])
      (fastforce simp: completion_retry_def ok_flatten_def ok_def)
qed

lemma complete_job_yields:
  assumes "qgood q" and "qboard q (jc_job_id c) = Some (x, n)"
  shows "yields (complete_job max_retries delay_secs now c) q
           (Inr (completion_retry max_retries delay_secs now c x n))
           ((qboard q)(jc_job_id c \<mapsto> (completion_state c x, n)))"
proof -
  obtain r where warn: "yields (warn_mismatch now c) q r (qboard q)"
    using yields_warn [OF assms(1)] by blast
  have set: "yields (ignore_op (queue_insert_job_event ev) (try_op (update_state now (jc_job_id c) s) (\<lambda>_. ok None)))
      q' (Inr (None :: retry_task option)) ((qboard q)(jc_job_id c \<mapsto> (s, n)))"
    if "qgood q'" "qboard q' = qboard q" for q' ev s
    using that assms(2)
    by (intro yields_ignore [OF yields_event] yields_try [OF yields_update_state])
      (auto simp: yields_def ok_def)
  have fail: "yields (ignore_op (queue_insert_job_event ev) (fail_branch max_retries delay_secs now c))
      q' (Inr (completion_retry max_retries delay_secs now c x n))
      ((qboard q)(jc_job_id c \<mapsto> (completion_state c x, n)))"
    if "qgood q'" "qboard q' = qboard q" "\<not> jc_success c" "\<not> jc_unconfirmed c" for q' ev
    using that(1)
  proof (rule yields_ignore [OF yields_event])
    fix q2 assume q2: "qgood q2" "qboard q2 = qboard q'"
    with fail_branch_yields [of q2 c x n max_retries delay_secs now] assms(2) that
    show "yields (fail_branch max_retries delay_secs now c) q2
        (Inr (completion_retry max_retries delay_secs now c x n))
        ((qboard q)(jc_job_id c \<mapsto> (completion_state c x, n)))"
      by (simp del: completion_state.simps)
  qed
  show ?thesis
    unfolding complete_job_def
    by (rule yields_ignore [OF warn])
      (use set fail in \<open>auto simp: completion_retry_def\<close>)
qed

text \<open>
  C20. Every branch of \<open>CompleteJob\<close> on a job the server knows: success makes it completed, an
  unconfirmed end makes it unconfirmed, a failure marks it failed unless it had finished (a
  completed job becomes unconfirmed, a cancelled or unconfirmed one stays), no other job
  changes, the retry count stays, and a retry is scheduled exactly for a failure of an
  unfinished job below the retry limit, after the backoff of its retry count.
\<close>

theorem complete_job_outcome:
  assumes "qgood q" and "qboard q (jc_job_id c) = Some (x, n)"
  shows "yields (complete_job max_retries delay_secs now c) q
           (Inr (completion_retry max_retries delay_secs now c x n))
           ((qboard q)(jc_job_id c \<mapsto> (completion_state c x, n)))"
  by (rule complete_job_yields [OF assms])

definition sample_queue :: "store \<Rightarrow> queue" where
  "sample_queue d =
     \<lparr>q_storage = quiet d, q_client_channels = Map.empty, q_chans = Map.empty, q_next_chan = 0,
      q_default_pending = [], q_default_notify = 0, q_job_events = None, q_pairing_notify = 0,
      q_reconciler_signal = None\<rparr>"

definition sample_failure :: "string \<Rightarrow> JobCompletion" where
  "sample_failure k =
     \<lparr>jc_job_id = k, jc_success = False, jc_error_detail = ''paper jam'', jc_pages_printed = 0,
      jc_printer_status = ''error'', jc_spooler_status = [], jc_verification_method = [],
      jc_verification_evidence = [], jc_client_id = [], jc_unconfirmed = False\<rparr>"

theorem complete_job_outcome_witness:
  "qgood (sample_queue (sample_store ''j'' JS_Printing))
   \<and> yields (complete_job 3 30 0 (sample_failure ''j'')) (sample_queue (sample_store ''j'' JS_Printing))
       (Inr (Some \<lparr>rt_job_id = ''j'', rt_detail = ''paper jam'', rt_due = 30 * 10 ^ 9\<rparr>))
       ((qboard (sample_queue (sample_store ''j'' JS_Printing)))(''j'' \<mapsto> (JS_Failed, 0)))"
proof -
  have good: "qgood (sample_queue (sample_store ''j'' JS_Printing))"
    using sample_store_wf by (simp add: qgood_def sample_queue_def)
  have "qboard (sample_queue (sample_store ''j'' JS_Printing)) (jc_job_id (sample_failure ''j'')) =
      Some (JS_Printing, 0)"
    by (simp add: sample_queue_def board_of_def sample_failure_def)
  from complete_job_outcome [OF good this, of 3 30 0] good show ?thesis
    by (simp add: sample_failure_def completion_retry_def retry_delay_def)
qed

end
