(* ===== verification/Server_Steps.thy ===== *)
theory Server_Steps
  imports Dispatch
begin

text \<open>
  The running server as a step relation: connections, incoming print jobs, status streams,
  completions, scheduled retries, the reaper, the dashboard and restarts interleave in any
  order, one critical section or one remote call at a time. On it: a finished job is never
  streamed again, and a job is only ever streamed to the machine it is routed to.
\<close>

section \<open>The step relation\<close>

text \<open>
  The configuration of the service; \<open>sc_parse_event\<close> stands for reading an audit event from
  the JSON of a status message. The last two fields say what the world around the server does: on
  which jobs clients send reports, and whether the server is ever started anew.
\<close>

record server_config =
  sc_max_retries :: u32
  sc_retry_delay_secs :: u64
  sc_parse_event :: "string \<Rightarrow> PrintJobEvent option"
  sc_may_report :: "string \<Rightarrow> bool"
  sc_may_restart :: bool

definition new_conn :: "ClientIdentity \<Rightarrow> ip option \<Rightarrow> conn_proc" where
  "new_conn ident peer =
     \<lparr>pr_identity = ident, pr_peer = peer, pr_conn = [], pr_chan = 0, pr_pc = C_Upsert\<rparr>"

text \<open>A process start on the database another process left (\<open>run_server\<close>).\<close>

definition boot :: "store conn \<Rightarrow> string list \<Rightarrow> (conn_proc \<times> PrintJob) list \<Rightarrow> err + server" where
  "boot storage used streamed =
     (case queue_new storage of
        Inl e \<Rightarrow> Inl e
      | Inr q \<Rightarrow>
          (case queue_set_all_clients_offline (set_job_events [] q) of
             (Inl e, _) \<Rightarrow> Inl e
           | (Inr _, q') \<Rightarrow>
               Inr \<lparr>sv_queue = q', sv_peers = Map.empty, sv_connected_clients = 0, sv_conns = [],
                    sv_retries = [], sv_stale = [], sv_streamed = streamed, sv_used_ids = used\<rparr>))"

definition runs :: "(queue, 'a) op \<Rightarrow> server \<Rightarrow> server" where
  "runs m sv = with_queue sv (snd (m (sv_queue sv)))"

inductive server_step :: "server_config \<Rightarrow> server \<Rightarrow> server \<Rightarrow> bool" for cfg where
  subscribe:
    "server_step cfg sv (sv\<lparr>sv_conns := sv_conns sv @ [new_conn ident peer]\<rparr>)"
| connection:
    "i < length (sv_conns sv) \<Longrightarrow> conn_step env (sv_conns sv ! i) sv = (p', sv') \<Longrightarrow>
     server_step cfg sv (sv'\<lparr>sv_conns := (sv_conns sv)[i := p']\<rparr>)"
| received:
    "jm_job_id meta \<notin> set (sv_used_ids sv) \<Longrightarrow> jm_state meta = JS_Queued \<Longrightarrow>
     server_step cfg sv
       (runs (push now meta path) sv\<lparr>sv_used_ids := jm_job_id meta # sv_used_ids sv\<rparr>)"
| audit:
    "server_step cfg sv (runs (queue_insert_job_event ev) sv)"
| status:
    "sc_may_report cfg (su_job_id upd) \<Longrightarrow>
     server_step cfg sv (runs (apply_status_update (sc_parse_event cfg) now upd) sv)"
| completion:
    "sc_may_report cfg (jc_job_id c) \<Longrightarrow>
     complete_job (sc_max_retries cfg) (sc_retry_delay_secs cfg) now c (sv_queue sv) = (r, q) \<Longrightarrow>
     server_step cfg sv
       (sv\<lparr>sv_queue := q,
           sv_retries := sv_retries sv @ (case r of Inr (Some t) \<Rightarrow> [t] | _ \<Rightarrow> [])\<rparr>)"
| retry:
    "i < length (sv_retries sv) \<Longrightarrow> rt_due (sv_retries sv ! i) \<le> now \<Longrightarrow>
     server_step cfg sv
       (runs (requeue_job now (rt_job_id (sv_retries sv ! i)) (rt_detail (sv_retries sv ! i))) sv
          \<lparr>sv_retries := take i (sv_retries sv) @ drop (Suc i) (sv_retries sv)\<rparr>)"
| tick:
    "sv_stale sv = [] \<Longrightarrow> reaper_tick (sc_retry_delay_secs cfg) now (sv_queue sv) = (Inr stale, q) \<Longrightarrow>
     server_step cfg sv (sv\<lparr>sv_queue := q, sv_stale := stale\<rparr>)"
| visit:
    "sv_stale sv = job # rest \<Longrightarrow>
     server_step cfg sv (runs (reaper_visit (sc_max_retries cfg) now job) sv\<lparr>sv_stale := rest\<rparr>)"
| ping:
    "server_step cfg sv (runs (heartbeat now m) sv)"
| pairing:
    "server_step cfg sv (runs (queue_update_pairing_state m ps) sv)"
| add_printer:
    "server_step cfg sv (runs (queue_insert_virtual_printer vp) sv)"
| change_printer:
    "server_step cfg sv (runs (queue_update_virtual_printer now vp) sv)"
| drop_printer:
    "server_step cfg sv (runs (queue_delete_virtual_printer v) sv)"
| clear:
    "server_step cfg sv (runs queue_clear_jobs sv)"
| restart:
    "sc_may_restart cfg \<Longrightarrow> boot (q_storage (sv_queue sv)) (sv_used_ids sv) (sv_streamed sv) = Inr sv' \<Longrightarrow>
     server_step cfg sv sv'"

text \<open>Runs of the server.\<close>

inductive server_run :: "server_config \<Rightarrow> server \<Rightarrow> server \<Rightarrow> bool" for cfg where
  run_refl: "server_run cfg sv sv"
| run_step: "server_run cfg sv sv' \<Longrightarrow> server_step cfg sv' sv'' \<Longrightarrow> server_run cfg sv sv''"

abbreviation sv_db :: "server \<Rightarrow> store" where
  "sv_db sv \<equiv> q_db (sv_queue sv)"

section \<open>Finished jobs\<close>

lemma closed_vp [closed_keeps]:
  "moves (\<lambda>c c'. job_closed k (cn_db c) \<longrightarrow> job_closed k (cn_db c')) (insert_virtual_printer vp)"
  "moves (\<lambda>c c'. job_closed k (cn_db c) \<longrightarrow> job_closed k (cn_db c')) (update_virtual_printer now vp)"
  "moves (\<lambda>c c'. job_closed k (cn_db c) \<longrightarrow> job_closed k (cn_db c')) (delete_virtual_printer v)"
  unfolding insert_virtual_printer_def update_virtual_printer_def delete_virtual_printer_def
  by (intro closed.inv.moves_rules keeps_sql;
      auto simp: job_closed_def Let_def split: if_splits)+

lemma qclosed_vp [qclosed_keeps]:
  "moves (\<lambda>q q'. job_closed k (q_db q) \<longrightarrow> job_closed k (q_db q')) (queue_insert_virtual_printer vp)"
  "moves (\<lambda>q q'. job_closed k (q_db q) \<longrightarrow> job_closed k (q_db q')) (queue_update_virtual_printer now vp)"
  "moves (\<lambda>q q'. job_closed k (q_db q) \<longrightarrow> job_closed k (q_db q')) (queue_delete_virtual_printer v)"
  unfolding queue_insert_virtual_printer_def queue_update_virtual_printer_def
    queue_delete_virtual_printer_def
  by (intro qclosed.inv.moves_rules qclosed_on_storage closed_keeps qclosed_modify; simp)+

lemma qclosed_status [qclosed_keeps]:
  "moves (\<lambda>q q'. job_closed k (q_db q) \<longrightarrow> job_closed k (q_db q')) (apply_status_update parse now upd)"
  unfolding apply_status_update_def Let_def
  by (intro qclosed.inv.moves_rules qclosed_keeps)

lemma qclosed_complete [qclosed_keeps]:
  "moves (\<lambda>q q'. job_closed k (q_db q) \<longrightarrow> job_closed k (q_db q')) (complete_job mr rd now c)"
  unfolding complete_job_def warn_mismatch_def fail_branch_def
  by (intro qclosed.inv.moves_rules qclosed_keeps qclosed_update_state) simp_all

lemma qclosed_heartbeat [qclosed_keeps]:
  "moves (\<lambda>q q'. job_closed k (q_db q) \<longrightarrow> job_closed k (q_db q')) (heartbeat now m)"
  unfolding heartbeat_def by (intro qclosed.inv.moves_rules qclosed_keeps)

lemma qclosed_reaper [qclosed_keeps]:
  "moves (\<lambda>q q'. job_closed k (q_db q) \<longrightarrow> job_closed k (q_db q')) (reaper_tick rd now)"
  "moves (\<lambda>q q'. job_closed k (q_db q) \<longrightarrow> job_closed k (q_db q')) (reaper_visit mr now job)"
  unfolding reaper_tick_def reaper_visit_def by (intro qclosed.inv.moves_rules qclosed_keeps)+

lemma closed_runs:
  "moves (\<lambda>q q'. job_closed k (q_db q) \<longrightarrow> job_closed k (q_db q')) m \<Longrightarrow>
   job_closed k (sv_db sv) \<Longrightarrow> job_closed k (sv_db (runs m sv))"
  by (simp add: runs_def with_queue_def moves_def)

text \<open>Only a queued job goes on a stream.\<close>

lemma get_job_db: "q_db (snd (get_job i q)) = q_db q"
  by (auto simp: get_job_def on_storage_def zoom_op_def storage_get_job_def query_def sql_def
      split: list.splits bool.splits option.splits sum.splits prod.splits)

lemma query_result:
  "query f c = (Inr x, c') \<Longrightarrow> f (cn_db c) = Inr x"
  by (auto simp: query_def sql_def split: list.splits bool.splits sum.splits)

lemma get_job_row:
  assumes "get_job i q = (Inr (Some meta), q')"
  shows "\<exists>r. row_of jr_job_id i (st_jobs (q_db q)) = Some r \<and> row_to_job r = Inr meta \<and>
             jm_job_id meta = i \<and> jm_state meta = str_to_state (jr_state r) \<and>
             jm_target_client_id meta = jr_target_client_id r"
proof -
  from assms obtain c' where "storage_get_job i (q_storage q) = (Inr (Some meta), c')"
    by (auto simp: get_job_def on_storage_def zoom_op_def split: prod.splits)
  then obtain r where r: "row_of jr_job_id i (st_jobs (q_db q)) = Some r"
      and m: "row_to_job r = Inr meta"
    unfolding storage_get_job_def
    by (auto dest!: query_result split: option.splits sum.splits)
  moreover have "jr_job_id r = i" using row_of_SomeD [OF r] by simp
  ultimately show ?thesis
    by (auto simp: row_to_job_def split: if_splits)
qed

lemma load_job_out:
  assumes "load_job i q = (Some job, q')"
  shows "pj_job_id job = i \<and>
         (\<exists>r. row_of jr_job_id i (st_jobs (q_db q)) = Some r \<and> jr_state r = ''queued'')"
proof -
  from assms obtain meta where "get_job i q = (Inr (Some meta), q')"
      and "jm_state meta = JS_Queued" and "job = proto_job meta"
    by (auto simp: load_job_def split: prod.splits sum.splits option.splits if_splits)
  with get_job_row [OF this(1)] show ?thesis
    by (auto simp: proto_job_def queued_text_iff [symmetric])
qed

lemma load_job_db: "load_job i q = (out, q') \<Longrightarrow> q_db q' = q_db q"
  using get_job_db [of i q]
  by (auto simp: load_job_def split: prod.splits sum.splits option.splits if_splits)

lemma not_closed_queued:
  "row_of jr_job_id i (st_jobs d) = Some r \<Longrightarrow> jr_state r = ''queued'' \<Longrightarrow> \<not> job_closed i d"
  by (simp add: job_closed_def IN_PROGRESS_def)

text \<open>One section of a connection: closed jobs stay closed and are not streamed.\<close>

definition streamed_of :: "string \<Rightarrow> server \<Rightarrow> (conn_proc \<times> PrintJob) list" where
  "streamed_of k sv = filter (\<lambda>(p, job). pj_job_id job = k) (sv_streamed sv)"

text \<open>A connection that has loaded the job and waits for room on the stream.\<close>

definition delivering :: "string \<Rightarrow> conn_proc \<Rightarrow> bool" where
  "delivering k p \<longleftrightarrow> (case pr_pc p of C_Deliver job \<Rightarrow> pj_job_id job = k | _ \<Rightarrow> False)"

lemma conn_step_closed:
  assumes step: "conn_step env p sv = (p', sv')" and closed: "job_closed k (sv_db sv)"
  shows "job_closed k (sv_db sv') \<and>
    (if delivering k p then \<not> delivering k p' \<and> (\<exists>ys. streamed_of k sv' = streamed_of k sv @ ys \<and> length ys \<le> 1)
     else \<not> delivering k p' \<and> streamed_of k sv' = streamed_of k sv)"
proof (cases "pr_pc p")
  case (C_Send i)
  obtain out q where s: "load_job i (sv_queue sv) = (out, q)" by fastforce
  have "out = Some job \<Longrightarrow> pj_job_id job \<noteq> k" for job
    using load_job_out [of i "sv_queue sv" job q] s closed not_closed_queued by blast
  then show ?thesis
    using closed load_job_db [OF s] step C_Send s
    by (auto simp: conn_step_def with_queue_def streamed_of_def delivering_def at_def split: option.splits)
next
  case (C_Deliver job)
  then show ?thesis
    using step closed by (auto simp: conn_step_def streamed_of_def delivering_def at_def split: if_splits)
next
  case C_Upsert
  with step closed qclosed_clients(1) [of k "registration_of (en_now env) (pr_identity p)"]
  show ?thesis by (auto simp: conn_step_def with_queue_def streamed_of_def delivering_def at_def moves_def)
next
  case C_PairCheck
  with step closed qclosed_clients(2) [of k "machine p"] show ?thesis
    by (auto simp: conn_step_def with_queue_def streamed_of_def delivering_def at_def Let_def dest!: movesD
        split: prod.splits sum.splits option.splits if_splits)
next
  case C_Check
  with step closed qclosed_clients(2) [of k "machine p"] show ?thesis
    by (auto simp: conn_step_def with_queue_def streamed_of_def delivering_def at_def Let_def dest!: movesD
        split: prod.splits if_splits)
next
  case C_Register
  with step closed show ?thesis
    by (auto simp: conn_step_def register_client_def streamed_of_def delivering_def at_def Let_def)
next
  case C_Online
  with step closed qclosed_clients(3) [of k "en_now env" "machine p" True] show ?thesis
    by (auto simp: conn_step_def streamed_of_def delivering_def at_def moves_def)
next
  case C_Offline
  with step closed qclosed_clients(3) [of k "en_now env" "machine p" False] show ?thesis
    by (auto simp: conn_step_def with_queue_def streamed_of_def delivering_def at_def moves_def)
next
  case C_Drain
  with step closed qclosed_drain [of k "machine p"] show ?thesis
    by (auto simp: conn_step_def with_queue_def streamed_of_def delivering_def at_def moves_def)
next
  case (C_Poll takes)
  with step closed show ?thesis
    by (auto simp: conn_step_def chan_recv_storage with_queue_def streamed_of_def delivering_def at_def Let_def
        split: prod.splits option.splits)
next
  case (C_Default takes n)
  with step closed show ?thesis
    by (auto simp: conn_step_def next_job_storage with_queue_def streamed_of_def delivering_def at_def Let_def
        split: prod.splits option.splits if_splits)
next
  case (C_Select n)
  with step closed show ?thesis
    by (auto simp: conn_step_def chan_recv_storage with_queue_def streamed_of_def delivering_def at_def Let_def
        split: prod.splits option.splits if_splits)
qed (use step closed in \<open>auto simp: conn_step_def with_queue_def streamed_of_def delivering_def at_def Let_def
        split: if_splits\<close>)

text \<open>A new process reads the jobs another left; it writes no job.\<close>

lemma boot_closed:
  assumes "boot storage used streamed = Inr sv" and "job_closed k (cn_db storage)"
  shows "job_closed k (sv_db sv) \<and> sv_streamed sv = streamed \<and> sv_used_ids sv = used"
proof -
  from assms(1) obtain q q' where q: "queue_new storage = Inr q"
      and off: "queue_set_all_clients_offline (set_job_events [] q) = (Inr (), q')"
      and sv: "sv_queue sv = q'" "sv_streamed sv = streamed" "sv_used_ids sv = used"
    by (auto simp: boot_def split: sum.splits prod.splits)
  have "moves (\<lambda>c c'. job_closed k (cn_db c) \<longrightarrow> job_closed k (cn_db c')) get_pending_jobs"
    unfolding get_pending_jobs_def select_jobs_def by (rule closed_keeps)
  with q assms(2) have "job_closed k (q_db q)"
    by (auto simp: queue_new_def split: sum.splits prod.splits dest: movesD)
  with movesD [OF qclosed_clients(6) off] sv show ?thesis
    by (simp add: set_job_events_def)
qed

text \<open>
  What a run still streams of a finished job: at most the messages that were loaded before, each once.
\<close>

definition deliveries :: "string \<Rightarrow> server \<Rightarrow> nat" where
  "deliveries k sv = length (filter (delivering k) (sv_conns sv))"

definition only_loaded :: "string \<Rightarrow> server \<Rightarrow> server \<Rightarrow> bool" where
  "only_loaded k sv sv' \<longleftrightarrow>
     (\<exists>ys. streamed_of k sv' = streamed_of k sv @ ys \<and> length ys + deliveries k sv' \<le> deliveries k sv)"

lemma only_loaded_same:
  "sv_streamed sv' = sv_streamed sv \<Longrightarrow> sv_conns sv' = sv_conns sv \<Longrightarrow> only_loaded k sv sv'"
  by (simp add: only_loaded_def streamed_of_def deliveries_def)

lemma only_loaded_trans:
  assumes "only_loaded k a b" and "only_loaded k b c"
  shows "only_loaded k a c"
proof -
  obtain xs ys where "streamed_of k b = streamed_of k a @ xs" "length xs + deliveries k b \<le> deliveries k a"
    "streamed_of k c = streamed_of k b @ ys" "length ys + deliveries k c \<le> deliveries k b"
    using assms unfolding only_loaded_def by blast
  then show ?thesis unfolding only_loaded_def by (intro exI [of _ "xs @ ys"]) simp
qed

lemma count_update:
  assumes "i < length xs"
  shows "length (filter P (xs[i := x])) + (if P (xs ! i) then 1 else 0) = length (filter P xs) + (if P x then 1 else 0)"
proof -
  have "length (filter P (take i xs @ y # drop (Suc i) xs)) =
      length (filter P (take i xs)) + (if P y then 1 else 0) + length (filter P (drop (Suc i) xs))" for y by simp
  from this [of x] this [of "xs ! i"] show ?thesis
    by (simp only: upd_conv_take_nth_drop [OF assms] id_take_nth_drop [OF assms, symmetric])
qed

lemma connection_loaded:
  assumes i: "i < length (sv_conns sv)" and step: "conn_step env (sv_conns sv ! i) sv = (p', sv')"
    and closed: "job_closed k (sv_db sv)"
  shows "only_loaded k sv (sv'\<lparr>sv_conns := (sv_conns sv)[i := p']\<rparr>)"
proof -
  have c: "length (filter (delivering k) ((sv_conns sv)[i := p'])) + (if delivering k (sv_conns sv ! i) then 1 else 0) =
      length (filter (delivering k) (sv_conns sv)) + (if delivering k p' then 1 else 0)"
    by (rule count_update [OF i])
  show ?thesis
  proof (cases "delivering k (sv_conns sv ! i)")
    case True
    then obtain ys where "\<not> delivering k p'" "streamed_of k sv' = streamed_of k sv @ ys" "length ys \<le> 1"
      using conn_step_closed [OF step closed] by auto
    then show ?thesis using c True
      by (auto simp: only_loaded_def deliveries_def streamed_of_def intro!: exI [of _ ys])
  next
    case False
    then have "\<not> delivering k p'" "streamed_of k sv' = streamed_of k sv"
      using conn_step_closed [OF step closed] by auto
    then show ?thesis using c False
      by (auto simp: only_loaded_def deliveries_def streamed_of_def)
  qed
qed

text \<open>An operation on the queue.\<close>

lemma op_closed:
  assumes "moves (\<lambda>q q'. job_closed k (q_db q) \<longrightarrow> job_closed k (q_db q')) m" and "job_closed k (sv_db sv)"
    and "k \<in> set (sv_used_ids sv)" and "sv_queue sv' = snd (m (sv_queue sv))" and "sv_streamed sv' = sv_streamed sv"
    and "sv_conns sv' = sv_conns sv" and "sv_used_ids sv' = sv_used_ids sv"
  shows "job_closed k (sv_db sv') \<and> only_loaded k sv sv' \<and> k \<in> set (sv_used_ids sv')"
  using assms only_loaded_same [of sv' sv k] by (simp add: moves_def)

lemma runs_closed:
  assumes "moves (\<lambda>q q'. job_closed k (q_db q) \<longrightarrow> job_closed k (q_db q')) m" and "job_closed k (sv_db sv)"
    and "k \<in> set (sv_used_ids sv)"
  shows "job_closed k (sv_db (runs m sv)) \<and> only_loaded k sv (runs m sv) \<and> k \<in> set (sv_used_ids (runs m sv))"
  by (rule op_closed [OF assms]) (simp_all add: runs_def with_queue_def)

lemma server_step_closed:
  assumes "server_step cfg sv sv'" and "job_closed k (sv_db sv)" and "k \<in> set (sv_used_ids sv)"
  shows "job_closed k (sv_db sv') \<and> only_loaded k sv sv' \<and> k \<in> set (sv_used_ids sv')"
  using assms(1)
proof cases
  case (connection i env p' sv'')
  moreover have "sv_used_ids sv'' = sv_used_ids sv"
    using connection(3)
    by (auto simp: conn_step_def with_queue_def Let_def split: conn_pc.splits prod.splits
        sum.splits option.splits if_splits)
  ultimately show ?thesis
    using conn_step_closed [OF connection(3) assms(2)] connection_loaded [OF connection(2,3) assms(2)] assms(3) by simp
next
  case (subscribe ident peer)
  with assms(2,3) show ?thesis
    by (simp add: only_loaded_def streamed_of_def deliveries_def delivering_def new_conn_def)
next
  case (received meta now path)
  with assms(2,3) closed_runs [OF qclosed_push, of meta k sv now path] show ?thesis
    by (auto simp: runs_def with_queue_def intro!: only_loaded_same)
next
  case (completion now c r q)
  with assms(2,3) movesD [OF qclosed_complete completion(3), of k] show ?thesis
    by (auto intro!: only_loaded_same)
next
  case (tick now stale q)
  with assms(2,3) movesD [OF qclosed_reaper(1) tick(3), of k] show ?thesis
    by (auto intro!: only_loaded_same)
next
  case restart
  have "sv_conns sv' = []" using restart(2) by (auto simp: boot_def split: sum.splits prod.splits)
  with boot_closed [OF restart(2)] assms(2,3) show ?thesis
    by (simp add: only_loaded_def streamed_of_def deliveries_def)
next
  case (retry i now)
  show ?thesis unfolding retry(1)
    by (rule op_closed [OF _ assms(2,3)], rule qclosed_keeps) (simp_all add: runs_def with_queue_def)
next
  case (visit job rest now)
  show ?thesis unfolding visit(1)
    by (rule op_closed [OF qclosed_reaper(2) assms(2,3)]) (simp_all add: runs_def with_queue_def)
qed (simp only:, rule runs_closed [OF _ assms(2,3)], rule qclosed_keeps)+

lemma server_run_closed:
  assumes "server_run cfg sv sv'" and "job_closed k (sv_db sv)" and "k \<in> set (sv_used_ids sv)"
  shows "job_closed k (sv_db sv') \<and> only_loaded k sv sv' \<and> k \<in> set (sv_used_ids sv')"
  using assms
proof (induction rule: server_run.induct)
  case (run_refl sv)
  then show ?case by (simp add: only_loaded_same)
next
  case (run_step sv sv' sv'')
  then show ?case using server_step_closed [of cfg sv' sv'' k] only_loaded_trans by blast
qed

text \<open>Concrete servers, for instances of the properties.\<close>

definition sample_server :: "store \<Rightarrow> string list \<Rightarrow> server" where
  "sample_server d used =
     \<lparr>sv_queue = sample_queue d, sv_peers = Map.empty, sv_connected_clients = 0, sv_conns = [],
      sv_retries = [], sv_stale = [], sv_streamed = [], sv_used_ids = used\<rparr>"

definition sample_config :: server_config where
  "sample_config =
     \<lparr>sc_max_retries = 3, sc_retry_delay_secs = 30, sc_parse_event = (\<lambda>_. None), sc_may_report = (\<lambda>_. True), sc_may_restart = True\<rparr>"

text \<open>
  C5. From the moment a job is finished (completed, cancelled or unconfirmed: the printer may have printed
  it), no connection loads it for its stream any more: all that can still be streamed of it are the
  messages that delivery tasks had loaded before and that wait for room on their streams, each at most
  once, and nothing when there is none. The job stays finished. So it is in every run of the server:
  whatever clients connect, report, complete or fail it late, whatever retries are scheduled,
  whatever the reaper finds stale, across restarts and for every pattern of database failures.
\<close>

theorem finished_job_never_resent:
  assumes "server_run cfg sv sv'" and "row_of jr_job_id k (st_jobs (sv_db sv)) = Some r"
    and "finished (str_to_state (jr_state r))" and "k \<in> set (sv_used_ids sv)"
  shows "(\<exists>ys. streamed_of k sv' = streamed_of k sv @ ys \<and>
            length ys + length (filter (delivering k) (sv_conns sv')) \<le> length (filter (delivering k) (sv_conns sv)))
       \<and> (case row_of jr_job_id k (st_jobs (sv_db sv')) of
            None \<Rightarrow> True | Some r' \<Rightarrow> finished (str_to_state (jr_state r')))"
proof -
  have "job_closed k (sv_db sv)"
    using assms(2,3) by (simp add: job_closed_def in_progress_iff)
  from server_run_closed [OF assms(1) this assms(4)] show ?thesis
    by (auto simp: job_closed_def in_progress_iff only_loaded_def deliveries_def split: option.splits)
qed

theorem finished_job_never_resent_witness:
  "let sv = sample_server (sample_store ''j'' JS_Unconfirmed) [''j''];
       sv' = runs (apply_status_update (\<lambda>_. None) 5 \<lparr>su_job_id = ''j'', su_state = 3, su_message = []\<rparr>) sv
   in server_run sample_config sv sv' \<and> streamed_of ''j'' sv' = []
    \<and> (case row_of jr_job_id ''j'' (st_jobs (sv_db sv')) of
         None \<Rightarrow> True | Some r' \<Rightarrow> finished (str_to_state (jr_state r')))"
proof -
  let ?sv = "sample_server (sample_store ''j'' JS_Unconfirmed) [''j'']"
  let ?upd = "\<lparr>su_job_id = ''j'', su_state = 3, su_message = []\<rparr>"
  have "server_step sample_config ?sv (runs (apply_status_update (\<lambda>_. None) 5 ?upd) ?sv)"
    using server_step.status [of sample_config ?upd ?sv 5] by (simp add: sample_config_def)
  then have run: "server_run sample_config ?sv (runs (apply_status_update (\<lambda>_. None) 5 ?upd) ?sv)"
    by (rule run_step [OF run_refl])
  have "streamed_of ''j'' ?sv = []" by (simp add: streamed_of_def sample_server_def)
  with finished_job_never_resent [OF run, of "''j''" "job_to_row (sample_job ''j'' JS_Unconfirmed) ''spool''"]
    run show ?thesis
    by (simp add: sample_server_def sample_queue_def)
qed

text \<open>The step relation restricted to one connection is a function; used to build runs.\<close>

definition drive :: "step_env \<Rightarrow> nat \<Rightarrow> server \<Rightarrow> server" where
  "drive env i sv =
     (case conn_step env (sv_conns sv ! i) sv of
        (p', sv') \<Rightarrow> sv'\<lparr>sv_conns := (sv_conns sv)[i := p']\<rparr>)"

primrec drives :: "nat \<Rightarrow> step_env \<Rightarrow> nat \<Rightarrow> server \<Rightarrow> server" where
  "drives 0 env i sv = sv"
| "drives (Suc n) env i sv = drives n env i (drive env i sv)"

lemma conns_drive [simp]: "length (sv_conns (drive env i sv)) = length (sv_conns sv)"
  by (simp add: drive_def split: prod.splits)

lemma conns_drives [simp]: "length (sv_conns (drives n env i sv)) = length (sv_conns sv)"
  by (induction n arbitrary: sv) simp_all

lemma run_trans: "server_run cfg b c \<Longrightarrow> server_run cfg a b \<Longrightarrow> server_run cfg a c"
  by (induction rule: server_run.induct) (auto intro: run_step)

lemma run_one: "server_step cfg a b \<Longrightarrow> server_run cfg a b"
  by (rule run_step [OF run_refl])

lemma run_drive: "i < length (sv_conns sv) \<Longrightarrow> server_run cfg sv (drive env i sv)"
  unfolding drive_def
  by (rule run_one) (auto split: prod.splits intro: server_step.connection)

lemma run_drives: "i < length (sv_conns sv) \<Longrightarrow> server_run cfg sv (drives n env i sv)"
proof (induction n arbitrary: sv)
  case 0
  then show ?case by (simp add: run_refl)
next
  case (Suc n)
  then show ?case using run_trans [OF Suc.IH run_drive] by simp
qed

definition subscribes :: "ClientIdentity \<Rightarrow> server \<Rightarrow> server" where
  "subscribes ident sv = sv\<lparr>sv_conns := sv_conns sv @ [new_conn ident None]\<rparr>"

lemma run_subscribes: "server_run cfg sv (subscribes ident sv)"
  unfolding subscribes_def by (rule run_one) (rule server_step.subscribe)

end
