(* ===== verification/Server_Routing.thy ===== *)
theory Server_Routing
  imports Server_Steps
begin

text \<open>
  Routing of print jobs: with a database that answers, a job whose virtual printer is paired to
  a machine is only ever put on the stream of that machine. The invariant relates the ids that
  wait in the default queue, in the client channels and in the delivery tasks to the
  \<open>target_client_id\<close> of their rows. The last section shows what a failing read does instead.
\<close>

section \<open>Targets in the database\<close>

definition aimed :: "store \<Rightarrow> string option \<Rightarrow> string \<Rightarrow> bool" where
  "aimed d t i \<longleftrightarrow>
     (case row_of jr_job_id i (st_jobs d) of None \<Rightarrow> True | Some r \<Rightarrow> jr_target_client_id r = t)"

definition targets_kept :: "string set \<Rightarrow> store \<Rightarrow> store \<Rightarrow> bool" where
  "targets_kept U d d' \<longleftrightarrow>
     (\<forall>i \<in> U. \<forall>r'. row_of jr_job_id i (st_jobs d') = Some r' \<longrightarrow>
        (\<exists>r. row_of jr_job_id i (st_jobs d) = Some r \<and>
             jr_target_client_id r' = jr_target_client_id r))"

definition rows_in :: "string set \<Rightarrow> store \<Rightarrow> bool" where
  "rows_in U d \<longleftrightarrow> jr_job_id ` set (st_jobs d) \<subseteq> U"

lemma aimed_kept: "targets_kept U d d' \<Longrightarrow> i \<in> U \<Longrightarrow> aimed d t i \<Longrightarrow> aimed d' t i"
  by (fastforce simp: aimed_def targets_kept_def split: option.splits)

lemma targets_kept_refl: "targets_kept U d d"
  by (simp add: targets_kept_def)

lemma targets_kept_trans: "targets_kept U d d' \<Longrightarrow> targets_kept U d' d'' \<Longrightarrow> targets_kept U d d''"
  unfolding targets_kept_def by metis

text \<open>A good connection: no failure ahead, well-formed, every job id given out before.\<close>

definition good_conn :: "string set \<Rightarrow> store conn \<Rightarrow> bool" where
  "good_conn U c \<longleftrightarrow> cn_faults c = [] \<and> store_wf (cn_db c) \<and> rows_in U (cn_db c)"

definition conn_safe :: "string set \<Rightarrow> store conn \<Rightarrow> store conn \<Rightarrow> bool" where
  "conn_safe U c c' \<longleftrightarrow> (good_conn U c \<longrightarrow> good_conn U c' \<and> targets_kept U (cn_db c) (cn_db c'))"

interpretation conn_safe: step_relation "conn_safe U" for U
  by unfold_locales (auto simp: conn_safe_def targets_kept_refl intro: targets_kept_trans)

named_theorems safe_keeps "operations that keep routing targets"

lemma good_faults: "good_conn U c \<Longrightarrow> cn_faults c = []"
  by (simp add: good_conn_def)

lemma conn_safe_query [safe_keeps]: "moves (conn_safe U) (query f)"
  by (rule movesI) (auto simp: conn_safe_def targets_kept_refl good_faults)

lemma conn_safe_sql:
  assumes wf: "moves (\<lambda>c c'. store_wf (cn_db c) \<longrightarrow> store_wf (cn_db c')) (sql f)"
    and jobs: "\<And>d r d'. rows_in U d \<Longrightarrow> f d = (Inr r, d') \<Longrightarrow> rows_in U d' \<and> targets_kept U d d'"
  shows "moves (conn_safe U) (sql f)"
proof (rule movesI)
  fix c
  have "good_conn U (snd (sql f c)) \<and> targets_kept U (cn_db c) (cn_db (snd (sql f c)))"
    if good: "good_conn U c"
  proof -
    have "store_wf (cn_db (snd (sql f c)))"
      using wf good unfolding moves_def good_conn_def by blast
    moreover have "rows_in U (cn_db (snd (sql f c))) \<and> targets_kept U (cn_db c) (cn_db (snd (sql f c)))"
      using good jobs [of "cn_db c"]
      by (auto simp: good_conn_def targets_kept_refl split: prod.splits sum.splits)
    moreover have "cn_faults (snd (sql f c)) = []"
      using good by (auto simp: good_conn_def split: prod.splits sum.splits)
    ultimately show ?thesis by (simp add: good_conn_def)
  qed
  then show "conn_safe U c (snd (sql f c))" by (simp add: conn_safe_def)
qed

lemma conn_safe_update_jobs [safe_keeps]:
  assumes "\<And>r. jr_job_id (f r) = jr_job_id r" and "\<And>r. jr_copies (f r) = jr_copies r"
    and "\<And>r. jr_target_client_id (f r) = jr_target_client_id r"
  shows "moves (conn_safe U) (update_jobs P f)"
  unfolding update_jobs_def
  by (rule conn_safe_sql [OF wf_update_jobs [unfolded update_jobs_def]])
    (use assms in \<open>auto simp: rows_in_def targets_kept_def set_upd_where row_of_upd_where
        split: if_splits\<close>)

lemma same_jobs_kept:
  "st_jobs d' = st_jobs d \<Longrightarrow> rows_in U d \<Longrightarrow> rows_in U d' \<and> targets_kept U d d'"
  by (simp add: rows_in_def targets_kept_def)

lemma conn_safe_update_clients [safe_keeps]:
  "(\<And>r. cw_machine_id (f r) = cw_machine_id r) \<Longrightarrow> moves (conn_safe U) (update_clients P f)"
  unfolding update_clients_def
  by (rule conn_safe_sql [OF wf_update_clients [unfolded update_clients_def]])
    (auto simp: rows_in_def targets_kept_def)

lemma conn_safe_upsert_client [safe_keeps]: "moves (conn_safe U) (upsert_client reg)"
  unfolding upsert_client_def
  by (rule conn_safe_sql [OF wf_upsert_client [unfolded upsert_client_def]])
    (auto simp: rows_in_def targets_kept_def)

lemma conn_safe_insert_event [safe_keeps]: "moves (conn_safe U) (insert_job_event ev)"
  unfolding insert_job_event_def
  by (rule conn_safe_sql [OF wf_insert_job_event [unfolded insert_job_event_def]])
    (auto simp: rows_in_def targets_kept_def)

lemma conn_safe_insert_vp [safe_keeps]: "moves (conn_safe U) (insert_virtual_printer vp)"
  unfolding insert_virtual_printer_def
  by (rule conn_safe_sql [OF wf_insert_virtual_printer [unfolded insert_virtual_printer_def]])
    (auto simp: rows_in_def targets_kept_def split: if_splits)

lemma conn_safe_whole:
  assumes "moves (\<lambda>c c'. store_wf (cn_db c) \<longrightarrow> store_wf (cn_db c')) m"
    and "\<And>c. cn_faults c = [] \<Longrightarrow> cn_faults (snd (m c)) = []"
    and "\<And>c. cn_faults c = [] \<Longrightarrow> st_jobs (cn_db (snd (m c))) = st_jobs (cn_db c)"
  shows "moves (conn_safe U) m"
  by (rule movesI)
    (use assms in \<open>auto simp: conn_safe_def good_conn_def moves_def dest: same_jobs_kept\<close>)

lemma conn_safe_update_vp [safe_keeps]: "moves (conn_safe U) (update_virtual_printer now vp)"
  by (rule conn_safe_whole [OF wf_update_virtual_printer])
    (auto simp: update_virtual_printer_def op_defs Let_def split: if_splits)

lemma conn_safe_delete_vp [safe_keeps]: "moves (conn_safe U) (delete_virtual_printer i)"
  by (rule conn_safe_whole [OF wf_delete_virtual_printer])
    (auto simp: delete_virtual_printer_def op_defs)

lemma conn_safe_clear [safe_keeps]: "moves (conn_safe U) clear_jobs"
  by (rule movesI)
    (auto simp: conn_safe_def good_conn_def clear_jobs_def op_defs rows_in_def targets_kept_def
      store_wf_def)

section \<open>Ids waiting in the queue\<close>

definition qinv :: "string set \<Rightarrow> queue \<Rightarrow> bool" where
  "qinv U q \<longleftrightarrow>
     good_conn U (q_storage q) \<and>
     (\<forall>i \<in> set (q_default_pending q). i \<in> U \<and> aimed (q_db q) None i) \<and>
     (\<forall>ch m ids. q_chans q ch = Some (m, ids) \<longrightarrow>
        ch < q_next_chan q \<and> (\<forall>i \<in> set ids. i \<in> U \<and> aimed (q_db q) (Some m) i)) \<and>
     (\<forall>m cid ch. q_client_channels q m = Some (cid, ch) \<longrightarrow>
        ch < q_next_chan q \<and> (\<forall>m' ids. q_chans q ch = Some (m', ids) \<longrightarrow> m' = m))"

definition qext :: "string set \<Rightarrow> queue \<Rightarrow> queue \<Rightarrow> bool" where
  "qext U q q' \<longleftrightarrow>
     targets_kept U (q_db q) (q_db q') \<and> q_next_chan q \<le> q_next_chan q' \<and>
     (\<forall>ch < q_next_chan q. \<forall>m ids'. q_chans q' ch = Some (m, ids') \<longrightarrow>
        (\<exists>ids. q_chans q ch = Some (m, ids)))"

definition qsafe :: "string set \<Rightarrow> queue \<Rightarrow> queue \<Rightarrow> bool" where
  "qsafe U q q' \<longleftrightarrow> (qinv U q \<longrightarrow> qinv U q' \<and> qext U q q')"

lemma qext_refl: "qext U q q"
  by (simp add: qext_def targets_kept_refl)

lemma qext_trans: "qext U q q' \<Longrightarrow> qext U q' q'' \<Longrightarrow> qext U q q''"
  unfolding qext_def by (meson le_less_trans less_le_trans order_trans targets_kept_trans)

interpretation qsafe: step_relation "qsafe U" for U
  by unfold_locales (auto simp: qsafe_def qext_refl intro: qext_trans)

lemma qsafe_storage:
  "conn_safe U (q_storage q) c \<Longrightarrow> qsafe U q (q\<lparr>q_storage := c\<rparr>)"
  by (auto simp: qsafe_def qinv_def qext_def conn_safe_def intro: aimed_kept)

lemma qsafe_on_storage:
  "moves (conn_safe U) m \<Longrightarrow> moves (qsafe U) (on_storage m)"
  by (rule movesI)
    (auto simp: on_storage_def zoom_op_def split: prod.splits intro!: qsafe_storage dest: movesD)

text \<open>Updates of the parts no routing depends on.\<close>

lemma qsafe_modify:
  assumes "\<And>q. q_storage (f q) = q_storage q" "\<And>q. q_chans (f q) = q_chans q"
    "\<And>q. q_default_pending (f q) = q_default_pending q"
    "\<And>q. q_client_channels (f q) = q_client_channels q" "\<And>q. q_next_chan (f q) = q_next_chan q"
  shows "moves (qsafe U) (modify_op f)"
  by (rule moves_modify) (simp add: assms qsafe_def qinv_def qext_def targets_kept_refl)

lemma qsafe_emit [safe_keeps]: "moves (qsafe U) (modify_op (emit_event ev))"
  by (rule qsafe_modify) (simp_all add: emit_event_def split: option.splits)

lemma qsafe_signal [safe_keeps]: "moves (qsafe U) (modify_op signal_reconciler)"
  by (rule qsafe_modify) (auto simp: signal_reconciler_def split: option.splits)

lemma qsafe_pairing_notify [safe_keeps]:
  "moves (qsafe U) (modify_op (\<lambda>q. q\<lparr>q_pairing_notify := Suc (q_pairing_notify q)\<rparr>))"
  by (rule qsafe_modify) simp_all

text \<open>Routing an id to where its row points keeps the invariant.\<close>

lemma qsafe_route:
  assumes "qinv U q" and "i \<in> U" and "aimed (q_db q) t i"
  shows "qinv U (route t i q) \<and> qext U q (route t i q)"
proof (cases t)
  case None
  with assms show ?thesis
    by (auto simp: route_def push_default_def qinv_def qext_def targets_kept_refl)
next
  case (Some m)
  show ?thesis
  proof (cases "q_client_channels q m")
    case None
    with assms Some show ?thesis by (simp add: route_def send_to_client_def qext_refl)
  next
    case (Some x)
    then obtain cid ch where x: "q_client_channels q m = Some (cid, ch)" by (cases x) auto
    show ?thesis
    proof (cases "q_chans q ch")
      case None
      with assms \<open>t = Some m\<close> x show ?thesis
        by (simp add: route_def send_to_client_def chan_send_def qext_refl)
    next
      case (Some y)
      then obtain ids where y: "q_chans q ch = Some (m, ids)"
        using assms(1) x by (cases y) (auto simp: qinv_def)
      have r: "route t i q = q\<lparr>q_chans := (q_chans q)(ch \<mapsto> (m, ids @ [i]))\<rparr>"
        using \<open>t = Some m\<close> x y by (simp add: route_def send_to_client_def chan_send_def)
      show ?thesis
        using assms \<open>t = Some m\<close> x y unfolding r
        by (auto simp: qinv_def qext_def targets_kept_refl)
    qed
  qed
qed

section \<open>Queue operations\<close>

lemma conn_safe_lookup [safe_keeps]: "moves (conn_safe U) (lookup_field f i)"
  unfolding lookup_field_def storage_get_job_def by (intro conn_safe.moves_rules safe_keeps)

lemma conn_safe_requeue [safe_keeps]: "moves (conn_safe U) (storage_requeue_job now i detail)"
  unfolding storage_requeue_job_def existing_state_text_def
  by (intro conn_safe.moves_rules safe_keeps) simp_all

lemma conn_safe_update_state [safe_keeps]: "moves (conn_safe U) (update_job_state now i s)"
  unfolding update_job_state_def by (intro conn_safe.moves_rules safe_keeps) simp_all

lemma conn_safe_unless_terminal [safe_keeps]:
  "moves (conn_safe U) (update_job_state_unless_terminal now i s)"
  unfolding update_job_state_unless_terminal_def existing_state_text_def
  by (intro conn_safe.moves_rules safe_keeps) simp_all

lemma conn_safe_unconfirm [safe_keeps]: "moves (conn_safe U) (unconfirm_completed_job now i)"
  unfolding unconfirm_completed_job_def by (intro conn_safe.moves_rules safe_keeps) simp_all

lemma qsafe_get_job [safe_keeps]: "moves (qsafe U) (get_job i)"
  unfolding get_job_def storage_get_job_def by (intro qsafe_on_storage safe_keeps)

lemma qsafe_insert_event [safe_keeps]: "moves (qsafe U) (queue_insert_job_event ev)"
  unfolding queue_insert_job_event_def by (intro qsafe_on_storage safe_keeps)

lemma qsafe_update_state [safe_keeps]: "moves (qsafe U) (update_state now i s)"
  unfolding update_state_def
  by (intro qsafe.moves_rules qsafe_on_storage conn_safe.moves_rules safe_keeps)

lemma qsafe_unless_terminal [safe_keeps]: "moves (qsafe U) (update_state_unless_terminal now i s)"
  unfolding update_state_unless_terminal_def
  by (intro qsafe.moves_rules qsafe_on_storage conn_safe.moves_rules safe_keeps)

lemma qsafe_unconfirm [safe_keeps]: "moves (qsafe U) (unconfirm_completed now i)"
  unfolding unconfirm_completed_def
  by (intro qsafe.moves_rules qsafe_on_storage conn_safe.moves_rules safe_keeps)

text \<open>With a readable row the lookup answers its target.\<close>

lemma lookup_target:
  assumes "good_conn U c" and "row_of jr_job_id i (st_jobs (cn_db c)) = Some r"
  shows "lookup_field jm_target_client_id i c = (Inr (jr_target_client_id r), c)"
proof -
  have "readable r"
    using assms row_of_SomeD [OF assms(2)] by (auto simp: good_conn_def store_wf_def)
  with assms show ?thesis
    by (simp add: lookup_field_def storage_get_job_def op_defs good_conn_def ok_flatten_def
        row_to_job_def readable_def)
qed

lemma requeue_changed:
  assumes "good_conn U c" and "storage_requeue_job now i detail c = (Inr True, c')"
  shows "\<exists>r. row_of jr_job_id i (st_jobs (cn_db c')) = Some r"
proof -
  have "count_where (\<lambda>r. jr_job_id r = i \<and> jr_state r \<in> set REQUEUABLE) (st_jobs (cn_db c)) \<noteq> 0"
    and c': "c' = snd (update_jobs (\<lambda>r. jr_job_id r = i \<and> jr_state r \<in> set REQUEUABLE)
               (\<lambda>r. r\<lparr>jr_state := ''queued'', jr_retry_count := jr_retry_count r + 1,
                      jr_error_detail := detail, jr_updated_at := now\<rparr>) c)"
    using assms
    by (auto simp: storage_requeue_job_def existing_state_text_def op_defs update_jobs_no_faults
        good_conn_def split: if_splits option.splits)
  then obtain r where "r \<in> set (st_jobs (cn_db c))" and "jr_job_id r = i"
    by (auto simp: count_where_0)
  then have "row_of jr_job_id i (st_jobs (cn_db c)) \<noteq> None"
    by (auto simp: row_of_None_iff)
  then show ?thesis
    using assms(1) unfolding c'
    by (auto simp: update_jobs_no_faults good_conn_def row_of_upd_where)
qed

lemma requeue_target:
  assumes good: "good_conn U c"
    and run: "try_op (storage_requeue_job now i detail) (\<lambda>changed. if \<not> changed then ok None
       else try_op (lookup_field jm_target_client_id i) (\<lambda>t. ok (Some t))) c = (Inr (Some t), c')"
  shows "i \<in> U \<and> aimed (cn_db c') t i"
proof -
  obtain b c1 where b: "storage_requeue_job now i detail c = (b, c1)" by fastforce
  have good1: "good_conn U c1"
    using movesD [OF conn_safe_requeue b, of U] good by (simp add: conn_safe_def)
  from run b have True: "b = Inr True"
    by (cases b) (auto simp: try_op_def ok_def split: if_splits)
  with requeue_changed [OF good] b obtain r where
    r: "row_of jr_job_id i (st_jobs (cn_db c1)) = Some r" by blast
  from run b True lookup_target [OF good1 r] have "t = jr_target_client_id r" "c' = c1"
    by (auto simp: try_op_def ok_def)
  moreover have "i \<in> U"
    using row_of_SomeD [OF r] good1 by (auto simp: good_conn_def rows_in_def)
  ultimately show ?thesis using r by (simp add: aimed_def)
qed

lemma qsafe_requeue [safe_keeps]: "moves (qsafe U) (requeue_job now i detail)"
proof (rule movesI)
  fix q :: queue
  let ?m = "try_op (storage_requeue_job now i detail) (\<lambda>changed. if \<not> changed then ok None
       else try_op (lookup_field jm_target_client_id i) (\<lambda>t. ok (Some t)))"
  obtain r c where m: "?m (q_storage q) = (r, c)" by fastforce
  have "moves (conn_safe U) ?m"
    by (intro conn_safe.moves_rules safe_keeps)
  then have "conn_safe U (q_storage q) c" using m by (rule movesD)
  then have safe: "qsafe U q (q\<lparr>q_storage := c\<rparr>)" by (rule qsafe_storage)
  show "qsafe U q (snd (requeue_job now i detail q))"
  proof (cases "\<exists>t. r = Inr (Some t)")
    case True
    then obtain t where t: "r = Inr (Some t)" by blast
    have "qinv U q \<Longrightarrow> i \<in> U \<and> aimed (cn_db c) t i"
      using requeue_target [of U "q_storage q" now i detail t c] m t by (simp add: qinv_def)
    with safe have "qsafe U q (route t i (q\<lparr>q_storage := c\<rparr>))"
      using qsafe_route [of U "q\<lparr>q_storage := c\<rparr>" i t] by (auto simp: qsafe_def intro: qext_trans)
    with m t show ?thesis
      by (simp add: requeue_job_def on_storage_def zoom_op_def try_op_def modify_op_def ok_def)
  next
    case False
    with m safe show ?thesis
      by (auto simp: requeue_job_def on_storage_def zoom_op_def try_op_def ok_def
          split: sum.splits option.splits)
  qed
qed

text \<open>The held jobs of a client are aimed at it.\<close>

lemma collect_results_mem:
  "collect_results f xs = Inr ys \<Longrightarrow> y \<in> set ys \<Longrightarrow> \<exists>x \<in> set xs. f x = Inr y"
  by (induction xs arbitrary: ys) (auto split: sum.splits)

lemma queued_for_client_aimed:
  assumes good: "good_conn U c"
    and run: "get_queued_jobs_for_client m c = (Inr jobs, c')" and job: "job \<in> set jobs"
  shows "jm_job_id job \<in> U \<and> aimed (cn_db c) (Some m) (jm_job_id job)"
proof -
  from run obtain r where r: "r \<in> set (st_jobs (cn_db c))" "jr_target_client_id r = Some m"
      and j: "row_to_job r = Inr job"
    unfolding get_queued_jobs_for_client_def select_jobs_def
    by (auto dest!: query_result collect_results_mem [OF _ job])
  have "keyed jr_job_id (st_jobs (cn_db c))"
    using good by (simp add: good_conn_def store_wf_def)
  from keyed_row_of [OF this r(1)] r j good show ?thesis
    by (auto simp: aimed_def row_to_job_def good_conn_def rows_in_def split: if_splits)
qed

lemma qsafe_fold_send:
  assumes "qinv U q" and "\<And>i. i \<in> set ids \<Longrightarrow> i \<in> U \<and> aimed (q_db q) (Some m) i"
  shows "qinv U (fold (send_to_client m) ids q) \<and> qext U q (fold (send_to_client m) ids q)"
  using assms
proof (induction ids arbitrary: q)
  case Nil
  then show ?case by (simp add: qext_refl)
next
  case (Cons i ids)
  have "qinv U (send_to_client m i q) \<and> qext U q (send_to_client m i q)"
    using qsafe_route [of U q i "Some m"] Cons.prems by (simp add: route_def)
  with Cons.IH [of "send_to_client m i q"] Cons.prems(2) show ?case
    by (auto intro: qext_trans)
qed

lemma get_queued_same: "get_queued_jobs_for_client m c = (r, c') \<Longrightarrow> cn_faults c = [] \<Longrightarrow> c' = c"
  by (simp add: get_queued_jobs_for_client_def select_jobs_def)

lemma qsafe_drain [safe_keeps]: "moves (qsafe U) (drain_pending_for_client m)"
proof (rule movesI)
  fix q :: queue
  obtain r c where g: "get_queued_jobs_for_client m (q_storage q) = (r, c)" by fastforce
  have "qinv U (snd (drain_pending_for_client m q)) \<and> qext U q (snd (drain_pending_for_client m q))"
    if inv: "qinv U q"
  proof -
    have c: "c = q_storage q"
      using get_queued_same [OF g] inv by (simp add: qinv_def good_conn_def)
    show ?thesis
    proof (cases r)
      case (Inl e)
      with g c inv show ?thesis
        by (simp add: drain_pending_for_client_def on_storage_def zoom_op_def match_op_def ok_def
            qext_refl)
    next
      case (Inr jobs)
      have "i \<in> U \<and> aimed (q_db q) (Some m) i" if "i \<in> set (map jm_job_id jobs)" for i
        using that inv queued_for_client_aimed [of U "q_storage q" m jobs c] g Inr
        by (auto simp: qinv_def)
      with inv have "qinv U (fold (send_to_client m) (map jm_job_id jobs) q) \<and>
          qext U q (fold (send_to_client m) (map jm_job_id jobs) q)"
        by (rule qsafe_fold_send)
      with g c Inr show ?thesis
        by (simp add: drain_pending_for_client_def on_storage_def zoom_op_def match_op_def
            modify_op_def)
    qed
  qed
  then show "qsafe U q (snd (drain_pending_for_client m q))" by (simp add: qsafe_def)
qed

lemma qsafe_clients [safe_keeps]:
  "moves (qsafe U) (queue_upsert_client reg)"
  "moves (qsafe U) (queue_get_client m)"
  "moves (qsafe U) (queue_set_client_online now m b)"
  "moves (qsafe U) (queue_touch_client now m)"
  "moves (qsafe U) (queue_update_pairing_state m ps)"
  "moves (qsafe U) queue_set_all_clients_offline"
  unfolding queue_upsert_client_def queue_get_client_def queue_set_client_online_def
    queue_touch_client_def get_client_def set_client_online_def touch_client_def
    queue_update_pairing_state_def update_pairing_state_def queue_set_all_clients_offline_def
    set_all_clients_offline_def
  by (intro qsafe.moves_rules qsafe_on_storage conn_safe.moves_rules safe_keeps; simp)+

lemma qsafe_printers [safe_keeps]:
  "moves (qsafe U) (queue_insert_virtual_printer vp)"
  "moves (qsafe U) (queue_update_virtual_printer now vp)"
  "moves (qsafe U) (queue_delete_virtual_printer v)"
  unfolding queue_insert_virtual_printer_def queue_update_virtual_printer_def
    queue_delete_virtual_printer_def
  by (intro qsafe.moves_rules qsafe_on_storage safe_keeps)+

lemma qsafe_clear [safe_keeps]: "moves (qsafe U) queue_clear_jobs"
  unfolding queue_clear_jobs_def by (intro qsafe_on_storage safe_keeps)

lemma qsafe_handlers [safe_keeps]:
  "moves (qsafe U) (apply_status_update parse now upd)"
  "moves (qsafe U) (complete_job mr rd now c)"
  "moves (qsafe U) (heartbeat now m)"
  "moves (qsafe U) (reaper_visit mr now job)"
  unfolding apply_status_update_def Let_def complete_job_def warn_mismatch_def fail_branch_def
    heartbeat_def reaper_visit_def
  by (intro qsafe.moves_rules safe_keeps)+

lemma qsafe_tick [safe_keeps]: "moves (qsafe U) (reaper_tick rd now)"
  unfolding reaper_tick_def get_stale_jobs_def storage_get_stale_jobs_def select_jobs_def
  by (intro qsafe.moves_rules qsafe_on_storage safe_keeps)

text \<open>A new job: its id joins the ids given out.\<close>

lemma push_store_fresh:
  assumes good: "good_conn U c" and fresh: "jm_job_id meta \<notin> U"
  shows "\<exists>meta' c'. push_store meta path c = (Inr meta', c') \<and> jm_job_id meta' = jm_job_id meta \<and>
     good_conn (insert (jm_job_id meta) U) c' \<and> targets_kept U (cn_db c) (cn_db c') \<and>
     aimed (cn_db c') (jm_target_client_id meta') (jm_job_id meta)"
proof -
  obtain r c1 where res: "resolve_target meta c = (r, c1)" by fastforce
  have c1: "c1 = c" and "\<exists>meta'. r = Inr meta'"
    using res good
    by (auto simp: resolve_target_def get_virtual_printer_by_ipp_name_def op_defs good_conn_def
        split: if_splits option.splits)
  then obtain meta' where r: "r = Inr meta'" by blast
  have id: "jm_job_id meta' = jm_job_id meta"
    using resolve_target_id res r by fastforce
  let ?row = "job_to_row meta' path"
  let ?c = "c\<lparr>cn_db := (cn_db c)\<lparr>st_jobs := st_jobs (cn_db c) @ [?row]\<rparr>\<rparr>"
  have no_row: "row_of jr_job_id (jm_job_id meta) (st_jobs (cn_db c)) = None"
    using good fresh by (auto simp: row_of_None_iff good_conn_def rows_in_def)
  have key: "jr_job_id ?row = jm_job_id meta" by (simp add: job_to_row_def id)
  have store: "push_store meta path c = (Inr meta', ?c)"
    using res r c1 good no_row key
    by (simp add: push_store_def try_op_def ok_def insert_job_def upsert_job_row_def good_conn_def)
  moreover have "good_conn (insert (jm_job_id meta) U) ?c"
    using good no_row key readable_job_to_row
    by (auto simp: good_conn_def store_wf_def rows_in_def keyed_snoc row_of_None_iff)
  moreover have "targets_kept U (cn_db c) (cn_db ?c)"
    using fresh key by (auto simp: targets_kept_def row_of_append split: option.splits if_splits)
  moreover have "aimed (cn_db ?c) (jm_target_client_id meta') (jm_job_id meta)"
    using no_row key by (simp add: aimed_def row_of_append job_to_row_def)
  ultimately show ?thesis using id by blast
qed

lemma qext_mono: "qext V q q' \<Longrightarrow> U \<subseteq> V \<Longrightarrow> qext U q q'"
  by (auto simp: qext_def targets_kept_def)

lemma qinv_grow:
  assumes "qinv U q" and "good_conn V c" and "U \<subseteq> V" and "targets_kept U (q_db q) (cn_db c)"
  shows "qinv V (q\<lparr>q_storage := c\<rparr>) \<and> qext U q (q\<lparr>q_storage := c\<rparr>)"
  using assms by (auto simp: qinv_def qext_def intro: aimed_kept)

lemma push_fresh:
  assumes inv: "qinv U q" and fresh: "jm_job_id meta \<notin> U"
  shows "qinv (insert (jm_job_id meta) U) (snd (push now meta path q)) \<and>
         qext U q (snd (push now meta path q))"
proof -
  let ?k = "jm_job_id meta" and ?V = "insert (jm_job_id meta) U"
  obtain meta' c where st: "push_store meta path (q_storage q) = (Inr meta', c)"
    and id: "jm_job_id meta' = ?k" and good: "good_conn ?V c"
    and kept: "targets_kept U (q_db q) (cn_db c)"
    and aim: "aimed (cn_db c) (jm_target_client_id meta') ?k"
    using push_store_fresh [of U "q_storage q" meta path] inv fresh by (auto simp: qinv_def)
  let ?ev = "JE_Created (jm_job_id meta') (jm_document_name meta') (jm_requesting_user meta')
               (jm_target_printer meta')"
  let ?audit = "queue_insert_job_event (event_ok now (jm_job_id meta') PS_Routed (route_detail meta'))"
  let ?q1 = "q\<lparr>q_storage := c\<rparr>"
  let ?q2 = "emit_event ?ev ?q1"
  let ?q3 = "snd (?audit ?q2)"
  have p: "snd (push now meta path q) = route (jm_target_client_id meta') ?k ?q3"
    using st id
    by (simp add: push_def on_storage_def zoom_op_def try_op_def modify_op_def ignore_op_def
        match_op_def split: prod.splits)
  have 1: "qinv ?V ?q1 \<and> qext U q ?q1"
    using qinv_grow [OF inv good _ kept] by blast
  have 2: "qsafe ?V ?q1 ?q2"
    using qsafe_emit [of ?V ?ev] by (simp add: moves_def modify_op_def)
  have 3: "qsafe ?V ?q2 ?q3"
    using qsafe_insert_event by (simp add: moves_def)
  have q3: "qinv ?V ?q3 \<and> qext ?V ?q1 ?q3"
    using 1 2 3 by (auto simp: qsafe_def intro: qext_trans)
  have "aimed (q_db ?q3) (jm_target_client_id meta') ?k"
    using q3 aim aimed_kept [of ?V "cn_db c" "q_db ?q3" ?k] by (simp add: qext_def)
  then have "qinv ?V (route (jm_target_client_id meta') ?k ?q3) \<and>
             qext ?V ?q3 (route (jm_target_client_id meta') ?k ?q3)"
    using q3 by (intro qsafe_route) simp_all
  then show ?thesis
    unfolding p using 1 q3 by (meson qext_mono qext_trans subset_insertI)
qed

section \<open>Connections\<close>

text \<open>A connection past its registration reads a channel made for its machine.\<close>

fun has_chan :: "conn_pc \<Rightarrow> bool" where
  "has_chan C_Upsert = False"
| "has_chan C_PairCheck = False"
| "has_chan C_Register = False"
| "has_chan C_Rejected = False"
| "has_chan _ = True"

text \<open>The job a delivery task has in hand.\<close>

fun pc_job :: "conn_pc \<Rightarrow> string option" where
  "pc_job (C_Send i) = Some i"
| "pc_job (C_Deliver job) = Some (pj_job_id job)"
| "pc_job _ = None"

definition fits :: "store \<Rightarrow> string \<Rightarrow> string \<Rightarrow> bool" where
  "fits d m i \<longleftrightarrow> aimed d None i \<or> aimed d (Some m) i"

definition pinv :: "string set \<Rightarrow> queue \<Rightarrow> conn_proc \<Rightarrow> bool" where
  "pinv U q p \<longleftrightarrow>
     (has_chan (pr_pc p) \<longrightarrow> pr_chan p < q_next_chan q \<and>
        (\<forall>m ids. q_chans q (pr_chan p) = Some (m, ids) \<longrightarrow> m = machine p)) \<and>
     (\<forall>i. pc_job (pr_pc p) = Some i \<longrightarrow> i \<in> U \<and> fits (q_db q) (machine p) i)"

definition sinv :: "server \<Rightarrow> bool" where
  "sinv sv \<longleftrightarrow>
     (let U = set (sv_used_ids sv); q = sv_queue sv in
      qinv U q \<and> (\<forall>p \<in> set (sv_conns sv). pinv U q p) \<and>
      (\<forall>(p, job) \<in> set (sv_streamed sv). pj_job_id job \<in> U \<and> fits (q_db q) (machine p) (pj_job_id job)))"

lemma fits_kept: "targets_kept U d d' \<Longrightarrow> i \<in> U \<Longrightarrow> fits d m i \<Longrightarrow> fits d' m i"
  by (auto simp: fits_def dest: aimed_kept)

lemma pinv_ext: "pinv U q p \<Longrightarrow> qext U q q' \<Longrightarrow> U \<subseteq> V \<Longrightarrow> pinv V q' p"
  unfolding pinv_def qext_def by (meson fits_kept less_le_trans subsetD)

lemma machine_at [simp]: "machine (at pc p) = machine p"
  by (simp add: machine_def at_def)

lemma pr_pc_at [simp]: "pr_pc (at pc p) = pc"
  by (simp add: at_def)

lemma pr_chan_at [simp]: "pr_chan (at pc p) = pr_chan p"
  by (simp add: at_def)

text \<open>Moving on to a program point that carries no id keeps what the connection knows.\<close>

lemma pinv_at:
  "pinv U q p \<Longrightarrow> has_chan pc \<Longrightarrow> has_chan (pr_pc p) \<Longrightarrow> pc_job pc = None \<Longrightarrow> pinv U q (at pc p)"
  by (simp add: pinv_def)

lemma pinv_no_chan: "\<not> has_chan pc \<Longrightarrow> pinv U q (at pc p)"
  by (cases pc) (auto simp: pinv_def)

text \<open>Receiving from the channel and popping the default queue.\<close>

lemma recv_safe:
  assumes "qinv U q" and "chan_recv ch q = (Some i, q')"
  shows "qinv U q' \<and> qext U q q' \<and>
    (\<exists>m ids. q_chans q ch = Some (m, ids) \<and> i \<in> U \<and> aimed (q_db q) (Some m) i)"
proof -
  from assms(2) obtain m ids where c: "q_chans q ch = Some (m, i # ids)"
      and q': "q' = q\<lparr>q_chans := (q_chans q)(ch \<mapsto> (m, ids))\<rparr>"
    by (auto simp: chan_recv_def split: option.splits list.splits)
  have "qinv U q'" "qext U q q'"
    using assms(1) c unfolding q' by (auto simp: qinv_def qext_def targets_kept_refl)
  then show ?thesis using assms(1) c by (auto simp: qinv_def)
qed

lemma next_safe:
  assumes "qinv U q" and "next_job q = (Some i, q')"
  shows "qinv U q' \<and> qext U q q' \<and> i \<in> U \<and> aimed (q_db q) None i"
  using assms
  by (auto simp: next_job_def qinv_def qext_def targets_kept_refl split: list.splits)

lemma drop_safe: "qsafe U q (chan_drop ch q)"
  by (auto simp: qsafe_def qinv_def qext_def chan_drop_def targets_kept_refl)

lemma unregister_safe: "qsafe U q (unregister_client m c q)"
  by (auto simp: qsafe_def qinv_def qext_def unregister_client_def targets_kept_refl
      split: option.splits)

lemma register_safe:
  assumes "register_client m c q = (ch, q')"
  shows "qsafe U q q' \<and> q_next_chan q' = Suc ch \<and> q_chans q' ch = Some (m, [])"
proof -
  have ch: "ch = q_next_chan q" and q': "q' = q\<lparr>q_client_channels := (q_client_channels q)(m \<mapsto> (c, ch)),
      q_chans := (q_chans q)(ch \<mapsto> (m, [])), q_next_chan := Suc ch\<rparr>"
    using assms by (auto simp: register_client_def Let_def)
  have "qinv U q' \<and> qext U q q'" if inv: "qinv U q"
  proof -
    have old: "q_client_channels q m' = Some (c', ch') \<Longrightarrow> ch' < q_next_chan q" for m' c' ch'
      using inv by (auto simp: qinv_def)
    have "\<And>ch' m' ids. q_chans q ch' = Some (m', ids) \<Longrightarrow> ch' < q_next_chan q"
      using inv by (auto simp: qinv_def)
    then show ?thesis
      using inv old unfolding q' ch
      by (auto simp: qinv_def qext_def targets_kept_refl less_Suc_eq dest: old)
  qed
  then show ?thesis by (simp add: qsafe_def q' )
qed

lemma load_job_safe:
  assumes inv: "qinv U q" and s: "load_job i q = (out, q')"
  shows "qinv U q' \<and> qext U q q'"
proof -
  have "q' = snd (get_job i q)"
    using s by (auto simp: load_job_def split: prod.splits sum.splits option.splits if_splits)
  then show ?thesis
    using qsafe_get_job [of U i] inv by (simp add: moves_def qsafe_def)
qed

text \<open>What one section of a connection guarantees.\<close>

definition conn_good :: "string set \<Rightarrow> server \<Rightarrow> conn_proc \<Rightarrow> server \<Rightarrow> bool" where
  "conn_good U sv p' sv' \<longleftrightarrow>
     qinv U (sv_queue sv') \<and> qext U (sv_queue sv) (sv_queue sv') \<and> pinv U (sv_queue sv') p' \<and>
     sv_used_ids sv' = sv_used_ids sv \<and>
     (\<exists>new. sv_streamed sv' = sv_streamed sv @ new \<and>
        (\<forall>(p, job) \<in> set new. pj_job_id job \<in> U \<and> fits (sv_db sv) (machine p) (pj_job_id job)))"

text \<open>A section that runs a safe operation and moves to a point without a job id.\<close>

lemma conn_good_op:
  assumes "qsafe U (sv_queue sv) q'" and "qinv U (sv_queue sv)" and "pinv U (sv_queue sv) p"
    and "has_chan (pr_pc p) = has_chan pc" and "pc_job pc = None"
    and "sv_queue sv' = q'" "sv_streamed sv' = sv_streamed sv" "sv_used_ids sv' = sv_used_ids sv"
  shows "conn_good U sv (at pc p) sv'"
proof -
  have q': "qinv U q'" "qext U (sv_queue sv) q'"
    using assms(1,2) by (auto simp: qsafe_def)
  moreover have "pinv U q' (at pc p)"
  proof (cases "has_chan pc")
    case True
    have "pinv U q' p" using pinv_ext [OF assms(3) q'(2)] by blast
    with True assms(4,5) show ?thesis by (intro pinv_at) auto
  qed (rule pinv_no_chan)
  ultimately show ?thesis using assms(6-8) by (simp add: conn_good_def)
qed

text \<open>A section that takes a job id from a queue.\<close>

lemma conn_good_hand:
  assumes "qinv U q'" and "qext U (sv_queue sv) q'" and "pinv U (sv_queue sv) p"
    and "has_chan (pr_pc p)" and "has_chan pc" and "\<And>i. pc_job pc = Some i \<Longrightarrow> i \<in> U \<and> fits (sv_db sv) (machine p) i"
  shows "conn_good U sv (at pc p) (with_queue sv q')"
proof -
  have "pinv U q' p" using pinv_ext [OF assms(3,2)] by blast
  with assms have "pinv U q' (at pc p)"
    by (auto simp: pinv_def qext_def intro: fits_kept)
  with assms show ?thesis by (simp add: conn_good_def with_queue_def)
qed

lemma conn_good_take:
  assumes "qinv U q'" and "qext U (sv_queue sv) q'" and "pinv U (sv_queue sv) p"
    and "has_chan (pr_pc p)" and "i \<in> U" and "fits (sv_db sv) (machine p) i"
  shows "conn_good U sv (at (C_Send i) p) (with_queue sv q')"
  using assms by (intro conn_good_hand) auto

lemma conn_good_recv:
  assumes "qinv U (sv_queue sv)" and "pinv U (sv_queue sv) p" and "has_chan (pr_pc p)"
    and "chan_recv (pr_chan p) (sv_queue sv) = (Some i, q')"
  shows "conn_good U sv (at (C_Send i) p) (with_queue sv q')"
  using recv_safe [OF assms(1,4)] assms
  by (intro conn_good_take) (auto simp: pinv_def fits_def)

lemma conn_good_next:
  assumes "qinv U (sv_queue sv)" and "pinv U (sv_queue sv) p" and "has_chan (pr_pc p)"
    and "next_job (sv_queue sv) = (Some i, q')"
  shows "conn_good U sv (at (C_Send i) p) (with_queue sv q')"
  using next_safe [OF assms(1,4)] assms
  by (intro conn_good_take) (auto simp: fits_def)

lemma conn_good_stay:
  assumes "qinv U (sv_queue sv)" and "pinv U (sv_queue sv) p" and "has_chan (pr_pc p) = has_chan pc"
    and "pc_job pc = None"
  shows "conn_good U sv (at pc p) sv"
  using conn_good_op [OF qsafe.step_refl assms] by simp

lemma conn_good_idle:
  "qinv U (sv_queue sv) \<Longrightarrow> pinv U (sv_queue sv) p \<Longrightarrow> conn_good U sv p sv"
  by (simp add: conn_good_def qext_refl)

lemma movesD': "moves R m \<Longrightarrow> R s (snd (m s))"
  by (simp add: moves_def)

lemma conn_step_good:
  assumes step: "conn_step env p sv = (p', sv')"
    and q: "qinv U (sv_queue sv)" and p: "pinv U (sv_queue sv) p"
  shows "conn_good U sv p' sv'"
proof (cases "pr_pc p")
  case C_Upsert
  then show ?thesis
    using step p by (auto simp: conn_step_def with_queue_def
        intro!: conn_good_op [OF movesD' [OF qsafe_clients(1)] q])
next
  case C_PairCheck
  then show ?thesis
    using step p
    by (auto simp: conn_step_def with_queue_def Let_def split: prod.splits sum.splits option.splits if_splits
        intro!: conn_good_op [OF movesD [OF qsafe_clients(2)] q])
next
  case C_Check
  then show ?thesis
    using step p
    by (auto simp: conn_step_def with_queue_def Let_def split: prod.splits if_splits
        intro!: conn_good_op [OF movesD [OF qsafe_clients(2)] q])
next
  case C_Register
  obtain ch q' where r: "register_client (machine p) (en_uuid env) (sv_queue sv) = (ch, q')"
    by fastforce
  have "qsafe U (sv_queue sv) q'" and ch: "q_next_chan q' = Suc ch" "q_chans q' ch = Some (machine p, [])"
    using register_safe [OF r] by auto
  then have "qinv U q' \<and> qext U (sv_queue sv) q'" using q by (simp add: qsafe_def)
  then show ?thesis
    using step C_Register r ch by (auto simp: conn_step_def conn_good_def pinv_def machine_def at_def)
next
  case C_Online
  then show ?thesis
    using step p by (auto simp: conn_step_def
        intro!: conn_good_op [OF movesD' [OF qsafe_clients(3)] q])
next
  case C_Drain
  then show ?thesis
    using step p by (auto simp: conn_step_def with_queue_def
        intro!: conn_good_op [OF movesD' [OF qsafe_drain] q])
next
  case (C_Poll takes)
  then show ?thesis
    using step p q
    by (auto simp: conn_step_def Let_def split: prod.splits option.splits
        intro: conn_good_recv intro!: conn_good_stay)
next
  case (C_Default takes n)
  then show ?thesis
    using step p q
    by (auto simp: conn_step_def Let_def split: prod.splits option.splits if_splits
        intro: conn_good_next intro!: conn_good_stay)
next
  case (C_Select n)
  then show ?thesis
    using step p q
    by (auto simp: conn_step_def Let_def split: prod.splits option.splits if_splits
        intro: conn_good_recv conn_good_idle intro!: conn_good_stay)
next
  case (C_Send i)
  obtain out q' where s: "load_job i (sv_queue sv) = (out, q')" by fastforce
  have q': "qinv U q' \<and> qext U (sv_queue sv) q'" using load_job_safe [OF q s] .
  have "out = Some job \<Longrightarrow> pj_job_id job = i" for job
    using load_job_out s by blast
  moreover have "i \<in> U \<and> fits (sv_db sv) (machine p) i" using p C_Send by (simp add: pinv_def)
  ultimately show ?thesis
    using step C_Send s q' p by (auto simp: conn_step_def split: option.splits intro!: conn_good_hand)
next
  case (C_Deliver job)
  have "pj_job_id job \<in> U \<and> fits (sv_db sv) (machine p) (pj_job_id job)" using p C_Deliver by (simp add: pinv_def)
  moreover have "pinv U (sv_queue sv) (at C_Check p)" "pinv U (sv_queue sv) (at C_Closing p)"
    using p C_Deliver by (auto intro!: pinv_at)
  ultimately show ?thesis
    using step C_Deliver q by (auto simp: conn_step_def conn_good_def qext_refl split: if_splits)
next
  case C_Unregister
  then show ?thesis
    using step p by (auto simp: conn_step_def with_queue_def
        intro!: conn_good_op [OF unregister_safe q])
next
  case C_IsActive
  then show ?thesis
    using step p q by (auto simp: conn_step_def with_queue_def Let_def split: if_splits
        intro!: conn_good_op [OF drop_safe q] conn_good_stay)
next
  case C_Offline
  then show ?thesis
    using step p by (auto simp: conn_step_def with_queue_def
        intro!: conn_good_op [OF qsafe.step_trans [OF movesD' [OF qsafe_clients(3)] drop_safe] q])
next
  case C_Closing
  then show ?thesis
    using step p by (auto simp: conn_step_def intro!: conn_good_op [OF qsafe.step_refl q])
qed (use step p q in \<open>auto simp: conn_step_def Let_def split: if_splits
       intro: conn_good_idle intro!: conn_good_stay\<close>)

section \<open>The server\<close>

text \<open>Any change of the queue that only extends it keeps the server invariant.\<close>

lemma sinv_queue:
  assumes "sinv sv" and "qinv V q'" and "qext (set (sv_used_ids sv)) (sv_queue sv) q'"
    and "set (sv_used_ids sv) \<subseteq> V" and "sv_queue sv' = q'" and "set (sv_used_ids sv') = V"
    and "sv_conns sv' = sv_conns sv" and "sv_streamed sv' = sv_streamed sv"
  shows "sinv sv'"
proof -
  let ?U = "set (sv_used_ids sv)"
  have "pinv V q' p" if "p \<in> set (sv_conns sv)" for p
    using assms(1,3,4) that pinv_ext by (auto simp: sinv_def Let_def)
  moreover have "i \<in> ?U \<Longrightarrow> fits (sv_db sv) m i \<Longrightarrow> fits (q_db q') m i" for m i
    using assms(3) by (auto simp: qext_def intro: fits_kept)
  ultimately show ?thesis
    using assms by (fastforce simp: sinv_def Let_def)
qed

lemma sinv_safe:
  assumes "sinv sv" and "qsafe (set (sv_used_ids sv)) (sv_queue sv) (sv_queue sv')"
    and "sv_used_ids sv' = sv_used_ids sv" and "sv_conns sv' = sv_conns sv"
    and "sv_streamed sv' = sv_streamed sv"
  shows "sinv sv'"
  using assms
  by (intro sinv_queue [OF assms(1), of "set (sv_used_ids sv)" "sv_queue sv'"])
    (auto simp: sinv_def Let_def qsafe_def)

lemma sinv_runs:
  "sinv sv \<Longrightarrow> moves (qsafe (set (sv_used_ids sv))) m \<Longrightarrow> sinv (runs m sv)"
  by (rule sinv_safe [of sv]) (auto simp: runs_def with_queue_def moves_def)

lemma sinv_same:
  "sinv sv \<Longrightarrow> sv_queue sv' = sv_queue sv \<Longrightarrow> sv_used_ids sv' = sv_used_ids sv \<Longrightarrow>
   sv_conns sv' = sv_conns sv \<Longrightarrow> sv_streamed sv' = sv_streamed sv \<Longrightarrow> sinv sv'"
  by (simp add: sinv_def)

lemma sinv_connection:
  assumes inv: "sinv sv" and i: "i < length (sv_conns sv)"
    and step: "conn_step env (sv_conns sv ! i) sv = (p', sv')"
  shows "sinv (sv'\<lparr>sv_conns := (sv_conns sv)[i := p']\<rparr>)"
proof -
  let ?U = "set (sv_used_ids sv)"
  have "conn_good ?U sv p' sv'"
    using inv i by (intro conn_step_good [OF step]) (auto simp: sinv_def Let_def)
  then obtain new where good: "qinv ?U (sv_queue sv')" "qext ?U (sv_queue sv) (sv_queue sv')"
      "pinv ?U (sv_queue sv') p'" "sv_used_ids sv' = sv_used_ids sv"
      "sv_streamed sv' = sv_streamed sv @ new"
      "\<And>p job. (p, job) \<in> set new \<Longrightarrow> pj_job_id job \<in> ?U \<and> fits (sv_db sv) (machine p) (pj_job_id job)"
    unfolding conn_good_def by blast
  have "pinv ?U (sv_queue sv') p" if "p \<in> set ((sv_conns sv)[i := p'])" for p
    using that good(2,3) inv pinv_ext [of ?U "sv_queue sv" p "sv_queue sv'" ?U]
      set_update_subset_insert [of "sv_conns sv" i p']
    by (auto simp: sinv_def Let_def)
  moreover have "j \<in> ?U \<Longrightarrow> fits (sv_db sv) m j \<Longrightarrow> fits (sv_db sv') m j" for m j
    using good(2) by (auto simp: qext_def intro: fits_kept)
  ultimately show ?thesis
    using good inv by (fastforce simp: sinv_def Let_def)
qed

text \<open>A new process: the default queue holds the unpaired queued jobs.\<close>

lemma queue_new_inv:
  assumes good: "good_conn U c" and q: "queue_new c = Inr q"
  shows "qinv U q \<and> q_db q = cn_db c"
proof -
  obtain jobs where g: "get_pending_jobs c = (Inr jobs, c)"
      and q': "q = \<lparr>q_storage = c, q_client_channels = Map.empty, q_chans = Map.empty,
               q_next_chan = 0, q_default_pending = default_ids jobs, q_default_notify = 0,
               q_job_events = None, q_pairing_notify = 0, q_reconciler_signal = None\<rparr>"
    using q good
    by (auto simp: queue_new_def get_pending_jobs_def select_jobs_def good_conn_def
        split: prod.splits sum.splits)
  have "i \<in> U \<and> aimed (cn_db c) None i" if i: "i \<in> set (default_ids jobs)" for i
  proof -
    from i obtain job where job: "job \<in> set jobs" "jm_target_client_id job = None" "jm_job_id job = i"
      by (auto simp: default_ids_def)
    from g obtain r where r: "r \<in> set (st_jobs (cn_db c))" and j: "row_to_job r = Inr job"
      unfolding get_pending_jobs_def select_jobs_def
      by (auto dest!: query_result collect_results_mem [OF _ job(1)])
    have "keyed jr_job_id (st_jobs (cn_db c))"
      using good by (simp add: good_conn_def store_wf_def)
    from keyed_row_of [OF this r] r j job good show ?thesis
      by (auto simp: aimed_def row_to_job_def good_conn_def rows_in_def split: if_splits)
  qed
  with good q' show ?thesis by (simp add: qinv_def)
qed

lemma boot_inv:
  assumes boot: "boot storage used streamed = Inr sv" and good: "good_conn (set used) storage"
    and log: "\<forall>(p, job) \<in> set streamed. pj_job_id job \<in> set used \<and>
                fits (cn_db storage) (machine p) (pj_job_id job)"
  shows "sinv sv"
proof -
  from boot obtain q q' where q: "queue_new storage = Inr q"
      and off: "queue_set_all_clients_offline (set_job_events [] q) = (Inr (), q')"
      and sv: "sv_queue sv = q'" "sv_streamed sv = streamed" "sv_used_ids sv = used" "sv_conns sv = []"
    by (auto simp: boot_def split: sum.splits prod.splits)
  have q1: "qinv (set used) q" "q_db q = cn_db storage"
    using queue_new_inv [OF good q] by auto
  have "qinv (set used) (set_job_events [] q)"
    using q1(1) by (simp add: qinv_def set_job_events_def)
  with movesD [OF qsafe_clients(6) off, of "set used"]
  have q': "qinv (set used) q'" "targets_kept (set used) (cn_db storage) (q_db q')"
    using q1(2) by (auto simp: qsafe_def qext_def set_job_events_def)
  with sv log show ?thesis by (fastforce simp: sinv_def Let_def intro: fits_kept)
qed

lemma server_step_inv:
  assumes "server_step cfg sv sv'" and inv: "sinv sv"
  shows "sinv sv'"
  using assms(1)
proof cases
  case (subscribe ident peer)
  then show ?thesis
    using inv by (auto simp: sinv_def Let_def new_conn_def pinv_def)
next
  case (connection i env p' sv'')
  then show ?thesis using sinv_connection [OF inv connection(2,3)] by simp
next
  case (received meta now path)
  have "qinv (set (sv_used_ids sv)) (sv_queue sv)" using inv by (simp add: sinv_def Let_def)
  from push_fresh [OF this, of meta now path] received inv show ?thesis
    by (intro sinv_queue [OF inv]) (auto simp: runs_def with_queue_def)
next
  case (completion now c r q)
  show ?thesis
    unfolding completion(1)
    by (rule sinv_safe [OF inv]) (auto intro: movesD [OF qsafe_handlers(2) completion(3)])
next
  case (retry i now)
  show ?thesis
    unfolding retry(1)
    by (rule sinv_same [OF sinv_runs [OF inv qsafe_requeue]]) (auto simp: runs_def with_queue_def)
next
  case (tick now stale q)
  show ?thesis
    unfolding tick(1)
    by (rule sinv_safe [OF inv]) (auto intro: movesD [OF qsafe_tick tick(3)])
next
  case (visit job rest now)
  show ?thesis
    unfolding visit(1)
    by (rule sinv_same [OF sinv_runs [OF inv qsafe_handlers(4)]]) (auto simp: runs_def with_queue_def)
next
  case restart
  then show ?thesis
    using boot_inv [OF restart(2)] inv by (auto simp: sinv_def Let_def qinv_def)
qed (use inv in \<open>auto intro!: sinv_runs safe_keeps\<close>)

lemma server_run_inv: "server_run cfg sv sv' \<Longrightarrow> sinv sv \<Longrightarrow> sinv sv'"
  by (induction rule: server_run.induct) (auto intro: server_step_inv)

text \<open>
  C6. With a database that answers: in every run from a server that has just started, a job is
  only ever streamed to the machine its row is routed to, or to any machine when it is routed
  to none. A job of a paired virtual printer never reaches another machine, through reconnects,
  retries, the reaper, held jobs and restarts.
\<close>

theorem job_streamed_only_to_its_machine:
  assumes "boot storage used [] = Inr sv" and "cn_faults storage = []" and "store_wf (cn_db storage)"
    and "jr_job_id ` set (st_jobs (cn_db storage)) \<subseteq> set used"
    and "server_run cfg sv sv'" and "(p, job) \<in> set (sv_streamed sv')"
    and "row_of jr_job_id (pj_job_id job) (st_jobs (sv_db sv')) = Some r"
  shows "jr_target_client_id r = None \<or> jr_target_client_id r = Some (machine p)"
proof -
  have "good_conn (set used) storage"
    using assms(2-4) by (simp add: good_conn_def rows_in_def)
  then have "sinv sv" using boot_inv [OF assms(1)] by simp
  then have "sinv sv'" using server_run_inv [OF assms(5)] by simp
  with assms(6,7) show ?thesis
    by (fastforce simp: sinv_def Let_def fits_def aimed_def)
qed

end
