(* ===== verification/Server_Lost.thy ===== *)
theory Server_Lost
  imports Server_Routing
begin

text \<open>
  A job that is queued in the database but whose id is nowhere in memory: no step of the server brings
  it back, short of a start or a report of a client on that very job.
\<close>

section \<open>The row\<close>

definition parked :: "string \<Rightarrow> store \<Rightarrow> bool" where
  "parked k d \<longleftrightarrow>
     (\<forall>r \<in> set (st_jobs d). jr_job_id r = k \<longrightarrow> jr_state r = ''queued'' \<and> jr_target_client_id r = None)"

abbreviation keeps_parked :: "string \<Rightarrow> (store conn, 'a) op \<Rightarrow> bool" where
  "keeps_parked k \<equiv> moves (\<lambda>c c'. parked k (cn_db c) \<longrightarrow> parked k (cn_db c'))"

interpretation parked: invariant "\<lambda>c :: store conn. parked k (cn_db c)" for k .

named_theorems parked_keeps "operations that leave the row of another job alone"

lemma parked_query [parked_keeps]: "keeps_parked k (query f)"
  by (rule keeps_query)

lemma parked_update_jobs:
  assumes "\<And>r. P r \<Longrightarrow> jr_job_id r \<noteq> k" and "\<And>r. jr_job_id (f r) = jr_job_id r"
  shows "keeps_parked k (update_jobs P f)"
  unfolding update_jobs_def
  by (rule keeps_sql) (use assms in \<open>fastforce simp: parked_def set_upd_where split: if_splits\<close>)

lemma parked_insert_job:
  assumes "jm_job_id m \<noteq> k"
  shows "keeps_parked k (insert_job m path)"
  unfolding insert_job_def
  by (rule keeps_sql)
    (use assms in \<open>auto simp: parked_def upsert_job_row_def set_upd_where job_to_row_def split: option.splits if_splits\<close>)

lemma parked_other [parked_keeps]:
  "keeps_parked k (insert_job_event ev)" "keeps_parked k (update_clients P g)" "keeps_parked k (upsert_client reg)"
  "keeps_parked k clear_jobs" "keeps_parked k (insert_virtual_printer vp)" "keeps_parked k (update_virtual_printer now vp)"
  "keeps_parked k (delete_virtual_printer v)"
  unfolding insert_job_event_def update_clients_def upsert_client_def clear_jobs_def insert_virtual_printer_def
    update_virtual_printer_def delete_virtual_printer_def
  by (intro parked.inv.moves_rules keeps_sql; auto simp: parked_def Let_def split: if_splits)+

lemma parked_jobs:
  assumes "i \<noteq> k"
  shows "keeps_parked k (update_job_state now i s)" "keeps_parked k (update_job_state_unless_terminal now i s)"
    "keeps_parked k (storage_requeue_job now i detail)" "keeps_parked k (unconfirm_completed_job now i)"
  unfolding update_job_state_def update_job_state_unless_terminal_def storage_requeue_job_def unconfirm_completed_job_def
    existing_state_text_def
  by (intro parked.inv.moves_rules parked_update_jobs parked_keeps; use assms in auto)+

lemma parked_lookup [parked_keeps]: "keeps_parked k (lookup_field f i)"
  unfolding lookup_field_def storage_get_job_def by (intro parked.inv.moves_rules parked_keeps)

section \<open>The queue\<close>

definition forgotten :: "string \<Rightarrow> queue \<Rightarrow> bool" where
  "forgotten k q \<longleftrightarrow>
     parked k (q_db q) \<and> k \<notin> set (q_default_pending q) \<and> (\<forall>ch m ids. q_chans q ch = Some (m, ids) \<longrightarrow> k \<notin> set ids)"

abbreviation keeps_forgotten :: "string \<Rightarrow> (queue, 'a) op \<Rightarrow> bool" where
  "keeps_forgotten k \<equiv> moves (\<lambda>q q'. forgotten k q \<longrightarrow> forgotten k q')"

interpretation forgotten: invariant "\<lambda>q. forgotten k q" for k .

named_theorems forgotten_keeps "queue operations that do not bring a forgotten job back"

lemma forgotten_on_storage: "keeps_parked k m \<Longrightarrow> keeps_forgotten k (on_storage m)"
  by (rule movesI) (auto simp: on_storage_def zoom_op_def forgotten_def split: prod.splits dest: movesD)

lemma forgotten_modify: "(\<And>q. forgotten k q \<Longrightarrow> forgotten k (f q)) \<Longrightarrow> keeps_forgotten k (modify_op f)"
  by (rule movesI) (simp add: modify_op_def)

lemma forgotten_send: "i \<noteq> k \<Longrightarrow> forgotten k q \<Longrightarrow> forgotten k (send_to_client m i q)"
  by (auto simp: forgotten_def send_to_client_def chan_send_def split: option.splits prod.splits)

lemma forgotten_route: "i \<noteq> k \<Longrightarrow> forgotten k q \<Longrightarrow> forgotten k (route t i q)"
  using forgotten_send [of i k q] by (auto simp: route_def push_default_def forgotten_def split: option.splits)

lemma forgotten_events [forgotten_keeps]:
  "keeps_forgotten k (modify_op (emit_event ev))" "keeps_forgotten k (modify_op signal_reconciler)"
  "keeps_forgotten k (modify_op (\<lambda>q. q\<lparr>q_pairing_notify := Suc (q_pairing_notify q)\<rparr>))"
  by (rule forgotten_modify; auto simp: forgotten_def emit_event_def signal_reconciler_def split: option.splits)+

lemma forgotten_get_job [forgotten_keeps]: "keeps_forgotten k (get_job i)"
  unfolding get_job_def storage_get_job_def by (intro forgotten_on_storage parked_keeps)

lemma forgotten_insert_event [forgotten_keeps]: "keeps_forgotten k (queue_insert_job_event ev)"
  unfolding queue_insert_job_event_def by (intro forgotten_on_storage parked_keeps)

lemma forgotten_clients [forgotten_keeps]:
  "keeps_forgotten k (queue_upsert_client reg)" "keeps_forgotten k (queue_get_client m)"
  "keeps_forgotten k (queue_set_client_online now m b)" "keeps_forgotten k (queue_touch_client now m)"
  "keeps_forgotten k (queue_update_pairing_state m ps)"
  unfolding queue_upsert_client_def queue_get_client_def queue_set_client_online_def queue_touch_client_def get_client_def
    set_client_online_def touch_client_def queue_update_pairing_state_def update_pairing_state_def
  by (intro forgotten.inv.moves_rules forgotten_on_storage parked.inv.moves_rules parked_keeps forgotten_keeps)+

lemma forgotten_printers [forgotten_keeps]:
  "keeps_forgotten k (queue_insert_virtual_printer vp)" "keeps_forgotten k (queue_update_virtual_printer now vp)"
  "keeps_forgotten k (queue_delete_virtual_printer v)" "keeps_forgotten k queue_clear_jobs"
  unfolding queue_insert_virtual_printer_def queue_update_virtual_printer_def queue_delete_virtual_printer_def queue_clear_jobs_def
  by (intro forgotten.inv.moves_rules forgotten_on_storage parked_keeps forgotten_keeps)+

lemma forgotten_heartbeat [forgotten_keeps]: "keeps_forgotten k (heartbeat now m)"
  unfolding heartbeat_def by (intro forgotten.inv.moves_rules forgotten_keeps)

lemma forgotten_states:
  assumes "i \<noteq> k"
  shows "keeps_forgotten k (update_state now i s)" "keeps_forgotten k (update_state_unless_terminal now i s)"
    "keeps_forgotten k (unconfirm_completed now i)" "keeps_forgotten k (requeue_job now i detail)"
  unfolding update_state_def update_state_unless_terminal_def unconfirm_completed_def requeue_job_def
  by (intro forgotten.inv.moves_rules forgotten_on_storage parked.inv.moves_rules parked_jobs parked_keeps forgotten_keeps
      forgotten_modify forgotten_route; use assms in simp)+

lemma forgotten_reports:
  assumes "i \<noteq> k"
  shows "su_job_id upd = i \<Longrightarrow> keeps_forgotten k (apply_status_update parse now upd)"
    and "jc_job_id c = i \<Longrightarrow> keeps_forgotten k (complete_job mr rd now c)"
    and "jm_job_id job = i \<Longrightarrow> keeps_forgotten k (reaper_visit mr now job)"
  unfolding apply_status_update_def Let_def complete_job_def warn_mismatch_def fail_branch_def reaper_visit_def
  by (intro forgotten.inv.moves_rules forgotten_states forgotten_keeps; use assms in simp)+

lemma parked_resolve [parked_keeps]: "keeps_parked k (resolve_target meta)"
  unfolding resolve_target_def get_virtual_printer_by_ipp_name_def by (intro parked.inv.moves_rules parked_keeps)

lemma forgotten_push:
  assumes new: "jm_job_id meta \<noteq> k"
  shows "keeps_forgotten k (push now meta path)"
proof (rule movesI)
  fix q
  have id: "jm_job_id meta' = jm_job_id meta" if "push_store meta path c = (Inr meta', c')" for meta' c c'
  proof -
    obtain r c1 where res: "resolve_target meta c = (r, c1)" by fastforce
    have "r = Inr meta'"
      using that res by (auto simp: push_store_def try_op_def ok_def split: sum.splits prod.splits)
    then show ?thesis using res resolve_target_id by fastforce
  qed
  have store: "keeps_parked k (push_store meta path)"
  proof (rule movesI)
    fix c
    show "parked k (cn_db c) \<longrightarrow> parked k (cn_db (snd (push_store meta path c)))"
      unfolding push_store_def
    proof (rule parked.inv.step_try [OF parked_resolve])
      fix meta' c1
      assume "resolve_target meta c = (Inr meta', c1)"
      then have "jm_job_id meta' \<noteq> k" using resolve_target_id new by fastforce
      then have "keeps_parked k (try_op (insert_job meta' path) (\<lambda>_. ok meta'))"
        by (intro parked.inv.moves_rules parked_insert_job)
      then show "parked k (cn_db c1) \<longrightarrow> parked k (cn_db (snd (try_op (insert_job meta' path) (\<lambda>_. ok meta') c1)))"
        by (simp add: moves_def)
    qed
  qed
  show "forgotten k q \<longrightarrow> forgotten k (snd (push now meta path q))"
    unfolding push_def
  proof (rule forgotten.inv.step_try [OF forgotten_on_storage [OF store]])
    fix meta' q1
    assume "on_storage (push_store meta path) q = (Inr meta', q1)"
    then have "jm_job_id meta' \<noteq> k"
      using id new by (auto simp: on_storage_def zoom_op_def split: prod.splits)
    then have "keeps_forgotten k (try_op (modify_op (emit_event (JE_Created (jm_job_id meta') (jm_document_name meta')
               (jm_requesting_user meta') (jm_target_printer meta')))) (\<lambda>_.
        ignore_op (queue_insert_job_event (event_ok now (jm_job_id meta') PS_Routed (route_detail meta')))
          (modify_op (route (jm_target_client_id meta') (jm_job_id meta')))))"
      by (intro forgotten.inv.moves_rules forgotten_keeps forgotten_modify forgotten_route)
    then show "forgotten k q1 \<longrightarrow> forgotten k (snd (try_op (modify_op (emit_event (JE_Created (jm_job_id meta') (jm_document_name meta')
               (jm_requesting_user meta') (jm_target_printer meta')))) (\<lambda>_.
        ignore_op (queue_insert_job_event (event_ok now (jm_job_id meta') PS_Routed (route_detail meta')))
          (modify_op (route (jm_target_client_id meta') (jm_job_id meta')))) q1))"
      by (simp add: moves_def)
  qed
qed

text \<open>What a query of the jobs can return.\<close>

lemma selected_rows:
  assumes "on_storage (select_jobs f) q = (Inr jobs, q')" and "job \<in> set jobs"
  shows "\<exists>r \<in> set (f (st_jobs (q_db q))). row_to_job r = Inr job"
proof -
  obtain c' where "select_jobs f (q_storage q) = (Inr jobs, c')"
    using assms(1) by (auto simp: on_storage_def zoom_op_def split: prod.splits)
  then show ?thesis
    unfolding select_jobs_def by (auto dest!: query_result collect_results_mem [OF _ assms(2)])
qed

lemma row_job_fields:
  "row_to_job r = Inr job \<Longrightarrow> jm_job_id job = jr_job_id r"
  by (auto simp: row_to_job_def split: if_splits)

lemma forgotten_fold_send:
  "k \<notin> set ids \<Longrightarrow> forgotten k q \<Longrightarrow> forgotten k (fold (send_to_client m) ids q)"
proof (induction ids arbitrary: q)
  case (Cons i ids)
  then have "forgotten k (send_to_client m i q)" by (intro forgotten_send) auto
  then show ?case using Cons by simp
qed simp

lemma forgotten_drain [forgotten_keeps]: "keeps_forgotten k (drain_pending_for_client m)"
proof (rule movesI, rule impI)
  fix q assume f: "forgotten k q"
  obtain r q' where g: "on_storage (get_queued_jobs_for_client m) q = (r, q')" by fastforce
  have "keeps_forgotten k (on_storage (get_queued_jobs_for_client m))"
    unfolding get_queued_jobs_for_client_def select_jobs_def by (intro forgotten_on_storage parked_keeps)
  then have f': "forgotten k q'" using movesD g f by fastforce
  have "k \<notin> set (map jm_job_id jobs)" if jobs: "r = Inr jobs" for jobs
  proof
    assume "k \<in> set (map jm_job_id jobs)"
    then obtain job where job: "job \<in> set jobs" "jm_job_id job = k" by auto
    then obtain row where "row \<in> set (st_jobs (q_db q))" "jr_target_client_id row = Some m" "row_to_job row = Inr job"
      using selected_rows [OF g [unfolded jobs get_queued_jobs_for_client_def] job(1)] by auto
    then show False using f job(2) row_job_fields [of row job] by (auto simp: forgotten_def parked_def)
  qed
  then show "forgotten k (snd (drain_pending_for_client m q))"
    using g f' forgotten_fold_send by (auto simp: drain_pending_for_client_def match_op_def modify_op_def ok_def split: sum.splits)
qed

lemma forgotten_tick:
  assumes "reaper_tick rd now q = (Inr stale, q')" and f: "forgotten k q"
  shows "forgotten k q' \<and> (\<forall>job \<in> set stale. jm_job_id job \<noteq> k)"
proof -
  obtain r q1 where g: "get_stale_jobs now (rd * 10) q = (r, q1)" by fastforce
  have "keeps_forgotten k (get_stale_jobs now (rd * 10))"
    unfolding get_stale_jobs_def storage_get_stale_jobs_def select_jobs_def by (intro forgotten_on_storage parked_keeps)
  then have f': "forgotten k q1" using movesD g f by fastforce
  have eq: "q' = q1" "stale = (case r of Inl _ \<Rightarrow> [] | Inr jobs \<Rightarrow> jobs)"
    using assms(1) g by (auto simp: reaper_tick_def match_op_def ok_def)
  have "jm_job_id job \<noteq> k" if jobs: "r = Inr jobs" "job \<in> set jobs" for jobs job
  proof
    assume k: "jm_job_id job = k"
    obtain row where "row \<in> set (st_jobs (q_db q))" "jr_state row \<in> set ACTIVE" "row_to_job row = Inr job"
      using selected_rows [OF g [unfolded jobs(1) get_stale_jobs_def storage_get_stale_jobs_def] jobs(2)] by auto
    then show False using f k row_job_fields [of row job] by (auto simp: forgotten_def parked_def ACTIVE_def)
  qed
  then show ?thesis using eq f' by (auto split: sum.splits)
qed

lemma completion_retry_id:
  "complete_job mr rd now c q = (Inr (Some t), q') \<Longrightarrow> rt_job_id t = jc_job_id c"
  by (auto simp: complete_job_def fail_branch_def op_defs ignore_op_def match_op_def try_op_def ok_def bail_def
      split: if_splits sum.splits prod.splits option.splits)

section \<open>The server\<close>

definition lost :: "string \<Rightarrow> server \<Rightarrow> bool" where
  "lost k sv \<longleftrightarrow>
     forgotten k (sv_queue sv) \<and> k \<in> set (sv_used_ids sv) \<and> (\<forall>p \<in> set (sv_conns sv). pc_job (pr_pc p) \<noteq> Some k) \<and>
     (\<forall>t \<in> set (sv_retries sv). rt_job_id t \<noteq> k) \<and> (\<forall>job \<in> set (sv_stale sv). jm_job_id job \<noteq> k)"

lemma forgotten_channels:
  assumes "forgotten k q"
  shows "chan_recv ch q = (Some i, q') \<Longrightarrow> i \<noteq> k \<and> forgotten k q'"
    and "next_job q = (Some i, q') \<Longrightarrow> i \<noteq> k \<and> forgotten k q'"
    and "register_client m c q = (ch, q') \<Longrightarrow> forgotten k q'"
    and "forgotten k (unregister_client m c q)" and "forgotten k (chan_drop ch q)"
proof -
  show "i \<noteq> k \<and> forgotten k q'" if recv: "chan_recv ch q = (Some i, q')"
  proof -
    obtain m' ids where ch: "q_chans q ch = Some (m', i # ids)" "q' = q\<lparr>q_chans := (q_chans q)(ch \<mapsto> (m', ids))\<rparr>"
      using recv by (auto simp: chan_recv_def split: option.splits list.splits)
    have "k \<notin> set (i # ids)" using assms ch(1) unfolding forgotten_def by blast
    then show ?thesis using assms ch(2) by (auto simp: forgotten_def split: if_splits)
  qed
  show "next_job q = (Some i, q') \<Longrightarrow> i \<noteq> k \<and> forgotten k q'"
    using assms by (auto simp: forgotten_def next_job_def split: list.splits)
  show "register_client m c q = (ch, q') \<Longrightarrow> forgotten k q'"
    using assms by (auto simp: forgotten_def register_client_def Let_def split: if_splits)
  show "forgotten k (unregister_client m c q)" "forgotten k (chan_drop ch q)"
    using assms by (auto simp: forgotten_def unregister_client_def chan_drop_def split: option.splits if_splits)
qed

definition conn_lost :: "string \<Rightarrow> server \<Rightarrow> conn_proc \<Rightarrow> server \<Rightarrow> bool" where
  "conn_lost k sv p' sv' \<longleftrightarrow>
     forgotten k (sv_queue sv') \<and> pc_job (pr_pc p') \<noteq> Some k \<and> streamed_of k sv' = streamed_of k sv \<and>
     sv_used_ids sv' = sv_used_ids sv \<and> sv_retries sv' = sv_retries sv \<and> sv_stale sv' = sv_stale sv"

lemmas conn_lost_defs = conn_step_def conn_lost_def with_queue_def streamed_of_def Let_def

lemma conn_step_lost:
  assumes step: "conn_step env p sv = (p', sv')" and f: "forgotten k (sv_queue sv)" and pc: "pc_job (pr_pc p) \<noteq> Some k"
  shows "conn_lost k sv p' sv'"
proof (cases "pr_pc p")
  case (C_Send i)
  obtain out q where s: "load_job i (sv_queue sv) = (out, q)" by fastforce
  have "q = snd (get_job i (sv_queue sv))"
    using s by (auto simp: load_job_def split: prod.splits sum.splits option.splits if_splits)
  then have "forgotten k q" using forgotten_get_job [of k i] f by (simp add: moves_def)
  moreover have "out = Some job \<Longrightarrow> pj_job_id job = i" for job using load_job_out s by blast
  ultimately show ?thesis using step C_Send s pc by (auto simp: conn_lost_defs split: option.splits)
next
  case C_Upsert
  then show ?thesis using step f forgotten_clients(1) by (auto simp: conn_lost_defs moves_def)
next
  case C_PairCheck
  then show ?thesis using step f movesD [OF forgotten_clients(2)]
    by (auto simp: conn_lost_defs split: prod.splits sum.splits option.splits if_splits)
next
  case C_Register
  then show ?thesis using step f forgotten_channels(3)
    by (auto simp: conn_lost_defs at_def split: prod.splits)
next
  case C_Online
  then show ?thesis using step f forgotten_clients(3) by (auto simp: conn_lost_defs moves_def)
next
  case C_Drain
  then show ?thesis using step f forgotten_drain by (auto simp: conn_lost_defs moves_def)
next
  case C_Check
  then show ?thesis using step f movesD [OF forgotten_clients(2)]
    by (auto simp: conn_lost_defs split: prod.splits if_splits)
next
  case (C_Poll takes)
  then show ?thesis using step f forgotten_channels(1) [OF f]
    by (auto simp: conn_lost_defs split: prod.splits option.splits)
next
  case (C_Default takes n)
  then show ?thesis using step f forgotten_channels(2) [OF f]
    by (auto simp: conn_lost_defs split: prod.splits option.splits if_splits)
next
  case (C_Select n)
  then show ?thesis using step f forgotten_channels(1) [OF f]
    by (auto simp: conn_lost_defs split: prod.splits option.splits if_splits)
next
  case C_IsActive
  then show ?thesis using step f forgotten_channels(5) [OF f] by (auto simp: conn_lost_defs split: if_splits)
next
  case C_Unregister
  then show ?thesis using step f forgotten_channels(4) [OF f] by (auto simp: conn_lost_defs)
next
  case C_Offline
  have "forgotten k (snd (queue_set_client_online (en_now env) (machine p) False (sv_queue sv)))"
    using forgotten_clients(3) f by (simp add: moves_def)
  then show ?thesis using C_Offline step forgotten_channels(5) by (auto simp: conn_lost_defs)
qed (use step f pc in \<open>auto simp: conn_lost_defs split: if_splits\<close>)

text \<open>An operation on the queue.\<close>

lemma lost_op:
  assumes "keeps_forgotten k m" and "lost k sv" and "sv_queue sv' = snd (m (sv_queue sv))"
    and "sv_used_ids sv' = sv_used_ids sv" and "sv_conns sv' = sv_conns sv" and "set (sv_retries sv') \<subseteq> set (sv_retries sv)"
    and "set (sv_stale sv') \<subseteq> set (sv_stale sv)"
  shows "lost k sv'"
  using assms by (auto simp: lost_def moves_def)

lemma lost_runs: "keeps_forgotten k m \<Longrightarrow> lost k sv \<Longrightarrow> lost k (runs m sv) \<and> streamed_of k (runs m sv) = streamed_of k sv"
  using lost_op [of k m sv "runs m sv"] by (simp add: runs_def with_queue_def streamed_of_def)

lemma server_step_lost:
  assumes "server_step cfg sv sv'" and lost: "lost k sv" and "\<not> sc_may_restart cfg" and "\<not> sc_may_report cfg k"
  shows "lost k sv' \<and> streamed_of k sv' = streamed_of k sv"
  using assms(1)
proof cases
  case (subscribe ident peer)
  then show ?thesis using lost by (simp add: lost_def streamed_of_def new_conn_def)
next
  case (connection i env p' sv'')
  have f: "forgotten k (sv_queue sv)" "pc_job (pr_pc (sv_conns sv ! i)) \<noteq> Some k"
    using lost connection(2) by (auto simp: lost_def)
  have c: "conn_lost k sv p' sv''" by (rule conn_step_lost [OF connection(3) f])
  then have "pc_job (pr_pc p) \<noteq> Some k" if "p \<in> set ((sv_conns sv)[i := p'])" for p
    using that lost set_update_subset_insert [of "sv_conns sv" i p'] by (auto simp: lost_def conn_lost_def)
  then show ?thesis using c lost connection(1) by (auto simp: lost_def conn_lost_def streamed_of_def)
next
  case (received meta now path)
  then have ne: "jm_job_id meta \<noteq> k" using lost by (auto simp: lost_def)
  from lost_runs [OF forgotten_push [OF ne] lost, of now path] show ?thesis
    unfolding received(1) using ne lost by (auto simp: lost_def streamed_of_def)
next
  case (status upd now)
  then have "su_job_id upd \<noteq> k" using assms(4) by auto
  then show ?thesis unfolding status(1) by (intro lost_runs [OF _ lost] forgotten_reports(1) [OF _ refl])
next
  case (completion c now r q)
  then have ne: "jc_job_id c \<noteq> k" using assms(4) by auto
  have "forgotten k q" using movesD [OF forgotten_reports(2) [OF ne refl] completion(3)] lost by (simp add: lost_def)
  moreover have "rt_job_id t \<noteq> k" if "r = Inr (Some t)" for t using completion_retry_id completion(3) ne that by metis
  ultimately show ?thesis using lost unfolding completion(1)
    by (auto simp: lost_def streamed_of_def split: sum.splits option.splits)
next
  case (retry i now)
  have "rt_job_id (sv_retries sv ! i) \<noteq> k" using lost retry(2) by (auto simp: lost_def)
  then have "keeps_forgotten k (requeue_job now (rt_job_id (sv_retries sv ! i)) (rt_detail (sv_retries sv ! i)))"
    by (rule forgotten_states(4))
  then show ?thesis unfolding retry(1)
    by (intro conjI lost_op [OF _ lost])
      (auto simp: runs_def with_queue_def streamed_of_def dest: in_set_takeD in_set_dropD)
next
  case (tick now stale q)
  then show ?thesis using forgotten_tick [OF tick(3)] lost by (auto simp: lost_def streamed_of_def)
next
  case (visit job rest now)
  have "jm_job_id job \<noteq> k" using lost visit(2) by (auto simp: lost_def)
  then have "keeps_forgotten k (reaper_visit (sc_max_retries cfg) now job)" by (rule forgotten_reports(3) [OF _ refl])
  then show ?thesis unfolding visit(1)
    by (intro conjI lost_op [OF _ lost]) (use visit(2) in \<open>auto simp: runs_def with_queue_def streamed_of_def\<close>)
next
  case restart
  then show ?thesis using assms(3) by simp
qed (simp only:, rule lost_runs [OF _ lost], rule forgotten_keeps)+

lemma lost_stays:
  assumes "server_run cfg sv sv'" and "lost k sv" and "\<not> sc_may_restart cfg" and "\<not> sc_may_report cfg k"
  shows "lost k sv' \<and> streamed_of k sv' = streamed_of k sv"
  using assms by (induction rule: server_run.induct) (auto dest: server_step_lost)

end
