(* ===== verification/Server_Races.thy ===== *)
theory Server_Races
  imports Server_Lost
begin

text \<open>
  Concrete runs of the server. First an instance of the routing theorem on a run that streams
  a paired job. Then runs that end where the comments of the code say it cannot end: a lost
  default-queue job, a delivery to a rejected client, a live client marked offline, a missed
  approval, a job streamed twice, and a paired job in the default queue.
\<close>

definition pc_identity :: ClientIdentity where
  "pc_identity =
     \<lparr>ci_machine_id = ''pc'', ci_hostname = ''h'', ci_printer_names = [], ci_client_version = ''1'',
      ci_virtual_printer_name = [], ci_virtual_printer_driver = []\<rparr>"

definition pc_row :: "string \<Rightarrow> client_row" where
  "pc_row pairing =
     \<lparr>cw_machine_id = ''pc'', cw_hostname = ''h'', cw_printer_names = [], cw_client_version = ''1'',
      cw_last_seen = 0, cw_is_online = 0, cw_pairing_state = pairing,
      cw_virtual_printer_name = None, cw_virtual_printer_driver = None\<rparr>"

text \<open>A virtual printer \<open>lp\<close> paired to the machine \<open>pc\<close>.\<close>

definition pc_printer :: VirtualPrinter where
  "pc_printer =
     \<lparr>vp_id = ''v'', vp_display_name = ''LP'', vp_ipp_name = ''lp'', vp_paired_client_id = Some ''pc'',
      vp_driver = None, vp_created_at = 0, vp_updated_at = 0\<rparr>"

definition pc_store :: "string \<Rightarrow> VirtualPrinter list \<Rightarrow> store" where
  "pc_store pairing vps = empty_store\<lparr>st_clients := [pc_row pairing], st_virtual_printers := vps\<rparr>"

definition env0 :: "string \<Rightarrow> bool \<Rightarrow> step_env" where
  "env0 uuid gone = \<lparr>en_now = 1, en_uuid = uuid, en_gone = gone, en_notified_first = False\<rparr>"

definition receives :: "string \<Rightarrow> server \<Rightarrow> server" where
  "receives k sv =
     runs (push 2 (sample_job k JS_Queued) ''spool'') sv\<lparr>sv_used_ids := k # sv_used_ids sv\<rparr>"

lemma run_receives: "k \<notin> set (sv_used_ids sv) \<Longrightarrow> server_run cfg sv (receives k sv)"
  unfolding receives_def
  using server_step.received [of "sample_job k JS_Queued" sv cfg 2 "''spool''"]
  by (intro run_one) (simp add: sample_job_def)

lemma conns_receives [simp]: "sv_conns (receives k sv) = sv_conns sv"
  by (simp add: receives_def runs_def with_queue_def)

definition pairs :: "PairingState \<Rightarrow> server \<Rightarrow> server" where
  "pairs ps sv = runs (queue_update_pairing_state ''pc'' ps) sv"

lemma run_pairs: "server_run cfg sv (pairs ps sv)"
  unfolding pairs_def by (rule run_one) (rule server_step.pairing)

lemma conns_pairs [simp]: "sv_conns (pairs ps sv) = sv_conns sv"
  by (simp add: pairs_def runs_def with_queue_def)

lemma conns_subscribes [simp]: "length (sv_conns (subscribes ident sv)) = Suc (length (sv_conns sv))"
  by (simp add: subscribes_def)

text \<open>The pairing state of the machine \<open>pc\<close> in the database, and its online flag.\<close>

definition pc_pairing :: "server \<Rightarrow> string option" where
  "pc_pairing sv = map_option cw_pairing_state (row_of cw_machine_id ''pc'' (st_clients (sv_db sv)))"

definition pc_online :: "server \<Rightarrow> int option" where
  "pc_online sv = map_option cw_is_online (row_of cw_machine_id ''pc'' (st_clients (sv_db sv)))"

definition start :: "string \<Rightarrow> VirtualPrinter list \<Rightarrow> server" where
  "start pairing vps = projr (boot (quiet (pc_store pairing vps)) [] [])"

lemma boot_quiet: "boot (quiet (pc_store pairing vps)) [] [] = Inr (start pairing vps)"
  by (simp add: start_def boot_def queue_new_def get_pending_jobs_def select_jobs_def pc_store_def
      empty_store_def queue_set_all_clients_offline_def on_storage_def zoom_op_def set_job_events_def
      set_all_clients_offline_def update_clients_def op_defs default_ids_def)

section \<open>A routed job reaches its machine\<close>

definition routed_run :: server where
  "routed_run = drives 10 (env0 ''c1'' False) 0 (receives ''j'' (subscribes pc_identity
     (start ''approved'' [pc_printer])))"

theorem job_streamed_only_to_its_machine_witness:
  "\<exists>p job r. sv_streamed routed_run = [(p, job)] \<and> machine p = ''pc'' \<and> pj_job_id job = ''j'' \<and>
     row_of jr_job_id ''j'' (st_jobs (sv_db routed_run)) = Some r \<and> jr_target_client_id r = Some ''pc'' \<and>
     (jr_target_client_id r = None \<or> jr_target_client_id r = Some (machine p))"
proof -
  have "map (\<lambda>(p, job). (machine p, pj_job_id job)) (sv_streamed routed_run) = [(''pc'', ''j'')]"
    by code_simp
  then obtain p job where out: "sv_streamed routed_run = [(p, job)]" "machine p = ''pc''" "pj_job_id job = ''j''"
    by auto
  have "map_option jr_target_client_id (row_of jr_job_id ''j'' (st_jobs (sv_db routed_run))) = Some (Some ''pc'')"
    by code_simp
  then obtain r where row: "row_of jr_job_id ''j'' (st_jobs (sv_db routed_run)) = Some r"
    "jr_target_client_id r = Some ''pc''" by auto
  have used: "sv_used_ids (subscribes pc_identity (start ''approved'' [pc_printer])) = []"
    by code_simp
  have run: "server_run sample_config (start ''approved'' [pc_printer]) routed_run"
    unfolding routed_run_def using used
    by (intro run_trans [OF run_drives] run_trans [OF run_receives] run_subscribes) simp_all
  have "store_wf (pc_store ''approved'' [pc_printer])"
    by (simp add: store_wf_def pc_store_def empty_store_def keyed_def)
  with job_streamed_only_to_its_machine [OF boot_quiet _ _ _ run, of p job r] out row show ?thesis
    by (simp add: pc_store_def empty_store_def)
qed

section \<open>Runs the comments of the code exclude\<close>

text \<open>
  A delivery task whose client has gone pops an unpaired job from the default queue and only
  then notices: the id is in no queue, channel or retry any more.
\<close>

definition lost_run :: server where
  "lost_run = drives 14 (env0 ''c1'' True) 0 (receives ''j'' (subscribes pc_identity (start ''approved'' [])))"

lemma run_lost: "server_run sample_config (start ''approved'' []) lost_run"
proof -
  have "sv_used_ids (subscribes pc_identity (start ''approved'' [])) = []" by code_simp
  then show ?thesis
    unfolding lost_run_def
    by (intro run_trans [OF run_drives] run_trans [OF run_receives] run_subscribes) simp_all
qed

lemma lost_run_lost: "lost ''j'' lost_run"
proof -
  have "list_all (\<lambda>r. jr_job_id r = ''j'' \<longrightarrow> jr_state r = ''queued'' \<and> jr_target_client_id r = None) (st_jobs (sv_db lost_run))"
    by code_simp
  then have "parked ''j'' (sv_db lost_run)" by (simp add: parked_def list_all_iff)
  moreover have "q_default_pending (sv_queue lost_run) = []" by code_simp
  moreover have "q_chans (sv_queue lost_run) ch = None" for ch
  proof -
    have "good_conn {} (quiet (pc_store ''approved'' []))"
      by (simp add: good_conn_def store_wf_def pc_store_def empty_store_def keyed_def rows_in_def)
    then have "sinv (start ''approved'' [])" using boot_inv [OF boot_quiet] by simp
    then have "sinv lost_run" by (rule server_run_inv [OF run_lost])
    then have "q_chans (sv_queue lost_run) ch = None \<or> ch < q_next_chan (sv_queue lost_run)"
      by (cases "q_chans (sv_queue lost_run) ch") (auto simp: sinv_def Let_def qinv_def)
    moreover have "q_next_chan (sv_queue lost_run) = 1" "q_chans (sv_queue lost_run) 0 = None" by code_simp+
    ultimately show ?thesis by auto
  qed
  moreover have "sv_used_ids lost_run = [''j'']" "map (\<lambda>p. pc_job (pr_pc p)) (sv_conns lost_run) = [None]"
    "sv_retries lost_run = []" "sv_stale lost_run = []"
    by code_simp+
  ultimately show ?thesis by (auto simp: lost_def forgotten_def)
qed

text \<open>
  C36. A job of the default queue is lost by a client that has gone: there is a run after which the job is
  still \<open>queued\<close> in the database, was streamed to nobody, and no connection is open. From there on,
  whatever clients connect, whatever jobs are received, reported, completed, retried or found stale and
  whatever the database does, the job is never streamed and never leaves \<open>queued\<close> as long as the server
  is not started anew and no client reports on that job, which no client was ever told of.
\<close>

theorem default_job_lost_by_gone_client:
  "\<exists>sv. server_run sample_config (start ''approved'' []) sv
      \<and> board_of (sv_db sv) ''j'' = Some (JS_Queued, 0) \<and> sv_streamed sv = [] \<and> map pr_pc (sv_conns sv) = [C_Ended]
      \<and> (\<forall>cfg sv'. server_run cfg sv sv' \<and> \<not> sc_may_restart cfg \<and> \<not> sc_may_report cfg ''j'' \<longrightarrow>
           streamed_of ''j'' sv' = [] \<and>
           (\<forall>r. row_of jr_job_id ''j'' (st_jobs (sv_db sv')) = Some r \<longrightarrow> jr_state r = ''queued''))"
proof (intro exI conjI allI impI)
  show "server_run sample_config (start ''approved'' []) lost_run" by (rule run_lost)
  show "board_of (sv_db lost_run) ''j'' = Some (JS_Queued, 0)" by code_simp
  show streamed: "sv_streamed lost_run = []" by code_simp
  show conns: "map pr_pc (sv_conns lost_run) = [C_Ended]" by code_simp
  fix cfg sv' r
  assume run: "server_run cfg lost_run sv' \<and> \<not> sc_may_restart cfg \<and> \<not> sc_may_report cfg ''j''"
  have "lost ''j'' lost_run" by (rule lost_run_lost)
  then have sv': "lost ''j'' sv'" "streamed_of ''j'' sv' = streamed_of ''j'' lost_run"
    using lost_stays [of cfg lost_run sv' "''j''"] run by auto
  show "streamed_of ''j'' sv' = []" using sv'(2) streamed by (simp add: streamed_of_def)
  assume "row_of jr_job_id ''j'' (st_jobs (sv_db sv')) = Some r"
  then show "jr_state r = ''queued''"
    using sv'(1) row_of_SomeD [of jr_job_id "''j''" "st_jobs (sv_db sv')" r] by (auto simp: lost_def forgotten_def parked_def)
qed

text \<open>Another client connects, and goes through its whole loop.\<close>

theorem default_job_lost_by_gone_client_witness:
  "\<exists>sv. board_of (sv_db sv) ''j'' = Some (JS_Queued, 0) \<and>
        streamed_of ''j'' (drives 8 (env0 ''c2'' False) 1 (subscribes pc_identity sv)) = []"
proof -
  obtain sv where sv: "board_of (sv_db sv) ''j'' = Some (JS_Queued, 0)" "map pr_pc (sv_conns sv) = [C_Ended]"
    and never: "\<forall>cfg sv'. server_run cfg sv sv' \<and> \<not> sc_may_restart cfg \<and> \<not> sc_may_report cfg ''j'' \<longrightarrow>
      streamed_of ''j'' sv' = [] \<and> (\<forall>r. row_of jr_job_id ''j'' (st_jobs (sv_db sv')) = Some r \<longrightarrow> jr_state r = ''queued'')"
    using default_job_lost_by_gone_client by auto
  define cfg where "cfg = sample_config\<lparr>sc_may_report := (\<lambda>_. False), sc_may_restart := False\<rparr>"
  have "length (sv_conns sv) = 1" using sv(2) by (metis length_map list.size(3,4) One_nat_def add.right_neutral add_Suc_right)
  then have "server_run cfg sv (drives 8 (env0 ''c2'' False) 1 (subscribes pc_identity sv))"
    by (intro run_trans [OF run_drives] run_subscribes) simp
  then have "streamed_of ''j'' (drives 8 (env0 ''c2'' False) 1 (subscribes pc_identity sv)) = []"
    using never [rule_format, of cfg] by (simp add: cfg_def)
  with sv(1) show ?thesis by blast
qed

text \<open>A task already waiting in \<open>select!\<close> passed the approval check before the rejection.\<close>

definition rejected_state :: server where
  "rejected_state = pairs Pair_Rejected (drives 8 (env0 ''c1'' False) 0 (subscribes pc_identity
     (start ''approved'' [pc_printer])))"

definition rejected_run :: server where
  "rejected_run = drives 3 (env0 ''c1'' False) 0 (receives ''j'' rejected_state)"

text \<open>
  C37. A job received after the client was rejected is still streamed to it: the delivery task
  re-checks the pairing only at the head of its loop, and a task waiting for a job does not
  wait for a pairing change.
\<close>

theorem rejected_client_still_served:
  "\<exists>sv sv'. server_run sample_config (start ''approved'' [pc_printer]) sv
      \<and> pc_pairing sv = Some ''rejected'' \<and> sv_used_ids sv = []
      \<and> server_run sample_config sv sv' \<and> pc_pairing sv' = Some ''rejected''
      \<and> map (\<lambda>(p, job). (machine p, pj_job_id job)) (sv_streamed sv') = [(''pc'', ''j'')]"
proof (intro exI conjI)
  show "server_run sample_config (start ''approved'' [pc_printer]) rejected_state"
    unfolding rejected_state_def
    by (intro run_trans [OF run_pairs] run_trans [OF run_drives] run_subscribes) simp
  show used: "sv_used_ids rejected_state = []" by code_simp
  have "0 < length (sv_conns rejected_state)" by (simp add: rejected_state_def)
  with used show "server_run sample_config rejected_state rejected_run"
    unfolding rejected_run_def by (intro run_trans [OF run_drives] run_receives) simp_all
  show "pc_pairing rejected_state = Some ''rejected''" by code_simp
  show "pc_pairing rejected_run = Some ''rejected''" by code_simp
  show "map (\<lambda>(p, job). (machine p, pj_job_id job)) (sv_streamed rejected_run) = [(''pc'', ''j'')]"
    by code_simp
qed

text \<open>
  The old connection asks whether it is active, the new one registers and goes online, the old
  one then marks the machine offline.
\<close>

definition offline_run :: server where
  "offline_run =
     drives 2 (env0 ''c1'' True) 0
       (drives 6 (env0 ''c2'' False) 1
         (subscribes pc_identity
           (drives 12 (env0 ''c1'' True) 0 (receives ''j'' (subscribes pc_identity (start ''approved'' []))))))"

text \<open>
  The cleanup of an old connection can mark a machine offline whose new connection is
  registered and live, although the new one registered before it went online.
\<close>

theorem live_client_marked_offline:
  "\<exists>sv. server_run sample_config (start ''approved'' []) sv
      \<and> map pr_pc (sv_conns sv) = [C_Ended, C_Poll True]
      \<and> q_client_channels (sv_queue sv) ''pc'' = Some (''c2'', 1)
      \<and> pc_online sv = Some 0"
proof (intro exI conjI)
  have "sv_used_ids (subscribes pc_identity (start ''approved'' [])) = []" by code_simp
  then show "server_run sample_config (start ''approved'' []) offline_run"
    unfolding offline_run_def
    by (intro run_trans [OF run_drives] run_trans [OF run_receives] run_trans [OF run_subscribes]
        run_subscribes) simp_all
  show "map pr_pc (sv_conns offline_run) = [C_Ended, C_Poll True]" by code_simp
  show "q_client_channels (sv_queue offline_run) ''pc'' = Some (''c2'', 1)" by code_simp
  show "pc_online offline_run = Some 0" by code_simp
qed

definition approved_run :: server where
  "approved_run = drives 2 (env0 ''c1'' False) 0 (pairs Pair_Approved
     (drives 6 (env0 ''c1'' False) 0 (subscribes pc_identity (start ''pending'' []))))"

text \<open>
  C38. An approval can be missed: there is a run after which the client is approved and its
  delivery task waits for the next pairing change, in a state no step of its own leaves.
\<close>

theorem approval_missed:
  "\<exists>sv. server_run sample_config (start ''pending'' []) sv \<and> pc_pairing sv = Some ''approved''
      \<and> map pr_pc (sv_conns sv) = [C_PairWait 1]
      \<and> q_pairing_notify (sv_queue sv) = 1
      \<and> (\<forall>env. drive env 0 sv = sv)"
proof (intro exI conjI allI)
  show "server_run sample_config (start ''pending'' []) approved_run"
    unfolding approved_run_def
    by (intro run_trans [OF run_drives] run_trans [OF run_pairs] run_trans [OF run_subscribes]
        run_subscribes) simp_all
  show "pc_pairing approved_run = Some ''approved''" by code_simp
  show pc: "map pr_pc (sv_conns approved_run) = [C_PairWait 1]" by code_simp
  show n: "q_pairing_notify (sv_queue approved_run) = 1" by code_simp
  show "drive env 0 approved_run = approved_run" for env
  proof -
    obtain p where "sv_conns approved_run = [p]" and "pr_pc p = C_PairWait 1"
      using pc by (cases "sv_conns approved_run") auto
    with n show ?thesis by (simp add: drive_def conn_step_def)
  qed
qed

definition twice_run :: server where
  "twice_run = drives 10 (env0 ''c1'' False) 0 (receives ''j'' (drives 3 (env0 ''c1'' False) 0
     (subscribes pc_identity (start ''approved'' [pc_printer]))))"

text \<open>
  C39. A job received while its machine connects (after the channel is registered, before the
  held jobs are drained) is put in the channel twice and streamed twice, although nothing
  failed and nothing was retried.
\<close>

theorem job_streamed_twice:
  "\<exists>sv. server_run sample_config (start ''approved'' [pc_printer]) sv
      \<and> map (\<lambda>(p, job). (machine p, pj_job_id job)) (sv_streamed sv) = [(''pc'', ''j''), (''pc'', ''j'')]
      \<and> board_of (sv_db sv) ''j'' = Some (JS_Queued, 0)"
proof (intro exI conjI)
  have "sv_used_ids (drives 3 (env0 ''c1'' False) 0 (subscribes pc_identity
     (start ''approved'' [pc_printer]))) = []" by code_simp
  then show "server_run sample_config (start ''approved'' [pc_printer]) twice_run"
    unfolding twice_run_def
    by (intro run_trans [OF run_drives] run_trans [OF run_receives] run_trans [OF run_drives]
        run_subscribes) simp_all
  show "map (\<lambda>(p, job). (machine p, pj_job_id job)) (sv_streamed twice_run) =
      [(''pc'', ''j''), (''pc'', ''j'')]" by code_simp
  show "board_of (sv_db twice_run) ''j'' = Some (JS_Queued, 0)" by code_simp
qed

text \<open>
  C40. When the read of its target after a requeue fails, any job paired to a machine enters the default
  queue, behind what is there, although its row still names the machine and the code says that paired jobs
  never do: a failed lookup counts as "not paired". The requeue itself reports success.
\<close>

theorem paired_job_in_default_queue:
  assumes "row_of jr_job_id i (st_jobs (q_db q)) = Some r" and "jr_target_client_id r = Some m"
    and "jr_state r \<in> set REQUEUABLE" and "cn_faults (q_storage q) = False # True # fs"
  shows "\<exists>q'. requeue_job now i detail q = (Inr True, q') \<and> q_default_pending q' = q_default_pending q @ [i] \<and>
    map_option jr_target_client_id (row_of jr_job_id i (st_jobs (q_db q'))) = Some (Some m)"
proof -
  have r: "r \<in> set (st_jobs (q_db q))" "jr_job_id r = i" using row_of_SomeD [OF assms(1)] by auto
  have n: "count_where (\<lambda>r. jr_job_id r = i \<and> jr_state r \<in> set REQUEUABLE) (st_jobs (q_db q)) \<noteq> 0"
    using r assms(3) by (auto simp: count_where_0)
  show ?thesis
    using assms n
    by (auto simp: requeue_job_def on_storage_def zoom_op_def storage_requeue_job_def update_jobs_def sql_def try_op_def
        match_op_def ok_def modify_op_def lookup_field_def storage_get_job_def query_def ok_flatten_def route_def
        push_default_def row_of_upd_where)
qed

theorem paired_job_in_default_queue_witness:
  "\<exists>q q'. map_option jr_target_client_id (row_of jr_job_id ''j'' (st_jobs (q_db q))) = Some (Some ''pc'') \<and>
     requeue_job 5 ''j'' ''busy'' q = (Inr True, q') \<and> fst (next_job q') = Some ''j''"
proof -
  let ?row = "(job_to_row (sample_job ''j'' JS_Failed) ''spool'')\<lparr>jr_target_client_id := Some ''pc''\<rparr>"
  let ?q = "(sample_queue empty_store)\<lparr>q_storage :=
      \<lparr>cn_db = empty_store\<lparr>st_jobs := [?row]\<rparr>, cn_faults = [False, True]\<rparr>\<rparr>"
  have row: "row_of jr_job_id ''j'' (st_jobs (q_db ?q)) = Some ?row" by (simp add: sample_queue_def empty_store_def)
  obtain q' where "requeue_job 5 ''j'' ''busy'' ?q = (Inr True, q')" "q_default_pending q' = [''j'']"
    using paired_job_in_default_queue [OF row, of "''pc''" "[]" 5 "''busy''"]
    by (auto simp: REQUEUABLE_def sample_queue_def)
  then show ?thesis using row by (intro exI [of _ ?q] exI [of _ q']) (simp add: next_job_def)
qed

text \<open>
  The check of \<open>send_job\<close> and its message are two steps: the second copy of a job that was put in the channel
  twice is loaded while the job is still queued, the client reports the first copy completed, and then the
  second is streamed.
\<close>

definition late_run :: server where
  "late_run = drive (env0 ''c1'' False) 0
     (runs (apply_status_update (sc_parse_event sample_config) 5 \<lparr>su_job_id = ''j'', su_state = 4, su_message = []\<rparr>)
       (drives 9 (env0 ''c1'' False) 0 (receives ''j'' (drives 3 (env0 ''c1'' False) 0
         (subscribes pc_identity (start ''approved'' [pc_printer]))))))"

theorem finished_job_streamed_late:
  "\<exists>sv job. server_run sample_config (start ''approved'' [pc_printer]) sv
      \<and> board_of (sv_db sv) ''j'' = Some (JS_Completed, 0)
      \<and> map pr_pc (sv_conns sv) = [C_Deliver job] \<and> pj_job_id job = ''j''
      \<and> server_run sample_config sv late_run \<and> length (streamed_of ''j'' sv) = 1 \<and> length (streamed_of ''j'' late_run) = 2"
proof -
  let ?a = "drives 3 (env0 ''c1'' False) 0 (subscribes pc_identity (start ''approved'' [pc_printer]))"
  let ?b = "drives 9 (env0 ''c1'' False) 0 (receives ''j'' ?a)"
  let ?upd = "\<lparr>su_job_id = ''j'', su_state = 4, su_message = []\<rparr>"
  let ?c = "runs (apply_status_update (sc_parse_event sample_config) 5 ?upd) ?b"
  have "sv_used_ids ?a = []" by code_simp
  then have b: "server_run sample_config (start ''approved'' [pc_printer]) ?b"
    by (intro run_trans [OF run_drives] run_trans [OF run_receives] run_trans [OF run_drives] run_subscribes) simp_all
  have "server_step sample_config ?b ?c" by (rule server_step.status) (simp add: sample_config_def)
  then have c: "server_run sample_config (start ''approved'' [pc_printer]) ?c" by (rule run_step [OF b])
  have "0 < length (sv_conns ?c)" by (simp add: runs_def with_queue_def)
  then have d: "server_run sample_config ?c late_run" unfolding late_run_def by (rule run_drive)
  have "map (\<lambda>p. map_option pj_job_id (case pr_pc p of C_Deliver job \<Rightarrow> Some job | _ \<Rightarrow> None)) (sv_conns ?c) = [Some ''j'']"
    by code_simp
  then obtain job where "map pr_pc (sv_conns ?c) = [C_Deliver job]" "pj_job_id job = ''j''"
    by (auto split: conn_pc.splits)
  moreover have "board_of (sv_db ?c) ''j'' = Some (JS_Completed, 0)" by code_simp
  moreover have "length (streamed_of ''j'' ?c) = 1" "length (streamed_of ''j'' late_run) = 2" by code_simp+
  ultimately show ?thesis using c d by (intro exI [of _ ?c] exI [of _ job] conjI)
qed

end
