(* ===== verification/Device_Journal.thy ===== *)
theory Device_Journal
  imports Json
begin

text \<open>
  The durable device-job journal of \<open>crates/devbridge-client/src/device_jobs\<close>:
  \<open>journal.rs\<close> (the table \<open>device_jobs\<close> and the state machine), \<open>journal_lan.rs\<close> (the table
  \<open>lan_jobs\<close> of the jobs a till sent over the LAN), \<open>journal_card.rs\<close> and
  \<open>journal_card_balance.rs\<close> (card payments and day closings). The columns both job tables share
  are the record \<open>jrow\<close>; the tables extend it. A JSON column is the value it denotes, an instant
  column the instant. A negative job id names a row of \<open>lan_jobs\<close>, as in the source.
\<close>

section \<open>Jobs, states, outcomes\<close>

record DeviceJob =
  dj_id :: int
  dj_job_type :: string
  dj_client_uuid :: string
  dj_kasa_id :: "int option"
  dj_kasa_name :: string
  dj_pos_order :: json
  dj_payload :: json
  dj_created_at :: string
  dj_claimed_at :: string

datatype JournalState = J_Received | J_Executing | J_Done | J_Failed | J_Indeterminate

fun state_text :: "JournalState \<Rightarrow> string" where
  "state_text J_Received = ''received''"
| "state_text J_Executing = ''executing''"
| "state_text J_Done = ''done''"
| "state_text J_Failed = ''failed''"
| "state_text J_Indeterminate = ''indeterminate''"

definition parse_state :: "string \<Rightarrow> JournalState option" where
  "parse_state s =
     (if s = ''received'' then Some J_Received
      else if s = ''executing'' then Some J_Executing
      else if s = ''done'' then Some J_Done
      else if s = ''failed'' then Some J_Failed
      else if s = ''indeterminate'' then Some J_Indeterminate
      else None)"

definition is_final :: "JournalState \<Rightarrow> bool" where
  "is_final s \<longleftrightarrow> s = J_Done \<or> s = J_Failed"

datatype Report = Report_None | Report_Owed | Report_Sent

fun report_code :: "Report \<Rightarrow> int" where
  "report_code Report_None = 0"
| "report_code Report_Owed = 1"
| "report_code Report_Sent = 2"

definition report_from_code :: "int \<Rightarrow> Report" where
  "report_from_code c = (if c = 1 then Report_Owed else if c = 2 then Report_Sent else Report_None)"

datatype Outcome =
    O_Done json
  | O_Failed string string          \<comment> \<open>code, text\<close>
  | O_Indeterminate string

datatype AckRequest =
    A_Done int json
  | A_Failed int string string
  | A_Indeterminate int string
  | A_NotReceived int
  | A_Authorized int json

text \<open>\<open>device_contact_at\<close>: a moment, or the mark a migrated row in flight got.\<close>

datatype contact = ContactAt instant | ContactUnknown

section \<open>Tables\<close>

text \<open>The columns of the shared state machine.\<close>

record jrow =
  j_state :: string
  j_result :: "json option"
  j_error_code :: "string option"
  j_error_text :: "string option"
  j_reconcile_attempts :: int
  j_received_at :: instant
  j_updated_at :: instant
  j_contact :: "contact option"

record odoo_row = jrow +
  od_job :: DeviceJob
  od_acked :: int
  od_ack_note :: "string option"
  od_report :: int

record lan_row = jrow +
  ln_id :: int
  ln_kasa_id :: int
  ln_client_uuid :: string
  ln_job_type :: string
  ln_pos_order :: json
  ln_payload :: json
  ln_reported :: int
  ln_report_note :: "string option"
  ln_odoo_job_id :: "int option"

record card_row =
  cp_job_id :: int
  cp_terminal_ip :: string
  cp_amount_minor :: int
  cp_baseline_seq :: "int option"
  cp_contact_at :: instant
  cp_authorized_at :: "instant option"
  cp_trans_seq :: "int option"
  cp_auth_result :: "json option"
  cp_auth_ack :: int
  cp_auth_ack_note :: "string option"
  cp_ended_at :: "instant option"
  cp_person_reason :: "string option"
  cp_tx_type :: int
  cp_target_seq :: "int option"

record balance_row =
  cb_id :: int
  cb_terminal_ip :: string
  cb_local_date :: string
  cb_source :: string
  cb_job_id :: "int option"
  cb_contact_at :: instant
  cb_outcome :: "string option"
  cb_result :: "json option"

text \<open>\<open>AUTOINCREMENT\<close> never hands out an id twice: the highest id so far is kept.\<close>

record journal_db =
  jd_device_jobs :: "odoo_row list"
  jd_lan_jobs :: "lan_row list"
  jd_lan_seq :: int
  jd_card_payments :: "card_row list"
  jd_card_balances :: "balance_row list"
  jd_balance_seq :: int

text \<open>The journal object: the connection behind its mutex and the wake-up of the ack sender.\<close>

record journal =
  jo_conn :: "journal_db conn"
  jo_card_events :: bool

definition on_conn :: "(journal_db conn, 'a) op \<Rightarrow> (journal, 'a) op" where
  "on_conn m = zoom_op jo_conn (\<lambda>c j. j\<lparr>jo_conn := c\<rparr>) m"

abbreviation od_id :: "odoo_row \<Rightarrow> int" where
  "od_id r \<equiv> dj_id (od_job r)"

section \<open>Ids\<close>

definition lan_job_id :: "int \<Rightarrow> int" where
  "lan_job_id row_id = - row_id"

definition is_lan_job :: "int \<Rightarrow> bool" where
  "is_lan_job job_id \<longleftrightarrow> job_id < 0"

text \<open>
  \<open>locate\<close> and one \<open>UPDATE <table> SET ... WHERE <id> = ?1 AND ...\<close> of the shared state machine:
  \<open>P\<close> and \<open>f\<close> work on the shared columns, \<open>fo\<close> and \<open>fl\<close> set what only one table has. The
  answer is whether exactly one row changed.
\<close>

definition update_located ::
    "int \<Rightarrow> (jrow \<Rightarrow> bool) \<Rightarrow> (odoo_row \<Rightarrow> odoo_row) \<Rightarrow> (lan_row \<Rightarrow> lan_row) \<Rightarrow> (journal, bool) op" where
  "update_located job_id P fo fl =
     on_conn (sql (\<lambda>d.
       if is_lan_job job_id
       then let Q = (\<lambda>r. ln_id r = - job_id \<and> P (jrow.truncate r))
            in (Inr (count_where Q (jd_lan_jobs d) = 1),
                d\<lparr>jd_lan_jobs := upd_where Q fl (jd_lan_jobs d)\<rparr>)
       else let Q = (\<lambda>r. od_id r = job_id \<and> P (jrow.truncate r))
            in (Inr (count_where Q (jd_device_jobs d) = 1),
                d\<lparr>jd_device_jobs := upd_where Q fo (jd_device_jobs d)\<rparr>)))"

text \<open>\<open>owe_outcome\<close> and \<open>owe_unknown\<close> of the two tables.\<close>

definition odoo_owe_outcome :: "odoo_row \<Rightarrow> odoo_row" where
  "odoo_owe_outcome r = r\<lparr>od_acked := 0, od_ack_note := None\<rparr>"

definition odoo_owe_unknown :: "odoo_row \<Rightarrow> odoo_row" where
  "odoo_owe_unknown r = r\<lparr>od_report := (if od_report r = 2 then 2 else 1)\<rparr>"

definition lan_owe_outcome :: "lan_row \<Rightarrow> lan_row" where
  "lan_owe_outcome r = r\<lparr>ln_reported := 0, ln_report_note := None\<rparr>"

definition OPEN_STATES :: "string list" where
  "OPEN_STATES = [''received'', ''executing'', ''indeterminate'']"

section \<open>Rows as entries\<close>

record JournalEntry =
  je_job :: DeviceJob
  je_state :: JournalState
  je_result :: "json option"
  je_error_code :: "string option"
  je_error_text :: "string option"
  je_acked :: bool
  je_ack_note :: "string option"
  je_report :: Report
  je_reconcile_attempts :: int
  je_received_at :: instant
  je_updated_at :: instant
  je_device_contact_at :: "contact option"

definition row_to_entry :: "odoo_row \<Rightarrow> err + JournalEntry" where
  "row_to_entry r =
     (case parse_state (j_state r) of
        None \<Rightarrow> Inl (FromSqlErr (j_state r))
      | Some s \<Rightarrow>
          Inr \<lparr>je_job = od_job r, je_state = s, je_result = j_result r,
               je_error_code = j_error_code r, je_error_text = j_error_text r,
               je_acked = (od_acked r \<noteq> 0), je_ack_note = od_ack_note r,
               je_report = report_from_code (od_report r),
               je_reconcile_attempts = j_reconcile_attempts r,
               je_received_at = j_received_at r, je_updated_at = j_updated_at r,
               je_device_contact_at = j_contact r\<rparr>)"

text \<open>The ack a row owes Odoo right now.\<close>

definition owed_ack :: "JournalEntry \<Rightarrow> AckRequest option" where
  "owed_ack e =
     (let job_id = dj_id (je_job e);
          text = (case je_error_text e of None \<Rightarrow> [] | Some t \<Rightarrow> t)
      in case je_state e of
           J_Done \<Rightarrow>
             if je_acked e then None
             else Some (A_Done job_id (case je_result e of None \<Rightarrow> JNull | Some v \<Rightarrow> v))
         | J_Failed \<Rightarrow>
             if je_acked e then None
             else Some (A_Failed job_id (case je_error_code e of None \<Rightarrow> [] | Some c \<Rightarrow> c) text)
         | J_Indeterminate \<Rightarrow>
             if je_report e = Report_Owed then Some (A_Indeterminate job_id text) else None
         | _ \<Rightarrow> None)"

record LanJob =
  lj_entry :: JournalEntry
  lj_reported :: bool
  lj_report_note :: "string option"
  lj_odoo_job_id :: "int option"

text \<open>
  \<open>row_to_lan\<close>. \<open>ts\<close> prints an instant as RFC 3339 text (\<open>to_rfc3339\<close>): \<open>created_at\<close> of the job is
  the text of \<open>received_at\<close>.
\<close>

definition row_to_lan :: "(instant \<Rightarrow> string) \<Rightarrow> lan_row \<Rightarrow> err + LanJob" where
  "row_to_lan ts r =
     (case parse_state (j_state r) of
        None \<Rightarrow> Inl (FromSqlErr (j_state r))
      | Some s \<Rightarrow>
          Inr \<lparr>lj_entry =
                 \<lparr>je_job = \<lparr>dj_id = lan_job_id (ln_id r), dj_job_type = ln_job_type r,
                            dj_client_uuid = ln_client_uuid r, dj_kasa_id = Some (ln_kasa_id r),
                            dj_kasa_name = [], dj_pos_order = ln_pos_order r,
                            dj_payload = ln_payload r, dj_created_at = ts (j_received_at r),
                            dj_claimed_at = []\<rparr>,
                  je_state = s, je_result = j_result r, je_error_code = j_error_code r,
                  je_error_text = j_error_text r, je_acked = (ln_reported r \<noteq> 0),
                  je_ack_note = ln_report_note r, je_report = Report_None,
                  je_reconcile_attempts = j_reconcile_attempts r,
                  je_received_at = j_received_at r, je_updated_at = j_updated_at r,
                  je_device_contact_at = j_contact r\<rparr>,
               lj_reported = (ln_reported r \<noteq> 0), lj_report_note = ln_report_note r,
               lj_odoo_job_id = ln_odoo_job_id r\<rparr>)"

definition lan_report_owed :: "LanJob \<Rightarrow> bool" where
  "lan_report_owed l \<longleftrightarrow> is_final (je_state (lj_entry l)) \<and> \<not> lj_reported l"

text \<open>\<open>query_row(...).optional()\<close> of a conversion that may fail.\<close>

definition read_row :: "('r \<Rightarrow> err + 'a) \<Rightarrow> 'r option \<Rightarrow> err + 'a option" where
  "read_row conv x =
     (case x of None \<Rightarrow> Inr None
      | Some r \<Rightarrow> (case conv r of Inl e \<Rightarrow> Inl e | Inr y \<Rightarrow> Inr (Some y)))"

section \<open>Insert and read\<close>

definition lan_job_by_id :: "(instant \<Rightarrow> string) \<Rightarrow> int \<Rightarrow> (journal, LanJob option) op" where
  "lan_job_by_id ts job_id =
     on_conn (query (\<lambda>d. read_row (row_to_lan ts) (row_of ln_id (lan_job_id job_id) (jd_lan_jobs d))))"

definition journal_get :: "(instant \<Rightarrow> string) \<Rightarrow> int \<Rightarrow> (journal, JournalEntry option) op" where
  "journal_get ts job_id =
     (if is_lan_job job_id
      then try_op (lan_job_by_id ts job_id) (\<lambda>l. ok (map_option lj_entry l))
      else on_conn (query (\<lambda>d. read_row row_to_entry (row_of od_id job_id (jd_device_jobs d)))))"

datatype Inserted = I_New | I_Known JournalEntry

definition new_odoo_row :: "instant \<Rightarrow> DeviceJob \<Rightarrow> (string \<times> string) option \<Rightarrow> odoo_row" where
  "new_odoo_row now job refused =
     \<lparr>j_state = (case refused of Some _ \<Rightarrow> ''failed'' | None \<Rightarrow> ''received''),
      j_result = None, j_error_code = map_option fst refused, j_error_text = map_option snd refused,
      j_reconcile_attempts = 0, j_received_at = now, j_updated_at = now, j_contact = None,
      od_job = job, od_acked = 0, od_ack_note = None, od_report = 0\<rparr>"

text \<open>\<open>INSERT OR IGNORE\<close>, then the stored row when nothing was inserted.\<close>

definition insert_odoo ::
    "(instant \<Rightarrow> string) \<Rightarrow> instant \<Rightarrow> DeviceJob \<Rightarrow> (string \<times> string) option \<Rightarrow> (journal, Inserted) op" where
  "insert_odoo ts now job refused =
     try_op (on_conn (sql (\<lambda>d.
         if row_of od_id (dj_id job) (jd_device_jobs d) = None
         then (Inr True, d\<lparr>jd_device_jobs := jd_device_jobs d @ [new_odoo_row now job refused]\<rparr>)
         else (Inr False, d))))
       (\<lambda>changed. if changed then ok I_New
         else try_op (journal_get ts (dj_id job))
                (\<lambda>k. case k of None \<Rightarrow> bail (ContextErr ''neither inserted nor present'')
                     | Some e \<Rightarrow> ok (I_Known e)))"

definition insert_received :: "(instant \<Rightarrow> string) \<Rightarrow> instant \<Rightarrow> DeviceJob \<Rightarrow> (journal, Inserted) op" where
  "insert_received ts now job = insert_odoo ts now job None"

definition insert_refused ::
    "(instant \<Rightarrow> string) \<Rightarrow> instant \<Rightarrow> DeviceJob \<Rightarrow> string \<Rightarrow> string \<Rightarrow> (journal, Inserted) op" where
  "insert_refused ts now job code text = insert_odoo ts now job (Some (code, text))"

section \<open>The state machine\<close>

definition start_execution :: "instant \<Rightarrow> int \<Rightarrow> (journal, bool) op" where
  "start_execution now job_id =
     update_located job_id (\<lambda>r. j_state r = ''received'')
       (\<lambda>r. r\<lparr>j_state := ''executing'', j_updated_at := now\<rparr>)
       (\<lambda>r. r\<lparr>j_state := ''executing'', j_updated_at := now\<rparr>)"

definition record_outcome :: "instant \<Rightarrow> int \<Rightarrow> Outcome \<Rightarrow> (journal, bool) op" where
  "record_outcome now job_id oc =
     (let P = (\<lambda>r. j_state r \<in> set OPEN_STATES)
      in case oc of
           O_Done res \<Rightarrow>
             update_located job_id P
               (\<lambda>r. (odoo_owe_outcome r)\<lparr>j_state := ''done'', j_result := Some res, j_error_code := None,
                        j_error_text := None, j_updated_at := now\<rparr>)
               (\<lambda>r. (lan_owe_outcome r)\<lparr>j_state := ''done'', j_result := Some res, j_error_code := None,
                        j_error_text := None, j_updated_at := now\<rparr>)
         | O_Failed code text \<Rightarrow>
             update_located job_id P
               (\<lambda>r. (odoo_owe_outcome r)\<lparr>j_state := ''failed'', j_result := None,
                        j_error_code := Some code, j_error_text := Some text, j_updated_at := now\<rparr>)
               (\<lambda>r. (lan_owe_outcome r)\<lparr>j_state := ''failed'', j_result := None,
                        j_error_code := Some code, j_error_text := Some text, j_updated_at := now\<rparr>)
         | O_Indeterminate reason \<Rightarrow>
             update_located job_id P
               (\<lambda>r. (odoo_owe_unknown r)\<lparr>j_state := ''indeterminate'', j_error_text := Some reason,
                        j_updated_at := now\<rparr>)
               (\<lambda>r. r\<lparr>j_state := ''indeterminate'', j_error_text := Some reason, j_updated_at := now\<rparr>))"

definition fail_unstarted :: "instant \<Rightarrow> int \<Rightarrow> string \<Rightarrow> string \<Rightarrow> (journal, bool) op" where
  "fail_unstarted now job_id code text =
     update_located job_id (\<lambda>r. j_state r = ''received'')
       (\<lambda>r. (odoo_owe_outcome r)\<lparr>j_state := ''failed'', j_error_code := Some code,
                j_error_text := Some text, j_updated_at := now\<rparr>)
       (\<lambda>r. (lan_owe_outcome r)\<lparr>j_state := ''failed'', j_error_code := Some code,
                j_error_text := Some text, j_updated_at := now\<rparr>)"

definition mark_device_contact :: "instant \<Rightarrow> int \<Rightarrow> (journal, bool) op" where
  "mark_device_contact now job_id =
     update_located job_id (\<lambda>r. j_contact r = None)
       (\<lambda>r. r\<lparr>j_contact := Some (ContactAt now), j_updated_at := now\<rparr>)
       (\<lambda>r. r\<lparr>j_contact := Some (ContactAt now), j_updated_at := now\<rparr>)"

definition record_still_unknown :: "instant \<Rightarrow> int \<Rightarrow> string \<Rightarrow> (journal, bool) op" where
  "record_still_unknown now job_id reason =
     update_located job_id (\<lambda>r. j_state r = ''indeterminate'')
       (\<lambda>r. (odoo_owe_unknown r)\<lparr>j_reconcile_attempts := j_reconcile_attempts r + 1,
                j_error_text := Some reason, j_updated_at := now\<rparr>)
       (\<lambda>r. r\<lparr>j_reconcile_attempts := j_reconcile_attempts r + 1,
                j_error_text := Some reason, j_updated_at := now\<rparr>)"

definition IN_FLIGHT :: "string list" where
  "IN_FLIGHT = [''received'', ''executing'']"

definition recovered :: "instant \<Rightarrow> 'a jrow_scheme \<Rightarrow> 'a jrow_scheme" where
  "recovered now r =
     r\<lparr>j_error_text := Some (''devbridge restarted while the job was '' @ j_state r),
       j_state := ''indeterminate'', j_updated_at := now\<rparr>"

text \<open>\<open>JobState::parse(&state).unwrap_or(Executing)\<close>\<close>

definition previous_state :: "string \<Rightarrow> JournalState" where
  "previous_state s = (case parse_state s of None \<Rightarrow> J_Executing | Some x \<Rightarrow> x)"

definition recover_after_restart :: "instant \<Rightarrow> (journal, (int \<times> JournalState) list) op" where
  "recover_after_restart now =
     on_conn (transaction
       (try_op tx_mark (\<lambda>_.
        try_op (query (\<lambda>d. Inr (map (\<lambda>r. (od_id r, previous_state (j_state r)))
                   (sort_key od_id (filter (\<lambda>r. j_state r \<in> set IN_FLIGHT) (jd_device_jobs d)))))) (\<lambda>odoo.
        try_op (sql (\<lambda>d. (Inr (), d\<lparr>jd_device_jobs :=
                   upd_where (\<lambda>r. j_state r \<in> set IN_FLIGHT) (recovered now) (jd_device_jobs d)\<rparr>))) (\<lambda>_.
        try_op (query (\<lambda>d. Inr (map (\<lambda>r. (lan_job_id (ln_id r), previous_state (j_state r)))
                   (sort_key ln_id (filter (\<lambda>r. j_state r \<in> set IN_FLIGHT) (jd_lan_jobs d)))))) (\<lambda>lan.
        try_op (sql (\<lambda>d. (Inr (), d\<lparr>jd_lan_jobs :=
                   upd_where (\<lambda>r. j_state r \<in> set IN_FLIGHT) (recovered now) (jd_lan_jobs d)\<rparr>))) (\<lambda>_.
        try_op tx_mark (\<lambda>_. ok (odoo @ lan)))))))))"

section \<open>Acks\<close>

definition FINAL_STATES :: "string list" where
  "FINAL_STATES = [''done'', ''failed'']"

definition AUTH_OWED :: int where "AUTH_OWED = 1"
definition AUTH_ACCEPTED :: int where "AUTH_ACCEPTED = 2"
definition AUTH_REFUSED :: int where "AUTH_REFUSED = 3"

definition job_state_of :: "int \<Rightarrow> journal_db \<Rightarrow> string option" where
  "job_state_of job_id d = map_option j_state (row_of od_id job_id (jd_device_jobs d))"

text \<open>The \<open>phase: "authorized"\<close> acks of payments still held.\<close>

definition owed_card_auth_acks :: "(journal, AckRequest list) op" where
  "owed_card_auth_acks =
     on_conn (query (\<lambda>d. Inr (map (\<lambda>c. A_Authorized (cp_job_id c) (the (cp_auth_result c)))
       (sort_key cp_job_id (filter (\<lambda>c. cp_auth_ack c = AUTH_OWED \<and>
          job_state_of (cp_job_id c) d = Some ''executing'' \<and> cp_auth_result c \<noteq> None)
          (jd_card_payments d))))))"

definition ack_due :: "odoo_row \<Rightarrow> bool" where
  "ack_due r \<longleftrightarrow>
     (j_state r \<in> set FINAL_STATES \<and> od_acked r = 0) \<or> (j_state r = ''indeterminate'' \<and> od_report r = 1)"

definition owed_acks :: "(journal, AckRequest list) op" where
  "owed_acks =
     try_op owed_card_auth_acks (\<lambda>acks.
     try_op (on_conn (query (\<lambda>d. collect_results row_to_entry
               (sort_key od_id (filter ack_due (jd_device_jobs d))))))
       (\<lambda>rows. ok (acks @ List.map_filter owed_ack rows)))"

text \<open>One \<open>UPDATE device_jobs ... WHERE job_id = ?1 AND ...\<close>.\<close>

definition update_odoo ::
    "int \<Rightarrow> (odoo_row \<Rightarrow> bool) \<Rightarrow> (odoo_row \<Rightarrow> odoo_row) \<Rightarrow> (journal, bool) op" where
  "update_odoo job_id P f =
     on_conn (sql (\<lambda>d. let Q = (\<lambda>r. od_id r = job_id \<and> P r)
                       in (Inr (count_where Q (jd_device_jobs d) = 1),
                           d\<lparr>jd_device_jobs := upd_where Q f (jd_device_jobs d)\<rparr>)))"

definition mark_acked :: "instant \<Rightarrow> int \<Rightarrow> string \<Rightarrow> (journal, bool) op" where
  "mark_acked now job_id note =
     update_odoo job_id (\<lambda>r. j_state r \<in> set FINAL_STATES)
       (\<lambda>r. r\<lparr>od_acked := 1, od_ack_note := Some note, j_updated_at := now\<rparr>)"

definition mark_reported :: "instant \<Rightarrow> int \<Rightarrow> (journal, bool) op" where
  "mark_reported now job_id =
     update_odoo job_id (\<lambda>r. j_state r = ''indeterminate'')
       (\<lambda>r. r\<lparr>od_report := 2, j_updated_at := now\<rparr>)"

definition reopen_ack :: "instant \<Rightarrow> int \<Rightarrow> (journal, bool) op" where
  "reopen_ack now job_id =
     update_odoo job_id (\<lambda>r. j_state r \<in> set FINAL_STATES \<and> od_acked r = 1)
       (\<lambda>r. r\<lparr>od_acked := 0, j_updated_at := now\<rparr>)"

section \<open>LAN jobs\<close>

datatype LanInserted = L_New int | L_Known LanJob

definition lan_find :: "int \<Rightarrow> string \<Rightarrow> lan_row list \<Rightarrow> lan_row option" where
  "lan_find kasa_id client_uuid t = row_of (\<lambda>r. (ln_kasa_id r, ln_client_uuid r)) (kasa_id, client_uuid) t"

definition lan_job :: "(instant \<Rightarrow> string) \<Rightarrow> int \<Rightarrow> string \<Rightarrow> (journal, LanJob option) op" where
  "lan_job ts kasa_id client_uuid =
     on_conn (query (\<lambda>d. read_row (row_to_lan ts) (lan_find kasa_id client_uuid (jd_lan_jobs d))))"

definition new_lan_row :: "instant \<Rightarrow> int \<Rightarrow> int \<Rightarrow> DeviceJob \<Rightarrow> lan_row" where
  "new_lan_row now i kasa_id job =
     \<lparr>j_state = ''received'', j_result = None, j_error_code = None, j_error_text = None,
      j_reconcile_attempts = 0, j_received_at = now, j_updated_at = now, j_contact = None,
      ln_id = i, ln_kasa_id = kasa_id, ln_client_uuid = dj_client_uuid job,
      ln_job_type = dj_job_type job, ln_pos_order = dj_pos_order job, ln_payload = dj_payload job,
      ln_reported = 0, ln_report_note = None, ln_odoo_job_id = None\<rparr>"

definition insert_lan_received ::
    "(instant \<Rightarrow> string) \<Rightarrow> instant \<Rightarrow> DeviceJob \<Rightarrow> (journal, LanInserted) op" where
  "insert_lan_received ts now job =
     (case dj_kasa_id job of
        None \<Rightarrow> bail (ContextErr ''a LAN API job must name its till'')
      | Some kasa_id \<Rightarrow>
          try_op (on_conn (sql (\<lambda>d.
              if lan_find kasa_id (dj_client_uuid job) (jd_lan_jobs d) = None
              then let i = jd_lan_seq d + 1
                   in (Inr (Some i), d\<lparr>jd_lan_jobs := jd_lan_jobs d @ [new_lan_row now i kasa_id job],
                                       jd_lan_seq := i\<rparr>)
              else (Inr None, d))))
            (\<lambda>inserted. case inserted of
               Some row_id \<Rightarrow> ok (L_New (lan_job_id row_id))
             | None \<Rightarrow>
                 try_op (lan_job ts kasa_id (dj_client_uuid job))
                   (\<lambda>k. case k of None \<Rightarrow> bail (ContextErr ''neither inserted nor present'')
                        | Some l \<Rightarrow> ok (L_Known l))))"

definition lan_indeterminate :: "(instant \<Rightarrow> string) \<Rightarrow> (journal, JournalEntry list) op" where
  "lan_indeterminate ts =
     try_op (on_conn (query (\<lambda>d. collect_results (row_to_lan ts)
               (sort_key ln_id (filter (\<lambda>r. j_state r = ''indeterminate'') (jd_lan_jobs d))))))
       (\<lambda>rows. ok (map lj_entry rows))"

definition indeterminate :: "(instant \<Rightarrow> string) \<Rightarrow> (journal, JournalEntry list) op" where
  "indeterminate ts =
     try_op (on_conn (query (\<lambda>d. collect_results row_to_entry
               (sort_key od_id (filter (\<lambda>r. j_state r = ''indeterminate'') (jd_device_jobs d))))))
       (\<lambda>rows. try_op (lan_indeterminate ts) (\<lambda>lan. ok (rows @ lan)))"

definition owed_lan_reports :: "(instant \<Rightarrow> string) \<Rightarrow> (journal, LanJob list) op" where
  "owed_lan_reports ts =
     try_op (on_conn (query (\<lambda>d. collect_results (row_to_lan ts)
               (sort_key ln_id (filter (\<lambda>r. j_state r \<in> set FINAL_STATES \<and> ln_reported r = 0)
                 (jd_lan_jobs d))))))
       (\<lambda>rows. ok (filter lan_report_owed rows))"

definition unreported_lan_jobs :: "(journal, nat) op" where
  "unreported_lan_jobs =
     on_conn (query (\<lambda>d. Inr (count_where (\<lambda>r. j_state r \<in> set FINAL_STATES \<and> ln_reported r = 0)
       (jd_lan_jobs d))))"

definition mark_lan_reported :: "int \<Rightarrow> int option \<Rightarrow> string \<Rightarrow> (journal, bool) op" where
  "mark_lan_reported job_id odoo_job_id note =
     on_conn (sql (\<lambda>d. let Q = (\<lambda>r. ln_id r = lan_job_id job_id \<and> j_state r \<in> set FINAL_STATES)
        in (Inr (count_where Q (jd_lan_jobs d) = 1),
            d\<lparr>jd_lan_jobs := upd_where Q (\<lambda>r. r\<lparr>ln_reported := 1, ln_report_note := Some note,
                 ln_odoo_job_id := (case odoo_job_id of None \<Rightarrow> ln_odoo_job_id r | Some i \<Rightarrow> Some i)\<rparr>)
               (jd_lan_jobs d)\<rparr>)))"

section \<open>Card payments\<close>

definition new_card_row ::
    "instant \<Rightarrow> int \<Rightarrow> string \<Rightarrow> int \<Rightarrow> int option \<Rightarrow> int \<Rightarrow> int option \<Rightarrow> card_row" where
  "new_card_row now job_id ip amount baseline tx_type target =
     \<lparr>cp_job_id = job_id, cp_terminal_ip = ip, cp_amount_minor = amount, cp_baseline_seq = baseline,
      cp_contact_at = now, cp_authorized_at = None, cp_trans_seq = None, cp_auth_result = None,
      cp_auth_ack = 0, cp_auth_ack_note = None, cp_ended_at = None, cp_person_reason = None,
      cp_tx_type = tx_type, cp_target_seq = target\<rparr>"

text \<open>
  One transaction: mark the device contact of the executing job, insert its card row. A job
  that is not executing, unknown or contacted before answers \<open>false\<close> and the transaction is
  dropped.
\<close>

definition card_contact_of ::
    "instant \<Rightarrow> int \<Rightarrow> string \<Rightarrow> int \<Rightarrow> int option \<Rightarrow> int \<Rightarrow> int option \<Rightarrow> (journal, bool) op" where
  "card_contact_of now job_id ip amount baseline tx_type target =
     on_conn (transaction
       (try_op tx_mark (\<lambda>_.
        try_op (sql (\<lambda>d. let Q = (\<lambda>r. od_id r = job_id \<and> j_contact r = None \<and> j_state r = ''executing'')
            in if count_where Q (jd_device_jobs d) = 1
               then (Inr True, d\<lparr>jd_device_jobs := upd_where Q
                       (\<lambda>r. r\<lparr>j_contact := Some (ContactAt now), j_updated_at := now\<rparr>) (jd_device_jobs d)\<rparr>)
               else (Inr False, d))) (\<lambda>marked.
        if \<not> marked then ok False
        else try_op (sql (\<lambda>d.
               if row_of cp_job_id job_id (jd_card_payments d) = None
               then (Inr (), d\<lparr>jd_card_payments := jd_card_payments d @
                       [new_card_row now job_id ip amount baseline tx_type target]\<rparr>)
               else (Inl (ConstraintErr ''card_payments''), d))) (\<lambda>_.
             try_op tx_mark (\<lambda>_. ok True))))))"

definition card_contact :: "instant \<Rightarrow> int \<Rightarrow> string \<Rightarrow> int \<Rightarrow> int option \<Rightarrow> (journal, bool) op" where
  "card_contact now job_id ip amount baseline = card_contact_of now job_id ip amount baseline 1 None"

definition update_card ::
    "int \<Rightarrow> (card_row \<Rightarrow> bool) \<Rightarrow> (card_row \<Rightarrow> card_row) \<Rightarrow> (journal, bool) op" where
  "update_card job_id P f =
     on_conn (sql (\<lambda>d. let Q = (\<lambda>r. cp_job_id r = job_id \<and> P r)
                       in (Inr (count_where Q (jd_card_payments d) = 1),
                           d\<lparr>jd_card_payments := upd_where Q f (jd_card_payments d)\<rparr>)))"

definition card_authorized :: "instant \<Rightarrow> int \<Rightarrow> int \<Rightarrow> json \<Rightarrow> (journal, bool) op" where
  "card_authorized now job_id trans_seq res =
     try_op (update_card job_id (\<lambda>r. cp_authorized_at r = None)
               (\<lambda>r. r\<lparr>cp_authorized_at := Some now, cp_trans_seq := Some trans_seq,
                      cp_auth_result := Some res, cp_auth_ack := AUTH_OWED\<rparr>))
       (\<lambda>changed. try_op (modify_op (\<lambda>j. j\<lparr>jo_card_events := True\<rparr>)) (\<lambda>_. ok changed))"

definition card_transacted :: "int \<Rightarrow> int \<Rightarrow> (journal, bool) op" where
  "card_transacted job_id trans_seq =
     update_card job_id (\<lambda>r. cp_trans_seq r = None) (\<lambda>r. r\<lparr>cp_trans_seq := Some trans_seq\<rparr>)"

definition card_other_reversal :: "string \<Rightarrow> int \<Rightarrow> int \<Rightarrow> (journal, (int \<times> JournalState) option) op" where
  "card_other_reversal ip target_seq job_id =
     on_conn (query (\<lambda>d. Inr
       (case sort_key cp_job_id (filter (\<lambda>c. cp_terminal_ip c = ip \<and> cp_tx_type c = 3 \<and>
               cp_target_seq c = Some target_seq \<and> cp_job_id c \<noteq> job_id \<and>
               (case job_state_of (cp_job_id c) d of None \<Rightarrow> False | Some s \<Rightarrow> s \<noteq> ''failed''))
               (jd_card_payments d)) of
          [] \<Rightarrow> None
        | c # _ \<Rightarrow> Some (cp_job_id c,
            case parse_state (the (job_state_of (cp_job_id c) d)) of
              None \<Rightarrow> J_Indeterminate | Some s \<Rightarrow> s))))"

definition card_balance_since_payment :: "string \<Rightarrow> int \<Rightarrow> (journal, bool) op" where
  "card_balance_since_payment ip trans_seq =
     on_conn (query (\<lambda>d. Inr
       (case rev (sort_key cp_job_id (filter (\<lambda>c. cp_terminal_ip c = ip \<and> cp_trans_seq c = Some trans_seq \<and>
               cp_tx_type c \<in> {1, 2}) (jd_card_payments d))) of
          [] \<Rightarrow> False
        | p # _ \<Rightarrow> list_ex (\<lambda>b. cb_terminal_ip b = cp_terminal_ip p \<and> cb_outcome b = Some ''done'' \<and>
                      cp_contact_at p \<le> cb_contact_at b) (jd_card_balances d))))"

definition card_ended :: "instant \<Rightarrow> int \<Rightarrow> (journal, bool) op" where
  "card_ended now job_id = update_card job_id (\<lambda>_. True) (\<lambda>r. r\<lparr>cp_ended_at := Some now\<rparr>)"

definition card_for_person :: "int \<Rightarrow> string \<Rightarrow> (journal, bool) op" where
  "card_for_person job_id reason =
     update_card job_id (\<lambda>r. cp_person_reason r = None) (\<lambda>r. r\<lparr>cp_person_reason := Some reason\<rparr>)"

record CardPayment =
  ca_job_id :: int
  ca_terminal_ip :: string
  ca_amount_minor :: int
  ca_baseline_seq :: "int option"
  ca_contact_at :: instant
  ca_authorized_at :: "instant option"
  ca_trans_seq :: "int option"
  ca_auth_result :: "json option"
  ca_auth_refused :: bool
  ca_ended_at :: "instant option"
  ca_person_reason :: "string option"
  ca_tx_type :: int
  ca_target_seq :: "int option"

definition row_to_card :: "card_row \<Rightarrow> CardPayment" where
  "row_to_card r =
     \<lparr>ca_job_id = cp_job_id r, ca_terminal_ip = cp_terminal_ip r, ca_amount_minor = cp_amount_minor r,
      ca_baseline_seq = cp_baseline_seq r, ca_contact_at = cp_contact_at r,
      ca_authorized_at = cp_authorized_at r, ca_trans_seq = cp_trans_seq r,
      ca_auth_result = cp_auth_result r, ca_auth_refused = (cp_auth_ack r = AUTH_REFUSED),
      ca_ended_at = cp_ended_at r, ca_person_reason = cp_person_reason r,
      ca_tx_type = cp_tx_type r, ca_target_seq = cp_target_seq r\<rparr>"

definition card_payment :: "int \<Rightarrow> (journal, CardPayment option) op" where
  "card_payment job_id =
     on_conn (query (\<lambda>d. Inr (map_option row_to_card (row_of cp_job_id job_id (jd_card_payments d)))))"

text \<open>\<open>job_type LIKE 'card.%'\<close> compares ASCII letters without case.\<close>

definition like_card :: "string \<Rightarrow> bool" where
  "like_card s \<longleftrightarrow> map ascii_lower (take 5 s) = ''card.''"

definition NOT_TILL_TYPES :: "string list" where
  "NOT_TILL_TYPES = [''card.commit'', ''card.rollback'', ''card.activate'', ''card.deactivate'']"

definition card_job_by_uuid ::
    "(instant \<Rightarrow> string) \<Rightarrow> int \<Rightarrow> string \<Rightarrow> (journal, (JournalEntry \<times> CardPayment option) option) op" where
  "card_job_by_uuid ts kasa_id client_uuid =
     try_op (on_conn (query (\<lambda>d. Inr
       (case rev (sort_key od_id (filter (\<lambda>r. dj_kasa_id (od_job r) = Some kasa_id \<and>
               dj_client_uuid (od_job r) = client_uuid \<and> like_card (dj_job_type (od_job r)) \<and>
               dj_job_type (od_job r) \<notin> set NOT_TILL_TYPES) (jd_device_jobs d))) of
          [] \<Rightarrow> None | r # _ \<Rightarrow> Some (od_id r)))))
       (\<lambda>i. case i of
          None \<Rightarrow> ok None
        | Some job_id \<Rightarrow>
            try_op (journal_get ts job_id) (\<lambda>e. case e of
              None \<Rightarrow> ok None
            | Some entry \<Rightarrow> try_op (card_payment job_id) (\<lambda>c. ok (Some (entry, c)))))"

definition max_list :: "int list \<Rightarrow> int option" where
  "max_list xs = (case xs of [] \<Rightarrow> None | x # ys \<Rightarrow> Some (fold max ys x))"

definition card_last_seq :: "string \<Rightarrow> (journal, int option) op" where
  "card_last_seq ip =
     on_conn (query (\<lambda>d. Inr (max_list (List.map_filter cp_trans_seq
       (filter (\<lambda>c. cp_terminal_ip c = ip) (jd_card_payments d))))))"

definition card_later_on_terminal :: "int \<Rightarrow> (journal, bool) op" where
  "card_later_on_terminal job_id =
     on_conn (query (\<lambda>d. Inr
       (case row_of cp_job_id job_id (jd_card_payments d) of
          None \<Rightarrow> False
        | Some c \<Rightarrow> list_ex (\<lambda>p. cp_terminal_ip p = cp_terminal_ip c \<and> cp_job_id p \<noteq> job_id \<and>
                      cp_contact_at c \<le> cp_contact_at p) (jd_card_payments d))))"

definition mark_card_auth_acked :: "int \<Rightarrow> string \<Rightarrow> (journal, bool) op" where
  "mark_card_auth_acked job_id note =
     update_card job_id (\<lambda>r. cp_auth_ack r = AUTH_OWED)
       (\<lambda>r. r\<lparr>cp_auth_ack := (if starts_with ''refused:'' note then AUTH_REFUSED else AUTH_ACCEPTED),
              cp_auth_ack_note := Some note\<rparr>)"

section \<open>Day closings\<close>

definition card_balance_contact ::
    "instant \<Rightarrow> string \<Rightarrow> string \<Rightarrow> string \<Rightarrow> int option \<Rightarrow> (journal, int option) op" where
  "card_balance_contact now ip local_date source job_id =
     on_conn (sql (\<lambda>d.
       if source = ''safety'' \<and> list_ex (\<lambda>b. cb_source b = ''safety'' \<and> cb_terminal_ip b = ip \<and>
            cb_local_date b = local_date) (jd_card_balances d)
       then (Inr None, d)
       else let i = jd_balance_seq d + 1
            in (Inr (Some i),
                d\<lparr>jd_card_balances := jd_card_balances d @
                    [\<lparr>cb_id = i, cb_terminal_ip = ip, cb_local_date = local_date, cb_source = source,
                      cb_job_id = job_id, cb_contact_at = now, cb_outcome = None, cb_result = None\<rparr>],
                  jd_balance_seq := i\<rparr>)))"

definition card_balance_outcome :: "int \<Rightarrow> string \<Rightarrow> json \<Rightarrow> (journal, bool) op" where
  "card_balance_outcome i oc res =
     on_conn (sql (\<lambda>d. let Q = (\<lambda>b. cb_id b = i)
        in (Inr (count_where Q (jd_card_balances d) = 1),
            d\<lparr>jd_card_balances := upd_where Q (\<lambda>b. b\<lparr>cb_outcome := Some oc, cb_result := Some res\<rparr>)
               (jd_card_balances d)\<rparr>)))"

definition card_balance_forget :: "int \<Rightarrow> (journal, bool) op" where
  "card_balance_forget i =
     on_conn (sql (\<lambda>d. (Inr (count_where (\<lambda>b. cb_id b = i) (jd_card_balances d) = 1),
        d\<lparr>jd_card_balances := delete_where (\<lambda>b. cb_id b = i) (jd_card_balances d)\<rparr>)))"

definition card_balance_ran :: "string \<Rightarrow> string \<Rightarrow> (journal, bool) op" where
  "card_balance_ran ip local_date =
     on_conn (query (\<lambda>d. Inr (list_ex (\<lambda>b. cb_terminal_ip b = ip \<and> cb_local_date b = local_date \<and>
       (cb_source b = ''safety'' \<or> cb_outcome b = Some ''done'')) (jd_card_balances d))))"

definition card_balances :: "string \<Rightarrow> (journal, balance_row list) op" where
  "card_balances ip =
     on_conn (query (\<lambda>d. Inr (sort_key cb_id (filter (\<lambda>b. cb_terminal_ip b = ip) (jd_card_balances d)))))"

definition card_balance_of_job :: "int \<Rightarrow> (journal, balance_row option) op" where
  "card_balance_of_job job_id =
     on_conn (query (\<lambda>d. Inr (row_of cb_job_id (Some job_id) (jd_card_balances d))))"

text \<open>\<open>kasa_id IS ?1\<close>: equal, or both NULL.\<close>

definition card_later_shift_job :: "int \<Rightarrow> int option \<Rightarrow> (journal, bool) op" where
  "card_later_shift_job job_id kasa_id =
     on_conn (query (\<lambda>d. Inr (list_ex (\<lambda>r. dj_kasa_id (od_job r) = kasa_id \<and> job_id < od_id r \<and>
       dj_job_type (od_job r) \<in> {''card.activate'', ''card.deactivate''}) (jd_device_jobs d))))"

section \<open>Pruning\<close>

definition PRUNE_AFTER :: int where
  "PRUNE_AFTER = 400 * 86400 * 10 ^ 9"

text \<open>\<open>note NOT LIKE 'refused:%'\<close> or NULL.\<close>

definition not_refused :: "string option \<Rightarrow> bool" where
  "not_refused n = (case n of None \<Rightarrow> True | Some s \<Rightarrow> map ascii_lower (take 8 s) \<noteq> ''refused:'')"

definition odoo_prunable :: "instant \<Rightarrow> odoo_row \<Rightarrow> bool" where
  "odoo_prunable cutoff r \<longleftrightarrow>
     od_acked r = 1 \<and> j_state r \<in> set FINAL_STATES \<and> j_updated_at r < cutoff \<and> not_refused (od_ack_note r)"

definition lan_prunable :: "instant \<Rightarrow> lan_row \<Rightarrow> bool" where
  "lan_prunable cutoff r \<longleftrightarrow>
     ln_reported r = 1 \<and> j_state r \<in> set FINAL_STATES \<and> j_updated_at r < cutoff \<and>
     not_refused (ln_report_note r)"

definition prune_card_payments :: "(journal_db conn, nat) op" where
  "prune_card_payments =
     sql (\<lambda>d. let Q = (\<lambda>c. row_of od_id (cp_job_id c) (jd_device_jobs d) = None)
              in (Inr (count_where Q (jd_card_payments d)),
                  d\<lparr>jd_card_payments := delete_where Q (jd_card_payments d)\<rparr>))"

definition prune_card_balances :: "instant \<Rightarrow> (journal_db conn, nat) op" where
  "prune_card_balances now =
     sql (\<lambda>d. let Q = (\<lambda>b. cb_contact_at b < now - PRUNE_AFTER)
              in (Inr (count_where Q (jd_card_balances d)),
                  d\<lparr>jd_card_balances := delete_where Q (jd_card_balances d)\<rparr>))"

definition prune :: "instant \<Rightarrow> (journal, nat) op" where
  "prune now =
     (let cutoff = now - PRUNE_AFTER
      in on_conn
        (try_op (sql (\<lambda>d. (Inr (count_where (odoo_prunable cutoff) (jd_device_jobs d)),
             d\<lparr>jd_device_jobs := delete_where (odoo_prunable cutoff) (jd_device_jobs d)\<rparr>))) (\<lambda>odoo.
         try_op (sql (\<lambda>d. (Inr (count_where (lan_prunable cutoff) (jd_lan_jobs d)),
             d\<lparr>jd_lan_jobs := delete_where (lan_prunable cutoff) (jd_lan_jobs d)\<rparr>))) (\<lambda>lan.
         try_op prune_card_payments (\<lambda>_.
         try_op (prune_card_balances now) (\<lambda>_. ok (odoo + lan)))))))"

section \<open>How a job may move\<close>

text \<open>What the state machine decides about a job: its state text, result and error.\<close>

type_synonym core = "string \<times> json option \<times> string option \<times> string option"

definition jcore :: "'a jrow_scheme \<Rightarrow> core" where
  "jcore r = (j_state r, j_result r, j_error_code r, j_error_text r)"

definition core_of :: "journal_db \<Rightarrow> int \<Rightarrow> core option" where
  "core_of d k =
     (if is_lan_job k then map_option jcore (row_of ln_id (- k) (jd_lan_jobs d))
      else map_option jcore (row_of od_id k (jd_device_jobs d)))"

definition rank :: "string \<Rightarrow> nat" where
  "rank s = (if s = ''received'' then 0 else if s = ''executing'' then 1
             else if s = ''indeterminate'' then 2 else 3)"

text \<open>
  Forward only: received, executing, indeterminate, final; a final job (and one with a state
  this version cannot read) keeps state, result and error for good.
\<close>

fun forward :: "core option \<Rightarrow> core option \<Rightarrow> bool" where
  "forward None _ = True"
| "forward (Some c) None = False"
| "forward (Some c) (Some c') =
     (if rank (fst c) = 3 then c' = c else rank (fst c) \<le> rank (fst c'))"

lemma forward_refl: "forward x x"
  by (cases x) auto

lemma rank_le: "rank s \<le> 3"
  by (simp add: rank_def)

lemma forward_trans: "forward x y \<Longrightarrow> forward y z \<Longrightarrow> forward x z"
proof (cases x; cases y; cases z)
  fix a b c assume "forward x y" "forward y z" "x = Some a" "y = Some b" "z = Some c"
  then show ?thesis using rank_le [of "fst c"] by (auto split: if_splits)
qed auto

abbreviation jdb :: "journal \<Rightarrow> journal_db" where
  "jdb j \<equiv> cn_db (jo_conn j)"

definition onward :: "int \<Rightarrow> journal_db \<Rightarrow> journal_db \<Rightarrow> bool" where
  "onward k d d' \<longleftrightarrow> forward (core_of d k) (core_of d' k)"

lemma onward_refl: "onward k d d"
  by (simp add: onward_def forward_refl)

lemma onward_trans: "onward k d d' \<Longrightarrow> onward k d' d'' \<Longrightarrow> onward k d d''"
  unfolding onward_def by (rule forward_trans)

interpretation onward: step_relation "\<lambda>j j'. onward k (jdb j) (jdb j')" for k
  by unfold_locales (auto intro: onward_refl onward_trans)

interpretation conn_onward: step_relation "\<lambda>c c'. onward k (cn_db c) (cn_db c')" for k
  by unfold_locales (auto intro: onward_refl onward_trans)

named_theorems onward_keeps "journal operations that only move jobs forward"

lemma onward_on_conn:
  "moves (\<lambda>c c'. onward k (cn_db c) (cn_db c')) m \<Longrightarrow>
   moves (\<lambda>j j'. onward k (jdb j) (jdb j')) (on_conn m)"
  unfolding on_conn_def by (rule moves_zoom) simp_all

lemma onward_query [onward_keeps]: "moves (\<lambda>c c'. onward k (cn_db c) (cn_db c')) (query f)"
  by (rule moves_query) (rule onward_refl)

lemma onward_sql:
  assumes "\<And>d r d'. f d = (Inr r, d') \<Longrightarrow> onward k d d'"
  shows "moves (\<lambda>c c'. onward k (cn_db c) (cn_db c')) (sql f)"
  by (rule moves_sql) (use assms onward_refl in auto)

lemma onward_same:
  "jd_device_jobs d' = jd_device_jobs d \<Longrightarrow> jd_lan_jobs d' = jd_lan_jobs d \<Longrightarrow> onward k d d'"
  by (simp add: onward_def core_of_def forward_refl)

text \<open>An update of the rows that satisfy a condition moves each of them forward.\<close>

lemma onward_upd_odoo:
  assumes "\<And>r. od_job (f r) = od_job r" and "\<And>r. Q r \<Longrightarrow> forward (Some (jcore r)) (Some (jcore (f r)))"
  shows "onward k d (d\<lparr>jd_device_jobs := upd_where Q f (jd_device_jobs d)\<rparr>)"
proof -
  have "\<And>r. od_id (f r) = od_id r" by (simp add: assms(1))
  then show ?thesis
    using assms(2)
    by (cases "row_of od_id k (jd_device_jobs d)")
      (auto simp: onward_def core_of_def row_of_upd_where forward_refl simp del: forward.simps(3))
qed

lemma onward_upd_lan:
  assumes "\<And>r. ln_id (f r) = ln_id r" and "\<And>r. Q r \<Longrightarrow> forward (Some (jcore r)) (Some (jcore (f r)))"
  shows "onward k d (d\<lparr>jd_lan_jobs := upd_where Q f (jd_lan_jobs d)\<rparr>)"
  using assms
  by (cases "row_of ln_id (- k) (jd_lan_jobs d)")
    (auto simp: onward_def core_of_def row_of_upd_where forward_refl simp del: forward.simps(3))

lemma onward_update_located:
  assumes "\<And>r. od_job (fo r) = od_job r" and "\<And>r. ln_id (fl r) = ln_id r"
    and "\<And>r. P (jrow.truncate r) \<Longrightarrow> forward (Some (jcore r)) (Some (jcore (fo r)))"
    and "\<And>r. P (jrow.truncate r) \<Longrightarrow> forward (Some (jcore r)) (Some (jcore (fl r)))"
  shows "moves (\<lambda>j j'. onward k (jdb j) (jdb j')) (update_located i P fo fl)"
  unfolding update_located_def
  by (intro onward_on_conn onward_sql)
    (use assms in \<open>auto simp: Let_def split: if_splits intro!: onward_upd_odoo onward_upd_lan\<close>)

lemma truncate_simps [simp]:
  "j_state (jrow.truncate r) = j_state r" "j_contact (jrow.truncate r) = j_contact r"
  by (simp_all add: jrow.defs)

lemma onward_start [onward_keeps]:
  "moves (\<lambda>j j'. onward k (jdb j) (jdb j')) (start_execution now i)"
  unfolding start_execution_def
  by (rule onward_update_located) (auto simp: jcore_def rank_def)

lemma open_rank: "s \<in> set OPEN_STATES \<Longrightarrow> rank s \<noteq> 3 \<and> rank s \<le> 2"
  by (auto simp: OPEN_STATES_def rank_def)

lemma onward_record_outcome [onward_keeps]:
  "moves (\<lambda>j j'. onward k (jdb j) (jdb j')) (record_outcome now i oc)"
  unfolding record_outcome_def Let_def
  by (cases oc)
    (auto intro!: onward_update_located dest!: open_rank
      simp: odoo_owe_outcome_def lan_owe_outcome_def odoo_owe_unknown_def jcore_def rank_def [of "''done''"]
        rank_def [of "''failed''"] rank_def [of "''indeterminate''"])

lemma onward_fail_unstarted [onward_keeps]:
  "moves (\<lambda>j j'. onward k (jdb j) (jdb j')) (fail_unstarted now i code text)"
  unfolding fail_unstarted_def
  by (rule onward_update_located)
    (auto simp: odoo_owe_outcome_def lan_owe_outcome_def jcore_def rank_def)

lemma onward_mark_contact [onward_keeps]:
  "moves (\<lambda>j j'. onward k (jdb j) (jdb j')) (mark_device_contact now i)"
  unfolding mark_device_contact_def
  by (rule onward_update_located) (auto simp: jcore_def)

lemma onward_still_unknown [onward_keeps]:
  "moves (\<lambda>j j'. onward k (jdb j) (jdb j')) (record_still_unknown now i reason)"
  unfolding record_still_unknown_def
  by (rule onward_update_located) (auto simp: odoo_owe_unknown_def jcore_def rank_def)

lemma onward_update_odoo:
  assumes "\<And>r. od_job (f r) = od_job r" and "\<And>r. jcore (f r) = jcore r"
  shows "moves (\<lambda>j j'. onward k (jdb j) (jdb j')) (update_odoo i P f)"
  unfolding update_odoo_def
  by (intro onward_on_conn onward_sql)
    (use assms in \<open>auto simp: Let_def forward_refl simp del: forward.simps intro!: onward_upd_odoo\<close>)

lemma onward_acks [onward_keeps]:
  "moves (\<lambda>j j'. onward k (jdb j) (jdb j')) (mark_acked now i note)"
  "moves (\<lambda>j j'. onward k (jdb j) (jdb j')) (mark_reported now i)"
  "moves (\<lambda>j j'. onward k (jdb j) (jdb j')) (reopen_ack now i)"
  unfolding mark_acked_def mark_reported_def reopen_ack_def
  by (rule onward_update_odoo; simp add: jcore_def)+

lemma onward_mark_lan_reported [onward_keeps]:
  "moves (\<lambda>j j'. onward k (jdb j) (jdb j')) (mark_lan_reported i o_id note)"
  unfolding mark_lan_reported_def
  by (intro onward_on_conn onward_sql)
    (auto simp: Let_def forward_refl jcore_def simp del: forward.simps intro!: onward_upd_lan)

lemma onward_get [onward_keeps]:
  "moves (\<lambda>j j'. onward k (jdb j) (jdb j')) (journal_get ts i)"
  unfolding journal_get_def lan_job_by_id_def
  by (intro onward.moves_rules onward_on_conn onward_keeps)

lemma onward_insert_odoo [onward_keeps]:
  "moves (\<lambda>j j'. onward k (jdb j) (jdb j')) (insert_odoo ts now job refused)"
  unfolding insert_odoo_def
  by (intro onward.moves_rules onward_on_conn onward_sql onward_keeps)
    (auto simp: onward_def core_of_def row_of_append forward_refl simp del: forward.simps(3)
      split: if_splits option.splits)

lemma onward_lan_job [onward_keeps]: "moves (\<lambda>j j'. onward k (jdb j) (jdb j')) (lan_job ts kasa u)"
  unfolding lan_job_def by (intro onward_on_conn onward_keeps)

lemma onward_insert_lan [onward_keeps]:
  "moves (\<lambda>j j'. onward k (jdb j) (jdb j')) (insert_lan_received ts now job)"
  unfolding insert_lan_received_def
  by (intro onward.moves_rules onward_on_conn onward_sql onward_keeps)
    (auto simp: onward_def core_of_def row_of_append forward_refl Let_def simp del: forward.simps(3)
      split: if_splits option.splits)

lemma recovered_jcore: "j_state r \<in> set IN_FLIGHT \<Longrightarrow> forward (Some (jcore r)) (Some (jcore (recovered now r)))"
  by (auto simp: IN_FLIGHT_def recovered_def jcore_def rank_def)

lemma onward_recover [onward_keeps]:
  "moves (\<lambda>j j'. onward k (jdb j) (jdb j')) (recover_after_restart now)"
  unfolding recover_after_restart_def tx_mark_def
  by (intro onward_on_conn moves_transaction conn_onward.moves_rules onward_sql onward_keeps onward_refl)
    (auto simp: onward_refl simp del: forward.simps
      intro!: onward_upd_odoo onward_upd_lan recovered_jcore, simp_all add: recovered_def)

lemma onward_card_ops [onward_keeps]:
  "moves (\<lambda>j j'. onward k (jdb j) (jdb j')) (update_card i Q f)"
  "moves (\<lambda>j j'. onward k (jdb j) (jdb j')) (card_balance_contact now ip dt src jid)"
  "moves (\<lambda>j j'. onward k (jdb j) (jdb j')) (card_balance_outcome b oc res)"
  "moves (\<lambda>j j'. onward k (jdb j) (jdb j')) (card_balance_forget b)"
  unfolding update_card_def card_balance_contact_def card_balance_outcome_def card_balance_forget_def
  by (intro onward_on_conn onward_sql; auto simp: Let_def split: if_splits intro!: onward_same)+

lemma onward_card_contact [onward_keeps]:
  "moves (\<lambda>j j'. onward k (jdb j) (jdb j')) (card_contact_of now i ip am bl tt tg)"
  unfolding card_contact_of_def tx_mark_def
  by (intro onward_on_conn moves_transaction conn_onward.moves_rules onward_sql onward_keeps onward_refl)
    (auto simp: onward_refl Let_def forward_refl jcore_def simp del: forward.simps
      intro: onward_upd_odoo onward_same split: if_splits)

section \<open>Well-formed journals\<close>

text \<open>
  The constraints of the schema and of the id space: primary keys, \<open>UNIQUE (kasa_id,
  client_uuid)\<close>, the one safety balance per terminal and day, \<open>AUTOINCREMENT\<close> ids, positive
  ids of Odoo jobs, and that every state text is one the program wrote.
\<close>

definition known_state :: "string \<Rightarrow> bool" where
  "known_state s \<longleftrightarrow> parse_state s \<noteq> None"

definition safety_of :: "string \<Rightarrow> string \<Rightarrow> balance_row \<Rightarrow> bool" where
  "safety_of ip date b \<longleftrightarrow> cb_source b = ''safety'' \<and> cb_terminal_ip b = ip \<and> cb_local_date b = date"

definition odoo_wf :: "odoo_row list \<Rightarrow> bool" where
  "odoo_wf t \<longleftrightarrow> keyed od_id t \<and> (\<forall>r \<in> set t. 0 < od_id r \<and> known_state (j_state r))"

definition lan_wf :: "int \<Rightarrow> lan_row list \<Rightarrow> bool" where
  "lan_wf m t \<longleftrightarrow> 0 \<le> m \<and> keyed ln_id t \<and> keyed (\<lambda>r. (ln_kasa_id r, ln_client_uuid r)) t \<and>
     (\<forall>r \<in> set t. 0 < ln_id r \<and> ln_id r \<le> m \<and> known_state (j_state r))"

definition balance_wf :: "int \<Rightarrow> balance_row list \<Rightarrow> bool" where
  "balance_wf m t \<longleftrightarrow> 0 \<le> m \<and> keyed cb_id t \<and> (\<forall>b \<in> set t. 0 < cb_id b \<and> cb_id b \<le> m) \<and>
     (\<forall>ip date. count_where (safety_of ip date) t \<le> 1)"

definition journal_wf :: "journal_db \<Rightarrow> bool" where
  "journal_wf d \<longleftrightarrow>
     odoo_wf (jd_device_jobs d) \<and> lan_wf (jd_lan_seq d) (jd_lan_jobs d) \<and>
     keyed cp_job_id (jd_card_payments d) \<and> balance_wf (jd_balance_seq d) (jd_card_balances d)"

definition empty_journal :: journal_db where
  "empty_journal =
     \<lparr>jd_device_jobs = [], jd_lan_jobs = [], jd_lan_seq = 0, jd_card_payments = [],
      jd_card_balances = [], jd_balance_seq = 0\<rparr>"

lemma journal_wf_empty: "journal_wf empty_journal"
  by (simp add: journal_wf_def empty_journal_def odoo_wf_def lan_wf_def balance_wf_def count_where_def)

interpretation jwf: invariant "\<lambda>j :: journal. journal_wf (jdb j)" .
interpretation conn_jwf: invariant "\<lambda>c :: journal_db conn. journal_wf (cn_db c)" .

named_theorems jwf_keeps "journal operations that keep the journal well-formed"

lemma jwf_on_conn:
  "moves (\<lambda>c c'. journal_wf (cn_db c) \<longrightarrow> journal_wf (cn_db c')) m \<Longrightarrow>
   moves (\<lambda>j j'. journal_wf (jdb j) \<longrightarrow> journal_wf (jdb j')) (on_conn m)"
  unfolding on_conn_def
  by (rule moves_zoom [where R = "\<lambda>c c'. journal_wf (cn_db c) \<longrightarrow> journal_wf (cn_db c')"]) simp_all

lemma jwf_query [jwf_keeps]: "moves (\<lambda>c c'. journal_wf (cn_db c) \<longrightarrow> journal_wf (cn_db c')) (query f)"
  by (rule keeps_query)

lemma odoo_wf_upd:
  assumes "odoo_wf t" and "\<And>r. od_job (f r) = od_job r"
    and "\<And>r. Q r \<Longrightarrow> known_state (j_state r) \<Longrightarrow> known_state (j_state (f r))"
  shows "odoo_wf (upd_where Q f t)"
proof -
  have "\<And>r. od_id (f r) = od_id r" by (simp add: assms(2))
  then show ?thesis using assms by (auto simp: odoo_wf_def keyed_upd_where set_upd_where)
qed

lemma lan_wf_upd:
  assumes "lan_wf m t" and "\<And>r. ln_id (f r) = ln_id r" and "\<And>r. ln_kasa_id (f r) = ln_kasa_id r"
    and "\<And>r. ln_client_uuid (f r) = ln_client_uuid r"
    and "\<And>r. Q r \<Longrightarrow> known_state (j_state r) \<Longrightarrow> known_state (j_state (f r))"
  shows "lan_wf m (upd_where Q f t)"
  using assms by (auto simp: lan_wf_def keyed_upd_where set_upd_where)

lemma count_where_upd:
  "(\<And>r. Q r \<Longrightarrow> P (f r) = P r) \<Longrightarrow> count_where P (upd_where Q f t) = count_where P t"
  by (induction t) (auto simp: count_where_def)

lemma count_where_filter_le: "count_where P (filter Q t) \<le> count_where P t"
  by (induction t) (auto simp: count_where_def)

lemma known_states [simp]:
  "known_state ''received''" "known_state ''executing''" "known_state ''done''" "known_state ''failed''"
  "known_state ''indeterminate''"
  by (simp_all add: known_state_def parse_state_def)

lemma jwf_update_located:
  assumes "\<And>r. od_job (fo r) = od_job r" "\<And>r. ln_id (fl r) = ln_id r"
    "\<And>r. ln_kasa_id (fl r) = ln_kasa_id r" "\<And>r. ln_client_uuid (fl r) = ln_client_uuid r"
    "\<And>r. known_state (j_state r) \<Longrightarrow> known_state (j_state (fo r))"
    "\<And>r. known_state (j_state r) \<Longrightarrow> known_state (j_state (fl r))"
  shows "moves (\<lambda>j j'. journal_wf (jdb j) \<longrightarrow> journal_wf (jdb j')) (update_located i P fo fl)"
  unfolding update_located_def
  by (intro jwf_on_conn keeps_sql)
    (use assms in \<open>auto simp: Let_def journal_wf_def split: if_splits intro!: odoo_wf_upd lan_wf_upd\<close>)

lemma jwf_state_machine [jwf_keeps]:
  "moves (\<lambda>j j'. journal_wf (jdb j) \<longrightarrow> journal_wf (jdb j')) (start_execution now i)"
  "moves (\<lambda>j j'. journal_wf (jdb j) \<longrightarrow> journal_wf (jdb j')) (fail_unstarted now i code text)"
  "moves (\<lambda>j j'. journal_wf (jdb j) \<longrightarrow> journal_wf (jdb j')) (mark_device_contact now i)"
  "moves (\<lambda>j j'. journal_wf (jdb j) \<longrightarrow> journal_wf (jdb j')) (record_still_unknown now i reason)"
  unfolding start_execution_def fail_unstarted_def mark_device_contact_def record_still_unknown_def
  by (rule jwf_update_located; simp add: odoo_owe_outcome_def lan_owe_outcome_def odoo_owe_unknown_def)+

lemma jwf_record_outcome [jwf_keeps]:
  "moves (\<lambda>j j'. journal_wf (jdb j) \<longrightarrow> journal_wf (jdb j')) (record_outcome now i oc)"
  unfolding record_outcome_def Let_def
  by (cases oc)
    (auto intro!: jwf_update_located
      simp: odoo_owe_outcome_def lan_owe_outcome_def odoo_owe_unknown_def)

lemma jwf_update_odoo:
  assumes "\<And>r. od_job (f r) = od_job r" and "\<And>r. j_state (f r) = j_state r"
  shows "moves (\<lambda>j j'. journal_wf (jdb j) \<longrightarrow> journal_wf (jdb j')) (update_odoo i P f)"
  unfolding update_odoo_def
  by (intro jwf_on_conn keeps_sql) (use assms in \<open>auto simp: Let_def journal_wf_def intro!: odoo_wf_upd\<close>)

lemma jwf_acks [jwf_keeps]:
  "moves (\<lambda>j j'. journal_wf (jdb j) \<longrightarrow> journal_wf (jdb j')) (mark_acked now i note)"
  "moves (\<lambda>j j'. journal_wf (jdb j) \<longrightarrow> journal_wf (jdb j')) (mark_reported now i)"
  "moves (\<lambda>j j'. journal_wf (jdb j) \<longrightarrow> journal_wf (jdb j')) (reopen_ack now i)"
  unfolding mark_acked_def mark_reported_def reopen_ack_def
  by (rule jwf_update_odoo; simp)+

lemma jwf_mark_lan_reported [jwf_keeps]:
  "moves (\<lambda>j j'. journal_wf (jdb j) \<longrightarrow> journal_wf (jdb j')) (mark_lan_reported i o_id note)"
  unfolding mark_lan_reported_def
  by (intro jwf_on_conn keeps_sql) (auto simp: Let_def journal_wf_def intro!: lan_wf_upd)

lemma jwf_get [jwf_keeps]:
  "moves (\<lambda>j j'. journal_wf (jdb j) \<longrightarrow> journal_wf (jdb j')) (journal_get ts i)"
  "moves (\<lambda>j j'. journal_wf (jdb j) \<longrightarrow> journal_wf (jdb j')) (lan_job ts kasa u)"
  unfolding journal_get_def lan_job_by_id_def lan_job_def
  by (intro jwf.inv.moves_rules jwf_on_conn jwf_keeps)+

lemma jwf_insert_odoo [jwf_keeps]:
  assumes "0 < dj_id job"
  shows "moves (\<lambda>j j'. journal_wf (jdb j) \<longrightarrow> journal_wf (jdb j')) (insert_odoo ts now job refused)"
  unfolding insert_odoo_def
  by (intro jwf.inv.moves_rules jwf_on_conn keeps_sql jwf_keeps)
    (use assms in \<open>auto simp: journal_wf_def odoo_wf_def keyed_snoc row_of_None_iff new_odoo_row_def
      split: if_splits option.splits\<close>)

lemma lan_wf_snoc:
  assumes "lan_wf m t" and "lan_find kasa (dj_client_uuid job) t = None"
  shows "lan_wf (m + 1) (t @ [new_lan_row now (m + 1) kasa job])"
proof -
  have "m + 1 \<notin> ln_id ` set t" using assms(1) by (force simp: lan_wf_def)
  moreover have "(kasa, dj_client_uuid job) \<notin> (\<lambda>r. (ln_kasa_id r, ln_client_uuid r)) ` set t"
    using assms(2) unfolding lan_find_def row_of_None_iff .
  ultimately show ?thesis
    using assms(1) by (force simp: lan_wf_def keyed_snoc new_lan_row_def)
qed

lemma jwf_insert_lan [jwf_keeps]:
  "moves (\<lambda>j j'. journal_wf (jdb j) \<longrightarrow> journal_wf (jdb j')) (insert_lan_received ts now job)"
  unfolding insert_lan_received_def
  by (intro jwf.inv.moves_rules jwf_on_conn keeps_sql jwf_keeps)
    (auto simp: journal_wf_def Let_def intro!: lan_wf_snoc split: if_splits)

lemma jwf_recover [jwf_keeps]:
  "moves (\<lambda>j j'. journal_wf (jdb j) \<longrightarrow> journal_wf (jdb j')) (recover_after_restart now)"
  unfolding recover_after_restart_def tx_mark_def
  by (intro jwf_on_conn keeps_transaction conn_jwf.inv.moves_rules keeps_sql jwf_keeps)
    (auto simp: journal_wf_def recovered_def intro!: odoo_wf_upd lan_wf_upd)

lemma jwf_update_card [jwf_keeps]:
  assumes "\<And>r. cp_job_id (f r) = cp_job_id r"
  shows "moves (\<lambda>j j'. journal_wf (jdb j) \<longrightarrow> journal_wf (jdb j')) (update_card i Q f)"
  unfolding update_card_def
  by (intro jwf_on_conn keeps_sql) (use assms in \<open>auto simp: Let_def journal_wf_def keyed_upd_where\<close>)

lemma jwf_card_contact [jwf_keeps]:
  "moves (\<lambda>j j'. journal_wf (jdb j) \<longrightarrow> journal_wf (jdb j')) (card_contact_of now i ip am bl tt tg)"
  unfolding card_contact_of_def tx_mark_def
  by (intro jwf_on_conn keeps_transaction conn_jwf.inv.moves_rules keeps_sql jwf_keeps)
    (auto simp: journal_wf_def Let_def keyed_snoc row_of_None_iff new_card_row_def
      split: if_splits intro!: odoo_wf_upd)

lemma balance_wf_snoc:
  assumes "balance_wf m t" and "cb_id b = m + 1"
    and "cb_source b = ''safety'' \<Longrightarrow>
         \<not> list_ex (\<lambda>x. cb_source x = ''safety'' \<and> cb_terminal_ip x = cb_terminal_ip b \<and>
              cb_local_date x = cb_local_date b) t"
  shows "balance_wf (m + 1) (t @ [b])"
proof -
  have "m + 1 \<notin> cb_id ` set t" using assms(1) by (force simp: balance_wf_def)
  moreover have "count_where (safety_of ip date) (t @ [b]) \<le> 1" for ip date
  proof (cases "safety_of ip date b")
    case True
    with assms(3) have "count_where (safety_of ip date) t = 0"
      by (auto simp: count_where_0 safety_of_def list_ex_iff)
    then show ?thesis by (simp add: count_where_def)
  next
    case False
    with assms(1) show ?thesis by (simp add: count_where_def balance_wf_def)
  qed
  ultimately show ?thesis
    using assms(1,2) by (force simp: balance_wf_def keyed_snoc)
qed

lemma balance_wf_filter: "balance_wf m t \<Longrightarrow> balance_wf m (filter Q t)"
  by (auto simp: balance_wf_def keyed_filter intro: le_trans [OF count_where_filter_le])

lemma jwf_balance [jwf_keeps]:
  "moves (\<lambda>j j'. journal_wf (jdb j) \<longrightarrow> journal_wf (jdb j')) (card_balance_contact now ip date src jid)"
  "moves (\<lambda>j j'. journal_wf (jdb j) \<longrightarrow> journal_wf (jdb j')) (card_balance_forget b)"
  unfolding card_balance_contact_def card_balance_forget_def
  by (intro jwf_on_conn keeps_sql;
      auto simp: journal_wf_def Let_def delete_where_def split: if_splits
        intro!: balance_wf_snoc balance_wf_filter)+

lemma jwf_balance_outcome [jwf_keeps]:
  "moves (\<lambda>j j'. journal_wf (jdb j) \<longrightarrow> journal_wf (jdb j')) (card_balance_outcome b oc res)"
  unfolding card_balance_outcome_def
  by (intro jwf_on_conn keeps_sql)
    (auto simp: journal_wf_def Let_def balance_wf_def keyed_upd_where set_upd_where count_where_upd
      safety_of_def)

lemma jwf_prune [jwf_keeps]:
  "moves (\<lambda>j j'. journal_wf (jdb j) \<longrightarrow> journal_wf (jdb j')) (prune now)"
  unfolding prune_def prune_card_payments_def prune_card_balances_def Let_def
  by (intro jwf_on_conn conn_jwf.inv.moves_rules keeps_sql)
    (auto simp: journal_wf_def odoo_wf_def lan_wf_def delete_where_def keyed_filter balance_wf_filter)

section \<open>Claiming a job once\<close>

text \<open>
  The contract the device workers rely on: a start that succeeds claims the job, and a claim is
  never taken back. Then no run of the journal lets two starts of one job succeed.
\<close>

locale claim_once =
  fixes good :: "'j \<Rightarrow> bool" and claimed :: "'j \<Rightarrow> bool" and start :: "('j, bool) op"
    and R :: "'j \<Rightarrow> 'j \<Rightarrow> bool"
  assumes start_claims: "good j \<Longrightarrow> start j = (Inr True, j') \<Longrightarrow> \<not> claimed j \<and> claimed j'"
    and claim_kept: "R j j' \<Longrightarrow> claimed j \<Longrightarrow> claimed j'"
    and good_kept: "R j j' \<Longrightarrow> good j \<Longrightarrow> good j'"
begin

lemma kept_from:
  assumes "\<And>j j'. R j j' \<Longrightarrow> P j \<Longrightarrow> P j'"
    and "\<And>i. Suc i < length js \<Longrightarrow> R (js ! i) (js ! Suc i)" and "P (js ! a)"
    and "a \<le> b" and "b < length js"
  shows "P (js ! b)"
  using assms(4,5)
proof (induction b rule: nat_induct_at_least)
  case base
  then show ?case using assms(3) by simp
next
  case (Suc n)
  then show ?case using assms(1) [OF assms(2)] by simp
qed

lemma no_second_start:
  assumes "good (js ! 0)" and "\<And>i. Suc i < length js \<Longrightarrow> R (js ! i) (js ! Suc i)"
    and "start (js ! a) = (Inr True, js ! Suc a)" and "start (js ! b) = (Inr True, js ! Suc b)"
    and "a < b" and "Suc b < length js"
  shows False
proof -
  have good: "good (js ! i)" if "i < length js" for i
    using kept_from [where P = good, OF good_kept assms(2,1)] that by simp
  have "claimed (js ! Suc a)" using start_claims [OF good assms(3)] assms(5,6) by simp
  then have "claimed (js ! b)"
    using kept_from [where P = claimed, OF claim_kept assms(2)] assms(5,6) by simp
  then show False using start_claims [OF good assms(4)] assms(6) by simp
qed

lemma one_start:
  assumes "good (js ! 0)" and "\<And>i. Suc i < length js \<Longrightarrow> R (js ! i) (js ! Suc i)"
    and "start (js ! a) = (Inr True, js ! Suc a)" and "start (js ! b) = (Inr True, js ! Suc b)"
    and "Suc a < length js" and "Suc b < length js"
  shows "a = b"
  using no_second_start [OF assms(1,2), of a b] no_second_start [OF assms(1,2), of b a] assms(3-6)
  by (meson linorder_neqE_nat)

end

text \<open>A job is claimed once it is past \<open>received\<close>.\<close>

definition started :: "int \<Rightarrow> journal \<Rightarrow> bool" where
  "started k j = (case core_of (jdb j) k of None \<Rightarrow> False | Some c \<Rightarrow> 0 < rank (fst c))"

lemma started_onward: "onward k (jdb j) (jdb j') \<Longrightarrow> started k j \<Longrightarrow> started k j'"
  by (cases "core_of (jdb j) k"; cases "core_of (jdb j') k")
    (auto simp: onward_def started_def split: if_splits)

lemma on_conn_InrD:
  "on_conn m j = (Inr x, j') \<Longrightarrow> \<exists>c. m (jo_conn j) = (Inr x, c) \<and> j' = j\<lparr>jo_conn := c\<rparr>"
  by (auto simp: on_conn_def zoom_op_def split: prod.splits)

lemma count_one_row:
  assumes "count_where (\<lambda>r. key r = k \<and> P r) t = 1" and "keyed key t"
  shows "\<exists>r. row_of key k t = Some r \<and> P r"
proof -
  have "(case row_of key k t of None \<Rightarrow> 0 | Some r \<Rightarrow> if P r then 1 else 0) = (1 :: nat)"
    using assms(1) unfolding count_where_key [OF assms(2), of k P] .
  then show ?thesis by (cases "row_of key k t") (auto split: if_splits)
qed

text \<open>On a well-formed journal the update of one located row has its plain effect.\<close>

lemma update_located_True:
  assumes wf: "journal_wf (jdb j)" and run: "update_located k P fo fl j = (Inr True, j')"
    and ids: "\<And>r. od_job (fo r) = od_job r" "\<And>r. ln_id (fl r) = ln_id r"
  shows "if is_lan_job k
         then \<exists>r. row_of ln_id (- k) (jd_lan_jobs (jdb j)) = Some r \<and> P (jrow.truncate r) \<and>
                  row_of ln_id (- k) (jd_lan_jobs (jdb j')) = Some (fl r)
         else \<exists>r. row_of od_id k (jd_device_jobs (jdb j)) = Some r \<and> P (jrow.truncate r) \<and>
                  row_of od_id k (jd_device_jobs (jdb j')) = Some (fo r)"
proof (cases "is_lan_job k")
  case True
  let ?t = "jd_lan_jobs (jdb j)" and ?Q = "\<lambda>r. ln_id r = - k \<and> P (jrow.truncate r)"
  have one: "count_where ?Q ?t = 1" and j': "jd_lan_jobs (jdb j') = upd_where ?Q fl ?t"
    using run True by (auto simp: update_located_def Let_def dest!: on_conn_InrD sql_Inr_effect)
  have "keyed ln_id ?t" using wf by (simp add: journal_wf_def lan_wf_def)
  from count_one_row [OF one this] obtain r where "row_of ln_id (- k) ?t = Some r" "P (jrow.truncate r)"
    by blast
  with True j' ids(2) show ?thesis by (simp add: row_of_upd_key)
next
  case False
  let ?t = "jd_device_jobs (jdb j)" and ?Q = "\<lambda>r. od_id r = k \<and> P (jrow.truncate r)"
  have one: "count_where ?Q ?t = 1" and j': "jd_device_jobs (jdb j') = upd_where ?Q fo ?t"
    using run False by (auto simp: update_located_def Let_def dest!: on_conn_InrD sql_Inr_effect)
  have "keyed od_id ?t" using wf by (simp add: journal_wf_def odoo_wf_def)
  from count_one_row [OF one this] obtain r where "row_of od_id k ?t = Some r" "P (jrow.truncate r)"
    by blast
  moreover have "\<And>r. od_id (fo r) = od_id r" by (simp add: ids(1))
  ultimately show ?thesis using False j' row_of_upd_key [of od_id fo k k "\<lambda>r. P (jrow.truncate r)" ?t]
    by simp
qed

lemma start_execution_claims:
  assumes "journal_wf (jdb j)" and "start_execution now k j = (Inr True, j')"
  shows "\<exists>c c'. core_of (jdb j) k = Some c \<and> fst c = ''received'' \<and>
                core_of (jdb j') k = Some c' \<and> fst c' = ''executing''"
  using update_located_True [OF assms(1) assms(2) [unfolded start_execution_def]]
  by (auto simp: core_of_def jcore_def split: if_splits)

text \<open>
  The journal provides the contract: on well-formed journals, for every job, under every
  operation that moves jobs forward only.
\<close>

interpretation once: claim_once "\<lambda>j. journal_wf (jdb j)" "started k" "start_execution now k"
  "\<lambda>j j'. onward k (jdb j) (jdb j') \<and> (journal_wf (jdb j) \<longrightarrow> journal_wf (jdb j'))" for k now
proof
  fix j j'
  assume "journal_wf (jdb j)" and "start_execution now k j = (Inr True, j')"
  then show "\<not> started k j \<and> started k j'"
    using start_execution_claims [of j now k j'] by (auto simp: started_def rank_def)
qed (auto intro: started_onward)

end
