(* ===== verification/Device_Api.thy ===== *)
theory Device_Api
  imports Device_Journal
begin

text \<open>
  The bridge side of Odoo's device-job contract: the JSON-RPC envelope and its errors
  (\<open>crates/devbridge-client/src/odoo_rpc.rs\<close>), the routes \<open>next\<close>, \<open>ack\<close>, \<open>pending\<close>
  (\<open>device_jobs/api.rs\<close>) and \<open>report_offline\<close> (\<open>device_jobs/report_offline.rs\<close>). The printer of
  \<open>serde_json\<close> (\<open>Value::to_string\<close>) and its parser are the parameters \<open>show_json\<close> and
  \<open>from_str\<close>; \<open>chrono\<close>'s formatting of a journal timestamp is the parameter \<open>executed_at\<close>.
\<close>

section \<open>Characters of a UTF-8 text\<close>

definition continuation :: "char \<Rightarrow> bool" where
  "continuation c \<longleftrightarrow> 0x80 \<le> (of_char c :: nat) \<and> (of_char c :: nat) \<le> 0xBF"

text \<open>\<open>str::chars\<close>: a character is a first byte and the continuation bytes after it.\<close>

function utf8_chars :: "string \<Rightarrow> string list" where
  "utf8_chars [] = []"
| "utf8_chars (c # s) = (c # takeWhile continuation s) # utf8_chars (dropWhile continuation s)"
  by pat_completeness auto
termination
  by (relation "measure length") (auto simp: le_imp_less_Suc length_dropWhile_le)

definition trim :: "string \<Rightarrow> string" where
  "trim s = concat (rev (dropWhile blank (rev (dropWhile blank (utf8_chars s)))))"

section \<open>Errors of a call (odoo_rpc.rs)\<close>

datatype RpcError =
    Transport string
  | Rpc string
  | Business string
  | Refused string string      \<comment> \<open>code, message\<close>
  | Protocol string

definition is_retryable :: "RpcError \<Rightarrow> bool" where
  "is_retryable e = (case e of Business _ \<Rightarrow> False | Refused _ _ \<Rightarrow> False | _ \<Rightarrow> True)"

definition refusal_code :: "RpcError \<Rightarrow> string option" where
  "refusal_code e = (case e of Refused code _ \<Rightarrow> Some code | _ \<Rightarrow> None)"

fun rpc_display :: "RpcError \<Rightarrow> string" where
  "rpc_display (Transport m) = ''transport error: '' @ m"
| "rpc_display (Rpc m) = ''JSON-RPC error: '' @ m"
| "rpc_display (Business m) = ''Odoo refused: '' @ m"
| "rpc_display (Refused code message) = ''Odoo refused ('' @ code @ ''): '' @ message"
| "rpc_display (Protocol m) = ''unexpected response: '' @ m"

text \<open>\<open>BodyExcerpt::SizeOnly\<close>, the mode of the device-job channel.\<close>

definition body_size_only :: "string \<Rightarrow> string" where
  "body_size_only body = ''<'' @ nat_digits (length body) @ '' bytes, not logged>''"

fun join :: "string \<Rightarrow> string list \<Rightarrow> string" where
  "join sep [] = []"
| "join sep [x] = x"
| "join sep (x # xs) = x @ sep @ join sep xs"

definition value_shape :: "json \<Rightarrow> string" where
  "value_shape v =
     (case v of
        JObj fs \<Rightarrow> ''object {'' @ join '', '' (map fst fs) @ ''}''
      | JArr xs \<Rightarrow> ''array of '' @ nat_digits (length xs)
      | JStr _ \<Rightarrow> ''string''
      | JInt _ \<Rightarrow> ''number''
      | JFloat _ \<Rightarrow> ''number''
      | JBool _ \<Rightarrow> ''bool''
      | JNull \<Rightarrow> ''null'')"

definition envelope :: "json \<Rightarrow> json" where
  "envelope params = JObj [(''jsonrpc'', JStr ''2.0''), (''method'', JStr ''call''), (''params'', params)]"

text \<open>Odoo writes an empty text as \<open>false\<close>.\<close>

definition odoo_text :: "(json \<Rightarrow> string) \<Rightarrow> json \<Rightarrow> string option" where
  "odoo_text show_json v =
     (case v of
        JStr s \<Rightarrow> if blank s then None else Some s
      | JInt _ \<Rightarrow> Some (show_json v)
      | JFloat _ \<Rightarrow> Some (show_json v)
      | _ \<Rightarrow> None)"

definition str_field :: "string \<Rightarrow> json \<Rightarrow> string" where
  "str_field k v = (case Option.bind (jget k v) as_str of None \<Rightarrow> [] | Some s \<Rightarrow> s)"

definition rpc_error_text :: "(json \<Rightarrow> string) \<Rightarrow> json \<Rightarrow> string" where
  "rpc_error_text show_json err =
     (let message = str_field ''message'' err;
          data = (case jget ''data'' err of None \<Rightarrow> [] | Some d \<Rightarrow> str_field ''message'' d);
          code = (case jget ''code'' err of None \<Rightarrow> [] | Some c \<Rightarrow> show_json c)
      in if message \<noteq> [] \<and> data \<noteq> [] then message @ '': '' @ data @ '' (code '' @ code @ '')''
         else if message \<noteq> [] then message @ '' (code '' @ code @ '')''
         else if data \<noteq> [] then data @ '' (code '' @ code @ '')''
         else show_json err)"

text \<open>A response body: the top-level \<open>error\<close> first, then the text of \<open>result.error\<close>.\<close>

definition parse_envelope_with ::
    "(json \<Rightarrow> string) \<Rightarrow> (string \<Rightarrow> string + json) \<Rightarrow> (string \<Rightarrow> string) \<Rightarrow> string \<Rightarrow> RpcError + json" where
  "parse_envelope_with show_json from_str excerpt body =
     (case from_str body of
        Inl e \<Rightarrow> Inl (Protocol (''not JSON ('' @ e @ ''): '' @ excerpt body))
      | Inr v \<Rightarrow>
          (case jget ''error'' v of
             Some err \<Rightarrow> if err = JNull then
                 (case jget ''result'' v of
                    None \<Rightarrow> Inl (Protocol (''no \"result\": '' @ excerpt body))
                  | Some res \<Rightarrow> (case Option.bind (jget ''error'' res) (odoo_text show_json) of
                        Some t \<Rightarrow> Inl (Business t) | None \<Rightarrow> Inr res))
               else Inl (Rpc (rpc_error_text show_json err))
           | None \<Rightarrow>
                 (case jget ''result'' v of
                    None \<Rightarrow> Inl (Protocol (''no \"result\": '' @ excerpt body))
                  | Some res \<Rightarrow> (case Option.bind (jget ''error'' res) (odoo_text show_json) of
                        Some t \<Rightarrow> Inl (Business t) | None \<Rightarrow> Inr res))))"

definition require_ok :: "(json \<Rightarrow> string) \<Rightarrow> json \<Rightarrow> RpcError + json" where
  "require_ok show_json result =
     (case Option.bind (jget ''ok'' result) as_bool of
        Some True \<Rightarrow> Inr result
      | Some False \<Rightarrow>
          (let field = (\<lambda>name. case Option.bind (Option.bind (jget ''error'' result) (jget name)) (odoo_text show_json)
                               of None \<Rightarrow> [] | Some t \<Rightarrow> t);
               code = field ''code''
           in Inl (Refused (if code = [] then ''unknown'' else code) (field ''message'')))
      | None \<Rightarrow> Inl (Protocol (''result without a boolean \"ok\": '' @ value_shape result)))"

section \<open>Acks (api.rs)\<close>

definition MAX_ACK_ERROR_CHARS :: nat where "MAX_ACK_ERROR_CHARS = 2000"
definition MAX_ERROR_CODE_CHARS :: nat where "MAX_ERROR_CODE_CHARS = 64"
definition CODE_INDETERMINATE :: string where "CODE_INDETERMINATE = ''indeterminate''"
definition CODE_NOT_RECEIVED :: string where "CODE_NOT_RECEIVED = ''not_received''"
definition REFUSED_TOO_EARLY :: string where "REFUSED_TOO_EARLY = ''too_early''"
definition PHASE_AUTHORIZED :: string where "PHASE_AUTHORIZED = ''authorized''"
definition NOT_RECEIVED_TEXT :: string where
  "NOT_RECEIVED_TEXT = ''devbridge never received this job (the next response was lost) - nothing ran''"

fun ack_job_id :: "AckRequest \<Rightarrow> int" where
  "ack_job_id (A_Done i _) = i"
| "ack_job_id (A_Failed i _ _) = i"
| "ack_job_id (A_Indeterminate i _) = i"
| "ack_job_id (A_NotReceived i) = i"
| "ack_job_id (A_Authorized i _) = i"

fun ack_kind :: "AckRequest \<Rightarrow> string" where
  "ack_kind (A_Done _ _) = ''done''"
| "ack_kind (A_Failed _ _ _) = ''failed''"
| "ack_kind (A_Indeterminate _ _) = CODE_INDETERMINATE"
| "ack_kind (A_NotReceived _) = CODE_NOT_RECEIVED"
| "ack_kind (A_Authorized _ _) = PHASE_AUTHORIZED"

definition result_object :: "json \<Rightarrow> json" where
  "result_object r = (if is_object r then r else JObj [(''value'', r)])"

definition NUL :: char where "NUL = CHR 0x00"

definition truncate_error :: "string \<Rightarrow> string" where
  "truncate_error text = concat (take MAX_ACK_ERROR_CHARS (filter (\<lambda>c. c \<noteq> [NUL]) (utf8_chars text)))"

definition ascii_in :: "nat \<Rightarrow> nat \<Rightarrow> char \<Rightarrow> bool" where
  "ascii_in a b c \<longleftrightarrow> a \<le> (of_char c :: nat) \<and> (of_char c :: nat) \<le> b"

definition code_char :: "char \<Rightarrow> bool" where
  "code_char c \<longleftrightarrow> ascii_in 97 122 c \<or> ascii_in 48 57 c \<or> c \<in> set ''_.-''"

text \<open>One character of the text to one character of the code.\<close>

definition clean_char :: "string \<Rightarrow> char" where
  "clean_char ch = (case ch of [c] \<Rightarrow> (let l = ascii_lower c in if code_char l then l else CHR ''_'') | _ \<Rightarrow> CHR ''_'')"

definition sanitize_error_code :: "string \<Rightarrow> string" where
  "sanitize_error_code code =
     (let cleaned = map clean_char (take MAX_ERROR_CODE_CHARS (utf8_chars (trim code)))
      in if cleaned = [] then ''bridge_error''
         else if cleaned = CODE_INDETERMINATE \<or> cleaned = CODE_NOT_RECEIVED then ''device_'' @ cleaned
         else cleaned)"

fun ack_params :: "AckRequest \<Rightarrow> json" where
  "ack_params (A_Done i res) = JObj [(''job_id'', JInt i), (''result'', result_object res)]"
| "ack_params (A_Failed i code text) =
     JObj [(''error'', JStr (truncate_error text)), (''error_code'', JStr (sanitize_error_code code)), (''job_id'', JInt i)]"
| "ack_params (A_Indeterminate i reason) =
     JObj [(''error'', JStr (truncate_error reason)), (''error_code'', JStr CODE_INDETERMINATE), (''job_id'', JInt i)]"
| "ack_params (A_NotReceived i) =
     JObj [(''error'', JStr NOT_RECEIVED_TEXT), (''error_code'', JStr CODE_NOT_RECEIVED), (''job_id'', JInt i)]"
| "ack_params (A_Authorized i res) =
     JObj [(''job_id'', JInt i), (''phase'', JStr PHASE_AUTHORIZED), (''result'', result_object res)]"

section \<open>Replies\<close>

record Kasa =
  ka_id :: int
  ka_name :: string

record NextReply =
  nx_job :: "DeviceJob option"
  nx_wait_s :: nat
  nx_kasy :: "Kasa list"

record PendingJob =
  pj_id :: int
  pj_job_type :: string
  pj_state :: string
  pj_client_uuid :: string
  pj_claimed_at :: string

record AckReply =
  ar_duplicate :: bool
  ar_state :: string

definition positive_id :: "json option \<Rightarrow> int option" where
  "positive_id v = (case Option.bind v as_i64 of Some i \<Rightarrow> if 0 < i then Some i else None | None \<Rightarrow> None)"

definition text_of :: "(json \<Rightarrow> string) \<Rightarrow> json option \<Rightarrow> string" where
  "text_of show_json v =
     (case v of Some (JStr s) \<Rightarrow> s | Some (JInt n) \<Rightarrow> show_json (JInt n) | Some (JFloat r) \<Rightarrow> show_json (JFloat r) | _ \<Rightarrow> [])"

definition parse_job :: "(json \<Rightarrow> string) \<Rightarrow> json \<Rightarrow> RpcError + DeviceJob" where
  "parse_job show_json v =
     (if \<not> is_object v then Inl (Protocol (''next: job is not an object ('' @ value_shape v @ '')''))
      else case positive_id (jget ''id'' v) of
        None \<Rightarrow> Inl (Protocol (''next: job without a positive id ('' @ value_shape v @ '')''))
      | Some i \<Rightarrow>
          (let kasa = (case jget ''kasa'' v of Some k \<Rightarrow> if is_object k then Some k else None | None \<Rightarrow> None)
           in Inr \<lparr>dj_id = i, dj_job_type = text_of show_json (jget ''type'' v),
                   dj_client_uuid = text_of show_json (jget ''client_uuid'' v),
                   dj_kasa_id = positive_id (Option.bind kasa (jget ''id'')),
                   dj_kasa_name = text_of show_json (Option.bind kasa (jget ''name'')),
                   dj_pos_order = (case jget ''pos_order'' v of
                       Some p \<Rightarrow> if is_object p then p else JNull | None \<Rightarrow> JNull),
                   dj_payload = (case jget ''payload'' v of Some p \<Rightarrow> p | None \<Rightarrow> JObj []),
                   dj_created_at = text_of show_json (jget ''created_at'' v),
                   dj_claimed_at = text_of show_json (jget ''claimed_at'' v)\<rparr>))"

definition parse_kasy :: "(json \<Rightarrow> string) \<Rightarrow> json option \<Rightarrow> Kasa list" where
  "parse_kasy show_json v =
     (case Option.bind v as_array of
        None \<Rightarrow> []
      | Some ks \<Rightarrow> List.map_filter (\<lambda>k. map_option (\<lambda>i. \<lparr>ka_id = i, ka_name = text_of show_json (jget ''name'' k)\<rparr>)
                     (positive_id (jget ''id'' k))) ks)"

definition parse_next :: "(json \<Rightarrow> string) \<Rightarrow> json \<Rightarrow> RpcError + NextReply" where
  "parse_next show_json v =
     (case require_ok show_json v of
        Inl e \<Rightarrow> Inl e
      | Inr result \<Rightarrow>
          (let rest = (\<lambda>job. \<lparr>nx_job = job,
                 nx_wait_s = (case Option.bind (jget ''wait_s'' result) as_u64 of None \<Rightarrow> 0 | Some n \<Rightarrow> n),
                 nx_kasy = parse_kasy show_json (jget ''kasy'' result)\<rparr>)
           in case jget ''job'' result of
                None \<Rightarrow> Inr (rest None)
              | Some j \<Rightarrow> if j = JNull then Inr (rest None)
                  else (case parse_job show_json j of Inl e \<Rightarrow> Inl e | Inr job \<Rightarrow> Inr (rest (Some job)))))"

definition parse_pending_job :: "(json \<Rightarrow> string) \<Rightarrow> json \<Rightarrow> PendingJob option" where
  "parse_pending_job show_json j =
     map_option (\<lambda>i. \<lparr>pj_id = i, pj_job_type = text_of show_json (jget ''type'' j),
         pj_state = text_of show_json (jget ''state'' j), pj_client_uuid = text_of show_json (jget ''client_uuid'' j),
         pj_claimed_at = text_of show_json (jget ''claimed_at'' j)\<rparr>) (positive_id (jget ''id'' j))"

definition parse_pending :: "(json \<Rightarrow> string) \<Rightarrow> json \<Rightarrow> RpcError + PendingJob list \<times> json list" where
  "parse_pending show_json v =
     (case require_ok show_json v of
        Inl e \<Rightarrow> Inl e
      | Inr result \<Rightarrow>
          (case Option.bind (jget ''jobs'' result) as_array of
             None \<Rightarrow> Inl (Protocol (''pending: no \"jobs\" list ('' @ value_shape result @ '')''))
           | Some js \<Rightarrow> Inr (List.map_filter (parse_pending_job show_json) js,
                            filter (\<lambda>j. parse_pending_job show_json j = None) js)))"

definition parse_ack_reply :: "(json \<Rightarrow> string) \<Rightarrow> json \<Rightarrow> RpcError + AckReply" where
  "parse_ack_reply show_json v =
     (case require_ok show_json v of
        Inl e \<Rightarrow> Inl e
      | Inr result \<Rightarrow>
          Inr \<lparr>ar_duplicate = (Option.bind (jget ''duplicate'' result) as_bool = Some True),
               ar_state = text_of show_json (Option.bind (jget ''job'' result) (jget ''state''))\<rparr>)"

text \<open>Seconds of the HTTP timeout of \<open>next\<close>; both parts in nanoseconds.\<close>

definition next_timeout :: "nat \<Rightarrow> nat \<Rightarrow> nat" where
  "next_timeout wait_s margin = wait_s * 10 ^ 9 + margin"

section \<open>Reports of LAN jobs (report_offline.rs)\<close>

record ReportReply =
  rr_job_id :: "int option"
  rr_created :: bool

definition opt_int :: "int option \<Rightarrow> json" where
  "opt_int x = (case x of None \<Rightarrow> JNull | Some n \<Rightarrow> JInt n)"

definition report_body ::
    "(instant \<Rightarrow> string) \<Rightarrow> JournalEntry \<Rightarrow> string \<Rightarrow> json \<Rightarrow> json \<Rightarrow> json" where
  "report_body executed_at e st res error =
     JObj [(''client_uuid'', JStr (dj_client_uuid (je_job e))),
           (''error'', error),
           (''executed_at'', JStr (executed_at (je_updated_at e))),
           (''job_type'', JStr (dj_job_type (je_job e))),
           (''kasa_id'', opt_int (dj_kasa_id (je_job e))),
           (''origin'', JStr ''lan''),
           (''payload'', dj_payload (je_job e)),
           (''pos_order_id'', opt_int (Option.bind (jget ''id'' (dj_pos_order (je_job e))) as_i64)),
           (''result'', res),
           (''state'', JStr st)]"

definition report_params :: "(instant \<Rightarrow> string) \<Rightarrow> LanJob \<Rightarrow> json option" where
  "report_params executed_at job =
     (let e = lj_entry job
      in case je_state e of
           J_Done \<Rightarrow> Some (report_body executed_at e ''done''
               (result_object (case je_result e of None \<Rightarrow> JNull | Some v \<Rightarrow> v)) JNull)
         | J_Failed \<Rightarrow> Some (report_body executed_at e ''failed'' JNull
               (JObj [(''code'', JStr (sanitize_error_code (case je_error_code e of None \<Rightarrow> [] | Some c \<Rightarrow> c))),
                      (''text'', JStr (truncate_error (case je_error_text e of None \<Rightarrow> [] | Some t \<Rightarrow> t)))]))
         | _ \<Rightarrow> None)"

definition parse_report_reply :: "(json \<Rightarrow> string) \<Rightarrow> json \<Rightarrow> RpcError + ReportReply" where
  "parse_report_reply show_json result =
     (let reply = (\<lambda>r. \<lparr>rr_job_id = positive_id (jget ''job_id'' r),
                        rr_created = (Option.bind (jget ''created'' r) as_bool = Some True)\<rparr>)
      in if jget ''ok'' result \<noteq> None
         then (case require_ok show_json result of Inl e \<Rightarrow> Inl e | Inr r \<Rightarrow> Inr (reply r))
         else if positive_id (jget ''job_id'' result) \<noteq> None then Inr (reply result)
         else Inl (Protocol (''report_offline result without \"ok\" and without a job_id: '' @ value_shape result)))"

section \<open>Properties of the contract\<close>

text \<open>A well-formed UTF-8 character, and a text made of such characters.\<close>

definition char_ok :: "string \<Rightarrow> bool" where
  "char_ok ch \<longleftrightarrow>
     (case ch of [] \<Rightarrow> False
      | c # cs \<Rightarrow> \<not> continuation c \<and> list_all continuation cs \<and> (cs = [] \<longleftrightarrow> (of_char c :: nat) < 0x80))"

definition utf8_ok :: "string \<Rightarrow> bool" where
  "utf8_ok s \<longleftrightarrow> list_all char_ok (utf8_chars s)"

lemma concat_utf8_chars [simp]: "concat (utf8_chars s) = s"
  by (induction s rule: utf8_chars.induct) auto

lemma takeWhile_all: "list_all P xs \<Longrightarrow> (ys = [] \<or> \<not> P (hd ys)) \<Longrightarrow> takeWhile P (xs @ ys) = xs \<and> dropWhile P (xs @ ys) = ys"
  by (induction xs) (cases ys; auto)+

lemma utf8_chars_concat: "list_all char_ok chs \<Longrightarrow> utf8_chars (concat chs) = chs"
proof (induction chs)
  case (Cons ch chs)
  then obtain c cs where ch: "ch = c # cs" "list_all continuation cs"
    by (cases ch) (auto simp: char_ok_def)
  have "concat chs = [] \<or> \<not> continuation (hd (concat chs))"
    using Cons.prems by (cases chs) (auto simp: char_ok_def split: list.splits)
  from takeWhile_all [OF ch(2) this] show ?case
    using ch(1) Cons by simp
qed simp

lemma NUL_whole_char: "char_ok ch \<Longrightarrow> NUL \<in> set ch \<Longrightarrow> ch = [NUL]"
  by (cases ch) (auto simp: char_ok_def NUL_def continuation_def list_all_iff)

text \<open>
  The error text of an ack is cut at a character, not inside one: of a UTF-8 text it keeps the
  first 2000 characters other than NUL, whole and in their order, and the result is UTF-8 again,
  with no NUL in it.
\<close>

theorem truncate_error_whole_chars:
  assumes "utf8_ok text"
  shows "utf8_chars (truncate_error text) = take 2000 (filter (\<lambda>c. c \<noteq> [NUL]) (utf8_chars text)) \<and>
    utf8_ok (truncate_error text) \<and> NUL \<notin> set (truncate_error text)"
proof -
  let ?chs = "take 2000 (filter (\<lambda>c. c \<noteq> [NUL]) (utf8_chars text))"
  have ok: "list_all char_ok ?chs" using assms by (auto simp: utf8_ok_def list_all_iff dest: in_set_takeD)
  have eq: "truncate_error text = concat ?chs" by (simp add: truncate_error_def MAX_ACK_ERROR_CHARS_def)
  have "NUL \<notin> set (concat ?chs)"
    using assms NUL_whole_char by (force simp: utf8_ok_def list_all_iff dest!: in_set_takeD)
  with ok utf8_chars_concat [OF ok] show ?thesis by (simp add: eq utf8_ok_def)
qed

theorem truncate_error_whole_chars_witness:
  "utf8_chars (truncate_error [CHR ''a'', NUL, CHR 0xC4, CHR 0x8D]) = [[CHR ''a''], [CHR 0xC4, CHR 0x8D]]"
proof -
  have "utf8_ok [CHR ''a'', NUL, CHR 0xC4, CHR 0x8D]" by code_simp
  then have "utf8_chars (truncate_error [CHR ''a'', NUL, CHR 0xC4, CHR 0x8D]) =
      take 2000 (filter (\<lambda>c. c \<noteq> [NUL]) (utf8_chars [CHR ''a'', NUL, CHR 0xC4, CHR 0x8D]))"
    using truncate_error_whole_chars by blast
  also have "\<dots> = [[CHR ''a''], [CHR 0xC4, CHR 0x8D]]" by (simp add: continuation_def NUL_def)
  finally show ?thesis .
qed

lemma clean_char_code: "code_char (clean_char ch)"
proof -
  have "code_char (CHR ''_'')" by (simp add: code_char_def)
  then show ?thesis by (auto simp: clean_char_def Let_def split: list.splits)
qed

lemma sanitized_code:
  "list_all code_char (sanitize_error_code code) \<and> 1 \<le> length (sanitize_error_code code) \<and>
   length (sanitize_error_code code) \<le> 64 \<and>
   sanitize_error_code code \<noteq> CODE_INDETERMINATE \<and> sanitize_error_code code \<noteq> CODE_NOT_RECEIVED"
proof -
  define cleaned where "cleaned = map clean_char (take MAX_ERROR_CODE_CHARS (utf8_chars (trim code)))"
  have chars: "list_all code_char cleaned" by (simp add: cleaned_def list_all_iff clean_char_code)
  have len: "length cleaned \<le> 64" by (simp add: cleaned_def MAX_ERROR_CODE_CHARS_def)
  have fixed: "list_all code_char (''device_'' @ CODE_INDETERMINATE)" "list_all code_char (''device_'' @ CODE_NOT_RECEIVED)"
    "list_all code_char ''bridge_error''"
    by (simp_all add: code_char_def ascii_in_def CODE_INDETERMINATE_def CODE_NOT_RECEIVED_def)
  have eq: "sanitize_error_code code =
      (if cleaned = [] then ''bridge_error''
       else if cleaned = CODE_INDETERMINATE \<or> cleaned = CODE_NOT_RECEIVED then ''device_'' @ cleaned else cleaned)"
    by (simp add: sanitize_error_code_def cleaned_def Let_def)
  show ?thesis
    unfolding eq using chars len fixed
    by (cases cleaned) (auto simp: CODE_INDETERMINATE_def CODE_NOT_RECEIVED_def)
qed

text \<open>
  C33. The error code of an ack to Odoo, whatever an executor gave: a \<open>done\<close> or \<open>authorized\<close> ack has none, every
  other one has a code the contract allows (1 to 64 characters out of \<open>a-z 0-9 _ . -\<close>), and the code says
  "outcome unknown" exactly for an indeterminate job and "never received" exactly for a job that was
  never received, so a final failure cannot be read as either.
\<close>

theorem ack_code_in_contract:
  "case jget ''error_code'' (ack_params a) of
     None \<Rightarrow> (\<exists>i res. a = A_Done i res \<or> a = A_Authorized i res)
   | Some v \<Rightarrow> (\<exists>code. v = JStr code \<and> list_all code_char code \<and> 1 \<le> length code \<and> length code \<le> 64 \<and>
       (code = CODE_INDETERMINATE \<longleftrightarrow> (\<exists>i reason. a = A_Indeterminate i reason)) \<and>
       (code = CODE_NOT_RECEIVED \<longleftrightarrow> (\<exists>i. a = A_NotReceived i)))"
proof -
  have "list_all code_char CODE_INDETERMINATE" "list_all code_char CODE_NOT_RECEIVED"
    by (simp_all add: code_char_def ascii_in_def CODE_INDETERMINATE_def CODE_NOT_RECEIVED_def)
  moreover have "CODE_INDETERMINATE \<noteq> CODE_NOT_RECEIVED" "length CODE_INDETERMINATE = 13" "length CODE_NOT_RECEIVED = 12"
    by (simp_all add: CODE_INDETERMINATE_def CODE_NOT_RECEIVED_def)
  ultimately show ?thesis
    by (cases a) (use sanitized_code in \<open>auto simp: jget_def\<close>)
qed

text \<open>A job that \<open>next\<close> hands out has a positive id, so it never names a LAN job.\<close>

lemma positive_id_pos: "positive_id v = Some i \<Longrightarrow> 0 < i"
  by (auto simp: positive_id_def split: option.splits if_splits)

lemma parse_job_id: "parse_job show_json v = Inr job \<Longrightarrow> 0 < dj_id job"
  by (auto simp: parse_job_def Let_def split: if_splits option.splits dest: positive_id_pos)

lemma parse_next_id: "parse_next show_json v = Inr r \<Longrightarrow> nx_job r = Some job \<Longrightarrow> 0 < dj_id job"
  by (auto simp: parse_next_def Let_def split: sum.splits option.splits if_splits dest: parse_job_id)

lemma parse_pending_job_id: "parse_pending_job show_json j = Some p \<Longrightarrow> 0 < pj_id p"
  using positive_id_pos by (fastforce simp: parse_pending_job_def)

lemma parse_pending_id: "parse_pending show_json v = Inr (js, rest) \<Longrightarrow> p \<in> set js \<Longrightarrow> 0 < pj_id p"
  by (auto simp: parse_pending_def mem_map_filter split: sum.splits option.splits dest!: parse_pending_job_id)

end
