(* ===== verification/Device_Source.thy ===== *)
theory Device_Source
  imports Device_Api
begin

text \<open>
  The device-job source of \<open>crates/devbridge-client/src/device_jobs\<close>: the executor registry
  and the checks before a job is journaled (\<open>executor.rs\<close>), the control loop with \<open>next\<close> and
  \<open>pending\<close> (\<open>mod.rs\<close>), the device workers, the reconciler, the ack sender and the report sender
  (\<open>tasks.rs\<close>), and the door of the LAN API (\<open>lan.rs\<close>).

  A device executor is a record of its pure answers; what the device did with a job is an argument
  of the step in which the call returns. The worker of a device awaits at an executor call, so its
  \<open>execute_job\<close> and \<open>reconcile_job\<close> are split there: one definition per stretch of code between two
  awaits, the position in between is the worker's \<open>worker_pc\<close>. The answers of Odoo are arguments.
  Durations and monotonic instants are in nanoseconds.
\<close>

section \<open>Executors (executor.rs)\<close>

datatype DeviceKind = Fiscal | Card

definition ALL_KINDS :: "DeviceKind list" where
  "ALL_KINDS = [Fiscal, Card]"

definition for_job_type :: "string \<Rightarrow> DeviceKind option" where
  "for_job_type t =
     (if starts_with ''fiscal.'' t then Some Fiscal else if starts_with ''card.'' t then Some Card else None)"

fun kind_text :: "DeviceKind \<Rightarrow> string" where
  "kind_text Fiscal = ''fiscal''"
| "kind_text Card = ''card''"

fun status_key :: "DeviceKind \<Rightarrow> string" where
  "status_key Fiscal = ''portos''"
| "status_key Card = ''terminal''"

record DeviceQueue =
  dq_kind :: DeviceKind
  dq_endpoint :: string

definition queue_text :: "DeviceQueue \<Rightarrow> string" where
  "queue_text q = (if dq_endpoint q = [] then kind_text (dq_kind q) else kind_text (dq_kind q) @ ''@'' @ dq_endpoint q)"

definition outcome_label :: "Outcome \<Rightarrow> string" where
  "outcome_label oc = (case oc of O_Done _ \<Rightarrow> ''done'' | O_Failed _ _ \<Rightarrow> ''failed'' | O_Indeterminate _ \<Rightarrow> ''indeterminate'')"

datatype Reconciliation =
    R_Done json
  | R_Failed string string
  | R_StillUnknown string

text \<open>The answers of a \<open>DeviceExecutor\<close> that contact no device.\<close>

record DeviceExecutor =
  ex_kind :: DeviceKind
  ex_name :: string
  ex_status :: string
  ex_check :: "DeviceJob \<Rightarrow> (string \<times> string) option"
  ex_endpoints :: "string list"
  ex_endpoint :: "DeviceJob \<Rightarrow> string"

type_synonym ExecutorRegistry = "DeviceKind \<Rightarrow> DeviceExecutor option"

definition register :: "DeviceExecutor \<Rightarrow> ExecutorRegistry \<Rightarrow> string + ExecutorRegistry" where
  "register ex reg =
     (case reg (ex_kind ex) of
        Some existing \<Rightarrow> Inl (''two executors for the '' @ kind_text (ex_kind ex) @ '' device: '' @
                              ex_name existing @ '' and '' @ ex_name ex)
      | None \<Rightarrow> Inr (reg(ex_kind ex \<mapsto> ex)))"

definition registry_kinds :: "ExecutorRegistry \<Rightarrow> DeviceKind list" where
  "registry_kinds reg = filter (\<lambda>k. reg k \<noteq> None) ALL_KINDS"

definition registry_queues :: "ExecutorRegistry \<Rightarrow> DeviceQueue list" where
  "registry_queues reg =
     concat (map (\<lambda>k. map (\<lambda>e. \<lparr>dq_kind = k, dq_endpoint = e\<rparr>) (ex_endpoints (the (reg k)))) (registry_kinds reg))"

definition queue_of :: "ExecutorRegistry \<Rightarrow> DeviceJob \<Rightarrow> DeviceQueue option" where
  "queue_of reg job =
     (case for_job_type (dj_job_type job) of
        None \<Rightarrow> None
      | Some kind \<Rightarrow> map_option (\<lambda>ex. \<lparr>dq_kind = kind, dq_endpoint = ex_endpoint ex job\<rparr>) (reg kind))"

definition device_status :: "ExecutorRegistry \<Rightarrow> string" where
  "device_status reg =
     join ''; '' (map (\<lambda>k. status_key k @ ''='' @ (case reg k of None \<Rightarrow> ''none'' | Some ex \<Rightarrow> ex_status ex)) ALL_KINDS)"

definition CODE_UNSUPPORTED :: string where "CODE_UNSUPPORTED = ''unsupported''"
definition CODE_BAD_AMOUNT :: string where "CODE_BAD_AMOUNT = ''bad_amount''"
definition CODE_EXPIRED_LOCAL :: string where "CODE_EXPIRED_LOCAL = ''expired_local''"

definition quoted :: "string \<Rightarrow> string" where
  "quoted s = [CHR 0x27] @ s @ [CHR 0x27]"

definition validate :: "ExecutorRegistry \<Rightarrow> DeviceJob \<Rightarrow> (string \<times> string) + DeviceKind" where
  "validate reg job =
     (if dj_job_type job = ''card.purchase'' \<and>
         \<not> (case jget ''amount'' (dj_payload job) of None \<Rightarrow> False | Some a \<Rightarrow> positive_number a)
      then Inl (CODE_BAD_AMOUNT,
        ''card.purchase amount must be a finite number > 0 - the terminal was not contacted, nothing ran'')
      else case for_job_type (dj_job_type job) of
        None \<Rightarrow> Inl (CODE_UNSUPPORTED, ''devbridge has no executor for job type '' @ quoted (dj_job_type job) @
                     '' - no device was contacted, nothing ran'')
      | Some kind \<Rightarrow>
          (case reg kind of
             None \<Rightarrow> Inl (CODE_UNSUPPORTED, ''devbridge has no executor for job type '' @ quoted (dj_job_type job) @
                     '' - no device was contacted, nothing ran'')
           | Some ex \<Rightarrow> (case ex_check ex job of Some rej \<Rightarrow> Inl rej | None \<Rightarrow> Inr kind)))"

section \<open>Timing (mod.rs, tasks.rs)\<close>

record Timing =
  tm_short_poll_sleep :: nat
  tm_min_long_poll :: nat
  tm_pending_retry :: nat
  tm_execute_guard :: nat
  tm_max_queue_wait :: nat
  tm_lan_answer_wait :: nat
  tm_backoff_base :: nat
  tm_backoff_max :: nat

definition secs :: "nat \<Rightarrow> nat" where "secs n = n * 10 ^ 9"

definition Timing_default :: Timing where
  "Timing_default =
     \<lparr>tm_short_poll_sleep = 1500 * 10 ^ 6, tm_min_long_poll = secs 1, tm_pending_retry = secs 15,
      tm_execute_guard = secs 240, tm_max_queue_wait = secs 120, tm_lan_answer_wait = secs 90,
      tm_backoff_base = secs 1, tm_backoff_max = secs 30\<rparr>"

definition delay_after_next :: "NextReply \<Rightarrow> nat \<Rightarrow> Timing \<Rightarrow> nat" where
  "delay_after_next reply elapsed tm =
     (if nx_job reply \<noteq> None then 0
      else if nx_wait_s reply = 0 \<or> elapsed < tm_min_long_poll tm then tm_short_poll_sleep tm
      else 0)"

definition pending_due_after :: "bool \<Rightarrow> nat \<Rightarrow> Timing \<Rightarrow> nat option" where
  "pending_due_after retry_later now tm = (if retry_later then Some (now + tm_pending_retry tm) else None)"

definition pending_round_due :: "nat option \<Rightarrow> nat \<Rightarrow> bool" where
  "pending_round_due due now = (case due of None \<Rightarrow> False | Some t \<Rightarrow> t \<le> now)"

text \<open>\<open>saturating_duration_since\<close>: natural subtraction.\<close>

definition queue_wait_exceeded :: "nat \<Rightarrow> nat \<Rightarrow> nat \<Rightarrow> bool" where
  "queue_wait_exceeded queued_at now max_wait \<longleftrightarrow> max_wait < now - queued_at"

record Backoff =
  bo_base :: nat
  bo_max :: nat
  bo_current :: nat

definition Backoff_new :: "nat \<Rightarrow> nat \<Rightarrow> Backoff" where
  "Backoff_new b m = \<lparr>bo_base = b, bo_max = m, bo_current = b\<rparr>"

definition next_delay :: "Backoff \<Rightarrow> nat \<times> Backoff" where
  "next_delay b = (let now = min (bo_current b) (bo_max b) in (now, b\<lparr>bo_current := min (now * 2) (bo_max b)\<rparr>))"

definition Backoff_reset :: "Backoff \<Rightarrow> Backoff" where
  "Backoff_reset b = b\<lparr>bo_current := bo_base b\<rparr>"

definition heartbeat_due :: "(string \<times> nat) option \<Rightarrow> string \<Rightarrow> nat \<Rightarrow> nat \<Rightarrow> bool" where
  "heartbeat_due prev status interval now =
     (case prev of None \<Rightarrow> True | Some (sent, since) \<Rightarrow> sent \<noteq> status \<or> interval \<le> now - since)"

section \<open>The running source\<close>

datatype WorkItem =
    Execute int nat           \<comment> \<open>job id, when it was queued\<close>
  | Reconcile int

text \<open>A call an executor is running: a job, or the question what became of one.\<close>

datatype device_call = Run int | Ask int

text \<open>Where a device worker stands.\<close>

datatype worker_pc =
    W_Idle
  | W_Loaded JournalEntry nat      \<comment> \<open>the journal row of a job to execute is read\<close>
  | W_Running DeviceJob            \<comment> \<open>the executor runs it, within the guard time\<close>
  | W_Overdue DeviceJob            \<comment> \<open>the guard time is over, the call is still awaited\<close>
  | W_Asking JournalEntry          \<comment> \<open>the executor is asked about an indeterminate job\<close>
  | W_Gone                         \<comment> \<open>the worker task has ended\<close>

text \<open>
  \<open>Shared\<close>, the channels and the workers. \<open>so_calls\<close> are the executor calls running on the devices,
  \<open>so_log\<close> records every call of \<open>execute\<close> ever made, over all runs of the program.
\<close>

record source =
  so_journal :: journal
  so_queues :: "DeviceQueue \<Rightarrow> WorkItem list option"
  so_workers :: "DeviceQueue \<Rightarrow> worker_pc"
  so_reconciling :: "int set"
  so_acks_due :: bool
  so_reports_due :: bool
  so_outcomes :: nat
  so_calls :: "(DeviceQueue \<times> device_call) list"
  so_log :: "(DeviceQueue \<times> int) list"

definition on_journal :: "(journal, 'a) op \<Rightarrow> (source, 'a) op" where
  "on_journal m = zoom_op so_journal (\<lambda>j s. s\<lparr>so_journal := j\<rparr>) m"

definition ack_soon :: "source \<Rightarrow> source" where
  "ack_soon s = s\<lparr>so_acks_due := True\<rparr>"

definition outcome_recorded :: "source \<Rightarrow> source" where
  "outcome_recorded s = (ack_soon s)\<lparr>so_reports_due := True, so_outcomes := so_outcomes s + 1\<rparr>"

definition queue_for :: "ExecutorRegistry \<Rightarrow> source \<Rightarrow> DeviceJob \<Rightarrow> DeviceQueue option" where
  "queue_for reg s job =
     (case queue_of reg job of None \<Rightarrow> None | Some q \<Rightarrow> if so_queues s q \<noteq> None then Some q else None)"

text \<open>\<open>UnboundedSender::send\<close> fails when the receiver is gone.\<close>

definition send_item :: "DeviceQueue \<Rightarrow> WorkItem \<Rightarrow> (source, bool) op" where
  "send_item q item s =
     (if so_workers s q = W_Gone then (Inr False, s)
      else (Inr True, s\<lparr>so_queues := (so_queues s)(q := map_option (\<lambda>items. items @ [item]) (so_queues s q))\<rparr>))"

definition queue_item :: "ExecutorRegistry \<Rightarrow> DeviceJob \<Rightarrow> WorkItem \<Rightarrow> (source, bool) op" where
  "queue_item reg job item s = (case queue_for reg s job of None \<Rightarrow> (Inr False, s) | Some q \<Rightarrow> send_item q item s)"

definition start_reconcile :: "int \<Rightarrow> (source, bool) op" where
  "start_reconcile job_id s =
     (Inr (job_id \<notin> so_reconciling s), s\<lparr>so_reconciling := insert job_id (so_reconciling s)\<rparr>)"

definition reconcile_done :: "int \<Rightarrow> source \<Rightarrow> source" where
  "reconcile_done job_id s = s\<lparr>so_reconciling := so_reconciling s - {job_id}\<rparr>"

section \<open>A job from next (mod.rs)\<close>

definition accept_job ::
    "(instant \<Rightarrow> string) \<Rightarrow> ExecutorRegistry \<Rightarrow> instant \<Rightarrow> nat \<Rightarrow> DeviceJob \<Rightarrow> (source, unit) op" where
  "accept_job ts reg now t job =
     (let job_id = dj_id job; verdict = validate reg job
      in try_op (on_journal (case verdict of
             Inr _ \<Rightarrow> insert_received ts now job
           | Inl (code, text) \<Rightarrow> insert_refused ts now job code text)) (\<lambda>inserted.
         case inserted of
           I_Known known \<Rightarrow> try_op (on_journal (reopen_ack now job_id)) (\<lambda>_. modify_op ack_soon)
         | I_New \<Rightarrow>
             (case verdict of
                Inr kind \<Rightarrow>
                  try_op (queue_item reg job (Execute job_id t)) (\<lambda>queued.
                  if queued then ok ()
                  else try_op (on_journal (record_outcome now job_id (O_Failed ''bridge_error''
                           (''the devbridge '' @ kind_text kind @ '' worker is not running - nothing ran''))))
                         (\<lambda>_. modify_op outcome_recorded))
              | Inl _ \<Rightarrow> modify_op outcome_recorded)))"

text \<open>The answer to one pending job the journal does not know; \<open>Inr True\<close>: ask again later.\<close>

definition ack_not_received :: "(AckRequest \<Rightarrow> RpcError + AckReply) \<Rightarrow> int \<Rightarrow> RpcError + bool" where
  "ack_not_received odoo job_id =
     (case odoo (A_NotReceived job_id) of
        Inr reply \<Rightarrow> Inr False
      | Inl e \<Rightarrow>
          if refusal_code e = Some REFUSED_TOO_EARLY then Inr True
          else if \<not> is_retryable e then Inr False
          else (case e of Transport _ \<Rightarrow> Inl e | _ \<Rightarrow> Inr True))"

text \<open>
  One round over the jobs \<open>pending\<close> listed: \<open>Inl\<close> is a journal error, \<open>Inr (Inl e)\<close> the transport
  error that ended the round.
\<close>

fun pending_loop ::
    "(instant \<Rightarrow> string) \<Rightarrow> (AckRequest \<Rightarrow> RpcError + AckReply) \<Rightarrow> instant \<Rightarrow> PendingJob list \<Rightarrow> bool \<Rightarrow>
     (source, RpcError + bool) op" where
  "pending_loop ts odoo now [] retry_later = try_op (modify_op ack_soon) (\<lambda>_. ok (Inr retry_later))"
| "pending_loop ts odoo now (p # ps) retry_later =
     try_op (on_journal (journal_get ts (pj_id p))) (\<lambda>known.
       case known of
         Some _ \<Rightarrow> try_op (on_journal (reopen_ack now (pj_id p))) (\<lambda>_. pending_loop ts odoo now ps retry_later)
       | None \<Rightarrow>
           (case ack_not_received odoo (pj_id p) of
              Inl e \<Rightarrow> ok (Inl e)
            | Inr again \<Rightarrow> pending_loop ts odoo now ps (retry_later \<or> again)))"

definition pending_pass ::
    "(instant \<Rightarrow> string) \<Rightarrow> (AckRequest \<Rightarrow> RpcError + AckReply) \<Rightarrow> instant \<Rightarrow>
     RpcError + PendingJob list \<times> json list \<Rightarrow> (source, RpcError + bool) op" where
  "pending_pass ts odoo now listed =
     (case listed of Inl e \<Rightarrow> ok (Inl e) | Inr (jobs, skipped) \<Rightarrow> pending_loop ts odoo now jobs False)"

section \<open>The device workers (tasks.rs)\<close>

definition set_worker :: "DeviceQueue \<Rightarrow> worker_pc \<Rightarrow> source \<Rightarrow> source" where
  "set_worker q pc s = s\<lparr>so_workers := (so_workers s)(q := pc)\<rparr>"

definition call_device :: "DeviceQueue \<Rightarrow> device_call \<Rightarrow> source \<Rightarrow> source" where
  "call_device q c s =
     s\<lparr>so_calls := so_calls s @ [(q, c)],
       so_log := (case c of Run k \<Rightarrow> so_log s @ [(q, k)] | Ask _ \<Rightarrow> so_log s)\<rparr>"

definition call_returned :: "DeviceQueue \<Rightarrow> device_call \<Rightarrow> source \<Rightarrow> source" where
  "call_returned q c s = s\<lparr>so_calls := remove1 (q, c) (so_calls s)\<rparr>"

text \<open>
  \<open>rx.recv()\<close> and the first read of the journal: by \<open>execute_job\<close> for a job to run, by
  \<open>reconcile_job\<close> for a job to ask about.
\<close>

definition worker_recv :: "(instant \<Rightarrow> string) \<Rightarrow> DeviceQueue \<Rightarrow> source \<Rightarrow> source" where
  "worker_recv ts q s =
     (case so_queues s q of
        Some (Execute job_id queued_at # items) \<Rightarrow>
          (case on_journal (journal_get ts job_id) (s\<lparr>so_queues := (so_queues s)(q \<mapsto> items)\<rparr>) of
             (Inr (Some entry), s') \<Rightarrow> set_worker q (W_Loaded entry queued_at) s'
           | (_, s') \<Rightarrow> s')
      | Some (Reconcile job_id # items) \<Rightarrow>
          (case on_journal (journal_get ts job_id) (s\<lparr>so_queues := (so_queues s)(q \<mapsto> items)\<rparr>) of
             (Inr (Some entry), s') \<Rightarrow>
               if je_state entry = J_Indeterminate
               then call_device q (Ask job_id) (set_worker q (W_Asking entry) s')
               else reconcile_done job_id s'
           | (_, s') \<Rightarrow> reconcile_done job_id s')
      | _ \<Rightarrow> s)"

definition expired_text :: "Timing \<Rightarrow> DeviceQueue \<Rightarrow> nat \<Rightarrow> nat \<Rightarrow> string" where
  "expired_text tm q queued_at t =
     ''the job waited '' @ nat_digits ((t - queued_at) div 10 ^ 6) @ '' ms in the devbridge queue of '' @
     queue_text q @ '' (max '' @ nat_digits (tm_max_queue_wait tm div 10 ^ 6) @
     '' ms) - the device was not contacted, nothing ran''"

definition execute_start :: "Timing \<Rightarrow> instant \<Rightarrow> nat \<Rightarrow> DeviceQueue \<Rightarrow> source \<Rightarrow> source" where
  "execute_start tm now t q s =
     (case so_workers s q of
        W_Loaded entry queued_at \<Rightarrow>
          (let job_id = dj_id (je_job entry)
           in if queue_wait_exceeded queued_at t (tm_max_queue_wait tm)
              then (case on_journal (fail_unstarted now job_id CODE_EXPIRED_LOCAL (expired_text tm q queued_at t))
                           (set_worker q W_Idle s) of
                      (Inl _, s') \<Rightarrow> s'
                    | (Inr _, s') \<Rightarrow> outcome_recorded s')
              else (case on_journal (start_execution now job_id) (set_worker q W_Idle s) of
                      (Inr True, s') \<Rightarrow> call_device q (Run job_id) (set_worker q (W_Running (je_job entry)) s')
                    | (_, s') \<Rightarrow> s'))
      | _ \<Rightarrow> s)"

definition guard_text :: "Timing \<Rightarrow> DeviceQueue \<Rightarrow> string" where
  "guard_text tm q =
     ''no answer from the '' @ kind_text (dq_kind q) @ '' device within '' @
     nat_digits (tm_execute_guard tm div 10 ^ 9) @ '' s - outcome unknown, reconciled with the device''"

text \<open>For evaluation the divisions run on binary integers.\<close>

lemma guard_text_code [code]:
  "guard_text tm q =
     ''no answer from the '' @ kind_text (dq_kind q) @ '' device within '' @
     nat_digits (nat (int (tm_execute_guard tm) div 10 ^ 9)) @ '' s - outcome unknown, reconciled with the device''"
proof -
  have "nat (int (tm_execute_guard tm) div 10 ^ 9) = tm_execute_guard tm div 10 ^ 9"
    by (simp add: nat_div_distrib)
  then show ?thesis by (simp only: guard_text_def)
qed

text \<open>The guard time is over: the job is reported indeterminate, the call is awaited on.\<close>

definition execute_guard :: "Timing \<Rightarrow> instant \<Rightarrow> DeviceQueue \<Rightarrow> source \<Rightarrow> source" where
  "execute_guard tm now q s =
     (case so_workers s q of
        W_Running job \<Rightarrow>
          (case on_journal (record_outcome now (dj_id job) (O_Indeterminate (guard_text tm q))) s of
             (Inl _, s') \<Rightarrow> set_worker q W_Idle s'
           | (Inr _, s') \<Rightarrow> set_worker q (W_Overdue job) (outcome_recorded s'))
      | _ \<Rightarrow> s)"

text \<open>A task that ended with an outcome, or with a panic.\<close>

definition outcome_of :: "string + Outcome \<Rightarrow> Outcome" where
  "outcome_of joined = (case joined of Inr oc \<Rightarrow> oc | Inl e \<Rightarrow> O_Indeterminate (''executor failed mid-job: '' @ e))"

definition awaited_job :: "worker_pc \<Rightarrow> DeviceJob option" where
  "awaited_job pc = (case pc of W_Running job \<Rightarrow> Some job | W_Overdue job \<Rightarrow> Some job | _ \<Rightarrow> None)"

definition execute_return :: "instant \<Rightarrow> DeviceQueue \<Rightarrow> string + Outcome \<Rightarrow> source \<Rightarrow> source" where
  "execute_return now q joined s =
     (case awaited_job (so_workers s q) of
        None \<Rightarrow> s
      | Some job \<Rightarrow>
          (case on_journal (record_outcome now (dj_id job) (outcome_of joined))
                  (call_returned q (Run (dj_id job)) (set_worker q W_Idle s)) of
             (Inl _, s') \<Rightarrow> s'
           | (Inr _, s') \<Rightarrow> outcome_recorded s'))"

definition reconciliation_of :: "string + Reconciliation \<Rightarrow> Reconciliation" where
  "reconciliation_of joined =
     (case joined of Inr a \<Rightarrow> a | Inl e \<Rightarrow> R_StillUnknown (''reconcile failed: '' @ e))"

definition record_answer :: "instant \<Rightarrow> int \<Rightarrow> Reconciliation \<Rightarrow> (journal, bool) op" where
  "record_answer now job_id answer =
     (case answer of
        R_Done result \<Rightarrow> record_outcome now job_id (O_Done result)
      | R_Failed code text \<Rightarrow> record_outcome now job_id (O_Failed code text)
      | R_StillUnknown reason \<Rightarrow> record_still_unknown now job_id reason)"

definition reconcile_return :: "instant \<Rightarrow> DeviceQueue \<Rightarrow> string + Reconciliation \<Rightarrow> source \<Rightarrow> source" where
  "reconcile_return now q joined s =
     (case so_workers s q of
        W_Asking entry \<Rightarrow>
          (let job_id = dj_id (je_job entry)
           in case on_journal (record_answer now job_id (reconciliation_of joined))
                     (call_returned q (Ask job_id) (set_worker q W_Idle s)) of
                (Inl _, s') \<Rightarrow> reconcile_done job_id s'
              | (Inr _, s') \<Rightarrow> reconcile_done job_id (outcome_recorded s'))
      | _ \<Rightarrow> s)"

section \<open>The reconciler\<close>

definition unreconcilable_notice_due :: "JournalEntry \<Rightarrow> bool" where
  "unreconcilable_notice_due e \<longleftrightarrow>
     (if is_lan_job (dj_id (je_job e)) then je_reconcile_attempts e = 0 else je_report e = Report_None)"

definition UNRECONCILABLE_TEXT :: string where
  "UNRECONCILABLE_TEXT = ''no executor for this device is configured - reconcile it on the device by hand''"

definition schedule_one :: "ExecutorRegistry \<Rightarrow> instant \<Rightarrow> JournalEntry \<Rightarrow> (source, unit) op" where
  "schedule_one reg now entry s =
     (let job_id = dj_id (je_job entry)
      in case queue_for reg s (je_job entry) of
           Some q \<Rightarrow>
             try_op (start_reconcile job_id) (\<lambda>mine.
               if mine then try_op (send_item q (Reconcile job_id)) (\<lambda>_. ok ()) else ok ()) s
         | None \<Rightarrow>
             if unreconcilable_notice_due entry
             then try_op (on_journal (record_still_unknown now job_id UNRECONCILABLE_TEXT))
                    (\<lambda>_. modify_op outcome_recorded) s
             else ok () s)"

definition schedule_reconciles ::
    "(instant \<Rightarrow> string) \<Rightarrow> ExecutorRegistry \<Rightarrow> instant \<Rightarrow> (source, unit) op" where
  "schedule_reconciles ts reg now =
     try_op (on_journal (indeterminate ts)) (\<lambda>entries. for_op entries (schedule_one reg now))"

section \<open>Acks and reports\<close>

definition mark_accepted :: "instant \<Rightarrow> AckRequest \<Rightarrow> string \<Rightarrow> (journal, unit) op" where
  "mark_accepted now ack note =
     try_op (case ack of
         A_Indeterminate job_id _ \<Rightarrow> mark_reported now job_id
       | A_Authorized job_id _ \<Rightarrow> mark_card_auth_acked job_id note
       | other \<Rightarrow> mark_acked now (ack_job_id other) note) (\<lambda>_. ok ())"

definition accepted_note :: "AckReply \<Rightarrow> string" where
  "accepted_note reply = (if ar_duplicate reply then ''duplicate'' else ''ok'')"

text \<open>Odoo's answer to one ack; the error that is kept for the round, if any.\<close>

definition ack_answered :: "instant \<Rightarrow> AckRequest \<Rightarrow> RpcError + AckReply \<Rightarrow> (journal, RpcError option) op" where
  "ack_answered now ack answer =
     (case answer of
        Inr reply \<Rightarrow> try_op (mark_accepted now ack (accepted_note reply)) (\<lambda>_. ok None)
      | Inl e \<Rightarrow>
          if \<not> is_retryable e
          then try_op (mark_accepted now ack (''refused: '' @ rpc_display e)) (\<lambda>_. ok None)
          else ok (Some e))"

definition is_transport :: "RpcError \<Rightarrow> bool" where
  "is_transport e = (case e of Transport _ \<Rightarrow> True | _ \<Rightarrow> False)"

text \<open>The round ends at the first transport error; the first other error is its result.\<close>

fun flush_loop ::
    "(AckRequest \<Rightarrow> RpcError + AckReply) \<Rightarrow> instant \<Rightarrow> AckRequest list \<Rightarrow> RpcError option \<Rightarrow>
     (journal, RpcError option) op" where
  "flush_loop odoo now [] first_error = ok first_error"
| "flush_loop odoo now (a # acks) first_error =
     try_op (ack_answered now a (odoo a)) (\<lambda>kept.
       case kept of
         None \<Rightarrow> flush_loop odoo now acks first_error
       | Some e \<Rightarrow>
           if is_transport e then ok (Some e)
           else flush_loop odoo now acks (case first_error of None \<Rightarrow> Some e | Some f \<Rightarrow> Some f))"

definition flush_acks :: "(AckRequest \<Rightarrow> RpcError + AckReply) \<Rightarrow> instant \<Rightarrow> (journal, RpcError option) op" where
  "flush_acks odoo now = try_op owed_acks (\<lambda>acks. flush_loop odoo now acks None)"

definition report_note :: "ReportReply \<Rightarrow> string" where
  "report_note reply = (if rr_created reply then ''created'' else ''existing'')"

definition lan_job_id_of :: "LanJob \<Rightarrow> int" where
  "lan_job_id_of l = dj_id (je_job (lj_entry l))"

definition report_answered :: "LanJob \<Rightarrow> RpcError + ReportReply \<Rightarrow> (journal, RpcError option) op" where
  "report_answered job answer =
     (case answer of
        Inr reply \<Rightarrow>
          try_op (mark_lan_reported (lan_job_id_of job) (rr_job_id reply) (report_note reply)) (\<lambda>_. ok None)
      | Inl e \<Rightarrow>
          if \<not> is_retryable e
          then try_op (mark_lan_reported (lan_job_id_of job) None (''refused: '' @ rpc_display e)) (\<lambda>_. ok None)
          else ok (Some e))"

fun report_loop ::
    "(instant \<Rightarrow> string) \<Rightarrow> (json \<Rightarrow> RpcError + ReportReply) \<Rightarrow> LanJob list \<Rightarrow> RpcError option \<Rightarrow>
     (journal, RpcError option) op" where
  "report_loop executed_at odoo [] first_error = ok first_error"
| "report_loop executed_at odoo (job # jobs) first_error =
     (case report_params executed_at job of
        None \<Rightarrow> report_loop executed_at odoo jobs first_error
      | Some params \<Rightarrow>
          try_op (report_answered job (odoo params)) (\<lambda>kept.
            case kept of
              None \<Rightarrow> report_loop executed_at odoo jobs first_error
            | Some e \<Rightarrow>
                if is_transport e then ok (Some e)
                else report_loop executed_at odoo jobs (case first_error of None \<Rightarrow> Some e | Some f \<Rightarrow> Some f)))"

definition flush_reports ::
    "(instant \<Rightarrow> string) \<Rightarrow> (instant \<Rightarrow> string) \<Rightarrow> (json \<Rightarrow> RpcError + ReportReply) \<Rightarrow> (journal, RpcError option) op" where
  "flush_reports ts executed_at odoo = try_op (owed_lan_reports ts) (\<lambda>jobs. report_loop executed_at odoo jobs None)"

section \<open>Starting the source\<close>

text \<open>
  \<open>DeviceJobSource::run\<close> up to the control loop, on a journal an earlier process left: jobs in
  flight become indeterminate (an error ends the start), old rows are pruned (an error is logged),
  every device gets an empty queue and an idle worker.
\<close>

definition source_run :: "ExecutorRegistry \<Rightarrow> instant \<Rightarrow> journal \<Rightarrow> (DeviceQueue \<times> int) list \<Rightarrow> (err + source)" where
  "source_run reg now j calls_made =
     (case recover_after_restart now j of
        (Inl e, _) \<Rightarrow> Inl e
      | (Inr _, j1) \<Rightarrow>
          Inr \<lparr>so_journal = snd (prune now j1),
               so_queues = (\<lambda>q. if q \<in> set (registry_queues reg) then Some [] else None),
               so_workers = (\<lambda>q. if q \<in> set (registry_queues reg) then W_Idle else W_Gone),
               so_reconciling = {}, so_acks_due = False, so_reports_due = False, so_outcomes = 0,
               so_calls = [], so_log = calls_made\<rparr>)"

end
