(* ===== verification/Lan_Jobs.thy ===== *)
theory Lan_Jobs
  imports Device_Source
begin

text \<open>
  The door of the tills' LAN API into the device-job source (\<open>device_jobs/lan.rs\<close>). \<open>submit\<close> waits
  between \<open>admit\<close> and its answer; the waiting loop is one read per iteration (\<open>settled_read\<close>).
\<close>

record LanRequest =
  lr_kasa_id :: int
  lr_client_uuid :: string
  lr_job_type :: string
  lr_payload :: json
  lr_pos_order_id :: "int option"

definition PRINT_TEXT_JOB_TYPE :: string where "PRINT_TEXT_JOB_TYPE = ''fiscal.print_text''"
definition CODE_LAN_UNSUPPORTED :: string where "CODE_LAN_UNSUPPORTED = ''unsupported''"
definition CODE_BRIDGE_ERROR :: string where "CODE_BRIDGE_ERROR = ''bridge_error''"

definition to_job :: "LanRequest \<Rightarrow> DeviceJob" where
  "to_job r =
     \<lparr>dj_id = 0, dj_job_type = lr_job_type r, dj_client_uuid = lr_client_uuid r, dj_kasa_id = Some (lr_kasa_id r),
      dj_kasa_name = [], dj_pos_order = (case lr_pos_order_id r of None \<Rightarrow> JNull | Some i \<Rightarrow> JObj [(''id'', JInt i)]),
      dj_payload = lr_payload r, dj_created_at = [], dj_claimed_at = []\<rparr>"

datatype LanAnswer =
    LA_Job LanJob bool                \<comment> \<open>the row, and whether it is a replay\<close>
  | LA_Refused string string
  | LA_Conflict LanJob
  | LA_BridgeError err
  | LA_StateUnknown err

datatype Admission =
    Answered LanAnswer
  | Journaled int bool                \<comment> \<open>job id, replay\<close>

definition same_operation :: "DeviceJob \<Rightarrow> LanRequest \<Rightarrow> bool" where
  "same_operation stored r \<longleftrightarrow> dj_job_type stored = lr_job_type r \<and> dj_payload stored = lr_payload r"

definition answer_now :: "JournalState \<Rightarrow> nat \<Rightarrow> nat \<Rightarrow> bool" where
  "answer_now st now deadline \<longleftrightarrow> is_final st \<or> st = J_Indeterminate \<or> deadline \<le> now"

definition replayed :: "LanJob \<Rightarrow> LanRequest \<Rightarrow> Admission" where
  "replayed stored r =
     (if same_operation (je_job (lj_entry stored)) r then Journaled (lan_job_id_of stored) True
      else Answered (LA_Conflict stored))"

definition not_fiscal_text :: "string \<Rightarrow> string" where
  "not_fiscal_text t =
     ''the LAN API runs fiscal.* jobs only ('' @ quoted t @
     '' is not one; card payments need the bank online) - nothing ran''"

definition print_text_refused :: string where
  "print_text_refused =
     ''the LAN API does not run fiscal.print_text (Odoo composes that text and sends it over the Odoo channel) - nothing ran''"

definition admit ::
    "(instant \<Rightarrow> string) \<Rightarrow> ExecutorRegistry \<Rightarrow> instant \<Rightarrow> nat \<Rightarrow> LanRequest \<Rightarrow> (source, Admission) op" where
  "admit ts reg now t r =
     try_op (on_journal (lan_job ts (lr_kasa_id r) (lr_client_uuid r))) (\<lambda>known.
       case known of
         Some stored \<Rightarrow> ok (replayed stored r)
       | None \<Rightarrow>
           (let job = to_job r
            in if for_job_type (dj_job_type job) \<noteq> Some Fiscal
               then ok (Answered (LA_Refused CODE_LAN_UNSUPPORTED (not_fiscal_text (dj_job_type job))))
               else if dj_job_type job = PRINT_TEXT_JOB_TYPE
               then ok (Answered (LA_Refused CODE_LAN_UNSUPPORTED print_text_refused))
               else case validate reg job of
                 Inl (code, text) \<Rightarrow> ok (Answered (LA_Refused code text))
               | Inr _ \<Rightarrow>
                   try_op (on_journal (insert_lan_received ts now job)) (\<lambda>inserted.
                     case inserted of
                       L_Known stored \<Rightarrow> ok (replayed stored r)
                     | L_New job_id \<Rightarrow>
                         try_op (queue_item reg (job\<lparr>dj_id := job_id\<rparr>) (Execute job_id t)) (\<lambda>queued.
                         if queued then ok (Journaled job_id False)
                         else match_op (on_journal (record_outcome now job_id (O_Failed CODE_BRIDGE_ERROR
                                ''the devbridge fiscal worker is not running - nothing ran''))) (\<lambda>recorded.
                              case recorded of
                                Inr _ \<Rightarrow> try_op (modify_op outcome_recorded) (\<lambda>_. ok (Journaled job_id False))
                              | Inl _ \<Rightarrow> ok (Journaled job_id False))))))"

text \<open>One iteration of \<open>wait_settled\<close>: \<open>None\<close> goes on waiting for an outcome or the deadline.\<close>

definition settled_read ::
    "(instant \<Rightarrow> string) \<Rightarrow> int \<Rightarrow> nat \<Rightarrow> nat \<Rightarrow> (source, LanJob option) op" where
  "settled_read ts job_id now deadline =
     try_op (on_journal (lan_job_by_id ts job_id)) (\<lambda>row.
       case row of
         None \<Rightarrow> bail (ContextErr ''LAN job vanished from the journal'')
       | Some job \<Rightarrow> ok (if answer_now (je_state (lj_entry job)) now deadline then Some job else None))"

text \<open>The answer of \<open>submit\<close> once its last read of the row is done.\<close>

definition submit_answer :: "(err + Admission) \<Rightarrow> (int \<Rightarrow> err + LanJob) \<Rightarrow> LanAnswer" where
  "submit_answer admitted settled =
     (case admitted of
        Inl e \<Rightarrow> LA_BridgeError e
      | Inr (Answered a) \<Rightarrow> a
      | Inr (Journaled job_id replay) \<Rightarrow>
          (case settled job_id of Inl e \<Rightarrow> LA_StateUnknown e | Inr job \<Rightarrow> LA_Job job replay))"

definition lan_get :: "(instant \<Rightarrow> string) \<Rightarrow> int \<Rightarrow> string \<Rightarrow> (source, LanJob option) op" where
  "lan_get ts kasa_id client_uuid = on_journal (lan_job ts kasa_id client_uuid)"

definition lan_card_job ::
    "(instant \<Rightarrow> string) \<Rightarrow> int \<Rightarrow> string \<Rightarrow> (source, (JournalEntry \<times> CardPayment option) option) op" where
  "lan_card_job ts kasa_id client_uuid = on_journal (card_job_by_uuid ts kasa_id client_uuid)"

record LanHealth =
  lh_portos :: string
  lh_unreported :: nat

definition lan_health :: "ExecutorRegistry \<Rightarrow> (source, LanHealth) op" where
  "lan_health reg =
     try_op (on_journal unreported_lan_jobs) (\<lambda>n.
       ok \<lparr>lh_portos = (case reg Fiscal of None \<Rightarrow> ''none'' | Some ex \<Rightarrow> ex_status ex), lh_unreported = n\<rparr>)"

end
