(* ===== verification/Journal_Properties.thy ===== *)
theory Journal_Properties
  imports Device_Api
begin

text \<open>
  What the device-job journal guarantees: the first final outcome of a job wins, recovery after
  a restart is all or nothing, a till's operation is journaled once, a payment terminal is
  contacted at most once per job, pruning keeps everything that is still owed.
\<close>

section \<open>Outcomes\<close>

text \<open>The shared columns of the row a job id names.\<close>

definition loc_row :: "journal_db \<Rightarrow> int \<Rightarrow> jrow option" where
  "loc_row d k =
     (if is_lan_job k then map_option jrow.truncate (row_of ln_id (- k) (jd_lan_jobs d))
      else map_option jrow.truncate (row_of od_id k (jd_device_jobs d)))"

lemma jcore_truncate [simp]: "jcore (jrow.truncate r) = jcore r"
  by (simp add: jcore_def jrow.defs)

lemma core_of_loc_row: "core_of d k = map_option jcore (loc_row d k)"
  by (simp add: core_of_def loc_row_def option.map_comp comp_def)

lemma update_located_quiet:
  assumes quiet: "cn_faults (jo_conn j) = []" and wf: "journal_wf (jdb j)"
    and ids: "\<And>r. od_job (fo r) = od_job r" "\<And>r. ln_id (fl r) = ln_id r"
    and g: "\<And>r. jrow.truncate (fo r) = g (jrow.truncate r)" "\<And>r. jrow.truncate (fl r) = g (jrow.truncate r)"
  shows "\<exists>j'. update_located k P fo fl j =
             (Inr (case loc_row (jdb j) k of None \<Rightarrow> False | Some r \<Rightarrow> P r), j') \<and>
           loc_row (jdb j') = (loc_row (jdb j))(k := map_option (\<lambda>r. if P r then g r else r) (loc_row (jdb j) k))"
proof (cases "is_lan_job k")
  case True
  let ?t = "jd_lan_jobs (jdb j)" and ?P = "\<lambda>r. P (jrow.truncate r)"
  have key: "keyed ln_id ?t" using wf by (simp add: journal_wf_def lan_wf_def)
  have "(count_where (\<lambda>r. ln_id r = - k \<and> ?P r) ?t = 1) =
      (case loc_row (jdb j) k of None \<Rightarrow> False | Some r \<Rightarrow> P r)"
    unfolding count_where_key [OF key] using True by (simp add: loc_row_def split: option.splits)
  moreover have "loc_row (jdb j\<lparr>jd_lan_jobs := upd_where (\<lambda>r. ln_id r = - k \<and> ?P r) fl ?t\<rparr>) i =
      ((loc_row (jdb j))(k := map_option (\<lambda>r. if P r then g r else r) (loc_row (jdb j) k))) i" for i
    using True ids(2) g(2)
    by (cases "row_of ln_id (- i) ?t"; cases "i = k") (auto simp: loc_row_def row_of_upd_key)
  ultimately show ?thesis
    using True quiet by (simp add: update_located_def on_conn_def zoom_op_def Let_def fun_eq_iff)
next
  case False
  let ?t = "jd_device_jobs (jdb j)" and ?P = "\<lambda>r. P (jrow.truncate r)"
  have key: "keyed od_id ?t" using wf by (simp add: journal_wf_def odoo_wf_def)
  have id: "\<And>r. od_id (fo r) = od_id r" by (simp add: ids(1))
  have "(count_where (\<lambda>r. od_id r = k \<and> ?P r) ?t = 1) =
      (case loc_row (jdb j) k of None \<Rightarrow> False | Some r \<Rightarrow> P r)"
    unfolding count_where_key [OF key] using False by (simp add: loc_row_def split: option.splits)
  moreover have "loc_row (jdb j\<lparr>jd_device_jobs := upd_where (\<lambda>r. od_id r = k \<and> ?P r) fo ?t\<rparr>) i =
      ((loc_row (jdb j))(k := map_option (\<lambda>r. if P r then g r else r) (loc_row (jdb j) k))) i" for i
    using False g(1)
    by (cases "row_of od_id i ?t"; cases "i = k") (auto simp: loc_row_def row_of_upd_key [where key = od_id, OF id])
  ultimately show ?thesis
    using False quiet by (simp add: update_located_def on_conn_def zoom_op_def Let_def fun_eq_iff)
qed

text \<open>What an outcome leaves in the row.\<close>

fun outcome_core :: "Outcome \<Rightarrow> core \<Rightarrow> core" where
  "outcome_core (O_Done v) c = (''done'', Some v, None, None)"
| "outcome_core (O_Failed code text) c = (''failed'', None, Some code, Some text)"
| "outcome_core (O_Indeterminate reason) (s, res, code, text) = (''indeterminate'', res, code, Some reason)"

fun outcome_row :: "instant \<Rightarrow> Outcome \<Rightarrow> jrow \<Rightarrow> jrow" where
  "outcome_row now (O_Done v) r =
     r\<lparr>j_state := ''done'', j_result := Some v, j_error_code := None, j_error_text := None, j_updated_at := now\<rparr>"
| "outcome_row now (O_Failed code text) r =
     r\<lparr>j_state := ''failed'', j_result := None, j_error_code := Some code, j_error_text := Some text,
       j_updated_at := now\<rparr>"
| "outcome_row now (O_Indeterminate reason) r =
     r\<lparr>j_state := ''indeterminate'', j_error_text := Some reason, j_updated_at := now\<rparr>"

lemma outcome_row_core: "jcore (outcome_row now oc r) = outcome_core oc (jcore r)"
  by (cases oc) (simp_all add: jcore_def)

lemma record_outcome_quiet:
  assumes "cn_faults (jo_conn j) = []" and "journal_wf (jdb j)"
  shows "\<exists>j'. record_outcome now k oc j =
             (Inr (case loc_row (jdb j) k of None \<Rightarrow> False | Some r \<Rightarrow> j_state r \<in> set OPEN_STATES), j') \<and>
           loc_row (jdb j') = (loc_row (jdb j))(k :=
             map_option (\<lambda>r. if j_state r \<in> set OPEN_STATES then outcome_row now oc r else r) (loc_row (jdb j) k))"
  by (cases oc)
    (auto simp: record_outcome_def odoo_owe_outcome_def lan_owe_outcome_def odoo_owe_unknown_def jrow.defs
      intro!: update_located_quiet [OF assms])

definition final_text :: "string \<Rightarrow> bool" where
  "final_text s \<longleftrightarrow> s = ''done'' \<or> s = ''failed''"

lemma known_open: "known_state s \<Longrightarrow> s \<in> set OPEN_STATES \<longleftrightarrow> \<not> final_text s"
  by (auto simp: known_state_def parse_state_def OPEN_STATES_def final_text_def split: if_splits)

lemma loc_row_known:
  assumes "journal_wf d" and "loc_row d k = Some r"
  shows "known_state (j_state r)"
  using assms by (auto simp: journal_wf_def odoo_wf_def lan_wf_def loc_row_def split: if_splits dest!: row_of_SomeD)

text \<open>
  C9. The first final outcome of a device job wins. Recording an outcome of a job that is still
  open stores it and answers true; a job that already has a final outcome keeps its state, result
  and error and the answer is false; an unknown job answers false; no other job is touched. LAN
  and Odoo jobs alike.
\<close>

theorem first_final_outcome_wins:
  assumes "cn_faults (jo_conn j) = []" and "journal_wf (jdb j)"
  shows "\<exists>j'. record_outcome now k oc j =
             (Inr (case core_of (jdb j) k of None \<Rightarrow> False | Some c \<Rightarrow> \<not> final_text (fst c)), j')
         \<and> core_of (jdb j') k =
             map_option (\<lambda>c. if final_text (fst c) then c else outcome_core oc c) (core_of (jdb j) k)
         \<and> (\<forall>i. i \<noteq> k \<longrightarrow> core_of (jdb j') i = core_of (jdb j) i)"
proof -
  have state: "fst (jcore r) = j_state r" for r :: jrow by (simp add: jcore_def)
  from record_outcome_quiet [OF assms, of now k oc] obtain j' where
    run: "record_outcome now k oc j =
       (Inr (case loc_row (jdb j) k of None \<Rightarrow> False | Some r \<Rightarrow> j_state r \<in> set OPEN_STATES), j')"
    and rows: "loc_row (jdb j') = (loc_row (jdb j))(k := map_option
       (\<lambda>r. if j_state r \<in> set OPEN_STATES then outcome_row now oc r else r) (loc_row (jdb j) k))" by blast
  have "j_state r \<in> set OPEN_STATES \<longleftrightarrow> \<not> final_text (j_state r)" if "loc_row (jdb j) k = Some r" for r
    using known_open [OF loc_row_known [OF assms(2) that]] .
  then show ?thesis
    by (intro exI [of _ j'])
      (auto simp: run core_of_loc_row rows state outcome_row_core split: option.splits)
qed

definition sample_device_job :: "int \<Rightarrow> DeviceJob" where
  "sample_device_job i =
     \<lparr>dj_id = i, dj_job_type = ''fiscal.cash_register'', dj_client_uuid = ''u1'', dj_kasa_id = Some 3,
      dj_kasa_name = ''K3'', dj_pos_order = JNull, dj_payload = JObj [], dj_created_at = [],
      dj_claimed_at = []\<rparr>"

definition sample_journal :: "int \<Rightarrow> string \<Rightarrow> journal" where
  "sample_journal i st =
     \<lparr>jo_conn = \<lparr>cn_db = empty_journal\<lparr>jd_device_jobs :=
        [(new_odoo_row 0 (sample_device_job i) None)\<lparr>j_state := st\<rparr>]\<rparr>, cn_faults = []\<rparr>,
      jo_card_events = False\<rparr>"

lemma sample_journal_wf: "0 < i \<Longrightarrow> known_state st \<Longrightarrow> journal_wf (jdb (sample_journal i st))"
  by (simp add: journal_wf_def sample_journal_def empty_journal_def odoo_wf_def lan_wf_def balance_wf_def
      count_where_def keyed_def new_odoo_row_def sample_device_job_def)

lemma sample_journal_core:
  "0 < i \<Longrightarrow> core_of (jdb (sample_journal i st)) i = Some (st, None, None, None)"
  by (simp add: core_of_def is_lan_job_def sample_journal_def empty_journal_def new_odoo_row_def
      sample_device_job_def jcore_def)

theorem first_final_outcome_wins_witness:
  "(\<exists>j'. record_outcome 5 7 (O_Done JNull) (sample_journal 7 ''failed'') = (Inr False, j')
        \<and> core_of (jdb j') 7 = Some (''failed'', None, None, None))
   \<and> (\<exists>j'. record_outcome 5 7 (O_Done JNull) (sample_journal 7 ''executing'') = (Inr True, j')
        \<and> core_of (jdb j') 7 = Some (''done'', Some JNull, None, None))"
proof -
  have q: "cn_faults (jo_conn (sample_journal 7 st)) = []" for st by (simp add: sample_journal_def)
  show ?thesis
    using first_final_outcome_wins [OF q sample_journal_wf [of 7 "''failed''"], of 5 7 "O_Done JNull"]
      first_final_outcome_wins [OF q sample_journal_wf [of 7 "''executing''"], of 5 7 "O_Done JNull"]
    by (auto simp: sample_journal_core final_text_def)
qed

section \<open>Recovery after a restart\<close>

text \<open>What recovery makes of a job that was in flight when the process died.\<close>

fun recovered_core :: "core \<Rightarrow> core" where
  "recovered_core (s, res, code, text) =
     (if s = ''received'' \<or> s = ''executing''
      then (''indeterminate'', res, code, Some (''devbridge restarted while the job was '' @ s))
      else (s, res, code, text))"

lemma jcore_recovered:
  "jcore (if j_state r \<in> set IN_FLIGHT then recovered now r else r) = recovered_core (jcore r)"
  by (simp add: jcore_def recovered_def IN_FLIGHT_def)

lemma recovered_ids [simp]: "od_job (recovered now r) = od_job r" "ln_id (recovered now r') = ln_id r'"
  by (simp_all add: recovered_def)

definition recovered_db :: "instant \<Rightarrow> journal_db \<Rightarrow> journal_db" where
  "recovered_db now d =
     d\<lparr>jd_device_jobs := upd_where (\<lambda>r. j_state r \<in> set IN_FLIGHT) (recovered now) (jd_device_jobs d),
       jd_lan_jobs := upd_where (\<lambda>r. j_state r \<in> set IN_FLIGHT) (recovered now) (jd_lan_jobs d)\<rparr>"

lemma core_of_recovered_db: "core_of (recovered_db now d) k = map_option recovered_core (core_of d k)"
  using row_of_upd_where [where key = od_id and f = "recovered now"]
    row_of_upd_where [where key = "ln_id :: lan_row \<Rightarrow> int" and f = "recovered now"]
  by (simp add: core_of_def recovered_db_def option.map_comp comp_def jcore_recovered)

definition in_flight_list :: "journal_db \<Rightarrow> (int \<times> JournalState) list" where
  "in_flight_list d =
     map (\<lambda>r. (od_id r, previous_state (j_state r)))
       (sort_key od_id (filter (\<lambda>r. j_state r \<in> set IN_FLIGHT) (jd_device_jobs d))) @
     map (\<lambda>r. (lan_job_id (ln_id r), previous_state (j_state r)))
       (sort_key ln_id (filter (\<lambda>r. j_state r \<in> set IN_FLIGHT) (jd_lan_jobs d)))"

lemma recover_effect:
  "(case recover_after_restart now j of
      (Inl e, j') \<Rightarrow> jdb j' = jdb j
    | (Inr xs, j') \<Rightarrow> xs = in_flight_list (jdb j) \<and> jdb j' = recovered_db now (jdb j))"
  by (auto simp: recover_after_restart_def on_conn_def zoom_op_def transaction_def tx_mark_def
      recovered_db_def in_flight_list_def ok_def split: prod.splits sum.splits
      elim!: try_op_InrE dest!: sql_Inr_effect query_InrD)

lemma core_of_odoo: "row_of od_id k (jd_device_jobs d) = Some r \<Longrightarrow> \<not> is_lan_job k \<Longrightarrow> core_of d k = Some (jcore r)"
  by (simp add: core_of_def)

lemma core_of_lan: "row_of ln_id (- k) (jd_lan_jobs d) = Some r \<Longrightarrow> is_lan_job k \<Longrightarrow> core_of d k = Some (jcore r)"
  by (simp add: core_of_def)

lemma keyed_ex_row:
  "keyed key t \<Longrightarrow> (\<exists>r \<in> set t. key r = k \<and> P r) \<longleftrightarrow> (\<exists>r. row_of key k t = Some r \<and> P r)"
  using keyed_row_of row_of_SomeD by metis

lemma in_flight_list_iff:
  assumes "journal_wf d"
  shows "(k, p) \<in> set (in_flight_list d) \<longleftrightarrow>
     (\<exists>c. core_of d k = Some c \<and> fst c \<in> set IN_FLIGHT \<and> p = previous_state (fst c))"
proof -
  have odoo: "keyed od_id (jd_device_jobs d)" "\<And>r. r \<in> set (jd_device_jobs d) \<Longrightarrow> 0 < od_id r"
    and lan: "keyed ln_id (jd_lan_jobs d)" "\<And>r. r \<in> set (jd_lan_jobs d) \<Longrightarrow> 0 < ln_id r"
    using assms by (auto simp: journal_wf_def odoo_wf_def lan_wf_def)
  have "(k, p) \<in> set (in_flight_list d) \<longleftrightarrow>
      (\<exists>r \<in> set (jd_device_jobs d). od_id r = k \<and> j_state r \<in> set IN_FLIGHT \<and> p = previous_state (j_state r)) \<or>
      (\<exists>r \<in> set (jd_lan_jobs d). ln_id r = - k \<and> j_state r \<in> set IN_FLIGHT \<and> p = previous_state (j_state r))"
    by (auto simp: in_flight_list_def lan_job_id_def image_iff)
  also have "\<dots> \<longleftrightarrow>
      (\<exists>r. row_of od_id k (jd_device_jobs d) = Some r \<and> j_state r \<in> set IN_FLIGHT \<and> p = previous_state (j_state r)) \<or>
      (\<exists>r. row_of ln_id (- k) (jd_lan_jobs d) = Some r \<and> j_state r \<in> set IN_FLIGHT \<and> p = previous_state (j_state r))"
    using keyed_ex_row [OF odoo(1), of k] keyed_ex_row [OF lan(1), of "- k"] by simp
  also have "\<dots> \<longleftrightarrow> (\<exists>c. core_of d k = Some c \<and> fst c \<in> set IN_FLIGHT \<and> p = previous_state (fst c))"
  proof (cases "k < 0")
    case True
    then have "row_of od_id k (jd_device_jobs d) = None" by (auto simp: row_of_None_iff dest: odoo(2))
    with True show ?thesis by (auto simp: core_of_def jcore_def is_lan_job_def)
  next
    case False
    then have "row_of ln_id (- k) (jd_lan_jobs d) = None" by (auto simp: row_of_None_iff dest: lan(2))
    with False show ?thesis by (auto simp: core_of_def jcore_def is_lan_job_def)
  qed
  finally show ?thesis .
qed

text \<open>
  C10. Recovery after a restart is all or nothing. Whatever statement of the transaction fails,
  no job has changed; when it succeeds, it lists exactly the jobs that were received or
  executing, with the state each was in, every one of them is indeterminate afterwards with the
  reason in its error text, and every other job is as it was.
\<close>

theorem recovery_all_or_nothing:
  assumes "journal_wf (jdb j)"
  shows "case recover_after_restart now j of
      (Inl e, j') \<Rightarrow> jdb j' = jdb j
    | (Inr xs, j') \<Rightarrow>
        (\<forall>k p. (k, p) \<in> set xs \<longleftrightarrow>
           (\<exists>c. core_of (jdb j) k = Some c \<and> (fst c = ''received'' \<or> fst c = ''executing'') \<and>
                p = previous_state (fst c))) \<and>
        (\<forall>k. core_of (jdb j') k = map_option recovered_core (core_of (jdb j) k))"
  using recover_effect [of j now] in_flight_list_iff [OF assms]
  by (auto simp: core_of_recovered_db IN_FLIGHT_def split: prod.splits sum.splits)

theorem recovery_all_or_nothing_witness:
  "\<exists>j'. recover_after_restart 9 (sample_journal 7 ''executing'') = (Inr [(7, J_Executing)], j') \<and>
        core_of (jdb j') 7 =
          Some (''indeterminate'', None, None, Some ''devbridge restarted while the job was executing'')"
proof -
  have "recover_after_restart 9 (sample_journal 7 ''executing'') =
      (Inr [(7, J_Executing)], snd (recover_after_restart 9 (sample_journal 7 ''executing'')))"
    by code_simp
  with recovery_all_or_nothing [OF sample_journal_wf [of 7 "''executing''"], of 9]
  show ?thesis by (auto simp: sample_journal_core IN_FLIGHT_def split: prod.splits)
qed

section \<open>LAN operations\<close>

text \<open>
  C22. A till's operation, named by its till and its uuid, is journaled once. The first copy
  gets a fresh negative id, is received, and no other job changes; every later copy, whatever
  its payload, answers with the row already there and changes nothing.
\<close>

theorem lan_operation_journaled_once:
  assumes quiet: "cn_faults (jo_conn j) = []" and wf: "journal_wf (jdb j)" and kasa: "dj_kasa_id job = Some kasa"
  shows "case lan_find kasa (dj_client_uuid job) (jd_lan_jobs (jdb j)) of
      None \<Rightarrow> \<exists>k j'. insert_lan_received ts now job j = (Inr (L_New k), j') \<and> is_lan_job k \<and>
          core_of (jdb j) k = None \<and> core_of (jdb j') k = Some (''received'', None, None, None) \<and>
          map_option ln_id (lan_find kasa (dj_client_uuid job) (jd_lan_jobs (jdb j'))) = Some (- k) \<and>
          (\<forall>i. i \<noteq> k \<longrightarrow> core_of (jdb j') i = core_of (jdb j) i)
    | Some r \<Rightarrow> \<exists>l. insert_lan_received ts now job j = (Inr (L_Known l), j) \<and> row_to_lan ts r = Inr l"
proof (cases "lan_find kasa (dj_client_uuid job) (jd_lan_jobs (jdb j))")
  case None
  let ?s = "jd_lan_seq (jdb j)" and ?t = "jd_lan_jobs (jdb j)"
  let ?r = "new_lan_row now (?s + 1) kasa job"
  let ?j = "j\<lparr>jo_conn := (jo_conn j)\<lparr>cn_db := (jdb j)\<lparr>jd_lan_jobs := ?t @ [?r], jd_lan_seq := ?s + 1\<rparr>\<rparr>\<rparr>"
  have lan: "0 \<le> ?s" "\<And>r. r \<in> set ?t \<Longrightarrow> ln_id r \<le> ?s" using wf by (auto simp: journal_wf_def lan_wf_def)
  have run: "insert_lan_received ts now job j = (Inr (L_New (- (?s + 1))), ?j)"
    using quiet kasa None
    by (simp add: insert_lan_received_def try_op_def on_conn_def zoom_op_def Let_def ok_def lan_job_id_def)
  have fresh: "row_of ln_id (?s + 1) ?t = None" using lan(2) by (force simp: row_of_None_iff)
  have keys: "ln_id ?r = ?s + 1" "ln_kasa_id ?r = kasa" "ln_client_uuid ?r = dj_client_uuid job"
    "jcore ?r = (''received'', None, None, None)"
    by (simp_all add: new_lan_row_def jcore_def)
  have found: "lan_find kasa (dj_client_uuid job) (?t @ [?r]) = Some ?r"
    using None by (simp add: lan_find_def row_of_append keys)
  have "core_of (jdb ?j) i = core_of (jdb j) i" if "i \<noteq> - (?s + 1)" for i
    using that by (auto simp: core_of_def row_of_append keys split: option.splits)
  moreover have "core_of (jdb j) (- (?s + 1)) = None" "is_lan_job (- (?s + 1))"
    "core_of (jdb ?j) (- (?s + 1)) = Some (''received'', None, None, None)"
    using lan(1) fresh by (simp_all add: core_of_def is_lan_job_def row_of_append keys add.commute [of 1])
  ultimately show ?thesis using run found keys(1) None
    by (auto intro!: exI [of _ "- (?s + 1)"] exI [of _ ?j])
next
  case (Some r)
  then have "known_state (j_state r)"
    using wf by (auto simp: lan_find_def journal_wf_def lan_wf_def dest: row_of_SomeD)
  then obtain l where "row_to_lan ts r = Inr l" by (auto simp: known_state_def row_to_lan_def)
  with Some show ?thesis using quiet kasa
    by (auto simp: insert_lan_received_def lan_job_def read_row_def try_op_def on_conn_def zoom_op_def ok_def)
qed

definition lan_sample :: journal where
  "lan_sample = snd (insert_lan_received (\<lambda>_. []) 1 (sample_device_job 0) (sample_journal 7 ''done''))"

lemma lan_sample_facts:
  "cn_faults (jo_conn lan_sample) = []" "journal_wf (jdb lan_sample)"
  "map_option ln_id (lan_find 3 ''u1'' (jd_lan_jobs (jdb lan_sample))) = Some 1"
  "lan_find 3 ''u1'' (jd_lan_jobs (jdb (sample_journal 7 ''done''))) = None"
proof -
  have "journal_wf (jdb (sample_journal 7 ''done''))" by (rule sample_journal_wf) simp_all
  then show "journal_wf (jdb lan_sample)"
    using jwf_insert_lan [of "\<lambda>_. []" 1 "sample_device_job 0"] by (simp add: moves_def lan_sample_def)
qed code_simp+

theorem lan_operation_journaled_once_witness:
  "(\<exists>k j'. insert_lan_received (\<lambda>_. []) 1 (sample_device_job 0) (sample_journal 7 ''done'') =
        (Inr (L_New k), j') \<and> is_lan_job k \<and> core_of (jdb j') 7 = Some (''done'', None, None, None))
   \<and> (\<exists>l. insert_lan_received (\<lambda>_. []) 2 (sample_device_job 0) lan_sample = (Inr (L_Known l), lan_sample))"
proof -
  have k: "dj_kasa_id (sample_device_job 0) = Some 3" "dj_client_uuid (sample_device_job 0) = ''u1''"
    by (simp_all add: sample_device_job_def)
  have q: "cn_faults (jo_conn (sample_journal 7 ''done'')) = []" by (simp add: sample_journal_def)
  obtain r where r: "lan_find 3 ''u1'' (jd_lan_jobs (jdb lan_sample)) = Some r"
    using lan_sample_facts(3) by auto
  have 1: "\<exists>k j'. insert_lan_received (\<lambda>_. []) 1 (sample_device_job 0) (sample_journal 7 ''done'') =
        (Inr (L_New k), j') \<and> is_lan_job k \<and> core_of (jdb j') 7 = Some (''done'', None, None, None)"
    using lan_operation_journaled_once [OF q sample_journal_wf k(1), of "\<lambda>_. []" 1]
      sample_journal_core [of 7 "''done''"]
    by (auto simp: k(2) lan_sample_facts(4) is_lan_job_def)
  show ?thesis
    using 1 lan_operation_journaled_once [OF lan_sample_facts(1,2) k(1), of "\<lambda>_. []" 2]
    by (auto simp: k(2) r)
qed

section \<open>One contact with the payment terminal\<close>

text \<open>
  C23. The contact that starts a payment on the terminal is recorded at most once per job.
  It is answered with true only when the job is executing, has had no device contact and has no
  payment row; then the contact mark and the payment row are both there. Any other answer, a
  failed statement included, leaves the journal as it was, so neither is ever there without the
  other.
\<close>

theorem card_contact_once:
  assumes wf: "journal_wf (jdb j)"
  shows "case card_contact_of now k ip amount baseline tx_type target j of
      (Inl e, j') \<Rightarrow> jdb j' = jdb j
    | (Inr False, j') \<Rightarrow> jdb j' = jdb j
    | (Inr True, j') \<Rightarrow>
        (\<exists>r. row_of od_id k (jd_device_jobs (jdb j)) = Some r \<and> j_state r = ''executing'' \<and> j_contact r = None \<and>
             row_of od_id k (jd_device_jobs (jdb j')) =
               Some (r\<lparr>j_contact := Some (ContactAt now), j_updated_at := now\<rparr>)) \<and>
        row_of cp_job_id k (jd_card_payments (jdb j)) = None \<and>
        row_of cp_job_id k (jd_card_payments (jdb j')) =
          Some (new_card_row now k ip amount baseline tx_type target)"
proof -
  let ?P = "\<lambda>r. j_contact r = None \<and> j_state r = ''executing''"
  let ?f = "\<lambda>r :: odoo_row. r\<lparr>j_contact := Some (ContactAt now), j_updated_at := now\<rparr>"
  have key: "keyed od_id (jd_device_jobs (jdb j))" using wf by (simp add: journal_wf_def odoo_wf_def)
  have upd: "row_of od_id k (upd_where (\<lambda>r. od_id r = k \<and> ?P r) ?f t) =
      map_option (\<lambda>r. if ?P r then ?f r else r) (row_of od_id k t)" for t
    using row_of_upd_key [where key = od_id and f = ?f and i = k and k = k and P = ?P and t = t] by simp
  show ?thesis
    using count_one_row [OF _ key, of k ?P]
    by (auto simp: card_contact_of_def on_conn_def zoom_op_def transaction_def tx_mark_def ok_def Let_def upd
        row_of_append new_card_row_def split: prod.splits sum.splits bool.splits if_splits
        elim!: try_op_InrE dest!: sql_Inr_effect query_InrD)
qed

theorem card_contact_once_witness:
  "(\<exists>j'. card_contact_of 5 7 ''10.0.0.1'' 1250 None 1 None (sample_journal 7 ''executing'') = (Inr True, j') \<and>
       row_of cp_job_id 7 (jd_card_payments (jdb j')) = Some (new_card_row 5 7 ''10.0.0.1'' 1250 None 1 None))
   \<and> (\<exists>j'. card_contact_of 5 7 ''10.0.0.1'' 1250 None 1 None (sample_journal 7 ''received'') = (Inr False, j') \<and>
       jdb j' = jdb (sample_journal 7 ''received''))"
proof -
  let ?run = "\<lambda>st. card_contact_of 5 7 ''10.0.0.1'' 1250 None 1 None (sample_journal 7 st)"
  have "fst (?run ''executing'') = Inr True" "fst (?run ''received'') = Inr False" by code_simp+
  then obtain j1 j2 where runs: "?run ''executing'' = (Inr True, j1)" "?run ''received'' = (Inr False, j2)"
    by (metis prod.collapse)
  show ?thesis
    using card_contact_once [OF sample_journal_wf [of 7 "''executing''"], of 7 5 "''10.0.0.1''" 1250 None 1 None]
      card_contact_once [OF sample_journal_wf [of 7 "''received''"], of 7 5 "''10.0.0.1''" 1250 None 1 None]
    by (simp add: runs)
qed

section \<open>Pruning\<close>

text \<open>
  What pruning may do to a journal: every row of a job still there is as it was, a row that went
  was prunable, nothing owed to Odoo went, and neither did a payment row of a job still there
  nor a day closing of the last 400 days.
\<close>

definition only_pruned :: "instant \<Rightarrow> journal_db \<Rightarrow> journal_db \<Rightarrow> bool" where
  "only_pruned now d d' \<longleftrightarrow>
     (\<exists>A. jd_device_jobs d' = filter A (jd_device_jobs d) \<and> (\<forall>r. A r \<or> odoo_prunable (now - PRUNE_AFTER) r)) \<and>
     (\<exists>A. jd_lan_jobs d' = filter A (jd_lan_jobs d) \<and> (\<forall>r. A r \<or> lan_prunable (now - PRUNE_AFTER) r)) \<and>
     (\<exists>A. jd_card_payments d' = filter A (jd_card_payments d) \<and>
          (\<forall>c. A c \<or> row_of od_id (cp_job_id c) (jd_device_jobs d') = None)) \<and>
     (\<exists>A. jd_card_balances d' = filter A (jd_card_balances d) \<and>
          (\<forall>b. A b \<or> cb_contact_at b < now - PRUNE_AFTER))"

lemma only_pruned_refl: "only_pruned now d d"
  unfolding only_pruned_def by (intro conjI exI [of _ "\<lambda>_. True"]) simp_all

lemma filter_id: "\<exists>A. t = filter A t \<and> (\<forall>r. A r \<or> Q r)"
  by (intro exI [of _ "\<lambda>_. True"]) simp

lemma filter_not: "\<exists>A. filter (\<lambda>r. \<not> Q r) t = filter A t \<and> (\<forall>r. A r \<or> Q r)"
  by (intro exI [of _ "\<lambda>r. \<not> Q r"]) simp

lemma prune_only_prunes: "only_pruned now (jdb j) (jdb (snd (prune now j)))"
  unfolding prune_def prune_card_payments_def prune_card_balances_def Let_def on_conn_def zoom_op_def
  by (auto simp: try_op_def ok_def only_pruned_def delete_where_def filter_id filter_not
      split: prod.splits sum.splits dest!: sql_Inr_effect sql_InlD)

lemma filter_drops_none:
  assumes "\<And>r. A r \<or> Q r" and "\<And>r. Q r \<Longrightarrow> \<not> P r"
  shows "filter P (filter A t) = filter P t"
  unfolding filter_filter using assms by (metis (mono_tags, lifting))

lemma prunable_owes_nothing:
  "odoo_prunable t r \<Longrightarrow> \<not> ack_due r" "odoo_prunable t r \<Longrightarrow> j_state r \<notin> set OPEN_STATES"
  "lan_prunable t r' \<Longrightarrow> \<not> (j_state r' \<in> set FINAL_STATES \<and> ln_reported r' = 0)"
  "lan_prunable t r' \<Longrightarrow> j_state r' \<notin> set OPEN_STATES"
  by (auto simp: odoo_prunable_def lan_prunable_def ack_due_def FINAL_STATES_def OPEN_STATES_def)

text \<open>
  C24. Pruning deletes only final jobs that Odoo accepted more than 400 days ago, and nothing that
  is still owed: whatever statement of it fails, the acks due, the LAN reports due and every open
  job of both tables are the same rows as before, a payment row goes only with its job, and a day
  closing only after 400 days.
\<close>

theorem prune_keeps_owed:
  "let d = jdb j; d' = jdb (snd (prune now j))
   in only_pruned now d d' \<and>
      filter ack_due (jd_device_jobs d') = filter ack_due (jd_device_jobs d) \<and>
      filter (\<lambda>r. j_state r \<in> set OPEN_STATES) (jd_device_jobs d') =
        filter (\<lambda>r. j_state r \<in> set OPEN_STATES) (jd_device_jobs d) \<and>
      filter (\<lambda>r. j_state r \<in> set FINAL_STATES \<and> ln_reported r = 0) (jd_lan_jobs d') =
        filter (\<lambda>r. j_state r \<in> set FINAL_STATES \<and> ln_reported r = 0) (jd_lan_jobs d) \<and>
      filter (\<lambda>r. j_state r \<in> set OPEN_STATES) (jd_lan_jobs d') =
        filter (\<lambda>r. j_state r \<in> set OPEN_STATES) (jd_lan_jobs d)"
proof -
  let ?d = "jdb j" and ?d' = "jdb (snd (prune now j))"
  have pruned: "only_pruned now ?d ?d'" by (rule prune_only_prunes)
  then obtain A B where
    A: "jd_device_jobs ?d' = filter A (jd_device_jobs ?d)" "\<And>r. A r \<or> odoo_prunable (now - PRUNE_AFTER) r" and
    B: "jd_lan_jobs ?d' = filter B (jd_lan_jobs ?d)" "\<And>r. B r \<or> lan_prunable (now - PRUNE_AFTER) r"
    by (auto simp: only_pruned_def)
  show ?thesis
    unfolding Let_def A(1) B(1)
    by (intro conjI pruned [unfolded A(1) B(1)] filter_drops_none [where A = A, OF A(2)]
        filter_drops_none [where A = B, OF B(2)]) (auto dest: prunable_owes_nothing)
qed

section \<open>Acks\<close>

text \<open>The ack that tells Odoo an outcome.\<close>

fun outcome_ack :: "int \<Rightarrow> Outcome \<Rightarrow> AckRequest" where
  "outcome_ack k (O_Done v) = A_Done k v"
| "outcome_ack k (O_Failed code text) = A_Failed k code text"
| "outcome_ack k (O_Indeterminate reason) = A_Indeterminate k reason"

text \<open>The entry a readable row stands for, and what the row owes.\<close>

definition entry_of :: "odoo_row \<Rightarrow> JournalEntry" where
  "entry_of r = (case row_to_entry r of Inr e \<Rightarrow> e)"

definition row_ack :: "odoo_row \<Rightarrow> AckRequest option" where
  "row_ack r = (if ack_due r then owed_ack (entry_of r) else None)"

lemma row_ack_simp:
  assumes "known_state (j_state r)"
  shows "row_ack r =
     (if j_state r = ''done'' \<and> od_acked r = 0 then Some (A_Done (od_id r) (case j_result r of None \<Rightarrow> JNull | Some v \<Rightarrow> v))
      else if j_state r = ''failed'' \<and> od_acked r = 0
        then Some (A_Failed (od_id r) (case j_error_code r of None \<Rightarrow> [] | Some c \<Rightarrow> c)
                     (case j_error_text r of None \<Rightarrow> [] | Some t \<Rightarrow> t))
      else if j_state r = ''indeterminate'' \<and> od_report r = 1
        then Some (A_Indeterminate (od_id r) (case j_error_text r of None \<Rightarrow> [] | Some t \<Rightarrow> t))
      else None)"
  using assms
  by (auto simp: row_ack_def entry_of_def row_to_entry_def owed_ack_def ack_due_def FINAL_STATES_def
      known_state_def parse_state_def report_from_code_def split: if_splits)

lemma owed_acks_quiet:
  assumes quiet: "cn_faults (jo_conn j) = []" and wf: "journal_wf (jdb j)"
  shows "\<exists>acks. owed_acks j = (Inr acks, j) \<and>
     (\<forall>a. a \<in> set acks \<longleftrightarrow>
        (\<exists>r \<in> set (jd_device_jobs (jdb j)). row_ack r = Some a) \<or>
        (\<exists>c \<in> set (jd_card_payments (jdb j)). cp_auth_ack c = AUTH_OWED \<and>
           job_state_of (cp_job_id c) (jdb j) = Some ''executing'' \<and> cp_auth_result c \<noteq> None \<and>
           a = A_Authorized (cp_job_id c) (the (cp_auth_result c))))"
proof -
  let ?rows = "sort_key od_id (filter ack_due (jd_device_jobs (jdb j)))"
  have read: "row_to_entry r = Inr (entry_of r)" if "r \<in> set ?rows" for r
    using that wf by (auto simp: journal_wf_def odoo_wf_def entry_of_def row_to_entry_def known_state_def)
  have "collect_results row_to_entry ?rows = Inr (map entry_of ?rows)"
    by (rule collect_results_all) (rule read)
  then show ?thesis
    using quiet
    by (auto simp: owed_acks_def owed_card_auth_acks_def try_op_def on_conn_def zoom_op_def ok_def
        mem_map_filter row_ack_def)
qed

lemma row_ack_job: "known_state (j_state r) \<Longrightarrow> row_ack r = Some a \<Longrightarrow> ack_job_id a = od_id r"
  by (auto simp: row_ack_simp split: if_splits)

text \<open>The acks that name a job come from its row, or from the payment it holds.\<close>

lemma owed_acks_of_job:
  assumes quiet: "cn_faults (jo_conn j) = []" and wf: "journal_wf (jdb j)"
    and row: "row_of od_id k (jd_device_jobs (jdb j)) = Some r" and st: "j_state r \<noteq> ''executing''"
  shows "\<exists>acks. owed_acks j = (Inr acks, j) \<and> (\<forall>a. a \<in> set acks \<and> ack_job_id a = k \<longleftrightarrow> row_ack r = Some a)"
proof -
  have key: "keyed od_id (jd_device_jobs (jdb j))"
    and known: "\<And>x. x \<in> set (jd_device_jobs (jdb j)) \<Longrightarrow> known_state (j_state x)"
    using wf by (auto simp: journal_wf_def odoo_wf_def)
  have r: "r \<in> set (jd_device_jobs (jdb j))" "od_id r = k" using row_of_SomeD [OF row] by simp_all
  have job: "ack_job_id a = od_id x" if "x \<in> set (jd_device_jobs (jdb j))" "row_ack x = Some a" for x a
    using row_ack_job [OF known [OF that(1)] that(2)] .
  have same: "x = r" if "x \<in> set (jd_device_jobs (jdb j))" "od_id x = k" for x
    using keyed_row_of [OF key that(1)] that(2) row by simp
  obtain acks where acks: "owed_acks j = (Inr acks, j)"
    "\<And>a. a \<in> set acks \<longleftrightarrow> (\<exists>r \<in> set (jd_device_jobs (jdb j)). row_ack r = Some a) \<or>
        (\<exists>c \<in> set (jd_card_payments (jdb j)). cp_auth_ack c = AUTH_OWED \<and>
           job_state_of (cp_job_id c) (jdb j) = Some ''executing'' \<and> cp_auth_result c \<noteq> None \<and>
           a = A_Authorized (cp_job_id c) (the (cp_auth_result c)))"
    using owed_acks_quiet [OF quiet wf] by blast
  have no_auth: "job_state_of k (jdb j) \<noteq> Some ''executing''" using row st by (simp add: job_state_of_def)
  have auth: "ack_job_id a \<noteq> k" if "job_state_of (cp_job_id c) (jdb j) = Some ''executing''"
    "a = A_Authorized (cp_job_id c) (the (cp_auth_result c))" for a c
    using that no_auth by auto
  have "a \<in> set acks \<and> ack_job_id a = k \<longleftrightarrow> row_ack r = Some a" for a
  proof
    assume "a \<in> set acks \<and> ack_job_id a = k"
    then show "row_ack r = Some a" using acks(2) [of a] auth job same by metis
  next
    assume "row_ack r = Some a"
    then show "a \<in> set acks \<and> ack_job_id a = k" using acks(2) [of a] job r by blast
  qed
  with acks(1) show ?thesis by blast
qed

definition final_odoo :: "instant \<Rightarrow> Outcome \<Rightarrow> odoo_row \<Rightarrow> odoo_row" where
  "final_odoo now oc r =
     (case oc of
        O_Done res \<Rightarrow> (odoo_owe_outcome r)\<lparr>j_state := ''done'', j_result := Some res, j_error_code := None,
                        j_error_text := None, j_updated_at := now\<rparr>
      | O_Failed code text \<Rightarrow> (odoo_owe_outcome r)\<lparr>j_state := ''failed'', j_result := None,
                        j_error_code := Some code, j_error_text := Some text, j_updated_at := now\<rparr>
      | O_Indeterminate reason \<Rightarrow> r)"

lemma final_odoo_owes:
  assumes "\<nexists>reason. oc = O_Indeterminate reason"
  shows "row_ack (final_odoo now oc r) = Some (outcome_ack (od_id r) oc)"
    and "j_state (final_odoo now oc r) \<in> set FINAL_STATES"
  using assms
  by (cases oc; simp add: final_odoo_def row_ack_simp odoo_owe_outcome_def FINAL_STATES_def)+

lemma final_not_executing: "s \<in> set FINAL_STATES \<Longrightarrow> s \<noteq> ''executing''"
  by (auto simp: FINAL_STATES_def)

text \<open>One update of one Odoo row, with no failure ahead.\<close>

lemma update_odoo_quiet:
  assumes quiet: "cn_faults (jo_conn j) = []" and wf: "journal_wf (jdb j)" and ids: "\<And>r. od_job (f r) = od_job r"
    and row: "row_of od_id k (jd_device_jobs (jdb j)) = Some r" and P: "P r"
  shows "\<exists>j'. update_odoo k P f j = (Inr True, j') \<and> cn_faults (jo_conn j') = [] \<and>
     row_of od_id k (jd_device_jobs (jdb j')) = Some (f r)"
proof -
  have key: "keyed od_id (jd_device_jobs (jdb j))" using wf by (simp add: journal_wf_def odoo_wf_def)
  have one: "count_where (\<lambda>r. od_id r = k \<and> P r) (jd_device_jobs (jdb j)) = 1"
    unfolding count_where_key [OF key] using row P by simp
  have "row_of od_id k (upd_where (\<lambda>r. od_id r = k \<and> P r) f (jd_device_jobs (jdb j))) = Some (f r)"
    using row_of_upd_key [where key = od_id and f = f] ids row P by simp
  with one quiet show ?thesis by (simp add: update_odoo_def on_conn_def zoom_op_def Let_def)
qed

lemma update_located_odoo: "\<not> is_lan_job k \<Longrightarrow> update_located k P fo fl = update_odoo k (\<lambda>r. P (jrow.truncate r)) fo"
  by (simp add: update_located_def update_odoo_def)

lemma record_final_odoo:
  assumes "\<nexists>reason. oc = O_Indeterminate reason" and "\<not> is_lan_job k"
  shows "record_outcome now k oc = update_odoo k (\<lambda>r. j_state r \<in> set OPEN_STATES) (final_odoo now oc)"
  using assms by (cases oc) (simp_all add: record_outcome_def update_located_odoo final_odoo_def [abs_def])

text \<open>
  C21. The outcome of an Odoo job is owed until Odoo took it. Once a final outcome is recorded for
  an open job, the list of owed acks holds exactly one message about that job, the one that tells
  this outcome; after the ack is marked there is none about it.
\<close>

theorem outcome_owed_until_acked:
  assumes quiet: "cn_faults (jo_conn j) = []" and wf: "journal_wf (jdb j)" and k: "0 < k"
    and core: "core_of (jdb j) k = Some c" "fst c \<in> set OPEN_STATES"
    and final: "\<nexists>reason. oc = O_Indeterminate reason"
  shows "\<exists>j1 acks j2 acks'.
      record_outcome now k oc j = (Inr True, j1) \<and> owed_acks j1 = (Inr acks, j1) \<and>
      {a \<in> set acks. ack_job_id a = k} = {outcome_ack k oc} \<and>
      mark_acked now' k note j1 = (Inr True, j2) \<and> owed_acks j2 = (Inr acks', j2) \<and>
      {a \<in> set acks'. ack_job_id a = k} = {}"
proof -
  have odoo: "\<not> is_lan_job k" using k by (simp add: is_lan_job_def)
  obtain r where row: "row_of od_id k (jd_device_jobs (jdb j)) = Some r" and st: "j_state r \<in> set OPEN_STATES"
    using core odoo by (auto simp: core_of_def jcore_def)
  have id: "od_id r = k" using row_of_SomeD [OF row] by simp
  let ?r1 = "final_odoo now oc r" and ?f = "\<lambda>r :: odoo_row. r\<lparr>od_acked := 1, od_ack_note := Some note, j_updated_at := now'\<rparr>"
  have ids: "od_job (final_odoo now oc x) = od_job x" for x
    by (simp add: final_odoo_def odoo_owe_outcome_def split: Outcome.splits)
  obtain j1 where run1: "record_outcome now k oc j = (Inr True, j1)"
    and q1: "cn_faults (jo_conn j1) = []" and row1: "row_of od_id k (jd_device_jobs (jdb j1)) = Some ?r1"
    using update_odoo_quiet [OF quiet wf ids row, of "\<lambda>r. j_state r \<in> set OPEN_STATES", OF st]
    unfolding record_final_odoo [OF final odoo] by blast
  have wf1: "journal_wf (jdb j1)" using movesD [OF jwf_record_outcome run1] wf by simp
  note fin = final_odoo_owes [OF final, of now r]
  obtain j2 where run2: "mark_acked now' k note j1 = (Inr True, j2)"
    and q2: "cn_faults (jo_conn j2) = []" and row2: "row_of od_id k (jd_device_jobs (jdb j2)) = Some (?f ?r1)"
    using update_odoo_quiet [OF q1 wf1 _ row1, of ?f "\<lambda>r. j_state r \<in> set FINAL_STATES"] fin(2)
    by (auto simp: mark_acked_def)
  have wf2: "journal_wf (jdb j2)" using movesD [OF jwf_acks(1) run2] wf1 by simp
  have "known_state (j_state (?f ?r1))" "row_ack (?f ?r1) = None"
    using fin(2) by (auto simp: row_ack_def ack_due_def FINAL_STATES_def)
  moreover have "j_state (?f ?r1) \<noteq> ''executing''" using fin(2) final_not_executing by simp
  ultimately obtain acks' where 2: "owed_acks j2 = (Inr acks', j2)" "{a \<in> set acks'. ack_job_id a = k} = {}"
    using owed_acks_of_job [OF q2 wf2 row2] by auto
  obtain acks where 1: "owed_acks j1 = (Inr acks, j1)" "{a \<in> set acks. ack_job_id a = k} = {outcome_ack k oc}"
    using owed_acks_of_job [OF q1 wf1 row1 final_not_executing [OF fin(2)]] fin(1) id by auto
  from run1 run2 1 2 show ?thesis by blast
qed

theorem outcome_owed_until_acked_witness:
  "\<exists>j1 acks. record_outcome 5 7 (O_Failed ''E'' ''t'') (sample_journal 7 ''executing'') = (Inr True, j1) \<and>
     owed_acks j1 = (Inr acks, j1) \<and> {a \<in> set acks. ack_job_id a = 7} = {A_Failed 7 ''E'' ''t''}"
  using outcome_owed_until_acked [of "sample_journal 7 ''executing''" 7 _ "O_Failed ''E'' ''t''" 5 6 "''ok''",
      OF _ sample_journal_wf _ sample_journal_core]
  by (auto simp: sample_journal_def OPEN_STATES_def)

end
