(* ===== verification/Device_Steps.thy ===== *)
theory Device_Steps
  imports Lan_Jobs Journal_Properties
begin

text \<open>
  The device-job source as a transition system: the control loop, the device workers, the
  reconciler, the ack sender, the report sender, the LAN API and the executors' own journal writes
  interleave in any order, the device and Odoo answer anything, journal statements fail at any
  time, and the process dies and starts again at any time.
\<close>

section \<open>Steps\<close>

text \<open>What an executor itself writes while it works on a job.\<close>

inductive executor_write :: "(journal, bool) op \<Rightarrow> bool" where
  Contact: "executor_write (mark_device_contact now k)"
| CardContact: "executor_write (card_contact_of now k ip amount baseline tx_type target)"
| CardAuthorized: "executor_write (card_authorized now k seq res)"
| CardTransacted: "executor_write (card_transacted k seq)"
| CardEnded: "executor_write (card_ended now k)"
| CardPerson: "executor_write (card_for_person k reason)"
| BalanceOutcome: "executor_write (card_balance_outcome b oc res)"
| BalanceForget: "executor_write (card_balance_forget b)"
| BalanceContact: "executor_write (try_op (card_balance_contact now ip date src jid) (\<lambda>i. ok (i \<noteq> None)))"

definition on_db :: "journal_db \<Rightarrow> bool list \<Rightarrow> journal" where
  "on_db d fs = \<lparr>jo_conn = \<lparr>cn_db = d, cn_faults = fs\<rparr>, jo_card_events = False\<rparr>"

definition awaited :: "worker_pc \<Rightarrow> device_call option" where
  "awaited pc =
     (case pc of W_Running job \<Rightarrow> Some (Run (dj_id job)) | W_Overdue job \<Rightarrow> Some (Run (dj_id job))
      | W_Asking e \<Rightarrow> Some (Ask (dj_id (je_job e))) | _ \<Rightarrow> None)"

text \<open>
  One step of the source. A job comes from a parsed \<open>next\<close> reply; a pending round is taken job by
  job; the reconciler works through a snapshot, so any entry may reach \<open>schedule_one\<close>; an answer of
  Odoo may come for any ack or report. A call no worker awaits any more ends on its own
  (\<open>Detached\<close>). After a crash a new process starts on the database the old one left, with any
  failures ahead (\<open>Restart\<close>).
\<close>

inductive source_step :: "(instant \<Rightarrow> string) \<Rightarrow> ExecutorRegistry \<Rightarrow> Timing \<Rightarrow> source \<Rightarrow> source \<Rightarrow> bool"
  for ts reg tm where
  Next: "parse_next show_json v = Inr reply \<Longrightarrow> nx_job reply = Some job \<Longrightarrow>
         source_step ts reg tm s (snd (accept_job ts reg now t job s))"
| Pending: "source_step ts reg tm s (snd (pending_loop ts odoo now [p] False s))"
| Recv: "so_workers s q = W_Idle \<Longrightarrow> source_step ts reg tm s (worker_recv ts q s)"
| Start: "source_step ts reg tm s (execute_start tm now t q s)"
| Guard: "source_step ts reg tm s (execute_guard tm now q s)"
| Return: "source_step ts reg tm s (execute_return now q joined s)"
| Answer: "source_step ts reg tm s (reconcile_return now q answer s)"
| Schedule: "source_step ts reg tm s (snd (schedule_one reg now entry s))"
| Acked: "source_step ts reg tm s (snd (on_journal (ack_answered now ack answer') s))"
| Reported: "source_step ts reg tm s (snd (on_journal (report_answered lan answer'') s))"
| Admit: "source_step ts reg tm s (snd (admit ts reg now t req s))"
| Write: "executor_write m \<Longrightarrow> source_step ts reg tm s (snd (on_journal m s))"
| Detached: "(q, c) \<in> set (so_calls s) \<Longrightarrow> awaited (so_workers s q) \<noteq> Some c \<Longrightarrow>
         source_step ts reg tm s (call_returned q c s)"
| WorkerGone: "source_step ts reg tm s (set_worker q W_Gone s)"
| Restart: "source_run reg now (on_db (jdb (so_journal s)) fs) (so_log s) = Inr s' \<Longrightarrow> source_step ts reg tm s s'"

text \<open>A run whose every step satisfies \<open>P\<close>.\<close>

inductive run_with :: "(source \<Rightarrow> source \<Rightarrow> bool) \<Rightarrow> (instant \<Rightarrow> string) \<Rightarrow> ExecutorRegistry \<Rightarrow> Timing \<Rightarrow>
    source \<Rightarrow> source \<Rightarrow> bool"
  for P ts reg tm where
  Done: "run_with P ts reg tm s s"
| More: "run_with P ts reg tm s s' \<Longrightarrow> source_step ts reg tm s' s'' \<Longrightarrow> P s' s'' \<Longrightarrow> run_with P ts reg tm s s''"

section \<open>Journal moves of the source\<close>

abbreviation sdb :: "source \<Rightarrow> journal_db" where
  "sdb s \<equiv> jdb (so_journal s)"

text \<open>Job \<open>k\<close> only moves forward, the journal stays well-formed, no executor is called.\<close>

definition calm :: "int \<Rightarrow> source \<Rightarrow> source \<Rightarrow> bool" where
  "calm k s s' \<longleftrightarrow> onward k (sdb s) (sdb s') \<and> (journal_wf (sdb s) \<longrightarrow> journal_wf (sdb s')) \<and> so_log s' = so_log s"

lemma calm_refl: "calm k s s"
  by (simp add: calm_def onward_refl)

lemma calm_trans: "calm k s t \<Longrightarrow> calm k t u \<Longrightarrow> calm k s u"
  by (auto simp: calm_def intro: onward_trans)

interpretation calm: step_relation "calm k" for k
  by unfold_locales (auto intro: calm_refl calm_trans)

named_theorems calm_keeps "operations of the source that are calm"

lemma calm_on_journal:
  assumes "moves (\<lambda>j j'. onward k (jdb j) (jdb j')) m"
    and "moves (\<lambda>j j'. journal_wf (jdb j) \<longrightarrow> journal_wf (jdb j')) m"
  shows "moves (calm k) (on_journal m)"
proof (rule movesI)
  fix s :: source
  obtain r j' where m: "m (so_journal s) = (r, j')" by fastforce
  from movesD [OF assms(1) m] movesD [OF assms(2) m] m show "calm k s (snd (on_journal m s))"
    by (simp add: calm_def on_journal_def zoom_op_def)
qed

lemma calm_silent:
  "so_journal s' = so_journal s \<Longrightarrow> so_log s' = so_log s \<Longrightarrow> calm k s s'"
  by (simp add: calm_def onward_refl)

lemma calm_modify [calm_keeps]:
  "moves (calm k) (modify_op ack_soon)" "moves (calm k) (modify_op outcome_recorded)"
  by (auto intro!: moves_modify calm_silent simp: outcome_recorded_def ack_soon_def)

lemma calm_queue [calm_keeps]:
  "moves (calm k) (queue_item reg job item)" "moves (calm k) (send_item q item)" "moves (calm k) (start_reconcile i)"
  by (auto intro!: movesI calm_silent simp: queue_item_def send_item_def start_reconcile_def split: option.splits)

lemma calm_record [calm_keeps]:
  "moves (calm k) (on_journal (record_outcome now i oc))"
  "moves (calm k) (on_journal (record_still_unknown now i reason))"
  "moves (calm k) (on_journal (fail_unstarted now i code text))"
  "moves (calm k) (on_journal (start_execution now i))"
  "moves (calm k) (on_journal (reopen_ack now i))"
  "moves (calm k) (on_journal (journal_get ts i))"
  "moves (calm k) (on_journal (lan_job ts kasa u))"
  "moves (calm k) (on_journal (insert_lan_received ts now job))"
  by (intro calm_on_journal onward_keeps jwf_keeps)+

lemma calm_insert [calm_keeps]:
  assumes "0 < dj_id job"
  shows "moves (calm k) (on_journal (insert_received ts now job))"
    and "moves (calm k) (on_journal (insert_refused ts now job code text))"
  unfolding insert_received_def insert_refused_def using assms
  by (intro calm_on_journal onward_keeps jwf_keeps; simp)+

lemma calm_accept: "0 < dj_id job \<Longrightarrow> moves (calm k) (accept_job ts reg now t job)"
  unfolding accept_job_def Let_def
  by (intro calm.moves_rules calm_keeps)
    (auto split: sum.splits Inserted.splits prod.splits intro!: calm.moves_rules calm_keeps)

lemma calm_pending: "moves (calm k) (pending_loop ts odoo now ps later)"
proof (induction ps arbitrary: later)
  case Nil
  then show ?case by (simp only: pending_loop.simps) (intro calm.moves_rules calm_keeps)
next
  case (Cons p ps)
  then show ?case by (simp only: pending_loop.simps) (intro calm.moves_rules calm_keeps Cons)
qed

lemma calm_schedule: "moves (calm k) (schedule_one reg now entry)"
proof (rule movesI)
  fix s
  let ?id = "dj_id (je_job entry)"
  have send: "moves (calm k) (try_op (start_reconcile ?id) (\<lambda>mine. if mine
      then try_op (send_item q (Reconcile ?id)) (\<lambda>_. ok ()) else ok ()))" for q
    by (intro calm.moves_rules calm_keeps)
  have notice: "moves (calm k) (try_op (on_journal (record_still_unknown now ?id UNRECONCILABLE_TEXT))
      (\<lambda>_. modify_op outcome_recorded))"
    by (intro calm.moves_rules calm_keeps)
  show "calm k s (snd (schedule_one reg now entry s))"
    using send notice calm_refl by (auto simp: schedule_one_def Let_def moves_def ok_def split: option.splits)
qed

lemma onward_mark_accepted [onward_keeps]: "moves (\<lambda>j j'. onward k (jdb j) (jdb j')) (mark_accepted now ack note)"
  unfolding mark_accepted_def mark_card_auth_acked_def
  by (cases ack) (auto intro!: onward.moves_rules onward_keeps)

lemma jwf_mark_accepted [jwf_keeps]:
  "moves (\<lambda>j j'. journal_wf (jdb j) \<longrightarrow> journal_wf (jdb j')) (mark_accepted now ack note)"
  unfolding mark_accepted_def mark_card_auth_acked_def
  by (cases ack) (auto intro!: jwf.inv.moves_rules jwf_keeps)

lemma calm_acked: "moves (calm k) (on_journal (ack_answered now ack answer))"
  unfolding ack_answered_def
  by (rule calm_on_journal; intro onward.moves_rules jwf.inv.moves_rules onward_keeps jwf_keeps)

lemma calm_reported: "moves (calm k) (on_journal (report_answered lan answer))"
  unfolding report_answered_def
  by (rule calm_on_journal; intro onward.moves_rules jwf.inv.moves_rules onward_keeps jwf_keeps)

lemma calm_admit: "moves (calm k) (admit ts reg now t req)"
  unfolding admit_def Let_def
  by (intro calm.moves_rules calm_keeps)
    (auto split: sum.splits LanInserted.splits prod.splits intro!: calm.moves_rules calm_keeps)

lemma onward_card_authorized:
  "moves (\<lambda>j j'. onward k (jdb j) (jdb j')) (card_authorized now i seq res)"
  unfolding card_authorized_def
  by (intro onward.moves_rules onward_keeps moves_modify) (simp add: onward_refl)

lemma jwf_card_authorized:
  "moves (\<lambda>j j'. journal_wf (jdb j) \<longrightarrow> journal_wf (jdb j')) (card_authorized now i seq res)"
  unfolding card_authorized_def
  by (intro jwf.inv.moves_rules jwf_keeps moves_modify) simp_all

lemma card_updates [onward_keeps]:
  "moves (\<lambda>j j'. onward k (jdb j) (jdb j')) (card_transacted i seq)"
  "moves (\<lambda>j j'. onward k (jdb j) (jdb j')) (card_ended now i)"
  "moves (\<lambda>j j'. onward k (jdb j) (jdb j')) (card_for_person i reason)"
  unfolding card_transacted_def card_ended_def card_for_person_def by (intro onward_keeps)+

lemma jwf_card_updates [jwf_keeps]:
  "moves (\<lambda>j j'. journal_wf (jdb j) \<longrightarrow> journal_wf (jdb j')) (card_transacted i seq)"
  "moves (\<lambda>j j'. journal_wf (jdb j) \<longrightarrow> journal_wf (jdb j')) (card_ended now i)"
  "moves (\<lambda>j j'. journal_wf (jdb j) \<longrightarrow> journal_wf (jdb j')) (card_for_person i reason)"
  unfolding card_transacted_def card_ended_def card_for_person_def by (intro jwf_keeps; simp)+

lemma calm_write: "executor_write m \<Longrightarrow> moves (calm k) (on_journal m)"
  by (induction rule: executor_write.induct)
    (auto intro!: calm_on_journal onward.moves_rules jwf.inv.moves_rules onward_keeps jwf_keeps
      onward_card_authorized jwf_card_authorized)

text \<open>The stretches of a worker: silent bookkeeping around one journal operation.\<close>

lemma calm_then: "calm k s t \<Longrightarrow> so_journal u = so_journal t \<Longrightarrow> so_log u = so_log t \<Longrightarrow> calm k s u"
  by (simp add: calm_def)

lemma calm_from: "calm k t u \<Longrightarrow> so_journal t = so_journal s \<Longrightarrow> so_log t = so_log s \<Longrightarrow> calm k s u"
  by (simp add: calm_def)

lemma silent [simp]:
  "so_journal (set_worker q pc s) = so_journal s" "so_log (set_worker q pc s) = so_log s"
  "so_journal (call_returned q c s) = so_journal s" "so_log (call_returned q c s) = so_log s"
  "so_journal (reconcile_done i s) = so_journal s" "so_log (reconcile_done i s) = so_log s"
  "so_journal (outcome_recorded s) = so_journal s" "so_log (outcome_recorded s) = so_log s"
  "so_journal (call_device q c s) = so_journal s" "so_log (call_device q (Ask i) s) = so_log s"
  "so_log (call_device q (Run i) s) = so_log s @ [(q, i)]"
  by (simp_all add: set_worker_def call_returned_def reconcile_done_def outcome_recorded_def ack_soon_def
      call_device_def)

lemma calm_wrapped:
  assumes "moves (calm k) m" and "so_journal t = so_journal s" "so_log t = so_log s"
    and "\<And>r t'. m t = (r, t') \<Longrightarrow> so_journal u = so_journal t' \<and> so_log u = so_log t'"
  shows "calm k s u"
proof -
  obtain r t' where m: "m t = (r, t')" by fastforce
  have "calm k t t'" using assms(1) m by (rule movesD)
  with assms(2,3) assms(4) [OF m] show ?thesis by (meson calm_from calm_then)
qed

lemma calm_move: "moves (calm k) m \<Longrightarrow> calm k s (snd (m s))"
  by (simp add: moves_def)

lemma calm_recv: "calm k s (worker_recv ts q s)"
proof (cases "so_queues s q")
  case None
  then show ?thesis by (simp add: worker_recv_def calm_refl)
next
  case (Some items)
  show ?thesis
  proof (cases items)
    case Nil
    with Some show ?thesis by (simp add: worker_recv_def calm_refl)
  next
    case (Cons item rest)
    let ?t = "s\<lparr>so_queues := (so_queues s)(q \<mapsto> rest)\<rparr>"
    obtain i where i: "item = Reconcile i \<or> (\<exists>w. item = Execute i w)" by (cases item) auto
    show ?thesis
      by (rule calm_wrapped [of k "on_journal (journal_get ts i)" ?t])
        (use i in \<open>auto simp: Some Cons worker_recv_def intro!: calm_keeps split: sum.splits option.splits\<close>)
  qed
qed

lemma calm_guard: "calm k s (execute_guard tm now q s)"
proof (cases "so_workers s q")
  case (W_Running job)
  then show ?thesis
    by (intro calm_wrapped [of k "on_journal (record_outcome now (dj_id job) (O_Indeterminate (guard_text tm q)))" s])
      (auto simp: execute_guard_def intro!: calm_keeps split: sum.splits)
qed (auto simp: execute_guard_def calm_refl)

lemma calm_return: "calm k s (execute_return now q joined s)"
proof (cases "awaited_job (so_workers s q)")
  case (Some job)
  then show ?thesis
    by (intro calm_wrapped [of k "on_journal (record_outcome now (dj_id job) (outcome_of joined))"
            "call_returned q (Run (dj_id job)) (set_worker q W_Idle s)"])
      (auto simp: execute_return_def intro!: calm_keeps split: sum.splits)
qed (auto simp: execute_return_def calm_refl)

lemma calm_record_answer: "moves (calm k) (on_journal (record_answer now i answer))"
  unfolding record_answer_def by (cases answer) (auto intro!: calm_keeps)

lemma calm_answer: "calm k s (reconcile_return now q answer s)"
proof (cases "so_workers s q")
  case (W_Asking e)
  let ?i = "dj_id (je_job e)"
  from W_Asking show ?thesis
    by (intro calm_wrapped [of k "on_journal (record_answer now ?i (reconciliation_of answer))"
            "call_returned q (Ask ?i) (set_worker q W_Idle s)"])
      (auto simp: reconcile_return_def Let_def intro!: calm_record_answer split: sum.splits)
qed (auto simp: reconcile_return_def calm_refl)

text \<open>Only the start of a claimed job calls \<open>execute\<close>.\<close>

lemma execute_start_cases:
  "calm k s (execute_start tm now t q s) \<or>
   (\<exists>i. start_execution now i (so_journal s) = (Inr True, so_journal (execute_start tm now t q s)) \<and>
        so_log (execute_start tm now t q s) = so_log s @ [(q, i)])"
proof (cases "so_workers s q")
  case (W_Loaded e queued_at)
  let ?i = "dj_id (je_job e)" and ?t = "set_worker q W_Idle s"
  show ?thesis
  proof (cases "queue_wait_exceeded queued_at t (tm_max_queue_wait tm)")
    case True
    with W_Loaded show ?thesis
      by (intro disjI1 calm_wrapped [of k "on_journal (fail_unstarted now ?i CODE_EXPIRED_LOCAL
              (expired_text tm q queued_at t))" ?t])
        (auto simp: execute_start_def Let_def intro!: calm_keeps split: sum.splits)
  next
    case False
    obtain r j' where run: "start_execution now ?i (so_journal s) = (r, j')" by fastforce
    show ?thesis
    proof (cases "r = Inr True")
      case True
      with W_Loaded False run show ?thesis
        by (auto simp: execute_start_def Let_def on_journal_def zoom_op_def)
    next
      case no: False
      with W_Loaded False run have "execute_start tm now t q s = snd (on_journal (start_execution now ?i) ?t)"
        by (auto simp: execute_start_def Let_def on_journal_def zoom_op_def split: sum.splits bool.splits)
      then show ?thesis
        using calm_record(4) [of k now ?i] calm_from [of k ?t _ s] by (simp add: moves_def)
    qed
  qed
qed (auto simp: execute_start_def calm_refl)

section \<open>At most one execution\<close>

lemma filter_row: "keyed key t \<Longrightarrow> row_of key i (filter A t) = row_of key i t \<or> row_of key i (filter A t) = None"
  by (auto simp: row_of_filter split: option.splits)

lemma prune_core:
  assumes "journal_wf (jdb j)"
  shows "core_of (jdb (snd (prune now j))) k = core_of (jdb j) k \<or> core_of (jdb (snd (prune now j))) k = None"
proof -
  have keys: "keyed od_id (jd_device_jobs (jdb j))" "keyed ln_id (jd_lan_jobs (jdb j))"
    using assms by (simp_all add: journal_wf_def odoo_wf_def lan_wf_def)
  obtain A B where "jd_device_jobs (jdb (snd (prune now j))) = filter A (jd_device_jobs (jdb j))"
    "jd_lan_jobs (jdb (snd (prune now j))) = filter B (jd_lan_jobs (jdb j))"
    using prune_only_prunes [of now j] by (auto simp: only_pruned_def)
  then show ?thesis
    using filter_row [OF keys(1), of k A] filter_row [OF keys(2), of "- k" B]
    by (auto simp: core_of_def)
qed

text \<open>A start of the process: the journal stays well-formed, a job still there moved forward.\<close>

lemma source_run_keeps:
  assumes "source_run reg now j calls = Inr s" and "journal_wf (jdb j)"
  shows "journal_wf (sdb s) \<and> so_log s = calls \<and> (core_of (sdb s) k = None \<or> onward k (jdb j) (sdb s))"
proof -
  obtain xs j1 where rec: "recover_after_restart now j = (Inr xs, j1)" and s: "so_journal s = snd (prune now j1)" "so_log s = calls"
    using assms(1) by (auto simp: source_run_def split: prod.splits sum.splits)
  have wf: "journal_wf (jdb j1)" using movesD [OF jwf_recover rec] assms(2) by simp
  have "onward k (jdb j) (jdb j1)" using movesD [OF onward_recover rec] .
  with prune_core [OF wf, of now k] have "core_of (sdb s) k = None \<or> onward k (jdb j) (sdb s)"
    by (auto simp: onward_def s)
  moreover have "journal_wf (sdb s)" using jwf_prune [of now] wf by (simp add: moves_def s)
  ultimately show ?thesis using s by simp
qed

text \<open>The job \<open>k\<close> was given to an executor at most once, and if it was, its row says so.\<close>

definition once_inv :: "int \<Rightarrow> source \<Rightarrow> bool" where
  "once_inv k s \<longleftrightarrow>
     journal_wf (sdb s) \<and> count_list (map snd (so_log s)) k \<le> 1 \<and>
     (k \<in> snd ` set (so_log s) \<longrightarrow> started k (so_journal s))"

lemma once_inv_calm: "calm k s s' \<Longrightarrow> once_inv k s \<Longrightarrow> once_inv k s'"
  by (auto simp: calm_def once_inv_def intro: started_onward)

lemma once_inv_start:
  assumes "once_inv k s" and "start_execution now i (so_journal s) = (Inr True, so_journal s')"
    and "so_log s' = so_log s @ [(q, i)]"
  shows "once_inv k s'"
proof -
  have wf: "journal_wf (sdb s)" using assms(1) by (simp add: once_inv_def)
  have "journal_wf (sdb s')" using movesD [OF jwf_state_machine(1) assms(2)] wf by simp
  moreover have "onward k (sdb s) (sdb s')" using movesD [OF onward_start assms(2)] .
  moreover have "\<not> started i (so_journal s) \<and> started i (so_journal s')" using once.start_claims [OF wf assms(2)] .
  ultimately show ?thesis
    using assms(1,3) started_onward [of k "so_journal s" "so_journal s'"]
    by (auto simp: once_inv_def count_notin)
qed

text \<open>Job \<open>k\<close> is not pruned.\<close>

definition keeps_row :: "int \<Rightarrow> source \<Rightarrow> source \<Rightarrow> bool" where
  "keeps_row k s s' \<longleftrightarrow> core_of (sdb s) k = None \<or> core_of (sdb s') k \<noteq> None"

lemma started_known: "started k j \<Longrightarrow> core_of (jdb j) k \<noteq> None"
  by (cases "core_of (jdb j) k") (auto simp: started_def)

lemma once_inv_restart:
  assumes "source_run reg now (on_db (sdb s) fs) (so_log s) = Inr s'" and "keeps_row k s s'" and "once_inv k s"
  shows "once_inv k s'"
proof -
  have db: "jdb (on_db (sdb s) fs) = sdb s" by (simp add: on_db_def)
  have wf: "journal_wf (jdb (on_db (sdb s) fs))" using assms(3) by (simp add: db once_inv_def)
  note kept = source_run_keeps [OF assms(1) wf, of k, unfolded db]
  have "started k (so_journal s')" if "started k (so_journal s)"
  proof -
    have "core_of (sdb s') k \<noteq> None" using assms(2) started_known [OF that] by (auto simp: keeps_row_def)
    with kept have "onward k (sdb s) (sdb s')" by simp
    then show ?thesis using that by (rule started_onward)
  qed
  with kept assms(3) show ?thesis by (auto simp: once_inv_def)
qed

lemma once_inv_step:
  assumes "source_step ts reg tm s s'" and "keeps_row k s s'" and "once_inv k s"
  shows "once_inv k s'"
  using assms
proof (induction rule: source_step.induct)
  case (Next show_json v reply job s now t)
  have "0 < dj_id job" using Next.hyps by (rule parse_next_id)
  then have "calm k s (snd (accept_job ts reg now t job s))" using calm_accept by (simp add: moves_def)
  then show ?case using Next.prems(2) by (rule once_inv_calm)
next
  case (Start s now t q)
  show ?case
    using execute_start_cases [of k s tm now t q]
  proof
    assume "calm k s (execute_start tm now t q s)"
    then show ?thesis using Start.prems(2) by (rule once_inv_calm)
  qed (auto intro: once_inv_start [OF Start.prems(2)])
next
  case (Restart now s fs s')
  then show ?case by (rule once_inv_restart)
next
  case (Pending s odoo now p)
  show ?case by (rule once_inv_calm [OF calm_pending [THEN calm_move] Pending.prems(2)])
qed (auto elim!: once_inv_calm [rotated] intro!: calm_recv calm_guard calm_return calm_answer calm_silent
       calm_schedule [THEN calm_move] calm_acked [THEN calm_move]
       calm_reported [THEN calm_move] calm_admit [THEN calm_move] calm_write [THEN calm_move])

lemma once_inv_run:
  "run_with (keeps_row k) ts reg tm s s' \<Longrightarrow> once_inv k s \<Longrightarrow> once_inv k s'"
  by (induction rule: run_with.induct) (auto intro: once_inv_step)

text \<open>
  C4. A device executes a job at most once. Start the source on any well-formed journal; let it
  take jobs from Odoo and from the tills any number of times, also the same one, let workers,
  reconciler, ack and report senders interleave, let every journal statement fail or not, let the
  process die and start again at any moment: as long as its row is not pruned (which takes 400 days
  after Odoo accepted its outcome), no job is handed to an executor twice.
\<close>

theorem executed_at_most_once:
  assumes "journal_wf (jdb j)" and "source_run reg now j [] = Inr s0"
    and "run_with (keeps_row k) ts reg tm s0 s"
  shows "count_list (map snd (so_log s)) k \<le> 1"
proof -
  have "once_inv k s0" using source_run_keeps [OF assms(2,1)] by (simp add: once_inv_def)
  with once_inv_run [OF assms(3)] show ?thesis by (simp add: once_inv_def)
qed

definition sample_timing :: Timing where
  "sample_timing =
     \<lparr>tm_short_poll_sleep = 2, tm_min_long_poll = 1, tm_pending_retry = 15, tm_execute_guard = 24,
      tm_max_queue_wait = 12, tm_lan_answer_wait = 9, tm_backoff_base = 1, tm_backoff_max = 30\<rparr>"

definition sample_executor :: DeviceExecutor where
  "sample_executor =
     \<lparr>ex_kind = Fiscal, ex_name = ''portos'', ex_status = ''ok'', ex_check = (\<lambda>_. None),
      ex_endpoints = [[]], ex_endpoint = (\<lambda>_. [])\<rparr>"

definition sample_registry :: ExecutorRegistry where
  "sample_registry = Map.empty(Fiscal \<mapsto> sample_executor)"

definition sample_next :: "int \<Rightarrow> json" where
  "sample_next i = JObj [(''job'', JObj [(''id'', JInt i), (''type'', JStr ''fiscal.cash_register'')]), (''ok'', JBool True)]"

definition sample_claim :: "int \<Rightarrow> DeviceJob" where
  "sample_claim i =
     \<lparr>dj_id = i, dj_job_type = ''fiscal.cash_register'', dj_client_uuid = [], dj_kasa_id = None, dj_kasa_name = [],
      dj_pos_order = JNull, dj_payload = JObj [], dj_created_at = [], dj_claimed_at = []\<rparr>"

abbreviation no_ts :: "instant \<Rightarrow> string" where "no_ts \<equiv> \<lambda>_. []"

abbreviation fiscal_queue :: DeviceQueue where "fiscal_queue \<equiv> \<lparr>dq_kind = Fiscal, dq_endpoint = []\<rparr>"

text \<open>The moves of a concrete run.\<close>

datatype source_move =
    M_Next int | M_Recv | M_Start nat | M_Guard | M_Return "string + Outcome" | M_Answer "string + Reconciliation"
  | M_Schedule JournalEntry | M_Restart "bool list"

fun move :: "source_move \<Rightarrow> source \<Rightarrow> source" where
  "move (M_Next i) s = snd (accept_job no_ts sample_registry 0 0 (sample_claim i) s)"
| "move M_Recv s = (if so_workers s fiscal_queue = W_Idle then worker_recv no_ts fiscal_queue s else s)"
| "move (M_Start t) s = execute_start sample_timing 0 t fiscal_queue s"
| "move M_Guard s = execute_guard sample_timing 0 fiscal_queue s"
| "move (M_Return oc) s = execute_return 0 fiscal_queue oc s"
| "move (M_Answer a) s = reconcile_return 0 fiscal_queue a s"
| "move (M_Schedule e) s = snd (schedule_one sample_registry 0 e s)"
| "move (M_Restart fs) s =
     (case source_run sample_registry 0 (on_db (sdb s) fs) (so_log s) of Inr s' \<Rightarrow> s' | Inl _ \<Rightarrow> s)"

lemma sample_next_parse:
  "0 < i \<Longrightarrow> i < 2 ^ 63 \<Longrightarrow> parse_next (\<lambda>_. []) (sample_next i) = Inr \<lparr>nx_job = Some (sample_claim i), nx_wait_s = 0, nx_kasy = []\<rparr>"
  by (simp add: parse_next_def sample_next_def require_ok_def jget_def as_bool_def parse_job_def is_object_def
      positive_id_def as_i64_def text_of_def sample_claim_def parse_kasy_def Let_def)

fun possible :: "source_move \<Rightarrow> bool" where
  "possible (M_Next i) \<longleftrightarrow> 0 < i \<and> i < 2 ^ 63"
| "possible _ \<longleftrightarrow> True"

lemma move_step:
  assumes "possible m"
  shows "move m s = s \<or> source_step no_ts sample_registry sample_timing s (move m s)"
proof (cases m)
  case (M_Next i)
  with assms have "parse_next (\<lambda>_. []) (sample_next i) = Inr \<lparr>nx_job = Some (sample_claim i), nx_wait_s = 0, nx_kasy = []\<rparr>"
    by (simp add: sample_next_parse)
  from Next [OF this] show ?thesis using M_Next by simp
qed (auto intro: source_step.intros split: sum.splits)

text \<open>A list of moves is a run, when each of them satisfies the condition of the run.\<close>

fun moves_ok :: "(source \<Rightarrow> source \<Rightarrow> bool) \<Rightarrow> source_move list \<Rightarrow> source \<Rightarrow> bool" where
  "moves_ok P [] s \<longleftrightarrow> True"
| "moves_ok P (m # ms) s \<longleftrightarrow> possible m \<and> P s (move m s) \<and> moves_ok P ms (move m s)"

lemma run_moves:
  "moves_ok P ms s \<Longrightarrow> run_with P no_ts sample_registry sample_timing s0 s \<Longrightarrow>
   run_with P no_ts sample_registry sample_timing s0 (fold move ms s)"
proof (induction ms arbitrary: s)
  case (Cons m ms)
  have "run_with P no_ts sample_registry sample_timing s0 (move m s)"
    using move_step [of m s] Cons.prems by (auto intro: More)
  with Cons show ?case by simp
qed simp

definition sample_source :: "bool list \<Rightarrow> source" where
  "sample_source fs =
     (case source_run sample_registry 0 (on_db empty_journal (replicate 10 False @ fs)) [] of Inr s \<Rightarrow> s)"

lemma sample_source_run:
  "source_run sample_registry 0 (on_db empty_journal (replicate 10 False @ fs)) [] = Inr (sample_source fs)"
proof -
  have "fst (recover_after_restart 0 (on_db empty_journal (replicate 10 False @ fs))) = Inr []"
    by (simp add: recover_after_restart_def on_conn_def zoom_op_def transaction_def try_op_def tx_mark_def query_def
        sql_def ok_def on_db_def empty_journal_def numeral_eq_Suc)
  then show ?thesis
    by (cases "recover_after_restart 0 (on_db empty_journal (replicate 10 False @ fs))")
      (simp add: source_run_def sample_source_def)
qed

text \<open>The job is handed out three times, with a crash in between: one execution.\<close>

definition twice_claimed :: "source_move list" where
  "twice_claimed =
     [M_Next 7, M_Recv, M_Start 5, M_Next 7, M_Restart [], M_Next 7, M_Recv, M_Start 6]"

theorem executed_at_most_once_witness:
  "\<exists>s. run_with (keeps_row 7) no_ts sample_registry sample_timing (sample_source []) s \<and>
       so_log s = [(fiscal_queue, 7)] \<and> count_list (map snd (so_log s)) 7 \<le> 1"
proof -
  let ?s = "fold move twice_claimed (sample_source [])"
  have wf: "journal_wf (jdb (on_db empty_journal (replicate 10 False @ [])))"
    by (simp add: on_db_def journal_wf_empty)
  have "moves_ok (keeps_row 7) twice_claimed (sample_source [])" "so_log ?s = [(fiscal_queue, 7)]"
    by code_simp+
  then have run: "run_with (keeps_row 7) no_ts sample_registry sample_timing (sample_source []) ?s"
    by (intro run_moves Done)
  from executed_at_most_once [OF wf sample_source_run run] run \<open>so_log ?s = [(fiscal_queue, 7)]\<close>
  show ?thesis by blast
qed

section \<open>One call per device\<close>

text \<open>The tasks other than the workers neither call a device nor move a worker.\<close>

definition still :: "source \<Rightarrow> source \<Rightarrow> bool" where
  "still s s' \<longleftrightarrow> so_calls s' = so_calls s \<and> so_workers s' = so_workers s"

interpretation still: step_relation still
  by unfold_locales (auto simp: still_def)

named_theorems still_keeps "operations of the source that leave the workers alone"

lemma still_on_journal [still_keeps]: "moves still (on_journal m)"
  by (auto intro!: movesI simp: still_def on_journal_def zoom_op_def split: prod.splits)

lemma still_silent [still_keeps]:
  "moves still (modify_op ack_soon)" "moves still (modify_op outcome_recorded)"
  "moves still (queue_item reg job item)" "moves still (send_item q item)" "moves still (start_reconcile i)"
  by (auto intro!: movesI simp: still_def modify_op_def outcome_recorded_def ack_soon_def queue_item_def send_item_def
      start_reconcile_def split: option.splits)

lemma still_accept: "moves still (accept_job ts reg now t job)"
  unfolding accept_job_def Let_def
  by (intro still.moves_rules still_keeps)
    (auto split: sum.splits Inserted.splits prod.splits intro!: still.moves_rules still_keeps)

lemma still_pending: "moves still (pending_loop ts odoo now ps later)"
proof (induction ps arbitrary: later)
  case Nil
  then show ?case by (simp only: pending_loop.simps) (intro still.moves_rules still_keeps)
next
  case (Cons p ps)
  then show ?case by (simp only: pending_loop.simps) (intro still.moves_rules still_keeps Cons)
qed

lemma still_schedule: "still s (snd (schedule_one reg now entry s))"
proof -
  let ?id = "dj_id (je_job entry)"
  have "moves still (try_op (start_reconcile ?id) (\<lambda>mine. if mine
      then try_op (send_item q (Reconcile ?id)) (\<lambda>_. ok ()) else ok ()))" for q
    by (intro still.moves_rules still_keeps)
  moreover have "moves still (try_op (on_journal (record_still_unknown now ?id UNRECONCILABLE_TEXT))
      (\<lambda>_. modify_op outcome_recorded))"
    by (intro still.moves_rules still_keeps)
  ultimately show ?thesis
    using still.step_refl by (auto simp: schedule_one_def Let_def moves_def ok_def split: option.splits)
qed

lemma still_admit: "moves still (admit ts reg now t req)"
  unfolding admit_def Let_def
  by (intro still.moves_rules still_keeps)
    (auto split: sum.splits LanInserted.splits prod.splits intro!: still.moves_rules still_keeps)

definition calls_on :: "DeviceQueue \<Rightarrow> source \<Rightarrow> device_call list" where
  "calls_on q s = map snd (filter (\<lambda>x. fst x = q) (so_calls s))"

text \<open>A worker that awaits a call has exactly that call running, an idle one none.\<close>

definition serial_ok :: "worker_pc \<Rightarrow> device_call list \<Rightarrow> bool" where
  "serial_ok pc cs \<longleftrightarrow>
     (case awaited pc of Some c \<Rightarrow> cs = [c] | None \<Rightarrow> if pc = W_Gone then length cs \<le> 1 else cs = [])"

definition serial_at :: "DeviceQueue \<Rightarrow> source \<Rightarrow> bool" where
  "serial_at q s \<longleftrightarrow> serial_ok (so_workers s q) (calls_on q s)"

lemma serial_still: "still s s' \<Longrightarrow> serial_at q s \<Longrightarrow> serial_at q s'"
  by (simp add: still_def serial_at_def calls_on_def)

lemma serial_ok_simps [simp]:
  "serial_ok W_Idle cs \<longleftrightarrow> cs = []" "serial_ok (W_Loaded e t) cs \<longleftrightarrow> cs = []"
  "serial_ok (W_Running job) cs \<longleftrightarrow> cs = [Run (dj_id job)]" "serial_ok (W_Overdue job) cs \<longleftrightarrow> cs = [Run (dj_id job)]"
  "serial_ok (W_Asking e) cs \<longleftrightarrow> cs = [Ask (dj_id (je_job e))]" "serial_ok W_Gone cs \<longleftrightarrow> length cs \<le> 1"
  by (simp_all add: serial_ok_def awaited_def)

lemma calls_frame [simp]:
  "calls_on p (set_worker q pc s) = calls_on p s" "calls_on p (outcome_recorded s) = calls_on p s"
  "calls_on p (reconcile_done i s) = calls_on p s"
  "calls_on p (call_device q c s) = (if p = q then calls_on p s @ [c] else calls_on p s)"
  "so_workers (set_worker q pc s) = (so_workers s)(q := pc)" "so_workers (outcome_recorded s) = so_workers s"
  "so_workers (reconcile_done i s) = so_workers s" "so_workers (call_device q c s) = so_workers s"
  "so_workers (call_returned q c s) = so_workers s"
  by (simp_all add: calls_on_def set_worker_def outcome_recorded_def ack_soon_def reconcile_done_def call_device_def
      call_returned_def)

lemma calls_on_returned: "calls_on p (call_returned q c s) = (if p = q then remove1 c (calls_on p s) else calls_on p s)"
proof -
  have "map snd (filter (\<lambda>x. fst x = p) (remove1 (q, c) xs)) =
      (if p = q then remove1 c (map snd (filter (\<lambda>x. fst x = p) xs)) else map snd (filter (\<lambda>x. fst x = p) xs))"
    for xs :: "(DeviceQueue \<times> device_call) list"
    by (induction xs) auto
  then show ?thesis by (simp add: calls_on_def call_returned_def)
qed

lemma on_journal_frame:
  "on_journal m s = (r, s') \<Longrightarrow> calls_on p s' = calls_on p s \<and> so_workers s' = so_workers s"
  by (auto simp: on_journal_def zoom_op_def calls_on_def split: prod.splits)

lemma row_to_lan_id: "row_to_lan ts r = Inr l \<Longrightarrow> dj_id (je_job (lj_entry l)) = - ln_id r"
  by (auto simp: row_to_lan_def lan_job_id_def split: option.splits)

lemma row_to_entry_job: "row_to_entry r = Inr e \<Longrightarrow> je_job e = od_job r"
  by (auto simp: row_to_entry_def split: option.splits)

lemma read_row_Some: "read_row conv x = Inr (Some y) \<Longrightarrow> \<exists>r. x = Some r \<and> conv r = Inr y"
  by (auto simp: read_row_def split: option.splits sum.splits)

lemma journal_get_id:
  assumes "journal_get ts i j = (Inr (Some e), j')"
  shows "dj_id (je_job e) = i"
proof (cases "is_lan_job i")
  case True
  with assms obtain l where "read_row (row_to_lan ts) (row_of ln_id (lan_job_id i) (jd_lan_jobs (jdb j))) = Inr (Some l)"
    and e: "e = lj_entry l"
    by (auto simp: journal_get_def lan_job_by_id_def ok_def elim!: try_op_InrE dest!: on_conn_InrD query_InrD)
  then obtain r where "row_of ln_id (lan_job_id i) (jd_lan_jobs (jdb j)) = Some r" "row_to_lan ts r = Inr l"
    by (blast dest: read_row_Some)
  with e show ?thesis by (auto simp: row_to_lan_id lan_job_id_def dest: row_of_SomeD)
next
  case False
  with assms have "read_row row_to_entry (row_of od_id i (jd_device_jobs (jdb j))) = Inr (Some e)"
    by (auto simp: journal_get_def dest!: on_conn_InrD query_InrD)
  then obtain r where "row_of od_id i (jd_device_jobs (jdb j)) = Some r" "row_to_entry r = Inr e"
    by (blast dest: read_row_Some)
  then show ?thesis by (auto simp: row_to_entry_job dest: row_of_SomeD)
qed

lemma on_journal_run:
  "on_journal m s = (fst (m (so_journal s)), s\<lparr>so_journal := snd (m (so_journal s))\<rparr>)"
  by (simp add: on_journal_def zoom_op_def split: prod.splits)

lemma frame_journal [simp]: "calls_on p (s\<lparr>so_journal := j\<rparr>) = calls_on p s" "calls_on p (s\<lparr>so_queues := qs\<rparr>) = calls_on p s"
  by (simp_all add: calls_on_def)

lemma serial_recv:
  assumes "serial_at p s" and idle: "so_workers s q = W_Idle"
  shows "serial_at p (worker_recv ts q s)"
proof (cases "\<exists>item items. so_queues s q = Some (item # items)")
  case False
  then have "worker_recv ts q s = s" by (auto simp: worker_recv_def split: option.splits list.splits)
  with assms show ?thesis by simp
next
  case True
  then obtain item items where q: "so_queues s q = Some (item # items)" by blast
  let ?i = "case item of Execute i _ \<Rightarrow> i | Reconcile i \<Rightarrow> i"
  obtain r j' where get: "journal_get ts ?i (so_journal s) = (r, j')" by fastforce
  have id: "dj_id (je_job e) = ?i" if "r = Inr (Some e)" for e using get that by (auto intro: journal_get_id)
  show ?thesis
  proof (cases item)
    case (Execute i w)
    then show ?thesis using q get assms
      by (cases "\<exists>e. r = Inr (Some e)")
        (auto simp: worker_recv_def on_journal_run serial_at_def split: sum.splits option.splits)
  next
    case (Reconcile i)
    show ?thesis
    proof (cases "\<exists>e. r = Inr (Some e) \<and> je_state e = J_Indeterminate")
      case True
      then show ?thesis using q get assms id Reconcile by (auto simp: worker_recv_def on_journal_run serial_at_def)
    next
      case False
      then show ?thesis using q get assms Reconcile
        by (auto simp: worker_recv_def on_journal_run serial_at_def split: sum.splits option.splits)
    qed
  qed
qed

lemma serial_start:
  assumes "serial_at p s"
  shows "serial_at p (execute_start tm now t q s)"
proof (cases "so_workers s q")
  case (W_Loaded e w)
  then show ?thesis using assms
    by (auto simp: execute_start_def Let_def on_journal_run serial_at_def split: sum.splits bool.splits)
qed (use assms in \<open>auto simp: execute_start_def\<close>)

lemma record_outcome_answers:
  assumes "cn_faults (jo_conn j) = []"
  shows "\<exists>b. fst (record_outcome now k oc j) = Inr b"
  using assms
  by (cases oc) (auto simp: record_outcome_def update_located_def on_conn_def zoom_op_def Let_def split: prod.splits)

abbreviation quiet_journal :: "source \<Rightarrow> bool" where
  "quiet_journal s \<equiv> cn_faults (jo_conn (so_journal s)) = []"

lemma serial_guard:
  assumes "serial_at p s" and "quiet_journal s"
  shows "serial_at p (execute_guard tm now q s)"
proof (cases "so_workers s q")
  case (W_Running job)
  then show ?thesis
    using assms(1) record_outcome_answers [OF assms(2), of now "dj_id job" "O_Indeterminate (guard_text tm q)"]
    by (auto simp: execute_guard_def on_journal_run serial_at_def)
qed (use assms in \<open>auto simp: execute_guard_def\<close>)

lemma serial_return:
  assumes "serial_at p s"
  shows "serial_at p (execute_return now q joined s)"
proof (cases "awaited_job (so_workers s q)")
  case (Some job)
  then have "so_workers s q = W_Running job \<or> so_workers s q = W_Overdue job"
    by (auto simp: awaited_job_def split: worker_pc.splits)
  then show ?thesis using assms Some
    by (auto simp: execute_return_def on_journal_run serial_at_def calls_on_returned split: sum.splits)
qed (use assms in \<open>auto simp: execute_return_def\<close>)

lemma serial_answer:
  assumes "serial_at p s"
  shows "serial_at p (reconcile_return now q answer s)"
proof (cases "so_workers s q")
  case (W_Asking e)
  then show ?thesis using assms
    by (auto simp: reconcile_return_def Let_def on_journal_run serial_at_def calls_on_returned split: sum.splits)
qed (use assms in \<open>auto simp: reconcile_return_def\<close>)

lemma serial_detached:
  assumes "serial_at p s" and "(q, c) \<in> set (so_calls s)" and "awaited (so_workers s q) \<noteq> Some c"
  shows "serial_at p (call_returned q c s)"
proof (cases "p = q")
  case True
  have "c \<in> set (calls_on q s)" using assms(2) by (force simp: calls_on_def)
  then have "so_workers s q = W_Gone"
    using assms(1,3) True by (auto simp: serial_at_def serial_ok_def split: option.splits if_splits)
  then show ?thesis using assms(1) True
    by (auto simp: serial_at_def calls_on_returned length_remove1 split: if_splits)
qed (use assms(1) in \<open>simp add: serial_at_def calls_on_returned\<close>)

lemma serial_gone: "serial_at p s \<Longrightarrow> serial_at p (set_worker q W_Gone s)"
  by (auto simp: serial_at_def serial_ok_def awaited_def split: option.splits worker_pc.splits if_splits)

lemma serial_run: "source_run reg now j calls = Inr s \<Longrightarrow> serial_at q s"
  by (auto simp: source_run_def serial_at_def calls_on_def split: prod.splits sum.splits)

lemma serial_step:
  assumes "source_step ts reg tm s s'" and "quiet_journal s" and "serial_at q s"
  shows "serial_at q s'"
  using assms
proof (induction rule: source_step.induct)
  case (Pending s odoo now p)
  show ?case by (rule serial_still [OF movesD [OF still_pending surjective_pairing] Pending.prems(2)])
next
  case (Next show_json v reply job s now t)
  show ?case by (rule serial_still [OF movesD [OF still_accept surjective_pairing] Next.prems(2)])
next
  case (Admit s now t req)
  show ?case by (rule serial_still [OF movesD [OF still_admit surjective_pairing] Admit.prems(2)])
qed (auto intro: serial_still [OF still_schedule] serial_still [OF movesD [OF still_on_journal surjective_pairing]]
       serial_recv serial_start serial_guard serial_return serial_answer serial_detached serial_gone serial_run)

text \<open>
  C8. One device, one call at a time. As long as no journal statement fails, at most one call of
  an executor, a job or a question about one, runs on a device at any moment of any run: the next
  one starts only after the last one returned, also when it outlasted the guard time.
\<close>

theorem device_calls_serial:
  assumes "source_run reg now j [] = Inr s0" and "run_with (\<lambda>s s'. quiet_journal s) ts reg tm s0 s"
  shows "length (calls_on q s) \<le> 1"
proof -
  have "serial_at q s0" using assms(1) by (rule serial_run)
  with assms(2) have "serial_at q s"
    by (induction rule: run_with.induct) (auto intro: serial_step)
  then show ?thesis by (cases "so_workers s q") (simp_all add: serial_at_def)
qed

text \<open>Two jobs; the first outlasts the guard time before it returns.\<close>

theorem device_calls_serial_witness:
  "\<exists>s. run_with (\<lambda>s s'. quiet_journal s) no_ts sample_registry sample_timing (sample_source []) s \<and>
       calls_on fiscal_queue s = [Run 8] \<and> length (calls_on fiscal_queue s) \<le> 1"
proof -
  let ?ms = "[M_Next 7, M_Next 8, M_Recv, M_Start 5, M_Guard, M_Recv, M_Return (Inr (O_Done JNull)), M_Recv, M_Start 6]"
  let ?s = "fold move ?ms (sample_source [])"
  have "moves_ok (\<lambda>s s'. quiet_journal s) ?ms (sample_source [])" and calls: "calls_on fiscal_queue ?s = [Run 8]"
    by code_simp+
  then have run: "run_with (\<lambda>s s'. quiet_journal s) no_ts sample_registry sample_timing (sample_source []) ?s"
    by (intro run_moves Done)
  from device_calls_serial [OF sample_source_run run, of fiscal_queue] run calls show ?thesis by blast
qed

text \<open>
  C35. When the guard time of a job is over and the journal write of that moment fails, the worker
  gives up awaiting the call and takes the next job: two executor calls then run on one device at
  the same time.
\<close>

theorem two_jobs_on_one_device:
  "\<exists>s. run_with (\<lambda>s s'. True) no_ts sample_registry sample_timing (sample_source (replicate 4 False @ [True])) s \<and>
       calls_on fiscal_queue s = [Run 7, Run 8]"
proof -
  let ?ms = "[M_Next 7, M_Next 8, M_Recv, M_Start 5, M_Guard, M_Recv, M_Start 6]"
  let ?s0 = "sample_source (replicate 4 False @ [True])"
  have "moves_ok (\<lambda>s s'. True) ?ms ?s0" and calls: "calls_on fiscal_queue (fold move ?ms ?s0) = [Run 7, Run 8]"
    by code_simp+
  then have "run_with (\<lambda>s s'. True) no_ts sample_registry sample_timing ?s0 (fold move ?ms ?s0)"
    by (intro run_moves Done)
  with calls show ?thesis by blast
qed

end
