(* ===== verification/Portos_Payload.thy ===== *)
theory Portos_Payload
  imports Device_Source "HOL-Library.Log_Nat"
begin

text \<open>
  The payloads of the \<open>fiscal.*\<close> jobs (\<open>device_jobs/portos/payload.rs\<close>): what is accepted before a
  job is journaled, and the request the Portos eKasa service gets for it. A check returns the list of
  its problems, in the order the source's \<open>Checker\<close> collects them. Numbers are compared as the
  \<open>f64\<close> values \<open>serde_json\<close> reads; rounding to \<open>f64\<close> is written out on rationals. The SHA-256 digest
  (as lower-case hexadecimal text), \<open>chrono\<close>'s RFC 3339 parser and the number printer of
  \<open>serde_json\<close> are the parameters \<open>sha256_hex\<close>, \<open>rfc3339\<close> and \<open>show_json\<close>.
\<close>

section \<open>Operations\<close>

datatype ReceiptKind = CashRegister | Invalid | Deposit | Withdraw | Paragon

fun receipt_path :: "ReceiptKind \<Rightarrow> string" where
  "receipt_path CashRegister = ''/api/v1/requests/receipts/cash_register''"
| "receipt_path Invalid = ''/api/v1/requests/receipts/invalid''"
| "receipt_path Deposit = ''/api/v1/requests/receipts/deposit''"
| "receipt_path Withdraw = ''/api/v1/requests/receipts/withdraw''"
| "receipt_path Paragon = ''/api/v1/requests/receipts/paragon''"

fun receipt_type :: "ReceiptKind \<Rightarrow> string" where
  "receipt_type CashRegister = ''CashRegister''"
| "receipt_type Invalid = ''Invalid''"
| "receipt_type Deposit = ''Deposit''"
| "receipt_type Withdraw = ''Withdraw''"
| "receipt_type Paragon = ''Paragon''"

datatype FiscalOp = Register ReceiptKind | PrintCopy | OpenDrawer | PrintText

definition fiscal_op :: "string \<Rightarrow> FiscalOp option" where
  "fiscal_op t =
     (if t = ''fiscal.cash_register'' then Some (Register CashRegister)
      else if t = ''fiscal.invalid'' then Some (Register Invalid)
      else if t = ''fiscal.deposit'' then Some (Register Deposit)
      else if t = ''fiscal.withdraw'' then Some (Register Withdraw)
      else if t = ''fiscal.paragon'' then Some (Register Paragon)
      else if t = ''fiscal.print_copy'' then Some PrintCopy
      else if t = ''fiscal.open_drawer'' then Some OpenDrawer
      else if t = ''fiscal.print_text'' then Some PrintText
      else None)"

text \<open>The idempotency key of an operation of a till.\<close>

definition external_id :: "(string \<Rightarrow> string) \<Rightarrow> int \<Rightarrow> string \<Rightarrow> string" where
  "external_id sha256_hex kasa_id client_uuid =
     ''dbj-'' @ take 32 (sha256_hex (int_text kasa_id @ '':'' @ client_uuid))"

definition ascii_digit :: "char \<Rightarrow> bool" where
  "ascii_digit c \<longleftrightarrow> 48 \<le> (of_char c :: nat) \<and> (of_char c :: nat) \<le> 57"

definition ascii_alnum :: "char \<Rightarrow> bool" where
  "ascii_alnum c \<longleftrightarrow>
     ascii_digit c \<or> 65 \<le> (of_char c :: nat) \<and> (of_char c :: nat) \<le> 90 \<or>
     97 \<le> (of_char c :: nat) \<and> (of_char c :: nat) \<le> 122"

definition hexdigit :: "char \<Rightarrow> bool" where
  "hexdigit c \<longleftrightarrow>
     ascii_digit c \<or> 65 \<le> (of_char c :: nat) \<and> (of_char c :: nat) \<le> 70 \<or>
     97 \<le> (of_char c :: nat) \<and> (of_char c :: nat) \<le> 102"

definition client_uuid_ok :: "string \<Rightarrow> bool" where
  "client_uuid_ok u \<longleftrightarrow>
     1 \<le> length u \<and> length u \<le> 64 \<and> list_all (\<lambda>b. ascii_alnum b \<or> b = CHR ''_'' \<or> b = CHR ''-'') u"

definition cash_register_code_ok :: "string \<Rightarrow> bool" where
  "cash_register_code_ok code \<longleftrightarrow> 16 \<le> length code \<and> length code \<le> 17 \<and> list_all ascii_digit code"

text \<open>\<open>str::split\<close> with a one-byte separator.\<close>

fun split_on :: "char \<Rightarrow> string \<Rightarrow> string list" where
  "split_on sep [] = [[]]"
| "split_on sep (c # s) =
     (if c = sep then [] # split_on sep s
      else (case split_on sep s of [] \<Rightarrow> [[c]] | g # gs \<Rightarrow> (c # g) # gs))"

definition uuid_ok :: "string \<Rightarrow> bool" where
  "uuid_ok s =
     (let groups = split_on (CHR ''-'') s
      in length groups = 5 \<and> list_all (\<lambda>(g, n). length g = n \<and> list_all hexdigit g) (zip groups [8, 4, 4, 4, 12]))"

section \<open>Decimal places of an \<open>f64\<close>\<close>

definition pow2 :: "int \<Rightarrow> rat" where
  "pow2 e = (if 0 \<le> e then 2 ^ nat e else 1 / 2 ^ nat (- e))"

text \<open>To the nearest integer, a tie to the even one.\<close>

definition round_even :: "rat \<Rightarrow> int" where
  "round_even q =
     (let f = \<lfloor>q\<rfloor>; d = q - of_int f
      in if d < 1 / 2 then f else if 1 / 2 < d then f + 1 else if even f then f else f + 1)"

text \<open>The binary exponent of a number that is not 0: the greatest \<open>k\<close> with \<open>2 ^ k \<le> \<bar>r\<bar>\<close>.\<close>

definition binary_exponent :: "rat \<Rightarrow> int" where
  "binary_exponent r =
     (let (p, q) = quotient_of \<bar>r\<bar>; k = int (nat (bitlen p)) - int (nat (bitlen q))
      in if pow2 k \<le> \<bar>r\<bar> then k else k - 1)"

text \<open>
  The \<open>f64\<close> nearest to a number, ties to even, subnormal numbers included; \<open>None\<close> is an infinity.
\<close>

definition to_f64 :: "rat \<Rightarrow> rat option" where
  "to_f64 r =
     (if r = 0 then Some 0
      else let u = pow2 (max (binary_exponent r - 52) (- 1074)); v = of_int (round_even (r / u)) * u
           in if \<bar>v\<bar> < pow2 1024 then Some v else None)"

text \<open>\<open>format!("{x:.places$}").parse::<f64>() == Ok(x)\<close>: the text is the decimal nearest to \<open>x\<close>.\<close>

definition has_at_most_decimals :: "rat \<Rightarrow> nat \<Rightarrow> bool" where
  "has_at_most_decimals x places \<longleftrightarrow> to_f64 (of_int (round_even (x * 10 ^ places)) / 10 ^ places) = Some x"

text \<open>\<open>f64::round\<close>: to the nearest integer, a tie away from zero.\<close>

definition round_away :: "rat \<Rightarrow> int" where
  "round_away q = (if 0 \<le> q then \<lfloor>q + 1 / 2\<rfloor> else - \<lfloor>1 / 2 - q\<rfloor>)"

text \<open>\<open>Number::as_f64\<close>; it has a value for every number.\<close>

definition as_f64 :: "json \<Rightarrow> rat option" where
  "as_f64 v = (case v of JInt n \<Rightarrow> to_f64 (of_int n) | JFloat r \<Rightarrow> Some r | _ \<Rightarrow> None)"

section \<open>Problems of a field\<close>

type_synonym fields = "(string \<times> json) list"
type_synonym problems = "string list"

definition fail :: "string \<Rightarrow> string \<Rightarrow> problems" where
  "fail path rule = [path @ '' '' @ rule]"

text \<open>\<open>Checker::object\<close> followed by the checks of the object.\<close>

definition with_object :: "json \<Rightarrow> string \<Rightarrow> (fields \<Rightarrow> problems) \<Rightarrow> problems" where
  "with_object v path k = (case v of JObj obj \<Rightarrow> k obj | _ \<Rightarrow> fail path ''must be an object'')"

definition only_keys :: "fields \<Rightarrow> string \<Rightarrow> string list \<Rightarrow> problems" where
  "only_keys obj path allowed =
     concat (map (\<lambda>key. if key \<in> set allowed then [] else fail (path @ ''.'' @ key) ''is not allowed'') (map fst obj))"

record text_rule =
  tr_required :: bool
  tr_max :: nat
  tr_printable :: bool

definition Text_required :: "nat \<Rightarrow> text_rule" where
  "Text_required n = \<lparr>tr_required = True, tr_max = n, tr_printable = True\<rparr>"

definition Text_optional :: "nat \<Rightarrow> text_rule" where
  "Text_optional n = \<lparr>tr_required = False, tr_max = n, tr_printable = True\<rparr>"

definition Text_optional_tokens :: "nat \<Rightarrow> text_rule" where
  "Text_optional_tokens n = \<lparr>tr_required = False, tr_max = n, tr_printable = False\<rparr>"

text \<open>The code point of a UTF-8 character.\<close>

definition code_point :: "string \<Rightarrow> int" where
  "code_point ch =
     (case map of_char ch of
        [] \<Rightarrow> 0
      | a # rest \<Rightarrow>
          foldl (\<lambda>n b. n * 64 + b mod 64)
            (case length rest of 0 \<Rightarrow> a | Suc 0 \<Rightarrow> a mod 32 | Suc (Suc 0) \<Rightarrow> a mod 16 | _ \<Rightarrow> a mod 8) rest)"

definition is_control :: "string \<Rightarrow> bool" where
  "is_control ch \<longleftrightarrow> (let n = code_point ch in n \<le> 0x1F \<or> 0x7F \<le> n \<and> n \<le> 0x9F)"

definition check_string :: "fields \<Rightarrow> string \<Rightarrow> string \<Rightarrow> text_rule \<Rightarrow> problems" where
  "check_string obj path key rule =
     (let field = path @ ''.'' @ key;
          absent = (if tr_required rule then fail field ''is required'' else [])
      in case map_of obj key of
           None \<Rightarrow> absent
         | Some JNull \<Rightarrow> absent
         | Some (JStr s) \<Rightarrow>
             (let chars = length (utf8_chars s)
              in if chars = 0 \<or> blank s then fail field ''must not be empty''
                 else if chars > tr_max rule
                 then fail field (''must have at most '' @ nat_digits (tr_max rule) @ '' characters'')
                 else if tr_printable rule \<and> list_ex is_control (utf8_chars s)
                 then fail field ''must not contain control characters''
                 else [])
         | Some _ \<Rightarrow> fail field ''must be a string'')"

record num_rule =
  nr_required :: bool
  nr_nullable :: bool
  nr_places :: nat
  nr_non_negative :: bool

definition Num_required :: "nat \<Rightarrow> num_rule" where
  "Num_required n = \<lparr>nr_required = True, nr_nullable = False, nr_places = n, nr_non_negative = False\<rparr>"

definition Num_optional :: "nat \<Rightarrow> num_rule" where
  "Num_optional n = (Num_required n)\<lparr>nr_required := False\<rparr>"

definition MAX_ABS_AMOUNT :: rat where
  "MAX_ABS_AMOUNT = 10000000"

definition check_number :: "fields \<Rightarrow> string \<Rightarrow> string \<Rightarrow> num_rule \<Rightarrow> problems" where
  "check_number obj path key rule =
     (let field = path @ ''.'' @ key;
          number = (\<lambda>v. case as_f64 v of
              None \<Rightarrow> fail field ''must be a finite number''
            | Some x \<Rightarrow>
                if \<not> has_at_most_decimals x (nr_places rule)
                then fail field (''must have at most '' @ nat_digits (nr_places rule) @ '' decimal places'')
                else if \<bar>x\<bar> > MAX_ABS_AMOUNT \<or> nr_non_negative rule \<and> x < 0
                then fail field (''must be between '' @ (if nr_non_negative rule then ''0'' else ''-10000000'') @
                       '' and 10000000'')
                else [])
      in case map_of obj key of
           None \<Rightarrow> if nr_required rule then fail field ''is required'' else []
         | Some JNull \<Rightarrow> if nr_nullable rule then [] else fail field ''must be a number''
         | Some (JInt n) \<Rightarrow> number (JInt n)
         | Some (JFloat r) \<Rightarrow> number (JFloat r)
         | Some _ \<Rightarrow> fail field ''must be a number'')"

definition eq_ignore_ascii_case :: "string \<Rightarrow> string \<Rightarrow> bool" where
  "eq_ignore_ascii_case a b \<longleftrightarrow> map ascii_lower a = map ascii_lower b"

definition one_of :: "fields \<Rightarrow> string \<Rightarrow> string \<Rightarrow> string list \<Rightarrow> bool \<Rightarrow> problems" where
  "one_of obj path key allowed required =
     (let field = path @ ''.'' @ key;
          absent = (if required then fail field ''is required'' else []);
          wrong = fail field (''must be one of '' @ join '', '' allowed)
      in case map_of obj key of
           None \<Rightarrow> absent
         | Some JNull \<Rightarrow> absent
         | Some (JStr s) \<Rightarrow> if list_ex (\<lambda>a. eq_ignore_ascii_case a s) allowed then [] else wrong
         | Some _ \<Rightarrow> wrong)"

definition party :: "fields \<Rightarrow> string \<Rightarrow> string \<Rightarrow> string list \<Rightarrow> problems" where
  "party obj path key types =
     (let field = path @ ''.'' @ key
      in case map_of obj key of
           None \<Rightarrow> []
         | Some JNull \<Rightarrow> []
         | Some v \<Rightarrow> with_object v field (\<lambda>p.
             only_keys p field [''id'', ''type''] @ check_string p field ''id'' (Text_required 64) @
             one_of p field ''type'' types True))"

definition check_cash_register_code :: "fields \<Rightarrow> string \<Rightarrow> string \<Rightarrow> problems" where
  "check_cash_register_code obj path key =
     (let field = path @ ''.'' @ key; wrong = fail field ''must be the 16-17 digit cash register (ORP) code''
      in case map_of obj key of
           Some (JStr code) \<Rightarrow> if cash_register_code_ok code then [] else wrong
         | None \<Rightarrow> fail field ''is required''
         | Some JNull \<Rightarrow> fail field ''is required''
         | Some _ \<Rightarrow> wrong)"

section \<open>Payloads of receipts\<close>

definition ITEM_TYPES :: "string list" where
  "ITEM_TYPES = [''Positive'', ''ReturnedContainer'', ''Returned'', ''Correction'', ''Discount'', ''Advance'', ''Voucher'']"

definition TAX_FREE_REASONS :: "string list" where
  "TAX_FREE_REASONS =
     [''VATReverseCharge'', ''VATExemptionGood'', ''TravelAgency'', ''UsedGood'', ''Artwork'', ''CollectiblesAndAntiques'']"

definition CUSTOMER_ID_TYPES :: "string list" where "CUSTOMER_ID_TYPES = [''ICO'', ''DIC'', ''ICDPH'', ''Other'']"
definition SELLER_ID_TYPES :: "string list" where "SELLER_ID_TYPES = [''DIC'', ''ICDPH'']"
definition PRINTER_NAMES :: "string list" where "PRINTER_NAMES = [''pos'', ''pdf'', ''email'']"
definition DRAWER_PINS :: "string list" where "DRAWER_PINS = [''Pin2'', ''Pin5'']"
definition MAX_NAME_CHARS :: nat where "MAX_NAME_CHARS = 255"
definition MAX_EXTERNAL_ID_CHARS :: nat where "MAX_EXTERNAL_ID_CHARS = 128"
definition MAX_FREE_TEXT_CHARS :: nat where "MAX_FREE_TEXT_CHARS = 2000"
definition MAX_PARAGON_NUMBER :: nat where "MAX_PARAGON_NUMBER = 4294967295"

definition ISSUE_DATE_FORMAT :: string where
  "ISSUE_DATE_FORMAT =
     ''must be a date and time with its UTC offset (RFC 3339, e.g. 2026-10-23T19:00:22+02:00)''"

definition issue_date_problem :: "(string \<Rightarrow> instant option) \<Rightarrow> json option \<Rightarrow> instant \<Rightarrow> string option" where
  "issue_date_problem rfc3339 value now =
     (case value of
        None \<Rightarrow> Some ''is required''
      | Some JNull \<Rightarrow> Some ''is required''
      | Some (JStr s) \<Rightarrow>
          (case rfc3339 s of
             Some written \<Rightarrow>
               if written > now then Some (''must not be later than now (the store PC'' @ [CHR 0x27] @ ''s clock)'') else None
           | None \<Rightarrow> Some ISSUE_DATE_FORMAT)
      | Some _ \<Rightarrow> Some ISSUE_DATE_FORMAT)"

definition check_paragon :: "(string \<Rightarrow> instant option) \<Rightarrow> fields \<Rightarrow> string \<Rightarrow> instant \<Rightarrow> problems" where
  "check_paragon rfc3339 data path now =
     (case issue_date_problem rfc3339 (map_of data ''issueDate'') now of
        Some rule \<Rightarrow> fail (path @ ''.issueDate'') rule | None \<Rightarrow> []) @
     (let field = path @ ''.paragonNumber''
      in case map_of data ''paragonNumber'' of
           None \<Rightarrow> fail field ''is required''
         | Some JNull \<Rightarrow> fail field ''is required''
         | Some n \<Rightarrow>
             (case as_u64 n of
                Some k \<Rightarrow>
                  if 1 \<le> k \<and> k \<le> MAX_PARAGON_NUMBER then []
                  else fail field ''must be a whole number between 1 and 4294967295''
              | None \<Rightarrow> fail field ''must be a whole number between 1 and 4294967295''))"

definition ITEM_KEYS :: "string list" where
  "ITEM_KEYS =
     [''type'', ''name'', ''price'', ''unitPrice'', ''quantity'', ''referenceReceiptId'', ''vatRate'',
      ''specialRegulation'', ''voucherNumber'', ''seller'', ''description'']"

definition check_quantity :: "fields \<Rightarrow> string \<Rightarrow> problems" where
  "check_quantity it ipath =
     (let qpath = ipath @ ''.quantity''
      in case map_of it ''quantity'' of
           None \<Rightarrow> fail qpath ''is required''
         | Some JNull \<Rightarrow> fail qpath ''is required''
         | Some q \<Rightarrow> with_object q qpath (\<lambda>q.
             only_keys q qpath [''amount'', ''unit''] @
             check_number q qpath ''amount'' ((Num_required 4)\<lparr>nr_non_negative := True\<rparr>) @
             check_string q qpath ''unit'' (Text_optional 3)))"

definition check_item :: "json \<Rightarrow> string \<Rightarrow> problems" where
  "check_item item ipath =
     with_object item ipath (\<lambda>it.
       only_keys it ipath ITEM_KEYS @
       one_of it ipath ''type'' ITEM_TYPES True @
       check_string it ipath ''name'' (Text_required MAX_NAME_CHARS) @
       check_number it ipath ''price'' (Num_required 2) @
       check_number it ipath ''unitPrice'' (Num_required 6) @
       check_number it ipath ''vatRate'' ((Num_optional 2)\<lparr>nr_nullable := True\<rparr>) @
       check_string it ipath ''referenceReceiptId'' (Text_optional MAX_NAME_CHARS) @
       one_of it ipath ''specialRegulation'' TAX_FREE_REASONS False @
       check_string it ipath ''voucherNumber'' (Text_optional 50) @
       check_string it ipath ''description'' (Text_optional_tokens MAX_FREE_TEXT_CHARS) @
       party it ipath ''seller'' SELLER_ID_TYPES @
       check_quantity it ipath)"

text \<open>\<open>field[i]\<close> and the checks of each element.\<close>

definition check_each :: "string \<Rightarrow> (json \<Rightarrow> string \<Rightarrow> problems) \<Rightarrow> json list \<Rightarrow> problems" where
  "check_each field check xs =
     concat (map (\<lambda>(i, x). check x (field @ ''['' @ nat_digits i @ '']'')) (List.enumerate 0 xs))"

definition check_items :: "fields \<Rightarrow> string \<Rightarrow> problems" where
  "check_items data path =
     (let field = path @ ''.items''
      in case map_of data ''items'' of
           Some (JArr items) \<Rightarrow>
             if items \<noteq> [] then check_each field check_item items else fail field ''must not be empty''
         | None \<Rightarrow> fail field ''is required''
         | Some JNull \<Rightarrow> fail field ''is required''
         | Some _ \<Rightarrow> fail field ''must be a list'')"

definition check_payment :: "json \<Rightarrow> string \<Rightarrow> problems" where
  "check_payment payment ppath =
     with_object payment ppath (\<lambda>p.
       only_keys p ppath [''name'', ''amount''] @ check_string p ppath ''name'' (Text_required MAX_NAME_CHARS) @
       check_number p ppath ''amount'' (Num_required 2))"

definition check_payments :: "fields \<Rightarrow> string \<Rightarrow> problems" where
  "check_payments data path =
     (let field = path @ ''.payments''
      in case map_of data ''payments'' of
           None \<Rightarrow> []
         | Some JNull \<Rightarrow> []
         | Some (JArr payments) \<Rightarrow> check_each field check_payment payments
         | Some _ \<Rightarrow> fail field ''must be a list'')"

definition SALE_KEYS :: "string list" where
  "SALE_KEYS = [''items'', ''payments'', ''roundingAmount'', ''receiptType'', ''headerText'', ''footerText'', ''cashRegisterCode'']"

definition check_sale :: "(string \<Rightarrow> instant option) \<Rightarrow> fields \<Rightarrow> string \<Rightarrow> ReceiptKind \<Rightarrow> instant \<Rightarrow> problems" where
  "check_sale rfc3339 data path kind now =
     (case kind of
        CashRegister \<Rightarrow>
          party data path ''customer'' CUSTOMER_ID_TYPES @ only_keys data path (SALE_KEYS @ [''customer''])
      | Paragon \<Rightarrow>
          check_paragon rfc3339 data path now @ only_keys data path (SALE_KEYS @ [''issueDate'', ''paragonNumber''])
      | _ \<Rightarrow> only_keys data path SALE_KEYS) @
     check_number data path ''roundingAmount'' (Num_optional 2) @ check_items data path @ check_payments data path"

definition check_data :: "(string \<Rightarrow> instant option) \<Rightarrow> fields \<Rightarrow> ReceiptKind \<Rightarrow> instant \<Rightarrow> problems" where
  "check_data rfc3339 data kind now =
     (let path = ''payload.data'';
          wrong_type = (case map_of data ''receiptType'' of
              None \<Rightarrow> False
            | Some JNull \<Rightarrow> False
            | Some (JStr s) \<Rightarrow> \<not> eq_ignore_ascii_case s (receipt_type kind)
            | Some _ \<Rightarrow> True)
      in check_cash_register_code data path ''cashRegisterCode'' @
         check_string data path ''headerText'' (Text_optional_tokens MAX_FREE_TEXT_CHARS) @
         check_string data path ''footerText'' (Text_optional_tokens MAX_FREE_TEXT_CHARS) @
         (if wrong_type
          then fail (path @ ''.receiptType'') (''must be '' @ receipt_type kind @ '' (or left out)'') else []) @
         (if kind = Deposit \<or> kind = Withdraw
          then only_keys data path [''amount'', ''receiptType'', ''headerText'', ''footerText'', ''cashRegisterCode''] @
               check_number data path ''amount'' (Num_required 2)
          else check_sale rfc3339 data path kind now))"

definition check_print :: "fields \<Rightarrow> ReceiptKind \<Rightarrow> problems" where
  "check_print obj kind =
     (case map_of obj ''print'' of
        None \<Rightarrow> []
      | Some JNull \<Rightarrow> []
      | Some print \<Rightarrow>
          if kind = Paragon
          then fail ''payload.print'' (''is not allowed for a paragon (a parag'' @ [CHR 0xC3, CHR 0xB3] @
                 ''n takes no print context)'')
          else with_object print ''payload.print'' (\<lambda>p.
            only_keys p ''payload.print'' [''printerName'', ''options''] @
            one_of p ''payload.print'' ''printerName'' PRINTER_NAMES True @
            (case map_of p ''options'' of
               None \<Rightarrow> []
             | Some JNull \<Rightarrow> []
             | Some options \<Rightarrow> with_object options ''payload.print.options'' (\<lambda>_. []))))"

definition check_register :: "(string \<Rightarrow> instant option) \<Rightarrow> fields \<Rightarrow> ReceiptKind \<Rightarrow> instant \<Rightarrow> problems" where
  "check_register rfc3339 obj kind now =
     only_keys obj ''payload'' [''data'', ''print''] @ check_print obj kind @
     (case map_of obj ''data'' of
        None \<Rightarrow> fail ''payload.data'' ''is required''
      | Some data \<Rightarrow> with_object data ''payload.data'' (\<lambda>data. check_data rfc3339 data kind now))"

section \<open>Payloads without a fiscal record\<close>

definition whole_between :: "fields \<Rightarrow> string \<times> int \<times> int \<Rightarrow> problems" where
  "whole_between obj r =
     (case r of (key, low, high) \<Rightarrow>
        (case Option.bind (map_of obj key) as_i64 of
           Some n \<Rightarrow> if low \<le> n \<and> n \<le> high then []
             else fail (''payload.'' @ key) (''must be a whole number between '' @ int_text low @ '' and '' @ int_text high)
         | None \<Rightarrow>
             fail (''payload.'' @ key) (''must be a whole number between '' @ int_text low @ '' and '' @ int_text high)))"

definition has_key :: "fields \<Rightarrow> string \<Rightarrow> bool" where
  "has_key obj key \<longleftrightarrow> map_of obj key \<noteq> None"

definition check_print_copy :: "fields \<Rightarrow> problems" where
  "check_print_copy obj =
     (let path = ''payload'';
          by_number = length (filter (has_key obj) [''year'', ''month'', ''receiptNumber'']);
          ways = of_bool (has_key obj ''externalId'') + of_bool (has_key obj ''id'') + of_bool (by_number > 0) :: nat
      in only_keys obj path [''cashRegisterCode'', ''externalId'', ''id'', ''year'', ''month'', ''receiptNumber''] @
         check_cash_register_code obj path ''cashRegisterCode'' @
         (if ways \<noteq> 1
          then fail path ''must name the receipt exactly one way: externalId, id, or year + month + receiptNumber''
          else if has_key obj ''externalId''
          then check_string obj path ''externalId'' (Text_required MAX_EXTERNAL_ID_CHARS)
          else if has_key obj ''id''
          then (case Option.bind (map_of obj ''id'') as_str of
                  Some s \<Rightarrow> if uuid_ok s then [] else fail ''payload.id'' ''must be the Portos request id (a UUID)''
                | None \<Rightarrow> fail ''payload.id'' ''must be the Portos request id (a UUID)'')
          else concat (map (whole_between obj) [(''year'', 2019, 9999), (''month'', 1, 12), (''receiptNumber'', 1, 4294967295)])))"

definition PRINT_TEXT_WIDTH :: nat where "PRINT_TEXT_WIDTH = 40"
definition PRINT_TEXT_MAX_LINES :: nat where "PRINT_TEXT_MAX_LINES = 80"

definition PAGE_BREAK_TOKEN :: string where
  "PAGE_BREAK_TOKEN = [CHR 0x1A] @ ''pagebreak'' @ [CHR 0x1A]"

definition FORMAT_RANGES :: "(int \<times> int) list" where
  "FORMAT_RANGES =
     [(0xAD, 0xAD), (0x600, 0x605), (0x61C, 0x61C), (0x6DD, 0x6DD), (0x70F, 0x70F), (0x890, 0x891), (0x8E2, 0x8E2),
      (0x180E, 0x180E), (0x200B, 0x200F), (0x202A, 0x202E), (0x2060, 0x2064), (0x2066, 0x206F), (0xFEFF, 0xFEFF),
      (0xFFF9, 0xFFFB), (0x110BD, 0x110BD), (0x110CD, 0x110CD), (0x13430, 0x1343F), (0x1BCA0, 0x1BCA3),
      (0x1D173, 0x1D17A), (0xE0001, 0xE0001), (0xE0020, 0xE007F)]"

definition is_format_char :: "string \<Rightarrow> bool" where
  "is_format_char ch \<longleftrightarrow> list_ex (\<lambda>(lo, hi). lo \<le> code_point ch \<and> code_point ch \<le> hi) FORMAT_RANGES"

definition print_line_problem :: "string \<Rightarrow> string option" where
  "print_line_problem line =
     (if length (utf8_chars line) > PRINT_TEXT_WIDTH then Some ''must have at most 40 characters''
      else if list_ex (\<lambda>c. is_control c \<or> is_format_char c) (utf8_chars line)
      then Some ''must not contain control or format characters''
      else None)"

definition check_print_line :: "json \<Rightarrow> string \<Rightarrow> problems" where
  "check_print_line line field =
     (case line of
        JStr s \<Rightarrow> (case print_line_problem s of Some rule \<Rightarrow> fail field rule | None \<Rightarrow> [])
      | _ \<Rightarrow> fail field ''must be a string'')"

definition check_title :: "fields \<Rightarrow> problems" where
  "check_title obj =
     (case map_of obj ''title'' of
        None \<Rightarrow> fail ''payload.title'' ''is required''
      | Some JNull \<Rightarrow> fail ''payload.title'' ''is required''
      | Some title \<Rightarrow>
          (case title of
             JStr s \<Rightarrow> if blank s then fail ''payload.title'' ''must not be empty'' else check_print_line title ''payload.title''
           | _ \<Rightarrow> fail ''payload.title'' ''must be a string''))"

definition check_lines :: "fields \<Rightarrow> problems" where
  "check_lines obj =
     (case map_of obj ''lines'' of
        Some (JArr lines) \<Rightarrow>
          if lines = [] then fail ''payload.lines'' ''must not be empty''
          else if length lines > PRINT_TEXT_MAX_LINES then fail ''payload.lines'' ''must have at most 80 items''
          else check_each ''payload.lines'' check_print_line lines
      | None \<Rightarrow> fail ''payload.lines'' ''is required''
      | Some JNull \<Rightarrow> fail ''payload.lines'' ''is required''
      | Some _ \<Rightarrow> fail ''payload.lines'' ''must be a list'')"

definition check_print_text :: "fields \<Rightarrow> problems" where
  "check_print_text obj =
     only_keys obj ''payload'' [''title'', ''lines'', ''cut''] @ check_title obj @ check_lines obj @
     (case map_of obj ''cut'' of Some (JBool _) \<Rightarrow> [] | _ \<Rightarrow> fail ''payload.cut'' ''must be true or false'')"

text \<open>\<open>check_payload\<close> with the clock reading \<open>now\<close>: \<open>None\<close>, or the problems joined.\<close>

definition payload_problems :: "(string \<Rightarrow> instant option) \<Rightarrow> FiscalOp \<Rightarrow> json \<Rightarrow> instant \<Rightarrow> problems" where
  "payload_problems rfc3339 op payload now =
     with_object payload ''payload'' (\<lambda>obj.
       case op of
         Register kind \<Rightarrow> check_register rfc3339 obj kind now
       | PrintCopy \<Rightarrow> check_print_copy obj
       | OpenDrawer \<Rightarrow> only_keys obj ''payload'' [''pin''] @ one_of obj ''payload'' ''pin'' DRAWER_PINS False
       | PrintText \<Rightarrow> check_print_text obj)"

definition check_payload :: "(string \<Rightarrow> instant option) \<Rightarrow> FiscalOp \<Rightarrow> json \<Rightarrow> instant \<Rightarrow> string option" where
  "check_payload rfc3339 op payload now =
     (let problems = payload_problems rfc3339 op payload now
      in if problems = [] then None else Some (join ''; '' problems))"

section \<open>Requests\<close>

definition cash_register_code :: "FiscalOp \<Rightarrow> json \<Rightarrow> string option" where
  "cash_register_code op payload =
     (case op of
        Register _ \<Rightarrow> Option.bind (Option.bind (jget ''data'' payload) (jget ''cashRegisterCode'')) as_str
      | PrintCopy \<Rightarrow> Option.bind (jget ''cashRegisterCode'' payload) as_str
      | _ \<Rightarrow> None)"

text \<open>The body of a register request; the \<open>externalId\<close> is always devbridge's own.\<close>

definition register_body :: "json \<Rightarrow> string \<Rightarrow> json" where
  "register_body payload ext =
     (let request = (''request'', JObj [(''data'', case jget ''data'' payload of None \<Rightarrow> JNull | Some d \<Rightarrow> d),
                                        (''externalId'', JStr ext)])
      in case jget ''print'' payload of
           None \<Rightarrow> JObj [request]
         | Some print \<Rightarrow> if print = JNull then JObj [request] else JObj [(''print'', print), request])"

definition copy_query :: "(json \<Rightarrow> string) \<Rightarrow> json \<Rightarrow> (string \<times> string) list" where
  "copy_query show_json payload =
     List.map_filter (\<lambda>(key, param).
       case jget key payload of
         Some (JStr s) \<Rightarrow> Some (param, s)
       | Some (JInt n) \<Rightarrow> Some (param, show_json (JInt n))
       | Some (JFloat r) \<Rightarrow> Some (param, show_json (JFloat r))
       | _ \<Rightarrow> None)
     [(''cashRegisterCode'', ''CashRegisterCode''), (''externalId'', ''ExternalId''), (''id'', ''Id''),
      (''year'', ''Year''), (''month'', ''Month''), (''receiptNumber'', ''ReceiptNumber'')]"

definition drawer_query :: "json \<Rightarrow> (string \<times> string) list" where
  "drawer_query payload =
     (case Option.bind (jget ''pin'' payload) as_str of Some pin \<Rightarrow> [(''pin'', pin)] | None \<Rightarrow> [])"

definition text_rows :: "json \<Rightarrow> string list" where
  "text_rows payload =
     (case Option.bind (jget ''title'' payload) as_str of Some t \<Rightarrow> [t] | None \<Rightarrow> []) @
     (case Option.bind (jget ''lines'' payload) as_array of Some ls \<Rightarrow> List.map_filter as_str ls | None \<Rightarrow> [])"

definition print_text :: "json \<Rightarrow> string" where
  "print_text payload =
     join [CHR 0x0A] (text_rows payload) @
     (if Option.bind (jget ''cut'' payload) as_bool = Some True then PAGE_BREAK_TOKEN else [])"

definition print_text_body :: "json \<Rightarrow> json" where
  "print_text_body payload = JObj [(''contentFlags'', JArr []), (''text'', JStr (print_text payload))]"

section \<open>What an accepted payload guarantees\<close>

lemma problems_Nil [simp]:
  "with_object v path k = [] \<longleftrightarrow> (\<exists>obj. v = JObj obj \<and> k obj = [])"
  "fail path rule \<noteq> []"
  by (cases v; auto simp: with_object_def fail_def)+

lemma check_each_Nil: "check_each field check xs = [] \<Longrightarrow> x \<in> set xs \<Longrightarrow> \<exists>f. check x f = []"
proof -
  have "concat (map (\<lambda>(i, x). check x (g i)) (List.enumerate n xs)) = [] \<Longrightarrow> x \<in> set xs \<Longrightarrow> \<exists>f. check x f = []" for g n
    by (induction xs arbitrary: n) auto
  then show "check_each field check xs = [] \<Longrightarrow> x \<in> set xs \<Longrightarrow> \<exists>f. check x f = []"
    by (simp add: check_each_def)
qed

lemma accepted_line:
  assumes "check_print_line v field = []"
  obtains s where "v = JStr s" "print_line_problem s = None"
  using assms by (cases v) (auto simp: check_print_line_def split: option.splits)

lemma plain_line_bytes:
  assumes "utf8_ok s" and "print_line_problem s = None" and "c \<in> set s"
  shows "0x20 \<le> (of_char c :: nat)"
proof -
  have "c \<in> set (concat (utf8_chars s))" using assms(3) by simp
  then obtain ch where ch: "ch \<in> set (utf8_chars s)" "c \<in> set ch" unfolding set_concat by blast
  have ok: "char_ok ch" using assms(1) ch(1) by (auto simp: utf8_ok_def list_all_iff)
  have plain: "\<not> is_control ch" using assms(2) ch(1) by (auto simp: print_line_problem_def list_ex_iff split: if_splits)
  show ?thesis
  proof (cases ch)
    case (Cons a rest)
    show ?thesis
    proof (cases rest)
      case Nil
      then have "\<not> (of_char c :: int) \<le> 0x1F" using plain ch(2) Cons by (simp add: is_control_def code_point_def Let_def)
      then have "\<not> int (of_char c) \<le> 0x1F" by (simp add: of_nat_of_char)
      then show ?thesis by linarith
    next
      case (Cons b more)
      with \<open>ch = a # rest\<close> ok ch(2) have "0x80 \<le> (of_char c :: nat)"
        by (auto simp: char_ok_def continuation_def list_all_iff)
      then show ?thesis by simp
    qed
  qed (use ch in simp)
qed

lemma split_on_fresh: "sep \<notin> set r \<Longrightarrow> split_on sep r = [r]"
  by (induction r) auto

lemma split_on_append: "sep \<notin> set r \<Longrightarrow> split_on sep (r @ sep # s) = r # split_on sep s"
  by (induction r) auto

lemma split_on_join: "rows \<noteq> [] \<Longrightarrow> \<forall>r \<in> set rows. sep \<notin> set r \<Longrightarrow> split_on sep (join [sep] rows) = rows"
proof (induction rows)
  case (Cons r rows)
  then show ?case by (cases rows) (simp_all add: split_on_fresh split_on_append)
qed simp

lemma set_join: "c \<in> set (join sep rows) \<Longrightarrow> c \<in> set sep \<or> (\<exists>r \<in> set rows. c \<in> set r)"
  by (induction sep rows rule: join.induct) auto

lemma accepted_text:
  assumes "check_payload rfc3339 PrintText payload now = None"
  obtains title lines cut where "text_rows payload = title # lines" "1 \<le> length lines" "length lines \<le> 80"
    "\<forall>r \<in> set (title # lines). print_line_problem r = None" "\<not> blank title"
    "Option.bind (jget ''cut'' payload) as_bool = Some cut"
proof -
  obtain obj where obj: "payload = JObj obj" "check_print_text obj = []"
    using assms by (auto simp: check_payload_def payload_problems_def Let_def split: if_splits)
  obtain title where title: "map_of obj ''title'' = Some (JStr title)" "print_line_problem title = None" "\<not> blank title"
    using obj(2) by (auto simp: check_print_text_def check_title_def check_print_line_def split: option.splits json.splits if_splits)
  obtain vs where vs: "map_of obj ''lines'' = Some (JArr vs)" "vs \<noteq> []" "length vs \<le> 80"
      "check_each ''payload.lines'' check_print_line vs = []"
    using obj(2) by (auto simp: check_print_text_def check_lines_def PRINT_TEXT_MAX_LINES_def split: option.splits json.splits if_splits)
  obtain cut where cut: "map_of obj ''cut'' = Some (JBool cut)"
    using obj(2) by (auto simp: check_print_text_def split: option.splits json.splits)
  have strs: "\<forall>v \<in> set vs. \<exists>s. v = JStr s \<and> print_line_problem s = None"
    using check_each_Nil [OF vs(4)] by (metis accepted_line)
  define lines where "lines = List.map_filter as_str vs"
  have "length (List.map_filter as_str xs) = length xs \<and> (\<forall>r \<in> set (List.map_filter as_str xs). print_line_problem r = None)"
    if "\<forall>v \<in> set xs. \<exists>s. v = JStr s \<and> print_line_problem s = None" for xs
    using that by (induction xs) (auto simp: List.map_filter_simps as_str_def)
  from this [OF strs] have lines: "length lines = length vs" "\<forall>r \<in> set lines. print_line_problem r = None"
    by (simp_all add: lines_def)
  have "text_rows payload = title # lines"
    using title(1) vs(1) by (simp add: text_rows_def obj(1) jget_def as_str_def as_array_def lines_def)
  moreover have "Option.bind (jget ''cut'' payload) as_bool = Some cut" using cut by (simp add: obj(1) jget_def as_bool_def)
  ultimately show thesis using that lines vs(2,3) title(2,3) by (cases vs) auto
qed

text \<open>
  C12. A \<open>fiscal.print_text\<close> payload that is accepted prints exactly its own rows: 2 to 81 rows of at
  most 40 characters; no byte of them is a control character, so cutting the text at its line feeds
  gives the rows back and the only printer token in it is the page break devbridge adds for \<open>cut\<close>.
\<close>

theorem print_text_only_own_rows:
  assumes "check_payload rfc3339 PrintText payload now = None" and "\<forall>r \<in> set (text_rows payload). utf8_ok r"
  shows "\<exists>body cut. print_text payload = body @ (if cut then PAGE_BREAK_TOKEN else []) \<and>
      Option.bind (jget ''cut'' payload) as_bool = Some cut \<and>
      split_on (CHR 0x0A) body = text_rows payload \<and> CHR 0x1A \<notin> set body \<and>
      2 \<le> length (text_rows payload) \<and> length (text_rows payload) \<le> 81 \<and>
      (\<forall>r \<in> set (text_rows payload). length (utf8_chars r) \<le> 40)"
proof -
  obtain title lines cut where t: "text_rows payload = title # lines" "1 \<le> length lines" "length lines \<le> 80"
    "\<forall>r \<in> set (title # lines). print_line_problem r = None" "Option.bind (jget ''cut'' payload) as_bool = Some cut"
    using accepted_text [OF assms(1)] by metis
  have bytes: "\<forall>r \<in> set (text_rows payload). \<forall>c \<in> set r. 0x20 \<le> (of_char c :: nat)"
    using t(1,4) assms(2) plain_line_bytes by metis
  then have nl: "\<forall>r \<in> set (text_rows payload). CHR 0x0A \<notin> set r" and sub: "\<forall>r \<in> set (text_rows payload). CHR 0x1A \<notin> set r"
    by fastforce+
  have "CHR 0x1A \<notin> set (join [CHR 0x0A] (text_rows payload))" using set_join sub by fastforce
  moreover have "split_on (CHR 0x0A) (join [CHR 0x0A] (text_rows payload)) = text_rows payload"
    by (rule split_on_join) (use t(1) nl in auto)
  moreover have "\<forall>r \<in> set (text_rows payload). length (utf8_chars r) \<le> 40"
    using t(1,4) by (auto simp: print_line_problem_def PRINT_TEXT_WIDTH_def split: if_splits)
  ultimately show ?thesis using t(1,2,3,5) by (auto simp: print_text_def)
qed

definition sample_text :: json where
  "sample_text = JObj [(''cut'', JBool True), (''lines'', JArr [JStr ''Hotovost: 12,40'', JStr '''']), (''title'', JStr ''UZAVIERKA (X)'')]"

theorem print_text_only_own_rows_witness:
  "\<exists>body. print_text sample_text = body @ PAGE_BREAK_TOKEN \<and>
     split_on (CHR 0x0A) body = [''UZAVIERKA (X)'', ''Hotovost: 12,40'', ''''] \<and> CHR 0x1A \<notin> set body"
proof -
  have "check_payload (\<lambda>_. None) PrintText sample_text 0 = None" by code_simp
  moreover have rows: "text_rows sample_text = [''UZAVIERKA (X)'', ''Hotovost: 12,40'', '''']" by code_simp
  moreover have "list_all utf8_ok [''UZAVIERKA (X)'', ''Hotovost: 12,40'', '''']" by code_simp
  moreover have "Option.bind (jget ''cut'' sample_text) as_bool = Some True" by code_simp
  ultimately show ?thesis
    using print_text_only_own_rows [of "\<lambda>_. None" sample_text 0] by (auto simp: list_all_iff)
qed

text \<open>An accepted receipt names its cash register.\<close>

lemma accepted_receipt_code:
  assumes "check_payload rfc3339 (Register kind) payload now = None"
  shows "\<exists>code. cash_register_code (Register kind) payload = Some code \<and> cash_register_code_ok code"
proof -
  obtain obj where obj: "payload = JObj obj" "check_register rfc3339 obj kind now = []"
    using assms by (auto simp: check_payload_def payload_problems_def Let_def split: if_splits)
  obtain data where data: "map_of obj ''data'' = Some (JObj data)" "check_data rfc3339 data kind now = []"
    using obj(2) by (auto simp: check_register_def split: option.splits)
  then have "check_cash_register_code data ''payload.data'' ''cashRegisterCode'' = []" by (simp add: check_data_def Let_def)
  then show ?thesis
    using data(1) by (auto simp: check_cash_register_code_def Let_def obj(1) cash_register_code_def jget_def as_str_def
        split: option.splits json.splits if_splits)
qed

lemma external_id_fits:
  "length (sha256_hex (int_text kasa @ '':'' @ uuid)) = 64 \<Longrightarrow> length (external_id sha256_hex kasa uuid) = 36"
  by (simp add: external_id_def)

end
