(* ===== verification/Portos_Outcome.thy ===== *)
theory Portos_Outcome
  imports Portos_Payload
begin

text \<open>
  What an answer of Portos means for a job (\<open>device_jobs/portos/outcome.rs\<close>), the answers themselves
  (\<open>http.rs\<close>) and the device status of the heartbeat (\<open>status.rs\<close>). An HTTP status is an integer.
\<close>

section \<open>Answers (http.rs)\<close>

datatype Reply =
    Unreachable string         \<comment> \<open>the connection could not be opened, nothing was sent\<close>
  | Lost string                \<comment> \<open>sent or possibly sent, no complete answer\<close>
  | Answer int json            \<comment> \<open>HTTP status and JSON body\<close>

definition parse_body :: "(string \<Rightarrow> string + json) \<Rightarrow> string \<Rightarrow> json" where
  "parse_body from_str text = (case from_str text of Inr v \<Rightarrow> v | Inl _ \<Rightarrow> JNull)"

text \<open>
  \<open>send\<close>: the result of the request, an error flagged as one of the connect phase or not, and the
  result of reading the body.
\<close>

definition reply_of ::
    "(string \<Rightarrow> string + json) \<Rightarrow> (bool \<times> string) + int \<times> (string + string) \<Rightarrow> Reply" where
  "reply_of from_str sent =
     (case sent of
        Inl (is_connect, e) \<Rightarrow> if is_connect then Unreachable e else Lost e
      | Inr (status, Inr text) \<Rightarrow> Answer status (parse_body from_str text)
      | Inr (status, Inl e) \<Rightarrow> Lost (''HTTP '' @ int_text status @ '', reading the answer failed: '' @ e))"

section \<open>Results of a receipt\<close>

definition DEVICE :: string where "DEVICE = ''portos''"
definition CODE_UNREACHABLE :: string where "CODE_UNREACHABLE = ''portos_unreachable''"
definition CODE_VALIDATION :: string where "CODE_VALIDATION = ''portos_validation''"
definition CODE_UNAUTHENTICATED :: string where "CODE_UNAUTHENTICATED = ''portos_unauthenticated''"
definition CODE_ENDPOINT_MISSING :: string where "CODE_ENDPOINT_MISSING = ''portos_endpoint_missing''"
definition CODE_LOOKUP_FAILED :: string where "CODE_LOOKUP_FAILED = ''portos_lookup_failed''"
definition CODE_RECEIPT_NOT_FOUND :: string where "CODE_RECEIPT_NOT_FOUND = ''receipt_not_found''"
definition CODE_REFUSED :: string where "CODE_REFUSED = ''portos_refused''"
definition CODE_NOT_EXECUTED :: string where "CODE_NOT_EXECUTED = ''not_executed''"
definition CODE_RETRY_SAFE :: string where "CODE_RETRY_SAFE = ''outcome_unknown_retry_safe''"
definition PORTOS_RECEIPT_NOT_FOUND :: int where "PORTOS_RECEIPT_NOT_FOUND = - 104"
definition PORTOS_VALIDATION_ERROR :: int where "PORTOS_VALIDATION_ERROR = - 900"
definition MAX_PROBLEM_CHARS :: nat where "MAX_PROBLEM_CHARS = 600"

datatype Via = Via_Register | Via_Lookup | Via_Reconcile

fun via_text :: "Via \<Rightarrow> string" where
  "via_text Via_Register = ''register''"
| "via_text Via_Lookup = ''lookup''"
| "via_text Via_Reconcile = ''reconcile''"

definition receipt_state :: "json \<Rightarrow> string" where
  "receipt_state result =
     (case jget ''isSuccessful'' result of
        Some (JBool True) \<Rightarrow> ''online'' | Some (JBool False) \<Rightarrow> ''rejected'' | _ \<Rightarrow> ''offline'')"

definition is_number :: "json \<Rightarrow> bool" where
  "is_number v = (case v of JInt _ \<Rightarrow> True | JFloat _ \<Rightarrow> True | _ \<Rightarrow> False)"

definition external_id_matches :: "json option \<Rightarrow> string \<Rightarrow> Via \<Rightarrow> bool" where
  "external_id_matches theirs ext via =
     (case Option.bind theirs as_str of Some t \<Rightarrow> t = ext | None \<Rightarrow> via = Via_Register)"

text \<open>\<open>Value::pointer\<close> through objects.\<close>

fun jpath :: "string list \<Rightarrow> json \<Rightarrow> json option" where
  "jpath [] v = Some v"
| "jpath (k # ks) v = Option.bind (jget k v) (jpath ks)"

definition or_null :: "json option \<Rightarrow> json" where
  "or_null v = (case v of Some x \<Rightarrow> x | None \<Rightarrow> JNull)"

definition receipt_fields :: "json \<Rightarrow> json \<Rightarrow> json \<Rightarrow> string \<Rightarrow> json \<Rightarrow> string \<Rightarrow> Via \<Rightarrow> json" where
  "receipt_fields result request data okp receipt_number ext via =
     (let state = receipt_state result
      in JObj ([(''amount'', or_null (jget ''amount'' data)),
                (''cash_register_code'', or_null (jget ''cashRegisterCode'' data)),
                (''device'', JStr DEVICE),
                (''ekasa_error'', or_null (jget ''error'' result)),
                (''external_id'', JStr ext),
                (''is_offline'', JBool (state = ''offline'')),
                (''issue_date'', or_null (jget ''issueDate'' data)),
                (''okp'', JStr okp)] @
               (case jget ''paragonNumber'' data of
                  Some n \<Rightarrow> if is_number n then [(''paragon_number'', n)] else [] | None \<Rightarrow> []) @
               [(''portos_request_id'', or_null (jget ''id'' request)),
                (''process_date'', or_null (jpath [''response'', ''processDate''] result)),
                (''receipt_number'', receipt_number),
                (''receipt_type'', or_null (jget ''receiptType'' data)),
                (''rounding_amount'', or_null (jget ''roundingAmount'' data)),
                (''state'', JStr state),
                (''uid'', or_null (jpath [''response'', ''data'', ''id''] result)),
                (''via'', JStr (via_text via))]))"

definition receipt_result :: "json \<Rightarrow> string \<Rightarrow> Via \<Rightarrow> json option" where
  "receipt_result result ext via =
     (case jget ''request'' result of
        None \<Rightarrow> None
      | Some request \<Rightarrow>
          (case jget ''data'' request of
             None \<Rightarrow> None
           | Some data \<Rightarrow>
               (case (Option.bind (jget ''okp'' data) as_str, jget ''receiptNumber'' data) of
                  (Some okp, Some number) \<Rightarrow>
                    if is_number number \<and> external_id_matches (jget ''externalId'' request) ext via
                    then Some (receipt_fields result request data okp number ext via) else None
                | _ \<Rightarrow> None)))"

section \<open>Problem answers\<close>

definition problem_code :: "json \<Rightarrow> int option" where
  "problem_code body = Option.bind (jget ''code'' body) as_i64"

definition problem_text :: "int \<Rightarrow> json \<Rightarrow> string" where
  "problem_text status body =
     (let parts =
        [''HTTP '' @ int_text status] @
        (case problem_code body of Some code \<Rightarrow> [''code '' @ int_text code] | None \<Rightarrow> []) @
        List.map_filter (\<lambda>key. case Option.bind (jget key body) as_str of
            Some t \<Rightarrow> if t = [] then None else Some t | None \<Rightarrow> None) [''title'', ''detail''] @
        (case jget ''errors'' body of
           Some (JObj errors) \<Rightarrow>
             map (\<lambda>(field, messages). field @ '': '' @
               join '' '' (case messages of JArr m \<Rightarrow> List.map_filter as_str m | _ \<Rightarrow> [])) errors
         | _ \<Rightarrow> [])
      in concat (take MAX_PROBLEM_CHARS (utf8_chars (join '' | '' parts))))"

definition is_validation :: "int \<Rightarrow> json \<Rightarrow> bool" where
  "is_validation status body \<longleftrightarrow>
     (status = 400 \<or> status = 422) \<and>
     (case problem_code body of None \<Rightarrow> True | Some code \<Rightarrow> code = PORTOS_VALIDATION_ERROR)"

definition is_missing_endpoint :: "int \<Rightarrow> json \<Rightarrow> bool" where
  "is_missing_endpoint status body \<longleftrightarrow> (status = 404 \<or> status = 405) \<and> problem_code body = None"

definition is_problem :: "json \<Rightarrow> bool" where
  "is_problem body \<longleftrightarrow> jget ''status'' body \<noteq> None \<or> jget ''title'' body \<noteq> None"

definition is_2xx :: "int \<Rightarrow> bool" where
  "is_2xx status \<longleftrightarrow> 200 \<le> status \<and> status < 300"

section \<open>The lookup\<close>

datatype Lookup = Found json | NotFound | Look_Unreachable string | Look_Failed string

definition classify_lookup :: "Reply \<Rightarrow> Lookup" where
  "classify_lookup reply =
     (case reply of
        Unreachable e \<Rightarrow> Look_Unreachable e
      | Lost e \<Rightarrow> Look_Failed (''no answer: '' @ e)
      | Answer status body \<Rightarrow>
          if status = 200 \<and> is_object body then Found body
          else if status = 204 then NotFound
          else if status = 404 \<and> problem_code body = None \<and> is_problem body then NotFound
          else if 400 \<le> status \<and> status < 500 \<and> problem_code body = Some PORTOS_RECEIPT_NOT_FOUND then NotFound
          else Look_Failed (problem_text status body))"

section \<open>Outcomes of the requests\<close>

definition register_outcome :: "Reply \<Rightarrow> ReceiptKind \<Rightarrow> string \<Rightarrow> Outcome" where
  "register_outcome reply kind ext =
     (let reconciled = ''reconciled by externalId '' @ ext @ '', never registered again''
      in case reply of
        Unreachable e \<Rightarrow> O_Failed CODE_UNREACHABLE
          (''devbridge could not connect to Portos ('' @ e @ '') - the receipt was not sent, nothing ran'')
      | Lost e \<Rightarrow> O_Indeterminate
          (''no answer from Portos after the receipt was sent ('' @ e @ '') - it may be registered; '' @ reconciled)
      | Answer status body \<Rightarrow>
          if is_2xx status
          then (case receipt_result body ext Via_Register of
                  Some result \<Rightarrow> O_Done result
                | None \<Rightarrow> O_Indeterminate (''Portos answered HTTP '' @ int_text status @
                    '' but not with the receipt of externalId '' @ ext @ '' - '' @ reconciled))
          else if is_validation status body
          then O_Failed CODE_VALIDATION (''Portos refused the '' @ receipt_type kind @ '' receipt as invalid ('' @
                 problem_text status body @ '') - nothing was registered'')
          else if status = 401
          then O_Failed CODE_UNAUTHENTICATED
                 (''Portos requires authentication ('' @ problem_text 401 body @ '') - nothing was registered'')
          else if is_missing_endpoint status body
          then O_Failed CODE_ENDPOINT_MISSING (''this Portos has no '' @ receipt_path kind @ '' ('' @
                 problem_text status body @ '') - it cannot register '' @ receipt_type kind @
                 '' receipts; nothing was registered'')
          else O_Indeterminate (''Portos answered '' @ problem_text status body @
                 '' - the receipt may be registered (a print error comes after registration); '' @ reconciled))"

definition control_what :: "FiscalOp \<Rightarrow> string" where
  "control_what op =
     (case op of OpenDrawer \<Rightarrow> ''open the drawer'' | PrintText \<Rightarrow> ''print the text'' | _ \<Rightarrow> ''print the receipt copy'')"

definition control_flag :: "FiscalOp \<Rightarrow> string" where
  "control_flag op = (case op of OpenDrawer \<Rightarrow> ''opened'' | _ \<Rightarrow> ''printed'')"

definition control_outcome :: "Reply \<Rightarrow> FiscalOp \<Rightarrow> Outcome" where
  "control_outcome reply op =
     (let what = control_what op; flag = control_flag op
      in case reply of
        Unreachable e \<Rightarrow> O_Failed CODE_UNREACHABLE (''devbridge could not connect to Portos ('' @ e @ '') - nothing ran'')
      | Lost e \<Rightarrow> O_Indeterminate (''no answer from Portos after asking it to '' @ what @ '' ('' @ e @ '')'')
      | Answer status body \<Rightarrow>
          if op = PrintText \<and> is_2xx status \<and> jget flag body \<noteq> Some (JBool True)
          then O_Failed CODE_RETRY_SAFE (''Portos accepted the text but did not report it printed (HTTP '' @
                 int_text status @ ''; 202 = the printer was not ready, some models print later); '' @
                 ''no fiscal record, the till may simply retry'')
          else if op = PrintText \<and> status \<ge> 500
          then O_Failed CODE_RETRY_SAFE (''Portos answered '' @ problem_text status body @
                 '' when asked to print the text; no fiscal record, the till may simply retry'')
          else if is_2xx status
          then O_Done (JObj [(''device'', JStr DEVICE), (flag, or_null (jget flag body)), (''printer_ready'', JBool (status = 200))])
          else if problem_code body = Some PORTOS_RECEIPT_NOT_FOUND
          then O_Failed CODE_RECEIPT_NOT_FOUND
                 (''Portos has no such receipt ('' @ problem_text status body @ '') - nothing was printed'')
          else if is_validation status body
          then O_Failed CODE_VALIDATION
                 (''Portos refused the request as invalid ('' @ problem_text status body @ '') - nothing ran'')
          else if status = 401
          then O_Failed CODE_UNAUTHENTICATED
                 (''Portos requires authentication ('' @ problem_text 401 body @ '') - nothing ran'')
          else if is_missing_endpoint status body
          then O_Failed CODE_ENDPOINT_MISSING
                 (''this Portos cannot '' @ what @ '' ('' @ problem_text status body @ '') - nothing ran'')
          else if 400 \<le> status \<and> status < 500
          then O_Failed CODE_REFUSED
                 (''Portos refused to '' @ what @ '' ('' @ problem_text status body @ '') - nothing ran'')
          else O_Indeterminate (''Portos answered '' @ problem_text status body @ '' when asked to '' @ what))"

definition retry_safe_text :: "FiscalOp \<Rightarrow> string" where
  "retry_safe_text op =
     ''devbridge cannot tell whether '' @
     (case op of OpenDrawer \<Rightarrow> ''the drawer opened'' | PrintText \<Rightarrow> ''the text was printed''
      | _ \<Rightarrow> ''the receipt copy was printed'') @
     '' (Portos never answered); it leaves no fiscal record, so the till may simply retry''"

section \<open>Unprocessed requests\<close>

datatype Unprocessed = Listed | NotListed | Unp_Failed string

definition classify_unprocessed :: "Reply \<Rightarrow> string \<Rightarrow> Unprocessed" where
  "classify_unprocessed reply ext =
     (case reply of
        Answer status body \<Rightarrow>
          if status = 204 then NotListed
          else (case body of
                  JArr list \<Rightarrow>
                    if status = 200
                    then (if list_ex (\<lambda>r. Option.bind (jpath [''request'', ''externalId''] r) as_str = Some ext) list
                          then Listed else NotListed)
                    else Unp_Failed (problem_text status body)
                | _ \<Rightarrow> Unp_Failed (problem_text status body))
      | Unreachable e \<Rightarrow> Unp_Failed e
      | Lost e \<Rightarrow> Unp_Failed e)"

definition sent_but_not_found_text :: "Unprocessed \<Rightarrow> string \<Rightarrow> string" where
  "sent_but_not_found_text unprocessed ext =
     (case unprocessed of
        Listed \<Rightarrow> ''Portos lists the request with externalId '' @ ext @ '' as not processed yet - waiting for Portos''
      | NotListed \<Rightarrow>
          ''devbridge sent the receipt but Portos has neither a receipt nor an unprocessed request with externalId '' @
          ext @ ''; Portos'' @ [CHR 0x27] @ '' documentation does not prove that a request whose answer was lost was never '' @
          ''stored (it may still be inside Portos, or its index table may be incomplete) - a person must check '' @
          ''Portos WebAdmin for externalId '' @ ext @ ''; never register this sale again under another id''
      | Unp_Failed e \<Rightarrow>
          ''Portos has no receipt with externalId '' @ ext @ ''; its unprocessed list could not be read ('' @ e @
          '') - asked again later'')"

section \<open>Device status (status.rs)\<close>

datatype DeviceState = D_Ok | D_Unknown | D_Degraded string | D_Offline

fun severity :: "DeviceState \<Rightarrow> nat" where
  "severity D_Ok = 0"
| "severity D_Unknown = 1"
| "severity (D_Degraded _) = 2"
| "severity D_Offline = 3"

fun device_label :: "DeviceState \<Rightarrow> string" where
  "device_label D_Ok = ''ok''"
| "device_label D_Unknown = ''unknown''"
| "device_label (D_Degraded detail) = ''degraded('' @ detail @ '')''"
| "device_label D_Offline = ''offline''"

text \<open>\<open>max_by_key\<close> keeps the last of equal elements. The states come in the order of their addresses.\<close>

definition worst :: "(string \<times> DeviceState) list \<Rightarrow> string" where
  "worst states =
     (case map snd states of
        [] \<Rightarrow> device_label D_Unknown
      | s # ss \<Rightarrow> device_label (foldl (\<lambda>m x. if severity m \<le> severity x then x else m) s ss))"

definition probe_state :: "Reply \<Rightarrow> Reply \<Rightarrow> DeviceState" where
  "probe_state info printer =
     (case info of
        Answer status body \<Rightarrow>
          if \<not> (status = 200 \<and> is_object body) then D_Offline
          else (case printer of
                  Answer pstatus pbody \<Rightarrow>
                    if pstatus \<noteq> 200 then D_Degraded ''printer status unreadable''
                    else (let text = (\<lambda>key. case Option.bind (jget key pbody) as_str of Some t \<Rightarrow> t | None \<Rightarrow> ''?'');
                              state = text ''state''; paper = text ''paperState''
                          in if state = ''Ready'' \<and> paper \<noteq> ''Empty'' \<and> paper \<noteq> ''CoverOpen'' then D_Ok
                             else D_Degraded (''printer='' @ state @ '',paper='' @ paper))
                | _ \<Rightarrow> D_Degraded ''printer status unreadable'')
      | _ \<Rightarrow> D_Offline)"

end
