(* ===== verification/Portos_Executor.thy ===== *)
theory Portos_Executor
  imports Portos_Outcome "HOL-Library.List_Lexorder" "HOL-Library.Char_ord"
begin

text \<open>
  The Portos executor (\<open>device_jobs/portos/mod.rs\<close>). A call of the executor awaits at each HTTP
  request, so \<open>execute\<close> and \<open>reconcile\<close> are one definition per stretch between two awaits;
  \<open>fiscal_pc\<close> is the position in between, and \<open>request_of\<close> the request the call has sent there. The
  answers of Portos are arguments. \<open>sha256_hex\<close>, \<open>rfc3339\<close>, \<open>show_json\<close> and \<open>show_err\<close> (the text of a
  journal error) are parameters.
\<close>

section \<open>Configuration\<close>

definition DEFAULT_PORTOS_URL :: string where "DEFAULT_PORTOS_URL = ''http://localhost:3010''"
definition CODE_BAD_PAYLOAD :: string where "CODE_BAD_PAYLOAD = ''bad_payload''"
definition CODE_NO_KASA :: string where "CODE_NO_KASA = ''no_kasa''"
definition CODE_BAD_CLIENT_UUID :: string where "CODE_BAD_CLIENT_UUID = ''bad_client_uuid''"
definition CODE_JOURNAL :: string where "CODE_JOURNAL = ''bridge_error''"
definition RECEIPT_PATH :: string where "RECEIPT_PATH = ''/api/v1/requests/receipts/receipt''"
definition UNPROCESSED_PATH :: string where "UNPROCESSED_PATH = ''/api/v1/requests/unprocessed''"
definition PRINT_COPY_PATH :: string where "PRINT_COPY_PATH = ''/api/v1/requests/receipts/print_copy''"
definition OPEN_DRAWER_PATH :: string where "OPEN_DRAWER_PATH = ''/api/v1/printers/open_drawer''"
definition PRINT_TEXT_PATH :: string where "PRINT_TEXT_PATH = ''/api/v1/printers/print''"

text \<open>The tills with a Portos of their own; of two entries for a till the first counts.\<close>

record PortosConfig =
  pc_default_url :: string
  pc_kasy :: "(int \<times> string) list"

definition base_url :: "string \<Rightarrow> string" where
  "base_url url = rev (dropWhile (\<lambda>c. c = CHR ''/'') (rev (trim url)))"

text \<open>\<open>collect\<close> into a map keeps the last entry of a key.\<close>

definition from_pokladna :: "(int \<times> string option) list \<Rightarrow> PortosConfig" where
  "from_pokladna kasy =
     \<lparr>pc_default_url = DEFAULT_PORTOS_URL,
      pc_kasy = rev (List.map_filter (\<lambda>(k, u). case u of
          None \<Rightarrow> None
        | Some url \<Rightarrow> if base_url url = [] then None else Some (k, base_url url)) kasy)\<rparr>"

definition url_for :: "PortosConfig \<Rightarrow> int option \<Rightarrow> string" where
  "url_for cfg kasa_id =
     (case Option.bind kasa_id (map_of (pc_kasy cfg)) of Some url \<Rightarrow> url | None \<Rightarrow> pc_default_url cfg)"

definition kasy_urls :: "PortosConfig \<Rightarrow> string list" where
  "kasy_urls cfg = map (\<lambda>k. the (map_of (pc_kasy cfg) k)) (remdups (map fst (pc_kasy cfg)))"

definition config_endpoints :: "PortosConfig \<Rightarrow> string list" where
  "config_endpoints cfg = sort (remdups (pc_default_url cfg # kasy_urls cfg))"

lemma url_for_endpoint: "url_for cfg kasa \<in> set (config_endpoints cfg)"
proof (cases "Option.bind kasa (map_of (pc_kasy cfg))")
  case (Some url)
  then obtain k where k: "map_of (pc_kasy cfg) k = Some url" by (cases kasa) auto
  then have "k \<in> fst ` set (pc_kasy cfg)" by (metis domI dom_map_of_conv_image_fst)
  with k Some show ?thesis by (force simp: url_for_def config_endpoints_def kasy_urls_def)
qed (simp add: url_for_def config_endpoints_def)

section \<open>Requests\<close>

datatype http_method = GET | POST

record http_request =
  rq_method :: http_method
  rq_base :: string
  rq_path :: string
  rq_query :: "(string \<times> string) list"
  rq_body :: "json option"

definition control_request ::
    "(json \<Rightarrow> string) \<Rightarrow> FiscalOp \<Rightarrow> json \<Rightarrow> string \<times> (string \<times> string) list \<times> json option" where
  "control_request show_json op payload =
     (case op of
        OpenDrawer \<Rightarrow> (OPEN_DRAWER_PATH, drawer_query payload, None)
      | PrintText \<Rightarrow> (PRINT_TEXT_PATH, [], Some (print_text_body payload))
      | _ \<Rightarrow> (PRINT_COPY_PATH, copy_query show_json payload, None))"

definition receipt_key ::
    "(string \<Rightarrow> string) \<Rightarrow> PortosConfig \<Rightarrow> DeviceJob \<Rightarrow> FiscalOp \<Rightarrow> (string \<times> string \<times> string) option" where
  "receipt_key sha256_hex cfg job op =
     (case dj_kasa_id job of
        None \<Rightarrow> None
      | Some kasa_id \<Rightarrow>
          (case cash_register_code op (dj_payload job) of
             None \<Rightarrow> None
           | Some code \<Rightarrow>
               Some (url_for cfg (Some kasa_id), external_id sha256_hex kasa_id (dj_client_uuid job), code)))"

definition receipt_query :: "string \<Rightarrow> string \<Rightarrow> (string \<times> string) list" where
  "receipt_query code ext = [(''CashRegisterCode'', code), (''ExternalId'', ext)]"

section \<open>Checks before a job is journaled\<close>

definition portos_check ::
    "(string \<Rightarrow> instant option) \<Rightarrow> instant \<Rightarrow> DeviceJob \<Rightarrow> (string \<times> string) option" where
  "portos_check rfc3339 now job =
     (case fiscal_op (dj_job_type job) of
        None \<Rightarrow> Some (CODE_UNSUPPORTED, ''the Portos executor has no operation for job type '' @ quoted (dj_job_type job) @
                  '' - Portos was not contacted, nothing ran'')
      | Some op \<Rightarrow>
          if dj_kasa_id job = None
          then Some (CODE_NO_KASA,
                 ''the job names no till (kasa) - devbridge cannot choose its Portos, nothing ran'')
          else if (case op of Register _ \<Rightarrow> \<not> client_uuid_ok (dj_client_uuid job) | _ \<Rightarrow> False)
          then Some (CODE_BAD_CLIENT_UUID,
                 ''client_uuid must match [A-Za-z0-9_-]{1,64} (it is part of the receipt'' @ [CHR 0x27] @
                 ''s externalId) - Portos was not contacted, nothing ran'')
          else map_option (\<lambda>problems. (CODE_BAD_PAYLOAD, problems @ '' - Portos was not contacted, nothing ran''))
                 (check_payload rfc3339 op (dj_payload job) now))"

text \<open>The executor as the registry sees it, with the endpoint states of the last probe.\<close>

definition portos_executor ::
    "(string \<Rightarrow> instant option) \<Rightarrow> instant \<Rightarrow> PortosConfig \<Rightarrow> (string \<times> DeviceState) list \<Rightarrow> DeviceExecutor" where
  "portos_executor rfc3339 now cfg states =
     \<lparr>ex_kind = Fiscal, ex_name = ''portos'', ex_status = worst states, ex_check = portos_check rfc3339 now,
      ex_endpoints = config_endpoints cfg, ex_endpoint = (\<lambda>job. url_for cfg (dj_kasa_id job))\<rparr>"

definition record_state ::
    "string \<Rightarrow> DeviceState \<Rightarrow> (string \<Rightarrow> DeviceState option) \<Rightarrow> DeviceState option \<times> (string \<Rightarrow> DeviceState option)" where
  "record_state endpoint state states =
     ((case states endpoint of Some p \<Rightarrow> if p = state then None else Some p | None \<Rightarrow> None), states(endpoint \<mapsto> state))"

section \<open>Execute\<close>

datatype fiscal_pc =
    F_Lookup DeviceJob ReceiptKind string string string    \<comment> \<open>Portos, externalId and register code; awaits the lookup\<close>
  | F_Mark DeviceJob ReceiptKind string string             \<comment> \<open>not found: the contact is to be journaled\<close>
  | F_Post DeviceJob ReceiptKind string string             \<comment> \<open>journaled: the receipt is to be sent\<close>
  | F_Sent DeviceJob ReceiptKind string string             \<comment> \<open>sent, awaits the answer\<close>
  | F_Control DeviceJob FiscalOp                           \<comment> \<open>awaits the answer of a control request\<close>
  | F_End Outcome
  | F_Ask JournalEntry string string string                \<comment> \<open>reconcile: awaits the lookup\<close>
  | F_Unprocessed string string string                     \<comment> \<open>reconcile: awaits the unprocessed list\<close>
  | F_Answer Reconciliation

definition execute_begin :: "(string \<Rightarrow> string) \<Rightarrow> PortosConfig \<Rightarrow> DeviceJob \<Rightarrow> fiscal_pc" where
  "execute_begin sha256_hex cfg job =
     (case fiscal_op (dj_job_type job) of
        Some (Register kind) \<Rightarrow>
          (case receipt_key sha256_hex cfg job (Register kind) of
             None \<Rightarrow> F_End (O_Failed CODE_BAD_PAYLOAD ''the receipt names no till or cash register code - nothing ran'')
           | Some (base, ext, code) \<Rightarrow> F_Lookup job kind base ext code)
      | Some op \<Rightarrow> F_Control job op
      | None \<Rightarrow> F_End (O_Failed CODE_UNSUPPORTED (''the Portos executor has no operation for job type '' @
                  quoted (dj_job_type job) @ '' - nothing ran'')))"

definition lookup_answered :: "DeviceJob \<Rightarrow> ReceiptKind \<Rightarrow> string \<Rightarrow> string \<Rightarrow> Reply \<Rightarrow> fiscal_pc" where
  "lookup_answered job kind base ext reply =
     (case classify_lookup reply of
        Found found \<Rightarrow>
          (case receipt_result found ext Via_Lookup of
             Some result \<Rightarrow> F_End (O_Done result)
           | None \<Rightarrow> F_End (O_Indeterminate (''Portos found a receipt for externalId '' @ ext @
               '' but its answer is unreadable - reconciled, never registered again'')))
      | NotFound \<Rightarrow> F_Mark job kind base ext
      | Look_Unreachable e \<Rightarrow> F_End (O_Failed CODE_UNREACHABLE
          (''devbridge could not connect to Portos ('' @ e @ '') - the receipt was not sent, nothing ran''))
      | Look_Failed e \<Rightarrow> F_End (O_Failed CODE_LOOKUP_FAILED
          (''Portos could not be asked whether externalId '' @ ext @ '' is registered ('' @ e @
           '') - the receipt was not sent, nothing ran'')))"

text \<open>The contact is journaled before the receipt leaves; an answer \<open>false\<close> is not looked at.\<close>

definition register_mark ::
    "(err \<Rightarrow> string) \<Rightarrow> instant \<Rightarrow> DeviceJob \<Rightarrow> ReceiptKind \<Rightarrow> string \<Rightarrow> string \<Rightarrow> (journal, fiscal_pc) op" where
  "register_mark show_err now job kind base ext =
     match_op (mark_device_contact now (dj_id job)) (\<lambda>marked.
       case marked of
         Inl e \<Rightarrow> ok (F_End (O_Failed CODE_JOURNAL (''the device contact could not be journaled ('' @ show_err e @
                    '') - the receipt was not sent, nothing ran'')))
       | Inr _ \<Rightarrow> ok (F_Post job kind base ext))"

definition register_answered :: "ReceiptKind \<Rightarrow> string \<Rightarrow> Reply \<Rightarrow> fiscal_pc" where
  "register_answered kind ext reply = F_End (register_outcome reply kind ext)"

definition control_answered :: "FiscalOp \<Rightarrow> Reply \<Rightarrow> fiscal_pc" where
  "control_answered op reply = F_End (control_outcome reply op)"

section \<open>Reconcile\<close>

definition reconcile_begin :: "(string \<Rightarrow> string) \<Rightarrow> PortosConfig \<Rightarrow> JournalEntry \<Rightarrow> fiscal_pc" where
  "reconcile_begin sha256_hex cfg entry =
     (case fiscal_op (dj_job_type (je_job entry)) of
        Some (Register kind) \<Rightarrow>
          (case receipt_key sha256_hex cfg (je_job entry) (Register kind) of
             None \<Rightarrow> F_Answer (R_StillUnknown
               ''the receipt names no till or cash register code - a person must check it in Portos'')
           | Some (base, ext, code) \<Rightarrow> F_Ask entry base ext code)
      | Some op \<Rightarrow> F_Answer (R_Failed CODE_RETRY_SAFE (retry_safe_text op))
      | None \<Rightarrow> F_Answer (R_StillUnknown (''the Portos executor has no operation for job type '' @
                  quoted (dj_job_type (je_job entry)) @ '' - a person must check it'')))"

definition reconcile_not_found :: "string \<Rightarrow> string \<Rightarrow> string \<Rightarrow> bool \<Rightarrow> fiscal_pc" where
  "reconcile_not_found base code ext contacted =
     (if \<not> contacted
      then F_Answer (R_Failed CODE_NOT_EXECUTED
        (''devbridge never sent this receipt to Portos (the journal has no device contact) and Portos has no '' @
         ''receipt with externalId '' @ ext @ '' - nothing ran''))
      else F_Unprocessed base ext code)"

definition ask_answered :: "JournalEntry \<Rightarrow> string \<Rightarrow> string \<Rightarrow> string \<Rightarrow> Reply \<Rightarrow> fiscal_pc" where
  "ask_answered entry base ext code reply =
     (case classify_lookup reply of
        Found found \<Rightarrow>
          (case receipt_result found ext Via_Reconcile of
             Some result \<Rightarrow> F_Answer (R_Done result)
           | None \<Rightarrow> F_Answer (R_StillUnknown (''Portos found a receipt for externalId '' @ ext @
               '' but its answer is unreadable - a person must check it in Portos'')))
      | Look_Unreachable e \<Rightarrow> F_Answer (R_StillUnknown
          (''Portos could not be asked about externalId '' @ ext @ '' ('' @ e @ '') - asked again later''))
      | Look_Failed e \<Rightarrow> F_Answer (R_StillUnknown
          (''Portos could not be asked about externalId '' @ ext @ '' ('' @ e @ '') - asked again later''))
      | NotFound \<Rightarrow> reconcile_not_found base code ext (je_device_contact_at entry \<noteq> None))"

definition unprocessed_answered :: "string \<Rightarrow> Reply \<Rightarrow> fiscal_pc" where
  "unprocessed_answered ext reply =
     F_Answer (R_StillUnknown (sent_but_not_found_text (classify_unprocessed reply ext) ext))"

text \<open>The request a call awaits the answer of.\<close>

definition request_of :: "(json \<Rightarrow> string) \<Rightarrow> PortosConfig \<Rightarrow> fiscal_pc \<Rightarrow> http_request option" where
  "request_of show_json cfg pc =
     (case pc of
        F_Lookup _ _ base ext code \<Rightarrow>
          Some \<lparr>rq_method = GET, rq_base = base, rq_path = RECEIPT_PATH, rq_query = receipt_query code ext, rq_body = None\<rparr>
      | F_Sent job kind base ext \<Rightarrow>
          Some \<lparr>rq_method = POST, rq_base = base, rq_path = receipt_path kind, rq_query = [],
                rq_body = Some (register_body (dj_payload job) ext)\<rparr>
      | F_Control job op \<Rightarrow>
          (case control_request show_json op (dj_payload job) of (path, qs, body) \<Rightarrow>
             Some \<lparr>rq_method = POST, rq_base = url_for cfg (dj_kasa_id job), rq_path = path, rq_query = qs, rq_body = body\<rparr>)
      | F_Ask _ base ext code \<Rightarrow>
          Some \<lparr>rq_method = GET, rq_base = base, rq_path = RECEIPT_PATH, rq_query = receipt_query code ext, rq_body = None\<rparr>
      | F_Unprocessed base ext code \<Rightarrow>
          Some \<lparr>rq_method = GET, rq_base = base, rq_path = UNPROCESSED_PATH, rq_query = receipt_query code ext, rq_body = None\<rparr>
      | _ \<Rightarrow> None)"

section \<open>Slips and the state of the endpoints\<close>

text \<open>The slip of the card terminal: the same checked print request as a job, outside the fiscal queue.\<close>

definition slip_payload :: "string \<Rightarrow> string list \<Rightarrow> json" where
  "slip_payload title rows = JObj [(''cut'', JBool True), (''lines'', JArr (map JStr rows)), (''title'', JStr title)]"

definition control_at ::
    "(json \<Rightarrow> string) \<Rightarrow> PortosConfig \<Rightarrow> (http_request \<Rightarrow> Reply) \<Rightarrow> int option \<Rightarrow> FiscalOp \<Rightarrow> json \<Rightarrow> Outcome" where
  "control_at show_json cfg ask kasa_id op payload =
     (case control_request show_json op payload of (path, qs, body) \<Rightarrow>
        control_outcome (ask \<lparr>rq_method = POST, rq_base = url_for cfg kasa_id, rq_path = path, rq_query = qs, rq_body = body\<rparr>) op)"

definition print_slip ::
    "(json \<Rightarrow> string) \<Rightarrow> (string \<Rightarrow> instant option) \<Rightarrow> instant \<Rightarrow> PortosConfig \<Rightarrow> (http_request \<Rightarrow> Reply) \<Rightarrow>
     int \<Rightarrow> string \<Rightarrow> string list \<Rightarrow> (string + unit)" where
  "print_slip show_json rfc3339 now cfg ask kasa_id title rows =
     (case check_payload rfc3339 PrintText (slip_payload title rows) now of
        Some problems \<Rightarrow> Inl problems
      | None \<Rightarrow>
          (case control_at show_json cfg ask (Some kasa_id) PrintText (slip_payload title rows) of
             O_Done _ \<Rightarrow> Inr ()
           | O_Failed code msg \<Rightarrow> Inl (code @ '': '' @ msg)
           | O_Indeterminate why \<Rightarrow> Inl why))"

text \<open>A slip counts as printed only when Portos said so.\<close>

lemma slip_printed:
  assumes "print_slip show_json rfc3339 now cfg ask kasa_id title rows = Inr ()"
  shows "\<exists>rq status body. ask rq = Answer status body \<and> rq_path rq = PRINT_TEXT_PATH \<and> rq_base rq = url_for cfg (Some kasa_id) \<and>
           is_2xx status \<and> jget ''printed'' body = Some (JBool True)"
proof -
  let ?rq = "\<lparr>rq_method = POST, rq_base = url_for cfg (Some kasa_id), rq_path = PRINT_TEXT_PATH, rq_query = [],
      rq_body = Some (print_text_body (slip_payload title rows))\<rparr>"
  obtain res where "control_outcome (ask ?rq) PrintText = O_Done res"
    using assms by (auto simp: print_slip_def control_at_def control_request_def split: option.splits Outcome.splits)
  then have "\<exists>status body. ask ?rq = Answer status body \<and> is_2xx status \<and> jget ''printed'' body = Some (JBool True)"
    by (auto simp: control_outcome_def control_flag_def Let_def split: Reply.splits if_splits)
  then show ?thesis by (intro exI [of _ ?rq]) simp
qed

text \<open>One round of probes; \<open>info\<close> and \<open>printer\<close> are the answers of an endpoint.\<close>

definition refresh_status ::
    "PortosConfig \<Rightarrow> (string \<Rightarrow> Reply) \<Rightarrow> (string \<Rightarrow> Reply) \<Rightarrow> (string \<Rightarrow> DeviceState option) \<Rightarrow> (string \<Rightarrow> DeviceState option)" where
  "refresh_status cfg info printer states =
     fold (\<lambda>endpoint st. snd (record_state endpoint (probe_state (info endpoint) (printer endpoint)) st))
       (config_endpoints cfg) states"

lemma refresh_status_covers:
  "refresh_status cfg info printer states endpoint =
     (if endpoint \<in> set (config_endpoints cfg) then Some (probe_state (info endpoint) (printer endpoint)) else states endpoint)"
proof -
  have "fold (\<lambda>e st. snd (record_state e (p e) st)) es states endpoint =
      (if endpoint \<in> set es then Some (p endpoint) else states endpoint)" for es and p :: "string \<Rightarrow> DeviceState" and states
    by (induction es arbitrary: states) (auto simp: record_state_def)
  then show ?thesis by (simp add: refresh_status_def)
qed

section \<open>Check and execute agree\<close>

text \<open>
  A job the check lets through never ends in the executor's own refusals: a receipt has its key, every
  other job an operation.
\<close>

theorem checked_job_has_key:
  assumes "portos_check rfc3339 now job = None"
  shows "(\<exists>kind base ext code. execute_begin sha256_hex cfg job = F_Lookup job kind base ext code \<and>
            cash_register_code_ok code \<and> base \<in> set (config_endpoints cfg) \<and>
            base = ex_endpoint (portos_executor rfc3339 now cfg states) job) \<or>
         (\<exists>op. execute_begin sha256_hex cfg job = F_Control job op)"
proof -
  obtain op where op: "fiscal_op (dj_job_type job) = Some op" and kasa: "dj_kasa_id job \<noteq> None"
    and payload: "check_payload rfc3339 op (dj_payload job) now = None"
    using assms by (auto simp: portos_check_def split: option.splits if_splits)
  show ?thesis
  proof (cases op)
    case (Register kind)
    from kasa obtain kasa_id where k: "dj_kasa_id job = Some kasa_id" by auto
    obtain code where "cash_register_code (Register kind) (dj_payload job) = Some code" "cash_register_code_ok code"
      using accepted_receipt_code payload Register by blast
    with k op Register show ?thesis
      using url_for_endpoint [of cfg "Some kasa_id"]
      by (simp add: execute_begin_def receipt_key_def portos_executor_def)
  qed (simp_all add: op execute_begin_def)
qed

end
