(* ===== verification/Journal_Fixed.thy ===== *)
theory Journal_Fixed
  imports Journal_Properties
begin

text \<open>
  What the journal keeps of a job while other tasks work on it: its kind, till and client id never
  change, a device contact is never taken back, and outside the recording of outcomes its state
  changes only from \<open>received\<close> to \<open>executing\<close> or \<open>failed\<close>.
\<close>

section \<open>The columns of a job\<close>

type_synonym job_tag = "string \<times> int option \<times> string"    \<comment> \<open>job type, till, client id\<close>

record jinfo =
  ji_state :: string
  ji_contact :: "contact option"
  ji_tag :: job_tag

definition job_tag :: "DeviceJob \<Rightarrow> job_tag" where
  "job_tag job = (dj_job_type job, dj_kasa_id job, dj_client_uuid job)"

definition odoo_info :: "odoo_row \<Rightarrow> jinfo" where
  "odoo_info r = \<lparr>ji_state = j_state r, ji_contact = j_contact r, ji_tag = job_tag (od_job r)\<rparr>"

definition lan_info :: "lan_row \<Rightarrow> jinfo" where
  "lan_info r =
     \<lparr>ji_state = j_state r, ji_contact = j_contact r, ji_tag = (ln_job_type r, Some (ln_kasa_id r), ln_client_uuid r)\<rparr>"

definition info_of :: "journal_db \<Rightarrow> int \<Rightarrow> jinfo option" where
  "info_of d k =
     (if is_lan_job k then map_option lan_info (row_of ln_id (- k) (jd_lan_jobs d))
      else map_option odoo_info (row_of od_id k (jd_device_jobs d)))"

lemma info_of_core: "map_option ji_state (info_of d k) = map_option fst (core_of d k)"
  by (auto simp: info_of_def core_of_def odoo_info_def lan_info_def jcore_def option.map_comp comp_def)

definition keeps_info :: "jinfo \<Rightarrow> jinfo \<Rightarrow> bool" where
  "keeps_info x y \<longleftrightarrow>
     ji_tag y = ji_tag x \<and> (ji_contact x \<noteq> None \<longrightarrow> ji_contact y \<noteq> None) \<and>
     (ji_state y = ji_state x \<or> ji_state x = ''received'' \<and> ji_state y \<in> {''executing'', ''failed''})"

text \<open>A job that is there is kept as above; one that is new is not done.\<close>

fun keeps_opt :: "jinfo option \<Rightarrow> jinfo option \<Rightarrow> bool" where
  "keeps_opt None None = True"
| "keeps_opt None (Some y) = (ji_state y \<in> {''received'', ''executing'', ''failed''})"
| "keeps_opt (Some x) None = False"
| "keeps_opt (Some x) (Some y) = keeps_info x y"

definition fixed :: "int \<Rightarrow> journal_db \<Rightarrow> journal_db \<Rightarrow> bool" where
  "fixed k d d' = keeps_opt (info_of d k) (info_of d' k)"

lemma keeps_info_refl [simp]: "keeps_info x x"
  by (simp add: keeps_info_def)

lemma keeps_opt_refl: "keeps_opt x x"
  by (cases x) (auto simp: keeps_info_def)

lemma keeps_opt_trans: "keeps_opt x y \<Longrightarrow> keeps_opt y z \<Longrightarrow> keeps_opt x z"
  by (cases x; cases y; cases z) (auto simp: keeps_info_def)

lemma fixed_refl: "fixed k d d"
  by (simp add: fixed_def keeps_opt_refl)

lemma fixed_trans: "fixed k d d' \<Longrightarrow> fixed k d' d'' \<Longrightarrow> fixed k d d''"
  unfolding fixed_def by (rule keeps_opt_trans)

lemma fixed_info: "info_of d' k = info_of d k \<Longrightarrow> fixed k d d'"
  by (simp add: fixed_def keeps_opt_refl)

lemma fixed_same:
  "jd_device_jobs d' = jd_device_jobs d \<Longrightarrow> jd_lan_jobs d' = jd_lan_jobs d \<Longrightarrow> fixed k d d'"
  by (rule fixed_info) (simp add: info_of_def)

interpretation fixed: step_relation "\<lambda>j j'. fixed k (jdb j) (jdb j')" for k
  by unfold_locales (auto intro: fixed_refl fixed_trans)

named_theorems fixed_keeps "journal operations that keep what is fixed of a job"

lemma fixed_on_conn:
  "moves (\<lambda>c c'. fixed k (cn_db c) (cn_db c')) m \<Longrightarrow> moves (\<lambda>j j'. fixed k (jdb j) (jdb j')) (on_conn m)"
  unfolding on_conn_def by (rule moves_zoom) simp_all

lemma fixed_query [fixed_keeps]: "moves (\<lambda>c c'. fixed k (cn_db c) (cn_db c')) (query f)"
  by (rule moves_query) (rule fixed_refl)

lemma fixed_sql:
  assumes "\<And>d r d'. f d = (Inr r, d') \<Longrightarrow> fixed k d d'"
  shows "moves (\<lambda>c c'. fixed k (cn_db c) (cn_db c')) (sql f)"
  by (rule moves_sql) (use assms fixed_refl in auto)

section \<open>Updates\<close>

lemma fixed_upd_odoo:
  assumes "\<And>r. od_job (f r) = od_job r" and "\<And>r. od_id r = k \<Longrightarrow> Q r \<Longrightarrow> keeps_info (odoo_info r) (odoo_info (f r))"
  shows "fixed k d (d\<lparr>jd_device_jobs := upd_where Q f (jd_device_jobs d)\<rparr>)"
proof -
  have "\<And>r. od_id (f r) = od_id r" by (simp add: assms(1))
  then show ?thesis
    using assms(2)
    by (cases "row_of od_id k (jd_device_jobs d)")
      (auto simp: fixed_def info_of_def row_of_upd_where keeps_opt_refl dest: row_of_SomeD)
qed

lemma fixed_upd_lan:
  assumes "\<And>r. ln_id (f r) = ln_id r" and "\<And>r. ln_id r = - k \<Longrightarrow> Q r \<Longrightarrow> keeps_info (lan_info r) (lan_info (f r))"
  shows "fixed k d (d\<lparr>jd_lan_jobs := upd_where Q f (jd_lan_jobs d)\<rparr>)"
  using assms
  by (cases "row_of ln_id (- k) (jd_lan_jobs d)") (auto simp: fixed_def info_of_def row_of_upd_where keeps_opt_refl dest: row_of_SomeD)

lemma fixed_update_located:
  assumes "\<And>r. od_job (fo r) = od_job r" and "\<And>r. ln_id (fl r) = ln_id r"
    and "\<And>r. i = k \<Longrightarrow> P (jrow.truncate r) \<Longrightarrow> keeps_info (odoo_info r) (odoo_info (fo r))"
    and "\<And>r. i = k \<Longrightarrow> P (jrow.truncate r) \<Longrightarrow> keeps_info (lan_info r) (lan_info (fl r))"
  shows "moves (\<lambda>j j'. fixed k (jdb j) (jdb j')) (update_located i P fo fl)"
  unfolding update_located_def
  by (intro fixed_on_conn fixed_sql)
    (use assms in \<open>auto simp: Let_def split: if_splits intro!: fixed_upd_odoo fixed_upd_lan\<close>)

lemma fixed_state_machine [fixed_keeps]:
  "moves (\<lambda>j j'. fixed k (jdb j) (jdb j')) (start_execution now i)"
  "moves (\<lambda>j j'. fixed k (jdb j) (jdb j')) (fail_unstarted now i code text)"
  "moves (\<lambda>j j'. fixed k (jdb j) (jdb j')) (mark_device_contact now i)"
  "moves (\<lambda>j j'. fixed k (jdb j) (jdb j')) (record_still_unknown now i reason)"
  unfolding start_execution_def fail_unstarted_def mark_device_contact_def record_still_unknown_def
  by (rule fixed_update_located;
      auto simp: keeps_info_def odoo_info_def lan_info_def odoo_owe_outcome_def lan_owe_outcome_def odoo_owe_unknown_def)+

text \<open>An outcome is recorded of one job only.\<close>

lemma fixed_record_other: "i \<noteq> k \<Longrightarrow> moves (\<lambda>j j'. fixed k (jdb j) (jdb j')) (record_outcome now i oc)"
  unfolding record_outcome_def Let_def
  by (cases oc) (auto intro!: fixed_update_located simp: odoo_owe_outcome_def lan_owe_outcome_def odoo_owe_unknown_def)

lemma fixed_update_odoo:
  assumes "\<And>r. od_job (f r) = od_job r" and "\<And>r. odoo_info (f r) = odoo_info r"
  shows "moves (\<lambda>j j'. fixed k (jdb j) (jdb j')) (update_odoo i P f)"
  unfolding update_odoo_def
  by (intro fixed_on_conn fixed_sql)
    (use assms in \<open>auto simp: Let_def keeps_info_def intro!: fixed_upd_odoo\<close>)

lemma fixed_acks [fixed_keeps]:
  "moves (\<lambda>j j'. fixed k (jdb j) (jdb j')) (mark_acked now i note)"
  "moves (\<lambda>j j'. fixed k (jdb j) (jdb j')) (mark_reported now i)"
  "moves (\<lambda>j j'. fixed k (jdb j) (jdb j')) (reopen_ack now i)"
  unfolding mark_acked_def mark_reported_def reopen_ack_def
  by (rule fixed_update_odoo; simp add: odoo_info_def)+

lemma fixed_lan_reported [fixed_keeps]:
  "moves (\<lambda>j j'. fixed k (jdb j) (jdb j')) (mark_lan_reported i o_id note)"
  unfolding mark_lan_reported_def
  by (intro fixed_on_conn fixed_sql)
    (auto simp: Let_def lan_info_def keeps_info_def intro!: fixed_upd_lan)

lemma fixed_card_ack [fixed_keeps]: "moves (\<lambda>j j'. fixed k (jdb j) (jdb j')) (update_card i Q f)"
  unfolding update_card_def by (intro fixed_on_conn fixed_sql) (auto simp: Let_def split: if_splits intro!: fixed_same)

lemma fixed_get [fixed_keeps]:
  "moves (\<lambda>j j'. fixed k (jdb j) (jdb j')) (journal_get ts i)"
  "moves (\<lambda>j j'. fixed k (jdb j) (jdb j')) (lan_job ts kasa u)"
  unfolding journal_get_def lan_job_by_id_def lan_job_def
  by (intro fixed.moves_rules fixed_on_conn fixed_keeps)+

lemma fixed_insert_odoo [fixed_keeps]:
  "moves (\<lambda>j j'. fixed k (jdb j) (jdb j')) (insert_odoo ts now job refused)"
  unfolding insert_odoo_def
  by (intro fixed.moves_rules fixed_on_conn fixed_sql fixed_keeps)
    (auto simp: fixed_def info_of_def row_of_append keeps_opt_refl odoo_info_def new_odoo_row_def
      split: if_splits option.splits)

lemma fixed_insert_lan [fixed_keeps]:
  "moves (\<lambda>j j'. fixed k (jdb j) (jdb j')) (insert_lan_received ts now job)"
  unfolding insert_lan_received_def
  by (intro fixed.moves_rules fixed_on_conn fixed_sql fixed_keeps)
    (auto simp: fixed_def info_of_def row_of_append keeps_opt_refl lan_info_def new_lan_row_def Let_def
      split: if_splits option.splits)

section \<open>Outcomes and restarts\<close>

text \<open>Recording an outcome of a job: nothing but its state changes.\<close>

fun outcome_state :: "Outcome \<Rightarrow> string" where
  "outcome_state (O_Done _) = ''done''"
| "outcome_state (O_Failed _ _) = ''failed''"
| "outcome_state (O_Indeterminate _) = ''indeterminate''"

lemma info_update_located:
  assumes "\<And>r. od_job (fo r) = od_job r" and "\<And>r. ln_id (fl r) = ln_id r"
    and "\<And>r. odoo_info (fo r) = g (odoo_info r)" and "\<And>r. lan_info (fl r) = g (lan_info r)"
    and "update_located k P fo fl j = (res, j')" and "info_of (jdb j) k = Some x"
    and "\<And>r. P (jrow.truncate r) \<longleftrightarrow> Q (odoo_info r)" and "\<And>r. P (jrow.truncate r) \<longleftrightarrow> Q (lan_info r)"
  shows "info_of (jdb j') k = Some (if Q x \<and> (\<exists>b. res = Inr b) then g x else x) \<and> (\<forall>e. res = Inl e \<longrightarrow> jdb j' = jdb j)"
proof -
  have ids: "\<And>r. od_id (fo r) = od_id r" by (simp add: assms(1))
  show ?thesis
    using assms(2-8)
    by (cases "cn_faults (jo_conn j)"; cases "hd (cn_faults (jo_conn j))")
      (auto simp: update_located_def on_conn_def zoom_op_def sql_def Let_def info_of_def row_of_upd_key ids
        row_of_upd_key [where key = od_id, OF ids] split: if_splits list.splits)
qed

lemma info_record_outcome:
  assumes "record_outcome now k oc j = (res, j')" and "info_of (jdb j) k = Some x"
  shows "info_of (jdb j') k =
      Some (if ji_state x \<in> set OPEN_STATES \<and> (\<exists>b. res = Inr b) then x\<lparr>ji_state := outcome_state oc\<rparr> else x)"
    and "\<forall>e. res = Inl e \<longrightarrow> jdb j' = jdb j"
proof -
  let ?g = "\<lambda>x. x\<lparr>ji_state := outcome_state oc\<rparr>" and ?Q = "\<lambda>x. ji_state x \<in> set OPEN_STATES"
  have "info_of (jdb j') k = Some (if ?Q x \<and> (\<exists>b. res = Inr b) then ?g x else x) \<and> (\<forall>e. res = Inl e \<longrightarrow> jdb j' = jdb j)"
  proof (cases oc)
    case (O_Done r)
    show ?thesis
      by (rule info_update_located [where g = ?g and Q = ?Q, OF _ _ _ _
            assms(1) [unfolded record_outcome_def Let_def O_Done Outcome.case] assms(2)])
        (simp_all add: O_Done odoo_info_def lan_info_def odoo_owe_outcome_def lan_owe_outcome_def)
  next
    case (O_Failed c t)
    show ?thesis
      by (rule info_update_located [where g = ?g and Q = ?Q, OF _ _ _ _
            assms(1) [unfolded record_outcome_def Let_def O_Failed Outcome.case] assms(2)])
        (simp_all add: O_Failed odoo_info_def lan_info_def odoo_owe_outcome_def lan_owe_outcome_def)
  next
    case (O_Indeterminate t)
    show ?thesis
      by (rule info_update_located [where g = ?g and Q = ?Q, OF _ _ _ _
            assms(1) [unfolded record_outcome_def Let_def O_Indeterminate Outcome.case] assms(2)])
        (simp_all add: O_Indeterminate odoo_info_def lan_info_def odoo_owe_unknown_def)
  qed
  then show "info_of (jdb j') k =
      Some (if ji_state x \<in> set OPEN_STATES \<and> (\<exists>b. res = Inr b) then x\<lparr>ji_state := outcome_state oc\<rparr> else x)"
    and "\<forall>e. res = Inl e \<longrightarrow> jdb j' = jdb j" by auto
qed

lemma info_marked:
  assumes "mark_device_contact now k j = (Inr b, j')" and "info_of (jdb j) k = Some x"
  shows "\<exists>y. info_of (jdb j') k = Some y \<and> ji_contact y \<noteq> None"
proof -
  let ?g = "\<lambda>x. x\<lparr>ji_contact := Some (ContactAt now)\<rparr>" and ?Q = "\<lambda>x. ji_contact x = None"
  have "info_of (jdb j') k = Some (if ?Q x \<and> (\<exists>b'. (Inr b :: err + bool) = Inr b') then ?g x else x) \<and> (\<forall>e. (Inr b :: err + bool) = Inl e \<longrightarrow> jdb j' = jdb j)"
    by (rule info_update_located [where g = ?g and Q = ?Q, OF _ _ _ _ assms(1) [unfolded mark_device_contact_def] assms(2)])
      (simp_all add: odoo_info_def lan_info_def)
  then show ?thesis by auto
qed

text \<open>A restart: the jobs in flight become indeterminate, pruned ones go.\<close>

lemma info_recovered:
  "info_of (recovered_db now d) k =
     map_option (\<lambda>x. if ji_state x \<in> set IN_FLIGHT then x\<lparr>ji_state := ''indeterminate''\<rparr> else x) (info_of d k)"
proof -
  have "row_of od_id i (upd_where Q (recovered now) t) = map_option (\<lambda>r. if Q r then recovered now r else r) (row_of od_id i t)"
    for i Q and t :: "odoo_row list" by (rule row_of_upd_where) simp
  moreover have "row_of ln_id i (upd_where Q (recovered now) t) = map_option (\<lambda>r. if Q r then recovered now r else r) (row_of ln_id i t)"
    for i Q and t :: "lan_row list" by (rule row_of_upd_where) simp
  ultimately show ?thesis
    by (auto simp: info_of_def recovered_db_def option.map_comp comp_def odoo_info_def lan_info_def recovered_def
        intro!: option.map_cong0)
qed

end
