(* ===== verification/Fiscal_Steps.thy ===== *)
theory Fiscal_Steps
  imports Device_Steps Portos_Executor Journal_Fixed
begin

text \<open>
  The device-job source with the Portos executor on its devices, and Portos itself: every call of the
  executor is a process of its own that moves between its HTTP requests, the tasks of the source and
  crashes come in between in any order. A receipt that was sent has a fate Portos decides at any time,
  also long after its answer was lost. What Portos answers is restricted only by the parameters
  \<open>says\<close> (to a register request, by its fate) and \<open>finds\<close> (to a lookup, by whether there is a receipt).
\<close>

section \<open>Portos\<close>

datatype fate = Undecided | Registered | Refused

type_synonym posts = "(int \<times> string \<times> fate) list"    \<comment> \<open>job, externalId, fate; in the order they were sent\<close>

definition registered :: "string set \<Rightarrow> posts \<Rightarrow> string \<Rightarrow> bool" where
  "registered foreign ps e \<longleftrightarrow> e \<in> foreign \<or> (\<exists>i. (i, e, Registered) \<in> set ps)"

definition posts_of :: "int \<Rightarrow> posts \<Rightarrow> posts" where
  "posts_of k ps = filter (\<lambda>p. fst p = k) ps"

text \<open>
  The documented refusals: nothing was sent; HTTP 400 and 422 with the validation code or none; HTTP
  401; HTTP 404 and 405 without a code of Portos.
\<close>

definition refusal :: "Reply \<Rightarrow> bool" where
  "refusal r =
     (case r of
        Unreachable _ \<Rightarrow> True
      | Lost _ \<Rightarrow> False
      | Answer status body \<Rightarrow>
          (let code = Option.bind (jget ''code'' body) as_i64
           in status \<in> {400, 422} \<and> (code = None \<or> code = Some (- 900)) \<or> status = 401 \<or>
              status \<in> {404, 405} \<and> code = None))"

text \<open>A body that shows a receipt with this \<open>externalId\<close>, or with none.\<close>

definition shows_receipt :: "json \<Rightarrow> string \<Rightarrow> bool \<Rightarrow> bool" where
  "shows_receipt body e named \<longleftrightarrow>
     (\<exists>okp. jpath [''request'', ''data'', ''okp''] body = Some (JStr okp)) \<and>
     (\<exists>n. jpath [''request'', ''data'', ''receiptNumber''] body = Some n \<and> is_number n) \<and>
     (jpath [''request'', ''externalId''] body = Some (JStr e) \<or>
      \<not> named \<and> Option.bind (jpath [''request'', ''externalId''] body) as_str = None)"

text \<open>
  The documented behaviour of Portos: what it refuses it has not registered and never will; the
  receipt it answers a register request with is registered; the receipt a lookup shows exists.
\<close>

definition portos_documented :: "(fate \<Rightarrow> string \<Rightarrow> Reply \<Rightarrow> bool) \<Rightarrow> (bool \<Rightarrow> string \<Rightarrow> Reply \<Rightarrow> bool) \<Rightarrow> bool" where
  "portos_documented says finds \<longleftrightarrow>
     (\<forall>f e r. says f e r \<and> refusal r \<longrightarrow> f = Refused) \<and>
     (\<forall>f e st body. says f e (Answer st body) \<and> is_2xx st \<and> shows_receipt body e False \<longrightarrow> f = Registered) \<and>
     (\<forall>b e body. finds b e (Answer 200 body) \<and> shows_receipt body e True \<longrightarrow> b)"

lemma as_str_Some: "Option.bind x as_str = Some t \<longleftrightarrow> x = Some (JStr t)"
  by (cases x; cases "the x") (auto simp: as_str_def)

lemma receipt_result_shows:
  assumes "receipt_result body e via = Some res"
  shows "shows_receipt body e (via \<noteq> Via_Register)"
proof -
  obtain request data okp n where r: "jget ''request'' body = Some request" "jget ''data'' request = Some data"
    "Option.bind (jget ''okp'' data) as_str = Some okp" "jget ''receiptNumber'' data = Some n" "is_number n"
    "external_id_matches (jget ''externalId'' request) e via"
    using assms by (auto simp: receipt_result_def split: option.splits if_splits)
  have okp: "jget ''okp'' data = Some (JStr okp)" using r(3) by (simp add: as_str_Some)
  show ?thesis
  proof (cases "Option.bind (jget ''externalId'' request) as_str")
    case None
    with r okp show ?thesis by (simp add: shows_receipt_def external_id_matches_def)
  next
    case (Some t)
    then have "jget ''externalId'' request = Some (JStr t)" by (simp add: as_str_Some)
    with r okp Some show ?thesis by (simp add: shows_receipt_def external_id_matches_def)
  qed
qed

section \<open>Steps\<close>

text \<open>The tasks of the source that call no executor. A job the reconciler works on is the row's job.\<close>

inductive task_step :: "(instant \<Rightarrow> string) \<Rightarrow> ExecutorRegistry \<Rightarrow> Timing \<Rightarrow> source \<Rightarrow> source \<Rightarrow> bool"
  for ts reg tm where
  T_Next: "parse_next show_json v = Inr reply \<Longrightarrow> nx_job reply = Some job \<Longrightarrow>
         task_step ts reg tm s (snd (accept_job ts reg now t job s))"
| T_Pending: "task_step ts reg tm s (snd (pending_loop ts odoo now [p] False s))"
| T_Schedule: "info_of (sdb s) (dj_id (je_job entry)) = Some x \<Longrightarrow> ji_tag x = job_tag (je_job entry) \<Longrightarrow>
         task_step ts reg tm s (snd (schedule_one reg now entry s))"
| T_Acked: "task_step ts reg tm s (snd (on_journal (ack_answered now ack answer') s))"
| T_Reported: "task_step ts reg tm s (snd (on_journal (report_answered lan answer'') s))"
| T_Admit: "task_step ts reg tm s (snd (admit ts reg now t req s))"

record fiscal =
  fi_source :: source
  fi_pc :: "DeviceQueue \<times> device_call \<Rightarrow> fiscal_pc option"
  fi_posts :: posts

definition set_pc :: "DeviceQueue \<Rightarrow> device_call \<Rightarrow> fiscal_pc option \<Rightarrow> fiscal \<Rightarrow> fiscal" where
  "set_pc q c pc w = w\<lparr>fi_pc := (fi_pc w)((q, c) := pc)\<rparr>"

definition set_source :: "source \<Rightarrow> fiscal \<Rightarrow> fiscal" where
  "set_source s w = w\<lparr>fi_source := s\<rparr>"

text \<open>A worker that takes up a job, or the question about one, spawns the call.\<close>

definition spawn_call :: "(string \<Rightarrow> string) \<Rightarrow> PortosConfig \<Rightarrow> DeviceQueue \<Rightarrow> source \<Rightarrow> fiscal \<Rightarrow> fiscal" where
  "spawn_call sha cfg q s w =
     (case so_workers s q of
        W_Running job \<Rightarrow> set_pc q (Run (dj_id job)) (Some (execute_begin sha cfg job)) (set_source s w)
      | W_Asking e \<Rightarrow> set_pc q (Ask (dj_id (je_job e))) (Some (reconcile_begin sha cfg e)) (set_source s w)
      | _ \<Rightarrow> set_source s w)"

inductive fiscal_step ::
    "(fate \<Rightarrow> string \<Rightarrow> Reply \<Rightarrow> bool) \<Rightarrow> (bool \<Rightarrow> string \<Rightarrow> Reply \<Rightarrow> bool) \<Rightarrow> string set \<Rightarrow> (string \<Rightarrow> string) \<Rightarrow>
     PortosConfig \<Rightarrow> (instant \<Rightarrow> string) \<Rightarrow> ExecutorRegistry \<Rightarrow> Timing \<Rightarrow> fiscal \<Rightarrow> fiscal \<Rightarrow> bool"
  for says finds foreign sha cfg ts reg tm where
  F_Task: "task_step ts reg tm (fi_source w) s' \<Longrightarrow>
     fiscal_step says finds foreign sha cfg ts reg tm w (set_source s' w)"
| F_Gone: "fiscal_step says finds foreign sha cfg ts reg tm w (set_source (set_worker q W_Gone (fi_source w)) w)"
| F_Recv: "so_workers (fi_source w) q = W_Idle \<Longrightarrow>
     fiscal_step says finds foreign sha cfg ts reg tm w (spawn_call sha cfg q (worker_recv ts q (fi_source w)) w)"
| F_Start: "so_workers (fi_source w) q = W_Loaded e queued_at \<Longrightarrow>
     fiscal_step says finds foreign sha cfg ts reg tm w (spawn_call sha cfg q (execute_start tm now t q (fi_source w)) w)"
| F_Guard: "fiscal_step says finds foreign sha cfg ts reg tm w (set_source (execute_guard tm now q (fi_source w)) w)"
| F_Looked: "fi_pc w (q, c) = Some (F_Lookup job kind base ext code) \<Longrightarrow>
     finds (registered foreign (fi_posts w) ext) ext r \<Longrightarrow>
     fiscal_step says finds foreign sha cfg ts reg tm w (set_pc q c (Some (lookup_answered job kind base ext r)) w)"
| F_Marked: "fi_pc w (q, c) = Some (F_Mark job kind base ext) \<Longrightarrow>
     on_journal (register_mark show_err now job kind base ext) (fi_source w) = (Inr pc', s') \<Longrightarrow>
     fiscal_step says finds foreign sha cfg ts reg tm w (set_pc q c (Some pc') (set_source s' w))"
| F_Posted: "fi_pc w (q, c) = Some (F_Post job kind base ext) \<Longrightarrow>
     fiscal_step says finds foreign sha cfg ts reg tm w
       (set_pc q c (Some (F_Sent job kind base ext)) (w\<lparr>fi_posts := fi_posts w @ [(dj_id job, ext, Undecided)]\<rparr>))"
| F_Decided: "n < length (fi_posts w) \<Longrightarrow> fi_posts w ! n = (i, ext, Undecided) \<Longrightarrow>
     fiscal_step says finds foreign sha cfg ts reg tm w (w\<lparr>fi_posts := (fi_posts w)[n := (i, ext, f)]\<rparr>)"
| F_Replied: "fi_pc w (q, c) = Some (F_Sent job kind base ext) \<Longrightarrow>
     find (\<lambda>p. fst p = dj_id job) (rev (fi_posts w)) = Some (i, ext', f) \<Longrightarrow> says f ext r \<Longrightarrow>
     fiscal_step says finds foreign sha cfg ts reg tm w (set_pc q c (Some (register_answered kind ext r)) w)"
| F_Controlled: "fi_pc w (q, c) = Some (F_Control job op) \<Longrightarrow>
     fiscal_step says finds foreign sha cfg ts reg tm w (set_pc q c (Some (control_answered op r)) w)"
| F_Asked: "fi_pc w (q, c) = Some (F_Ask e base ext code) \<Longrightarrow>
     finds (registered foreign (fi_posts w) ext) ext r \<Longrightarrow>
     fiscal_step says finds foreign sha cfg ts reg tm w (set_pc q c (Some (ask_answered e base ext code r)) w)"
| F_Listed: "fi_pc w (q, c) = Some (F_Unprocessed base ext code) \<Longrightarrow>
     fiscal_step says finds foreign sha cfg ts reg tm w (set_pc q c (Some (unprocessed_answered ext r)) w)"
| F_Return: "awaited_job (so_workers (fi_source w) q) = Some job \<Longrightarrow> fi_pc w (q, Run (dj_id job)) = Some (F_End oc) \<Longrightarrow>
     fiscal_step says finds foreign sha cfg ts reg tm w
       (set_pc q (Run (dj_id job)) None (set_source (execute_return now q (Inr oc) (fi_source w)) w))"
| F_Panic: "awaited_job (so_workers (fi_source w) q) = Some job \<Longrightarrow>
     fiscal_step says finds foreign sha cfg ts reg tm w
       (set_pc q (Run (dj_id job)) None (set_source (execute_return now q (Inl why) (fi_source w)) w))"
| F_Answered: "so_workers (fi_source w) q = W_Asking e \<Longrightarrow>
     fi_pc w (q, Ask (dj_id (je_job e))) = Some (F_Answer a) \<Longrightarrow>
     fiscal_step says finds foreign sha cfg ts reg tm w
       (set_pc q (Ask (dj_id (je_job e))) None (set_source (reconcile_return now q (Inr a) (fi_source w)) w))"
| F_AskPanic: "so_workers (fi_source w) q = W_Asking e \<Longrightarrow>
     fiscal_step says finds foreign sha cfg ts reg tm w
       (set_pc q (Ask (dj_id (je_job e))) None (set_source (reconcile_return now q (Inl why) (fi_source w)) w))"
| F_Detached: "(q, c) \<in> set (so_calls (fi_source w)) \<Longrightarrow> awaited (so_workers (fi_source w) q) \<noteq> Some c \<Longrightarrow>
     fiscal_step says finds foreign sha cfg ts reg tm w
       (set_pc q c None (set_source (call_returned q c (fi_source w)) w))"
| F_Restart: "source_run reg now (on_db (sdb (fi_source w)) fs) (so_log (fi_source w)) = Inr s' \<Longrightarrow>
     fiscal_step says finds foreign sha cfg ts reg tm w \<lparr>fi_source = s', fi_pc = (\<lambda>_. None), fi_posts = fi_posts w\<rparr>"

text \<open>Every step is a step of the source or leaves the source alone.\<close>

lemma task_step_source: "task_step ts reg tm s s' \<Longrightarrow> source_step ts reg tm s s'"
  by (induction rule: task_step.induct) (auto intro: source_step.intros simp del: pending_loop.simps)

lemma source_of [simp]:
  "fi_source (set_pc q c pc w) = fi_source w" "fi_source (set_source s w) = s"
  "fi_source (spawn_call sha cfg q s w) = s"
  "fi_posts (set_pc q c pc w) = fi_posts w" "fi_posts (set_source s w) = fi_posts w"
  "fi_posts (spawn_call sha cfg q s w) = fi_posts w" "fi_pc (set_source s w) = fi_pc w"
  "fi_pc (set_pc q c pc w) = (fi_pc w)((q, c) := pc)"
  by (simp_all add: set_pc_def set_source_def spawn_call_def split: worker_pc.splits)

lemma register_mark_source:
  assumes "on_journal (register_mark show_err now job kind base ext) s = (Inr pc', s')"
  shows "s' = snd (on_journal (mark_device_contact now (dj_id job)) s)"
    and "\<exists>r j'. mark_device_contact now (dj_id job) (so_journal s) = (r, j') \<and> so_journal s' = j' \<and>
           (pc' = F_Post job kind base ext \<and> (\<exists>b. r = Inr b) \<or> (\<exists>code text. pc' = F_End (O_Failed code text)))"
  using assms
  by (auto simp: register_mark_def on_journal_def zoom_op_def match_op_def ok_def split: prod.splits sum.splits)

lemma fiscal_step_source:
  assumes "fiscal_step says finds foreign sha cfg ts reg tm w w'"
  shows "fi_source w' = fi_source w \<or> source_step ts reg tm (fi_source w) (fi_source w')"
  using assms
proof (induction rule: fiscal_step.induct)
  case (F_Marked w q c job kind base ext show_err now pc' s')
  have "s' = snd (on_journal (mark_device_contact now (dj_id job)) (fi_source w))"
    using F_Marked.hyps(2) by (rule register_mark_source(1))
  then show ?case using Write [OF Contact] by simp
qed (auto intro: source_step.intros task_step_source)

text \<open>A run whose every step satisfies \<open>P\<close> of the source.\<close>

inductive fiscal_run for says finds foreign sha cfg ts reg tm P where
  F_Done: "fiscal_run says finds foreign sha cfg ts reg tm P w w"
| F_More: "fiscal_run says finds foreign sha cfg ts reg tm P w w' \<Longrightarrow>
     fiscal_step says finds foreign sha cfg ts reg tm w' w'' \<Longrightarrow> P (fi_source w') (fi_source w'') \<Longrightarrow>
     fiscal_run says finds foreign sha cfg ts reg tm P w w''"

end
