(* ===== verification/Fiscal_Routing.thy ===== *)
theory Fiscal_Routing
  imports Fiscal_Steps
begin

text \<open>
  A job stays on one device: the queue items, the workers and the calls of a job are all on the queue
  its journal row leads to, as long as the registry chooses the device by job type, till and client id.
\<close>

section \<open>What the journal answers\<close>

lemma journal_get_info:
  assumes "journal_get ts i j = (Inr (Some e), j')"
  shows "\<exists>x. info_of (jdb j) i = Some x \<and> job_tag (je_job e) = ji_tag x \<and> je_device_contact_at e = ji_contact x \<and>
             (je_state e = J_Indeterminate \<longrightarrow> ji_state x = ''indeterminate'')"
proof (cases "is_lan_job i")
  case True
  with assms obtain l where "read_row (row_to_lan ts) (row_of ln_id (lan_job_id i) (jd_lan_jobs (jdb j))) = Inr (Some l)"
    and e: "e = lj_entry l"
    by (auto simp: journal_get_def lan_job_by_id_def ok_def elim!: try_op_InrE dest!: on_conn_InrD query_InrD)
  then obtain r where "row_of ln_id (lan_job_id i) (jd_lan_jobs (jdb j)) = Some r" "row_to_lan ts r = Inr l"
    by (blast dest: read_row_Some)
  with e True show ?thesis
    by (auto simp: info_of_def lan_info_def job_tag_def row_to_lan_def lan_job_id_def parse_state_def
        split: option.splits if_splits)
next
  case False
  with assms have "read_row row_to_entry (row_of od_id i (jd_device_jobs (jdb j))) = Inr (Some e)"
    by (auto simp: journal_get_def dest!: on_conn_InrD query_InrD)
  then obtain r where "row_of od_id i (jd_device_jobs (jdb j)) = Some r" "row_to_entry r = Inr e"
    by (blast dest: read_row_Some)
  with False show ?thesis
    by (auto simp: info_of_def odoo_info_def row_to_entry_def parse_state_def split: option.splits if_splits)
qed

lemma inserted_info:
  assumes "insert_odoo ts now job refused j = (Inr I_New, j')" and "0 < dj_id job"
  shows "info_of (jdb j') (dj_id job) =
      Some \<lparr>ji_state = (if refused = None then ''received'' else ''failed''), ji_contact = None, ji_tag = job_tag job\<rparr>"
proof -
  have "row_of od_id (dj_id job) (jd_device_jobs (jdb j)) = None \<and>
      jd_device_jobs (jdb j') = jd_device_jobs (jdb j) @ [new_odoo_row now job refused]"
    using assms(1)
    by (auto simp: insert_odoo_def ok_def bail_def elim!: try_op_InrE dest!: on_conn_InrD sql_Inr_effect
        split: if_splits option.splits)
  then show ?thesis
    using assms(2) by (cases refused) (auto simp: info_of_def is_lan_job_def row_of_append odoo_info_def new_odoo_row_def)
qed

lemma lan_inserted_info:
  assumes "insert_lan_received ts now job j = (Inr (L_New i), j')" and "journal_wf (jdb j)" and "dj_kasa_id job = Some kasa"
  shows "info_of (jdb j') i = Some \<lparr>ji_state = ''received'', ji_contact = None, ji_tag = job_tag job\<rparr>"
proof -
  let ?n = "jd_lan_seq (jdb j) + 1"
  have i: "i = - ?n" and rows: "jd_lan_jobs (jdb j') = jd_lan_jobs (jdb j) @ [new_lan_row now ?n kasa job]"
    using assms(1,3)
    by (auto simp: insert_lan_received_def ok_def bail_def Let_def lan_job_id_def elim!: try_op_InrE
        dest!: on_conn_InrD sql_Inr_effect split: if_splits option.splits)
  have "row_of ln_id ?n (jd_lan_jobs (jdb j)) = None" and "0 \<le> jd_lan_seq (jdb j)"
    using assms(2) by (force simp: journal_wf_def lan_wf_def row_of_None_iff)+
  then have "is_lan_job i" "- i = ?n" "row_of ln_id ?n (jd_lan_jobs (jdb j')) = Some (new_lan_row now ?n kasa job)"
    using i rows by (auto simp: is_lan_job_def row_of_append new_lan_row_def)
  then show ?thesis using assms(3) by (simp only: info_of_def) (simp add: lan_info_def new_lan_row_def job_tag_def)
qed

lemma fixed_record_failed:
  assumes "info_of (jdb j) i = Some x" and "ji_state x = ''received''"
  shows "fixed k (jdb j) (jdb (snd (record_outcome now i (O_Failed code text) j)))"
proof (cases "k = i")
  case True
  obtain res j' where run: "record_outcome now i (O_Failed code text) j = (res, j')" by fastforce
  from info_record_outcome(1) [OF run assms(1)] assms True run show ?thesis
    by (auto simp: fixed_def keeps_info_def)
next
  case False
  then show ?thesis using fixed_record_other [of i k now "O_Failed code text"] by (simp add: moves_def)
qed

section \<open>The queue of a job\<close>

definition till_route :: "ExecutorRegistry \<Rightarrow> job_tag \<Rightarrow> DeviceQueue option" where
  "till_route reg t =
     (case t of (jt, kasa, uuid) \<Rightarrow>
        queue_of reg \<lparr>dj_id = 0, dj_job_type = jt, dj_client_uuid = uuid, dj_kasa_id = kasa, dj_kasa_name = [],
                      dj_pos_order = JNull, dj_payload = JNull, dj_created_at = [], dj_claimed_at = []\<rparr>)"

definition by_tag :: "ExecutorRegistry \<Rightarrow> bool" where
  "by_tag reg \<longleftrightarrow> (\<forall>job. queue_of reg job = till_route reg (job_tag job))"

text \<open>The registry of a bridge with Portos on the fiscal devices chooses by the till.\<close>

lemma portos_by_tag: "by_tag (Map.empty(Fiscal \<mapsto> portos_executor rfc3339 now cfg states))"
  by (auto simp: by_tag_def till_route_def queue_of_def job_tag_def portos_executor_def split: option.splits DeviceKind.splits)

fun item_id :: "WorkItem \<Rightarrow> int" where
  "item_id (Execute i _) = i"
| "item_id (Reconcile i) = i"

definition belongs :: "ExecutorRegistry \<Rightarrow> int \<Rightarrow> source \<Rightarrow> DeviceQueue \<Rightarrow> bool" where
  "belongs reg k s q \<longleftrightarrow> (\<exists>x. info_of (sdb s) k = Some x \<and> till_route reg (ji_tag x) = Some q)"

definition items_ok :: "ExecutorRegistry \<Rightarrow> int \<Rightarrow> source \<Rightarrow> bool" where
  "items_ok reg k s \<longleftrightarrow>
     (\<forall>q items item. so_queues s q = Some items \<longrightarrow> item \<in> set items \<longrightarrow> item_id item = k \<longrightarrow> belongs reg k s q)"

lemma belongs_fixed: "fixed k (sdb s) (sdb s') \<Longrightarrow> belongs reg k s q \<Longrightarrow> belongs reg k s' q"
  by (cases "info_of (sdb s') k") (auto simp: belongs_def fixed_def keeps_info_def)

text \<open>The tasks other than the workers.\<close>

definition backs :: "ExecutorRegistry \<Rightarrow> int \<Rightarrow> source \<Rightarrow> source \<Rightarrow> bool" where
  "backs reg k s s' \<longleftrightarrow>
     fixed k (sdb s) (sdb s') \<and> so_workers s' = so_workers s \<and> so_log s' = so_log s \<and> (items_ok reg k s \<longrightarrow> items_ok reg k s')"

interpretation backs: step_relation "backs reg k" for reg k
  by unfold_locales (auto simp: backs_def intro: fixed_refl fixed_trans)

named_theorems backs_keeps "operations of the background tasks"

lemma backs_journal:
  assumes "fixed k (sdb s) (jdb (snd (m (so_journal s))))"
  shows "backs reg k s (snd (on_journal m s))"
  using assms belongs_fixed [of k s "snd (on_journal m s)" reg]
  by (auto simp: backs_def on_journal_run items_ok_def)

lemma backs_on_journal [backs_keeps]:
  "moves (\<lambda>j j'. fixed k (jdb j) (jdb j')) m \<Longrightarrow> moves (backs reg k) (on_journal m)"
  by (auto simp: moves_def intro: backs_journal)

lemma backs_silent:
  "so_journal s' = so_journal s \<Longrightarrow> so_workers s' = so_workers s \<Longrightarrow> so_log s' = so_log s \<Longrightarrow> so_queues s' = so_queues s \<Longrightarrow>
   backs reg k s s'"
  by (simp add: backs_def items_ok_def belongs_def fixed_refl)

lemma backs_modify [backs_keeps]:
  "moves (backs reg k) (modify_op ack_soon)" "moves (backs reg k) (modify_op outcome_recorded)"
  "moves (backs reg k) (start_reconcile i)"
  by (auto intro!: movesI backs_silent simp: modify_op_def outcome_recorded_def ack_soon_def start_reconcile_def)

lemma backs_send:
  assumes "item_id item = k \<longrightarrow> belongs reg k s q"
  shows "backs reg k s (snd (send_item q item s))"
proof -
  have "items_ok reg k (s\<lparr>so_queues := (so_queues s)(q := map_option (\<lambda>items. items @ [item]) (so_queues s q))\<rparr>)"
    if "items_ok reg k s"
    using that assms by (auto simp: items_ok_def belongs_def split: if_splits)
  then show ?thesis by (auto simp: backs_def send_item_def fixed_refl)
qed

lemma backs_queue:
  assumes "by_tag reg" and "item_id item = k \<longrightarrow> (\<exists>x. info_of (sdb s) k = Some x \<and> ji_tag x = job_tag job)"
  shows "backs reg k s (snd (queue_item reg job item s))"
  using assms
  by (auto simp: queue_item_def queue_for_def by_tag_def belongs_def backs.step_refl intro!: backs_send
      split: option.splits if_splits)

lemma queue_item_journal: "queue_item reg job item s = (r, s') \<Longrightarrow> so_journal s' = so_journal s"
  by (auto simp: queue_item_def send_item_def split: option.splits if_splits)

lemma try_op_match: "try_op m f = match_op m (\<lambda>r. case r of Inl e \<Rightarrow> bail e | Inr x \<Rightarrow> f x)"
  by (auto simp: fun_eq_iff try_op_def match_op_def bail_def split: sum.splits prod.splits)

text \<open>A new job is queued; a worker that is not there fails it.\<close>

lemma backs_new_job:
  assumes "by_tag reg" and "info_of (sdb s) i = Some x" and "ji_tag x = job_tag job" and "ji_state x = ''received''"
    and "\<And>queued. queued \<Longrightarrow> moves (backs reg k) (f queued)"
    and "f False = match_op (on_journal (record_outcome now i (O_Failed code text))) g"
    and "\<And>r. moves (backs reg k) (g r)"
  shows "backs reg k s (snd (try_op (queue_item reg job (Execute i t)) f s))"
proof -
  obtain r s1 where q: "queue_item reg job (Execute i t) s = (r, s1)" by fastforce
  have s1: "backs reg k s s1"
    using backs_queue [OF assms(1), of "Execute i t" k s job] assms(2,3) q by auto
  have r: "r = Inr True \<or> r = Inr False" using q by (auto simp: queue_item_def send_item_def split: option.splits if_splits)
  have "backs reg k s1 (snd (f False s1))"
  proof -
    have "info_of (sdb s1) i = Some x" using assms(2) queue_item_journal [OF q] by simp
    then have "backs reg k s1 (snd (on_journal (record_outcome now i (O_Failed code text)) s1))"
      using assms(4) by (intro backs_journal fixed_record_failed)
    then show ?thesis
      using assms(6,7) by (auto simp: match_op_def moves_def split: prod.splits intro: backs.step_trans)
  qed
  moreover have "backs reg k s1 (snd (f True s1))" using assms(5) by (simp add: moves_def)
  ultimately show ?thesis
    using r q s1 by (auto simp: try_op_def intro: backs.step_trans)
qed

section \<open>Background tasks\<close>

lemma on_journal_Inr: "on_journal m s = (Inr x, s1) \<Longrightarrow> m (so_journal s) = (Inr x, so_journal s1)"
  by (auto simp: on_journal_run intro: prod_eqI)

lemma backs_move: "moves (backs reg k) m \<Longrightarrow> backs reg k s (snd (m s))"
  by (simp add: moves_def)

lemma backs_accept:
  assumes "by_tag reg" and "0 < dj_id job"
  shows "backs reg k s (snd (accept_job ts reg now t job s))"
proof (cases "validate reg job")
  case (Inl rej)
  have "moves (backs reg k) (accept_job ts reg now t job)"
    unfolding accept_job_def Let_def Inl sum.case insert_refused_def
    by (cases rej) (auto split: Inserted.splits intro!: backs.moves_rules backs_keeps fixed_keeps)
  then show ?thesis by (rule backs_move)
next
  case (Inr kind)
  show ?thesis
    unfolding accept_job_def Let_def Inr sum.case
  proof (rule backs.step_try)
    show "moves (backs reg k) (on_journal (insert_received ts now job))"
      unfolding insert_received_def by (intro backs_keeps fixed_keeps)
  next
    fix inserted s1
    assume run: "on_journal (insert_received ts now job) s = (Inr inserted, s1)"
    show "backs reg k s1 (snd ((case inserted of
        I_New \<Rightarrow> try_op (queue_item reg job (Execute (dj_id job) t)) (\<lambda>queued. if queued then ok ()
            else try_op (on_journal (record_outcome now (dj_id job) (O_Failed ''bridge_error''
              (''the devbridge '' @ kind_text kind @ '' worker is not running - nothing ran'')))) (\<lambda>_. modify_op outcome_recorded))
      | I_Known known \<Rightarrow> try_op (on_journal (reopen_ack now (dj_id job))) (\<lambda>_. modify_op ack_soon)) s1))"
    proof (cases inserted)
      case I_New
      have "info_of (sdb s1) (dj_id job) = Some \<lparr>ji_state = ''received'', ji_contact = None, ji_tag = job_tag job\<rparr>"
        using inserted_info [of ts now job None "so_journal s" "so_journal s1"] on_journal_Inr [OF run] I_New assms(2)
        by (simp add: insert_received_def)
      then show ?thesis
        unfolding I_New Inserted.case
        by (rule backs_new_job [OF assms(1)])
          (simp_all only: if_True if_False try_op_match jinfo.simps, auto intro!: backs.moves_rules backs_keeps)
    next
      case (I_Known known)
      have "moves (backs reg k) (try_op (on_journal (reopen_ack now (dj_id job))) (\<lambda>_. modify_op ack_soon))"
        by (intro backs.moves_rules backs_keeps fixed_keeps)
      then show ?thesis using I_Known by (simp add: moves_def)
    qed
  qed
qed

lemma backs_admit:
  assumes "by_tag reg" and "journal_wf (sdb s)"
  shows "backs reg k s (snd (admit ts reg now t r s))"
  unfolding admit_def
proof (rule backs.step_try)
  show "moves (backs reg k) (on_journal (lan_job ts (lr_kasa_id r) (lr_client_uuid r)))"
    by (intro backs_keeps fixed_keeps)
next
  fix known s1
  assume run: "on_journal (lan_job ts (lr_kasa_id r) (lr_client_uuid r)) s = (Inr known, s1)"
  have wf: "journal_wf (sdb s1)"
    using on_journal_Inr [OF run] assms(2) by (auto simp: lan_job_def dest!: on_conn_InrD query_InrD)
  let ?job = "to_job r"
  have new: "backs reg k s1 (snd (try_op (on_journal (insert_lan_received ts now ?job)) f s1))"
    if known: "\<And>stored. moves (backs reg k) (f (L_Known stored))"
      and f: "\<And>i. f (L_New i) = try_op (queue_item reg (?job\<lparr>dj_id := i\<rparr>) (Execute i t)) (\<lambda>queued.
          if queued then ok (Journaled i False)
          else match_op (on_journal (record_outcome now i (O_Failed CODE_BRIDGE_ERROR why))) (\<lambda>recorded.
            case recorded of Inr _ \<Rightarrow> try_op (modify_op outcome_recorded) (\<lambda>_. ok (Journaled i False))
            | Inl _ \<Rightarrow> ok (Journaled i False)))"
    for f why
  proof (rule backs.step_try)
    show "moves (backs reg k) (on_journal (insert_lan_received ts now ?job))" by (intro backs_keeps fixed_keeps)
  next
    fix inserted s2
    assume run: "on_journal (insert_lan_received ts now ?job) s1 = (Inr inserted, s2)"
    show "backs reg k s2 (snd (f inserted s2))"
    proof (cases inserted)
      case (L_New i)
      have "info_of (sdb s2) i = Some \<lparr>ji_state = ''received'', ji_contact = None, ji_tag = job_tag ?job\<rparr>"
        by (rule lan_inserted_info) (use on_journal_Inr [OF run] L_New wf in \<open>auto simp: to_job_def\<close>)
      then show ?thesis
        unfolding L_New f
        by (rule backs_new_job [OF assms(1)])
          (simp_all only: if_True if_False jinfo.simps, auto simp: job_tag_def intro!: backs.moves_rules backs_keeps)
    next
      case (L_Known stored)
      then show ?thesis using known by (simp add: moves_def)
    qed
  qed
  have refuse: "moves (backs reg k) (ok a)" for a :: Admission by (rule backs.moves_ok)
  then show "backs reg k s1 (snd ((case known of None \<Rightarrow> let job = ?job in
         if for_job_type (dj_job_type job) \<noteq> Some Fiscal
         then ok (Answered (LA_Refused CODE_LAN_UNSUPPORTED (not_fiscal_text (dj_job_type job))))
         else if dj_job_type job = PRINT_TEXT_JOB_TYPE
         then ok (Answered (LA_Refused CODE_LAN_UNSUPPORTED print_text_refused))
         else case validate reg job of
           Inl (code, text) \<Rightarrow> ok (Answered (LA_Refused code text))
         | Inr _ \<Rightarrow> try_op (on_journal (insert_lan_received ts now job)) (\<lambda>inserted.
             case inserted of
               L_New job_id \<Rightarrow> try_op (queue_item reg (job\<lparr>dj_id := job_id\<rparr>) (Execute job_id t)) (\<lambda>queued.
                 if queued then ok (Journaled job_id False)
                 else match_op (on_journal (record_outcome now job_id (O_Failed CODE_BRIDGE_ERROR
                        ''the devbridge fiscal worker is not running - nothing ran''))) (\<lambda>recorded.
                      case recorded of
                        Inl _ \<Rightarrow> ok (Journaled job_id False)
                      | Inr _ \<Rightarrow> try_op (modify_op outcome_recorded) (\<lambda>_. ok (Journaled job_id False))))
             | L_Known stored \<Rightarrow> ok (replayed stored r))
       | Some stored \<Rightarrow> ok (replayed stored r)) s1))"
    unfolding Let_def
    by (auto simp: moves_def split: option.splits sum.splits prod.splits simp del: append.simps
        intro!: new [of _ "''the devbridge fiscal worker is not running - nothing ran''"] backs.moves_ok)
qed

lemma backs_task:
  assumes "task_step ts reg tm s s'" and "by_tag reg" and "journal_wf (sdb s)"
  shows "backs reg k s s'"
  using assms
proof (induction rule: task_step.induct)
  case (T_Next show_json v reply job s now t)
  then show ?case by (intro backs_accept parse_next_id)
next
  case (T_Pending s odoo now p)
  have "moves (backs reg k) (pending_loop ts odoo now ps later)" for ps later
    by (induction ps arbitrary: later)
      (simp_all only: pending_loop.simps, (intro backs.moves_rules backs_keeps fixed_keeps; assumption?)+)
  then show ?case by (rule backs_move)
next
  case (T_Schedule s entry x now)
  let ?i = "dj_id (je_job entry)"
  have here: "belongs reg ?i s q" if "queue_for reg s (je_job entry) = Some q" for q
    using that T_Schedule by (auto simp: belongs_def queue_for_def by_tag_def split: option.splits if_splits)
  have "backs reg k s (snd (try_op (start_reconcile ?i) (\<lambda>mine.
      if mine then try_op (send_item q (Reconcile ?i)) (\<lambda>_. ok ()) else ok ()) s))"
    if "queue_for reg s (je_job entry) = Some q" for q
  proof (rule backs.step_try)
    fix mine s1
    assume run: "start_reconcile ?i s = (Inr mine, s1)"
    have "belongs reg ?i s1 q" using here [OF that] run by (auto simp: start_reconcile_def belongs_def)
    then have sent: "backs reg k s1 (snd (send_item q (Reconcile ?i) s1))" by (intro backs_send) auto
    show "backs reg k s1 (snd ((if mine then try_op (send_item q (Reconcile ?i)) (\<lambda>_. ok ()) else ok ()) s1))"
      using sent by (auto simp: ok_def backs.step_refl try_op_def send_item_def)
  qed (intro backs_keeps)
  moreover have "moves (backs reg k) (try_op (on_journal (record_still_unknown now ?i UNRECONCILABLE_TEXT))
      (\<lambda>_. modify_op outcome_recorded))"
    by (intro backs.moves_rules backs_keeps fixed_keeps)
  ultimately show ?case
    using backs.step_refl by (auto simp: schedule_one_def Let_def moves_def ok_def split: option.splits)
next
  case (T_Acked s now ack answer')
  have "moves (backs reg k) (on_journal (ack_answered now ack answer'))"
    unfolding ack_answered_def mark_accepted_def mark_card_auth_acked_def
    by (cases ack) (auto intro!: backs_keeps fixed.moves_rules fixed_keeps)
  then show ?case by (rule backs_move)
next
  case (T_Reported s lan answer'')
  have "moves (backs reg k) (on_journal (report_answered lan answer''))"
    unfolding report_answered_def by (intro backs_keeps fixed.moves_rules fixed_keeps)
  then show ?case by (rule backs_move)
qed (auto intro: backs_admit)

section \<open>Workers\<close>

definition tagged :: "int \<Rightarrow> journal_db \<Rightarrow> journal_db \<Rightarrow> bool" where
  "tagged k d d' \<longleftrightarrow> (\<forall>x. info_of d k = Some x \<longrightarrow> (\<exists>y. info_of d' k = Some y \<and> ji_tag y = ji_tag x))"

lemma fixed_tagged: "fixed k d d' \<Longrightarrow> tagged k d d'"
  by (cases "info_of d k"; cases "info_of d' k") (auto simp: tagged_def fixed_def keeps_info_def)

lemma tagged_record: "tagged k (jdb j) (jdb (snd (record_outcome now i oc j)))"
proof (cases "i = k")
  case True
  obtain res j' where run: "record_outcome now i oc j = (res, j')" by fastforce
  show ?thesis using info_record_outcome(1) [OF run] True run by (auto simp: tagged_def)
next
  case False
  then show ?thesis using fixed_record_other [of i k now oc] by (simp add: moves_def fixed_tagged)
qed

text \<open>The job a worker is at.\<close>

definition at_worker :: "worker_pc \<Rightarrow> DeviceJob option" where
  "at_worker pc =
     (case pc of W_Loaded e _ \<Rightarrow> Some (je_job e) | W_Running job \<Rightarrow> Some job | W_Overdue job \<Rightarrow> Some job
      | W_Asking e \<Rightarrow> Some (je_job e) | _ \<Rightarrow> None)"

definition workers_ok :: "ExecutorRegistry \<Rightarrow> int \<Rightarrow> source \<Rightarrow> bool" where
  "workers_ok reg k s \<longleftrightarrow>
     (\<forall>q job. at_worker (so_workers s q) = Some job \<longrightarrow> dj_id job = k \<longrightarrow>
        (\<exists>x. info_of (sdb s) k = Some x \<and> job_tag job = ji_tag x \<and> till_route reg (ji_tag x) = Some q))"

lemma items_frame:
  assumes "items_ok reg k s" and "tagged k (sdb s) (sdb s')"
    and "\<And>q items'. so_queues s' q = Some items' \<Longrightarrow> \<exists>items. so_queues s q = Some items \<and> set items' \<subseteq> set items"
  shows "items_ok reg k s'"
  unfolding items_ok_def
proof (intro allI impI)
  fix q items' item assume "so_queues s' q = Some items'" "item \<in> set items'" "item_id item = k"
  with assms(3) obtain items where "so_queues s q = Some items" "item \<in> set items" by blast
  with assms(1) \<open>item_id item = k\<close> have "belongs reg k s q" unfolding items_ok_def by blast
  then show "belongs reg k s' q" using assms(2) by (fastforce simp: belongs_def tagged_def)
qed

lemma workers_frame:
  assumes "workers_ok reg k s" and "tagged k (sdb s) (sdb s')"
    and "\<And>q job. at_worker (so_workers s' q) = Some job \<Longrightarrow> dj_id job = k \<Longrightarrow> at_worker (so_workers s q) = Some job"
  shows "workers_ok reg k s'"
  unfolding workers_ok_def
proof (intro allI impI)
  fix q job assume "at_worker (so_workers s' q) = Some job" "dj_id job = k"
  with assms(1,3) obtain x where "info_of (sdb s) k = Some x" "job_tag job = ji_tag x" "till_route reg (ji_tag x) = Some q"
    unfolding workers_ok_def by blast
  with assms(2) show "\<exists>x. info_of (sdb s') k = Some x \<and> job_tag job = ji_tag x \<and> till_route reg (ji_tag x) = Some q"
    by (fastforce simp: tagged_def)
qed

text \<open>What the stretches of a worker do to the rest of the source.\<close>

lemma read_only:
  "journal_get ts i j = (r, j') \<Longrightarrow> jdb j' = jdb j"
  by (auto simp: journal_get_def lan_job_by_id_def on_conn_def zoom_op_def try_op_def ok_def
      dest!: query_same_db split: if_splits prod.splits sum.splits)

lemma recv_effect:
  assumes "so_workers s q = W_Idle"
    and s': "s' = worker_recv ts q s"
  shows "sdb s' = sdb s \<and> so_log s' = so_log s \<and> (\<forall>p. p \<noteq> q \<longrightarrow> so_workers s' p = so_workers s p) \<and>
    (so_queues s' = so_queues s \<and> so_workers s' q = W_Idle \<or>
     (\<exists>item items. so_queues s q = Some (item # items) \<and> so_queues s' = (so_queues s)(q \<mapsto> items) \<and>
        (so_workers s' q = W_Idle \<or>
         (\<exists>e x. dj_id (je_job e) = item_id item \<and> info_of (sdb s) (item_id item) = Some x \<and> job_tag (je_job e) = ji_tag x \<and>
            je_device_contact_at e = ji_contact x \<and>
            ((\<exists>w. so_workers s' q = W_Loaded e w) \<or> so_workers s' q = W_Asking e \<and> ji_state x = ''indeterminate'')))))"
proof (cases "\<exists>item items. so_queues s q = Some (item # items)")
  case False
  then have "s' = s" by (auto simp: s' worker_recv_def split: option.splits list.splits)
  with assms(1) show ?thesis by simp
next
  case True
  then obtain item items where q: "so_queues s q = Some (item # items)" by blast
  obtain r j' where get: "journal_get ts (item_id item) (so_journal s) = (r, j')" by fastforce
  have db: "jdb j' = sdb s" using read_only [OF get] .
  have e: "dj_id (je_job e) = item_id item \<and> (\<exists>x. info_of (sdb s) (item_id item) = Some x \<and> job_tag (je_job e) = ji_tag x \<and>
      je_device_contact_at e = ji_contact x \<and> (je_state e = J_Indeterminate \<longrightarrow> ji_state x = ''indeterminate''))"
    if "r = Inr (Some e)" for e
    using journal_get_id [of ts _ _ e] journal_get_info [of ts _ _ e] get that by blast
  have sent: "so_queues (set_worker p pc u) = so_queues u" "so_queues (call_device p c u) = so_queues u"
    "so_queues (reconcile_done i u) = so_queues u" for p pc c i u
    by (simp_all add: set_worker_def call_device_def reconcile_done_def)
  show ?thesis
  proof (cases item)
    case (Execute i w)
    then show ?thesis using q get assms(1) db e
      by (cases "\<exists>e. r = Inr (Some e)") (auto simp: s' worker_recv_def on_journal_run sent split: sum.splits option.splits)
  next
    case (Reconcile i)
    show ?thesis
    proof (cases "\<exists>e. r = Inr (Some e) \<and> je_state e = J_Indeterminate")
      case True
      then show ?thesis using q get assms(1) db e Reconcile by (auto simp: s' worker_recv_def on_journal_run sent)
    next
      case False
      then show ?thesis using q get assms(1) db Reconcile
        by (auto simp: s' worker_recv_def on_journal_run sent split: sum.splits option.splits)
    qed
  qed
qed

lemma start_effect:
  assumes "so_workers s q = W_Loaded e w"
    and s': "s' = execute_start tm now t q s" and i: "i = dj_id (je_job e)"
  shows "fixed k (sdb s) (sdb s') \<and> so_queues s' = so_queues s \<and> (\<forall>p. p \<noteq> q \<longrightarrow> so_workers s' p = so_workers s p) \<and>
    (so_workers s' q = W_Idle \<and> so_log s' = so_log s \<or>
     so_workers s' q = W_Running (je_job e) \<and> so_log s' = so_log s @ [(q, i)] \<and>
     start_execution now i (so_journal s) = (Inr True, so_journal s'))"
proof -
  have qs: "so_queues (set_worker p pc u) = so_queues u" "so_queues (call_device p c u) = so_queues u"
    "so_queues (outcome_recorded u) = so_queues u" for p pc c u
    by (simp_all add: set_worker_def call_device_def outcome_recorded_def ack_soon_def)
  have fs: "fixed k (sdb s) (jdb (snd (start_execution now i (so_journal s))))"
    "fixed k (sdb s) (jdb (snd (fail_unstarted now i c tx (so_journal s))))" for c tx
    using fixed_state_machine(1,2) [of k] by (simp_all add: moves_def)
  show ?thesis
  proof (cases "queue_wait_exceeded w t (tm_max_queue_wait tm)")
    case True
    then show ?thesis using assms(1) fs(2)
      by (auto simp: s' i execute_start_def Let_def on_journal_run qs split: sum.splits)
  next
    case False
    obtain r j' where run: "start_execution now i (so_journal s) = (r, j')" by fastforce
    show ?thesis
    proof (cases "r = Inr True")
      case True
      then show ?thesis using assms(1) False run fs(1)
        by (auto simp: s' i execute_start_def Let_def on_journal_run qs)
    next
      case no: False
      then have "s' = snd (on_journal (start_execution now i) (set_worker q W_Idle s))"
        using assms(1) False run
        by (auto simp: s' i execute_start_def Let_def on_journal_run split: sum.splits bool.splits)
      then show ?thesis using fs(1) by (auto simp: on_journal_run qs)
    qed
  qed
qed

text \<open>The stretches that record what became of a job.\<close>

lemma records_effect:
  "so_workers s q = W_Running job \<Longrightarrow> execute_guard tm now q s = s' \<Longrightarrow>
     record_outcome now (dj_id job) (O_Indeterminate (guard_text tm q)) (so_journal s) = (res, j') \<Longrightarrow>
       so_journal s' = j' \<and> so_log s' = so_log s \<and> so_queues s' = so_queues s \<and>
       so_workers s' = (so_workers s)(q := (case res of Inl _ \<Rightarrow> W_Idle | Inr _ \<Rightarrow> W_Overdue job))"
  "awaited_job (so_workers s q) = Some job \<Longrightarrow> execute_return now q joined s = s' \<Longrightarrow>
     record_outcome now (dj_id job) (outcome_of joined) (so_journal s) = (res, j') \<Longrightarrow>
       so_journal s' = j' \<and> so_log s' = so_log s \<and> so_queues s' = so_queues s \<and> so_workers s' = (so_workers s)(q := W_Idle)"
  "so_workers s q = W_Asking e \<Longrightarrow> reconcile_return now q answer s = s' \<Longrightarrow>
     record_answer now (dj_id (je_job e)) (reconciliation_of answer) (so_journal s) = (res', j'') \<Longrightarrow>
       so_journal s' = j'' \<and> so_log s' = so_log s \<and> so_queues s' = so_queues s \<and> so_workers s' = (so_workers s)(q := W_Idle)"
  by (auto simp: execute_guard_def execute_return_def reconcile_return_def Let_def on_journal_run set_worker_def
      outcome_recorded_def ack_soon_def call_returned_def reconcile_done_def split: sum.splits)

section \<open>Every step keeps jobs on their queues\<close>

definition routed :: "ExecutorRegistry \<Rightarrow> int \<Rightarrow> source \<Rightarrow> bool" where
  "routed reg k s \<longleftrightarrow> items_ok reg k s \<and> workers_ok reg k s"

lemma routed_frame:
  assumes "routed reg k s" and "tagged k (sdb s) (sdb s')" and "so_queues s' = so_queues s"
    and "\<And>q job. at_worker (so_workers s' q) = Some job \<Longrightarrow> dj_id job = k \<Longrightarrow> at_worker (so_workers s q) = Some job"
  shows "routed reg k s'"
  using assms items_frame [of reg k s s'] workers_frame [of reg k s s'] by (auto simp: routed_def)

lemma tagged_refl: "tagged k d d"
  by (simp add: tagged_def)

lemma routed_task:
  assumes "task_step ts reg tm s s'" and "by_tag reg" and "journal_wf (sdb s)" and "routed reg k s"
  shows "routed reg k s'"
proof -
  have b: "backs reg k s s'" using assms(1-3) by (rule backs_task)
  then have "workers_ok reg k s'" using assms(4) workers_frame [of reg k s s'] by (auto simp: routed_def backs_def fixed_tagged)
  with b assms(4) show ?thesis by (simp add: routed_def backs_def)
qed

lemma routed_recv:
  assumes "routed reg k s" and "so_workers s q = W_Idle"
  shows "routed reg k (worker_recv ts q s)"
proof -
  let ?s' = "worker_recv ts q s"
  note eff = recv_effect [OF assms(2) refl, of ts]
  have tag: "tagged k (sdb s) (sdb ?s')" using eff by (simp add: tagged_refl)
  have "items_ok reg k ?s'"
  proof (rule items_frame [OF _ tag])
    show "items_ok reg k s" using assms(1) by (simp add: routed_def)
    fix p items' assume "so_queues ?s' p = Some items'"
    with eff show "\<exists>items. so_queues s p = Some items \<and> set items' \<subseteq> set items"
      by (auto split: if_splits)
  qed
  moreover have "workers_ok reg k ?s'"
    unfolding workers_ok_def
  proof (intro allI impI)
    fix p job assume at: "at_worker (so_workers ?s' p) = Some job" "dj_id job = k"
    show "\<exists>x. info_of (sdb ?s') k = Some x \<and> job_tag job = ji_tag x \<and> till_route reg (ji_tag x) = Some p"
    proof (cases "p = q")
      case True
      have "so_workers ?s' q \<noteq> W_Idle" using at True by (auto simp: at_worker_def)
      with eff obtain item items e x where e: "so_queues s q = Some (item # items)" "dj_id (je_job e) = item_id item"
        "info_of (sdb s) (item_id item) = Some x" "job_tag (je_job e) = ji_tag x"
        "(\<exists>w. so_workers ?s' q = W_Loaded e w) \<or> so_workers ?s' q = W_Asking e"
        by blast
      have job: "job = je_job e" using e(5) at(1) True by (auto simp: at_worker_def)
      with e(1,2) at(2) have "belongs reg k s q" using assms(1) unfolding routed_def items_ok_def by (metis list.set_intros(1))
      then show ?thesis using e job at(2) eff True by (auto simp: belongs_def)
    next
      case False
      then have "at_worker (so_workers s p) = Some job" using at eff by simp
      then show ?thesis using assms(1) at(2) eff unfolding routed_def workers_ok_def by simp
    qed
  qed
  ultimately show ?thesis by (simp add: routed_def)
qed

lemma routed_start:
  assumes "routed reg k s" and "so_workers s q = W_Loaded e w"
  shows "routed reg k (execute_start tm now t q s)"
proof -
  let ?s' = "execute_start tm now t q s"
  note eff = start_effect [OF assms(2) refl refl, of k tm now t]
  have at: "at_worker (so_workers s p) = Some job" if "at_worker (so_workers ?s' p) = Some job" for p job
    using eff that assms(2) by (cases "p = q") (auto simp: at_worker_def)
  show ?thesis
    by (rule routed_frame [OF assms(1)]) (use eff at in \<open>auto simp: fixed_tagged\<close>)
qed

lemma routed_guard: "routed reg k s \<Longrightarrow> routed reg k (execute_guard tm now q s)"
proof (cases "so_workers s q")
  case (W_Running job)
  assume r: "routed reg k s"
  obtain res j' where run: "record_outcome now (dj_id job) (O_Indeterminate (guard_text tm q)) (so_journal s) = (res, j')"
    by fastforce
  note eff = records_effect(1) [OF W_Running refl run]
  have "tagged k (sdb s) (jdb j')"
    using tagged_record [of k "so_journal s" now "dj_id job" "O_Indeterminate (guard_text tm q)"] run by simp
  with eff W_Running show ?thesis
    by (intro routed_frame [OF r]) (auto simp: at_worker_def split: if_splits sum.splits)
qed (simp_all add: execute_guard_def)

lemma routed_return:
  assumes "routed reg k s" and "awaited_job (so_workers s q) = Some job"
  shows "routed reg k (execute_return now q joined s)"
proof -
  obtain res j' where run: "record_outcome now (dj_id job) (outcome_of joined) (so_journal s) = (res, j')" by fastforce
  note eff = records_effect(2) [OF assms(2) refl run]
  have "tagged k (sdb s) (jdb j')" using tagged_record [of k "so_journal s" now "dj_id job" "outcome_of joined"] run by simp
  with eff show ?thesis by (intro routed_frame [OF assms(1)]) (auto simp: at_worker_def split: if_splits)
qed

lemma tagged_answer: "tagged k (jdb j) (jdb (snd (record_answer now i a j)))"
  using tagged_record [of k j now i] fixed_state_machine(4) [of k now i]
  by (cases a) (auto simp: record_answer_def moves_def fixed_tagged)

lemma routed_answer:
  assumes "routed reg k s" and "so_workers s q = W_Asking e"
  shows "routed reg k (reconcile_return now q a s)"
proof -
  obtain res j' where run: "record_answer now (dj_id (je_job e)) (reconciliation_of a) (so_journal s) = (res, j')" by fastforce
  note eff = records_effect(3) [OF assms(2) refl run]
  have "tagged k (sdb s) (jdb j')" using tagged_answer [of k "so_journal s" now "dj_id (je_job e)" "reconciliation_of a"] run by simp
  with eff show ?thesis by (intro routed_frame [OF assms(1)]) (auto simp: at_worker_def split: if_splits)
qed

lemma routed_fresh: "source_run reg now j calls = Inr s \<Longrightarrow> routed reg' k s"
  by (auto simp: source_run_def routed_def items_ok_def workers_ok_def at_worker_def split: prod.splits sum.splits if_splits)

lemma routed_step:
  assumes "fiscal_step says finds foreign sha cfg ts reg tm w w'" and "by_tag reg" and "journal_wf (sdb (fi_source w))"
    and "routed reg k (fi_source w)"
  shows "routed reg k (fi_source w')"
  using assms
proof (induction rule: fiscal_step.induct)
  case (F_Gone w q)
  show ?case by (rule routed_frame [OF F_Gone.prems(3)]) (auto simp: tagged_refl at_worker_def set_worker_def split: if_splits)
next
  case (F_Marked w q c job kind base ext show_err now pc' s')
  have s': "s' = snd (on_journal (mark_device_contact now (dj_id job)) (fi_source w))"
    using F_Marked.hyps(2) by (rule register_mark_source(1))
  have "fixed k (sdb (fi_source w)) (sdb s')"
    using fixed_state_machine(3) [of k now "dj_id job"] by (simp add: s' on_journal_run moves_def)
  then have "routed reg k s'" by (intro routed_frame [OF F_Marked.prems(3)]) (auto simp: fixed_tagged s' on_journal_run)
  then show ?case by simp
next
  case (F_Detached q c w)
  have "routed reg k (call_returned q c (fi_source w))"
    by (rule routed_frame [OF F_Detached.prems(3)]) (auto simp: tagged_refl call_returned_def)
  then show ?case by simp
next
  case (F_Restart now w fs s')
  then show ?case by (simp add: routed_fresh)
qed (auto intro: routed_task routed_recv routed_start routed_guard routed_return routed_answer)

end
