(* ===== verification/Fiscal_Inv.thy ===== *)
theory Fiscal_Inv
  imports Fiscal_Routing
begin

text \<open>
  What the journal knows about a receipt and Portos, as an invariant of the steps: what the calls of
  the executor know at each of their positions, and the frame of the steps that leave a job alone.
\<close>

section \<open>The invariant\<close>

definition receipt_job :: "job_tag \<Rightarrow> bool" where
  "receipt_job t \<longleftrightarrow> (\<exists>kind. fiscal_op (fst t) = Some (Register kind))"

text \<open>The \<open>externalId\<close> of a job.\<close>

definition ext_of :: "(string \<Rightarrow> string) \<Rightarrow> job_tag \<Rightarrow> string" where
  "ext_of sha t = (case t of (_, kasa, uuid) \<Rightarrow> external_id sha (the kasa) uuid)"

definition all_refused :: "int \<Rightarrow> posts \<Rightarrow> bool" where
  "all_refused k ps \<longleftrightarrow> (\<forall>p \<in> set (posts_of k ps). snd (snd p) = Refused)"

text \<open>The calls of a job hold that job.\<close>

fun pc_for :: "device_call \<Rightarrow> fiscal_pc \<Rightarrow> bool" where
  "pc_for (Run i) (F_Lookup job _ _ _ _) \<longleftrightarrow> dj_id job = i"
| "pc_for (Run i) (F_Mark job _ _ _) \<longleftrightarrow> dj_id job = i"
| "pc_for (Run i) (F_Post job _ _ _) \<longleftrightarrow> dj_id job = i"
| "pc_for (Run i) (F_Sent job _ _ _) \<longleftrightarrow> dj_id job = i"
| "pc_for (Run i) (F_Control _ _) \<longleftrightarrow> True"
| "pc_for (Run i) (F_End _) \<longleftrightarrow> True"
| "pc_for (Ask i) (F_Ask e _ _ _) \<longleftrightarrow> True"
| "pc_for (Ask i) (F_Unprocessed _ _ _) \<longleftrightarrow> True"
| "pc_for (Ask i) (F_Answer _) \<longleftrightarrow> True"
| "pc_for _ _ \<longleftrightarrow> False"

text \<open>What a call of job \<open>k\<close> knows at each of its positions.\<close>

definition end_ok :: "(string \<Rightarrow> string) \<Rightarrow> string set \<Rightarrow> int \<Rightarrow> posts \<Rightarrow> job_tag \<Rightarrow> string \<Rightarrow> bool" where
  "end_ok sha foreign k ps t st \<longleftrightarrow>
     (st = ''failed'' \<longrightarrow> all_refused k ps) \<and>
     (st = ''done'' \<longrightarrow> receipt_job t \<longrightarrow> registered foreign ps (ext_of sha t))"

fun answer_state :: "Reconciliation \<Rightarrow> string" where
  "answer_state (R_Done _) = ''done''"
| "answer_state (R_Failed _ _) = ''failed''"
| "answer_state (R_StillUnknown _) = ''indeterminate''"

fun pc_ok :: "(string \<Rightarrow> string) \<Rightarrow> string set \<Rightarrow> int \<Rightarrow> posts \<Rightarrow> jinfo \<Rightarrow> fiscal_pc \<Rightarrow> bool" where
  "pc_ok sha foreign k ps x (F_Lookup job kind base ext code) \<longleftrightarrow>
     posts_of k ps = [] \<and> ext = ext_of sha (ji_tag x) \<and> receipt_job (ji_tag x)"
| "pc_ok sha foreign k ps x (F_Mark job kind base ext) \<longleftrightarrow>
     posts_of k ps = [] \<and> ext = ext_of sha (ji_tag x) \<and> receipt_job (ji_tag x)"
| "pc_ok sha foreign k ps x (F_Post job kind base ext) \<longleftrightarrow>
     posts_of k ps = [] \<and> ext = ext_of sha (ji_tag x) \<and> receipt_job (ji_tag x) \<and> ji_contact x \<noteq> None"
| "pc_ok sha foreign k ps x (F_Sent job kind base ext) \<longleftrightarrow>
     (\<exists>f. posts_of k ps = [(k, ext, f)]) \<and> ext = ext_of sha (ji_tag x)"
| "pc_ok sha foreign k ps x (F_Control job op) \<longleftrightarrow> posts_of k ps = [] \<and> \<not> receipt_job (ji_tag x)"
| "pc_ok sha foreign k ps x (F_End oc) \<longleftrightarrow> end_ok sha foreign k ps (ji_tag x) (outcome_state oc)"
| "pc_ok sha foreign k ps x (F_Ask e base ext code) \<longleftrightarrow>
     (je_device_contact_at e = None \<longrightarrow> posts_of k ps = []) \<and> ext = ext_of sha (ji_tag x)"
| "pc_ok sha foreign k ps x (F_Unprocessed base ext code) \<longleftrightarrow> True"
| "pc_ok sha foreign k ps x (F_Answer a) \<longleftrightarrow> end_ok sha foreign k ps (ji_tag x) (answer_state a)"

definition stuck :: "int \<Rightarrow> worker_pc \<Rightarrow> bool" where
  "stuck k pc \<longleftrightarrow> pc = W_Gone \<or> (\<exists>job. pc = W_Overdue job \<and> dj_id job = k)"

definition asks :: "int \<Rightarrow> worker_pc \<Rightarrow> bool" where
  "asks k pc \<longleftrightarrow> (\<exists>e. pc = W_Asking e \<and> dj_id (je_job e) = k)"

abbreviation executed :: "int \<Rightarrow> fiscal \<Rightarrow> bool" where
  "executed k w \<equiv> k \<in> snd ` set (so_log (fi_source w))"

abbreviation winfo :: "int \<Rightarrow> fiscal \<Rightarrow> jinfo option" where
  "winfo k w \<equiv> info_of (sdb (fi_source w)) k"

definition posts_ok :: "int \<Rightarrow> fiscal \<Rightarrow> bool" where
  "posts_ok k w \<longleftrightarrow>
     (posts_of k (fi_posts w) \<noteq> [] \<longrightarrow>
        executed k w \<and> length (posts_of k (fi_posts w)) = 1 \<and>
        (\<exists>x. winfo k w = Some x \<and> ji_contact x \<noteq> None \<and> receipt_job (ji_tag x)))"

definition verdict_ok :: "(string \<Rightarrow> string) \<Rightarrow> string set \<Rightarrow> int \<Rightarrow> fiscal \<Rightarrow> bool" where
  "verdict_ok sha foreign k w \<longleftrightarrow>
     (\<forall>x. winfo k w = Some x \<longrightarrow> end_ok sha foreign k (fi_posts w) (ji_tag x) (ji_state x))"

definition run_ok :: "(string \<Rightarrow> string) \<Rightarrow> string set \<Rightarrow> ExecutorRegistry \<Rightarrow> int \<Rightarrow> fiscal \<Rightarrow> bool" where
  "run_ok sha foreign reg k w \<longleftrightarrow>
     (\<forall>q pc. fi_pc w (q, Run k) = Some pc \<longrightarrow>
        executed k w \<and>
        (\<exists>x. winfo k w = Some x \<and> till_route reg (ji_tag x) = Some q \<and> pc_ok sha foreign k (fi_posts w) x pc \<and>
           (ji_state x = ''executing'' \<or> ji_state x = ''indeterminate'' \<and> stuck k (so_workers (fi_source w) q))))"

definition ask_ok :: "(string \<Rightarrow> string) \<Rightarrow> string set \<Rightarrow> int \<Rightarrow> fiscal \<Rightarrow> bool" where
  "ask_ok sha foreign k w \<longleftrightarrow>
     (\<forall>q. asks k (so_workers (fi_source w) q) \<or> fi_pc w (q, Ask k) \<noteq> None \<longrightarrow>
        (\<forall>p. fi_pc w (p, Run k) = None) \<and>
        (\<exists>x. winfo k w = Some x \<and> ji_state x \<in> {''indeterminate'', ''done'', ''failed''} \<and>
           (\<forall>pc. fi_pc w (q, Ask k) = Some pc \<longrightarrow> pc_ok sha foreign k (fi_posts w) x pc)))"

definition fiscal_inv :: "(string \<Rightarrow> string) \<Rightarrow> string set \<Rightarrow> ExecutorRegistry \<Rightarrow> int \<Rightarrow> fiscal \<Rightarrow> bool" where
  "fiscal_inv sha foreign reg k w \<longleftrightarrow>
     posts_ok k w \<and> verdict_ok sha foreign k w \<and> run_ok sha foreign reg k w \<and> ask_ok sha foreign k w"

text \<open>What goes along with it.\<close>

definition fiscal_wf :: "ExecutorRegistry \<Rightarrow> int \<Rightarrow> fiscal \<Rightarrow> bool" where
  "fiscal_wf reg k w \<longleftrightarrow>
     once_inv k (fi_source w) \<and> routed reg k (fi_source w) \<and>
     (\<forall>q c pc. fi_pc w (q, c) = Some pc \<longrightarrow> pc_for c pc)"

lemmas inv_defs = fiscal_inv_def posts_ok_def verdict_ok_def run_ok_def ask_ok_def

section \<open>Steps that leave a job alone\<close>

text \<open>Portos decides about receipts that were sent; other jobs send theirs.\<close>

definition posts_rel :: "string set \<Rightarrow> int \<Rightarrow> posts \<Rightarrow> posts \<Rightarrow> bool" where
  "posts_rel foreign k ps ps' \<longleftrightarrow>
     length (posts_of k ps') = length (posts_of k ps) \<and> (all_refused k ps \<longrightarrow> all_refused k ps') \<and>
     (\<forall>e f. posts_of k ps = [(k, e, f)] \<longrightarrow> (\<exists>f'. posts_of k ps' = [(k, e, f')])) \<and>
     (\<forall>e. registered foreign ps e \<longrightarrow> registered foreign ps' e)"

lemma posts_rel_refl [simp]: "posts_rel foreign k ps ps"
  by (simp add: posts_rel_def)

lemma posts_rel_other: "i \<noteq> k \<Longrightarrow> posts_rel foreign k ps (ps @ [(i, e, f)])"
  by (auto simp: posts_rel_def posts_of_def all_refused_def registered_def)

lemma posts_rel_decided:
  assumes "n < length ps" and "ps ! n = (i, e, Undecided)"
  shows "posts_rel foreign k ps (ps[n := (i, e, f)])"
proof -
  have ps: "ps = take n ps @ (i, e, Undecided) # drop (Suc n) ps" using assms id_take_nth_drop [of n ps] by simp
  have ps': "ps[n := (i, e, f)] = take n ps @ (i, e, f) # drop (Suc n) ps" using assms(1) by (simp add: upd_conv_take_nth_drop)
  obtain xs ys where xy: "take n ps = xs" "drop (Suc n) ps = ys" by blast
  have "ps = xs @ (i, e, Undecided) # ys" "ps[n := (i, e, f)] = xs @ (i, e, f) # ys" using ps ps' xy by simp_all
  then show ?thesis
    by (auto simp: posts_rel_def posts_of_def all_refused_def registered_def append_eq_Cons_conv filter_empty_conv
        simp del: list_update_beyond)
qed

lemma posts_rel_Nil: "posts_rel foreign k ps ps' \<Longrightarrow> posts_of k ps' = [] \<longleftrightarrow> posts_of k ps = []"
  by (auto simp: posts_rel_def)

lemma end_ok_rel: "posts_rel foreign k ps ps' \<Longrightarrow> end_ok sha foreign k ps t st \<Longrightarrow> end_ok sha foreign k ps' t st"
  by (auto simp: end_ok_def posts_rel_def)

lemma pc_ok_rel:
  assumes "posts_rel foreign k ps ps'" and t: "ji_tag y = ji_tag x" and "pc_ok sha foreign k ps x pc"
    and c: "ji_contact x \<noteq> None \<longrightarrow> ji_contact y \<noteq> None"
  shows "pc_ok sha foreign k ps' y pc"
proof -
  have one: "\<exists>f'. posts_of k ps' = [(k, e, f')]" if "posts_of k ps = [(k, e, f)]" for e f
    using assms(1) that by (simp add: posts_rel_def)
  show ?thesis
  proof (cases pc)
    case (F_End oc)
    then show ?thesis using assms(3) t by (simp add: end_ok_rel [OF assms(1)])
  next
    case (F_Answer a)
    then show ?thesis using assms(3) t by (simp add: end_ok_rel [OF assms(1)])
  next
    case (F_Sent job kind base ext)
    then show ?thesis using assms(3) t one by auto
  qed (use assms(3) t c posts_rel_Nil [OF assms(1)] in simp_all)
qed

text \<open>
  The frame: the row of \<open>k\<close> keeps what is fixed, its calls are the same or gone, its worker stays
  stuck, no worker starts to ask about it.
\<close>

lemma inv_frame:
  assumes inv: "fiscal_inv sha foreign reg k w" and once: "once_inv k (fi_source w)"
    and kept: "fixed k (sdb (fi_source w)) (sdb (fi_source w'))"
    and log: "executed k w \<Longrightarrow> executed k w'"
    and rel: "posts_rel foreign k (fi_posts w) (fi_posts w')"
    and pcs: "\<And>q pc. fi_pc w' (q, Run k) = Some pc \<Longrightarrow> fi_pc w (q, Run k) = Some pc"
      "\<And>q pc. fi_pc w' (q, Ask k) = Some pc \<Longrightarrow> fi_pc w (q, Ask k) = Some pc"
    and stuck: "\<And>q. stuck k (so_workers (fi_source w) q) \<Longrightarrow> fi_pc w' (q, Run k) \<noteq> None \<Longrightarrow>
        stuck k (so_workers (fi_source w') q)"
    and asks: "\<And>q. asks k (so_workers (fi_source w') q) \<Longrightarrow> asks k (so_workers (fi_source w) q)"
  shows "fiscal_inv sha foreign reg k w'"
proof -
  note inv = inv [unfolded fiscal_inv_def]
  have info: "\<exists>y. winfo k w' = Some y \<and> keeps_info x y" if "winfo k w = Some x" for x
    using kept that by (cases "winfo k w'") (auto simp: fixed_def)
  have "posts_ok k w'"
    unfolding posts_ok_def
  proof
    assume "posts_of k (fi_posts w') \<noteq> []"
    then have "posts_of k (fi_posts w) \<noteq> []" using posts_rel_Nil [OF rel] by simp
    with inv obtain x where x: "executed k w" "length (posts_of k (fi_posts w)) = 1" "winfo k w = Some x"
      "ji_contact x \<noteq> None" "receipt_job (ji_tag x)" by (auto simp: posts_ok_def)
    with info [OF x(3)] rel log show "executed k w' \<and> length (posts_of k (fi_posts w')) = 1 \<and>
        (\<exists>x. winfo k w' = Some x \<and> ji_contact x \<noteq> None \<and> receipt_job (ji_tag x))"
      by (auto simp: keeps_info_def posts_rel_def)
  qed
  moreover have "verdict_ok sha foreign k w'"
    unfolding verdict_ok_def
  proof (intro allI impI)
    fix y assume y: "winfo k w' = Some y"
    show "end_ok sha foreign k (fi_posts w') (ji_tag y) (ji_state y)"
    proof (cases "winfo k w")
      case None
      then have "posts_of k (fi_posts w) = []" using inv by (auto simp: posts_ok_def)
      then have "all_refused k (fi_posts w')" using posts_rel_Nil [OF rel] by (simp add: all_refused_def)
      moreover have "ji_state y \<noteq> ''done''" using kept None y by (auto simp: fixed_def)
      ultimately show ?thesis by (simp add: end_ok_def)
    next
      case (Some x)
      have k: "keeps_info x y" using info [OF Some] y by simp
      have "posts_of k (fi_posts w) = []" if "ji_state x = ''received''"
      proof (rule ccontr)
        assume "posts_of k (fi_posts w) \<noteq> []"
        then have "started k (so_journal (fi_source w))" using inv once by (auto simp: posts_ok_def once_inv_def)
        with that Some info_of_core [of "sdb (fi_source w)" k] show False
          by (auto simp: started_def rank_def split: option.splits)
      qed
      then have new: "all_refused k (fi_posts w')" if "ji_state x = ''received''"
        using posts_rel_Nil [OF rel] that by (simp add: all_refused_def)
      have "end_ok sha foreign k (fi_posts w') (ji_tag x) (ji_state x)"
        using inv Some end_ok_rel [OF rel] by (auto simp: verdict_ok_def)
      with k new show ?thesis by (auto simp: keeps_info_def end_ok_def)
    qed
  qed
  moreover have "run_ok sha foreign reg k w'"
    unfolding run_ok_def
  proof (intro allI impI)
    fix q pc assume pc: "fi_pc w' (q, Run k) = Some pc"
    from inv pcs(1) [OF pc] obtain x where x: "executed k w" "winfo k w = Some x" "till_route reg (ji_tag x) = Some q"
      "pc_ok sha foreign k (fi_posts w) x pc"
      "ji_state x = ''executing'' \<or> ji_state x = ''indeterminate'' \<and> stuck k (so_workers (fi_source w) q)"
      unfolding run_ok_def by blast
    from info [OF x(2)] obtain y where y: "winfo k w' = Some y" "keeps_info x y" by blast
    have "pc_ok sha foreign k (fi_posts w') y pc" using pc_ok_rel [OF rel _ x(4)] y(2) by (simp add: keeps_info_def)
    with x y log stuck [of q] pc show "executed k w' \<and> (\<exists>x. winfo k w' = Some x \<and> till_route reg (ji_tag x) = Some q \<and>
        pc_ok sha foreign k (fi_posts w') x pc \<and>
        (ji_state x = ''executing'' \<or> ji_state x = ''indeterminate'' \<and> stuck k (so_workers (fi_source w') q)))"
      by (auto simp: keeps_info_def)
  qed
  moreover have "ask_ok sha foreign k w'"
    unfolding ask_ok_def
  proof (intro allI impI)
    fix q assume "asks k (so_workers (fi_source w') q) \<or> fi_pc w' (q, Ask k) \<noteq> None"
    then have "asks k (so_workers (fi_source w) q) \<or> fi_pc w (q, Ask k) \<noteq> None" using asks pcs(2) by fastforce
    with inv obtain x where none: "\<forall>p. fi_pc w (p, Run k) = None"
      and x: "winfo k w = Some x" "ji_state x \<in> {''indeterminate'', ''done'', ''failed''}"
        "\<forall>pc. fi_pc w (q, Ask k) = Some pc \<longrightarrow> pc_ok sha foreign k (fi_posts w) x pc"
      unfolding ask_ok_def by blast
    from info [OF x(1)] obtain y where y: "winfo k w' = Some y" "keeps_info x y" by blast
    have "fi_pc w' (p, Run k) = None" for p using none pcs(1) [of p] by (cases "fi_pc w' (p, Run k)") auto
    moreover have "pc_ok sha foreign k (fi_posts w') y pc" if "fi_pc w' (q, Ask k) = Some pc" for pc
      using pc_ok_rel [OF rel, of y x _ pc] pcs(2) [OF that] x(3) y(2) by (simp add: keeps_info_def)
    ultimately show "(\<forall>p. fi_pc w' (p, Run k) = None) \<and> (\<exists>x. winfo k w' = Some x \<and>
        ji_state x \<in> {''indeterminate'', ''done'', ''failed''} \<and>
        (\<forall>pc. fi_pc w' (q, Ask k) = Some pc \<longrightarrow> pc_ok sha foreign k (fi_posts w') x pc))"
      using y x(2) by (auto simp: keeps_info_def)
  qed
  ultimately show ?thesis by (simp add: fiscal_inv_def)
qed

text \<open>
  What became of \<open>k\<close> is recorded, truly: the calls of \<open>execute\<close> that stay are those of a running or
  an overdue job.
\<close>

lemma inv_settled:
  assumes inv: "fiscal_inv sha foreign reg k w" and same: "fi_posts w' = fi_posts w" "executed k w \<Longrightarrow> executed k w'"
    and x: "winfo k w = Some x" and y: "winfo k w' = Some y" "ji_tag y = ji_tag x"
      "ji_contact x \<noteq> None \<longrightarrow> ji_contact y \<noteq> None"
      "ji_state y = ji_state x \<or> ji_state y \<in> {''indeterminate'', ''done'', ''failed''} \<and>
         end_ok sha foreign k (fi_posts w) (ji_tag x) (ji_state y)"
    and runs: "\<And>q pc. fi_pc w' (q, Run k) = Some pc \<Longrightarrow> fi_pc w (q, Run k) = Some pc \<and>
        (ji_state y = ''executing'' \<or> ji_state y = ''indeterminate'' \<and> stuck k (so_workers (fi_source w') q))"
    and asked: "\<And>q pc. fi_pc w' (q, Ask k) = Some pc \<Longrightarrow> fi_pc w (q, Ask k) = Some pc"
      "\<And>q. asks k (so_workers (fi_source w') q) \<Longrightarrow> asks k (so_workers (fi_source w) q)"
  shows "fiscal_inv sha foreign reg k w'"
proof -
  note inv = inv [unfolded fiscal_inv_def]
  have ok: "pc_ok sha foreign k (fi_posts w') y pc" if "pc_ok sha foreign k (fi_posts w) x pc" for pc
    using pc_ok_rel [OF posts_rel_refl y(2) that y(3)] same(1) by simp
  have "posts_ok k w'" using inv same x y(1-3) by (auto simp: posts_ok_def)
  moreover have "verdict_ok sha foreign k w'" using inv x y same(1) by (auto simp: verdict_ok_def)
  moreover have "run_ok sha foreign reg k w'"
    unfolding run_ok_def
  proof (intro allI impI)
    fix q pc assume pc: "fi_pc w' (q, Run k) = Some pc"
    from inv runs [OF pc] x have "executed k w" "till_route reg (ji_tag x) = Some q" "pc_ok sha foreign k (fi_posts w) x pc"
      unfolding run_ok_def by auto
    with ok same(2) runs [OF pc] y(1,2) show "executed k w' \<and> (\<exists>x. winfo k w' = Some x \<and> till_route reg (ji_tag x) = Some q \<and>
        pc_ok sha foreign k (fi_posts w') x pc \<and>
        (ji_state x = ''executing'' \<or> ji_state x = ''indeterminate'' \<and> stuck k (so_workers (fi_source w') q)))"
      by auto
  qed
  moreover have "ask_ok sha foreign k w'"
    unfolding ask_ok_def
  proof (intro allI impI)
    fix q assume "asks k (so_workers (fi_source w') q) \<or> fi_pc w' (q, Ask k) \<noteq> None"
    then have "asks k (so_workers (fi_source w) q) \<or> fi_pc w (q, Ask k) \<noteq> None" using asked by fastforce
    with inv x have none: "\<forall>p. fi_pc w (p, Run k) = None"
      and old: "ji_state x \<in> {''indeterminate'', ''done'', ''failed''}"
        "\<forall>pc. fi_pc w (q, Ask k) = Some pc \<longrightarrow> pc_ok sha foreign k (fi_posts w) x pc"
      unfolding ask_ok_def by fastforce+
    have "fi_pc w' (p, Run k) = None" for p using none runs [of p] by (cases "fi_pc w' (p, Run k)") auto
    moreover have "ji_state y \<in> {''indeterminate'', ''done'', ''failed''}" using old(1) y(4) by auto
    ultimately show "(\<forall>p. fi_pc w' (p, Run k) = None) \<and> (\<exists>x. winfo k w' = Some x \<and>
        ji_state x \<in> {''indeterminate'', ''done'', ''failed''} \<and>
        (\<forall>pc. fi_pc w' (q, Ask k) = Some pc \<longrightarrow> pc_ok sha foreign k (fi_posts w') x pc))"
      using y(1) ok old(2) asked(1) by blast
  qed
  ultimately show ?thesis by (simp add: fiscal_inv_def)
qed

section \<open>The calls of a job\<close>

lemma inv_own:
  assumes inv: "fiscal_inv sha foreign reg k w" and pc: "fi_pc w (q, c) = Some pc"
    and ok: "\<And>x. c = Run k \<or> c = Ask k \<Longrightarrow> winfo k w = Some x \<Longrightarrow> pc_ok sha foreign k (fi_posts w) x pc \<Longrightarrow>
        pc_ok sha foreign k (fi_posts w) x pc'"
  shows "fiscal_inv sha foreign reg k (set_pc q c (Some pc') w)"
  using inv pc ok unfolding inv_defs source_of
  by (auto split: if_splits) blast+

lemma run_alive:
  assumes "fiscal_inv sha foreign reg k w" and "fi_pc w (q, Run k) = Some pc"
  obtains x where "executed k w" "winfo k w = Some x" "till_route reg (ji_tag x) = Some q" "pc_ok sha foreign k (fi_posts w) x pc"
    "ji_state x = ''executing'' \<or> ji_state x = ''indeterminate'' \<and> stuck k (so_workers (fi_source w) q)"
    "\<And>p. \<not> asks k (so_workers (fi_source w) p)" "\<And>p. fi_pc w (p, Ask k) = None"
    "\<And>p. p \<noteq> q \<Longrightarrow> fi_pc w (p, Run k) = None"
proof -
  have run: "run_ok sha foreign reg k w" and ask: "ask_ok sha foreign k w" using assms(1) by (simp_all add: fiscal_inv_def)
  from run assms(2) obtain x where x: "executed k w" "winfo k w = Some x" "till_route reg (ji_tag x) = Some q"
    "pc_ok sha foreign k (fi_posts w) x pc"
    "ji_state x = ''executing'' \<or> ji_state x = ''indeterminate'' \<and> stuck k (so_workers (fi_source w) q)"
    unfolding run_ok_def by blast
  have other: "fi_pc w (p, Run k) = None" if "p \<noteq> q" for p
  proof (rule ccontr)
    assume "fi_pc w (p, Run k) \<noteq> None"
    then obtain pc' where "fi_pc w (p, Run k) = Some pc'" by auto
    with run obtain y where "winfo k w = Some y" "till_route reg (ji_tag y) = Some p" unfolding run_ok_def by blast
    with x(2,3) that show False by simp
  qed
  have "\<not> asks k (so_workers (fi_source w) p) \<and> fi_pc w (p, Ask k) = None" for p
    using ask assms(2) unfolding ask_ok_def by (metis option.distinct(1))
  with x other that show thesis by blast
qed

lemma inv_posted:
  assumes inv: "fiscal_inv sha foreign reg k w" and pc: "fi_pc w (q, Run k) = Some (F_Post job kind base ext)"
  shows "fiscal_inv sha foreign reg k
      (set_pc q (Run k) (Some (F_Sent job kind base ext)) (w\<lparr>fi_posts := fi_posts w @ [(k, ext, Undecided)]\<rparr>))"
proof -
  from run_alive [OF inv pc] obtain x where x: "executed k w" "winfo k w = Some x" "till_route reg (ji_tag x) = Some q"
    "pc_ok sha foreign k (fi_posts w) x (F_Post job kind base ext)"
    "ji_state x = ''executing'' \<or> ji_state x = ''indeterminate'' \<and> stuck k (so_workers (fi_source w) q)"
    "\<And>p. \<not> asks k (so_workers (fi_source w) p)" "\<And>p. fi_pc w (p, Ask k) = None"
    "\<And>p. p \<noteq> q \<Longrightarrow> fi_pc w (p, Run k) = None" by blast
  have one: "posts_of k (fi_posts w @ [(k, ext, Undecided)]) = [(k, ext, Undecided)]"
    using x(4) by (simp add: posts_of_def)
  show ?thesis
    using x one by (auto simp: inv_defs end_ok_def)
qed

lemma documented_found:
  assumes "portos_documented says finds" and "finds b ext r" and "classify_lookup r = Found body"
    and "receipt_result body ext via = Some res" and "via \<noteq> Via_Register"
  shows b
proof -
  have "r = Answer 200 body" using assms(3) by (auto simp: classify_lookup_def split: Reply.splits if_splits)
  moreover have "shows_receipt body ext True" using receipt_result_shows [OF assms(4)] assms(5) by simp
  ultimately show b using assms(1,2) unfolding portos_documented_def by blast
qed

lemma lookup_ok:
  assumes "portos_documented says finds" and "finds (registered foreign ps ext) ext r"
    and "pc_ok sha foreign k ps x (F_Lookup job kind base ext code)"
  shows "pc_ok sha foreign k ps x (lookup_answered job kind base ext r)"
proof -
  have "registered foreign ps ext" if "classify_lookup r = Found body" "receipt_result body ext Via_Lookup = Some res" for body res
    using documented_found [OF assms(1,2) that] by simp
  with assms(3) show ?thesis
    by (auto simp: lookup_answered_def end_ok_def all_refused_def split: Lookup.splits option.splits)
qed

lemma ask_answer_ok:
  assumes "portos_documented says finds" and "finds (registered foreign ps ext) ext r"
    and "pc_ok sha foreign k ps x (F_Ask e base ext code)"
  shows "pc_ok sha foreign k ps x (ask_answered e base ext code r)"
proof -
  have "registered foreign ps ext" if "classify_lookup r = Found body" "receipt_result body ext Via_Reconcile = Some res" for body res
    using documented_found [OF assms(1,2) that] by simp
  with assms(3) show ?thesis
    by (auto simp: ask_answered_def reconcile_not_found_def end_ok_def all_refused_def split: Lookup.splits option.splits)
qed

text \<open>Portos's answer to a receipt: a failure is a refusal, a result a registration.\<close>

lemma register_outcome_refusal: "register_outcome r kind ext = O_Failed code msg \<Longrightarrow> refusal r"
  by (auto simp: register_outcome_def refusal_def is_validation_def is_missing_endpoint_def problem_code_def
      PORTOS_VALIDATION_ERROR_def Let_def split: Reply.splits if_splits option.splits)

lemma register_outcome_done:
  "register_outcome r kind ext = O_Done res \<Longrightarrow>
   \<exists>st body. r = Answer st body \<and> is_2xx st \<and> receipt_result body ext Via_Register = Some res"
  by (auto simp: register_outcome_def Let_def split: Reply.splits if_splits option.splits)

lemma find_found: "find P xs = Some x \<Longrightarrow> x \<in> set xs \<and> P x"
  by (induction xs) (auto split: if_splits)

lemma last_post:
  assumes "posts_of k ps = [(k, ext, f)]" and "find (\<lambda>p. fst p = k) (rev ps) = Some p"
  shows "p = (k, ext, f)"
proof -
  have "p \<in> set (rev ps) \<and> fst p = k" using find_found [OF assms(2)] by simp
  then have "p \<in> set (posts_of k ps)" by (simp add: posts_of_def)
  with assms(1) show ?thesis by simp
qed

lemma replied_ok:
  assumes doc: "portos_documented says finds" and says: "says f ext r"
    and last: "find (\<lambda>p. fst p = k) (rev ps) = Some (i, ext', f)"
    and pc: "pc_ok sha foreign k ps x (F_Sent job kind base ext)"
  shows "pc_ok sha foreign k ps x (register_answered kind ext r)"
proof -
  from pc obtain f' where one: "posts_of k ps = [(k, ext, f')]" and ext: "ext = ext_of sha (ji_tag x)" by auto
  have f: "f' = f" using last_post [OF one last] by simp
  show ?thesis
  proof (cases "register_outcome r kind ext")
    case (O_Done res)
    then obtain st body where r: "r = Answer st body" "is_2xx st" "receipt_result body ext Via_Register = Some res"
      using register_outcome_done by blast
    have "shows_receipt body ext False" using receipt_result_shows [OF r(3)] by simp
    then have "f = Registered" using doc says r(1,2) unfolding portos_documented_def by blast
    then have "(k, ext, Registered) \<in> set (posts_of k ps)" using one f by simp
    then have "registered foreign ps ext" by (auto simp: registered_def posts_of_def)
    then show ?thesis using O_Done ext by (simp add: register_answered_def end_ok_def)
  next
    case (O_Failed code msg)
    then have "refusal r" by (rule register_outcome_refusal)
    then have "f = Refused" using doc says unfolding portos_documented_def by blast
    then show ?thesis using O_Failed one f by (simp add: register_answered_def end_ok_def all_refused_def)
  qed (simp add: register_answered_def end_ok_def)
qed

end
