(* ===== verification/Fiscal_Runs.thy ===== *)
theory Fiscal_Runs
  imports Fiscal_Inv
begin

text \<open>
  Every step of the source, of a call of the Portos executor and of Portos keeps the invariant of
  \<open>Fiscal_Inv\<close>, in every interleaving and over restarts.
\<close>

section \<open>Well-formedness\<close>

text \<open>The calls of a job hold that job, also after every stretch of the executor.\<close>

lemma pc_for_Run: "pc_for c (F_Lookup job kind base ext code) \<longleftrightarrow> c = Run (dj_id job)"
  "pc_for c (F_Mark job kind base ext) \<longleftrightarrow> c = Run (dj_id job)"
  "pc_for c (F_Post job kind base ext) \<longleftrightarrow> c = Run (dj_id job)"
  "pc_for c (F_Sent job kind base ext) \<longleftrightarrow> c = Run (dj_id job)"
  "pc_for c (F_Control job op) \<longleftrightarrow> (\<exists>i. c = Run i)" "pc_for c (F_End oc) \<longleftrightarrow> (\<exists>i. c = Run i)"
  "pc_for c (F_Ask e base ext code) \<longleftrightarrow> (\<exists>i. c = Ask i)" "pc_for c (F_Unprocessed base ext code) \<longleftrightarrow> (\<exists>i. c = Ask i)"
  "pc_for c (F_Answer a) \<longleftrightarrow> (\<exists>i. c = Ask i)"
  by (cases c; auto)+

lemma pc_for_stretch:
  "pc_for (Run (dj_id job)) (execute_begin sha cfg job)"
  "pc_for (Run (dj_id job)) (lookup_answered job kind base ext r)"
  "pc_for (Run i) (register_answered kind ext r)" "pc_for (Run i) (control_answered op r)"
  "pc_for (Ask i) (reconcile_begin sha cfg e)" "pc_for (Ask i) (ask_answered e base ext code r)"
  "pc_for (Ask i) (unprocessed_answered ext r)"
  by (simp_all add: execute_begin_def lookup_answered_def register_answered_def control_answered_def
      reconcile_begin_def ask_answered_def reconcile_not_found_def unprocessed_answered_def
      split: option.splits FiscalOp.splits prod.splits Lookup.splits)

definition pcs_for :: "fiscal \<Rightarrow> bool" where
  "pcs_for w \<longleftrightarrow> (\<forall>q c pc. fi_pc w (q, c) = Some pc \<longrightarrow> pc_for c pc)"

lemma pcs_forD: "fi_pc w (q, c) = Some pc \<Longrightarrow> pcs_for w \<Longrightarrow> pc_for c pc"
  by (simp add: pcs_for_def)

lemma pcs_for_set: "pcs_for w \<Longrightarrow> pc = None \<or> pc_for c (the pc) \<Longrightarrow> pcs_for (set_pc q c pc w)"
  by (auto simp: pcs_for_def)

lemma pcs_for_source [simp]: "pcs_for (set_source s w) = pcs_for w"
  by (simp add: pcs_for_def)

lemma pcs_for_spawn: "pcs_for w \<Longrightarrow> pcs_for (spawn_call sha cfg q s w)"
  by (auto simp: spawn_call_def pc_for_stretch intro!: pcs_for_set split: worker_pc.splits)

lemma pcs_for_step:
  assumes "fiscal_step says finds foreign sha cfg ts reg tm w w'" and "pcs_for w"
  shows "pcs_for w'"
  using assms
proof (induction rule: fiscal_step.induct)
  case (F_Marked w q c job kind base ext show_err now pc' s')
  have "pc_for c pc'" using pcs_forD [OF F_Marked.hyps(1) F_Marked.prems] register_mark_source(2) [OF F_Marked.hyps(2)]
    by (auto simp: pc_for_Run)
  then show ?case using F_Marked.prems by (intro pcs_for_set) simp_all
next
  case (F_Posted w q c job kind base ext)
  have "c = Run (dj_id job)" using pcs_forD [OF F_Posted.hyps(1) F_Posted.prems] by (simp add: pc_for_Run)
  then show ?case using F_Posted.prems by (auto simp: pcs_for_def)
next
  case (F_Restart now w fs s')
  show ?case by (simp add: pcs_for_def)
next
  case (F_Decided n w i ext f)
  then show ?case by (simp add: pcs_for_def)
next
  case (F_Looked w q c job kind base ext code r)
  have "c = Run (dj_id job)" using pcs_forD [OF F_Looked.hyps(1) F_Looked.prems] by (simp add: pc_for_Run)
  then show ?case using F_Looked.prems by (simp add: pcs_for_set pc_for_stretch)
next
  case (F_Replied w q c job kind base ext i ext' f r)
  have "c = Run (dj_id job)" using pcs_forD [OF F_Replied.hyps(1) F_Replied.prems] by (simp add: pc_for_Run)
  then show ?case using F_Replied.prems by (simp add: pcs_for_set pc_for_stretch)
next
  case (F_Controlled w q c job op r)
  obtain i where "c = Run i" using pcs_forD [OF F_Controlled.hyps(1) F_Controlled.prems] by (auto simp: pc_for_Run)
  then show ?case using F_Controlled.prems by (simp add: pcs_for_set pc_for_stretch)
next
  case (F_Asked w q c e base ext code r)
  obtain i where "c = Ask i" using pcs_forD [OF F_Asked.hyps(1) F_Asked.prems] by (auto simp: pc_for_Run)
  then show ?case using F_Asked.prems by (simp add: pcs_for_set pc_for_stretch)
next
  case (F_Listed w q c base ext code r)
  obtain i where "c = Ask i" using pcs_forD [OF F_Listed.hyps(1) F_Listed.prems] by (auto simp: pc_for_Run)
  then show ?case using F_Listed.prems by (simp add: pcs_for_set pc_for_stretch)
qed (auto intro: pcs_for_set pcs_for_spawn)

lemma wf_step:
  assumes "fiscal_step says finds foreign sha cfg ts reg tm w w'" and "by_tag reg"
    and "keeps_row k (fi_source w) (fi_source w')" and "fiscal_wf reg k w"
  shows "fiscal_wf reg k w'"
proof -
  have once: "once_inv k (fi_source w)" and routed: "routed reg k (fi_source w)" and pcs: "pcs_for w"
    using assms(4) by (simp_all add: fiscal_wf_def pcs_for_def)
  have "once_inv k (fi_source w')"
    using fiscal_step_source [OF assms(1)] once once_inv_step [OF _ assms(3)] by auto
  moreover have "routed reg k (fi_source w')"
    using routed_step [OF assms(1,2) _ routed] once by (simp add: once_inv_def)
  moreover have "pcs_for w'" using pcs_for_step [OF assms(1) pcs] .
  ultimately show ?thesis by (simp add: fiscal_wf_def pcs_for_def)
qed

section \<open>Every step keeps the invariant\<close>

text \<open>Tasks without an executor, and calls nobody awaits.\<close>

lemma inv_silent:
  assumes "fiscal_inv sha foreign reg k w" and "once_inv k (fi_source w)"
    and "sdb s' = sdb (fi_source w)" and "so_log s' = so_log (fi_source w)"
    and "\<And>q. stuck k (so_workers (fi_source w) q) \<Longrightarrow> fi_pc w' (q, Run k) \<noteq> None \<Longrightarrow> stuck k (so_workers s' q)"
    and "\<And>q. asks k (so_workers s' q) \<Longrightarrow> asks k (so_workers (fi_source w) q)"
    and "fi_source w' = s'" and "fi_posts w' = fi_posts w"
    and "\<And>q pc. fi_pc w' (q, Run k) = Some pc \<Longrightarrow> fi_pc w (q, Run k) = Some pc"
    and "\<And>q pc. fi_pc w' (q, Ask k) = Some pc \<Longrightarrow> fi_pc w (q, Ask k) = Some pc"
  shows "fiscal_inv sha foreign reg k w'"
  by (rule inv_frame [OF assms(1,2)]) (use assms(3-) in \<open>auto simp: fixed_refl\<close>)

lemma inv_task:
  assumes "task_step ts reg tm (fi_source w) s'" and "by_tag reg"
    and "fiscal_inv sha foreign reg k w" and "once_inv k (fi_source w)"
  shows "fiscal_inv sha foreign reg k (set_source s' w)"
proof -
  have "backs reg k (fi_source w) s'" using backs_task [OF assms(1,2)] assms(4) by (simp add: once_inv_def)
  then show ?thesis by (intro inv_frame [OF assms(3,4)]) (simp_all add: backs_def)
qed

lemma inv_gone:
  assumes "fiscal_inv sha foreign reg k w" and "once_inv k (fi_source w)"
  shows "fiscal_inv sha foreign reg k (set_source (set_worker q W_Gone (fi_source w)) w)"
  by (rule inv_silent [OF assms, of "set_worker q W_Gone (fi_source w)"])
    (auto simp: set_worker_def stuck_def asks_def split: if_splits)

lemma inv_detached:
  assumes "fiscal_inv sha foreign reg k w" and "once_inv k (fi_source w)"
  shows "fiscal_inv sha foreign reg k (set_pc q c None (set_source (call_returned q c (fi_source w)) w))"
  by (rule inv_silent [OF assms, of "call_returned q c (fi_source w)"])
    (auto simp: call_returned_def split: if_splits)

lemma inv_decided:
  assumes "fiscal_inv sha foreign reg k w" and "once_inv k (fi_source w)"
    and "n < length (fi_posts w)" and "fi_posts w ! n = (i, ext, Undecided)"
  shows "fiscal_inv sha foreign reg k (w\<lparr>fi_posts := (fi_posts w)[n := (i, ext, f)]\<rparr>)"
  by (rule inv_frame [OF assms(1,2)]) (simp_all add: fixed_refl posts_rel_decided [OF assms(3,4)])

text \<open>The executor journals the contact and sends the receipt.\<close>

lemma inv_marked:
  assumes inv: "fiscal_inv sha foreign reg k w" and once: "once_inv k (fi_source w)"
    and pc: "fi_pc w (q, c) = Some (F_Mark job kind base ext)" and c: "c = Run (dj_id job)"
    and run: "on_journal (register_mark show_err now job kind base ext) (fi_source w) = (Inr pc', s')"
  shows "fiscal_inv sha foreign reg k (set_pc q c (Some pc') (set_source s' w))"
proof -
  have s': "s' = snd (on_journal (mark_device_contact now (dj_id job)) (fi_source w))" using run by (rule register_mark_source(1))
  have "fixed k (sdb (fi_source w)) (sdb s')"
    using fixed_state_machine(3) [of k now "dj_id job"] by (simp add: s' on_journal_run moves_def)
  then have inv': "fiscal_inv sha foreign reg k (set_source s' w)"
    by (intro inv_frame [OF inv once]) (simp_all add: s' on_journal_run)
  show ?thesis
  proof (rule inv_own [OF inv'])
    fix x assume k: "c = Run k \<or> c = Ask k" and x: "winfo k (set_source s' w) = Some x"
      and ok: "pc_ok sha foreign k (fi_posts (set_source s' w)) x (F_Mark job kind base ext)"
    from k c have id: "dj_id job = k" by auto
    from register_mark_source(2) [OF run] obtain r j' where
      m: "mark_device_contact now k (so_journal (fi_source w)) = (r, j')" "so_journal s' = j'"
        "pc' = F_Post job kind base ext \<and> (\<exists>b. r = Inr b) \<or> (\<exists>code msg. pc' = F_End (O_Failed code msg))"
      using id by blast
    have "fi_pc w (q, Run k) = Some (F_Mark job kind base ext)" using pc c id by simp
    with inv obtain x0 where "winfo k w = Some x0" by (rule run_alive)
    then have "ji_contact x \<noteq> None" if "r = Inr b" for b using info_marked [of now k _ b j' x0] m(1,2) that x by auto
    then have "pc' = F_Post job kind base ext \<and> ji_contact x \<noteq> None \<or> (\<exists>code msg. pc' = F_End (O_Failed code msg))"
      using m(3) by metis
    then show "pc_ok sha foreign k (fi_posts (set_source s' w)) x pc'"
      using ok by (elim disjE conjE exE) (simp_all add: end_ok_def all_refused_def)
  qed (use pc in simp)
qed

lemma inv_post_step:
  assumes inv: "fiscal_inv sha foreign reg k w" and once: "once_inv k (fi_source w)"
    and pc: "fi_pc w (q, c) = Some (F_Post job kind base ext)" and c: "c = Run (dj_id job)"
  shows "fiscal_inv sha foreign reg k
      (set_pc q c (Some (F_Sent job kind base ext)) (w\<lparr>fi_posts := fi_posts w @ [(dj_id job, ext, Undecided)]\<rparr>))"
proof (cases "dj_id job = k")
  case True
  then show ?thesis using inv_posted [OF inv] pc c by simp
next
  case False
  then show ?thesis
    by (intro inv_frame [OF inv once]) (auto simp: fixed_refl posts_rel_other c split: if_splits)
qed

section \<open>Workers\<close>

lemma routed_at:
  assumes "routed reg k s" and "at_worker (so_workers s q) = Some job" and "dj_id job = k"
  obtains x where "info_of (sdb s) k = Some x" "job_tag job = ji_tag x" "till_route reg (ji_tag x) = Some q"
  using assms unfolding routed_def workers_ok_def by blast

lemma run_row:
  assumes "fiscal_inv sha foreign reg k w" and "fi_pc w (q, Run k) = Some pc" and "winfo k w = Some x"
  shows "till_route reg (ji_tag x) = Some q \<and> pc_ok sha foreign k (fi_posts w) x pc \<and>
    (ji_state x = ''executing'' \<or> ji_state x = ''indeterminate'' \<and> stuck k (so_workers (fi_source w) q))"
  using assms unfolding fiscal_inv_def run_ok_def by auto

lemma ask_state:
  "ask_ok sha foreign k w \<Longrightarrow> asks k (so_workers (fi_source w) p) \<or> fi_pc w (p, Ask k) \<noteq> None \<Longrightarrow> winfo k w = Some x \<Longrightarrow>
   ji_state x \<in> {''indeterminate'', ''done'', ''failed''}"
  unfolding ask_ok_def by fastforce

text \<open>A worker asks about a job: its row is indeterminate and no call of \<open>execute\<close> is left.\<close>

lemma reconcile_begin_ok:
  assumes "posts_ok k w" and "winfo k w = Some x" and "job_tag (je_job e) = ji_tag x" and "je_device_contact_at e = ji_contact x"
  shows "pc_ok sha foreign k (fi_posts w) x (reconcile_begin sha cfg e)"
proof -
  have none: "posts_of k (fi_posts w) = []" if "\<not> receipt_job (ji_tag x) \<or> ji_contact x = None"
    using assms(1,2) that by (auto simp: posts_ok_def)
  have tag: "fst (ji_tag x) = dj_job_type (je_job e)" "snd (ji_tag x) = (dj_kasa_id (je_job e), dj_client_uuid (je_job e))"
    using assms(3) by (auto simp: job_tag_def dest: sym)
  then have ext: "ext_of sha (ji_tag x) = external_id sha (the (dj_kasa_id (je_job e))) (dj_client_uuid (je_job e))"
    by (cases "ji_tag x") (simp add: ext_of_def)
  show ?thesis
    using none tag ext assms(4)
    by (auto simp: reconcile_begin_def receipt_key_def end_ok_def all_refused_def receipt_job_def
        split: option.splits FiscalOp.splits)
qed

lemma inv_asking:
  assumes inv: "fiscal_inv sha foreign reg k w" and x: "winfo k w = Some x" "ji_state x = ''indeterminate''"
    and idle: "so_workers (fi_source w) q = W_Idle" and till_route: "till_route reg (ji_tag x) = Some q"
    and e: "dj_id (je_job e) = k" "job_tag (je_job e) = ji_tag x" "je_device_contact_at e = ji_contact x"
    and s': "sdb s' = sdb (fi_source w)" "so_log s' = so_log (fi_source w)" "so_workers s' = (so_workers (fi_source w))(q := W_Asking e)"
  shows "fiscal_inv sha foreign reg k (set_pc q (Ask k) (Some (reconcile_begin sha cfg e)) (set_source s' w))"
proof -
  note inv = inv [unfolded fiscal_inv_def]
  have none: "fi_pc w (p, Run k) = None" for p
  proof (rule ccontr)
    assume "fi_pc w (p, Run k) \<noteq> None"
    then have "till_route reg (ji_tag x) = Some p \<and> (ji_state x = ''executing'' \<or> stuck k (so_workers (fi_source w) p))"
      using inv x(1) unfolding run_ok_def by fastforce
    then show False using x(2) idle till_route by (simp add: stuck_def)
  qed
  have ok: "pc_ok sha foreign k (fi_posts w) x (reconcile_begin sha cfg e)"
    using reconcile_begin_ok inv x(1) e by blast
  have "ask_ok sha foreign k (set_pc q (Ask k) (Some (reconcile_begin sha cfg e)) (set_source s' w))"
    using none ok x s' inv unfolding ask_ok_def by (auto split: if_splits)
  then show ?thesis
    using inv s' none by (simp add: fiscal_inv_def posts_ok_def verdict_ok_def run_ok_def)
qed

lemma inv_recv:
  assumes inv: "fiscal_inv sha foreign reg k w" and wf: "fiscal_wf reg k w" and idle: "so_workers (fi_source w) q = W_Idle"
  shows "fiscal_inv sha foreign reg k (spawn_call sha cfg q (worker_recv ts q (fi_source w)) w)"
proof -
  let ?s = "fi_source w" and ?s' = "worker_recv ts q (fi_source w)"
  have once: "once_inv k ?s" and routed: "routed reg k ?s'"
    using wf routed_recv [OF _ idle] by (simp_all add: fiscal_wf_def)
  note eff = recv_effect [OF idle refl, of ts]
  then have db: "sdb ?s' = sdb ?s" "so_log ?s' = so_log ?s" and others: "\<And>p. p \<noteq> q \<Longrightarrow> so_workers ?s' p = so_workers ?s p"
    by simp_all
  have stuck: "stuck k (so_workers ?s p) \<Longrightarrow> stuck k (so_workers ?s' p)" for p
    using others [of p] idle by (cases "p = q") (auto simp: stuck_def)
  show ?thesis
  proof (cases "\<exists>e. so_workers ?s' q = W_Asking e")
    case False
    then have "spawn_call sha cfg q ?s' w = set_source ?s' w"
      using eff by (auto simp: spawn_call_def split: worker_pc.splits)
    moreover have "asks k (so_workers ?s p)" if "asks k (so_workers ?s' p)" for p
      using that others [of p] False by (cases "p = q") (auto simp: asks_def)
    ultimately show ?thesis using db stuck by (intro inv_silent [OF inv once]) simp_all
  next
    case True
    then obtain e where asking: "so_workers ?s' q = W_Asking e" by blast
    with eff obtain x where x: "info_of (sdb ?s) (dj_id (je_job e)) = Some x" "job_tag (je_job e) = ji_tag x"
      "je_device_contact_at e = ji_contact x" "ji_state x = ''indeterminate''" by auto
    have spawn: "spawn_call sha cfg q ?s' w = set_pc q (Ask (dj_id (je_job e))) (Some (reconcile_begin sha cfg e)) (set_source ?s' w)"
      using asking by (simp add: spawn_call_def)
    show ?thesis
    proof (cases "dj_id (je_job e) = k")
      case True
      have "till_route reg (ji_tag x) = Some q"
        by (rule routed_at [OF routed, of q "je_job e"]) (use asking True x(1) db in \<open>simp_all add: at_worker_def\<close>)
      moreover have "so_workers ?s' = (so_workers ?s)(q := W_Asking e)" using others asking by auto
      ultimately show ?thesis unfolding spawn True
        using inv_asking [OF inv _ x(4) idle _ True x(2,3) db] x(1) True by simp
    next
      case False
      have "asks k (so_workers ?s p)" if "asks k (so_workers ?s' p)" for p
        using that others [of p] False asking by (cases "p = q") (auto simp: asks_def)
      then show ?thesis unfolding spawn
        using False db stuck by (intro inv_silent [OF inv once]) (auto split: if_splits)
    qed
  qed
qed

text \<open>A worker starts a job: it was \<open>received\<close>, nothing was sent for it.\<close>

lemma execute_begin_ok:
  assumes "posts_of k ps = []" and "job_tag job = ji_tag x"
  shows "pc_ok sha foreign k ps x (execute_begin sha cfg job)"
proof -
  have tag: "fst (ji_tag x) = dj_job_type job" "snd (ji_tag x) = (dj_kasa_id job, dj_client_uuid job)"
    using assms(2) by (auto simp: job_tag_def dest: sym)
  then have ext: "ext_of sha (ji_tag x) = external_id sha (the (dj_kasa_id job)) (dj_client_uuid job)"
    by (cases "ji_tag x") (simp add: ext_of_def)
  show ?thesis
    using assms(1) tag ext
    by (auto simp: execute_begin_def receipt_key_def end_ok_def all_refused_def receipt_job_def
        split: option.splits FiscalOp.splits)
qed

lemma inv_running:
  assumes inv: "fiscal_inv sha foreign reg k w" and once: "once_inv k (fi_source w)"
    and x: "winfo k w = Some x" "job_tag job = ji_tag x" "till_route reg (ji_tag x) = Some q"
    and claim: "start_execution now k (so_journal (fi_source w)) = (Inr True, so_journal s')"
    and kept: "fixed k (sdb (fi_source w)) (sdb s')" and log: "so_log s' = so_log (fi_source w) @ [(q, k)]"
    and workers: "so_workers s' = (so_workers (fi_source w))(q := W_Running job)"
  shows "fiscal_inv sha foreign reg k (set_pc q (Run k) (Some (execute_begin sha cfg job)) (set_source s' w))"
proof -
  note inv = inv [unfolded fiscal_inv_def]
  have wf: "journal_wf (sdb (fi_source w))" using once by (simp add: once_inv_def)
  obtain c c' where "core_of (sdb (fi_source w)) k = Some c" "fst c = ''received''"
    "core_of (sdb s') k = Some c'" "fst c' = ''executing''"
    using start_execution_claims [OF wf claim] by blast
  then have old: "ji_state x = ''received''" and "map_option ji_state (info_of (sdb s') k) = Some ''executing''"
    using x(1) info_of_core [of "sdb (fi_source w)" k] info_of_core [of "sdb s'" k] by auto
  then obtain y where y: "info_of (sdb s') k = Some y" "ji_state y = ''executing''" by auto
  have tag: "ji_tag y = ji_tag x" using kept x(1) y(1) by (simp add: fixed_def keeps_info_def)
  have "\<not> started k (so_journal (fi_source w))" using once.start_claims [OF wf claim] by simp
  then have new: "\<not> executed k w" using once by (auto simp: once_inv_def)
  then have posts: "posts_of k (fi_posts w) = []" and runs: "\<And>p. fi_pc w (p, Run k) = None"
    using inv by (fastforce simp: posts_ok_def run_ok_def)+
  have noask: "\<not> asks k (so_workers (fi_source w) p) \<and> fi_pc w (p, Ask k) = None" for p
  proof (rule ccontr)
    assume "\<not> ?thesis"
    then have "ji_state x \<in> {''indeterminate'', ''done'', ''failed''}" using inv x(1) ask_state [of sha foreign k w p x] by simp
    with old show False by simp
  qed
  have "pc_ok sha foreign k (fi_posts w) y (execute_begin sha cfg job)"
    using execute_begin_ok [OF posts, of job y] x(2) tag by simp
  moreover have "\<not> asks k (so_workers s' p)" for p
    using noask workers by (auto simp: asks_def)
  ultimately show ?thesis
    using posts runs noask y tag x(3) log
    by (auto simp: inv_defs end_ok_def all_refused_def split: if_splits)
qed

lemma inv_start:
  assumes inv: "fiscal_inv sha foreign reg k w" and wf: "fiscal_wf reg k w" and loaded: "so_workers (fi_source w) q = W_Loaded e queued_at"
  shows "fiscal_inv sha foreign reg k (spawn_call sha cfg q (execute_start tm now t q (fi_source w)) w)"
proof -
  let ?s = "fi_source w" and ?s' = "execute_start tm now t q (fi_source w)"
  have once: "once_inv k ?s" and routed: "routed reg k ?s" using wf by (simp_all add: fiscal_wf_def)
  note eff = start_effect [OF loaded refl refl, of k tm now t]
  then have kept: "fixed k (sdb ?s) (sdb ?s')" and others: "\<And>p. p \<noteq> q \<Longrightarrow> so_workers ?s' p = so_workers ?s p"
    by simp_all
  have stuck: "stuck k (so_workers ?s p) \<Longrightarrow> stuck k (so_workers ?s' p)" for p
    using others [of p] loaded by (cases "p = q") (auto simp: stuck_def)
  have asks: "asks k (so_workers ?s p)" if "asks k (so_workers ?s' p)" for p
    using that others [of p] eff by (cases "p = q") (auto simp: asks_def)
  from eff consider (idle) "so_workers ?s' q = W_Idle" "so_log ?s' = so_log ?s"
    | (run) "so_workers ?s' q = W_Running (je_job e)" "so_log ?s' = so_log ?s @ [(q, dj_id (je_job e))]"
        "start_execution now (dj_id (je_job e)) (so_journal ?s) = (Inr True, so_journal ?s')" by blast
  then show ?thesis
  proof cases
    case idle
    then have "spawn_call sha cfg q ?s' w = set_source ?s' w" by (simp add: spawn_call_def)
    with idle kept stuck asks show ?thesis by (intro inv_frame [OF inv once]) simp_all
  next
    case run
    then have spawn: "spawn_call sha cfg q ?s' w =
        set_pc q (Run (dj_id (je_job e))) (Some (execute_begin sha cfg (je_job e))) (set_source ?s' w)"
      by (simp add: spawn_call_def)
    show ?thesis
    proof (cases "dj_id (je_job e) = k")
      case True
      obtain x where "winfo k w = Some x" "job_tag (je_job e) = ji_tag x" "till_route reg (ji_tag x) = Some q"
        by (rule routed_at [OF routed, of q "je_job e"]) (use loaded True in \<open>simp_all add: at_worker_def\<close>)
      moreover have "so_workers ?s' = (so_workers ?s)(q := W_Running (je_job e))" using others run(1) by auto
      ultimately show ?thesis unfolding spawn True
        using inv_running [OF inv once _ _ _ _ kept] run(2,3) True by simp
    next
      case False
      then show ?thesis unfolding spawn
        using run(2) kept stuck asks by (intro inv_frame [OF inv once]) (auto split: if_splits)
    qed
  qed
qed

text \<open>Outcomes are recorded: by the guard, by the worker, by the answer of a question.\<close>

lemma outcome_state_range: "outcome_state oc \<in> {''indeterminate'', ''done'', ''failed''}"
  by (cases oc) auto

lemma recorded_info:
  assumes "record_outcome now k oc j = (res, j')" and "info_of (jdb j) k = Some x"
  shows "\<exists>y. info_of (jdb j') k = Some y \<and> ji_tag y = ji_tag x \<and> ji_contact y = ji_contact x \<and>
    (ji_state x \<in> set OPEN_STATES \<and> \<not> isl res \<longrightarrow> ji_state y = outcome_state oc) \<and>
    (\<not> (ji_state x \<in> set OPEN_STATES \<and> \<not> isl res) \<longrightarrow> ji_state y = ji_state x)"
proof (cases "ji_state x \<in> set OPEN_STATES \<and> (\<exists>b. res = Inr b)")
  case True
  then have "info_of (jdb j') k = Some (x\<lparr>ji_state := outcome_state oc\<rparr>)" using info_record_outcome(1) [OF assms] by presburger
  then show ?thesis using True by auto
next
  case False
  then have "info_of (jdb j') k = Some x" using info_record_outcome(1) [OF assms] by (simp only: if_False)
  then show ?thesis using False by (cases res) auto
qed

lemma inv_record_other:
  assumes inv: "fiscal_inv sha foreign reg k w" and once: "once_inv k (fi_source w)"
    and other: "moves (\<lambda>j j'. fixed k (jdb j) (jdb j')) m" and run: "m (so_journal (fi_source w)) = (res, so_journal s')"
    and log: "so_log s' = so_log (fi_source w)" and workers: "so_workers s' = (so_workers (fi_source w))(q := pc)"
    and here: "\<not> stuck k (so_workers (fi_source w) q)" "\<not> asks k pc" and c: "c \<noteq> Run k" "c \<noteq> Ask k"
  shows "fiscal_inv sha foreign reg k (set_source s' w)" and "fiscal_inv sha foreign reg k (set_pc q c None (set_source s' w))"
proof -
  have kept: "fixed k (sdb (fi_source w)) (sdb s')" using movesD [OF other run] .
  show "fiscal_inv sha foreign reg k (set_source s' w)" and "fiscal_inv sha foreign reg k (set_pc q c None (set_source s' w))"
    by (rule inv_frame [OF inv once]; use kept log workers here c in \<open>auto split: if_splits\<close>)+
qed

lemma inv_guard:
  assumes inv: "fiscal_inv sha foreign reg k w" and wf: "fiscal_wf reg k w"
  shows "fiscal_inv sha foreign reg k (set_source (execute_guard tm now q (fi_source w)) w)"
proof (cases "\<exists>job. so_workers (fi_source w) q = W_Running job")
  case False
  then have "execute_guard tm now q (fi_source w) = fi_source w" by (auto simp: execute_guard_def split: worker_pc.splits)
  then show ?thesis using inv by (simp add: set_source_def)
next
  case True
  then obtain job where at: "so_workers (fi_source w) q = W_Running job" by blast
  let ?oc = "O_Indeterminate (guard_text tm q)" and ?s' = "execute_guard tm now q (fi_source w)"
  have once: "once_inv k (fi_source w)" and routed: "routed reg k (fi_source w)" using wf by (simp_all add: fiscal_wf_def)
  obtain res j' where run: "record_outcome now (dj_id job) ?oc (so_journal (fi_source w)) = (res, j')" by fastforce
  note eff = records_effect(1) [OF at refl run]
  show ?thesis
  proof (cases "dj_id job = k")
    case False
    show ?thesis
      by (rule inv_record_other(1) [OF inv once fixed_record_other [OF False], where c = "Run (k + 1)"])
        (use eff run at False in \<open>auto simp: stuck_def asks_def split: sum.splits\<close>)
  next
    case True
    obtain x where x: "winfo k w = Some x" "till_route reg (ji_tag x) = Some q"
      by (rule routed_at [OF routed, of q job]) (use at True in \<open>simp_all add: at_worker_def\<close>)
    obtain y where y: "info_of (jdb j') k = Some y" "ji_tag y = ji_tag x" "ji_contact y = ji_contact x"
      "ji_state x \<in> set OPEN_STATES \<and> \<not> isl res \<longrightarrow> ji_state y = ''indeterminate''"
      "\<not> (ji_state x \<in> set OPEN_STATES \<and> \<not> isl res) \<longrightarrow> ji_state y = ji_state x"
      using recorded_info [OF run [unfolded True] x(1)] unfolding outcome_state.simps by blast
    have here: "p = q" if "fi_pc w (p, Run k) = Some pc" for p pc
      using run_row [OF inv that x(1)] x(2) by simp
    have live: "ji_state x = ''executing''" if "fi_pc w (p, Run k) = Some pc" for p pc
      using run_row [OF inv that x(1)] here [OF that] at by (auto simp: stuck_def)
    show ?thesis
    proof (rule inv_settled [OF inv _ _ x(1)])
      show "winfo k (set_source ?s' w) = Some y" using y(1) eff by simp
      show "ji_state y = ji_state x \<or> ji_state y \<in> {''indeterminate'', ''done'', ''failed''} \<and>
         end_ok sha foreign k (fi_posts w) (ji_tag x) (ji_state y)"
        using y(4,5) by (cases "ji_state x \<in> set OPEN_STATES \<and> \<not> isl res") (simp_all add: end_ok_def)
      fix p pc
      assume pc: "fi_pc (set_source ?s' w) (p, Run k) = Some pc"
      then have "fi_pc w (p, Run k) = Some pc" by simp
      then show "fi_pc w (p, Run k) = Some pc \<and> (ji_state y = ''executing'' \<or>
          ji_state y = ''indeterminate'' \<and> stuck k (so_workers (fi_source (set_source ?s' w)) p))"
        using live [of p pc] here [of p pc] y(4,5) eff True by (cases res) (simp_all add: OPEN_STATES_def stuck_def)
    next
      fix p assume "asks k (so_workers (fi_source (set_source ?s' w)) p)"
      then show "asks k (so_workers (fi_source w) p)" using eff by (auto simp: asks_def split: if_splits sum.splits)
    qed (use y eff in simp_all)
  qed
qed

lemma inv_return:
  assumes inv: "fiscal_inv sha foreign reg k w" and wf: "fiscal_wf reg k w" and at: "awaited_job (so_workers (fi_source w) q) = Some job"
    and true: "\<And>x. dj_id job = k \<Longrightarrow> winfo k w = Some x \<Longrightarrow> end_ok sha foreign k (fi_posts w) (ji_tag x) (outcome_state (outcome_of joined))"
  shows "fiscal_inv sha foreign reg k (set_pc q (Run (dj_id job)) None (set_source (execute_return now q joined (fi_source w)) w))"
proof -
  let ?s' = "execute_return now q joined (fi_source w)"
  have once: "once_inv k (fi_source w)" and routed: "routed reg k (fi_source w)" using wf by (simp_all add: fiscal_wf_def)
  obtain res j' where run: "record_outcome now (dj_id job) (outcome_of joined) (so_journal (fi_source w)) = (res, j')" by fastforce
  note eff = records_effect(2) [OF at refl run]
  have worker: "so_workers (fi_source w) q = W_Running job \<or> so_workers (fi_source w) q = W_Overdue job"
    using at by (auto simp: awaited_job_def split: worker_pc.splits)
  show ?thesis
  proof (cases "dj_id job = k")
    case False
    show ?thesis
      by (rule inv_record_other(2) [OF inv once fixed_record_other [OF False]])
        (use eff run worker False in \<open>auto simp: stuck_def asks_def\<close>)
  next
    case True
    obtain x where x: "winfo k w = Some x" "till_route reg (ji_tag x) = Some q"
      by (rule routed_at [OF routed, of q job]) (use worker True in \<open>auto simp: at_worker_def\<close>)
    obtain y where y: "info_of (jdb j') k = Some y" "ji_tag y = ji_tag x" "ji_contact y = ji_contact x"
      "ji_state y = ji_state x \<or> ji_state y = outcome_state (outcome_of joined)"
      using recorded_info [OF run [unfolded True] x(1)] by blast
    have here: "p = q" if "fi_pc w (p, Run k) = Some pc" for p pc
      using run_row [OF inv that x(1)] x(2) by simp
    show ?thesis unfolding True
    proof (rule inv_settled [OF inv _ _ x(1)])
      show "winfo k (set_pc q (Run k) None (set_source ?s' w)) = Some y" using y(1) eff by simp
      show "ji_state y = ji_state x \<or> ji_state y \<in> {''indeterminate'', ''done'', ''failed''} \<and>
         end_ok sha foreign k (fi_posts w) (ji_tag x) (ji_state y)"
        using y(4) true [OF True x(1)] outcome_state_range [of "outcome_of joined"] by metis
      fix p pc
      assume "fi_pc (set_pc q (Run k) None (set_source ?s' w)) (p, Run k) = Some pc"
      then show "fi_pc w (p, Run k) = Some pc \<and> (ji_state y = ''executing'' \<or>
          ji_state y = ''indeterminate'' \<and> stuck k (so_workers (fi_source (set_pc q (Run k) None (set_source ?s' w))) p))"
        using here by (auto split: if_splits)
    next
      fix p assume "asks k (so_workers (fi_source (set_pc q (Run k) None (set_source ?s' w))) p)"
      then show "asks k (so_workers (fi_source w) p)" using eff by (auto simp: asks_def split: if_splits)
    qed (use y eff in simp_all)
  qed
qed

text \<open>The answer of a question: \<open>R_StillUnknown\<close> changes no state.\<close>

lemma answered_info:
  assumes "record_answer now k a j = (res, j')" and "info_of (jdb j) k = Some x" and "ji_state x \<noteq> ''received''"
  shows "\<exists>y. info_of (jdb j') k = Some y \<and> ji_tag y = ji_tag x \<and> (ji_contact x \<noteq> None \<longrightarrow> ji_contact y \<noteq> None) \<and>
    (ji_state y = ji_state x \<or> ji_state y = answer_state a)"
proof (cases a)
  case (R_StillUnknown reason)
  then have "fixed k (jdb j) (jdb j')"
    using movesD [OF fixed_state_machine(4), of now k reason j res j' k] assms(1) by (simp add: record_answer_def)
  then show ?thesis using assms(2,3) by (cases "info_of (jdb j') k") (auto simp: fixed_def keeps_info_def)
next
  case (R_Done result)
  then have "record_outcome now k (O_Done result) j = (res, j')" using assms(1) by (simp add: record_answer_def)
  from recorded_info [OF this assms(2)] show ?thesis using R_Done by (metis answer_state.simps(1) outcome_state.simps(1))
next
  case (R_Failed code msg)
  then have "record_outcome now k (O_Failed code msg) j = (res, j')" using assms(1) by (simp add: record_answer_def)
  from recorded_info [OF this assms(2)] show ?thesis using R_Failed by (metis answer_state.simps(2) outcome_state.simps(2))
qed

lemma fixed_answer: "i \<noteq> k \<Longrightarrow> moves (\<lambda>j j'. fixed k (jdb j) (jdb j')) (record_answer now i a)"
  by (cases a) (auto simp: record_answer_def intro: fixed_record_other fixed_keeps)

lemma inv_answer:
  assumes inv: "fiscal_inv sha foreign reg k w" and wf: "fiscal_wf reg k w" and at: "so_workers (fi_source w) q = W_Asking e"
    and true: "\<And>x. dj_id (je_job e) = k \<Longrightarrow> winfo k w = Some x \<Longrightarrow>
        end_ok sha foreign k (fi_posts w) (ji_tag x) (answer_state (reconciliation_of joined))"
  shows "fiscal_inv sha foreign reg k
      (set_pc q (Ask (dj_id (je_job e))) None (set_source (reconcile_return now q joined (fi_source w)) w))"
proof -
  let ?s' = "reconcile_return now q joined (fi_source w)"
  have once: "once_inv k (fi_source w)" using wf by (simp add: fiscal_wf_def)
  obtain res j' where run: "record_answer now (dj_id (je_job e)) (reconciliation_of joined) (so_journal (fi_source w)) = (res, j')"
    by fastforce
  note eff = records_effect(3) [OF at refl run]
  show ?thesis
  proof (cases "dj_id (je_job e) = k")
    case False
    show ?thesis
      by (rule inv_record_other(2) [OF inv once fixed_answer [OF False]])
        (use eff run at False in \<open>auto simp: stuck_def asks_def\<close>)
  next
    case True
    have "asks k (so_workers (fi_source w) q)" using at True by (simp add: asks_def)
    then obtain x where none: "\<And>p. fi_pc w (p, Run k) = None" and x: "winfo k w = Some x"
      "ji_state x \<in> {''indeterminate'', ''done'', ''failed''}"
      using inv unfolding fiscal_inv_def ask_ok_def by blast
    obtain y where y: "info_of (jdb j') k = Some y" "ji_tag y = ji_tag x" "ji_contact x \<noteq> None \<longrightarrow> ji_contact y \<noteq> None"
      "ji_state y = ji_state x \<or> ji_state y = answer_state (reconciliation_of joined)"
      using answered_info [OF run [unfolded True] x(1)] x(2) by auto
    have range: "answer_state a \<in> {''indeterminate'', ''done'', ''failed''}" for a by (cases a) auto
    show ?thesis unfolding True
    proof (rule inv_settled [OF inv _ _ x(1)])
      show "winfo k (set_pc q (Ask k) None (set_source ?s' w)) = Some y" using y(1) eff by simp
      show "ji_state y = ji_state x \<or> ji_state y \<in> {''indeterminate'', ''done'', ''failed''} \<and>
         end_ok sha foreign k (fi_posts w) (ji_tag x) (ji_state y)"
        using y(4) true [OF True x(1)] range [of "reconciliation_of joined"] by metis
      fix p assume "asks k (so_workers (fi_source (set_pc q (Ask k) None (set_source ?s' w))) p)"
      then show "asks k (so_workers (fi_source w) p)" using eff by (auto simp: asks_def split: if_splits)
    qed (use y none eff in \<open>auto split: if_splits\<close>)
  qed
qed

section \<open>Restarts and runs\<close>

lemma info_source_run:
  assumes "source_run reg now j calls = Inr s" and "journal_wf (jdb j)"
  shows "info_of (sdb s) k = None \<or> info_of (sdb s) k =
      map_option (\<lambda>x. if ji_state x \<in> set IN_FLIGHT then x\<lparr>ji_state := ''indeterminate''\<rparr> else x) (info_of (jdb j) k)"
proof -
  obtain xs j1 where rec: "recover_after_restart now j = (Inr xs, j1)" and s: "so_journal s = snd (prune now j1)"
    using assms(1) by (auto simp: source_run_def split: prod.splits sum.splits)
  have db: "jdb j1 = recovered_db now (jdb j)" using recover_effect [of j now] rec by simp
  have "journal_wf (jdb j1)" using movesD [OF jwf_recover rec] assms(2) by simp
  then have keys: "keyed od_id (jd_device_jobs (jdb j1))" "keyed ln_id (jd_lan_jobs (jdb j1))"
    by (simp_all add: journal_wf_def odoo_wf_def lan_wf_def)
  obtain A B where "jd_device_jobs (sdb s) = filter A (jd_device_jobs (jdb j1))"
    "jd_lan_jobs (sdb s) = filter B (jd_lan_jobs (jdb j1))"
    using prune_only_prunes [of now j1] s by (auto simp: only_pruned_def)
  then have "info_of (sdb s) k = None \<or> info_of (sdb s) k = info_of (jdb j1) k"
    using filter_row [OF keys(1), of k A] filter_row [OF keys(2), of "- k" B] by (auto simp: info_of_def)
  then show ?thesis by (simp add: db info_recovered)
qed

lemma info_core_None: "core_of d k = None \<longleftrightarrow> info_of d k = None"
  using info_of_core [of d k] by (metis option.map_disc_iff)

lemma inv_restart:
  assumes inv: "fiscal_inv sha foreign reg k w" and once: "once_inv k (fi_source w)"
    and run: "source_run reg now (on_db (sdb (fi_source w)) fs) (so_log (fi_source w)) = Inr s'"
    and kept: "keeps_row k (fi_source w) s'"
  shows "fiscal_inv sha foreign reg k \<lparr>fi_source = s', fi_pc = (\<lambda>_. None), fi_posts = fi_posts w\<rparr>"
proof -
  let ?w' = "\<lparr>fi_source = s', fi_pc = (\<lambda>_. None), fi_posts = fi_posts w\<rparr>"
  have wf: "journal_wf (jdb (on_db (sdb (fi_source w)) fs))" using once by (simp add: on_db_def once_inv_def)
  have log: "so_log s' = so_log (fi_source w)" and quiet: "\<And>p. \<not> asks k (so_workers s' p)"
    using run by (auto simp: source_run_def asks_def split: prod.splits sum.splits if_splits)
  have info: "info_of (sdb s') k = None \<or> info_of (sdb s') k =
      map_option (\<lambda>x. if ji_state x \<in> set IN_FLIGHT then x\<lparr>ji_state := ''indeterminate''\<rparr> else x) (winfo k w)"
    using info_source_run [OF run wf, of k] by (simp add: on_db_def)
  show ?thesis
  proof (cases "winfo k w")
    case None
    then have "posts_of k (fi_posts w) = []" using inv by (auto simp: fiscal_inv_def posts_ok_def)
    with None info quiet show ?thesis by (auto simp: inv_defs)
  next
    case (Some x)
    then have "info_of (sdb s') k \<noteq> None" using kept by (auto simp: keeps_row_def info_core_None)
    with info Some obtain y where y: "info_of (sdb s') k = Some y"
      "y = (if ji_state x \<in> set IN_FLIGHT then x\<lparr>ji_state := ''indeterminate''\<rparr> else x)" by auto
    show ?thesis
      by (rule inv_settled [OF inv _ _ Some, of _ y]) (use y log quiet in \<open>auto simp: end_ok_def\<close>)
  qed
qed

lemma inv_step:
  assumes step: "fiscal_step says finds foreign sha cfg ts reg tm w w'" and doc: "portos_documented says finds"
    and reg: "by_tag reg" and kept: "keeps_row k (fi_source w) (fi_source w')"
    and wf: "fiscal_wf reg k w" and inv: "fiscal_inv sha foreign reg k w"
  shows "fiscal_inv sha foreign reg k w'"
proof -
  have once: "once_inv k (fi_source w)" and pcs: "pcs_for w" using wf by (simp_all add: fiscal_wf_def pcs_for_def)
  show ?thesis
    using step
  proof (cases rule: fiscal_step.cases)
    case (F_Looked q c job kind base ext code r)
    have "fiscal_inv sha foreign reg k (set_pc q c (Some (lookup_answered job kind base ext r)) w)"
      by (rule inv_own [OF inv F_Looked(2)]) (rule lookup_ok [OF doc F_Looked(3)])
    then show ?thesis using F_Looked(1) by simp
  next
    case (F_Marked q c job kind base ext show_err now pc' s')
    have "c = Run (dj_id job)" using pcs_forD [OF F_Marked(2) pcs] by (simp add: pc_for_Run)
    from inv_marked [OF inv once F_Marked(2) this F_Marked(3)] show ?thesis using F_Marked(1) by simp
  next
    case (F_Posted q c job kind base ext)
    have "c = Run (dj_id job)" using pcs_forD [OF F_Posted(2) pcs] by (simp add: pc_for_Run)
    from inv_post_step [OF inv once F_Posted(2) this] show ?thesis using F_Posted(1) by simp
  next
    case (F_Replied q c job kind base ext i ext' f r)
    have c: "c = Run (dj_id job)" using pcs_forD [OF F_Replied(2) pcs] by (simp add: pc_for_Run)
    have "fiscal_inv sha foreign reg k (set_pc q c (Some (register_answered kind ext r)) w)"
    proof (rule inv_own [OF inv F_Replied(2)])
      fix x assume "c = Run k \<or> c = Ask k" and ok: "pc_ok sha foreign k (fi_posts w) x (F_Sent job kind base ext)"
      then have "dj_id job = k" using c by auto
      from replied_ok [OF doc F_Replied(4) _ ok] F_Replied(3) this
      show "pc_ok sha foreign k (fi_posts w) x (register_answered kind ext r)" by simp
    qed
    then show ?thesis using F_Replied(1) by simp
  next
    case (F_Controlled q c job op r)
    have "fiscal_inv sha foreign reg k (set_pc q c (Some (control_answered op r)) w)"
      by (rule inv_own [OF inv F_Controlled(2)]) (simp add: control_answered_def end_ok_def all_refused_def)
    then show ?thesis using F_Controlled(1) by simp
  next
    case (F_Asked q c e base ext code r)
    have "fiscal_inv sha foreign reg k (set_pc q c (Some (ask_answered e base ext code r)) w)"
      by (rule inv_own [OF inv F_Asked(2)]) (rule ask_answer_ok [OF doc F_Asked(3)])
    then show ?thesis using F_Asked(1) by simp
  next
    case (F_Listed q c base ext code r)
    have "fiscal_inv sha foreign reg k (set_pc q c (Some (unprocessed_answered ext r)) w)"
      by (rule inv_own [OF inv F_Listed(2)]) (simp add: unprocessed_answered_def end_ok_def)
    then show ?thesis using F_Listed(1) by simp
  next
    case (F_Return q job oc now)
    have "pc_ok sha foreign k (fi_posts w) x (F_End oc)" if "dj_id job = k" "winfo k w = Some x" for x
      using run_row [OF inv, of q "F_End oc" x] F_Return(3) that by simp
    then show ?thesis using inv_return [OF inv wf F_Return(2), of "Inr oc" now] F_Return(1) by (simp add: outcome_of_def)
  next
    case (F_Panic q job now why)
    then show ?thesis using inv_return [OF inv wf F_Panic(2), of "Inl why" now] by (simp add: outcome_of_def end_ok_def)
  next
    case (F_Answered q e a now)
    have "pc_ok sha foreign k (fi_posts w) x (F_Answer a)" if "dj_id (je_job e) = k" "winfo k w = Some x" for x
      using inv F_Answered(2,3) that unfolding fiscal_inv_def ask_ok_def by (fastforce simp: asks_def)
    then show ?thesis using inv_answer [OF inv wf F_Answered(2), of "Inr a" now] F_Answered(1) by (simp add: reconciliation_of_def)
  next
    case (F_AskPanic q e now why)
    then show ?thesis using inv_answer [OF inv wf F_AskPanic(2), of "Inl why" now] by (simp add: reconciliation_of_def end_ok_def)
  next
    case (F_Restart now fs s')
    then show ?thesis using inv_restart [OF inv once F_Restart(2)] kept by simp
  qed (use inv wf once reg in \<open>auto intro: inv_task inv_gone inv_recv inv_start inv_guard inv_decided inv_detached\<close>)
qed

lemma inv_run:
  assumes "fiscal_run says finds foreign sha cfg ts reg tm (keeps_row k) w w'" and "portos_documented says finds" and "by_tag reg"
    and "fiscal_wf reg k w" and "fiscal_inv sha foreign reg k w"
  shows "fiscal_wf reg k w' \<and> fiscal_inv sha foreign reg k w'"
  using assms
proof (induction rule: fiscal_run.induct)
  case (F_More w w' w'')
  then have now: "fiscal_wf reg k w'" "fiscal_inv sha foreign reg k w'" by blast+
  show ?case using wf_step [OF F_More.hyps(2) _ F_More.hyps(3) now(1)] inv_step [OF F_More.hyps(2) _ _ F_More.hyps(3) now] F_More.prems
    by blast
qed simp

end
