(* ===== verification/Fiscal_Truth.thy ===== *)
theory Fiscal_Truth
  imports Fiscal_Runs
begin

text \<open>
  What the journal says about a receipt is true of Portos: in every run a job is sent at most once, a
  job that ended \<open>failed\<close> was refused or never sent, a receipt that ended \<open>done\<close> is registered.
\<close>

text \<open>
  C1. What the journal says about a receipt is true of Portos. Start the source on a journal without
  job \<open>k\<close> and let everything interleave: the tasks of the source, the calls of the executor between
  their requests, Portos deciding about a receipt at any time after it was sent, lost answers, failing
  journal statements, hanging and panicking calls, crashes and restarts. As long as the row of \<open>k\<close> is not
  pruned and Portos answers as documented: at most one register request is sent for the job; when its
  row says \<open>failed\<close>, every request that was sent was refused; when a receipt's row says \<open>done\<close>, Portos
  has a receipt with the job's \<open>externalId\<close>.
\<close>

theorem journal_tells_the_truth:
  assumes "portos_documented says finds" and "by_tag reg"
    and "journal_wf (jdb j)" and "info_of (jdb j) k = None" and "source_run reg now j [] = Inr s"
    and "fiscal_run says finds foreign sha cfg ts reg tm (keeps_row k)
           \<lparr>fi_source = s, fi_pc = (\<lambda>_. None), fi_posts = []\<rparr> w"
  shows "length (posts_of k (fi_posts w)) \<le> 1 \<and>
    (\<forall>x. info_of (sdb (fi_source w)) k = Some x \<longrightarrow>
       (ji_state x = ''failed'' \<longrightarrow> (\<forall>p \<in> set (posts_of k (fi_posts w)). snd (snd p) = Refused)) \<and>
       (ji_state x = ''done'' \<and> receipt_job (ji_tag x) \<longrightarrow> registered foreign (fi_posts w) (ext_of sha (ji_tag x))))"
proof -
  let ?w0 = "\<lparr>fi_source = s, fi_pc = (\<lambda>_. None), fi_posts = []\<rparr>"
  have "once_inv k s" using source_run_keeps [OF assms(5,3)] by (simp add: once_inv_def)
  then have "fiscal_wf reg k ?w0" using routed_fresh [OF assms(5)] by (simp add: fiscal_wf_def)
  moreover have "info_of (sdb s) k = None" using info_source_run [OF assms(5,3), of k] assms(4) by simp
  then have "fiscal_inv sha foreign reg k ?w0" using assms(5)
    by (auto simp: inv_defs posts_of_def asks_def source_run_def split: prod.splits sum.splits if_splits)
  ultimately have "fiscal_inv sha foreign reg k w" using inv_run [OF assms(6,1,2)] by blast
  then have ok: "posts_ok k w" "verdict_ok sha foreign k w" by (simp_all add: fiscal_inv_def)
  have "length (posts_of k (fi_posts w)) \<le> 1" using ok(1) by (cases "posts_of k (fi_posts w) = []") (simp_all add: posts_ok_def)
  with ok(2) show ?thesis unfolding verdict_ok_def end_ok_def all_refused_def by blast
qed

text \<open>A bridge with one Portos; Portos answers in full or not at all.\<close>

definition receipt_body :: "string \<Rightarrow> json" where
  "receipt_body e =
     JObj [(''request'', JObj [(''externalId'', JStr e),
       (''data'', JObj [(''okp'', JStr ''a1''), (''receiptNumber'', JInt 12)])])]"

definition sample_says :: "fate \<Rightarrow> string \<Rightarrow> Reply \<Rightarrow> bool" where
  "sample_says f e r \<longleftrightarrow> r = Lost [] \<or> f = Registered \<and> r = Answer 200 (receipt_body e) \<or> f = Refused \<and> r = Answer 401 JNull"

definition sample_finds :: "bool \<Rightarrow> string \<Rightarrow> Reply \<Rightarrow> bool" where
  "sample_finds b e r \<longleftrightarrow> r = (if b then Answer 200 (receipt_body e) else Answer 204 JNull)"

lemma sample_documented: "portos_documented sample_says sample_finds"
  by (auto simp: portos_documented_def sample_says_def sample_finds_def refusal_def is_2xx_def Let_def split: if_splits)

definition portos_config :: PortosConfig where
  "portos_config = \<lparr>pc_default_url = [], pc_kasy = []\<rparr>"

definition portos_registry :: ExecutorRegistry where
  "portos_registry = Map.empty(Fiscal \<mapsto> portos_executor (\<lambda>_. None) 0 portos_config [])"

lemma portos_registry_by_tag: "by_tag portos_registry"
  unfolding portos_registry_def by (rule portos_by_tag)

definition deposit_payload :: json where
  "deposit_payload =
     JObj [(''data'', JObj [(''cashRegisterCode'', JStr ''88812345678900001''), (''amount'', JInt 0)])]"

definition deposit_job :: DeviceJob where
  "deposit_job =
     \<lparr>dj_id = 7, dj_job_type = ''fiscal.deposit'', dj_client_uuid = ''u1'', dj_kasa_id = Some 3, dj_kasa_name = [],
      dj_pos_order = JNull, dj_payload = deposit_payload, dj_created_at = [], dj_claimed_at = []\<rparr>"

definition deposit_next :: json where
  "deposit_next =
     JObj [(''job'', JObj [(''id'', JInt 7), (''type'', JStr ''fiscal.deposit''), (''client_uuid'', JStr ''u1''),
            (''kasa'', JObj [(''id'', JInt 3)]), (''payload'', deposit_payload)]), (''ok'', JBool True)]"

lemma deposit_parse:
  "parse_next (\<lambda>_. []) deposit_next = Inr \<lparr>nx_job = Some deposit_job, nx_wait_s = 0, nx_kasy = []\<rparr>"
  by (simp add: parse_next_def deposit_next_def require_ok_def jget_def as_bool_def parse_job_def is_object_def
      positive_id_def as_i64_def text_of_def deposit_job_def deposit_payload_def parse_kasy_def Let_def)

text \<open>The moves of a concrete run: on one queue, of one job.\<close>

datatype fiscal_move =
    FM_Next | FM_Recv | FM_Start | FM_Looked | FM_Marked | FM_Posted | FM_Decided fate | FM_Replied Reply | FM_Return
  | FM_Schedule | FM_Asked | FM_Answered | FM_Restart

definition no_sha :: "string \<Rightarrow> string" where "no_sha _ = ''0''"

fun fmove :: "fiscal_move \<Rightarrow> fiscal \<Rightarrow> fiscal option" where
  "fmove FM_Next w = Some (set_source (snd (accept_job no_ts portos_registry 0 0 deposit_job (fi_source w))) w)"
| "fmove FM_Recv w =
     (if so_workers (fi_source w) fiscal_queue = W_Idle
      then Some (spawn_call no_sha portos_config fiscal_queue (worker_recv no_ts fiscal_queue (fi_source w)) w) else None)"
| "fmove FM_Start w =
     (case so_workers (fi_source w) fiscal_queue of
        W_Loaded _ _ \<Rightarrow> Some (spawn_call no_sha portos_config fiscal_queue (execute_start sample_timing 0 0 fiscal_queue (fi_source w)) w)
      | _ \<Rightarrow> None)"
| "fmove FM_Looked w =
     (case fi_pc w (fiscal_queue, Run 7) of
        Some (F_Lookup job kind base ext code) \<Rightarrow>
          if \<exists>p \<in> set (fi_posts w). snd p = (ext, Registered) then None
          else Some (set_pc fiscal_queue (Run 7) (Some (lookup_answered job kind base ext (Answer 204 JNull))) w)
      | _ \<Rightarrow> None)"
| "fmove FM_Marked w =
     (case fi_pc w (fiscal_queue, Run 7) of
        Some (F_Mark job kind base ext) \<Rightarrow>
          (case on_journal (register_mark (\<lambda>_. []) 0 job kind base ext) (fi_source w) of
             (Inr pc', s') \<Rightarrow> Some (set_pc fiscal_queue (Run 7) (Some pc') (set_source s' w))
           | _ \<Rightarrow> None)
      | _ \<Rightarrow> None)"
| "fmove FM_Posted w =
     (case fi_pc w (fiscal_queue, Run 7) of
        Some (F_Post job kind base ext) \<Rightarrow>
          Some (set_pc fiscal_queue (Run 7) (Some (F_Sent job kind base ext))
            (w\<lparr>fi_posts := fi_posts w @ [(dj_id job, ext, Undecided)]\<rparr>))
      | _ \<Rightarrow> None)"
| "fmove (FM_Decided f) w =
     (case fi_posts w of
        [(i, ext, Undecided)] \<Rightarrow> Some (w\<lparr>fi_posts := (fi_posts w)[0 := (i, ext, f)]\<rparr>)
      | _ \<Rightarrow> None)"
| "fmove (FM_Replied r) w =
     (case fi_pc w (fiscal_queue, Run 7) of
        Some (F_Sent job kind base ext) \<Rightarrow>
          (case find (\<lambda>p. fst p = dj_id job) (rev (fi_posts w)) of
             Some (i, ext', f) \<Rightarrow>
               if sample_says f ext r then Some (set_pc fiscal_queue (Run 7) (Some (register_answered kind ext r)) w) else None
           | None \<Rightarrow> None)
      | _ \<Rightarrow> None)"
| "fmove FM_Return w =
     (case awaited_job (so_workers (fi_source w) fiscal_queue) of
        Some job \<Rightarrow>
          (case fi_pc w (fiscal_queue, Run (dj_id job)) of
             Some (F_End oc) \<Rightarrow> Some (set_pc fiscal_queue (Run (dj_id job)) None
               (set_source (execute_return 0 fiscal_queue (Inr oc) (fi_source w)) w))
           | _ \<Rightarrow> None)
      | None \<Rightarrow> None)"
| "fmove FM_Schedule w =
     (case journal_get no_ts 7 (so_journal (fi_source w)) of
        (Inr (Some e), _) \<Rightarrow> Some (set_source (snd (schedule_one portos_registry 0 e (fi_source w))) w)
      | _ \<Rightarrow> None)"
| "fmove FM_Asked w =
     (case fi_pc w (fiscal_queue, Ask 7) of
        Some (F_Ask e base ext code) \<Rightarrow>
          if \<exists>p \<in> set (fi_posts w). snd p = (ext, Registered)
          then Some (set_pc fiscal_queue (Ask 7) (Some (ask_answered e base ext code (Answer 200 (receipt_body ext)))) w)
          else None
      | _ \<Rightarrow> None)"
| "fmove FM_Answered w =
     (case so_workers (fi_source w) fiscal_queue of
        W_Asking e \<Rightarrow>
          (case fi_pc w (fiscal_queue, Ask (dj_id (je_job e))) of
             Some (F_Answer a) \<Rightarrow> Some (set_pc fiscal_queue (Ask (dj_id (je_job e))) None
               (set_source (reconcile_return 0 fiscal_queue (Inr a) (fi_source w)) w))
           | _ \<Rightarrow> None)
      | _ \<Rightarrow> None)"
| "fmove FM_Restart w =
     (case source_run portos_registry 0 (on_db (sdb (fi_source w)) []) (so_log (fi_source w)) of
        Inr s' \<Rightarrow> Some \<lparr>fi_source = s', fi_pc = (\<lambda>_. None), fi_posts = fi_posts w\<rparr>
      | Inl _ \<Rightarrow> None)"

abbreviation sample_fiscal_step :: "fiscal \<Rightarrow> fiscal \<Rightarrow> bool" where
  "sample_fiscal_step \<equiv> fiscal_step sample_says sample_finds {} no_sha portos_config no_ts portos_registry sample_timing"

lemma registered_by: "registered {} ps e \<longleftrightarrow> (\<exists>p \<in> set ps. snd p = (e, Registered))"
  by (force simp: registered_def)

lemma fmove_step: "fmove m w = Some w' \<Longrightarrow> sample_fiscal_step w w'"
proof (induction m w rule: fmove.induct)
  case (1 w)
  then show ?case using F_Task [OF T_Next [OF deposit_parse]] by auto
next
  case (7 f w)
  then obtain i ext where "fi_posts w = [(i, ext, Undecided)]" "w' = w\<lparr>fi_posts := (fi_posts w)[0 := (i, ext, f)]\<rparr>"
    by (auto split: list.splits fate.splits prod.splits)
  then show ?case using F_Decided [of 0 w i ext] by simp
next
  case (10 w)
  then obtain e j' where get: "journal_get no_ts 7 (so_journal (fi_source w)) = (Inr (Some e), j')"
    and w': "w' = set_source (snd (schedule_one portos_registry 0 e (fi_source w))) w"
    by (auto split: prod.splits sum.splits option.splits)
  from journal_get_info [OF get] journal_get_id [OF get] show ?case unfolding w' by (auto intro!: F_Task T_Schedule)
next
  case (4 w)
  have "sample_finds (registered {} (fi_posts w) e) e (Answer 204 JNull)"
    if "\<forall>p \<in> set (fi_posts w). snd p \<noteq> (e, Registered)" for e
    using that by (simp add: sample_finds_def registered_by)
  then show ?case using 4 by (auto intro: F_Looked split: option.splits fiscal_pc.splits if_splits)
next
  case (11 w)
  have "sample_finds (registered {} (fi_posts w) e) e (Answer 200 (receipt_body e))"
    if "\<exists>p \<in> set (fi_posts w). snd p = (e, Registered)" for e
    using that by (simp add: sample_finds_def registered_by)
  then show ?case using 11 by (auto intro: F_Asked split: option.splits fiscal_pc.splits if_splits)
qed (auto intro: fiscal_step.intros split: option.splits fiscal_pc.splits if_splits prod.splits sum.splits worker_pc.splits)

fun fmoves :: "int \<Rightarrow> fiscal_move list \<Rightarrow> fiscal \<Rightarrow> fiscal option" where
  "fmoves k [] w = Some w"
| "fmoves k (m # ms) w =
     (case fmove m w of
        Some w' \<Rightarrow> if keeps_row k (fi_source w) (fi_source w') then fmoves k ms w' else None
      | None \<Rightarrow> None)"

lemma fmoves_run:
  assumes "fmoves k ms w = Some w'"
    and "fiscal_run sample_says sample_finds {} no_sha portos_config no_ts portos_registry sample_timing (keeps_row k) w0 w"
  shows "fiscal_run sample_says sample_finds {} no_sha portos_config no_ts portos_registry sample_timing (keeps_row k) w0 w'"
  using assms
proof (induction ms arbitrary: w)
  case (Cons m ms)
  then obtain u where "fmove m w = Some u" "keeps_row k (fi_source w) (fi_source u)" "fmoves k ms u = Some w'"
    by (auto split: option.splits if_splits)
  then show ?case using Cons.IH Cons.prems(2) F_More fmove_step by blast
qed simp

definition fiscal_start :: fiscal where
  "fiscal_start =
     \<lparr>fi_source = (case source_run portos_registry 0 (on_db empty_journal []) [] of Inr s \<Rightarrow> s),
      fi_pc = (\<lambda>_. None), fi_posts = []\<rparr>"

text \<open>
  The answer of Portos is lost and the process dies, Portos registers the receipt afterwards, and the
  reconciler finds it.
\<close>

definition lost_answer :: "fiscal_move list" where
  "lost_answer =
     [FM_Next, FM_Recv, FM_Start, FM_Looked, FM_Marked, FM_Posted, FM_Replied (Lost []), FM_Return, FM_Restart,
      FM_Decided Registered, FM_Schedule, FM_Recv, FM_Asked, FM_Answered]"

definition run_summary :: "fiscal \<Rightarrow> posts \<times> jinfo option" where
  "run_summary w = (fi_posts w, info_of (sdb (fi_source w)) 7)"

lemma lost_answer_run:
  "map_option run_summary (fmoves 7 lost_answer fiscal_start) =
     Some ([(7, ''dbj-0'', Registered)],
           Some \<lparr>ji_state = ''done'', ji_contact = Some (ContactAt 0), ji_tag = (''fiscal.deposit'', Some 3, ''u1'')\<rparr>)"
  by code_simp

lemma fiscal_start_run:
  "source_run portos_registry 0 (on_db empty_journal []) [] = Inr (fi_source fiscal_start)"
proof -
  have "fst (recover_after_restart 0 (on_db empty_journal [])) = Inr []" by code_simp
  then show ?thesis
    by (cases "recover_after_restart 0 (on_db empty_journal [])") (simp add: source_run_def fiscal_start_def)
qed

theorem journal_tells_the_truth_witness:
  "\<exists>w. fiscal_run sample_says sample_finds {} no_sha portos_config no_ts portos_registry sample_timing (keeps_row 7) fiscal_start w \<and>
       fi_posts w = [(7, ''dbj-0'', Registered)] \<and> map_option ji_state (info_of (sdb (fi_source w)) 7) = Some ''done'' \<and>
       registered {} (fi_posts w) (ext_of no_sha (''fiscal.deposit'', Some 3, ''u1''))"
proof -
  obtain w where w: "fmoves 7 lost_answer fiscal_start = Some w" "fi_posts w = [(7, ''dbj-0'', Registered)]"
    "info_of (sdb (fi_source w)) 7 =
       Some \<lparr>ji_state = ''done'', ji_contact = Some (ContactAt 0), ji_tag = (''fiscal.deposit'', Some 3, ''u1'')\<rparr>"
    using lost_answer_run by (auto simp: run_summary_def)
  have run: "fiscal_run sample_says sample_finds {} no_sha portos_config no_ts portos_registry sample_timing (keeps_row 7) fiscal_start w"
    using w(1) F_Done by (rule fmoves_run)
  have start: "\<lparr>fi_source = fi_source fiscal_start, fi_pc = (\<lambda>_. None), fi_posts = []\<rparr> = fiscal_start"
    by (simp add: fiscal_start_def)
  note truth = journal_tells_the_truth [where s = "fi_source fiscal_start", unfolded start]
  have wf: "journal_wf (jdb (on_db empty_journal []))" by (simp add: on_db_def journal_wf_empty)
  have none: "info_of (jdb (on_db empty_journal [])) 7 = None"
    by (simp add: on_db_def info_of_def row_of_def empty_journal_def)
  from truth [OF sample_documented portos_registry_by_tag wf none fiscal_start_run run]
  have "registered {} (fi_posts w) (ext_of no_sha (''fiscal.deposit'', Some 3, ''u1''))"
    using w(3) by (auto simp: receipt_job_def fiscal_op_def)
  then show ?thesis using run w by auto
qed

end
