(* ===== verification/Tim_Card.thy ===== *)
theory Tim_Card
  imports Portos_Executor
begin

text \<open>
  The decisions of the card terminal executor (\<open>device_jobs/tim/card.rs\<close>): what a result code of the
  terminal means, the checks of a job, the job result, the slip lines and the correlation of a payment
  with the terminal's last transaction. An \<open>f64\<close> is the rational it stands for; \<open>show_json\<close> is the
  printer of \<open>serde_json\<close>.
\<close>

section \<open>Transactions\<close>

datatype TwoPhase = Purchase | Credit

definition two_phase_of :: "string \<Rightarrow> TwoPhase option" where
  "two_phase_of job_type =
     (if job_type = ''card.purchase'' then Some Purchase else if job_type = ''card.credit'' then Some Credit else None)"

fun tx_type :: "TwoPhase \<Rightarrow> int" where
  "tx_type Purchase = 1"
| "tx_type Credit = 2"

definition TYPE_REVERSAL :: int where "TYPE_REVERSAL = 3"

definition transaction_type_name :: "int \<Rightarrow> string" where
  "transaction_type_name t =
     (if t = 1 then ''purchase'' else if t = 2 then ''credit'' else if t = 3 then ''reversal'' else ''type_'' @ int_text t)"

record TxFacts =
  tf_transaction_type :: "int option"
  tf_amount_minor :: "int option"
  tf_currency_eur :: "bool option"
  tf_trans_seq :: "int option"
  tf_trans_ref :: "int option"
  tf_trm_trans_ref :: "string option"
  tf_auth_code :: "string option"
  tf_pos_entry_mode :: "int option"
  tf_cvm :: "int option"
  tf_brand_name :: "string option"
  tf_card_number_printable :: "string option"
  tf_merchant_receipt :: "string option"
  tf_cardholder_receipt :: "string option"

record LastTransaction =
  lt_transaction_type :: int
  lt_outcome :: int
  lt_facts :: "TxFacts option"

definition OUTCOME_SUCCESSFUL :: int where "OUTCOME_SUCCESSFUL = 1"
definition OUTCOME_FAILED :: int where "OUTCOME_FAILED = 2"

datatype TxFailure = NothingCharged string | Tx_Unknown

definition classify_transaction_error :: "int \<Rightarrow> TxFailure" where
  "classify_transaction_error rc =
     (if rc = 2 \<or> 53 \<le> rc \<and> rc \<le> 55 then NothingCharged ''cancelled''
      else if 32 \<le> rc \<and> rc \<le> 48 \<or> rc = 74 \<or> rc = 76 then NothingCharged ''card_error''
      else if rc = 75 \<or> 77 \<le> rc \<and> rc \<le> 88 \<or> 91 \<le> rc \<and> rc \<le> 93 \<or> 97 \<le> rc \<and> rc \<le> 118 \<or> 123 \<le> rc \<and> rc \<le> 138 \<or>
              rc = 152 \<or> 154 \<le> rc \<and> rc \<le> 156 \<or> 158 \<le> rc \<and> rc \<le> 161 then NothingCharged ''declined''
      else if rc = 69 \<or> rc = 70 \<or> rc = 162 then NothingCharged ''terminal_busy''
      else Tx_Unknown)"

definition RC_UNKNOWN_REFERENCE :: int where "RC_UNKNOWN_REFERENCE = 67"
definition RC_COMMIT_TIMEOUT :: int where "RC_COMMIT_TIMEOUT = 89"

definition classify_reversal_error :: "int \<Rightarrow> bool \<Rightarrow> TxFailure" where
  "classify_reversal_error rc period_closed_proven =
     (if rc = RC_UNKNOWN_REFERENCE
      then NothingCharged (if period_closed_proven then ''period_closed'' else ''unknown_reference'')
      else classify_transaction_error rc)"

section \<open>What a job asks for\<close>

definition amount_minor :: "DeviceJob \<Rightarrow> int option" where
  "amount_minor job =
     (case Option.bind (jget ''amount'' (dj_payload job)) as_f64 of
        None \<Rightarrow> None
      | Some amount \<Rightarrow>
          (case to_f64 (amount * 100) of
             None \<Rightarrow> None
           | Some x \<Rightarrow>
               let cents = round_away x
               in if to_f64 (of_int cents / 100) = Some amount \<and> 1 \<le> cents \<and> cents < 10 ^ 13 then Some cents else None))"

definition reversal_target :: "DeviceJob \<Rightarrow> (int \<times> int) option" where
  "reversal_target job =
     (case Option.bind (jget ''trans_seq'' (dj_payload job)) as_i64 of
        None \<Rightarrow> None
      | Some seq \<Rightarrow> if 0 \<le> seq \<and> seq < 2 ^ 31 then map_option (\<lambda>a. (seq, a)) (amount_minor job) else None)"

definition payload_tid :: "DeviceJob \<Rightarrow> string option" where
  "payload_tid job = Option.bind (jget ''tid'' (dj_payload job)) as_str"

definition currency_ok :: "DeviceJob \<Rightarrow> bool" where
  "currency_ok job =
     (case jget ''currency'' (dj_payload job) of
        None \<Rightarrow> True | Some JNull \<Rightarrow> True | Some (JStr c) \<Rightarrow> c = ''EUR'' | Some _ \<Rightarrow> False)"

definition settle_target :: "DeviceJob \<Rightarrow> int option" where
  "settle_target job =
     (case Option.bind (jget ''card_job_id'' (dj_payload job)) as_i64 of
        Some i \<Rightarrow> if 0 < i then Some i else None | None \<Rightarrow> None)"

text \<open>\<open>(a * 100.0).round() as i64\<close>; the cast saturates.\<close>

definition cents_of :: "rat \<Rightarrow> int" where
  "cents_of a =
     (case to_f64 (a * 100) of
        None \<Rightarrow> if 0 < a then 2 ^ 63 - 1 else - (2 ^ 63)
      | Some x \<Rightarrow> min (2 ^ 63 - 1) (max (- (2 ^ 63)) (round_away x)))"

definition named :: "string \<Rightarrow> json \<Rightarrow> json option" where
  "named key v = (case jget key v of Some JNull \<Rightarrow> None | x \<Rightarrow> x)"

definition settle_mismatch :: "(json \<Rightarrow> string) \<Rightarrow> DeviceJob \<Rightarrow> json \<Rightarrow> string option" where
  "settle_mismatch show_json job authorised =
     (case jget ''transaction'' authorised of
        None \<Rightarrow> None
      | Some tx \<Rightarrow>
          let amount_problem =
            (case named ''amount'' (dj_payload job) of
               None \<Rightarrow> None
             | Some amount \<Rightarrow>
                 if map_option cents_of (as_f64 amount) \<noteq> map_option cents_of (Option.bind (jget ''amount'' tx) as_f64)
                 then Some (''amount '' @ show_json amount @ '' is not the authorised '' @
                        show_json (or_null (jget ''amount'' tx)))
                 else None)
          in case named ''trans_seq'' (dj_payload job) of
               None \<Rightarrow> amount_problem
             | Some seq \<Rightarrow>
                 if as_i64 seq \<noteq> Option.bind (jget ''trans_seq'' tx) as_i64
                 then Some (''trans_seq '' @ show_json seq @ '' is not the authorised '' @
                        show_json (or_null (jget ''trans_seq'' tx)))
                 else amount_problem)"

section \<open>The job result\<close>

text \<open>Digits are single bytes, so masking works on the bytes.\<close>

fun mask_digits :: "nat \<Rightarrow> nat \<Rightarrow> string \<Rightarrow> string" where
  "mask_digits digits seen [] = []"
| "mask_digits digits seen (c # s) =
     (if ascii_digit c
      then (if Suc seen + 4 > digits then c else CHR ''X'') # mask_digits digits (Suc seen) s
      else c # mask_digits digits seen s)"

definition mask_card_number :: "string \<Rightarrow> string" where
  "mask_card_number printable = mask_digits (length (filter ascii_digit printable)) 0 printable"

definition last4 :: "string \<Rightarrow> string option" where
  "last4 printable =
     (let digits = filter ascii_digit printable
      in if 4 \<le> length digits then Some (drop (length digits - 4) digits) else None)"

definition cvm_name :: "int option \<Rightarrow> string" where
  "cvm_name cvm =
     (if cvm = Some 1 then ''pin'' else if cvm = Some 2 then ''pin_signature'' else if cvm = Some 3 then ''signature''
      else if cvm = Some 4 then ''on_device'' else if cvm = Some 5 then ''no_cvm'' else if cvm = Some 6 then ''other''
      else ''undefined'')"

definition needs_signature :: "int option \<Rightarrow> bool" where
  "needs_signature cvm \<longleftrightarrow> cvm = Some 2 \<or> cvm = Some 3"

definition json_of :: "('a \<Rightarrow> json) \<Rightarrow> 'a option \<Rightarrow> json" where
  "json_of f x = (case x of None \<Rightarrow> JNull | Some v \<Rightarrow> f v)"

text \<open>\<open>m as f64 / 100.0\<close>\<close>

definition euros :: "int \<Rightarrow> json" where
  "euros m = JFloat (the (to_f64 (the (to_f64 (of_int m)) / 100)))"

definition currency_json :: "bool option \<Rightarrow> json" where
  "currency_json eur = (if eur = Some True then JStr ''EUR'' else JNull)"

definition card_result :: "string \<Rightarrow> string option \<Rightarrow> TxFacts \<Rightarrow> json" where
  "card_result state tid facts =
     JObj
       [(''card'', JObj
          [(''brand_name'', json_of JStr (tf_brand_name facts)),
           (''card_number_printable'', json_of (\<lambda>n. JStr (mask_card_number n)) (tf_card_number_printable facts)),
           (''last4'', json_of JStr (Option.bind (tf_card_number_printable facts) last4))]),
        (''receipts'', JObj
          [(''cardholder'', json_of JStr (tf_cardholder_receipt facts)),
           (''merchant'', json_of JStr (tf_merchant_receipt facts))]),
        (''state'', JStr state),
        (''terminal'', JObj [(''tid'', json_of JStr tid)]),
        (''transaction'', JObj
          [(''amount'', json_of euros (tf_amount_minor facts)),
           (''auth_code'', json_of JStr (tf_auth_code facts)),
           (''currency'', currency_json (tf_currency_eur facts)),
           (''cvm'', JStr (cvm_name (tf_cvm facts))),
           (''pos_entry_mode'', json_of (\<lambda>m. JStr (int_text m)) (tf_pos_entry_mode facts)),
           (''trans_ref'', json_of (\<lambda>r. JStr (int_text r)) (tf_trans_ref facts)),
           (''trans_seq'', json_of JInt (tf_trans_seq facts)),
           (''trm_trans_ref'', json_of JStr (tf_trm_trans_ref facts)),
           (''type'', json_of (\<lambda>t. JStr (transaction_type_name t)) (tf_transaction_type facts))])]"

section \<open>Authorisation and correlation\<close>

text \<open>\<open>{:?}\<close> of an optional number.\<close>

definition debug_opt :: "int option \<Rightarrow> string" where
  "debug_opt x = (case x of None \<Rightarrow> ''None'' | Some n \<Rightarrow> ''Some('' @ int_text n @ '')'')"

definition authorisation_problem :: "TxFacts \<Rightarrow> int \<Rightarrow> string option" where
  "authorisation_problem facts amount =
     (if tf_trans_seq facts = None then Some ''the terminal answered without a trans_seq''
      else if tf_amount_minor facts \<noteq> Some amount
      then Some (''the terminal authorised '' @ debug_opt (tf_amount_minor facts) @ '' cents, the job asked '' @ int_text amount)
      else if tf_currency_eur facts \<noteq> Some True then Some ''the terminal authorised another currency than EUR''
      else None)"

definition baseline :: "LastTransaction option \<Rightarrow> int option \<Rightarrow> int option" where
  "baseline latest stored_max =
     (case latest of
        None \<Rightarrow> stored_max
      | Some l \<Rightarrow>
          if lt_transaction_type l = 0 \<and> lt_facts l = None
          then Some (case stored_max of Some n \<Rightarrow> n | None \<Rightarrow> 0)
          else (case Option.bind (lt_facts l) tf_trans_seq of Some s \<Rightarrow> Some s | None \<Rightarrow> stored_max))"

datatype Correlation = C_Charged TxFacts | C_NotCharged | C_Undecidable string

record Ours =
  ou_baseline :: "int option"
  ou_amount_minor :: int
  ou_trans_seq :: "int option"
  ou_tx_type :: int
  ou_later_payment :: bool

definition correlate :: "Ours \<Rightarrow> LastTransaction \<Rightarrow> Correlation" where
  "correlate ours latest =
     (if ou_later_payment ours
      then C_Undecidable (''another payment ran on this terminal after it - its last transaction cannot be proven '' @
             ''to be this one'')
      else case ou_baseline ours of
        None \<Rightarrow> C_Undecidable (''the terminal'' @ [CHR 0x27] @ ''s trans_seq before this payment is unknown'')
      | Some base \<Rightarrow>
          (case lt_facts latest of
             None \<Rightarrow> C_Undecidable (''the terminal'' @ [CHR 0x27] @ ''s last transaction (type '' @
               int_text (lt_transaction_type latest) @ '', outcome '' @ int_text (lt_outcome latest) @ '') carries no trans_seq'')
           | Some facts \<Rightarrow>
               let seq_ok = (case ou_trans_seq ours of
                     Some expected \<Rightarrow> tf_trans_seq facts = Some expected
                   | None \<Rightarrow> (case tf_trans_seq facts of Some s \<Rightarrow> base < s | None \<Rightarrow> False))
               in if \<not> (lt_transaction_type latest = ou_tx_type ours \<and> seq_ok \<and> tf_amount_minor facts = Some (ou_amount_minor ours))
                  then C_Undecidable (''the terminal'' @ [CHR 0x27] @ ''s last transaction (type '' @
                    int_text (lt_transaction_type latest) @ '', trans_seq '' @ debug_opt (tf_trans_seq facts) @ '', '' @
                    debug_opt (tf_amount_minor facts) @ '' cents) is not this payment (after trans_seq '' @ int_text base @
                    '', authorised as '' @ debug_opt (ou_trans_seq ours) @ '', '' @ int_text (ou_amount_minor ours) @ '' cents)'')
                  else if lt_outcome latest = OUTCOME_SUCCESSFUL then C_Charged facts
                  else if lt_outcome latest = OUTCOME_FAILED then C_NotCharged
                  else C_Undecidable (''the terminal reports outcome '' @ int_text (lt_outcome latest) @ '' for this payment'')))"

definition SETTLE_MARGIN_S :: int where "SETTLE_MARGIN_S = 10"

text \<open>Instants are nanoseconds.\<close>

definition settle_after :: "instant list \<Rightarrow> nat \<Rightarrow> instant option" where
  "settle_after moments commit_timeout_s =
     map_option (\<lambda>latest. latest + (int commit_timeout_s + SETTLE_MARGIN_S) * 10 ^ 9) (max_list moments)"

definition settle_pending :: "instant \<Rightarrow> instant option \<Rightarrow> bool" where
  "settle_pending now after = (case after of None \<Rightarrow> False | Some a \<Rightarrow> now < a)"

section \<open>Slips\<close>

definition SLIP_WIDTH :: nat where "SLIP_WIDTH = 40"
definition SLIP_MAX_LINES :: nat where "SLIP_MAX_LINES = 80"

definition CARDHOLDER_SLIP_TITLE :: string where "CARDHOLDER_SLIP_TITLE = ''Platba kartou - doklad zakaznika''"
definition MERCHANT_SLIP_TITLE :: string where "MERCHANT_SLIP_TITLE = ''Platba kartou - doklad obchodnika''"

definition is_format :: "string \<Rightarrow> bool" where
  "is_format ch \<longleftrightarrow>
     list_ex (\<lambda>(lo, hi). lo \<le> code_point ch \<and> code_point ch \<le> hi)
       [(0xAD, 0xAD), (0x200B, 0x200F), (0x202A, 0x202E), (0x2060, 0x206F), (0xFEFF, 0xFEFF)]"

definition trim_end :: "string list \<Rightarrow> string list" where
  "trim_end chs = rev (dropWhile blank (rev chs))"

definition strip_cr :: "string \<Rightarrow> string" where
  "strip_cr l = (if l \<noteq> [] \<and> last l = CHR 0x0D then butlast l else l)"

text \<open>\<open>str::lines\<close>: a last line that ends without a line feed keeps its carriage return.\<close>

definition text_lines :: "string \<Rightarrow> string list" where
  "text_lines s =
     (let ps = split_on (CHR 0x0A) s
      in map strip_cr (butlast ps) @ (if last ps = [] then [] else [last ps]))"

fun chunks :: "nat \<Rightarrow> 'a list \<Rightarrow> 'a list list" where
  "chunks n [] = []"
| "chunks n (x # xs) = (x # take (n - 1) xs) # chunks n (drop (n - 1) xs)"

definition clean_slip_char :: "string \<Rightarrow> string" where
  "clean_slip_char c = (if is_control c \<or> is_format c then '' '' else c)"

definition slip_line :: "string \<Rightarrow> string list" where
  "slip_line raw =
     (let clean = map clean_slip_char (trim_end (utf8_chars raw))
      in if clean = [] then [[]] else map (\<lambda>chunk. concat (trim_end chunk)) (chunks SLIP_WIDTH clean))"

definition slip_lines :: "string \<Rightarrow> string list" where
  "slip_lines text =
     take SLIP_MAX_LINES (rev (dropWhile (\<lambda>l. l = []) (rev (concat (map slip_line (text_lines text))))))"

section \<open>Masked card numbers\<close>

lemma mask_digits_filter:
  "filter ascii_digit (mask_digits n seen s) =
     drop (n - 4 - seen) (filter ascii_digit s)"
proof (induction s arbitrary: seen)
  case (Cons c s)
  have X: "\<not> ascii_digit (CHR ''X'')" by code_simp
  show ?case
  proof (cases "ascii_digit c")
    case True
    show ?thesis
    proof (cases "Suc seen + 4 > n")
      case True
      then have "n - 4 - seen = 0" "n - 4 - Suc seen = 0" by simp_all
      then show ?thesis using Cons \<open>ascii_digit c\<close> True by simp
    next
      case False
      then have "n - 4 - seen = Suc (n - 4 - Suc seen)" by simp
      then show ?thesis using Cons \<open>ascii_digit c\<close> False X by simp
    qed
  qed (simp add: Cons)
qed simp

text \<open>
  Cx. Of a card number only the last four digits are kept: whatever the terminal gives as the printable
  number, the masked number has the same length and exactly its last four digits (all of them, if it
  has fewer), and they are what \<open>last4\<close> reports.
\<close>

theorem masked_card_number:
  "filter ascii_digit (mask_card_number s) = drop (length (filter ascii_digit s) - 4) (filter ascii_digit s) \<and>
   length (mask_card_number s) = length s \<and> length (filter ascii_digit (mask_card_number s)) \<le> 4 \<and>
   last4 s = (if 4 \<le> length (filter ascii_digit s) then Some (filter ascii_digit (mask_card_number s)) else None)"
proof -
  have "length (mask_digits n seen s) = length s" for n seen by (induction s arbitrary: seen) auto
  then show ?thesis by (simp add: mask_card_number_def mask_digits_filter last4_def Let_def)
qed

section \<open>Slips are printable\<close>

lemma chunks_width: "0 < n \<Longrightarrow> c \<in> set (chunks n xs) \<Longrightarrow> length c \<le> n \<and> set c \<subseteq> set xs"
proof (induction n xs rule: chunks.induct)
  case (2 n x xs)
  have "set (take (n - 1) xs) \<subseteq> set xs" "set (drop (n - 1) xs) \<subseteq> set xs" by (rule set_take_subset, rule set_drop_subset)
  with 2 show ?case by fastforce
qed simp

lemma trim_end_subset: "set (trim_end chs) \<subseteq> set chs" "length (trim_end chs) \<le> length chs"
  using length_dropWhile_le [of blank "rev chs"] by (auto simp: trim_end_def dest: set_dropWhileD)

text \<open>The lines of a text of whole characters are made of its characters.\<close>

lemma NL_whole: "char_ok ch \<Longrightarrow> CHR 0x0A \<in> set ch \<Longrightarrow> ch = [CHR 0x0A]"
  by (cases ch) (auto simp: char_ok_def continuation_def list_all_iff)

lemma CR_whole: "char_ok ch \<Longrightarrow> CHR 0x0D \<in> set ch \<Longrightarrow> ch = [CHR 0x0D]"
  by (cases ch) (auto simp: char_ok_def continuation_def list_all_iff)

lemma split_on_chars:
  assumes "list_all char_ok chs"
  shows "\<forall>p \<in> set (split_on (CHR 0x0A) (concat chs)). \<exists>cs. p = concat cs \<and> set cs \<subseteq> set chs"
  using assms
proof (induction chs)
  case (Cons ch chs)
  then have IH: "\<forall>p \<in> set (split_on (CHR 0x0A) (concat chs)). \<exists>cs. p = concat cs \<and> set cs \<subseteq> set chs" by simp
  obtain g gs where gs: "split_on (CHR 0x0A) (concat chs) = g # gs"
    by (cases "concat chs"; cases "split_on (CHR 0x0A) (concat chs)") (auto split: list.splits if_splits)
  show ?case
  proof (cases "CHR 0x0A \<in> set ch")
    case True
    with Cons.prems have "ch = [CHR 0x0A]" by (auto intro: NL_whole)
    with IH show ?thesis by (fastforce intro: exI [of _ "[]"])
  next
    case False
    have "split_on (CHR 0x0A) (ch @ s) = (ch @ g) # gs" if "split_on (CHR 0x0A) s = g # gs" "CHR 0x0A \<notin> set ch" for s ch g gs
      using that by (induction ch) auto
    with False gs have eq: "split_on (CHR 0x0A) (concat (ch # chs)) = (ch @ g) # gs" by simp
    obtain cs where "g = concat cs" "set cs \<subseteq> set chs" using IH gs by auto
    then have "\<exists>cs. ch @ g = concat cs \<and> set cs \<subseteq> set (ch # chs)" by (intro exI [of _ "ch # cs"]) auto
    moreover have "\<forall>p \<in> set gs. \<exists>cs. p = concat cs \<and> set cs \<subseteq> set (ch # chs)" using IH gs by fastforce
    ultimately show ?thesis unfolding eq by simp
  qed
qed simp

definition made_of :: "string set \<Rightarrow> string \<Rightarrow> bool" where
  "made_of A s \<longleftrightarrow> (\<exists>cs. s = concat cs \<and> set cs \<subseteq> A)"

lemma strip_cr_made:
  assumes "made_of A s" and "\<forall>c \<in> A. char_ok c"
  shows "made_of A (strip_cr s)"
proof (cases "s \<noteq> [] \<and> last s = CHR 0x0D")
  case True
  obtain cs where cs: "s = concat cs" "set cs \<subseteq> A" using assms(1) by (auto simp: made_of_def)
  obtain c ds where c: "cs = ds @ [c]" using True cs(1) by (cases cs rule: rev_cases) auto
  have "char_ok c" using c cs(2) assms(2) by auto
  then have "c \<noteq> []" by (auto simp: char_ok_def)
  then have "last s = last c" using cs(1) c by simp
  then have "CHR 0x0D \<in> set c" using True \<open>c \<noteq> []\<close> by (metis last_in_set)
  then have "c = [CHR 0x0D]" using \<open>char_ok c\<close> by (intro CR_whole)
  then have "strip_cr s = concat ds" using True cs(1) c by (simp add: strip_cr_def butlast_append)
  then show ?thesis using c cs(2) by (auto simp: made_of_def)
qed (use assms in \<open>auto simp: strip_cr_def\<close>)

lemma text_lines_made:
  assumes "utf8_ok text" and "l \<in> set (text_lines text)"
  shows "made_of (set (utf8_chars text)) l"
proof -
  let ?A = "set (utf8_chars text)"
  have ok: "list_all char_ok (utf8_chars text)" using assms(1) by (simp add: utf8_ok_def)
  have ps: "\<forall>p \<in> set (split_on (CHR 0x0A) text). made_of ?A p"
    using split_on_chars [OF ok] by (simp add: made_of_def)
  have nonempty: "split_on (CHR 0x0A) text \<noteq> []" by (cases "text") (auto split: list.splits)
  have "l \<in> strip_cr ` set (split_on (CHR 0x0A) text) \<union> set (split_on (CHR 0x0A) text)"
    using assms(2) nonempty by (auto simp: text_lines_def Let_def dest: in_set_butlastD split: if_splits)
  then show ?thesis using ps ok strip_cr_made [of ?A] by (auto simp: list_all_iff)
qed

definition printable :: "string \<Rightarrow> bool" where
  "printable c \<longleftrightarrow> char_ok c \<and> \<not> is_control c \<and> \<not> is_format_char c"

lemma space_printable: "printable '' ''"
  by code_simp

lemma slip_line_fits:
  assumes "made_of A raw" and "\<forall>c \<in> A. char_ok c \<and> (is_format_char c \<longrightarrow> is_format c)" and "l \<in> set (slip_line raw)"
  shows "print_line_problem l = None"
proof -
  obtain cs where cs: "raw = concat cs" "set cs \<subseteq> A" using assms(1) by (auto simp: made_of_def)
  have "list_all char_ok cs" using cs(2) assms(2) by (auto simp: list_all_iff)
  then have chars: "utf8_chars raw = cs" using cs(1) utf8_chars_concat by simp
  let ?clean = "map clean_slip_char (trim_end cs)"
  have clean: "\<forall>c \<in> set ?clean. printable c"
    using trim_end_subset(1) [of cs] cs(2) assms(2) space_printable
    by (auto simp: clean_slip_char_def printable_def)
  obtain ds where ds: "l = concat ds" "length ds \<le> 40" "set ds \<subseteq> set ?clean"
  proof (cases "?clean = []")
    case True
    then have "l = []" using assms(3) chars by (simp add: slip_line_def Let_def)
    then show thesis by (intro that [of "[]"]) auto
  next
    case False
    then obtain ch where ch: "ch \<in> set (chunks SLIP_WIDTH ?clean)" "l = concat (trim_end ch)"
      using assms(3) chars by (auto simp: slip_line_def Let_def)
    have "length ch \<le> 40 \<and> set ch \<subseteq> set ?clean" using chunks_width [OF _ ch(1)] by (simp add: SLIP_WIDTH_def)
    then show thesis using ch(2) trim_end_subset [of ch] by (intro that [of "trim_end ch"]) auto
  qed
  have plain: "\<forall>c \<in> set ds. printable c" using ds(3) clean by blast
  then have "utf8_chars l = ds" using ds(1) utf8_chars_concat by (auto simp: printable_def list_all_iff)
  then show ?thesis using ds(2) plain by (auto simp: print_line_problem_def PRINT_TEXT_WIDTH_def printable_def list_ex_iff)
qed

lemma slip_lines_fit:
  assumes "utf8_ok text" and "\<forall>c \<in> set (utf8_chars text). is_format_char c \<longrightarrow> is_format c"
  shows "length (slip_lines text) \<le> 80 \<and> (\<forall>l \<in> set (slip_lines text). print_line_problem l = None)"
proof -
  have ok: "\<forall>c \<in> set (utf8_chars text). char_ok c \<and> (is_format_char c \<longrightarrow> is_format c)"
    using assms by (auto simp: utf8_ok_def list_all_iff)
  have "print_line_problem l = None" if "l \<in> set (slip_lines text)" for l
  proof -
    have "l \<in> set (concat (map slip_line (text_lines text)))"
      using that by (auto simp: slip_lines_def dest!: in_set_takeD set_dropWhileD)
    then obtain raw where "raw \<in> set (text_lines text)" "l \<in> set (slip_line raw)" by auto
    with text_lines_made [OF assms(1)] show ?thesis using slip_line_fits [OF _ ok] by blast
  qed
  then show ?thesis by (simp add: slip_lines_def SLIP_MAX_LINES_def)
qed

lemma check_each_ok: "(\<And>x f. x \<in> set xs \<Longrightarrow> check x f = []) \<Longrightarrow> check_each field check xs = []"
proof -
  assume "\<And>x f. x \<in> set xs \<Longrightarrow> check x f = []"
  then have "concat (map (\<lambda>(i, x). check x (g i)) (List.enumerate n xs)) = []" for g n
    by (induction xs arbitrary: n) auto
  then show ?thesis by (simp add: check_each_def)
qed

text \<open>
  C13. The slip of a card payment passes the checks of the receipt printer: the lines made of a
  terminal's slip text, unless there are none, together with either title are accepted as a
  \<open>fiscal.print_text\<close> payload, provided the text has none of the format characters that the printer
  refuses and the slip does not replace.
\<close>

theorem slip_accepted_for_printing:
  assumes "utf8_ok text" and "\<forall>c \<in> set (utf8_chars text). is_format_char c \<longrightarrow> is_format c"
    and "slip_lines text \<noteq> []" and "title = CARDHOLDER_SLIP_TITLE \<or> title = MERCHANT_SLIP_TITLE"
  shows "check_payload rfc3339 PrintText (slip_payload title (slip_lines text)) now = None"
proof -
  have "\<not> blank CARDHOLDER_SLIP_TITLE \<and> print_line_problem CARDHOLDER_SLIP_TITLE = None" by code_simp
  moreover have "\<not> blank MERCHANT_SLIP_TITLE \<and> print_line_problem MERCHANT_SLIP_TITLE = None" by code_simp
  ultimately have title: "\<not> blank title" "print_line_problem title = None" using assms(4) by auto
  note fit = slip_lines_fit [OF assms(1,2)]
  have "check_each ''payload.lines'' check_print_line (map JStr (slip_lines text)) = []"
    by (rule check_each_ok) (use fit in \<open>auto simp: check_print_line_def\<close>)
  then show ?thesis
    using fit title assms(3)
    by (simp add: check_payload_def payload_problems_def with_object_def slip_payload_def check_print_text_def only_keys_def
        check_title_def check_lines_def check_print_line_def PRINT_TEXT_MAX_LINES_def Let_def)
qed

definition sample_slip :: string where
  "sample_slip = ''VISA'' @ [CHR 0x09] @ ''12,40 EUR'' @ [CHR 0x0D, CHR 0x0A, CHR 0xE2, CHR 0x80, CHR 0x8B] @ ''OK'' @ [CHR 0x0A, CHR 0x0A]"

theorem slip_accepted_for_printing_witness:
  "slip_lines sample_slip = [''VISA 12,40 EUR'', '' OK''] \<and>
   check_payload (\<lambda>_. None) PrintText (slip_payload CARDHOLDER_SLIP_TITLE (slip_lines sample_slip)) 0 = None"
proof -
  have lines: "slip_lines sample_slip = [''VISA 12,40 EUR'', '' OK'']" by code_simp
  have "utf8_ok sample_slip" "list_all (\<lambda>c. is_format_char c \<longrightarrow> is_format c) (utf8_chars sample_slip)" by code_simp+
  then show ?thesis using slip_accepted_for_printing [of sample_slip CARDHOLDER_SLIP_TITLE "\<lambda>_. None" 0] lines
    by (simp add: list_all_iff)
qed

text \<open>A format character the slip keeps and the printer refuses: U+0600.\<close>

lemma slip_refused:
  "check_payload (\<lambda>_. None) PrintText (slip_payload CARDHOLDER_SLIP_TITLE (slip_lines [CHR 0xD8, CHR 0x80])) 0 \<noteq> None"
  by code_simp

end
