(* ===== verification/Tim_Reports.thy ===== *)
theory Tim_Reports
  imports Tim_Card
begin

text \<open>
  The answers of the card terminal to shift and day-closing jobs and the job results made of them
  (\<open>device_jobs/tim/reports.rs\<close>).
\<close>

record Receipts =
  rc_merchant :: "string option"
  rc_cardholder :: "string option"

record TrxDetail =
  td_transaction_type :: "int option"
  td_count :: "int option"
  td_amount_minor :: "int option"

record Total =
  to_currency_eur :: "bool option"
  to_count :: "int option"
  to_amount_minor :: "int option"
  to_details :: "TrxDetail list"

record BrandCounter =
  bc_brand_name :: "string option"
  bc_acq_id :: "int option"
  bc_count :: "int option"
  bc_totals :: "Total list"

record Counters =
  cs_seq_counter :: "int option"
  cs_brands :: "BrandCounter list"

record ShiftReport =
  sr_act_seq_counter :: "int option"
  sr_counters :: "Counters option"
  sr_receipts :: Receipts

record BalanceReport =
  br_counters :: "Counters option"
  br_receipts :: Receipts

definition receipts_json :: "Receipts \<Rightarrow> json" where
  "receipts_json r = JObj [(''cardholder'', json_of JStr (rc_cardholder r)), (''merchant'', json_of JStr (rc_merchant r))]"

definition or_zero :: "int option \<Rightarrow> int" where
  "or_zero x = (case x of Some n \<Rightarrow> n | None \<Rightarrow> 0)"

text \<open>The loop over the totals of all brands; only those in EUR count.\<close>

definition eur_total :: "Counters \<Rightarrow> int \<times> int" where
  "eur_total counters =
     foldl (\<lambda>(count, amount) t.
         if to_currency_eur t = Some True
         then (count + or_zero (to_count t), amount + or_zero (to_amount_minor t)) else (count, amount))
       (0, 0) (concat (map bc_totals (cs_brands counters)))"

definition detail_json :: "TrxDetail \<Rightarrow> json" where
  "detail_json d =
     JObj [(''amount'', json_of euros (td_amount_minor d)), (''count'', json_of JInt (td_count d)),
       (''transaction_type'', json_of (\<lambda>t. JStr (transaction_type_name t)) (td_transaction_type d))]"

definition total_json :: "Total \<Rightarrow> json" where
  "total_json t =
     JObj [(''amount'', json_of euros (to_amount_minor t)), (''count'', json_of JInt (to_count t)),
       (''currency'', currency_json (to_currency_eur t)), (''details'', JArr (map detail_json (to_details t)))]"

definition brands_json :: "Counters \<Rightarrow> json" where
  "brands_json counters =
     JArr (map (\<lambda>b. JObj
       [(''acq_id'', json_of JInt (bc_acq_id b)), (''brand_name'', json_of JStr (bc_brand_name b)),
        (''count'', json_of JInt (bc_count b)), (''totals'', JArr (map total_json (bc_totals b)))]) (cs_brands counters))"

definition counters_fields :: "Counters option \<Rightarrow> json \<times> json \<times> json" where
  "counters_fields counters =
     (case counters of
        None \<Rightarrow> (JNull, JArr [], JNull)
      | Some c \<Rightarrow>
          (case eur_total c of (count, amount) \<Rightarrow>
             (json_of JInt (cs_seq_counter c), brands_json c,
              JObj [(''amount'', euros amount), (''count'', JInt count), (''currency'', JStr ''EUR'')])))"

definition balance_result :: "string option \<Rightarrow> BalanceReport \<Rightarrow> json" where
  "balance_result tid report =
     (case counters_fields (br_counters report) of (period, brands, sum_total) \<Rightarrow>
        JObj [(''brands'', brands), (''period'', period), (''receipts'', receipts_json (br_receipts report)),
          (''state'', JStr ''closed''), (''terminal'', JObj [(''tid'', json_of JStr tid)]), (''total'', sum_total)])"

definition shift_result :: "string \<Rightarrow> string option \<Rightarrow> ShiftReport \<Rightarrow> json" where
  "shift_result state tid report =
     (case counters_fields (sr_counters report) of (shift, brands, sum_total) \<Rightarrow>
        JObj [(''act_seq_counter'', json_of JInt (sr_act_seq_counter report)), (''brands'', brands),
          (''receipts'', receipts_json (sr_receipts report)), (''shift'', shift), (''state'', JStr state),
          (''terminal'', JObj [(''tid'', json_of JStr tid)]), (''total'', sum_total)])"

definition copy_result :: "int \<Rightarrow> int \<Rightarrow> Receipts \<Rightarrow> json" where
  "copy_result card_job_id trans_seq receipts =
     JObj [(''card_job_id'', JInt card_job_id), (''receipts'', receipts_json receipts), (''state'', JStr ''printed''),
       (''trans_seq'', JInt trans_seq)]"

text \<open>The totals are sums over the EUR entries of every brand.\<close>

lemma eur_total_sums:
  "eur_total counters =
     (let eur = filter (\<lambda>t. to_currency_eur t = Some True) (concat (map bc_totals (cs_brands counters)))
      in (sum_list (map (or_zero \<circ> to_count) eur), sum_list (map (or_zero \<circ> to_amount_minor) eur)))"
proof -
  have "foldl (\<lambda>(count, amount) t.
         if to_currency_eur t = Some True
         then (count + or_zero (to_count t), amount + or_zero (to_amount_minor t)) else (count, amount)) (c, a) ts =
      (c + sum_list (map (or_zero \<circ> to_count) (filter (\<lambda>t. to_currency_eur t = Some True) ts)),
       a + sum_list (map (or_zero \<circ> to_amount_minor) (filter (\<lambda>t. to_currency_eur t = Some True) ts)))" for c a and ts :: "Total list"
    by (induction ts arbitrary: c a) auto
  then show ?thesis by (simp add: eur_total_def Let_def)
qed

end
