(* ===== verification/Tim_Session.thy ===== *)
theory Tim_Session
  imports Tim_Reports
begin

text \<open>
  Sessions with a card terminal (\<open>device_jobs/tim/mod.rs\<close>, the session of \<open>ops.rs\<close>, \<open>read_last\<close> of
  \<open>jobs.rs\<close>). The TIM library and the terminal are a record of calls on a \<open>desk\<close>: the journal, the
  clocks, the shared state of the executor and whatever else is in the room. A call takes time and other tasks run meanwhile, so it may
  change all of the desk; the clock (\<open>Instant\<close>, milliseconds) never goes back (\<open>call\<close>).
\<close>

section \<open>Terminals and errors\<close>

record TerminalSpec =
  sp_kasa_id :: int
  sp_ip :: string
  sp_expected_tid :: "string option"
  sp_integrator_id :: string
  sp_commit_timeout_s :: nat

definition pos_id :: "TerminalSpec \<Rightarrow> string" where
  "pos_id spec = int_text (sp_kasa_id spec)"

definition TIM_PORT :: int where "TIM_PORT = 7784"

definition settings_lines :: "TerminalSpec \<Rightarrow> string" where
  "settings_lines spec =
     (let nl = [CHR 0x0A] in
      ''kasa_id = '' @ int_text (sp_kasa_id spec) @ nl @ ''pos_id = '' @ pos_id spec @ nl @
      ''connection_mode = on_fix_ip'' @ nl @ ''connection_ip = '' @ sp_ip spec @ nl @
      ''connection_port = '' @ int_text TIM_PORT @ nl @ ''integrator_id = '' @ sp_integrator_id spec @ nl @
      ''auto_commit = false'' @ nl @ ''commit_timeout_s = '' @ nat_digits (sp_commit_timeout_s spec) @ nl @
      ''expected_terminal_id = '' @ (case sp_expected_tid spec of Some t \<Rightarrow> t | None \<Rightarrow> ''(not set)'') @ nl)"

record TimError =
  te_call :: string
  te_code :: int

definition code_name :: "int \<Rightarrow> string" where
  "code_name code =
     (case map_of
        [(0, ''undefined''), (1, ''ok''), (2, ''api_cancel_ecr''), (3, ''api_invalid_answer''), (5, ''api_function_disallowed''),
         (7, ''api_connect_fail_server''), (8, ''api_connect_fail_terminal''), (9, ''api_connection_lost_server''),
         (10, ''api_connection_lost_terminal''), (11, ''ethernet_disconnected''), (13, ''api_timeout_server''),
         (14, ''api_timeout_terminal''), (139, ''invalid_argument''), (140, ''out_of_memory'')] code of
        Some n \<Rightarrow> n | None \<Rightarrow> ''other'')"

definition tim_error_text :: "TimError \<Rightarrow> string" where
  "tim_error_text e = te_call e @ '' failed: rc '' @ int_text (te_code e) @ '' ('' @ code_name (te_code e) @ '')''"

definition tim_check :: "string \<Rightarrow> int \<Rightarrow> TimError + unit" where
  "tim_check what rc = (if rc = 1 then Inr () else Inl \<lparr>te_call = what, te_code = rc\<rparr>)"

datatype SessionError =
    NoLibrary string
  | NoTerminal int
  | Tim TimError
  | WrongTerminal string "string option"   \<comment> \<open>expected, reported\<close>
  | Aborted string

fun session_error_text :: "SessionError \<Rightarrow> string" where
  "session_error_text (NoLibrary why) = ''TIM library not loaded: '' @ why"
| "session_error_text (NoTerminal kasa) = ''till '' @ int_text kasa @ '' has no terminal_ip''"
| "session_error_text (Tim e) = tim_error_text e"
| "session_error_text (WrongTerminal expected reported) =
     ''terminal reported id '' @ (case reported of Some t \<Rightarrow> t | None \<Rightarrow> ''(none)'') @ '' but the till expects '' @ expected"
| "session_error_text (Aborted why) = ''session aborted: '' @ why"

section \<open>The desk\<close>

datatype TerminalState = T_Ready | T_Busy | T_Failed string

record 'e desk =
  dk_journal :: journal
  dk_now :: nat
  dk_utc :: instant
  dk_holders :: "int list"                         \<comment> \<open>the jobs with a settle channel\<close>
  dk_states :: "string \<Rightarrow> TerminalState"
  dk_ends :: "string \<Rightarrow> nat option"                 \<comment> \<open>when the last session ended\<close>
  dk_in_flight :: "string \<Rightarrow> nat"
  dk_slips :: "(int \<times> string \<times> string list) list"  \<comment> \<open>slips handed to the printing tasks\<close>
  dk_env :: 'e

type_synonym ('e, 'a) tim_call = "'e desk \<Rightarrow> (TimError + 'a) \<times> 'e desk"

record 'e tim =
  tm_terminal :: "('e, unit) tim_call"
  tm_connect :: "('e, unit) tim_call"
  tm_login :: "('e, unit) tim_call"
  tm_terminal_id :: "('e, string option) tim_call"
  tm_logout :: "('e, unit) tim_call"
  tm_disconnect :: "('e, unit) tim_call"
  tm_last_transaction :: "('e, LastTransaction) tim_call"
  tm_transaction :: "TwoPhase \<Rightarrow> int \<Rightarrow> ('e, TxFacts) tim_call"
  tm_commit :: "('e, unit) tim_call"
  tm_rollback :: "('e, unit) tim_call"
  tm_reversal :: "int \<Rightarrow> ('e, TxFacts) tim_call"
  tm_activate :: "('e, ShiftReport) tim_call"
  tm_deactivate :: "('e, ShiftReport) tim_call"
  tm_balance :: "('e, BalanceReport) tim_call"
  tm_reprint :: "('e, Receipts) tim_call"

definition call :: "('e desk \<Rightarrow> 'a \<times> 'e desk) \<Rightarrow> 'e desk \<Rightarrow> 'a \<times> 'e desk" where
  "call f d = (case f d of (r, d') \<Rightarrow> (r, d'\<lparr>dk_now := max (dk_now d) (dk_now d')\<rparr>))"

definition sleep :: "nat \<Rightarrow> 'e desk \<Rightarrow> 'e desk" where
  "sleep t d = d\<lparr>dk_now := dk_now d + t\<rparr>"

lemma call_now: "call f d = (r, d') \<Longrightarrow> dk_now d \<le> dk_now d'"
  by (auto simp: call_def split: prod.splits)

section \<open>A session\<close>

text \<open>Why a session did not reach its work (\<open>ops.rs\<close>).\<close>

datatype SessionFail = Sess_Unreachable TimError | Sess_Refused SessionError

text \<open>Logout, when logged in, and disconnect always follow a connect; their failures are only logged.\<close>

definition end_session :: "'e tim \<Rightarrow> bool \<Rightarrow> 'e desk \<Rightarrow> 'e desk" where
  "end_session tim logged_in d =
     (let d1 = (if logged_in then snd (call (tm_logout tim) d) else d) in snd (call (tm_disconnect tim) d1))"

definition wrong_tid :: "TerminalSpec \<Rightarrow> string option \<Rightarrow> bool" where
  "wrong_tid spec tid = (case sp_expected_tid spec of None \<Rightarrow> False | Some expected \<Rightarrow> tid \<noteq> Some expected)"

definition with_session ::
    "'e tim \<Rightarrow> TerminalSpec \<Rightarrow> (string option \<Rightarrow> 'e desk \<Rightarrow> 'a \<times> 'e desk) \<Rightarrow> 'e desk \<Rightarrow> (SessionFail + 'a) \<times> 'e desk" where
  "with_session tim spec work d =
     (case call (tm_terminal tim) d of
        (Inl e, d1) \<Rightarrow> (Inl (Sess_Refused (Tim e)), d1)
      | (Inr _, d1) \<Rightarrow>
     (case call (tm_connect tim) d1 of
        (Inl e, d2) \<Rightarrow> (Inl (Sess_Unreachable e), d2)
      | (Inr _, d2) \<Rightarrow>
     (case call (tm_login tim) d2 of
        (Inl e, d3) \<Rightarrow> (Inl (Sess_Refused (Tim e)), end_session tim False d3)
      | (Inr _, d3) \<Rightarrow>
     (case call (tm_terminal_id tim) d3 of
        (Inl e, d4) \<Rightarrow> (Inl (Sess_Refused (Tim e)), end_session tim True d4)
      | (Inr tid, d4) \<Rightarrow>
          if wrong_tid spec tid
          then (Inl (Sess_Refused (WrongTerminal (the (sp_expected_tid spec)) tid)), end_session tim True d4)
          else (case work tid d4 of (a, d5) \<Rightarrow> (Inr a, end_session tim True d5))))))"

text \<open>\<open>SessionFail::outcome\<close>\<close>

definition session_outcome :: "string \<Rightarrow> SessionFail \<Rightarrow> Outcome" where
  "session_outcome nothing sf =
     (case sf of
        Sess_Unreachable e \<Rightarrow>
          O_Failed ''terminal_unreachable'' (''the terminal could not be reached: '' @ tim_error_text e @ '' - '' @ nothing)
      | Sess_Refused e \<Rightarrow>
          O_Failed (case e of WrongTerminal _ _ \<Rightarrow> ''wrong_terminal'' | _ \<Rightarrow> ''terminal_error'')
            (session_error_text e @ '' - '' @ nothing))"

text \<open>\<open>run_session\<close> and \<open>read_last\<close> are sessions of this form; the failures differ only in their type.\<close>

definition session_error_of :: "SessionFail \<Rightarrow> SessionError" where
  "session_error_of sf = (case sf of Sess_Unreachable e \<Rightarrow> Tim e | Sess_Refused e \<Rightarrow> e)"

definition map_error :: "('a \<Rightarrow> 'b) \<Rightarrow> 'a + 'c \<Rightarrow> 'b + 'c" where
  "map_error f r = (case r of Inl e \<Rightarrow> Inl (f e) | Inr x \<Rightarrow> Inr x)"

record SessionReport =
  se_terminal_id :: "string option"
  se_elapsed :: nat

definition run_session :: "'e tim \<Rightarrow> TerminalSpec \<Rightarrow> 'e desk \<Rightarrow> (SessionError + SessionReport) \<times> 'e desk" where
  "run_session tim spec d =
     (case with_session tim spec (\<lambda>tid d. (tid, d)) d of (r, d') \<Rightarrow>
        (case r of
           Inl f \<Rightarrow> Inl (session_error_of f)
         | Inr tid \<Rightarrow> Inr \<lparr>se_terminal_id = tid, se_elapsed = dk_now d' - dk_now d\<rparr>, d'))"

definition read_last ::
    "'e tim \<Rightarrow> TerminalSpec \<Rightarrow> 'e desk \<Rightarrow> (SessionError + string option \<times> LastTransaction) \<times> 'e desk" where
  "read_last tim spec d =
     (case with_session tim spec (\<lambda>tid d.
         (case call (tm_last_transaction tim) d of
            (Inl e, d') \<Rightarrow> (Inl (Tim e), d') | (Inr l, d') \<Rightarrow> (Inr (tid, l), d'))) d of
        (Inl f, d') \<Rightarrow> (Inl (session_error_of f), d')
      | (Inr r, d') \<Rightarrow> (r, d'))"

section \<open>State of the terminals\<close>

definition RECONNECT_GAP :: nat where "RECONNECT_GAP = 2000"

definition reconnect_wait :: "nat option \<Rightarrow> nat \<Rightarrow> nat \<Rightarrow> nat" where
  "reconnect_wait last_end now gap = (case last_end of None \<Rightarrow> 0 | Some e \<Rightarrow> (e + gap) - now)"

definition effective_state :: "TerminalState \<Rightarrow> nat \<Rightarrow> TerminalState" where
  "effective_state latest in_flight = (if 0 < in_flight then T_Busy else latest)"

definition aggregate_status :: "bool \<Rightarrow> TerminalState list \<Rightarrow> string" where
  "aggregate_status library_loaded states =
     (if list_ex (\<lambda>s. case s of T_Failed _ \<Rightarrow> True | _ \<Rightarrow> False) states \<or> \<not> library_loaded \<or> states = [] then ''offline''
      else if T_Busy \<in> set states then ''busy'' else ''tim-ok'')"

definition settle_endpoint :: "string \<Rightarrow> string" where
  "settle_endpoint ip = ip @ ''#settle''"

definition is_settle :: "string \<Rightarrow> bool" where
  "is_settle t \<longleftrightarrow> t = ''card.commit'' \<or> t = ''card.rollback''"

text \<open>The terminals by IP, in the order of the map; of two tills with one IP the later counts.\<close>

definition spec_of :: "TerminalSpec list \<Rightarrow> int \<Rightarrow> TerminalSpec option" where
  "spec_of terminals kasa_id = find (\<lambda>s. sp_kasa_id s = kasa_id) terminals"

definition tim_endpoints :: "TerminalSpec list \<Rightarrow> string list" where
  "tim_endpoints terminals =
     (if terminals = [] then [[]] else concat (map (\<lambda>s. [sp_ip s, settle_endpoint (sp_ip s)]) terminals))"

definition tim_endpoint :: "TerminalSpec list \<Rightarrow> DeviceJob \<Rightarrow> string" where
  "tim_endpoint terminals job =
     (let ip = (case Option.bind (dj_kasa_id job) (spec_of terminals) of Some s \<Rightarrow> sp_ip s | None \<Rightarrow> [])
      in if is_settle (dj_job_type job) \<and> ip \<noteq> [] then settle_endpoint ip else ip)"

lemma find_in: "find P xs = Some x \<Longrightarrow> x \<in> set xs \<and> P x"
  by (induction xs) (auto split: if_splits)

text \<open>Every job of a till with a terminal has a queue.\<close>

lemma tim_endpoint_known:
  assumes "dj_kasa_id job = Some k" and "spec_of terminals k = Some s"
  shows "tim_endpoint terminals job \<in> set (tim_endpoints terminals)"
  using assms find_in [of _ terminals s] by (force simp: tim_endpoint_def tim_endpoints_def spec_of_def Let_def)

end
