(* ===== verification/Tim_Purchase.thy ===== *)
theory Tim_Purchase
  imports Tim_Session
begin

text \<open>
  A purchase or credit on its terminal (\<open>device_jobs/tim/purchase.rs\<close>): the held session. The journal
  side is a record of hooks as in the source, the channel of settle requests a receive call. Both loops
  end with the clock: waiting takes the time that was waited for.
\<close>

section \<open>Requests and ends\<close>

definition REFUSAL_POLL :: nat where "REFUSAL_POLL = 500"
definition RELEASE_RETRY :: nat where "RELEASE_RETRY = 2000"
definition RC_NOTHING_PENDING :: int where "RC_NOTHING_PENDING = 68"

record PurchaseRequest =
  pr_job_id :: int
  pr_kind :: TwoPhase
  pr_amount_minor :: int
  pr_deadline :: nat
  pr_stored_max_seq :: "int option"
  pr_release_within :: nat

datatype ContactRefusal = AlreadyAsked | Contact_Journal string

record 'e hooks =
  hk_contact :: "int option \<Rightarrow> 'e desk \<Rightarrow> (ContactRefusal + unit) \<times> 'e desk"
  hk_authorized :: "TxFacts \<Rightarrow> string option \<Rightarrow> 'e desk \<Rightarrow> (string + unit) \<times> 'e desk"
  hk_authorization_refused :: "'e desk \<Rightarrow> bool \<times> 'e desk"
  hk_released :: "'e desk \<Rightarrow> 'e desk"

datatype SettleOp = S_Commit | S_Rollback
datatype SettleReply = S_Committed | S_RolledBack string | S_Unknown string
datatype recv = Rv_Op SettleOp | Rv_Timeout | Rv_Disconnected

datatype PurchaseEnd =
    P_Refused string string
  | P_Committed TxFacts "string option"
  | P_RolledBack string
  | P_Unknown string

text \<open>The answer to every settle request the purchase itself answers, late ones included.\<close>

fun settle_reply :: "PurchaseEnd \<Rightarrow> SettleReply" where
  "settle_reply (P_Committed _ _) = S_Committed"
| "settle_reply (P_RolledBack why) = S_RolledBack why"
| "settle_reply (P_Refused code msg) = S_RolledBack (code @ '': '' @ msg)"
| "settle_reply (P_Unknown why) = S_Unknown why"

definition refused :: "string \<Rightarrow> string \<Rightarrow> TimError \<Rightarrow> PurchaseEnd" where
  "refused code what e =
     P_Refused code (what @ '': '' @ tim_error_text e @ '' - the transaction was not sent, nothing charged'')"

definition failed_transaction :: "TimError \<Rightarrow> PurchaseEnd" where
  "failed_transaction e =
     (case classify_transaction_error (te_code e) of
        NothingCharged code \<Rightarrow> P_Refused code (''the terminal refused the payment: '' @ tim_error_text e @ '' - nothing charged'')
      | Tx_Unknown \<Rightarrow> P_Unknown (''the transaction failed with an unknown outcome: '' @ tim_error_text e @
          '' - reconciled with the terminal''))"

section \<open>The decision\<close>

function release :: "'e tim \<Rightarrow> nat \<Rightarrow> 'e desk \<Rightarrow> 'e desk" where
  "release tim until d =
     (case call (tm_rollback tim) d of (answer, d1) \<Rightarrow>
        if (case answer of Inr _ \<Rightarrow> True | Inl e \<Rightarrow> te_code e = RC_NOTHING_PENDING) then d1
        else let left = until - dk_now d1
             in if left = 0 then d1 else release tim until (sleep (min left RELEASE_RETRY) d1))"
  by pat_completeness auto
termination
  by (relation "measure (\<lambda>(_, until, d). until - dk_now d)")
    (auto simp: sleep_def RELEASE_RETRY_def dest!: call_now [OF sym])

declare release.simps [simp del]

definition roll_back :: "'e tim \<Rightarrow> string \<Rightarrow> 'e desk \<Rightarrow> PurchaseEnd \<times> 'e desk" where
  "roll_back tim why d =
     (case call (tm_rollback tim) d of
        (Inr _, d1) \<Rightarrow> (P_RolledBack (why @ '' - the authorisation was rolled back, no money taken''), d1)
      | (Inl e, d1) \<Rightarrow> (P_Unknown (why @ '', but the rollback failed: '' @ tim_error_text e), d1))"

definition commit :: "'e tim \<Rightarrow> TxFacts \<Rightarrow> string option \<Rightarrow> 'e desk \<Rightarrow> PurchaseEnd \<times> 'e desk" where
  "commit tim facts tid d =
     (case call (tm_commit tim) d of
        (Inr _, d1) \<Rightarrow> (P_Committed facts tid, d1)
      | (Inl e, d1) \<Rightarrow>
          (if te_code e = RC_COMMIT_TIMEOUT
           then P_RolledBack (''the commit came after the terminal'' @ [CHR 0x27] @ ''s commit timeout ('' @ tim_error_text e @
                  '') - the terminal reversed the authorisation, no money taken'')
           else P_Unknown (''the commit failed: '' @ tim_error_text e), d1))"

text \<open>\<open>recv_timeout\<close>: a timeout takes at least the time that was asked for.\<close>

definition recv_timeout :: "(nat \<Rightarrow> 'e desk \<Rightarrow> recv \<times> 'e desk) \<Rightarrow> nat \<Rightarrow> 'e desk \<Rightarrow> recv \<times> 'e desk" where
  "recv_timeout settle t d =
     (case settle t d of (r, d') \<Rightarrow>
        (r, d'\<lparr>dk_now := max (dk_now d + (if r = Rv_Timeout then t else 0)) (dk_now d')\<rparr>))"

lemma recv_timeout_now: "recv_timeout settle t d = (Rv_Timeout, d') \<Longrightarrow> dk_now d + t \<le> dk_now d'"
  by (auto simp: recv_timeout_def split: prod.splits)

function hold_payment ::
    "'e tim \<Rightarrow> PurchaseRequest \<Rightarrow> 'e hooks \<Rightarrow> (nat \<Rightarrow> 'e desk \<Rightarrow> recv \<times> 'e desk) \<Rightarrow> nat \<Rightarrow> TxFacts \<Rightarrow> string option \<Rightarrow>
     'e desk \<Rightarrow> PurchaseEnd \<times> 'e desk" where
  "hold_payment tim req hooks settle deadline facts tid d =
     (let remaining = deadline - dk_now d
      in if remaining = 0
         then roll_back tim (''no card.commit within '' @ nat_digits (pr_deadline req div 1000) @
                '' s of the authorisation (devbridge deadline)'') d
         else case recv_timeout settle (min remaining REFUSAL_POLL) d of (r, d1) \<Rightarrow>
           (case r of
              Rv_Op S_Commit \<Rightarrow> commit tim facts tid d1
            | Rv_Op S_Rollback \<Rightarrow> roll_back tim ''card.rollback'' d1
            | Rv_Disconnected \<Rightarrow> roll_back tim ''no settle channel for the held payment'' d1
            | Rv_Timeout \<Rightarrow>
                (case call (hk_authorization_refused hooks) d1 of (no, d2) \<Rightarrow>
                   if no then roll_back tim ''Odoo refused the authorisation (too late)'' d2
                   else hold_payment tim req hooks settle deadline facts tid d2)))"
  by pat_completeness auto
termination
  by (relation "measure (\<lambda>(_, _, _, _, deadline, _, _, d). deadline - dk_now d)")
    (auto simp: REFUSAL_POLL_def dest!: call_now [OF sym] recv_timeout_now [OF sym])

declare hold_payment.simps [simp del]

section \<open>The session\<close>

definition authorised ::
    "'e tim \<Rightarrow> PurchaseRequest \<Rightarrow> 'e hooks \<Rightarrow> (nat \<Rightarrow> 'e desk \<Rightarrow> recv \<times> 'e desk) \<Rightarrow> TxFacts \<Rightarrow> string option \<Rightarrow> 'e desk \<Rightarrow>
     PurchaseEnd \<times> 'e desk" where
  "authorised tim req hooks settle facts tid d =
     (case authorisation_problem facts (pr_amount_minor req) of
        Some problem \<Rightarrow> roll_back tim (''rolled back at once: '' @ problem) d
      | None \<Rightarrow>
          (case call (hk_authorized hooks facts tid) d of
             (Inl why, d1) \<Rightarrow> roll_back tim (''rolled back at once: the journal failed ('' @ why @ '')'') d1
           | (Inr _, d1) \<Rightarrow> hold_payment tim req hooks settle (dk_now d + pr_deadline req) facts tid d1))"

definition transact ::
    "'e tim \<Rightarrow> PurchaseRequest \<Rightarrow> 'e hooks \<Rightarrow> (nat \<Rightarrow> 'e desk \<Rightarrow> recv \<times> 'e desk) \<Rightarrow> string option \<Rightarrow> 'e desk \<Rightarrow>
     PurchaseEnd \<times> 'e desk" where
  "transact tim req hooks settle tid d =
     (case call (tm_transaction tim (pr_kind req) (pr_amount_minor req)) d of
        (Inl e, d1) \<Rightarrow> (failed_transaction e, d1)
      | (Inr facts, d1) \<Rightarrow> authorised tim req hooks settle facts tid d1)"

definition logged_in ::
    "'e tim \<Rightarrow> TerminalSpec \<Rightarrow> PurchaseRequest \<Rightarrow> 'e hooks \<Rightarrow> (nat \<Rightarrow> 'e desk \<Rightarrow> recv \<times> 'e desk) \<Rightarrow> 'e desk \<Rightarrow>
     PurchaseEnd \<times> 'e desk" where
  "logged_in tim spec req hooks settle d =
     (case call (tm_terminal_id tim) d of
        (Inl e, d1) \<Rightarrow> (refused ''terminal_error'' ''TIM terminal id'' e, d1)
      | (Inr tid, d1) \<Rightarrow>
          if wrong_tid spec tid
          then (P_Refused ''wrong_terminal'' (''the terminal at '' @ sp_ip spec @ '' reported id '' @
                  (case tid of Some t \<Rightarrow> t | None \<Rightarrow> ''(none)'') @ '' but the till expects '' @ the (sp_expected_tid spec) @
                  '' - nothing charged''), d1)
          else
     (case call (tm_last_transaction tim) d1 of (read, d2) \<Rightarrow>
        (case call (hk_contact hooks (baseline (case read of Inr l \<Rightarrow> Some l | Inl _ \<Rightarrow> None) (pr_stored_max_seq req))) d2 of
           (Inl AlreadyAsked, d3) \<Rightarrow>
             (P_Unknown (''the terminal was already asked for this job - no second transaction, '' @
                ''reconciled with the terminal''), d3)
         | (Inl (Contact_Journal why), d3) \<Rightarrow>
             (P_Refused ''bridge_error'' (''the journal did not record the terminal contact ('' @ why @
                '') - the transaction was not sent, nothing charged''), d3)
         | (Inr _, d3) \<Rightarrow> transact tim req hooks settle tid d3)))"

definition held_session ::
    "'e tim \<Rightarrow> TerminalSpec \<Rightarrow> PurchaseRequest \<Rightarrow> 'e hooks \<Rightarrow> (nat \<Rightarrow> 'e desk \<Rightarrow> recv \<times> 'e desk) \<Rightarrow> 'e desk \<Rightarrow>
     PurchaseEnd \<times> 'e desk" where
  "held_session tim spec req hooks settle d =
     (case call (tm_login tim) d of
        (Inl e, d1) \<Rightarrow> (refused ''terminal_error'' ''TIM login'' e, end_session tim False d1)
      | (Inr _, d1) \<Rightarrow>
          (case logged_in tim spec req hooks settle d1 of (end, d2) \<Rightarrow>
             let d3 = (case end of P_Unknown _ \<Rightarrow> release tim (dk_now d2 + pr_release_within req) d2 | _ \<Rightarrow> d2)
             in (end, end_session tim True d3)))"

definition run_purchase ::
    "'e tim \<Rightarrow> TerminalSpec \<Rightarrow> PurchaseRequest \<Rightarrow> 'e hooks \<Rightarrow> (nat \<Rightarrow> 'e desk \<Rightarrow> recv \<times> 'e desk) \<Rightarrow> 'e desk \<Rightarrow>
     PurchaseEnd \<times> 'e desk" where
  "run_purchase tim spec req hooks settle d =
     (case call (tm_terminal tim) d of
        (Inl e, d1) \<Rightarrow> (refused ''terminal_error'' ''TIM terminal object'' e, d1)
      | (Inr _, d1) \<Rightarrow>
     (case call (tm_connect tim) d1 of
        (Inl e, d2) \<Rightarrow> (refused ''terminal_unreachable'' ''the terminal could not be reached'' e, d2)
      | (Inr _, d2) \<Rightarrow>
     (case held_session tim spec req hooks settle d2 of (end, d3) \<Rightarrow> (end, hk_released hooks d3))))"

end
