(* ===== verification/Tim_Money.thy ===== *)
theory Tim_Money
  imports Tim_Purchase
begin

text \<open>
  What a purchase session says about the money is true. The terminal keeps a list of transactions; an
  authorisation is pending until it is committed or rolled back, or until the terminal voids it itself.
\<close>

section \<open>The documented terminal\<close>

datatype tx_fate = Tx_Pending | Tx_Charged | Tx_Void

type_synonym tx = "TwoPhase \<times> int \<times> tx_fate"    \<comment> \<open>what, cents\<close>

text \<open>A pending authorisation may lapse at any time (the terminal's commit timeout); nothing else changes.\<close>

definition lapsed :: "tx \<Rightarrow> tx \<Rightarrow> bool" where
  "lapsed x y \<longleftrightarrow> y = x \<or> snd (snd x) = Tx_Pending \<and> y = (fst x, fst (snd x), Tx_Void)"

definition lapse :: "tx list \<Rightarrow> tx list \<Rightarrow> bool" where
  "lapse = list_all2 lapsed"

text \<open>The result codes in which the terminal says that the transaction did not take place.\<close>

definition refusal_codes :: "int set" where
  "refusal_codes =
     {rc. rc = 2 \<or> 32 \<le> rc \<and> rc \<le> 48 \<or> 53 \<le> rc \<and> rc \<le> 55 \<or> rc = 69 \<or> rc = 70 \<or> rc = 74 \<or> rc = 75 \<or> rc = 76 \<or>
          77 \<le> rc \<and> rc \<le> 88 \<or> 91 \<le> rc \<and> rc \<le> 93 \<or> 97 \<le> rc \<and> rc \<le> 118 \<or> 123 \<le> rc \<and> rc \<le> 138 \<or> rc = 152 \<or>
          154 \<le> rc \<and> rc \<le> 156 \<or> 158 \<le> rc \<and> rc \<le> 161 \<or> rc = 162}"

definition undisturbed :: "('e \<Rightarrow> tx list) \<Rightarrow> ('e desk \<Rightarrow> 'a \<times> 'e desk) \<Rightarrow> bool" where
  "undisturbed L f \<longleftrightarrow> (\<forall>d r d'. f d = (r, d') \<longrightarrow> lapse (L (dk_env d)) (L (dk_env d')))"

text \<open>
  The contract of the terminal: an authorisation is a pending transaction, for the amount it names; a
  refused transaction leaves nothing, any other failure at most one transaction in any state; a commit
  charges the last transaction or reports that it timed out; a rollback charges nothing and leaves
  nothing pending. While the bridge waits on its channel nobody else uses the terminal.
\<close>

definition tim_documented :: "('e \<Rightarrow> tx list) \<Rightarrow> 'e tim \<Rightarrow> (nat \<Rightarrow> 'e desk \<Rightarrow> recv \<times> 'e desk) \<Rightarrow> bool" where
  "tim_documented L tim settle \<longleftrightarrow>
     undisturbed L (tm_terminal tim) \<and> undisturbed L (tm_connect tim) \<and> undisturbed L (tm_login tim) \<and> undisturbed L (tm_terminal_id tim) \<and>
     undisturbed L (tm_logout tim) \<and> undisturbed L (tm_disconnect tim) \<and> undisturbed L (tm_last_transaction tim) \<and> (\<forall>t. undisturbed L (settle t)) \<and>
     undisturbed L (tm_rollback tim) \<and>
     (\<forall>d d'. tm_rollback tim d = (Inr (), d') \<longrightarrow> (\<forall>t \<in> set (L (dk_env d')). snd (snd t) \<noteq> Tx_Pending)) \<and>
     (\<forall>k a d facts d'. tm_transaction tim k a d = (Inr facts, d') \<longrightarrow>
        (\<exists>xs m. lapse (L (dk_env d)) xs \<and> L (dk_env d') = xs @ [(k, m, Tx_Pending)] \<and>
                (tf_amount_minor facts \<noteq> None \<longrightarrow> tf_amount_minor facts = Some m))) \<and>
     (\<forall>k a d e d'. tm_transaction tim k a d = (Inl e, d') \<longrightarrow>
        lapse (L (dk_env d)) (L (dk_env d')) \<or>
        te_code e \<notin> refusal_codes \<and> (\<exists>xs t. lapse (L (dk_env d)) xs \<and> L (dk_env d') = xs @ [t])) \<and>
     (\<forall>d r d' xs t. tm_commit tim d = (r, d') \<longrightarrow> L (dk_env d) = xs @ [t] \<longrightarrow>
        (\<exists>ys f. lapse xs ys \<and> L (dk_env d') = ys @ [(fst t, fst (snd t), f)] \<and>
           (r = Inr () \<longrightarrow> f = Tx_Charged) \<and> (\<forall>e. r = Inl e \<longrightarrow> te_code e = RC_COMMIT_TIMEOUT \<longrightarrow> f = Tx_Void)))"

definition hooks_quiet :: "('e \<Rightarrow> tx list) \<Rightarrow> 'e hooks \<Rightarrow> bool" where
  "hooks_quiet L hooks \<longleftrightarrow>
     (\<forall>b. undisturbed L (hk_contact hooks b)) \<and> (\<forall>facts tid. undisturbed L (hk_authorized hooks facts tid)) \<and>
     undisturbed L (hk_authorization_refused hooks) \<and> (\<forall>d. L (dk_env (hk_released hooks d)) = L (dk_env d))"

lemma lapsed_refl: "lapsed x x"
  by (simp add: lapsed_def)

lemma lapse_refl [simp]: "lapse xs xs"
  by (simp add: lapse_def list_all2_refl lapsed_refl)

lemma lapse_trans: "lapse xs ys \<Longrightarrow> lapse ys zs \<Longrightarrow> lapse xs zs"
  unfolding lapse_def by (rule list_all2_trans [of lapsed lapsed]) (auto simp: lapsed_def)

lemma lapse_append: "lapse (xs @ us) zs \<longleftrightarrow> (\<exists>ys vs. zs = ys @ vs \<and> lapse xs ys \<and> lapse us vs)"
  unfolding lapse_def list_all2_append1 by (metis list_all2_lengthD)

lemma lapse_single: "lapse [t] zs \<longleftrightarrow> (\<exists>u. zs = [u] \<and> lapsed t u)"
  by (auto simp: lapse_def list_all2_Cons1)

lemma lapse_Nil [simp]: "lapse [] zs \<longleftrightarrow> zs = []"
  by (simp add: lapse_def)

lemma quiet_call: "undisturbed L f \<Longrightarrow> call f d = (r, d') \<Longrightarrow> lapse (L (dk_env d)) (L (dk_env d'))"
  by (auto simp: undisturbed_def call_def split: prod.splits)

lemma quiet_after:
  "lapse before (L (dk_env d)) \<Longrightarrow> undisturbed L f \<Longrightarrow> call f d = (r, d') \<Longrightarrow> lapse before (L (dk_env d'))"
  by (rule lapse_trans [of before "L (dk_env d)"], assumption, rule quiet_call [of L f d r d'])

lemma classify_others: "rc \<notin> refusal_codes \<Longrightarrow> classify_transaction_error rc = Tx_Unknown"
  unfolding classify_transaction_error_def refusal_codes_def mem_Collect_eq de_Morgan_disj
  by (elim conjE, (rule trans [OF if_not_P], rule notI, (elim disjE; erule (1) notE))+) (rule refl)

lemma refusals: "classify_transaction_error rc = NothingCharged code \<Longrightarrow> rc \<in> refusal_codes"
  using classify_others by fastforce

section \<open>The verdict\<close>

fun money_new :: "TwoPhase \<Rightarrow> int \<Rightarrow> PurchaseEnd \<Rightarrow> tx list \<Rightarrow> bool" where
  "money_new k a (P_Committed facts _) new \<longleftrightarrow> new = [(k, a, Tx_Charged)] \<and> tf_trans_seq facts \<noteq> None \<and> tf_amount_minor facts = Some a"
| "money_new k a (P_Unknown _) new \<longleftrightarrow> length new \<le> 1"
| "money_new k a _ new \<longleftrightarrow> length new \<le> 1 \<and> (\<forall>t \<in> set new. snd (snd t) = Tx_Void)"

definition money_ok :: "('e \<Rightarrow> tx list) \<Rightarrow> TwoPhase \<Rightarrow> int \<Rightarrow> tx list \<Rightarrow> PurchaseEnd \<Rightarrow> 'e desk \<Rightarrow> bool" where
  "money_ok L k a before end d \<longleftrightarrow>
     (\<exists>ys new. L (dk_env d) = ys @ new \<and> lapse before ys \<and> money_new k a end new)"

lemma money_okI:
  "L (dk_env d) = ys @ new \<Longrightarrow> lapse before ys \<Longrightarrow> money_new k a end new \<Longrightarrow> money_ok L k a before end d"
  by (auto simp: money_ok_def)

lemma lapse_settled: "lapse xs ys \<Longrightarrow> \<forall>t \<in> set xs. snd (snd t) \<noteq> Tx_Pending \<Longrightarrow> ys = xs"
  unfolding lapse_def by (induction rule: list_all2_induct) (auto simp: lapsed_def)

lemma lapse_length: "lapse xs ys \<Longrightarrow> length ys = length xs"
  by (auto simp: lapse_def dest: list_all2_lengthD)

lemma money_new_later:
  assumes "money_new k a end new" and "lapse new vs"
  shows "money_new k a end vs"
proof (cases "end")
  case (P_Unknown why)
  then show ?thesis using assms lapse_length [OF assms(2)] by simp
qed (use assms lapse_settled [OF assms(2)] in auto)

lemma money_ok_later:
  assumes "money_ok L k a before end d" and "lapse (L (dk_env d)) (L (dk_env d'))"
  shows "money_ok L k a before end d'"
proof -
  obtain ys new where old: "L (dk_env d) = ys @ new" "lapse before ys" "money_new k a end new"
    using assms(1) by (auto simp: money_ok_def)
  obtain zs vs where new: "L (dk_env d') = zs @ vs" "lapse ys zs" "lapse new vs"
    using assms(2) unfolding old(1) lapse_append by blast
  show ?thesis
    using new(1) lapse_trans [OF old(2) new(2)] money_new_later [OF old(3) new(3)] by (rule money_okI)
qed

text \<open>Nothing sent: nothing new.\<close>

lemma money_unsent:
  assumes "lapse before (L (dk_env d))" and "\<And>facts tid. end \<noteq> P_Committed facts tid"
  shows "money_ok L k a before end d"
proof -
  have "money_new k a end []" using assms(2) by (cases "end") auto
  then show ?thesis using assms(1) by (intro money_okI [of L d "L (dk_env d)" "[]"]) auto
qed

lemma roll_back_money:
  assumes doc: "tim_documented L tim settle" and run: "roll_back tim why d = (end, d')"
    and pend: "L (dk_env d) = ys @ [t]" "lapse before ys" "snd (snd t) \<noteq> Tx_Charged"
  shows "money_ok L k a before end d'"
proof -
  obtain r d1 where r: "tm_rollback tim d = (r, d1)" by fastforce
  have env: "dk_env d' = dk_env d1" using run r by (auto simp: roll_back_def call_def split: sum.splits)
  have "undisturbed L (tm_rollback tim)" using doc by (simp add: tim_documented_def)
  then have "lapse (L (dk_env d)) (L (dk_env d'))" using r env by (auto simp: undisturbed_def)
  then obtain zs u where new: "L (dk_env d') = zs @ [u]" "lapse ys zs" "lapsed t u"
    unfolding pend(1) lapse_append lapse_single by blast
  have before: "lapse before zs" using pend(2) new(2) by (rule lapse_trans)
  show ?thesis
  proof (cases r)
    case (Inl e)
    then have "end = P_Unknown (why @ '', but the rollback failed: '' @ tim_error_text e)"
      using run r by (simp add: roll_back_def call_def)
    then show ?thesis by (intro money_okI [of L d' zs "[u]", OF new(1) before]) simp
  next
    case (Inr x)
    then have "\<forall>v \<in> set (L (dk_env d')). snd (snd v) \<noteq> Tx_Pending"
      using doc r env unfolding tim_documented_def by auto
    then have "snd (snd u) = Tx_Void" using new(1,3) pend(3) by (cases "snd (snd u)") (auto simp: lapsed_def)
    moreover have "end = P_RolledBack (why @ '' - the authorisation was rolled back, no money taken'')"
      using run r Inr by (simp add: roll_back_def call_def)
    ultimately show ?thesis by (intro money_okI [of L d' zs "[u]", OF new(1) before]) simp
  qed
qed

lemma commit_money:
  assumes doc: "tim_documented L tim settle" and run: "commit tim facts tid d = (end, d')"
    and pend: "L (dk_env d) = ys @ [t]" "lapse before ys" "fst t = k" "fst (snd t) = a"
    and facts: "tf_trans_seq facts \<noteq> None" "tf_amount_minor facts = Some a"
  shows "money_ok L k a before end d'"
proof -
  obtain r d1 where r: "tm_commit tim d = (r, d1)" by fastforce
  have env: "dk_env d' = dk_env d1" using run r by (auto simp: commit_def call_def split: sum.splits)
  obtain zs f where new: "lapse ys zs" "L (dk_env d') = zs @ [(k, a, f)]" "r = Inr () \<longrightarrow> f = Tx_Charged"
      "\<forall>e. r = Inl e \<longrightarrow> te_code e = RC_COMMIT_TIMEOUT \<longrightarrow> f = Tx_Void"
    using doc r pend(1,3,4) env unfolding tim_documented_def by metis
  have before: "lapse before zs" using pend(2) new(1) by (rule lapse_trans)
  show ?thesis
    using run r new(3,4) facts
    by (intro money_okI [of L d' zs "[(k, a, f)]", OF new(2) before]) (cases r; auto simp: commit_def call_def split: if_splits)
qed

lemma hold_money:
  assumes "tim_documented L tim settle" and "hooks_quiet L hooks"
    and "hold_payment tim req hooks settle deadline facts tid d = (end, d')"
    and "L (dk_env d) = ys @ [t]" and "lapse before ys" and "fst t = k" and "fst (snd t) = a"
    and "snd (snd t) \<noteq> Tx_Charged" and "tf_trans_seq facts \<noteq> None" and "tf_amount_minor facts = Some a"
  shows "money_ok L k a before end d'"
  using assms
proof (induction tim req hooks settle deadline facts tid d arbitrary: ys t rule: hold_payment.induct)
  case (1 tim req hooks settle deadline facts tid d)
  note doc = 1(2) and hooks = 1(3) and run = 1(4) and pend = 1(5-9) and facts = 1(10,11)
  have later: "\<exists>zs u. L (dk_env d1) = zs @ [u] \<and> lapse before zs \<and> fst u = k \<and> fst (snd u) = a \<and> snd (snd u) \<noteq> Tx_Charged"
    if "lapse (L (dk_env d)) (L (dk_env d1))" for d1
  proof -
    have "lapse (ys @ [t]) (L (dk_env d1))" using that pend(1) by simp
    then obtain zs u where "L (dk_env d1) = zs @ [u]" "lapse ys zs" "lapsed t u"
      unfolding lapse_append lapse_single by blast
    then show ?thesis using pend(2-5) lapse_trans [of before ys zs] by (auto simp: lapsed_def)
  qed
  show ?case
  proof (cases "deadline - dk_now d = 0")
    case True
    then have "roll_back tim (''no card.commit within '' @ nat_digits (pr_deadline req div 1000) @
        '' s of the authorisation (devbridge deadline)'') d = (end, d')"
      using run by (simp add: hold_payment.simps [of tim])
    then show ?thesis using roll_back_money [OF doc _ pend(1,2,5)] by blast
  next
    case False
    obtain r d1 where r: "recv_timeout settle (min (deadline - dk_now d) REFUSAL_POLL) d = (r, d1)" by fastforce
    have "undisturbed L (settle (min (deadline - dk_now d) REFUSAL_POLL))" using doc by (simp add: tim_documented_def)
    then have l1: "lapse (L (dk_env d)) (L (dk_env d1))" using r by (auto simp: recv_timeout_def undisturbed_def split: prod.splits)
    obtain zs u where u: "L (dk_env d1) = zs @ [u]" "lapse before zs" "fst u = k" "fst (snd u) = a" "snd (snd u) \<noteq> Tx_Charged"
      using later [OF l1] by blast
    have body: "(case r of
              Rv_Op S_Commit \<Rightarrow> commit tim facts tid d1
            | Rv_Op S_Rollback \<Rightarrow> roll_back tim ''card.rollback'' d1
            | Rv_Disconnected \<Rightarrow> roll_back tim ''no settle channel for the held payment'' d1
            | Rv_Timeout \<Rightarrow>
                (case call (hk_authorization_refused hooks) d1 of (no, d2) \<Rightarrow>
                   if no then roll_back tim ''Odoo refused the authorisation (too late)'' d2
                   else hold_payment tim req hooks settle deadline facts tid d2)) = (end, d')"
      using run False r by (simp add: hold_payment.simps [of tim] Let_def)
    show ?thesis
    proof (cases r)
      case (Rv_Op sop)
      then show ?thesis
        using body commit_money [OF doc _ u(1-4) facts] roll_back_money [OF doc _ u(1,2,5)] by (cases sop) auto
    next
      case Rv_Disconnected
      then show ?thesis using body roll_back_money [OF doc _ u(1,2,5)] by auto
    next
      case Rv_Timeout
      obtain no d2 where no: "call (hk_authorization_refused hooks) d1 = (no, d2)" by fastforce
      have "lapse (L (dk_env d1)) (L (dk_env d2))" using hooks no by (intro quiet_call [OF _ no]) (simp add: hooks_quiet_def)
      then obtain vs v where v: "L (dk_env d2) = vs @ [v]" "lapse before vs" "fst v = k" "fst (snd v) = a" "snd (snd v) \<noteq> Tx_Charged"
        using later [OF lapse_trans [OF l1]] by blast
      show ?thesis
      proof (cases no)
        case True
        then show ?thesis using body Rv_Timeout no roll_back_money [OF doc _ v(1,2,5)] by auto
      next
        case no': False
        have "hold_payment tim req hooks settle deadline facts tid d2 = (end, d')" using body Rv_Timeout no no' by simp
        then show ?thesis
          using 1(1) [OF refl False r [symmetric] Rv_Timeout no [symmetric] no' doc hooks _ v facts] by blast
      qed
    qed
  qed
qed

lemma authorised_money:
  assumes doc: "tim_documented L tim settle" and hooks: "hooks_quiet L hooks"
    and run: "authorised tim req hooks settle facts tid d = (end, d')"
    and pend: "L (dk_env d) = ys @ [(pr_kind req, m, Tx_Pending)]" "lapse before ys"
    and m: "tf_amount_minor facts \<noteq> None \<longrightarrow> tf_amount_minor facts = Some m"
  shows "money_ok L (pr_kind req) (pr_amount_minor req) before end d'"
proof (cases "authorisation_problem facts (pr_amount_minor req)")
  case (Some problem)
  then have "roll_back tim (''rolled back at once: '' @ problem) d = (end, d')" using run by (simp add: authorised_def)
  then show ?thesis using roll_back_money [OF doc _ pend] by simp
next
  case None
  then have facts: "tf_trans_seq facts \<noteq> None" "tf_amount_minor facts = Some (pr_amount_minor req)" "m = pr_amount_minor req"
    using m by (auto simp: authorisation_problem_def split: option.splits if_splits)
  obtain r d1 where r: "call (hk_authorized hooks facts tid) d = (r, d1)" by fastforce
  have "lapse (L (dk_env d)) (L (dk_env d1))" using hooks by (intro quiet_call [OF _ r]) (simp add: hooks_quiet_def)
  then obtain zs u where new: "L (dk_env d1) = zs @ [u]" "lapse ys zs" "lapsed (pr_kind req, m, Tx_Pending) u"
    unfolding pend(1) lapse_append lapse_single by blast
  have before: "lapse before zs" using pend(2) new(2) by (rule lapse_trans)
  have u: "fst u = pr_kind req" "fst (snd u) = pr_amount_minor req" "snd (snd u) \<noteq> Tx_Charged"
    using new(3) facts(3) by (auto simp: lapsed_def)
  show ?thesis
  proof (cases r)
    case (Inl why)
    then show ?thesis using run None r roll_back_money [OF doc _ new(1) before u(3)] by (simp add: authorised_def)
  next
    case (Inr x)
    then have "hold_payment tim req hooks settle (dk_now d + pr_deadline req) facts tid d1 = (end, d')"
      using run None r by (simp add: authorised_def)
    then show ?thesis using hold_money [OF doc hooks _ new(1) before u facts(1,2)] by simp
  qed
qed

lemma transact_money:
  assumes doc: "tim_documented L tim settle" and hooks: "hooks_quiet L hooks"
    and run: "transact tim req hooks settle tid d = (end, d')" and before: "lapse before (L (dk_env d))"
  shows "money_ok L (pr_kind req) (pr_amount_minor req) before end d'"
proof -
  obtain r d1 where r: "tm_transaction tim (pr_kind req) (pr_amount_minor req) d = (r, d1)" by fastforce
  obtain d2 where c: "call (tm_transaction tim (pr_kind req) (pr_amount_minor req)) d = (r, d2)" and env: "dk_env d2 = dk_env d1"
    using r by (auto simp: call_def)
  show ?thesis
  proof (cases r)
    case (Inl e)
    then have e: "end = failed_transaction e" "d' = d2" using run c by (auto simp: transact_def)
    have "lapse (L (dk_env d)) (L (dk_env d1)) \<or>
        te_code e \<notin> refusal_codes \<and> (\<exists>xs t. lapse (L (dk_env d)) xs \<and> L (dk_env d1) = xs @ [t])"
      using doc r Inl unfolding tim_documented_def by blast
    then show ?thesis
    proof
      assume "lapse (L (dk_env d)) (L (dk_env d1))"
      then show ?thesis using lapse_trans [OF before] e env
        by (intro money_unsent) (auto simp: failed_transaction_def split: TxFailure.splits)
    next
      assume "te_code e \<notin> refusal_codes \<and> (\<exists>xs t. lapse (L (dk_env d)) xs \<and> L (dk_env d1) = xs @ [t])"
      then obtain xs t where xs: "L (dk_env d2) = xs @ [t]" "lapse (L (dk_env d)) xs" "te_code e \<notin> refusal_codes"
        using env by auto
      then show ?thesis using lapse_trans [OF before xs(2)] e
        by (intro money_okI [of L d' xs "[t]"]) (simp_all add: failed_transaction_def classify_others)
    qed
  next
    case (Inr facts)
    then obtain xs m where xs: "lapse (L (dk_env d)) xs" "L (dk_env d2) = xs @ [(pr_kind req, m, Tx_Pending)]"
        "tf_amount_minor facts \<noteq> None \<longrightarrow> tf_amount_minor facts = Some m"
      using doc r env unfolding tim_documented_def by metis
    have "authorised tim req hooks settle facts tid d2 = (end, d')" using run c Inr by (simp add: transact_def)
    then show ?thesis using authorised_money [OF doc hooks _ xs(2) lapse_trans [OF before xs(1)] xs(3)] by simp
  qed
qed

lemma logged_in_money:
  assumes doc: "tim_documented L tim settle" and hooks: "hooks_quiet L hooks"
    and run: "logged_in tim spec req hooks settle d = (end, d')" and before: "lapse before (L (dk_env d))"
  shows "money_ok L (pr_kind req) (pr_amount_minor req) before end d'"
proof -
  obtain r d1 where r: "call (tm_terminal_id tim) d = (r, d1)" by fastforce
  have l1: "lapse before (L (dk_env d1))"
    using doc by (intro quiet_after [of before L d, OF before _ r]) (simp add: tim_documented_def)
  obtain read d2 where read: "call (tm_last_transaction tim) d1 = (read, d2)" by fastforce
  have l2: "lapse before (L (dk_env d2))"
    using doc by (intro quiet_after [of before L d1, OF l1 _ read]) (simp add: tim_documented_def)
  define b where "b = baseline (case read of Inr l \<Rightarrow> Some l | Inl _ \<Rightarrow> None) (pr_stored_max_seq req)"
  obtain ok d3 where ok: "call (hk_contact hooks b) d2 = (ok, d3)" by fastforce
  have l3: "lapse before (L (dk_env d3))"
    using hooks by (intro quiet_after [of before L d2, OF l2 _ ok]) (simp add: hooks_quiet_def)
  show ?thesis
  proof (cases "\<exists>t. r = Inr t \<and> \<not> wrong_tid spec t \<and> ok = Inr ()")
    case True
    then obtain t where "transact tim req hooks settle t d3 = (end, d')"
      using run r read ok b_def by (auto simp: logged_in_def)
    then show ?thesis using l3 by (rule transact_money [OF doc hooks])
  next
    case False
    then have "L (dk_env d') = L (dk_env d1) \<or> L (dk_env d') = L (dk_env d3)" and "\<And>f t. end \<noteq> P_Committed f t"
      using run r read ok b_def
      by (auto simp: logged_in_def refused_def split: sum.splits if_splits ContactRefusal.splits)
    then show ?thesis using l1 l3 by (intro money_unsent) auto
  qed
qed

lemma release_quiet: "undisturbed L (tm_rollback tim) \<Longrightarrow> lapse (L (dk_env d)) (L (dk_env (release tim until d)))"
proof (induction tim until d rule: release.induct)
  case (1 tim until d)
  obtain r d1 where r: "call (tm_rollback tim) d = (r, d1)" by fastforce
  note one = quiet_call [OF 1(2) r]
  show ?case
  proof (cases "(case r of Inr _ \<Rightarrow> True | Inl e \<Rightarrow> te_code e = RC_NOTHING_PENDING) \<or> until - dk_now d1 = 0")
    case True
    then show ?thesis using one r by (auto simp: release.simps [of tim until d] Let_def)
  next
    case False
    then have "lapse (L (dk_env d1)) (L (dk_env (release tim until (sleep (min (until - dk_now d1) RELEASE_RETRY) d1))))"
      using 1(1) [OF r [symmetric] _ refl _ 1(2)] by (simp add: sleep_def)
    then show ?thesis using lapse_trans [OF one] False r by (auto simp: release.simps [of tim until d] Let_def)
  qed
qed

lemma quiet_snd: "undisturbed L f \<Longrightarrow> lapse (L (dk_env d)) (L (dk_env (snd (call f d))))"
  by (metis prod.collapse quiet_call)

lemma end_session_quiet: "tim_documented L tim settle \<Longrightarrow> lapse (L (dk_env d)) (L (dk_env (end_session tim b d)))"
  unfolding end_session_def Let_def tim_documented_def
  by (cases b) (auto intro: lapse_trans [OF quiet_snd quiet_snd] quiet_snd)

lemma held_session_money:
  assumes doc: "tim_documented L tim settle" and hooks: "hooks_quiet L hooks"
    and run: "held_session tim spec req hooks settle d = (end, d')" and before: "lapse before (L (dk_env d))"
  shows "money_ok L (pr_kind req) (pr_amount_minor req) before end d'"
proof -
  obtain r d1 where r: "call (tm_login tim) d = (r, d1)" by fastforce
  have l1: "lapse before (L (dk_env d1))"
    using doc by (intro quiet_after [of before L d, OF before _ r]) (simp add: tim_documented_def)
  show ?thesis
  proof (cases r)
    case (Inl e)
    then show ?thesis using run r lapse_trans [OF l1 end_session_quiet [OF doc]]
      by (intro money_unsent) (auto simp: held_session_def refused_def)
  next
    case (Inr x)
    obtain d2 where l: "logged_in tim spec req hooks settle d1 = (end, d2)"
      and d': "d' = end_session tim True
        (case end of P_Unknown _ \<Rightarrow> release tim (dk_now d2 + pr_release_within req) d2 | _ \<Rightarrow> d2)"
      using run r Inr by (auto simp: held_session_def Let_def split: prod.splits)
    have "undisturbed L (tm_rollback tim)" using doc by (simp add: tim_documented_def)
    then have "lapse (L (dk_env d2)) (L (dk_env (case end of P_Unknown _ \<Rightarrow> release tim (dk_now d2 + pr_release_within req) d2 | _ \<Rightarrow> d2)))"
      using release_quiet by (cases "end") auto
    then have "lapse (L (dk_env d2)) (L (dk_env d'))"
      unfolding d' using end_session_quiet [OF doc] lapse_trans by blast
    with logged_in_money [OF doc hooks l l1] show ?thesis by (rule money_ok_later)
  qed
qed

lemma run_purchase_money:
  assumes doc: "tim_documented L tim settle" and hooks: "hooks_quiet L hooks"
    and run: "run_purchase tim spec req hooks settle d = (end, d')"
  shows "money_ok L (pr_kind req) (pr_amount_minor req) (L (dk_env d)) end d'"
proof -
  obtain r d1 where r: "call (tm_terminal tim) d = (r, d1)" by fastforce
  have l1: "lapse (L (dk_env d)) (L (dk_env d1))"
    using doc by (intro quiet_after [of "L (dk_env d)" L d, OF lapse_refl _ r]) (simp add: tim_documented_def)
  obtain c d2 where c: "call (tm_connect tim) d1 = (c, d2)" by fastforce
  have l2: "lapse (L (dk_env d)) (L (dk_env d2))"
    using doc by (intro quiet_after [of "L (dk_env d)" L d1, OF l1 _ c]) (simp add: tim_documented_def)
  show ?thesis
  proof (cases "\<exists>x y. r = Inr x \<and> c = Inr y")
    case True
    then obtain d3 where h: "held_session tim spec req hooks settle d2 = (end, d3)" and d': "d' = hk_released hooks d3"
      using run r c by (auto simp: run_purchase_def split: prod.splits)
    have "lapse (L (dk_env d3)) (L (dk_env d'))" using hooks d' by (simp add: hooks_quiet_def)
    with held_session_money [OF doc hooks h l2] show ?thesis by (rule money_ok_later)
  next
    case False
    then have "d' = d1 \<or> d' = d2" and "\<And>f t. end \<noteq> P_Committed f t"
      using run r c by (auto simp: run_purchase_def refused_def split: sum.splits prod.splits)
    then show ?thesis using l1 l2 by (intro money_unsent) auto
  qed
qed

end
