(* ===== verification/Tim_Jobs.thy ===== *)
theory Tim_Jobs
  imports Tim_Money
begin

text \<open>
  The card jobs of the TIM executor (\<open>device_jobs/tim/jobs.rs\<close>, \<open>ops.rs\<close>, \<open>safety.rs\<close>). What the executor
  calls outside itself is in its record: the library (\<open>tx_backend\<close>), the wait for the session lock of a
  terminal (\<open>tx_wait\<close>, during which other tasks run), the two ends of the settle channel (\<open>tx_recv\<close>,
  \<open>tx_ask\<close>), the receipt printer, the local calendar, and texts made by \<open>Debug\<close> or by other crates. A
  panic inside a library call (the blocking thread dies) is not modelled.
\<close>

section \<open>The executor\<close>

record 'e tim_exec =
  tx_backend :: "string + (TerminalSpec \<Rightarrow> 'e tim)"
  tx_terminals :: "TerminalSpec list"
  tx_journal :: bool
  tx_printer :: "(int \<Rightarrow> string \<Rightarrow> string list \<Rightarrow> 'e desk \<Rightarrow> (string + unit) \<times> 'e desk) option"
  tx_deadline :: nat
  tx_release_within :: "nat option"
  tx_reconnect_gap :: nat
  tx_started_at :: instant
  tx_wait :: "string \<Rightarrow> 'e desk \<Rightarrow> unit \<times> 'e desk"
  tx_recv :: "int \<Rightarrow> nat \<Rightarrow> 'e desk \<Rightarrow> recv \<times> 'e desk"
  tx_ask :: "int \<Rightarrow> SettleOp \<Rightarrow> 'e desk \<Rightarrow> SettleReply option \<times> 'e desk"
  tx_local_date :: "instant \<Rightarrow> string"
  tx_ts :: "instant \<Rightarrow> string"
  tx_show_err :: "err \<Rightarrow> string"
  tx_show_json :: "json \<Rightarrow> string"
  tx_debug :: "SessionFail \<Rightarrow> string"

definition at_journal :: "(instant \<Rightarrow> (journal, 'a) op) \<Rightarrow> 'e desk \<Rightarrow> (err + 'a) \<times> 'e desk" where
  "at_journal f d = (case f (dk_utc d) (dk_journal d) of (r, j) \<Rightarrow> (r, d\<lparr>dk_journal := j\<rparr>))"

text \<open>A statement whose error is only logged, and a read with a default.\<close>

definition logged :: "(instant \<Rightarrow> (journal, 'a) op) \<Rightarrow> 'e desk \<Rightarrow> 'e desk" where
  "logged f d = snd (at_journal f d)"

definition read_or :: "'a \<Rightarrow> (journal, 'a) op \<Rightarrow> 'e desk \<Rightarrow> 'a \<times> 'e desk" where
  "read_or x m d = (case at_journal (\<lambda>_. m) d of (Inl _, d') \<Rightarrow> (x, d') | (Inr y, d') \<Rightarrow> (y, d'))"

definition set_state :: "string \<Rightarrow> TerminalState \<Rightarrow> 'e desk \<Rightarrow> 'e desk" where
  "set_state ip st d = d\<lparr>dk_states := (dk_states d)(ip := st)\<rparr>"

definition job_spec :: "'e tim_exec \<Rightarrow> DeviceJob \<Rightarrow> TerminalSpec option" where
  "job_spec ex job = Option.bind (dj_kasa_id job) (spec_of (tx_terminals ex))"

definition in_flight :: "string \<Rightarrow> (nat \<Rightarrow> nat) \<Rightarrow> 'e desk \<Rightarrow> 'e desk" where
  "in_flight ip f d = d\<lparr>dk_in_flight := (dk_in_flight d)(ip := f (dk_in_flight d ip))\<rparr>"

definition on_terminal ::
    "'e tim_exec \<Rightarrow> TerminalSpec \<Rightarrow> ('e tim \<Rightarrow> 'e desk \<Rightarrow> 'a \<times> 'e desk) \<Rightarrow> 'e desk \<Rightarrow> 'a option \<times> 'e desk" where
  "on_terminal ex spec work d =
     (case tx_backend ex of
        Inl _ \<Rightarrow> (None, d)
      | Inr backend \<Rightarrow>
          let ip = sp_ip spec
          in case call (tx_wait ex ip) (in_flight ip Suc d) of (_, d1) \<Rightarrow>
             case work (backend spec) (sleep (reconnect_wait (dk_ends d1 ip) (dk_now d1) (tx_reconnect_gap ex)) d1) of (r, d2) \<Rightarrow>
               (Some r, in_flight ip (\<lambda>n. n - 1) (d2\<lparr>dk_ends := (dk_ends d2)(ip := Some (dk_now d2))\<rparr>)))"

definition tim_session :: "'e tim_exec \<Rightarrow> int \<Rightarrow> 'e desk \<Rightarrow> (SessionError + SessionReport) \<times> 'e desk" where
  "tim_session ex kasa_id d =
     (case tx_backend ex of
        Inl why \<Rightarrow> (Inl (NoLibrary why), d)
      | Inr _ \<Rightarrow>
          (case spec_of (tx_terminals ex) kasa_id of
             None \<Rightarrow> (Inl (NoTerminal kasa_id), d)
           | Some spec \<Rightarrow>
               (case on_terminal ex spec (\<lambda>tim. run_session tim spec) d of (got, d1) \<Rightarrow>
                  let r = (case got of Some r \<Rightarrow> r | None \<Rightarrow> Inl (NoLibrary ''the TIM library is not loaded''))
                  in (r, set_state (sp_ip spec) (case r of Inr _ \<Rightarrow> T_Ready | Inl e \<Rightarrow> T_Failed (session_error_text e)) d1))))"

definition tim_status :: "'e tim_exec \<Rightarrow> 'e desk \<Rightarrow> string" where
  "tim_status ex d =
     aggregate_status (case tx_backend ex of Inl _ \<Rightarrow> False | Inr _ \<Rightarrow> True)
       (map (\<lambda>s. effective_state (dk_states d (sp_ip s)) (dk_in_flight d (sp_ip s))) (tx_terminals ex))"

definition unsupported_text :: "string \<Rightarrow> string" where
  "unsupported_text t = ''the TIM card terminal does not run '' @ quoted t @ '' - the terminal was not contacted, nothing ran''"

definition one_terminal_jobs :: "string list" where
  "one_terminal_jobs = [''card.purchase'', ''card.credit'', ''card.reversal'', ''card.activate'', ''card.deactivate'',
     ''card.balance'', ''card.print_copy'']"

definition check_card :: "'e tim_exec \<Rightarrow> DeviceJob \<Rightarrow> (string \<times> string) option" where
  "check_card ex job =
     (let unavailable = ((case tx_backend ex of Inl _ \<Rightarrow> True | Inr _ \<Rightarrow> False) \<or> \<not> tx_journal ex);
          kind = dj_job_type job;
          nothing = (if two_phase_of kind \<noteq> None \<or> kind = ''card.reversal'' then ''nothing charged'' else ''nothing ran'')
      in if (is_settle kind \<or> kind = ''card.print_copy'') \<and> settle_target job = None
         then Some (''bad_payload'', kind @ '' needs card_job_id (a positive integer) - nothing ran'')
         else if is_settle kind
         then (if tx_journal ex then None else Some (''tim_unavailable'', ''the TIM executor has no journal - nothing ran''))
         else if kind \<notin> set one_terminal_jobs then Some (CODE_UNSUPPORTED, unsupported_text kind)
         else if unavailable
         then Some (''tim_unavailable'', ''the TIM library is not loaded - the terminal was not contacted, '' @ nothing)
         else if job_spec ex job = None
         then Some (''no_terminal'', ''till '' @ debug_opt (dj_kasa_id job) @ '' has no card terminal (terminal_ip) - '' @ nothing)
         else if two_phase_of kind \<noteq> None \<and> amount_minor job = None
         then Some (''bad_amount'', kind @ '' amount must be a whole number of cents > 0 - nothing charged'')
         else if two_phase_of kind \<noteq> None \<and> \<not> currency_ok job
         then Some (''bad_currency'', ''the terminal takes EUR only - nothing charged'')
         else if kind = ''card.reversal'' \<and> reversal_target job = None
         then Some (''bad_payload'', ''card.reversal needs trans_seq (an integer 0 ..= 2^31 - 1) and amount '' @
                ''(whole cents > 0) - nothing charged'')
         else None)"

section \<open>The journal side of a purchase\<close>

definition slips_of :: "int \<Rightarrow> TxFacts \<Rightarrow> (int \<times> string \<times> string list) list" where
  "slips_of kasa_id facts =
     (case tf_cardholder_receipt facts of None \<Rightarrow> [] | Some t \<Rightarrow> [(kasa_id, CARDHOLDER_SLIP_TITLE, slip_lines t)]) @
     (case (if needs_signature (tf_cvm facts) then tf_merchant_receipt facts else None) of
        None \<Rightarrow> [] | Some t \<Rightarrow> [(kasa_id, MERCHANT_SLIP_TITLE, slip_lines t)])"

definition print_slips :: "'e tim_exec \<Rightarrow> int \<Rightarrow> TxFacts \<Rightarrow> 'e desk \<Rightarrow> 'e desk" where
  "print_slips ex kasa_id facts d =
     (case tx_printer ex of None \<Rightarrow> d | Some _ \<Rightarrow> d\<lparr>dk_slips := dk_slips d @ slips_of kasa_id facts\<rparr>)"

definition journal_hooks :: "'e tim_exec \<Rightarrow> TerminalSpec \<Rightarrow> int \<Rightarrow> int \<Rightarrow> TwoPhase \<Rightarrow> 'e hooks" where
  "journal_hooks ex spec job_id amount kind =
     \<lparr>hk_contact = (\<lambda>base d.
        (case at_journal (\<lambda>now. card_contact_of now job_id (sp_ip spec) amount base (tx_type kind) None) d of (r, d') \<Rightarrow>
           (case r of
              Inr True \<Rightarrow> Inr ()
            | Inr False \<Rightarrow> Inl AlreadyAsked
            | Inl e \<Rightarrow> Inl (Contact_Journal (tx_show_err ex e)), d'))),
      hk_authorized = (\<lambda>facts tid d.
        (case at_journal (\<lambda>now. card_authorized now job_id (case tf_trans_seq facts of Some s \<Rightarrow> s | None \<Rightarrow> 0)
                (card_result ''authorized'' tid facts)) d of
           (Inl e, d') \<Rightarrow> (Inl (tx_show_err ex e), d')
         | (Inr False, d') \<Rightarrow> (Inl ''no card row for the job'', d')
         | (Inr True, d') \<Rightarrow> (Inr (), print_slips ex (sp_kasa_id spec) facts d'))),
      hk_authorization_refused = (\<lambda>d.
        (case read_or None (card_payment job_id) d of (c, d') \<Rightarrow>
           (case c of None \<Rightarrow> False | Some c \<Rightarrow> ca_auth_refused c, d'))),
      hk_released = (\<lambda>d. d\<lparr>dk_holders := filter (\<lambda>i. i \<noteq> job_id) (dk_holders d)\<rparr>)\<rparr>"

definition terminal_trouble :: "string \<Rightarrow> bool" where
  "terminal_trouble code \<longleftrightarrow> code \<in> {''terminal_unreachable'', ''terminal_error'', ''wrong_terminal''}"

definition purchase_request ::
    "'e tim_exec \<Rightarrow> TerminalSpec \<Rightarrow> int \<Rightarrow> TwoPhase \<Rightarrow> int \<Rightarrow> int option \<Rightarrow> PurchaseRequest" where
  "purchase_request ex spec job_id kind amount stored =
     \<lparr>pr_job_id = job_id, pr_kind = kind, pr_amount_minor = amount, pr_deadline = tx_deadline ex,
      pr_stored_max_seq = stored,
      pr_release_within = (case tx_release_within ex of Some t \<Rightarrow> t | None \<Rightarrow> sp_commit_timeout_s spec * 1000)\<rparr>"

definition purchase_outcome :: "PurchaseEnd \<Rightarrow> Outcome" where
  "purchase_outcome end =
     (case end of
        P_Refused code msg \<Rightarrow> O_Failed code msg
      | P_Committed facts tid \<Rightarrow> O_Done (card_result ''committed'' tid facts)
      | P_RolledBack why \<Rightarrow> O_Failed ''rolled_back'' why
      | P_Unknown why \<Rightarrow> O_Indeterminate why)"

definition two_phase :: "'e tim_exec \<Rightarrow> DeviceJob \<Rightarrow> TwoPhase \<Rightarrow> 'e desk \<Rightarrow> Outcome \<times> 'e desk" where
  "two_phase ex job kind d =
     (case (tx_journal ex, job_spec ex job, amount_minor job) of
        (True, Some spec, Some amount) \<Rightarrow>
          (case read_or None (card_last_seq (sp_ip spec)) d of (stored, d1) \<Rightarrow>
           let d2 = d1\<lparr>dk_holders := dj_id job # dk_holders d1\<rparr>
           in case on_terminal ex spec (\<lambda>tim. run_purchase tim spec (purchase_request ex spec (dj_id job) kind amount stored)
                      (journal_hooks ex spec (dj_id job) amount kind) (tx_recv ex (dj_id job))) d2 of (got, d3) \<Rightarrow>
              let end = (case got of Some end \<Rightarrow> end
                           | None \<Rightarrow> P_Refused ''tim_unavailable'' ''the TIM library is not loaded - nothing charged'');
                  d4 = set_state (sp_ip spec) (case end of
                           P_Refused code msg \<Rightarrow> if terminal_trouble code then T_Failed msg else T_Ready
                         | _ \<Rightarrow> T_Ready) d3
              in (purchase_outcome end,
                  case end of P_Unknown _ \<Rightarrow> logged (\<lambda>now. card_ended now (dj_id job)) d4 | _ \<Rightarrow> d4))
      | _ \<Rightarrow> (O_Failed ''tim_unavailable'' ''the purchase cannot reach a terminal - nothing charged'', d))"

section \<open>Commit and rollback\<close>

definition settle_outcome :: "SettleOp \<Rightarrow> int \<Rightarrow> SettleReply \<Rightarrow> Outcome" where
  "settle_outcome op card_job_id reply =
     (case reply of
        S_Unknown why \<Rightarrow>
          O_Indeterminate (''the outcome of card.purchase '' @ int_text card_job_id @ '' is not known yet: '' @ why)
      | S_Committed \<Rightarrow>
          (case op of
             S_Commit \<Rightarrow> O_Done (JObj [(''card_job_id'', JInt card_job_id), (''state'', JStr ''committed'')])
           | S_Rollback \<Rightarrow> O_Failed ''already_committed'' (''card.purchase '' @ int_text card_job_id @
               '' is already committed - nothing rolled back (a storno is card.reversal)''))
      | S_RolledBack why \<Rightarrow>
          (case op of
             S_Commit \<Rightarrow> O_Failed ''already_rolled_back'' (''card.purchase '' @ int_text card_job_id @ '' is not charged ('' @
               why @ '') - nothing committed'')
           | S_Rollback \<Rightarrow> O_Done (JObj [(''card_job_id'', JInt card_job_id), (''detail'', JStr why),
               (''state'', JStr ''rolled_back'')])))"

definition purchase_state :: "JournalEntry \<Rightarrow> SettleReply" where
  "purchase_state entry =
     (case je_state entry of
        J_Done \<Rightarrow> S_Committed
      | J_Failed \<Rightarrow> S_RolledBack ((case je_error_code entry of Some c \<Rightarrow> c | None \<Rightarrow> ''failed'') @ '': '' @
          (case je_error_text entry of Some t \<Rightarrow> t | None \<Rightarrow> []))
      | other \<Rightarrow> S_Unknown (''card.purchase is '' @ state_text other))"

definition settle_moments :: "CardPayment \<Rightarrow> instant \<Rightarrow> instant list" where
  "settle_moments c start =
     List.map_filter id [Some (ca_contact_at c), ca_authorized_at c, ca_ended_at c] @ [start]"

definition unknown_purchase :: "int \<Rightarrow> string \<Rightarrow> Outcome" where
  "unknown_purchase target why =
     O_Failed ''unknown_purchase'' (''card_job_id '' @ int_text target @ '': '' @ why @ '' - nothing ran'')"

definition settle_purchase ::
    "'e tim_exec \<Rightarrow> DeviceJob \<Rightarrow> int \<Rightarrow> 'e desk \<Rightarrow> (Outcome + JournalEntry) \<times> 'e desk" where
  "settle_purchase ex job target d =
     (if \<not> tx_journal ex then (Inl (unknown_purchase target ''no journal''), d)
      else case at_journal (\<lambda>_. journal_get (tx_ts ex) target) d of
        (Inl e, d1) \<Rightarrow> (Inl (O_Indeterminate (''journal: '' @ tx_show_err ex e)), d1)
      | (Inr None, d1) \<Rightarrow> (Inl (unknown_purchase target ''this bridge never received that card.purchase''), d1)
      | (Inr (Some entry), d1) \<Rightarrow>
          if two_phase_of (dj_job_type (je_job entry)) = None \<or> dj_kasa_id (je_job entry) \<noteq> dj_kasa_id job
          then (Inl (unknown_purchase target ''not a card.purchase / card.credit of this till''), d1)
          else (case read_or None (card_payment target) d1 of (c, d2) \<Rightarrow>
             (case Option.bind (Option.bind c ca_auth_result) (settle_mismatch (tx_show_json ex) job) of
                Some problem \<Rightarrow> Inl (O_Failed ''settle_mismatch'' (problem @ '' - nothing ran''))
              | None \<Rightarrow> Inr entry, d2)))"

definition settle :: "'e tim_exec \<Rightarrow> DeviceJob \<Rightarrow> SettleOp \<Rightarrow> 'e desk \<Rightarrow> Outcome \<times> 'e desk" where
  "settle ex job op d =
     (case settle_target job of
        None \<Rightarrow> (O_Failed ''bad_payload'' ''no card_job_id - nothing ran'', d)
      | Some target \<Rightarrow>
          (case settle_purchase ex job target d of
             (Inl refusal, d1) \<Rightarrow> (refusal, d1)
           | (Inr _, d1) \<Rightarrow>
               (case (if target \<in> set (dk_holders d1) then call (tx_ask ex target op) d1 else (None, d1)) of
                  (Some state, d2) \<Rightarrow> (settle_outcome op target state, d2)
                | (None, d2) \<Rightarrow>
                    (case settle_purchase ex job target d2 of
                       (Inl refusal, d3) \<Rightarrow> (refusal, d3)
                     | (Inr entry, d3) \<Rightarrow> (settle_outcome op target (purchase_state entry), d3)))))"

end
