(* ===== verification/Tim_Ops.thy ===== *)
theory Tim_Ops
  imports Tim_Jobs
begin

text \<open>
  The card jobs that are one session each (\<open>device_jobs/tim/ops.rs\<close>): reversal, shift, balance and receipt
  copy; the restart reconcile of every card job (\<open>jobs.rs\<close>, \<open>ops.rs\<close>) and the safety balance
  (\<open>safety.rs\<close>).
\<close>

section \<open>One session\<close>

definition one_session ::
    "'e tim_exec \<Rightarrow> TerminalSpec \<Rightarrow> string \<Rightarrow> ('e tim \<Rightarrow> string option \<Rightarrow> 'e desk \<Rightarrow> 'a \<times> 'e desk) \<Rightarrow> 'e desk \<Rightarrow>
     (Outcome + 'a) \<times> 'e desk" where
  "one_session ex spec nothing work d =
     (case on_terminal ex spec (\<lambda>tim. with_session tim spec (work tim)) d of
        (None, d1) \<Rightarrow> (Inl (O_Failed ''tim_unavailable'' (''the TIM library is not loaded - '' @ nothing)), d1)
      | (Some (Inl f), d1) \<Rightarrow>
          (Inl (session_outcome nothing f), set_state (sp_ip spec) (T_Failed (tx_debug ex f)) d1)
      | (Some (Inr x), d1) \<Rightarrow> (Inr x, set_state (sp_ip spec) T_Ready d1))"

section \<open>Reversal\<close>

datatype ReversalEnd =
    Rev_Done TxFacts "string option"
  | Rev_Refused string string
  | Rev_Unknown string

record ReversalRun =
  rr_job_id :: int
  rr_ip :: string
  rr_trans_seq :: int
  rr_amount_minor :: int
  rr_payload_tid :: "string option"
  rr_stored_max_seq :: "int option"

definition period_closed_proven :: "ReversalRun \<Rightarrow> 'e desk \<Rightarrow> bool \<times> 'e desk" where
  "period_closed_proven run d = read_or False (card_balance_since_payment (rr_ip run) (rr_trans_seq run)) d"

definition send_reversal ::
    "'e tim_exec \<Rightarrow> ReversalRun \<Rightarrow> 'e tim \<Rightarrow> string option \<Rightarrow> 'e desk \<Rightarrow> ReversalEnd \<times> 'e desk" where
  "send_reversal ex run tim tid d =
     (case call (tm_reversal tim (rr_trans_seq run)) d of
        (Inr facts, d1) \<Rightarrow> (Rev_Done facts tid, d1)
      | (Inl e, d1) \<Rightarrow>
          (case period_closed_proven run d1 of (proven, d2) \<Rightarrow>
             (case classify_reversal_error (te_code e) proven of
                NothingCharged code \<Rightarrow>
                  Rev_Refused code (''the terminal refused the reversal: '' @ tim_error_text e @ '' - nothing reversed'')
              | Tx_Unknown \<Rightarrow> Rev_Unknown (''the reversal failed with an unknown outcome: '' @ tim_error_text e @
                  '' - reconciled with the terminal''), d2)))"

definition contact_reversal ::
    "'e tim_exec \<Rightarrow> ReversalRun \<Rightarrow> int option \<Rightarrow> 'e tim \<Rightarrow> string option \<Rightarrow> 'e desk \<Rightarrow> ReversalEnd \<times> 'e desk" where
  "contact_reversal ex run base tim tid d =
     (case at_journal (\<lambda>now. card_contact_of now (rr_job_id run) (rr_ip run) (rr_amount_minor run) base TYPE_REVERSAL
             (Some (rr_trans_seq run))) d of
        (Inl e, d1) \<Rightarrow>
          (Rev_Refused ''bridge_error'' (''the journal did not record the terminal contact ('' @ tx_show_err ex e @
             '') - the reversal was not sent, nothing reversed''), d1)
      | (Inr False, d1) \<Rightarrow>
          (Rev_Unknown (''the terminal was already asked for this reversal - no second one, '' @
             ''reconciled with the terminal''), d1)
      | (Inr True, d1) \<Rightarrow> send_reversal ex run tim tid d1)"

definition reversal_run ::
    "'e tim_exec \<Rightarrow> ReversalRun \<Rightarrow> 'e tim \<Rightarrow> string option \<Rightarrow> 'e desk \<Rightarrow> ReversalEnd \<times> 'e desk" where
  "reversal_run ex run tim tid d =
     (if (case rr_payload_tid run of None \<Rightarrow> False | Some wanted \<Rightarrow> tid \<noteq> Some wanted)
      then (Rev_Refused ''wrong_terminal'' (''the payment was charged on terminal '' @ the (rr_payload_tid run) @
              '', this till'' @ [CHR 0x27] @ ''s terminal is '' @ (case tid of Some t \<Rightarrow> t | None \<Rightarrow> ''(unknown)'') @
              '' - nothing reversed''), d)
      else case call (tm_last_transaction tim) d of (read, d1) \<Rightarrow>
        (case at_journal (\<lambda>_. card_other_reversal (rr_ip run) (rr_trans_seq run) (rr_job_id run)) d1 of
           (Inl e, d2) \<Rightarrow>
             (Rev_Refused ''bridge_error'' (''journal: '' @ tx_show_err ex e @ '' - the reversal was not sent, nothing reversed''), d2)
         | (Inr (Some (other, J_Done)), d2) \<Rightarrow>
             (Rev_Refused ''already_reversed'' (''trans_seq '' @ int_text (rr_trans_seq run) @ '' was already reversed by job '' @
                int_text other @ '' - nothing sent''), d2)
         | (Inr (Some (other, st)), d2) \<Rightarrow>
             (Rev_Refused ''reversal_unresolved'' (''an earlier reversal of trans_seq '' @ int_text (rr_trans_seq run) @
                '' (job '' @ int_text other @ '') is '' @ state_text st @ '' - nothing sent, a person decides''), d2)
         | (Inr None, d2) \<Rightarrow>
             contact_reversal ex run
               (baseline (case read of Inr l \<Rightarrow> Some l | Inl _ \<Rightarrow> None) (rr_stored_max_seq run)) tim tid d2))"

definition reversal :: "'e tim_exec \<Rightarrow> DeviceJob \<Rightarrow> 'e desk \<Rightarrow> Outcome \<times> 'e desk" where
  "reversal ex job d =
     (case (tx_journal ex, job_spec ex job, reversal_target job) of
        (True, Some spec, Some (trans_seq, amount)) \<Rightarrow>
          (case read_or None (card_last_seq (sp_ip spec)) d of (stored, d1) \<Rightarrow>
             (case one_session ex spec ''nothing reversed''
                     (reversal_run ex \<lparr>rr_job_id = dj_id job, rr_ip = sp_ip spec, rr_trans_seq = trans_seq,
                        rr_amount_minor = amount, rr_payload_tid = payload_tid job, rr_stored_max_seq = stored\<rparr>) d1 of
                (Inl oc, d2) \<Rightarrow> (oc, d2)
              | (Inr (Rev_Done facts tid), d2) \<Rightarrow>
                  let d3 = (case tf_trans_seq facts of None \<Rightarrow> d2 | Some s \<Rightarrow> logged (\<lambda>_. card_transacted (dj_id job) s) d2)
                  in (O_Done (card_result ''reversed'' tid facts), print_slips ex (sp_kasa_id spec) facts d3)
              | (Inr (Rev_Refused code msg), d2) \<Rightarrow> (O_Failed code msg, d2)
              | (Inr (Rev_Unknown why), d2) \<Rightarrow> (O_Indeterminate why, logged (\<lambda>now. card_ended now (dj_id job)) d2)))
      | _ \<Rightarrow> (O_Failed ''tim_unavailable'' ''the reversal cannot reach a terminal - nothing reversed'', d))"

section \<open>Shift and balance\<close>

datatype TerminalOp = Op_Activate | Op_Deactivate | Op_Balance

definition terminal_op_of :: "string \<Rightarrow> TerminalOp option" where
  "terminal_op_of t =
     (if t = ''card.activate'' then Some Op_Activate
      else if t = ''card.deactivate'' then Some Op_Deactivate
      else if t = ''card.balance'' then Some Op_Balance else None)"

fun op_debug :: "TerminalOp \<Rightarrow> string" where
  "op_debug Op_Activate = ''Activate''"
| "op_debug Op_Deactivate = ''Deactivate''"
| "op_debug Op_Balance = ''Balance''"

definition op_call :: "TerminalOp \<Rightarrow> 'e tim \<Rightarrow> string option \<Rightarrow> 'e desk \<Rightarrow> (TimError + json) \<times> 'e desk" where
  "op_call op tim tid d =
     (case op of
        Op_Activate \<Rightarrow> (case call (tm_activate tim) d of (r, d') \<Rightarrow> (map_sum id (shift_result ''activated'' tid) r, d'))
      | Op_Deactivate \<Rightarrow> (case call (tm_deactivate tim) d of (r, d') \<Rightarrow> (map_sum id (shift_result ''deactivated'' tid) r, d'))
      | Op_Balance \<Rightarrow> (case call (tm_balance tim) d of (r, d') \<Rightarrow> (map_sum id (balance_result tid) r, d')))"

definition op_error :: "TerminalOp \<Rightarrow> TimError \<Rightarrow> Outcome" where
  "op_error op e =
     (case classify_transaction_error (te_code e) of
        NothingCharged code \<Rightarrow>
          O_Failed code (''the terminal refused the '' @ op_debug op @ '': '' @ tim_error_text e @ '' - nothing ran'')
      | Tx_Unknown \<Rightarrow>
          O_Indeterminate (op_debug op @ '' failed after the terminal was asked: '' @ tim_error_text e @ '' - reconciled''))"

definition journal_balance :: "int option \<Rightarrow> Outcome \<Rightarrow> 'e desk \<Rightarrow> 'e desk" where
  "journal_balance i oc d =
     (case i of
        None \<Rightarrow> d
      | Some i \<Rightarrow>
          (case oc of
             O_Done result \<Rightarrow> logged (\<lambda>_. card_balance_outcome i ''done'' result) d
           | O_Failed code msg \<Rightarrow>
               logged (\<lambda>_. card_balance_outcome i ''failed'' (JObj [(''code'', JStr code), (''text'', JStr msg)])) d
           | O_Indeterminate _ \<Rightarrow> d))"

definition terminal_op_session ::
    "'e tim_exec \<Rightarrow> TerminalOp \<Rightarrow> int \<Rightarrow> string \<Rightarrow> string \<Rightarrow> 'e tim \<Rightarrow> string option \<Rightarrow> 'e desk \<Rightarrow>
     (int option \<times> Outcome) \<times> 'e desk" where
  "terminal_op_session ex op job_id ip date tim tid d =
     (case at_journal (\<lambda>now. mark_device_contact now job_id) d of
        (Inl e, d1) \<Rightarrow>
          ((None, O_Failed ''bridge_error'' (''the journal did not record the terminal contact ('' @ tx_show_err ex e @
              '') - nothing ran'')), d1)
      | (Inr False, d1) \<Rightarrow>
          ((None, O_Indeterminate ''the terminal was already asked for this job - not asked again, reconciled''), d1)
      | (Inr True, d1) \<Rightarrow>
          (case (if op = Op_Balance then at_journal (\<lambda>now. card_balance_contact now ip date ''job'' (Some job_id)) d1
                 else (Inr None, d1)) of
             (Inl e, d2) \<Rightarrow>
               ((None, O_Failed ''bridge_error'' (''the journal did not record the balance ('' @ tx_show_err ex e @
                   '') - nothing ran'')), d2)
           | (Inr i, d2) \<Rightarrow>
               (case op_call op tim tid d2 of (r, d3) \<Rightarrow>
                  ((i, case r of Inr result \<Rightarrow> O_Done result | Inl e \<Rightarrow> op_error op e), d3))))"

definition terminal_op :: "'e tim_exec \<Rightarrow> DeviceJob \<Rightarrow> 'e desk \<Rightarrow> Outcome \<times> 'e desk" where
  "terminal_op ex job d =
     (case (tx_journal ex, job_spec ex job, terminal_op_of (dj_job_type job)) of
        (True, Some spec, Some op) \<Rightarrow>
          (case one_session ex spec ''nothing ran''
                  (terminal_op_session ex op (dj_id job) (sp_ip spec) (tx_local_date ex (dk_utc d))) d of
             (Inl oc, d1) \<Rightarrow> (oc, d1)
           | (Inr (i, oc), d1) \<Rightarrow> (oc, journal_balance i oc d1))
      | _ \<Rightarrow> (O_Failed ''tim_unavailable'' ''no terminal - nothing ran'', d))"

section \<open>Receipt copy\<close>

definition COPY_SLIP_TITLE :: string where "COPY_SLIP_TITLE = ''Platba kartou - kopia dokladu''"

definition copy_session ::
    "'e tim_exec \<Rightarrow> int \<Rightarrow> int \<Rightarrow> 'e tim \<Rightarrow> string option \<Rightarrow> 'e desk \<Rightarrow> (Outcome + Receipts) \<times> 'e desk" where
  "copy_session ex job_id trans_seq tim tid d =
     (case at_journal (\<lambda>now. mark_device_contact now job_id) d of
        (Inl e, d1) \<Rightarrow>
          (Inl (O_Failed ''bridge_error'' (''the journal did not record the terminal contact ('' @ tx_show_err ex e @
             '') - nothing printed'')), d1)
      | (Inr _, d1) \<Rightarrow>
          (case call (tm_last_transaction tim) d1 of
             (Inl e, d2) \<Rightarrow>
               (Inl (O_Failed ''terminal_error'' (''the terminal'' @ [CHR 0x27] @ ''s last transaction is not readable: '' @
                  tim_error_text e @ '' - nothing printed'')), d2)
           | (Inr l, d2) \<Rightarrow>
               let last_seq = Option.bind (lt_facts l) tf_trans_seq
               in if last_seq \<noteq> Some trans_seq
                  then (Inl (O_Failed ''not_last_transaction'' (''the terminal reprints only its latest receipt (trans_seq '' @
                          debug_opt last_seq @ ''), not trans_seq '' @ int_text trans_seq @ '' - nothing printed'')), d2)
                  else (case call (tm_reprint tim) d2 of
                          (Inl e, d3) \<Rightarrow>
                            (Inl (O_Failed ''terminal_error'' (''the terminal gave no receipt copy: '' @ tim_error_text e @
                               '' - nothing printed'')), d3)
                        | (Inr r, d3) \<Rightarrow> (Inr r, d3))))"

definition copy_target :: "'e tim_exec \<Rightarrow> DeviceJob \<Rightarrow> int \<Rightarrow> 'e desk \<Rightarrow> (Outcome + int) \<times> 'e desk" where
  "copy_target ex job target d =
     (let refuse = (\<lambda>why. O_Failed ''unknown_purchase'' (''card_job_id '' @ int_text target @ '': '' @ why @ '' - nothing printed''))
      in case at_journal (\<lambda>_. journal_get (tx_ts ex) target) d of
        (Inl e, d1) \<Rightarrow> (Inl (O_Failed ''bridge_error'' (''journal: '' @ tx_show_err ex e @ '' - nothing printed'')), d1)
      | (Inr None, d1) \<Rightarrow> (Inl (refuse ''this bridge never received that card job''), d1)
      | (Inr (Some entry), d1) \<Rightarrow>
          if \<not> (two_phase_of (dj_job_type (je_job entry)) \<noteq> None \<or> dj_job_type (je_job entry) = ''card.reversal'') \<or>
             dj_kasa_id (je_job entry) \<noteq> dj_kasa_id job
          then (Inl (refuse ''not a card payment / reversal of this till''), d1)
          else (case read_or None (card_payment target) d1 of (c, d2) \<Rightarrow>
             (case Option.bind c ca_trans_seq of
                Some seq \<Rightarrow> if je_state entry \<noteq> J_Failed then Inr seq
                    else Inl (refuse (''no terminal receipt for it (state '' @ state_text (je_state entry) @ '')''))
              | None \<Rightarrow> Inl (refuse (''no terminal receipt for it (state '' @ state_text (je_state entry) @ '')'')), d2)))"

definition print_copy :: "'e tim_exec \<Rightarrow> DeviceJob \<Rightarrow> 'e desk \<Rightarrow> Outcome \<times> 'e desk" where
  "print_copy ex job d =
     (case (tx_journal ex, job_spec ex job, settle_target job) of
        (True, Some spec, Some target) \<Rightarrow>
          (case copy_target ex job target d of
             (Inl refusal, d1) \<Rightarrow> (refusal, d1)
           | (Inr trans_seq, d1) \<Rightarrow>
          (case tx_printer ex of
             None \<Rightarrow> (O_Failed ''no_printer'' ''the till has no receipt printer configured - nothing printed'', d1)
           | Some printer \<Rightarrow>
          (case one_session ex spec ''nothing printed'' (copy_session ex (dj_id job) trans_seq) d1 of
             (Inl oc, d2) \<Rightarrow> (oc, d2)
           | (Inr (Inl oc), d2) \<Rightarrow> (oc, d2)
           | (Inr (Inr receipts), d2) \<Rightarrow>
               (case rc_cardholder receipts of
                  None \<Rightarrow> (O_Failed ''print_failed'' (''the terminal'' @ [CHR 0x27] @
                            ''s copy carries no cardholder slip - nothing printed''), d2)
                | Some slip \<Rightarrow>
                    (case call (printer (sp_kasa_id spec) COPY_SLIP_TITLE (slip_lines slip)) d2 of
                       (Inr _, d3) \<Rightarrow> (O_Done (copy_result target trans_seq receipts), d3)
                     | (Inl e, d3) \<Rightarrow> (O_Failed ''print_failed'' (''the receipt printer refused the copy: '' @ e), d3))))))
      | _ \<Rightarrow> (O_Failed ''tim_unavailable'' ''no terminal - nothing printed'', d))"

definition execute_card :: "'e tim_exec \<Rightarrow> DeviceJob \<Rightarrow> 'e desk \<Rightarrow> Outcome \<times> 'e desk" where
  "execute_card ex job d =
     (let t = dj_job_type job
      in if t = ''card.purchase'' then two_phase ex job Purchase d
         else if t = ''card.credit'' then two_phase ex job Credit d
         else if t = ''card.commit'' then settle ex job S_Commit d
         else if t = ''card.rollback'' then settle ex job S_Rollback d
         else if t = ''card.reversal'' then reversal ex job d
         else if terminal_op_of t \<noteq> None then terminal_op ex job d
         else if t = ''card.print_copy'' then print_copy ex job d
         else (O_Failed CODE_UNSUPPORTED (unsupported_text t), d))"

section \<open>Reconcile\<close>

definition as_reconciliation :: "Outcome \<Rightarrow> Reconciliation" where
  "as_reconciliation oc =
     (case oc of
        O_Done result \<Rightarrow> R_Done result
      | O_Failed code msg \<Rightarrow> R_Failed code msg
      | O_Indeterminate why \<Rightarrow> R_StillUnknown why)"

text \<open>\<open>result["reconciled"] = json!(true)\<close>: objects are sorted by key.\<close>

fun insert_field :: "string \<Rightarrow> json \<Rightarrow> (string \<times> json) list \<Rightarrow> (string \<times> json) list" where
  "insert_field k v [] = [(k, v)]"
| "insert_field k v ((l, w) # fs) =
     (if k = l then (k, v) # fs else if k < l then (k, v) # (l, w) # fs else (l, w) # insert_field k v fs)"

definition reconciled :: "json \<Rightarrow> json" where
  "reconciled j = (case j of JObj fs \<Rightarrow> JObj (insert_field ''reconciled'' (JBool True) fs) | other \<Rightarrow> other)"

definition TIM_DEFAULT_COMMIT_TIMEOUT_S :: nat where "TIM_DEFAULT_COMMIT_TIMEOUT_S = 60"

definition ours_of :: "CardPayment \<Rightarrow> bool \<Rightarrow> Ours" where
  "ours_of c later =
     \<lparr>ou_baseline = ca_baseline_seq c, ou_amount_minor = ca_amount_minor c, ou_trans_seq = ca_trans_seq c,
      ou_tx_type = ca_tx_type c, ou_later_payment = later\<rparr>"

definition reconcile_verdict ::
    "int \<Rightarrow> CardPayment \<Rightarrow> string option \<Rightarrow> Correlation \<Rightarrow> 'e desk \<Rightarrow> Reconciliation \<times> 'e desk" where
  "reconcile_verdict job_id c tid verdict d =
     (case verdict of
        C_Charged facts \<Rightarrow>
          (R_Done (reconciled (card_result (if ca_tx_type c = TYPE_REVERSAL then ''reversed'' else ''successful'') tid facts)),
           case tf_trans_seq facts of None \<Rightarrow> d | Some s \<Rightarrow> logged (\<lambda>_. card_transacted job_id s) d)
      | C_NotCharged \<Rightarrow>
          (if ca_tx_type c = TYPE_REVERSAL
           then R_Failed ''not_reversed''
             ''the terminal reports this reversal failed - the payment is NOT reversed, no money moved''
           else R_Failed ''rolled_back''
             ''the terminal reports this payment failed (rolled back / reversed) - no money taken'', d)
      | C_Undecidable why \<Rightarrow>
          (R_StillUnknown (''left for a person: '' @ why), logged (\<lambda>_. card_for_person job_id why) d))"

definition reconcile_read ::
    "'e tim_exec \<Rightarrow> int \<Rightarrow> CardPayment \<Rightarrow> TerminalSpec \<Rightarrow> 'e desk \<Rightarrow> Reconciliation \<times> 'e desk" where
  "reconcile_read ex job_id c spec d =
     (case on_terminal ex spec (\<lambda>tim. read_last tim spec) d of
        (None, d1) \<Rightarrow> (R_StillUnknown ''the TIM library is not loaded'', d1)
      | (Some (Inl e), d1) \<Rightarrow>
          (R_StillUnknown (''the terminal could not be asked: '' @ session_error_text e),
           set_state (sp_ip spec) (T_Failed (session_error_text e)) d1)
      | (Some (Inr (tid, latest)), d1) \<Rightarrow>
          (case read_or True (card_later_on_terminal job_id) (set_state (sp_ip spec) T_Ready d1) of (later, d2) \<Rightarrow>
             reconcile_verdict job_id c tid (correlate (ours_of c later) latest) d2))"

definition reconcile_transaction :: "'e tim_exec \<Rightarrow> JournalEntry \<Rightarrow> 'e desk \<Rightarrow> Reconciliation \<times> 'e desk" where
  "reconcile_transaction ex entry d =
     (let job_id = dj_id (je_job entry)
      in if \<not> tx_journal ex then (R_StillUnknown ''the TIM executor has no journal'', d)
      else if je_device_contact_at entry = None
      then (R_Failed ''not_executed'' ''the terminal was never asked (no device contact journaled) - nothing charged'', d)
      else case at_journal (\<lambda>_. card_payment job_id) d of
        (Inl e, d1) \<Rightarrow> (R_StillUnknown (''journal: '' @ tx_show_err ex e), d1)
      | (Inr None, d1) \<Rightarrow> (R_StillUnknown ''no card row - a person must reconcile it'', d1)
      | (Inr (Some c), d1) \<Rightarrow>
          (case ca_person_reason c of
             Some reason \<Rightarrow> (R_StillUnknown (''left for a person: '' @ reason), d1)
           | None \<Rightarrow>
               let spec = job_spec ex (je_job entry);
                   after = settle_after (settle_moments c (tx_started_at ex))
                             (case spec of Some s \<Rightarrow> sp_commit_timeout_s s | None \<Rightarrow> TIM_DEFAULT_COMMIT_TIMEOUT_S)
               in if settle_pending (dk_utc d1) after
                  then (R_StillUnknown (''waiting until the terminal'' @ [CHR 0x27] @ ''s commit timeout has passed ('' @
                          tx_ts ex (the after) @ '')''), d1)
                  else (case spec of
                          None \<Rightarrow> (R_StillUnknown ''the till has no terminal any more - a person must reconcile it'', d1)
                        | Some s \<Rightarrow> reconcile_read ex job_id c s d1)))"

definition rerun_shift ::
    "'e tim_exec \<Rightarrow> TerminalOp \<Rightarrow> TerminalSpec \<Rightarrow> 'e desk \<Rightarrow> Reconciliation \<times> 'e desk" where
  "rerun_shift ex op spec d =
     (case one_session ex spec ''nothing ran'' (op_call op) d of
        (Inr (Inr result), d1) \<Rightarrow> (R_Done (reconciled result), d1)
      | (Inr (Inl e), d1) \<Rightarrow> (R_StillUnknown (''the terminal answered '' @ tim_error_text e), d1)
      | (Inl oc, d1) \<Rightarrow> (R_StillUnknown (''the terminal could not be asked: '' @ outcome_label oc), d1))"

definition reconcile_terminal_op :: "'e tim_exec \<Rightarrow> JournalEntry \<Rightarrow> 'e desk \<Rightarrow> Reconciliation \<times> 'e desk" where
  "reconcile_terminal_op ex entry d =
     (let job = je_job entry
      in if je_device_contact_at entry = None
      then (R_Failed ''not_executed'' ''the terminal was never asked (no device contact journaled) - nothing ran'', d)
      else if dj_job_type job = ''card.print_copy''
      then (R_Failed ''print_unknown'' (''the copy was interrupted - whether it printed is unknown, no money is involved; '' @
              ''ask for a new copy''), d)
      else case terminal_op_of (dj_job_type job) of
        None \<Rightarrow> (R_StillUnknown ''not a terminal operation'', d)
      | Some Op_Balance \<Rightarrow>
          (R_StillUnknown (''left for a person: the terminal does not tell whether the interrupted balance ran - the next balance '' @
             ''(or the 23:50 safety balance) closes the period anyway''), d)
      | Some op \<Rightarrow>
          (case (if tx_journal ex then read_or True (card_later_shift_job (dj_id job) (dj_kasa_id job)) d else (True, d)) of
             (later, d1) \<Rightarrow>
               if later
               then (R_StillUnknown (''left for a person: a later card.activate / card.deactivate of this till governs the '' @
                       ''terminal'' @ [CHR 0x27] @ ''s shift''), d1)
               else (case job_spec ex job of
                       None \<Rightarrow> (R_StillUnknown ''the till has no terminal any more'', d1)
                     | Some spec \<Rightarrow> rerun_shift ex op spec d1)))"

definition reconcile_settle :: "'e tim_exec \<Rightarrow> DeviceJob \<Rightarrow> SettleOp \<Rightarrow> 'e desk \<Rightarrow> Reconciliation \<times> 'e desk" where
  "reconcile_settle ex job op d =
     (case settle_target job of
        None \<Rightarrow> (R_StillUnknown ''no card_job_id'', d)
      | Some target \<Rightarrow>
          (case settle_purchase ex job target d of (r, d1) \<Rightarrow>
             (case r of
                Inl refusal \<Rightarrow> as_reconciliation refusal
              | Inr purchase \<Rightarrow> as_reconciliation (settle_outcome op target (purchase_state purchase)), d1)))"

definition reconcile_card :: "'e tim_exec \<Rightarrow> JournalEntry \<Rightarrow> 'e desk \<Rightarrow> Reconciliation \<times> 'e desk" where
  "reconcile_card ex entry d =
     (let t = dj_job_type (je_job entry)
      in if two_phase_of t \<noteq> None \<or> t = ''card.reversal'' then reconcile_transaction ex entry d
         else if terminal_op_of t \<noteq> None \<or> t = ''card.print_copy'' then reconcile_terminal_op ex entry d
         else if is_settle t
         then reconcile_settle ex (je_job entry) (if t = ''card.commit'' then S_Commit else S_Rollback) d
         else (R_StillUnknown (''the TIM executor does not run '' @ quoted t @ '' - a person must reconcile it''), d))"

section \<open>Safety balance\<close>

datatype SafetyEnd = AlreadyRan | NotSent Outcome | SafetySent int Outcome

definition safety_failed :: "'e tim_exec \<Rightarrow> err \<Rightarrow> SafetyEnd" where
  "safety_failed ex e = NotSent (O_Failed ''bridge_error'' (''journal: '' @ tx_show_err ex e @ '' - nothing ran''))"

definition safety_session ::
    "'e tim_exec \<Rightarrow> string \<Rightarrow> string \<Rightarrow> nat \<Rightarrow> 'e tim \<Rightarrow> string option \<Rightarrow> 'e desk \<Rightarrow> SafetyEnd \<times> 'e desk" where
  "safety_session ex ip date until tim tid d =
     (if until \<le> dk_now d then (AlreadyRan, d)
      else case at_journal (\<lambda>_. card_balance_ran ip date) d of
        (Inl e, d1) \<Rightarrow> (safety_failed ex e, d1)
      | (Inr True, d1) \<Rightarrow> (AlreadyRan, d1)
      | (Inr False, d1) \<Rightarrow>
          (case at_journal (\<lambda>now. card_balance_contact now ip date ''safety'' None) d1 of
             (Inl e, d2) \<Rightarrow> (safety_failed ex e, d2)
           | (Inr None, d2) \<Rightarrow> (AlreadyRan, d2)
           | (Inr (Some i), d2) \<Rightarrow>
               (case call (tm_balance tim) d2 of
                  (Inr report, d3) \<Rightarrow> (SafetySent i (O_Done (balance_result tid report)), d3)
                | (Inl e, d3) \<Rightarrow>
                    (case op_error Op_Balance e of
                       O_Failed code msg \<Rightarrow> (NotSent (O_Failed code msg), logged (\<lambda>_. card_balance_forget i) d3)
                     | unknown \<Rightarrow> (SafetySent i unknown, d3)))))"

definition safety_balance ::
    "'e tim_exec \<Rightarrow> TerminalSpec \<Rightarrow> string \<Rightarrow> nat \<Rightarrow> 'e desk \<Rightarrow> (bool \<times> Outcome) option \<times> 'e desk" where
  "safety_balance ex spec date until d =
     (if \<not> tx_journal ex then (None, d)
      else case at_journal (\<lambda>_. card_balance_ran (sp_ip spec) date) d of
        (Inl _, d1) \<Rightarrow> (None, d1)
      | (Inr True, d1) \<Rightarrow> (None, d1)
      | (Inr False, d1) \<Rightarrow>
          (case one_session ex spec ''nothing ran'' (safety_session ex (sp_ip spec) date until) d1 of
             (Inl oc, d2) \<Rightarrow> (Some (False, oc), d2)
           | (Inr AlreadyRan, d2) \<Rightarrow> (None, d2)
           | (Inr (NotSent oc), d2) \<Rightarrow> (Some (False, oc), d2)
           | (Inr (SafetySent i oc), d2) \<Rightarrow> (Some (True, oc), journal_balance (Some i) oc d2)))"

text \<open>Seconds of the local day; the time until midnight in milliseconds is the calendar's.\<close>

definition safety_due :: "nat \<Rightarrow> bool" where
  "safety_due time_of_day \<longleftrightarrow> 23 * 3600 + 50 * 60 \<le> time_of_day"

fun safety_terminals ::
    "'e tim_exec \<Rightarrow> TerminalSpec list \<Rightarrow> string \<Rightarrow> nat \<Rightarrow> 'e desk \<Rightarrow> (nat \<times> nat) \<times> 'e desk" where
  "safety_terminals ex [] date until d = ((0, 0), d)"
| "safety_terminals ex (spec # specs) date until d =
     (case safety_balance ex spec date until d of (r, d1) \<Rightarrow>
        (case safety_terminals ex specs date until d1 of ((tried, reached), d2) \<Rightarrow>
           (case r of
              None \<Rightarrow> (tried, reached)
            | Some (sent, _) \<Rightarrow> (Suc tried, of_bool sent + reached), d2)))"

definition safety_tick ::
    "'e tim_exec \<Rightarrow> instant \<Rightarrow> nat \<Rightarrow> nat \<Rightarrow> 'e desk \<Rightarrow> (nat \<times> nat) \<times> 'e desk" where
  "safety_tick ex now time_of_day until_midnight d =
     (if \<not> safety_due time_of_day \<or> (case tx_backend ex of Inl _ \<Rightarrow> True | Inr _ \<Rightarrow> False) then ((0, 0), d)
      else safety_terminals ex (tx_terminals ex) (tx_local_date ex now) (dk_now d + until_midnight) d)"

end
