(* ===== verification/Tim_Truth.thy ===== *)
theory Tim_Truth
  imports Tim_Ops Journal_Properties
begin

text \<open>
  What the card jobs promise: the outcome of a purchase is the truth about the money, the terminal is asked
  only when the journal knows of the contact, and the safety balance runs once a day.
\<close>

section \<open>Money\<close>

lemma at_journal_env: "at_journal f d = (r, d') \<Longrightarrow> dk_env d' = dk_env d"
  by (auto simp: at_journal_def split: prod.splits)

lemma read_or_env: "read_or x m d = (r, d') \<Longrightarrow> dk_env d' = dk_env d"
  by (auto simp: read_or_def split: prod.splits sum.splits dest: at_journal_env)

lemma logged_env [simp]: "dk_env (logged f d) = dk_env d"
  by (simp add: logged_def at_journal_def split: prod.splits)

lemma set_state_env [simp]: "dk_env (set_state ip st d) = dk_env d"
  by (simp add: set_state_def)

lemma in_flight_env [simp]: "dk_env (in_flight ip f d) = dk_env d"
  by (simp add: in_flight_def)

lemma sleep_env [simp]: "dk_env (sleep t d) = dk_env d"
  by (simp add: sleep_def)

lemma print_slips_env [simp]: "dk_env (print_slips ex k facts d) = dk_env d"
  by (simp add: print_slips_def split: option.splits)

lemma journal_hooks_quiet: "hooks_quiet L (journal_hooks ex spec job_id amount kind)"
  by (auto simp: hooks_quiet_def journal_hooks_def undisturbed_def split: prod.splits sum.splits bool.splits
      dest!: at_journal_env read_or_env)

lemma on_terminal_money:
  assumes wait: "undisturbed L (tx_wait ex (sp_ip spec))" and run: "on_terminal ex spec work d = (Some r, d')"
  obtains tim d1 d2 where "lapse (L (dk_env d)) (L (dk_env d1))" and "tx_backend ex = Inr tim"
    and "work (tim spec) d1 = (r, d2)" and "dk_env d' = dk_env d2"
proof -
  obtain tim where tim: "tx_backend ex = Inr tim" using run by (cases "tx_backend ex") (auto simp: on_terminal_def)
  obtain d1 where w: "call (tx_wait ex (sp_ip spec)) (in_flight (sp_ip spec) Suc d) = ((), d1)"
    by (cases "call (tx_wait ex (sp_ip spec)) (in_flight (sp_ip spec) Suc d)") simp
  let ?d = "sleep (reconnect_wait (dk_ends d1 (sp_ip spec)) (dk_now d1) (tx_reconnect_gap ex)) d1"
  obtain x d2 where x: "work (tim spec) ?d = (x, d2)" by fastforce
  have "lapse (L (dk_env d)) (L (dk_env ?d))" using quiet_call [OF wait w] by simp
  moreover have "x = r" "dk_env d' = dk_env d2" using run tim w x by (auto simp: on_terminal_def Let_def)
  ultimately show ?thesis using that tim x by blast
qed

fun outcome_money :: "TwoPhase \<Rightarrow> int \<Rightarrow> Outcome \<Rightarrow> tx list \<Rightarrow> bool" where
  "outcome_money k a (O_Done _) new \<longleftrightarrow> new = [(k, a, Tx_Charged)]"
| "outcome_money k a (O_Failed _ _) new \<longleftrightarrow> length new \<le> 1 \<and> (\<forall>t \<in> set new. snd (snd t) = Tx_Void)"
| "outcome_money k a (O_Indeterminate _) new \<longleftrightarrow> length new \<le> 1"

lemma outcome_of_end: "money_new k a end new \<Longrightarrow> outcome_money k a (purchase_outcome end) new"
  by (cases "end") (auto simp: purchase_outcome_def)

lemma money_ok_env: "money_ok L k a before end d \<Longrightarrow> dk_env d' = dk_env d \<Longrightarrow> money_ok L k a before end d'"
  by (simp add: money_ok_def)

lemma lapse_money_ok: "money_ok L k a mid end d \<Longrightarrow> lapse before mid \<Longrightarrow> money_ok L k a before end d"
  unfolding money_ok_def using lapse_trans by blast

text \<open>
  C2. A purchase or credit tells the truth about the money. For a terminal that behaves as documented, a
  \<open>card.purchase\<close> or \<open>card.credit\<close> adds at most one transaction to the terminal: when it ends done,
  exactly the transaction it was asked for, charged; when it ends failed, nothing that is charged; whatever
  the journal, the printer, the settle requests and the clock do, as long as nobody else transacts while
  the session lock is awaited.
\<close>

theorem two_phase_tells_the_truth:
  assumes "\<forall>backend spec. tx_backend ex = Inr backend \<longrightarrow> tim_documented L (backend spec) (tx_recv ex (dj_id job))"
    and "\<forall>ip. undisturbed L (tx_wait ex ip)"
    and "amount_minor job = Some amount"
    and "two_phase ex job kind d = (oc, d')"
  shows "\<exists>ys new. L (dk_env d') = ys @ new \<and> lapse (L (dk_env d)) ys \<and> outcome_money kind amount oc new"
proof (cases "tx_journal ex \<and> job_spec ex job \<noteq> None")
  case False
  then have "oc = O_Failed ''tim_unavailable'' ''the purchase cannot reach a terminal - nothing charged''" "d' = d"
    using assms(4) by (auto simp: two_phase_def split: option.splits bool.splits)
  then show ?thesis by (intro exI [of _ "L (dk_env d)"] exI [of _ "[]"]) auto
next
  case True
  then obtain spec where spec: "job_spec ex job = Some spec" by blast
  obtain stored d1 where d1: "read_or None (card_last_seq (sp_ip spec)) d = (stored, d1)" by fastforce
  define req where "req = purchase_request ex spec (dj_id job) kind amount stored"
  define hooks where "hooks = journal_hooks ex spec (dj_id job) amount kind"
  let ?d = "d1\<lparr>dk_holders := dj_id job # dk_holders d1\<rparr>"
  obtain got d3 where got: "on_terminal ex spec (\<lambda>tim. run_purchase tim spec req hooks (tx_recv ex (dj_id job))) ?d = (got, d3)"
    by fastforce
  define fin where "fin = (case got of Some end \<Rightarrow> end
    | None \<Rightarrow> P_Refused ''tim_unavailable'' ''the TIM library is not loaded - nothing charged'')"
  have oc: "oc = purchase_outcome fin" and env: "dk_env d' = dk_env d3"
    using assms(3,4) True spec d1 got
    by (auto simp: two_phase_def req_def hooks_def fin_def Let_def split: option.splits PurchaseEnd.splits)
  have "money_ok L kind amount (L (dk_env ?d)) fin d3"
  proof (cases got)
    case None
    then have "tx_backend ex = Inl (projl (tx_backend ex))" "dk_env d3 = dk_env ?d"
      using got by (auto simp: on_terminal_def Let_def split: sum.splits prod.splits)
    then show ?thesis using None by (intro money_unsent) (auto simp: fin_def)
  next
    case (Some r)
    have "on_terminal ex spec (\<lambda>tim. run_purchase tim spec req hooks (tx_recv ex (dj_id job))) ?d = (Some r, d3)"
      using got Some by simp
    then obtain backend e1 e2 where e: "lapse (L (dk_env ?d)) (L (dk_env e1))" "tx_backend ex = Inr backend"
        "run_purchase (backend spec) spec req hooks (tx_recv ex (dj_id job)) e1 = (r, e2)" "dk_env d3 = dk_env e2"
      by (rule on_terminal_money [OF assms(2) [rule_format, of "sp_ip spec"]])
    have "money_ok L (pr_kind req) (pr_amount_minor req) (L (dk_env e1)) r e2"
      using assms(1) e(2,3) by (intro run_purchase_money [OF _ _ e(3)]) (simp_all add: hooks_def journal_hooks_quiet)
    then have "money_ok L kind amount (L (dk_env e1)) r e2" by (simp add: req_def purchase_request_def)
    then have "money_ok L kind amount (L (dk_env e1)) r d3" using e(4) by (rule money_ok_env)
    then show ?thesis using lapse_money_ok [OF _ e(1)] Some by (simp add: fin_def)
  qed
  then obtain ys new where "L (dk_env d') = ys @ new" "lapse (L (dk_env d)) ys" "money_new kind amount fin new"
    using env read_or_env [OF d1] by (auto simp: money_ok_def)
  then show ?thesis using oc outcome_of_end by blast
qed

section \<open>A simulated terminal\<close>

text \<open>A terminal that works, for the witnesses: its environment is its list of transactions.\<close>

definition sim_facts :: "int \<Rightarrow> TxFacts" where
  "sim_facts a =
     \<lparr>tf_transaction_type = Some 1, tf_amount_minor = Some a, tf_currency_eur = Some True, tf_trans_seq = Some 5,
      tf_trans_ref = None, tf_trm_trans_ref = None, tf_auth_code = None, tf_pos_entry_mode = None, tf_cvm = None,
      tf_brand_name = None, tf_card_number_printable = None, tf_merchant_receipt = None, tf_cardholder_receipt = None\<rparr>"

definition sim_fine :: "'a \<Rightarrow> (tx list, 'a) tim_call" where
  "sim_fine x d = (Inr x, d)"

definition sim_void :: "tx \<Rightarrow> tx" where
  "sim_void t = (if snd (snd t) = Tx_Pending then (fst t, fst (snd t), Tx_Void) else t)"

definition sim_settle :: "tx list \<Rightarrow> tx list" where
  "sim_settle txs = (case rev txs of [] \<Rightarrow> [] | t # ts \<Rightarrow> rev ts @ [(fst t, fst (snd t), Tx_Charged)])"

definition sim_receipts :: Receipts where
  "sim_receipts = \<lparr>rc_merchant = None, rc_cardholder = None\<rparr>"

definition sim_shift :: ShiftReport where
  "sim_shift = \<lparr>sr_act_seq_counter = None, sr_counters = None, sr_receipts = sim_receipts\<rparr>"

definition sim_tim :: "tx list tim" where
  "sim_tim =
     \<lparr>tm_terminal = sim_fine (), tm_connect = sim_fine (), tm_login = sim_fine (), tm_terminal_id = sim_fine (Some ''1''),
      tm_logout = sim_fine (), tm_disconnect = sim_fine (),
      tm_last_transaction = sim_fine \<lparr>lt_transaction_type = 0, lt_outcome = 0, lt_facts = None\<rparr>,
      tm_transaction = (\<lambda>k a d. (Inr (sim_facts a), d\<lparr>dk_env := dk_env d @ [(k, a, Tx_Pending)]\<rparr>)),
      tm_commit = (\<lambda>d. (Inr (), d\<lparr>dk_env := sim_settle (dk_env d)\<rparr>)),
      tm_rollback = (\<lambda>d. (Inr (), d\<lparr>dk_env := map sim_void (dk_env d)\<rparr>)),
      tm_reversal = (\<lambda>_. sim_fine (sim_facts 0)), tm_activate = sim_fine sim_shift, tm_deactivate = sim_fine sim_shift,
      tm_balance = sim_fine \<lparr>br_counters = None, br_receipts = sim_receipts\<rparr>, tm_reprint = sim_fine sim_receipts\<rparr>"

definition sim_spec :: TerminalSpec where
  "sim_spec = \<lparr>sp_kasa_id = 1, sp_ip = ''10.0.0.9'', sp_expected_tid = None, sp_integrator_id = [], sp_commit_timeout_s = 60\<rparr>"

definition sim_exec :: "tx list tim_exec" where
  "sim_exec =
     \<lparr>tx_backend = Inr (\<lambda>_. sim_tim), tx_terminals = [sim_spec], tx_journal = True, tx_printer = None, tx_deadline = 8,
      tx_release_within = None, tx_reconnect_gap = 2, tx_started_at = 0, tx_wait = (\<lambda>_ d. ((), d)),
      tx_recv = (\<lambda>_ _ d. (Rv_Op S_Commit, d)), tx_ask = (\<lambda>_ _ d. (None, d)), tx_local_date = (\<lambda>_. ''2025-01-01''),
      tx_ts = (\<lambda>_. []), tx_show_err = (\<lambda>_. []), tx_show_json = (\<lambda>_. []), tx_debug = (\<lambda>_. [])\<rparr>"

definition sim_job :: DeviceJob where
  "sim_job = (sample_device_job 7)\<lparr>dj_job_type := ''card.purchase'', dj_kasa_id := Some 1, dj_payload := JObj [(''amount'', JInt 1)]\<rparr>"

definition sim_desk :: "tx list desk" where
  "sim_desk =
     \<lparr>dk_journal = sample_journal 7 ''executing'', dk_now = 0, dk_utc = 0, dk_holders = [], dk_states = (\<lambda>_. T_Ready),
      dk_ends = (\<lambda>_. None), dk_in_flight = (\<lambda>_. 0), dk_slips = [], dk_env = []\<rparr>"

lemma sim_quiet [simp]: "undisturbed L (sim_fine x)" "undisturbed L (\<lambda>d. (x, d))"
  by (simp_all add: undisturbed_def sim_fine_def)

lemma sim_documented: "tim_documented id sim_tim (\<lambda>_ d. (Rv_Op S_Commit, d))"
proof -
  have "lapse xs (map sim_void xs)" for xs
    by (simp add: lapse_def list_all2_map2 lapsed_def sim_void_def list_all2_same split: prod.splits)
  then have "undisturbed id (tm_rollback sim_tim)" by (auto simp: undisturbed_def sim_tim_def)
  then show ?thesis
    by (simp add: tim_documented_def sim_tim_def) (auto simp: sim_void_def sim_settle_def sim_facts_def)
qed

lemma f64_1: "to_f64 1 = Some 1" and f64_100: "to_f64 100 = Some 100"
proof -
  have "quotient_of 1 = (1, 1)" "quotient_of 100 = (100, 1)" by code_simp+
  moreover have "bitlen 1 = 1" "bitlen 100 = 7" by code_simp+
  ultimately have "binary_exponent 1 = 0" "binary_exponent 100 = 6" by (simp_all add: binary_exponent_def pow2_def)
  then show "to_f64 1 = Some 1" "to_f64 100 = Some 100"
    by (simp_all add: to_f64_def pow2_def round_even_def Let_def)
qed

lemma sim_amount: "amount_minor sim_job = Some 100"
proof -
  have "\<lfloor>201 / 2 :: rat\<rfloor> = 100" by (simp add: floor_eq_iff)
  then show ?thesis
    by (simp add: amount_minor_def sim_job_def sample_device_job_def as_f64_def jget_def round_away_def f64_1 f64_100)
qed

lemma sim_calls [simp]:
  "tm_terminal sim_tim = sim_fine ()" "tm_connect sim_tim = sim_fine ()" "tm_login sim_tim = sim_fine ()"
  "tm_terminal_id sim_tim = sim_fine (Some ''1'')" "tm_logout sim_tim = sim_fine ()" "tm_disconnect sim_tim = sim_fine ()"
  "tm_last_transaction sim_tim = sim_fine \<lparr>lt_transaction_type = 0, lt_outcome = 0, lt_facts = None\<rparr>"
  "tm_balance sim_tim = sim_fine \<lparr>br_counters = None, br_receipts = sim_receipts\<rparr>"
  "tm_transaction sim_tim k a d = (Inr (sim_facts a), d\<lparr>dk_env := dk_env d @ [(k, a, Tx_Pending)]\<rparr>)"
  "tm_commit sim_tim d = (Inr (), d\<lparr>dk_env := sim_settle (dk_env d)\<rparr>)"
  by (simp_all add: sim_tim_def)

lemma sim_fields [simp]:
  "tx_backend sim_exec = Inr (\<lambda>_. sim_tim)" "tx_terminals sim_exec = [sim_spec]" "tx_journal sim_exec" "tx_printer sim_exec = None"
  "tx_deadline sim_exec = 8" "tx_wait sim_exec ip d = ((), d)" "tx_recv sim_exec i t d = (Rv_Op S_Commit, d)"
  "sp_ip sim_spec = ''10.0.0.9''" "sp_kasa_id sim_spec = 1" "sp_expected_tid sim_spec = None"
  by (simp_all add: sim_exec_def sim_spec_def)

lemma call_still: "f d = (r, d') \<Longrightarrow> dk_now d' = dk_now d \<Longrightarrow> call f d = (r, d')"
  by (simp add: call_def)

lemma sim_call [simp]: "call (sim_fine x) d = (Inr x, d)"
  by (simp add: call_def sim_fine_def)

lemma sim_hold:
  assumes "dk_now d < deadline"
  shows "hold_payment sim_tim req hooks (tx_recv sim_exec i) deadline facts tid d = commit sim_tim facts tid d"
  using assms by (simp add: hold_payment.simps [of sim_tim req hooks "tx_recv sim_exec i" deadline facts tid d] recv_timeout_def Let_def)

lemma sim_contact:
  "fst (card_contact_of 0 7 ip 100 base 1 None (sample_journal 7 ''executing'')) = Inr True"
  "fst (card_authorized 0 7 5 res (snd (card_contact_of 0 7 ip 100 base 1 None (sample_journal 7 ''executing'')))) = Inr True"
  by (simp_all add: card_contact_of_def card_authorized_def update_card_def modify_op_def on_conn_def zoom_op_def transaction_def
      tx_mark_def sql_def try_op_def ok_def Let_def sample_journal_def empty_journal_def new_odoo_row_def sample_device_job_def
      count_where_def upd_where_def row_of_def new_card_row_def)

lemma sim_run:
  assumes "run_purchase sim_tim sim_spec (purchase_request sim_exec sim_spec 7 Purchase 100 None)
      (journal_hooks sim_exec sim_spec 7 100 Purchase) (tx_recv sim_exec 7) d = (end, d')"
    and "dk_journal d = sample_journal 7 ''executing''" and "dk_utc d = 0" and "dk_env d = []"
  shows "(\<exists>facts tid. end = P_Committed facts tid) \<and> dk_env d' = [(Purchase, 100, Tx_Charged)]"
proof -
  let ?c = "card_contact_of 0 7 ''10.0.0.9'' 100 (Some 0) 1 None (sample_journal 7 ''executing'')"
  obtain j1 where j1: "?c = (Inr True, j1)" using sim_contact(1) by (metis prod.collapse)
  have "\<exists>j2. card_authorized 0 7 5 res j1 = (Inr True, j2)" for res
    using sim_contact(2) [of res "''10.0.0.9''" "Some 0"] j1 by (metis prod.collapse snd_conv)
  then obtain j2 where j2: "card_authorized 0 7 5 res j1 = (Inr True, j2 res)" for res by metis
  let ?h = "journal_hooks sim_exec sim_spec 7 100 Purchase"
  let ?req = "purchase_request sim_exec sim_spec 7 Purchase 100 None"
  let ?t = "Some ''1''"
  define d1 where "d1 = d\<lparr>dk_journal := j1\<rparr>"
  define d2 where "d2 = d1\<lparr>dk_env := [(Purchase, 100, Tx_Pending)]\<rparr>"
  define d3 where "d3 = d2\<lparr>dk_journal := j2 (card_result ''authorized'' ?t (sim_facts 100))\<rparr>"
  define d4 where "d4 = d3\<lparr>dk_env := [(Purchase, 100, Tx_Charged)]\<rparr>"
  have contact: "call (hk_contact ?h (Some 0)) d = (Inr (), d1)"
    by (rule call_still) (simp_all add: journal_hooks_def at_journal_def assms(2,3) j1 d1_def)
  have asked: "call (tm_transaction sim_tim Purchase 100) d1 = (Inr (sim_facts 100), d2)"
    by (rule call_still) (simp_all add: assms(4) d1_def d2_def)
  have authorised: "call (hk_authorized ?h (sim_facts 100) ?t) d2 = (Inr (), d3)"
    by (rule call_still) (simp_all add: journal_hooks_def at_journal_def print_slips_def sim_facts_def assms(3) j2 d1_def d2_def d3_def)
  have charged: "call (tm_commit sim_tim) d3 = (Inr (), d4)"
    by (rule call_still) (simp_all add: sim_settle_def d2_def d3_def d4_def)
  have now: "dk_now d3 = dk_now d2" by (simp add: d3_def)
  have "logged_in sim_tim sim_spec ?req ?h (tx_recv sim_exec 7) d = (P_Committed (sim_facts 100) ?t, d4)"
    by (simp add: logged_in_def transact_def authorised_def purchase_request_def wrong_tid_def baseline_def authorisation_problem_def
        sim_facts_def [THEN arg_cong, of tf_trans_seq] sim_facts_def [THEN arg_cong, of tf_amount_minor]
        sim_facts_def [THEN arg_cong, of tf_currency_eur] contact asked authorised charged sim_hold commit_def now)
  then have "run_purchase sim_tim sim_spec ?req ?h (tx_recv sim_exec 7) d =
      (P_Committed (sim_facts 100) ?t, hk_released ?h d4)"
    by (simp add: run_purchase_def held_session_def end_session_def)
  then show ?thesis using assms(1) by (auto simp: journal_hooks_def d4_def)
qed

lemma sim_purchase:
  assumes "two_phase sim_exec sim_job Purchase sim_desk = (oc, d')"
  shows "(\<exists>res. oc = O_Done res) \<and> dk_env d' = [(Purchase, 100, Tx_Charged)]"
proof -
  have job: "dj_id sim_job = 7" "job_spec sim_exec sim_job = Some sim_spec"
    by (simp_all add: sim_job_def sample_device_job_def job_spec_def spec_of_def)
  have stored: "read_or None (card_last_seq ''10.0.0.9'') sim_desk = (None, sim_desk)"
    by (simp add: read_or_def at_journal_def sim_desk_def card_last_seq_def on_conn_def zoom_op_def query_def sql_def
        sample_journal_def empty_journal_def max_list_def List.map_filter_def)
  define d1 where "d1 = sleep (reconnect_wait (dk_ends sim_desk ''10.0.0.9'') 0 (tx_reconnect_gap sim_exec))
    (in_flight ''10.0.0.9'' Suc (sim_desk\<lparr>dk_holders := [7]\<rparr>))"
  obtain fin d2 where run: "run_purchase sim_tim sim_spec (purchase_request sim_exec sim_spec 7 Purchase 100 None)
      (journal_hooks sim_exec sim_spec 7 100 Purchase) (tx_recv sim_exec 7) d1 = (fin, d2)" by fastforce
  have "(\<exists>facts tid. fin = P_Committed facts tid) \<and> dk_env d2 = [(Purchase, 100, Tx_Charged)]"
    using run by (rule sim_run) (simp_all add: d1_def sleep_def in_flight_def sim_desk_def)
  moreover have "call (tx_wait sim_exec ''10.0.0.9'') d = ((), d)" for d by (rule call_still) simp_all
  moreover have "dk_holders sim_desk = []" "dk_now sim_desk = 0" by (simp_all add: sim_desk_def)
  ultimately show ?thesis
    using assms run
    by (auto simp: two_phase_def sim_amount job stored on_terminal_def Let_def purchase_outcome_def d1_def in_flight_def)
qed

theorem two_phase_tells_the_truth_witness:
  "\<exists>res d'. two_phase sim_exec sim_job Purchase sim_desk = (O_Done res, d') \<and>
     (\<exists>ys new. dk_env d' = ys @ new \<and> lapse [] ys \<and> new = [(Purchase, 100, Tx_Charged)])"
proof -
  obtain oc d' where run: "two_phase sim_exec sim_job Purchase sim_desk = (oc, d')" by fastforce
  have sim: "(\<exists>res. oc = O_Done res) \<and> dk_env d' = [(Purchase, 100, Tx_Charged)]" using run by (rule sim_purchase)
  have recv: "tx_recv sim_exec i = (\<lambda>_ d. (Rv_Op S_Commit, d))" for i by (simp add: fun_eq_iff)
  have "tx_wait sim_exec ip = (\<lambda>d. ((), d))" for ip by (simp add: fun_eq_iff)
  then have "\<exists>ys new. id (dk_env d') = ys @ new \<and> lapse (id (dk_env sim_desk)) ys \<and> outcome_money Purchase 100 oc new"
    using run by (intro two_phase_tells_the_truth [of sim_exec id sim_job]) (simp_all add: recv sim_documented sim_amount)
  moreover have "dk_env sim_desk = []" by (simp add: sim_desk_def)
  ultimately show ?thesis using run sim by auto
qed

section \<open>Contact first\<close>

definition contacted :: "int \<Rightarrow> journal \<Rightarrow> bool" where
  "contacted job_id j \<longleftrightarrow>
     list_ex (\<lambda>r. od_id r = job_id \<and> j_contact r \<noteq> None) (jd_device_jobs (jdb j)) \<and>
     list_ex (\<lambda>c. cp_job_id c = job_id) (jd_card_payments (jdb j))"

lemma count_one_marked:
  assumes "count_where Q t = 1" and "\<And>r. Q r \<Longrightarrow> P (f r)"
  shows "list_ex P (upd_where Q f t)"
proof -
  have "filter Q t \<noteq> []" using assms(1) by (auto simp: count_where_def)
  then obtain r where "r \<in> set t" "Q r" unfolding filter_empty_conv by blast
  then show ?thesis using assms(2) by (force simp: list_ex_iff upd_where_def)
qed

lemma contact_marks:
  assumes "card_contact_of now k ip amount base ty target j = (Inr True, j')"
  shows "contacted k j'"
proof -
  let ?Q = "\<lambda>r :: odoo_row. od_id r = k \<and> j_contact r = None \<and> j_state r = ''executing''"
  let ?f = "\<lambda>r :: odoo_row. r\<lparr>j_contact := Some (ContactAt now), j_updated_at := now\<rparr>"
  have "count_where ?Q (jd_device_jobs (jdb j)) = 1" and
      "jd_device_jobs (jdb j') = upd_where ?Q ?f (jd_device_jobs (jdb j))" and
      "jd_card_payments (jdb j') = jd_card_payments (jdb j) @ [new_card_row now k ip amount base ty target]"
    using assms
    by (auto simp: card_contact_of_def on_conn_def zoom_op_def transaction_def tx_mark_def ok_def Let_def
        split: prod.splits sum.splits bool.splits if_splits elim!: try_op_InrE dest!: sql_Inr_effect)
  moreover have "list_ex (\<lambda>r. od_id r = k \<and> j_contact r \<noteq> None) (upd_where ?Q ?f (jd_device_jobs (jdb j)))"
    if "count_where ?Q (jd_device_jobs (jdb j)) = 1" using that by (rule count_one_marked) simp
  ultimately show ?thesis by (simp add: contacted_def new_card_row_def)
qed

lemma hook_contact_marks:
  assumes "call (hk_contact (journal_hooks ex spec job_id amount kind) base) d = (Inr u, d')"
  shows "contacted job_id (dk_journal d')"
  using assms contact_marks
  by (fastforce simp: call_def journal_hooks_def at_journal_def split: prod.splits sum.splits bool.splits)

lemma hold_asks_nothing:
  "hold_payment (tim\<lparr>tm_transaction := t\<rparr>) req hooks chan deadline facts tid e = hold_payment tim req hooks chan deadline facts tid e"
proof (induction tim req hooks chan deadline facts tid e rule: hold_payment.induct)
  case (1 tim req hooks chan deadline facts tid e)
  have roll: "roll_back (tim\<lparr>tm_transaction := t\<rparr>) = roll_back tim" and com: "commit (tim\<lparr>tm_transaction := t\<rparr>) = commit tim"
    by (auto simp: fun_eq_iff roll_back_def commit_def)
  show ?case
    unfolding hold_payment.simps [of "tim\<lparr>tm_transaction := t\<rparr>" req hooks chan deadline facts tid e]
      hold_payment.simps [of tim req hooks chan deadline facts tid e] Let_def roll com
    by (auto split: prod.splits recv.splits SettleOp.splits intro!: 1)
qed

lemma release_asks_nothing: "release (tim\<lparr>tm_transaction := t\<rparr>) until e = release tim until e"
proof (induction tim until e rule: release.induct)
  case (1 tim until e)
  show ?case
    unfolding release.simps [of "tim\<lparr>tm_transaction := t\<rparr>" until e] release.simps [of tim until e] Let_def
    by (auto split: prod.splits sum.splits intro!: 1)
qed

lemma authorised_asks_nothing:
  "authorised (tim\<lparr>tm_transaction := t\<rparr>) req hooks chan facts tid e = authorised tim req hooks chan facts tid e"
  by (simp add: authorised_def roll_back_def hold_asks_nothing split: option.splits prod.splits sum.splits)

lemma transact_asks:
  assumes "t (pr_kind req) (pr_amount_minor req) e = tm_transaction tim (pr_kind req) (pr_amount_minor req) e"
  shows "transact (tim\<lparr>tm_transaction := t\<rparr>) req hooks chan tid e = transact tim req hooks chan tid e"
  using assms by (simp add: transact_def call_def authorised_asks_nothing split: prod.splits sum.splits)

lemma logged_in_asks:
  assumes "\<And>k a e. contacted job_id (dk_journal e) \<Longrightarrow> t k a e = tm_transaction tim k a e"
  shows "logged_in (tim\<lparr>tm_transaction := t\<rparr>) spec req (journal_hooks ex spec job_id amount kind) chan d =
         logged_in tim spec req (journal_hooks ex spec job_id amount kind) chan d"
  using hook_contact_marks [of ex spec job_id amount kind] assms
  by (auto intro!: transact_asks simp: logged_in_def split: prod.splits sum.splits ContactRefusal.splits)

lemma held_session_asks:
  assumes "\<And>k a e. contacted job_id (dk_journal e) \<Longrightarrow> t k a e = tm_transaction tim k a e"
  shows "held_session (tim\<lparr>tm_transaction := t\<rparr>) spec req (journal_hooks ex spec job_id amount kind) chan d =
         held_session tim spec req (journal_hooks ex spec job_id amount kind) chan d"
  using logged_in_asks [of job_id t tim] assms
  by (simp add: held_session_def end_session_def release_asks_nothing Let_def split: prod.splits sum.splits PurchaseEnd.splits)

lemma run_purchase_asks:
  assumes "\<And>k a e. contacted job_id (dk_journal e) \<Longrightarrow> t k a e = tm_transaction tim k a e"
  shows "run_purchase (tim\<lparr>tm_transaction := t\<rparr>) spec req (journal_hooks ex spec job_id amount kind) chan d =
         run_purchase tim spec req (journal_hooks ex spec job_id amount kind) chan d"
  using held_session_asks [of job_id t tim] assms by (simp add: run_purchase_def split: prod.splits sum.splits)

text \<open>
  C3. The terminal is asked only after the journal recorded it. Whatever the terminal would do when it is
  asked for a transaction while the journal holds no contact and no card row of the job makes no difference
  to a \<open>card.purchase\<close> or \<open>card.credit\<close>: it is never asked then.
\<close>

theorem asked_only_after_contact:
  assumes "\<forall>spec k a e. contacted (dj_id job) (dk_journal e) \<longrightarrow> t k a e = tm_transaction (backend spec) k a e"
  shows "two_phase (ex\<lparr>tx_backend := Inr (\<lambda>spec. (backend spec)\<lparr>tm_transaction := t\<rparr>)\<rparr>) job kind d =
         two_phase (ex\<lparr>tx_backend := Inr backend\<rparr>) job kind d"
proof -
  have show_err: "tx_show_err (ex\<lparr>tx_backend := b\<rparr>) = tx_show_err ex" and slips: "print_slips (ex\<lparr>tx_backend := b\<rparr>) = print_slips ex" for b
    by (simp_all add: fun_eq_iff print_slips_def split: option.splits)
  have hooks: "journal_hooks (ex\<lparr>tx_backend := b\<rparr>) spec i a k = journal_hooks ex spec i a k" for b spec i a k
    unfolding journal_hooks_def show_err slips ..
  have fields: "tx_journal (ex\<lparr>tx_backend := b\<rparr>) = tx_journal ex" "tx_recv (ex\<lparr>tx_backend := b\<rparr>) = tx_recv ex"
      "job_spec (ex\<lparr>tx_backend := b\<rparr>) job = job_spec ex job"
      "purchase_request (ex\<lparr>tx_backend := b\<rparr>) spec i k a st = purchase_request ex spec i k a st" for b spec i k a st
    by (simp_all add: job_spec_def purchase_request_def)
  have run: "on_terminal (ex\<lparr>tx_backend := Inr (\<lambda>spec. (backend spec)\<lparr>tm_transaction := t\<rparr>)\<rparr>) spec
        (\<lambda>tim. run_purchase tim spec req (journal_hooks ex spec (dj_id job) a k) chan) e =
      on_terminal (ex\<lparr>tx_backend := Inr backend\<rparr>) spec
        (\<lambda>tim. run_purchase tim spec req (journal_hooks ex spec (dj_id job) a k) chan) e" for spec req a k chan e
    using run_purchase_asks [of "dj_id job" t "backend spec"] assms by (simp add: on_terminal_def Let_def)
  show ?thesis unfolding two_phase_def fields hooks run ..
qed

definition sim_guarded :: "TwoPhase \<Rightarrow> int \<Rightarrow> (tx list, TxFacts) tim_call" where
  "sim_guarded k a d =
     (if contacted 7 (dk_journal d) then tm_transaction sim_tim k a d else (Inl \<lparr>te_call = ''purchase'', te_code = 0\<rparr>, d))"

theorem asked_only_after_contact_witness:
  "\<exists>res d'. two_phase (sim_exec\<lparr>tx_backend := Inr (\<lambda>_. sim_tim\<lparr>tm_transaction := sim_guarded\<rparr>)\<rparr>) sim_job Purchase sim_desk =
     (O_Done res, d')"
proof -
  have same: "sim_exec\<lparr>tx_backend := Inr (\<lambda>_. sim_tim)\<rparr> = sim_exec" by (simp add: sim_exec_def)
  have "\<forall>spec k a e. contacted (dj_id sim_job) (dk_journal e) \<longrightarrow> sim_guarded k a e = tm_transaction ((\<lambda>_. sim_tim) spec) k a e"
    by (simp add: sim_guarded_def sim_job_def sample_device_job_def)
  from asked_only_after_contact [OF this, of sim_exec Purchase sim_desk]
  have "two_phase (sim_exec\<lparr>tx_backend := Inr (\<lambda>_. sim_tim\<lparr>tm_transaction := sim_guarded\<rparr>)\<rparr>) sim_job Purchase sim_desk =
      two_phase sim_exec sim_job Purchase sim_desk"
    unfolding same .
  then show ?thesis
    using sim_purchase [OF prod.collapse [symmetric]] by (metis prod.collapse)
qed

section \<open>Once a day\<close>

definition safety_row :: "string \<Rightarrow> string \<Rightarrow> journal \<Rightarrow> bool" where
  "safety_row ip date j \<longleftrightarrow>
     list_ex (\<lambda>b. cb_source b = ''safety'' \<and> cb_terminal_ip b = ip \<and> cb_local_date b = date) (jd_card_balances (jdb j))"

definition keeps_balance_row :: "string \<Rightarrow> string \<Rightarrow> ('e desk \<Rightarrow> 'a \<times> 'e desk) \<Rightarrow> bool" where
  "keeps_balance_row ip date f \<longleftrightarrow>
     (\<forall>d r d'. f d = (r, d') \<longrightarrow> safety_row ip date (dk_journal d) \<longrightarrow> safety_row ip date (dk_journal d'))"

lemma keeps_row_call:
  "keeps_balance_row ip date f \<Longrightarrow> call f d = (r, d') \<Longrightarrow> safety_row ip date (dk_journal d) \<Longrightarrow> safety_row ip date (dk_journal d')"
  by (auto simp: keeps_balance_row_def call_def split: prod.splits)

lemma keeps_row_end_session:
  assumes "keeps_balance_row ip date (tm_logout tim)" and "keeps_balance_row ip date (tm_disconnect tim)" and "safety_row ip date (dk_journal d)"
  shows "safety_row ip date (dk_journal (end_session tim b d))"
  using assms keeps_row_call [of ip date "tm_logout tim"] keeps_row_call [of ip date "tm_disconnect tim"]
  by (cases b) (auto simp: end_session_def Let_def intro: prod.collapse [symmetric] dest: keeps_row_call [OF _ prod.collapse [symmetric]])

lemma balance_contact_row:
  assumes "at_journal (\<lambda>now. card_balance_contact now ip date ''safety'' None) d = (Inr (Some i), d')"
  shows "safety_row ip date (dk_journal d')"
  using assms
  by (auto simp: at_journal_def card_balance_contact_def on_conn_def zoom_op_def safety_row_def Let_def
      split: prod.splits if_splits dest!: sql_Inr_effect)

lemma list_ex_upd_where: "list_ex P t \<Longrightarrow> (\<And>b. P b \<Longrightarrow> P (f b)) \<Longrightarrow> list_ex P (upd_where Q f t)"
  by (induction t) (auto simp: upd_where_def)

lemma card_balance_outcome_row:
  assumes "card_balance_outcome i st res j = (r, j')" and "safety_row ip date j"
  shows "safety_row ip date j'"
proof -
  let ?f = "\<lambda>b :: balance_row. b\<lparr>cb_outcome := Some st, cb_result := Some res\<rparr>"
  have "jd_card_balances (jdb j') = jd_card_balances (jdb j) \<or>
      jd_card_balances (jdb j') = upd_where (\<lambda>b. cb_id b = i) ?f (jd_card_balances (jdb j))"
    using assms(1)
    by (cases r) (auto simp: card_balance_outcome_def on_conn_def zoom_op_def Let_def
        split: prod.splits dest!: sql_Inr_effect sql_InlD)
  then show ?thesis using assms(2) unfolding safety_row_def by (auto intro!: list_ex_upd_where)
qed

lemma balance_outcome_row:
  assumes "safety_row ip date (dk_journal d)"
  shows "safety_row ip date (dk_journal (journal_balance i oc d))"
  using assms card_balance_outcome_row
  by (auto simp: journal_balance_def logged_def at_journal_def split: option.splits Outcome.splits prod.splits)

lemma safety_session_row:
  assumes "safety_session ex ip date until tim tid d = (SafetySent i oc, d')" and "keeps_balance_row ip date (tm_balance tim)"
  shows "safety_row ip date (dk_journal d')"
proof -
  obtain d1 d2 x d3 where "at_journal (\<lambda>now. card_balance_contact now ip date ''safety'' None) d1 = (Inr (Some i), d2)"
      and "call (tm_balance tim) d2 = (x, d3)" and "d' = d3"
    using assms(1)
    by (auto simp: safety_session_def safety_failed_def split: if_splits prod.splits sum.splits bool.splits option.splits Outcome.splits)
  then show ?thesis using balance_contact_row keeps_row_call [OF assms(2)] by blast
qed

lemma with_session_InrD:
  "with_session tim spec work d = (Inr a, d') \<Longrightarrow> \<exists>tid d1 d2. work tid d1 = (a, d2) \<and> d' = end_session tim True d2"
  by (auto simp: with_session_def split: prod.splits sum.splits if_splits)

lemma one_session_InrD:
  assumes "one_session ex spec nothing work d = (Inr a, d')" and "tx_backend ex = Inr backend"
  shows "\<exists>tid d1 d2. work (backend spec) tid d1 = (a, d2) \<and> dk_journal d' = dk_journal (end_session (backend spec) True d2)"
  using assms
  by (auto simp: one_session_def on_terminal_def in_flight_def set_state_def Let_def split: prod.splits sum.splits option.splits
      dest!: with_session_InrD) blast

lemma safety_row_ran: "safety_row ip date j \<Longrightarrow> card_balance_ran ip date j = (Inr x, j') \<Longrightarrow> x"
  by (auto simp: card_balance_ran_def on_conn_def zoom_op_def safety_row_def list_ex_iff split: prod.splits dest!: query_InrD)

text \<open>
  C19. The safety balance runs once a day. When it reached its terminal, whatever the terminal answered, the
  journal holds its row; and as long as the journal holds that row, another check of the day contacts
  nothing, also when the journal cannot be read.
\<close>

theorem safety_balance_once_a_day:
  fixes ex :: "'e tim_exec" and d d' :: "'e desk"
  assumes "\<forall>backend. tx_backend ex = Inr backend \<longrightarrow>
      keeps_balance_row (sp_ip spec) date (tm_balance (backend spec)) \<and> keeps_balance_row (sp_ip spec) date (tm_logout (backend spec)) \<and>
      keeps_balance_row (sp_ip spec) date (tm_disconnect (backend spec))"
    and "safety_balance ex spec date until d = (Some (True, oc), d')"
  shows "safety_row (sp_ip spec) date (dk_journal d') \<and>
    (\<forall>e until'. safety_row (sp_ip spec) date (dk_journal e) \<longrightarrow>
       fst (safety_balance ex spec date until' e) = None \<and> dk_env (snd (safety_balance ex spec date until' e)) = dk_env e)"
proof
  show "\<forall>e until'. safety_row (sp_ip spec) date (dk_journal e) \<longrightarrow>
       fst (safety_balance ex spec date until' e) = None \<and> dk_env (snd (safety_balance ex spec date until' e)) = dk_env e"
  proof (intro allI impI)
    fix e :: "'e desk" and until' assume row: "safety_row (sp_ip spec) date (dk_journal e)"
    obtain r e1 where r: "at_journal (\<lambda>_. card_balance_ran (sp_ip spec) date) e = (r, e1)" by fastforce
    have "r \<noteq> Inr False" using safety_row_ran [OF row] r by (auto simp: at_journal_def split: prod.splits)
    then have "safety_balance ex spec date until' e = (None, e1) \<or> safety_balance ex spec date until' e = (None, e)"
      using r by (cases r) (auto simp: safety_balance_def)
    then show "fst (safety_balance ex spec date until' e) = None \<and> dk_env (snd (safety_balance ex spec date until' e)) = dk_env e"
      using at_journal_env [OF r] by auto
  qed
  obtain d1 i d2 where sent: "one_session ex spec ''nothing ran'' (safety_session ex (sp_ip spec) date until) d1 = (Inr (SafetySent i oc), d2)"
      and d': "d' = journal_balance (Some i) oc d2"
    using assms(2) by (auto simp: safety_balance_def split: if_splits prod.splits sum.splits bool.splits SafetyEnd.splits)
  then obtain backend where b: "tx_backend ex = Inr backend"
    by (cases "tx_backend ex") (auto simp: one_session_def on_terminal_def)
  then obtain tid e1 e2 where e: "safety_session ex (sp_ip spec) date until (backend spec) tid e1 = (SafetySent i oc, e2)"
      "dk_journal d2 = dk_journal (end_session (backend spec) True e2)"
    using one_session_InrD [OF sent b] by blast
  have "safety_row (sp_ip spec) date (dk_journal d2)"
    unfolding e(2) using assms(1) b by (intro keeps_row_end_session safety_session_row [OF e(1)]) auto
  then show "safety_row (sp_ip spec) date (dk_journal d')" unfolding d' by (rule balance_outcome_row)
qed

lemma sim_keeps: "keeps_balance_row ip date (sim_fine x)"
  by (simp add: keeps_balance_row_def sim_fine_def)

lemma sim_balance:
  "\<exists>res d'. safety_balance sim_exec sim_spec ''2025-01-01'' 5 sim_desk = (Some (True, O_Done res), d')"
proof -
  have "case fst (safety_balance sim_exec sim_spec ''2025-01-01'' 5 sim_desk) of Some (True, O_Done _) \<Rightarrow> True | _ \<Rightarrow> False"
    by code_simp
  then show ?thesis
    by (cases "safety_balance sim_exec sim_spec ''2025-01-01'' 5 sim_desk")
      (auto split: option.splits prod.splits bool.splits Outcome.splits)
qed

theorem safety_balance_once_a_day_witness:
  "\<exists>res d'. safety_balance sim_exec sim_spec ''2025-01-01'' 5 sim_desk = (Some (True, O_Done res), d') \<and>
     fst (safety_balance sim_exec sim_spec ''2025-01-01'' 9 d') = None"
proof -
  obtain res d' where run: "safety_balance sim_exec sim_spec ''2025-01-01'' 5 sim_desk = (Some (True, O_Done res), d')"
    using sim_balance by blast
  have "\<forall>backend. tx_backend sim_exec = Inr backend \<longrightarrow>
      keeps_balance_row (sp_ip sim_spec) ''2025-01-01'' (tm_balance (backend sim_spec)) \<and>
      keeps_balance_row (sp_ip sim_spec) ''2025-01-01'' (tm_logout (backend sim_spec)) \<and>
      keeps_balance_row (sp_ip sim_spec) ''2025-01-01'' (tm_disconnect (backend sim_spec))"
    by (auto simp: sim_keeps)
  from safety_balance_once_a_day [OF this run] show ?thesis using run by blast
qed

section \<open>Reconcile\<close>

text \<open>The terminal with other money calls.\<close>

definition other_money ::
    "(TwoPhase \<Rightarrow> int \<Rightarrow> ('e, TxFacts) tim_call) \<Rightarrow> ('e, unit) tim_call \<Rightarrow> ('e, unit) tim_call \<Rightarrow> (int \<Rightarrow> ('e, TxFacts) tim_call) \<Rightarrow>
     ('e, BalanceReport) tim_call \<Rightarrow> 'e tim \<Rightarrow> 'e tim" where
  "other_money t c r v b tim =
     tim\<lparr>tm_transaction := t, tm_commit := c, tm_rollback := r, tm_reversal := v, tm_balance := b\<rparr>"

lemma other_money_sel [simp]:
  "tm_terminal (other_money t c r v b tim) = tm_terminal tim" "tm_connect (other_money t c r v b tim) = tm_connect tim"
  "tm_login (other_money t c r v b tim) = tm_login tim" "tm_terminal_id (other_money t c r v b tim) = tm_terminal_id tim"
  "tm_logout (other_money t c r v b tim) = tm_logout tim" "tm_disconnect (other_money t c r v b tim) = tm_disconnect tim"
  "tm_last_transaction (other_money t c r v b tim) = tm_last_transaction tim"
  "tm_activate (other_money t c r v b tim) = tm_activate tim" "tm_deactivate (other_money t c r v b tim) = tm_deactivate tim"
  by (simp_all add: other_money_def)

lemma with_session_other_money: "with_session (other_money t c r v b tim) spec work d = with_session tim spec work d"
  unfolding with_session_def end_session_def other_money_sel ..

lemma read_last_other_money: "read_last (other_money t c r v b tim) spec d = read_last tim spec d"
  unfolding read_last_def with_session_other_money other_money_sel ..

lemma op_call_other_money: "op \<noteq> Op_Balance \<Longrightarrow> op_call op (other_money t c r v b tim) = op_call op tim"
  by (cases op) (simp_all add: op_call_def fun_eq_iff)

text \<open>
  C18. The reconcile after a restart moves no money. Whatever the terminal would do on a transaction, a
  commit, a rollback, a reversal or a balance makes no difference to the reconcile of any card job: it asks
  for none of them.
\<close>

theorem reconcile_moves_no_money:
  "reconcile_card (ex\<lparr>tx_backend := Inr (\<lambda>spec. other_money t c r v b (backend spec))\<rparr>) entry d =
   reconcile_card (ex\<lparr>tx_backend := Inr backend\<rparr>) entry d"
proof -
  let ?x = "ex\<lparr>tx_backend := Inr (\<lambda>spec. other_money t c r v b (backend spec))\<rparr>" and ?y = "ex\<lparr>tx_backend := Inr backend\<rparr>"
  have fields: "tx_journal ?x = tx_journal ?y" "tx_show_err ?x = tx_show_err ?y" "tx_show_json ?x = tx_show_json ?y"
      "tx_ts ?x = tx_ts ?y" "tx_started_at ?x = tx_started_at ?y" "job_spec ?x = job_spec ?y" "tx_debug ?x = tx_debug ?y"
    by (simp_all add: job_spec_def fun_eq_iff)
  have read: "on_terminal ?x spec (\<lambda>tim. read_last tim spec) e = on_terminal ?y spec (\<lambda>tim. read_last tim spec) e" for spec e
    by (simp add: on_terminal_def read_last_other_money)
  have "on_terminal ?x spec (\<lambda>tim. with_session tim spec (op_call op tim)) e =
      on_terminal ?y spec (\<lambda>tim. with_session tim spec (op_call op tim)) e" if "op \<noteq> Op_Balance" for op spec e
    using that by (simp add: on_terminal_def with_session_other_money op_call_other_money)
  then have rerun: "rerun_shift ?x op spec e = rerun_shift ?y op spec e" if "op \<noteq> Op_Balance" for op spec e
    using that unfolding rerun_shift_def one_session_def fields by simp
  have "reconcile_terminal_op ?x entry d = reconcile_terminal_op ?y entry d"
    unfolding reconcile_terminal_op_def fields using rerun
    by (simp add: Let_def split: option.splits TerminalOp.splits prod.splits)
  moreover have "reconcile_transaction ?x entry d = reconcile_transaction ?y entry d"
    unfolding reconcile_transaction_def reconcile_read_def fields read ..
  moreover have "reconcile_settle ?x job op d = reconcile_settle ?y job op d" for job op
    unfolding reconcile_settle_def settle_purchase_def fields ..
  ultimately show ?thesis by (simp add: reconcile_card_def Let_def)
qed

end
