(* ===== verification/Print_Backend.thy ===== *)
theory Print_Backend
  imports Core_Types Json
begin

text \<open>
  What every print backend of the client shares (\<open>crates/devbridge-client/src/print_backend.rs\<close>):
  the job it prints, the page decisions of a job sent page by page, the outcome of a job the
  printer accepted whose end is unknown, the report the receiver sends, the choice of a backend.

  An \<open>anyhow::Error\<close> is a message, an \<open>Unconfirmed\<close>, or either behind a context; \<open>downcast_ref\<close>
  looks behind contexts. An event is stamped with a clock reading: the clock is a function of
  the number of events the emitter has sent, so every event has a reading of its own.
\<close>

section \<open>Errors\<close>

datatype anyerr = Msg string | Unconf string | Ctx string anyerr

text \<open>The whole chain, \<open>{:#}\<close>.\<close>

fun chain_text :: "anyerr \<Rightarrow> string" where
  "chain_text (Msg s) = s"
| "chain_text (Unconf detail) = detail"
| "chain_text (Ctx c e) = c @ '': '' @ chain_text e"

fun holds_unconfirmed :: "anyerr \<Rightarrow> bool" where
  "holds_unconfirmed (Msg s) = False"
| "holds_unconfirmed (Unconf detail) = True"
| "holds_unconfirmed (Ctx c e) = holds_unconfirmed e"

definition is_unconfirmed :: "anyerr + unit \<Rightarrow> bool" where
  "is_unconfirmed result = (case result of Inl e \<Rightarrow> holds_unconfirmed e | Inr _ \<Rightarrow> False)"

definition em_dash :: string where "em_dash = [CHR 0x20, CHR 0xE2, CHR 0x80, CHR 0x94, CHR 0x20]"

definition right_arrow :: string where "right_arrow = [CHR 0x20, CHR 0xE2, CHR 0x86, CHR 0x92, CHR 0x20]"

section \<open>Jobs and events\<close>

record PrintJobInfo =
  pi_job_id :: string
  pi_document_name :: string
  pi_copies :: u32
  pi_duplex :: bool
  pi_color :: bool
  pi_printer_name :: string
  pi_printer_display_name :: "string option"

definition display_name :: "PrintJobInfo \<Rightarrow> string" where
  "display_name job =
     (case pi_printer_display_name job of Some d \<Rightarrow> d | None \<Rightarrow> pi_printer_name job)"

type_synonym clock = "nat \<Rightarrow> instant"

definition stamp :: "clock \<Rightarrow> EventEmitter \<Rightarrow> instant" where
  "stamp clock em = clock (length (em_sender em))"

definition tell_ok :: "clock \<Rightarrow> string \<Rightarrow> PrintStage \<Rightarrow> string \<Rightarrow> EventEmitter \<Rightarrow> EventEmitter" where
  "tell_ok clock job_id stage detail em = emit_ok (stamp clock em) job_id stage detail em"

definition tell_fail :: "clock \<Rightarrow> string \<Rightarrow> PrintStage \<Rightarrow> string \<Rightarrow> EventEmitter \<Rightarrow> EventEmitter" where
  "tell_fail clock job_id stage detail em = emit_fail (stamp clock em) job_id stage detail em"

definition tell_verified :: "clock \<Rightarrow> string \<Rightarrow> string \<Rightarrow> string \<Rightarrow> EventEmitter \<Rightarrow> EventEmitter" where
  "tell_verified clock job_id meth evidence em = emit_verified (stamp clock em) job_id meth evidence em"

definition cancel_text :: "string \<Rightarrow> string" where
  "cancel_text point = ''print cancelled by outer timeout (at: '' @ point @ '')''"

definition bail_if_cancelled ::
    "clock \<Rightarrow> bool \<Rightarrow> string \<Rightarrow> string \<Rightarrow> EventEmitter \<Rightarrow> (anyerr + unit) \<times> EventEmitter" where
  "bail_if_cancelled clock cancelled job_id point em =
     (if cancelled then (Inl (Msg (cancel_text point)), tell_fail clock job_id PS_Failed (cancel_text point) em)
      else (Inr (), em))"

section \<open>One page of a job\<close>

record PageOfJob =
  pg_index :: nat
  pg_pages :: nat

definition failure_is_the_jobs :: "PageOfJob \<Rightarrow> bool" where
  "failure_is_the_jobs page \<longleftrightarrow> pg_index page = 0"

definition is_last_page :: "PageOfJob \<Rightarrow> bool" where
  "is_last_page page \<longleftrightarrow> pg_index page + 1 = pg_pages page"

definition printed_stage :: "PageOfJob \<Rightarrow> PrintStage" where
  "printed_stage page = (if is_last_page page then PS_Completed else PS_Sent)"

definition printed_detail :: "PageOfJob \<Rightarrow> string \<Rightarrow> string" where
  "printed_detail page display =
     (if is_last_page page then display @ '' confirmed printed''
      else display @ '' confirmed page '' @ nat_digits (pg_index page + 1) @ '' of '' @
           nat_digits (pg_pages page) @ '' printed'')"

definition cancel_point :: "PageOfJob \<Rightarrow> string" where
  "cancel_point page =
     (if failure_is_the_jobs page then ''before the first IPP page send'' else ''between IPP page sends'')"

section \<open>A job whose end is unknown\<close>

definition after_acceptance :: "u32 \<Rightarrow> string \<Rightarrow> string" where
  "after_acceptance printer_job_id why =
     ''printer accepted job-id='' @ nat_digits (unat printer_job_id) @ '', completion not confirmed ('' @
     why @ '')'' @ em_dash @ ''not resent''"

definition after_accepted_pages :: "nat \<Rightarrow> nat \<Rightarrow> anyerr \<Rightarrow> string" where
  "after_accepted_pages failed_index pages cause =
     (let printed = (if failed_index = 1 then ''page 1'' else ''pages 1-'' @ nat_digits failed_index)
      in ''page '' @ nat_digits (failed_index + 1) @ '' of '' @ nat_digits pages @ '' failed after '' @
         printed @ '' printed: '' @ chain_text cause)"

definition after_outer_timeout :: "u64 \<Rightarrow> string" where
  "after_outer_timeout timeout_secs =
     ''printer accepted the job, completion not confirmed (print task timed out after '' @
     nat_digits (unat timeout_secs) @ ''s)'' @ em_dash @ ''not resent''"

definition print_timeout_error :: "u64 \<Rightarrow> bool \<Rightarrow> anyerr" where
  "print_timeout_error timeout_secs printer_accepted =
     (if printer_accepted then Unconf (after_outer_timeout timeout_secs)
      else Msg (''print task timed out after '' @ nat_digits (unat timeout_secs) @ ''s'' @ em_dash @
                ''backend or spooler hung''))"

section \<open>The report of a finished print\<close>

record PrintReport =
  pr_success :: bool
  pr_unconfirmed :: bool
  pr_error_detail :: string
  pr_printer_status :: string
  pr_local_state :: JobState

definition report_of :: "anyerr + unit \<Rightarrow> PrintReport" where
  "report_of result =
     (case result of
        Inr _ \<Rightarrow> \<lparr>pr_success = True, pr_unconfirmed = False, pr_error_detail = [],
                  pr_printer_status = ''delivered'', pr_local_state = JS_Completed\<rparr>
      | Inl e \<Rightarrow>
          (let unconfirmed = is_unconfirmed result
           in \<lparr>pr_success = False, pr_unconfirmed = unconfirmed, pr_error_detail = chain_text e,
               pr_printer_status = (if unconfirmed then ''unconfirmed'' else ''error''),
               pr_local_state = (if unconfirmed then JS_Unconfirmed else JS_Failed)\<rparr>))"

end
