(* ===== verification/Ipp_Codec.thy ===== *)
theory Ipp_Codec
  imports Prelude
begin

text \<open>
  The IPP 1.1 codec of \<open>crates/devbridge-client/src/ipp_codec.rs\<close>: the requests the client sends to
  a printer and the parser of its responses. Buffers are lists of bytes; the parser works on the
  bytes that are left, which are \<open>data[pos..]\<close> of the source. A Rust string is the list of its
  UTF-8 bytes, as characters.
\<close>

section \<open>Bytes\<close>

definition bytes_of :: "string \<Rightarrow> u8 list" where
  "bytes_of s = map (\<lambda>c. word_of_nat (of_char c)) s"

definition string_of_bytes :: "u8 list \<Rightarrow> string" where
  "string_of_bytes bs = map (\<lambda>b. char_of (unat b)) bs"

text \<open>\<open>to_be_bytes\<close> and \<open>from_be_bytes\<close>.\<close>

definition be16 :: "u16 \<Rightarrow> u8 list" where
  "be16 w = [word_of_nat (unat w div 256), word_of_nat (unat w mod 256)]"

definition be32 :: "u32 \<Rightarrow> u8 list" where
  "be32 w = [word_of_nat (unat w div 256 ^ 3), word_of_nat (unat w div 256 ^ 2 mod 256),
             word_of_nat (unat w div 256 mod 256), word_of_nat (unat w mod 256)]"

definition from_be16 :: "u8 \<Rightarrow> u8 \<Rightarrow> u16" where
  "from_be16 a b = word_of_nat (unat a * 256 + unat b)"

definition from_be32 :: "u8 \<Rightarrow> u8 \<Rightarrow> u8 \<Rightarrow> u8 \<Rightarrow> u32" where
  "from_be32 a b c d = word_of_nat (((unat a * 256 + unat b) * 256 + unat c) * 256 + unat d)"

definition between :: "nat \<Rightarrow> nat \<Rightarrow> u8 \<Rightarrow> bool" where
  "between a b x \<longleftrightarrow> a \<le> unat x \<and> unat x \<le> b"

abbreviation cont :: "u8 \<Rightarrow> bool" where
  "cont \<equiv> between 0x80 0xBF"

text \<open>
  The error of \<open>std::str::from_utf8\<close>, none for shortest encodings of code points that are not
  surrogates. It says how many bytes were valid and how long the invalid sequence is, \<open>None\<close> when the
  bytes end inside a sequence.
\<close>

definition bad_tail :: "nat \<Rightarrow> (u8 \<Rightarrow> bool) list \<Rightarrow> u8 list \<Rightarrow> nat option option" where
  "bad_tail n checks s =
     (let good = length (takeWhile (\<lambda>(ok, x). ok x) (zip checks s))
      in if good = length checks then None
         else if good = length s then Some None
         else Some (Some (n + good)))"

definition second_byte :: "u8 \<Rightarrow> u8 \<Rightarrow> bool" where
  "second_byte a =
     (if between 0xE0 0xE0 a then between 0xA0 0xBF
      else if between 0xED 0xED a then between 0x80 0x9F
      else if between 0xF0 0xF0 a then between 0x90 0xBF
      else if between 0xF4 0xF4 a then between 0x80 0x8F
      else cont)"

definition follow :: "u8 \<Rightarrow> (u8 \<Rightarrow> bool) list option" where
  "follow a =
     (if between 0 0x7F a then Some []
      else if between 0xC2 0xDF a then Some [cont]
      else if between 0xE0 0xEF a then Some [second_byte a, cont]
      else if between 0xF0 0xF4 a then Some [second_byte a, cont, cont]
      else None)"

function utf8_error :: "nat \<Rightarrow> u8 list \<Rightarrow> (nat \<times> nat option) option" where
  "utf8_error i [] = None"
| "utf8_error i (a # s) =
     (case follow a of
        None \<Rightarrow> Some (i, Some 1)
      | Some checks \<Rightarrow>
          (case bad_tail 1 checks s of
             Some len \<Rightarrow> Some (i, len)
           | None \<Rightarrow> utf8_error (i + 1 + length checks) (drop (length checks) s)))"
  by pat_completeness auto
termination
  by (relation "measure (length \<circ> snd)") auto

definition valid_utf8 :: "u8 list \<Rightarrow> bool" where
  "valid_utf8 s \<longleftrightarrow> utf8_error 0 s = None"

section \<open>Attributes and responses\<close>

record IppAttribute =
  at_name :: string
  at_tag :: u8
  at_value :: "u8 list"

definition as_str_attr :: "IppAttribute \<Rightarrow> string option" where
  "as_str_attr a = (if valid_utf8 (at_value a) then Some (string_of_bytes (at_value a)) else None)"

definition as_i32 :: "IppAttribute \<Rightarrow> int option" where
  "as_i32 at = (case at_value at of [a, b, c, d] \<Rightarrow> Some (sint (from_be32 a b c d)) | _ \<Rightarrow> None)"

record IppResponse =
  ir_status_code :: u16
  ir_request_id :: u32
  ir_attributes :: "IppAttribute list"

definition ipp_get :: "string \<Rightarrow> IppResponse \<Rightarrow> IppAttribute option" where
  "ipp_get name r = find (\<lambda>a. at_name a = name) (ir_attributes r)"

definition is_success :: "IppResponse \<Rightarrow> bool" where
  "is_success r \<longleftrightarrow> ir_status_code r \<le> 0x00FF"

definition PRINT_JOB :: u16 where "PRINT_JOB = 0x0002"
definition GET_JOB_ATTRIBUTES :: u16 where "GET_JOB_ATTRIBUTES = 0x0009"
definition CLIENT_ERROR_NOT_FOUND :: u16 where "CLIENT_ERROR_NOT_FOUND = 0x0406"
definition OPERATION_ATTRIBUTES_TAG :: u8 where "OPERATION_ATTRIBUTES_TAG = 0x01"
definition JOB_ATTRIBUTES_TAG :: u8 where "JOB_ATTRIBUTES_TAG = 0x02"
definition END_OF_ATTRIBUTES_TAG :: u8 where "END_OF_ATTRIBUTES_TAG = 0x03"
definition CHARSET_TAG :: u8 where "CHARSET_TAG = 0x47"
definition NATURAL_LANGUAGE_TAG :: u8 where "NATURAL_LANGUAGE_TAG = 0x48"
definition URI_TAG :: u8 where "URI_TAG = 0x45"
definition MIME_MEDIA_TYPE_TAG :: u8 where "MIME_MEDIA_TYPE_TAG = 0x49"
definition NAME_WITHOUT_LANGUAGE_TAG :: u8 where "NAME_WITHOUT_LANGUAGE_TAG = 0x42"
definition INTEGER_TAG :: u8 where "INTEGER_TAG = 0x21"

section \<open>Requests\<close>

text \<open>The bytes one attribute adds to the buffer; a length is cast to \<open>u16\<close>.\<close>

definition write_attribute :: "u8 \<Rightarrow> string \<Rightarrow> u8 list \<Rightarrow> u8 list" where
  "write_attribute tag name value =
     tag # be16 (word_of_nat (length (bytes_of name))) @ bytes_of name @ be16 (word_of_nat (length value)) @ value"

definition write_integer_attribute :: "u8 \<Rightarrow> string \<Rightarrow> u32 \<Rightarrow> u8 list" where
  "write_integer_attribute tag name value = write_attribute tag name (be32 value)"

definition ipp_header :: "u16 \<Rightarrow> u32 \<Rightarrow> u8 list" where
  "ipp_header operation request_id = [1, 1] @ be16 operation @ be32 request_id"

text \<open>\<open>effective_copies as i32\<close> keeps the bits, so the four bytes are those of the \<open>u32\<close>.\<close>

definition build_print_job_request :: "string \<Rightarrow> string \<Rightarrow> string \<Rightarrow> u32 \<Rightarrow> u32 \<Rightarrow> u8 list" where
  "build_print_job_request printer_uri document_format job_name request_id copies =
     (let effective_copies = max copies 1
      in ipp_header PRINT_JOB request_id @
         [OPERATION_ATTRIBUTES_TAG] @
         write_attribute CHARSET_TAG ''attributes-charset'' (bytes_of ''utf-8'') @
         write_attribute NATURAL_LANGUAGE_TAG ''attributes-natural-language'' (bytes_of ''en-us'') @
         write_attribute URI_TAG ''printer-uri'' (bytes_of printer_uri) @
         write_attribute MIME_MEDIA_TYPE_TAG ''document-format'' (bytes_of document_format) @
         write_attribute NAME_WITHOUT_LANGUAGE_TAG ''job-name'' (bytes_of job_name) @
         (if 1 < effective_copies
          then [JOB_ATTRIBUTES_TAG] @ write_integer_attribute INTEGER_TAG ''copies'' effective_copies
          else []) @
         [END_OF_ATTRIBUTES_TAG])"

definition build_get_job_attributes_request :: "string \<Rightarrow> u32 \<Rightarrow> u32 \<Rightarrow> u8 list" where
  "build_get_job_attributes_request printer_uri job_id request_id =
     ipp_header GET_JOB_ATTRIBUTES request_id @
     [OPERATION_ATTRIBUTES_TAG] @
     write_attribute CHARSET_TAG ''attributes-charset'' (bytes_of ''utf-8'') @
     write_attribute NATURAL_LANGUAGE_TAG ''attributes-natural-language'' (bytes_of ''en-us'') @
     write_attribute URI_TAG ''printer-uri'' (bytes_of printer_uri) @
     write_integer_attribute INTEGER_TAG ''job-id'' job_id @
     [END_OF_ATTRIBUTES_TAG]"

section \<open>The parser\<close>

datatype ipp_error =
    TooShort nat | TruncatedNameLength | TruncatedName | InvalidName "u8 list" | TruncatedValueLength | TruncatedValue

text \<open>A length field and as many bytes; what is left.\<close>

definition read_len :: "u8 list \<Rightarrow> (nat \<times> u8 list) option" where
  "read_len s = (case s of a # b # rest \<Rightarrow> Some (unat (from_be16 a b), rest) | _ \<Rightarrow> None)"

definition read_bytes :: "nat \<Rightarrow> u8 list \<Rightarrow> (u8 list \<times> u8 list) option" where
  "read_bytes n s = (if n \<le> length s then Some (take n s, drop n s) else None)"

text \<open>The name of an attribute: its own, or the last one when the name is empty.\<close>

definition read_name :: "string \<Rightarrow> u8 list \<Rightarrow> ipp_error + string \<times> u8 list" where
  "read_name last_name s =
     (case read_len s of
        None \<Rightarrow> Inl TruncatedNameLength
      | Some (n, s1) \<Rightarrow>
          if n = 0 then Inr (last_name, s1)
          else (case read_bytes n s1 of
                  None \<Rightarrow> Inl TruncatedName
                | Some (bs, s2) \<Rightarrow> if valid_utf8 bs then Inr (string_of_bytes bs, s2) else Inl (InvalidName bs)))"

definition read_value :: "u8 list \<Rightarrow> ipp_error + u8 list \<times> u8 list" where
  "read_value s =
     (case read_len s of
        None \<Rightarrow> Inl TruncatedValueLength
      | Some (n, s1) \<Rightarrow> (case read_bytes n s1 of None \<Rightarrow> Inl TruncatedValue | Some x \<Rightarrow> Inr x))"

lemma read_name_shorter: "read_name l s = Inr (n, s') \<Longrightarrow> length s' < length s"
  by (auto simp: read_name_def read_len_def read_bytes_def less_Suc_eq_le le_SucI
      split: option.splits list.splits if_splits)

lemma read_value_shorter: "read_value s = Inr (v, s') \<Longrightarrow> length s' < length s"
  by (auto simp: read_value_def read_len_def read_bytes_def less_Suc_eq_le le_SucI
      split: option.splits list.splits if_splits)

text \<open>The loop of \<open>parse_response\<close>, with the name of the last attribute.\<close>

function parse_attributes :: "string \<Rightarrow> u8 list \<Rightarrow> ipp_error + IppAttribute list" where
  "parse_attributes last_name [] = Inr []"
| "parse_attributes last_name (tag # s) =
     (if tag \<le> 0x0F
      then if tag = END_OF_ATTRIBUTES_TAG then Inr [] else parse_attributes last_name s
      else case read_name last_name s of
        Inl e \<Rightarrow> Inl e
      | Inr (name, s1) \<Rightarrow>
          (case read_value s1 of
             Inl e \<Rightarrow> Inl e
           | Inr (value, s2) \<Rightarrow>
               (case parse_attributes name s2 of
                  Inl e \<Rightarrow> Inl e
                | Inr as \<Rightarrow> Inr (\<lparr>at_name = name, at_tag = tag, at_value = value\<rparr> # as))))"
  by pat_completeness auto
termination
  by (relation "measure (length \<circ> snd)") (auto dest!: read_name_shorter read_value_shorter)

definition parse_response :: "u8 list \<Rightarrow> ipp_error + IppResponse" where
  "parse_response data =
     (case data of
        v1 # v2 # s1 # s2 # r1 # r2 # r3 # r4 # rest \<Rightarrow>
          (case parse_attributes [] rest of
             Inl e \<Rightarrow> Inl e
           | Inr as \<Rightarrow> Inr \<lparr>ir_status_code = from_be16 s1 s2, ir_request_id = from_be32 r1 r2 r3 r4,
                          ir_attributes = as\<rparr>)
      | _ \<Rightarrow> Inl (TooShort (length data)))"

section \<open>What is written is read back\<close>

lemma unat_byte: "n < 256 \<Longrightarrow> unat (word_of_nat n :: u8) = n"
  by (simp add: unat_of_nat)

lemma string_bytes [simp]: "string_of_bytes (bytes_of s) = s"
proof -
  have "char_of (unat (word_of_nat (of_char c) :: u8)) = c" for c :: char
    using unat_byte [of "of_char c"] nat_of_char_less_256 by simp
  then show ?thesis by (simp add: string_of_bytes_def bytes_of_def comp_def)
qed

lemma length_bytes [simp]: "length (bytes_of s) = length s"
  by (simp add: bytes_of_def)

lemma unat_16: "unat (w :: u16) < 65536" and unat_32: "unat (v :: u32) < 4294967296"
  using unsigned_less [of w, where 'a = nat] unsigned_less [of v, where 'a = nat] by simp_all

lemma from_be16_be16: "from_be16 (word_of_nat (unat w div 256)) (word_of_nat (unat w mod 256)) = w"
proof -
  have "unat w div 256 < 256" using unat_16 [of w] by auto
  then show ?thesis by (simp add: from_be16_def unat_byte)
qed

lemma read_len_be16 [simp]: "read_len (be16 w @ s) = Some (unat w, s)"
  by (simp add: read_len_def be16_def from_be16_be16)

lemma be32_digits:
  fixes n :: nat
  assumes "n < 4294967296"
  shows "n div 256 ^ 3 < 256"
    and "((n div 256 ^ 3 * 256 + n div 256 ^ 2 mod 256) * 256 + n div 256 mod 256) * 256 + n mod 256 = n"
proof -
  show "n div 256 ^ 3 < 256" using assms by auto
  have "n div 256 ^ 3 = n div 256 ^ 2 div 256" "n div 256 ^ 2 = n div 256 div 256"
    by (simp_all add: div_mult2_eq [symmetric])
  then show "((n div 256 ^ 3 * 256 + n div 256 ^ 2 mod 256) * 256 + n div 256 mod 256) * 256 + n mod 256 = n"
    by (simp only: div_mult_mod_eq)
qed

lemma from_be32_be32:
  "from_be32 (word_of_nat (unat w div 256 ^ 3)) (word_of_nat (unat w div 256 ^ 2 mod 256))
     (word_of_nat (unat w div 256 mod 256)) (word_of_nat (unat w mod 256)) = w"
  using be32_digits [OF unat_32 [of w]] unfolding from_be32_def by (simp only: unat_byte mod_less_divisor) simp

lemma length_be [simp]: "length (be16 w) = 2" "length (be32 v) = 4"
  by (simp_all add: be16_def be32_def)

lemma as_i32_be32: "as_i32 \<lparr>at_name = n, at_tag = t, at_value = be32 w\<rparr> = Some (sint w)"
  using from_be32_be32 [of w] by (simp add: as_i32_def be32_def)

lemma unat_len: "n < 65536 \<Longrightarrow> unat (word_of_nat n :: u16) = n"
  by (simp add: unat_of_nat)

lemma read_bytes_append [simp]: "length bs = n \<Longrightarrow> read_bytes n (bs @ s) = Some (bs, s)"
  by (auto simp: read_bytes_def)

lemma read_name_written:
  "name \<noteq> [] \<Longrightarrow> length name < 65536 \<Longrightarrow> valid_utf8 (bytes_of name) \<Longrightarrow>
   read_name l (be16 (word_of_nat (length name)) @ bytes_of name @ s) = Inr (name, s)"
  by (simp add: read_name_def unat_len)

lemma read_value_written:
  "length v < 65536 \<Longrightarrow> read_value (be16 (word_of_nat (length v)) @ v @ s) = Inr (v, s)"
  by (simp add: read_value_def unat_len)

definition attr :: "u8 \<Rightarrow> string \<Rightarrow> u8 list \<Rightarrow> IppAttribute" where
  "attr tag name value = \<lparr>at_name = name, at_tag = tag, at_value = value\<rparr>"

definition writable :: "u8 \<Rightarrow> string \<Rightarrow> u8 list \<Rightarrow> bool" where
  "writable tag name value \<longleftrightarrow>
     0x0F < tag \<and> name \<noteq> [] \<and> length name < 65536 \<and> valid_utf8 (bytes_of name) \<and> length value < 65536"

lemma parse_written:
  assumes "writable tag name value"
  shows "parse_attributes l (write_attribute tag name value @ s) =
     (case parse_attributes name s of Inl e \<Rightarrow> Inl e | Inr as \<Rightarrow> Inr (attr tag name value # as))"
proof -
  have w: "\<not> tag \<le> 0x0F" "name \<noteq> []" "length name < 65536" "valid_utf8 (bytes_of name)" "length value < 65536"
    using assms by (auto simp: writable_def)
  show ?thesis
    using w(1) read_name_written [OF w(2-4)] read_value_written [OF w(5)]
    by (simp add: write_attribute_def attr_def split: sum.split)
qed

lemma parse_group: "tag \<le> 0x0F \<Longrightarrow> tag \<noteq> END_OF_ATTRIBUTES_TAG \<Longrightarrow> parse_attributes l (tag # s) = parse_attributes l s"
  by simp

lemma parse_end: "parse_attributes l (END_OF_ATTRIBUTES_TAG # s) = Inr []"
  by (simp add: END_OF_ATTRIBUTES_TAG_def)

lemma parse_header:
  "parse_response (ipp_header op rid @ s) =
     (case parse_attributes [] s of Inl e \<Rightarrow> Inl e
      | Inr as \<Rightarrow> Inr \<lparr>ir_status_code = op, ir_request_id = rid, ir_attributes = as\<rparr>)"
  using from_be32_be32 [of rid] by (simp add: parse_response_def ipp_header_def be16_def be32_def from_be16_be16
      split: sum.split)

lemmas utf8_defs = valid_utf8_def follow_def bad_tail_def between_def

lemma fixed_writable:
  "writable CHARSET_TAG ''attributes-charset'' (bytes_of ''utf-8'')"
  "writable NATURAL_LANGUAGE_TAG ''attributes-natural-language'' (bytes_of ''en-us'')"
  "length uri < 65536 \<Longrightarrow> writable URI_TAG ''printer-uri'' (bytes_of uri)"
  "length fmt < 65536 \<Longrightarrow> writable MIME_MEDIA_TYPE_TAG ''document-format'' (bytes_of fmt)"
  "length nm < 65536 \<Longrightarrow> writable NAME_WITHOUT_LANGUAGE_TAG ''job-name'' (bytes_of nm)"
  "writable INTEGER_TAG ''copies'' (be32 w)" "writable INTEGER_TAG ''job-id'' (be32 w)"
  by (simp_all add: writable_def CHARSET_TAG_def NATURAL_LANGUAGE_TAG_def URI_TAG_def MIME_MEDIA_TYPE_TAG_def
      NAME_WITHOUT_LANGUAGE_TAG_def INTEGER_TAG_def bytes_of_def utf8_defs)

lemmas group_tags = OPERATION_ATTRIBUTES_TAG_def JOB_ATTRIBUTES_TAG_def END_OF_ATTRIBUTES_TAG_def

text \<open>
  C25. A Print-Job request carries exactly what was asked for, and the document after it does not
  disturb it: read with the codec's own parser, it has the operation, the request id and the five
  operation attributes with their values, and the number of copies when it is more than one, for
  a URI, a format and a name below 64 KB.
\<close>

theorem print_job_request_read_back:
  assumes "length uri < 65536" and "length fmt < 65536" and "length nm < 65536"
  shows "parse_response (build_print_job_request uri fmt nm rid copies @ document) =
    Inr \<lparr>ir_status_code = PRINT_JOB, ir_request_id = rid,
         ir_attributes =
           [attr CHARSET_TAG ''attributes-charset'' (bytes_of ''utf-8''),
            attr NATURAL_LANGUAGE_TAG ''attributes-natural-language'' (bytes_of ''en-us''),
            attr URI_TAG ''printer-uri'' (bytes_of uri),
            attr MIME_MEDIA_TYPE_TAG ''document-format'' (bytes_of fmt),
            attr NAME_WITHOUT_LANGUAGE_TAG ''job-name'' (bytes_of nm)] @
           (if 1 < copies then [attr INTEGER_TAG ''copies'' (be32 copies)] else [])\<rparr>"
proof -
  have op: "parse_attributes l (OPERATION_ATTRIBUTES_TAG # s) = parse_attributes l s"
    "parse_attributes l (JOB_ATTRIBUTES_TAG # s) = parse_attributes l s" for l s
    by (rule parse_group; simp add: group_tags)+
  have eff: "(1 < max copies 1) = (1 < copies)" "1 < copies \<Longrightarrow> max copies 1 = copies"
    by (auto simp: max_def)
  note writes = fixed_writable(1,2) fixed_writable(3) [OF assms(1)] fixed_writable(4) [OF assms(2)]
    fixed_writable(5) [OF assms(3)] fixed_writable(6)
  show ?thesis
  proof (cases "1 < copies")
    case True
    then show ?thesis
      unfolding build_print_job_request_def Let_def write_integer_attribute_def
      by (simp only: eff if_True append_assoc parse_header append_Cons append_Nil op parse_end
          writes [THEN parse_written] sum.case)
  next
    case False
    then show ?thesis
      unfolding build_print_job_request_def Let_def write_integer_attribute_def
      by (simp only: eff if_False append_assoc parse_header append_Cons append_Nil op parse_end
          writes [THEN parse_written] sum.case)
  qed
qed

theorem print_job_request_read_back_witness:
  "\<exists>r. parse_response (build_print_job_request ''ipp://p'' ''application/pdf'' ''J'' 42 3 @ [0x25]) = Inr r \<and>
       ir_request_id r = 42 \<and> Option.bind (ipp_get ''copies'' r) as_i32 = Some 3 \<and>
       Option.bind (ipp_get ''job-name'' r) as_str_attr = Some ''J''"
proof -
  have "as_i32 (attr INTEGER_TAG ''copies'' (be32 3)) = Some 3" by (simp add: attr_def as_i32_be32)
  moreover have "valid_utf8 (bytes_of ''J'')" by (simp add: bytes_of_def utf8_defs)
  ultimately show ?thesis
    using print_job_request_read_back [of "''ipp://p''" "''application/pdf''" "''J''" 42 3 "[0x25]"]
    by (simp add: ipp_get_def attr_def as_str_attr_def)
qed

end
