(* ===== verification/Direct_Ipp.thy ===== *)
theory Direct_Ipp
  imports Print_Backend Ipp_Codec
begin

text \<open>
  The direct IPP backend (\<open>crates/devbridge-client/src/backend_direct_ipp.rs\<close>): every rendered page
  file goes to the printer as a Print-Job of its own, and a job the printer accepted is polled
  until the printer gives its final state.

  The printer, the file system and the clock are what a page sees of them: the answer to a
  request is a function of the request, the answers to the polls are numbered. A request that
  fails is the text of its error chain. The poll loop has no bound of its own, so it is a
  partial function; \<open>poll_returns\<close> of \<open>Ipp_Outcomes\<close> shows that the deadline ends it.
\<close>

section \<open>Addresses and formats\<close>

record DirectIpp =
  ipp_address :: string
  ipp_gs_device :: string
  ipp_gs_resolution :: u32
  ipp_use_tls :: bool
  ipp_poll_timeout :: nat  \<comment> \<open>nanoseconds\<close>

definition POLL_TIMEOUT :: nat where "POLL_TIMEOUT = 60 * 10 ^ 9"

definition DirectIpp_new :: "string \<Rightarrow> string \<Rightarrow> u32 \<Rightarrow> bool \<Rightarrow> DirectIpp" where
  "DirectIpp_new address gs_device gs_resolution use_tls =
     \<lparr>ipp_address = address, ipp_gs_device = gs_device, ipp_gs_resolution = gs_resolution,
      ipp_use_tls = use_tls, ipp_poll_timeout = POLL_TIMEOUT\<rparr>"

definition gs_device_to_ipp_mime :: "string \<Rightarrow> string" where
  "gs_device_to_ipp_mime d =
     (if d \<in> {''urfrgb'', ''urfcmyk'', ''urfgray''} then ''image/urf''
      else if d \<in> {''pclm'', ''pclm8''} then ''application/PCLm''
      else if d \<in> {''jpeg'', ''jpeggray'', ''jpegcmyk''} then ''image/jpeg''
      else if d \<in> {''png16m'', ''pnggray'', ''pngmono'', ''pngalpha''} then ''image/png''
      else if d \<in> {''tiffg3'', ''tiffg4'', ''tiff24nc'', ''tiff32nc'', ''tiffgray''} then ''image/tiff''
      else if d \<in> {''bmp256'', ''bmp16m'', ''bmpmono'', ''bmpgray''} then ''image/bmp''
      else if d = ''pdfwrite'' then ''application/pdf''
      else if d \<in> {''ps2write'', ''pswrite''} then ''application/postscript''
      else if d \<in> {''pxlmono'', ''pxlcolor''} then ''application/vnd.hp-PCLXL''
      else if d \<in> {''ljet4'', ''ljet4d'', ''ljet2p'', ''laserjet'', ''cljet5'', ''cljet5c'', ''cljet5pr'',
                   ''pcl5e'', ''pcl5c''} then ''application/vnd.hp-PCL''
      else ''image/pwg-raster'')"

definition normalized_address :: "DirectIpp \<Rightarrow> string" where
  "normalized_address b =
     (if CHR '':'' \<in> set (ipp_address b) \<or> CHR ''/'' \<in> set (ipp_address b) then ipp_address b
      else ipp_address b @ '':631'')"

definition with_path :: "string \<Rightarrow> DirectIpp \<Rightarrow> string" where
  "with_path scheme b =
     (let addr = normalized_address b
      in if CHR ''/'' \<in> set addr then scheme @ ''://'' @ addr else scheme @ ''://'' @ addr @ ''/ipp/print'')"

definition ipp_url :: "DirectIpp \<Rightarrow> string" where
  "ipp_url b = with_path (if ipp_use_tls b then ''https'' else ''http'') b"

definition printer_uri :: "DirectIpp \<Rightarrow> string" where
  "printer_uri b = with_path (if ipp_use_tls b then ''ipps'' else ''ipp'') b"

section \<open>Events of a page\<close>

text \<open>\<open>PageEvents::failure\<close>\<close>

definition page_failure :: "PageOfJob \<Rightarrow> PrintJobEvent \<Rightarrow> EventEmitter \<Rightarrow> EventEmitter" where
  "page_failure page ev em = (if failure_is_the_jobs page then emit ev em else em)"

definition fail_with_cause ::
    "clock \<Rightarrow> PageOfJob \<Rightarrow> string \<Rightarrow> string \<Rightarrow> string \<Rightarrow> anyerr \<Rightarrow> EventEmitter \<Rightarrow> anyerr \<times> EventEmitter" where
  "fail_with_cause clock page job_id address what e em =
     (Ctx (what @ '' ('' @ address @ '')'') e,
      page_failure page
        (event_fail (stamp clock em) job_id PS_Failed (what @ '' ('' @ address @ ''): '' @ chain_text e)) em)"

definition state_event :: "clock \<Rightarrow> string \<Rightarrow> PrintStage \<Rightarrow> string \<Rightarrow> EventEmitter \<Rightarrow> PrintJobEvent" where
  "state_event clock job_id stage detail em =
     (event_fail (stamp clock em) job_id stage detail)
       \<lparr>ev_verification_method := ''ipp_job_state'', ev_verification_evidence := detail\<rparr>"

definition unconfirmed_event :: "clock \<Rightarrow> string \<Rightarrow> string \<Rightarrow> EventEmitter \<Rightarrow> PrintJobEvent" where
  "unconfirmed_event clock job_id outcome em = state_event clock job_id PS_Unconfirmed outcome em"

definition unconfirmed ::
    "clock \<Rightarrow> PageOfJob \<Rightarrow> string \<Rightarrow> u32 \<Rightarrow> string \<Rightarrow> EventEmitter \<Rightarrow> (anyerr + unit) \<times> EventEmitter" where
  "unconfirmed clock page job_id printer_job_id why em =
     (let outcome = after_acceptance printer_job_id why
      in (Inl (Unconf outcome), page_failure page (unconfirmed_event clock job_id outcome em) em))"

section \<open>Polling an accepted job\<close>

record poll_env =
  pe_client :: "string + unit"               \<comment> \<open>\<open>http_client\<close>\<close>
  pe_start :: instant                        \<comment> \<open>\<open>Instant::now()\<close> of the deadline\<close>
  pe_cancelled :: "nat \<Rightarrow> bool"              \<comment> \<open>the token at the n-th tick\<close>
  pe_answer :: "nat \<Rightarrow> u8 list \<Rightarrow> string + u8 list"  \<comment> \<open>\<open>post_ipp\<close> of the n-th tick\<close>
  pe_now :: "nat \<Rightarrow> instant"                 \<comment> \<open>\<open>Instant::now()\<close> of the n-th tick\<close>

text \<open>The messages of \<open>parse_response\<close>; the one of \<open>Utf8Error\<close> is that of the standard library.\<close>

definition utf8_error_text :: "u8 list \<Rightarrow> string" where
  "utf8_error_text bs =
     (case utf8_error 0 bs of
        Some (i, Some len) \<Rightarrow> ''invalid utf-8 sequence of '' @ nat_digits len @ '' bytes from index '' @ nat_digits i
      | Some (i, None) \<Rightarrow> ''incomplete utf-8 byte sequence from index '' @ nat_digits i
      | None \<Rightarrow> [])"

definition ipp_error_text :: "ipp_error \<Rightarrow> string" where
  "ipp_error_text e =
     (case e of
        TooShort n \<Rightarrow> ''IPP response too short: '' @ nat_digits n @ '' bytes''
      | TruncatedNameLength \<Rightarrow> ''IPP response truncated at name-length''
      | TruncatedName \<Rightarrow> ''IPP response truncated at name''
      | InvalidName bs \<Rightarrow> ''Invalid UTF-8 in attribute name: '' @ utf8_error_text bs
      | TruncatedValueLength \<Rightarrow> ''IPP response truncated at value-length''
      | TruncatedValue \<Rightarrow> ''IPP response truncated at value'')"

definition i32_of :: "string \<Rightarrow> IppResponse \<Rightarrow> int" where
  "i32_of name r = (case Option.bind (ipp_get name r) as_i32 of Some v \<Rightarrow> v | None \<Rightarrow> 0)"

definition state_reasons :: "IppResponse \<Rightarrow> string" where
  "state_reasons r =
     (case Option.bind (ipp_get ''job-state-reasons'' r) as_str_attr of Some v \<Rightarrow> v | None \<Rightarrow> ''none'')"

text \<open>
  One round of the loop: the end of the poll with the events it leaves, or the state to go on
  with.
\<close>

definition poll_tick ::
    "DirectIpp \<Rightarrow> clock \<Rightarrow> PageOfJob \<Rightarrow> u32 \<Rightarrow> string \<Rightarrow> string \<Rightarrow> poll_env \<Rightarrow> nat \<Rightarrow> int \<Rightarrow> EventEmitter \<Rightarrow>
     ((anyerr + unit) \<times> EventEmitter) + int" where
  "poll_tick b clock page printer_job_id job_id display env n last_state em =
     (let lost = (\<lambda>why. Inl (unconfirmed clock page job_id printer_job_id why em));
          request = build_get_job_attributes_request (printer_uri b) printer_job_id (100 + word_of_nat (Suc n));
          deadline = pe_start env + int (ipp_poll_timeout b)
      in if pe_cancelled env n
         then lost (''print cancelled by the outer timeout while polling, last state='' @ int_text last_state)
         else case pe_answer env n request of
           Inl e \<Rightarrow> lost (''Get-Job-Attributes poll failed: '' @ e)
         | Inr body \<Rightarrow>
             (case parse_response body of
                Inl e \<Rightarrow> lost (''Get-Job-Attributes response unreadable: '' @ ipp_error_text e)
              | Inr r \<Rightarrow>
                  if ir_status_code r = CLIENT_ERROR_NOT_FOUND
                  then lost (''the printer no longer knows job-id '' @ nat_digits (unat printer_job_id))
                  else
                    let job_state = i32_of ''job-state'' r
                    in if job_state = 9 then
                         let evidence = ''IPP job-state=9 (completed), job-id='' @ nat_digits (unat printer_job_id);
                             em1 = tell_verified clock job_id ''ipp_job_state'' evidence em
                         in Inl (Inr (), tell_ok clock job_id (printed_stage page) (printed_detail page display) em1)
                       else if job_state = 7 \<or> job_state = 8 then
                         let evidence = ''IPP job-state='' @ int_text job_state @ '' ('' @
                               (if job_state = 7 then ''canceled'' else ''aborted'') @ ''), job-id='' @
                               nat_digits (unat printer_job_id) @ '', reasons='' @ state_reasons r
                         in Inl (Inl (Msg evidence),
                                 page_failure page (state_event clock job_id PS_Failed evidence em) em)
                       else if deadline < pe_now env n
                       then lost (''no final job-state within '' @ nat_digits (ipp_poll_timeout b div 10 ^ 9) @
                                  ''s, last state='' @ int_text job_state)
                       else Inr job_state))"

partial_function (option) poll_loop ::
    "DirectIpp \<Rightarrow> clock \<Rightarrow> PageOfJob \<Rightarrow> u32 \<Rightarrow> string \<Rightarrow> string \<Rightarrow> poll_env \<Rightarrow> nat \<Rightarrow> int \<Rightarrow> EventEmitter \<Rightarrow>
     ((anyerr + unit) \<times> EventEmitter) option" where
  "poll_loop b clock page printer_job_id job_id display env n last_state em =
     (case poll_tick b clock page printer_job_id job_id display env n last_state em of
        Inl res \<Rightarrow> Some res
      | Inr state \<Rightarrow> poll_loop b clock page printer_job_id job_id display env (Suc n) state em)"

definition poll_job_completion ::
    "DirectIpp \<Rightarrow> clock \<Rightarrow> PageOfJob \<Rightarrow> u32 \<Rightarrow> int \<Rightarrow> string \<Rightarrow> string \<Rightarrow> poll_env \<Rightarrow> EventEmitter \<Rightarrow>
     ((anyerr + unit) \<times> EventEmitter) option" where
  "poll_job_completion b clock page printer_job_id accepted_state job_id display env em =
     (case pe_client env of
        Inl e \<Rightarrow> Some (Inl (Msg e), em)
      | Inr _ \<Rightarrow> poll_loop b clock page printer_job_id job_id display env 0 accepted_state em)"

section \<open>Sending the pages\<close>

record page_env =
  pv_cancelled :: bool                       \<comment> \<open>the token before the page\<close>
  pv_file :: "string + u8 list"              \<comment> \<open>\<open>std::fs::read\<close> of the page file\<close>
  pv_client :: "string + unit"               \<comment> \<open>\<open>http_client\<close>\<close>
  pv_post :: "u8 list \<Rightarrow> string + u8 list"   \<comment> \<open>\<open>post_ipp\<close> of the Print-Job\<close>
  pv_poll :: poll_env

text \<open>The four hexadecimal digits of \<open>{:04x}\<close>.\<close>

definition hex_digit :: "nat \<Rightarrow> char" where
  "hex_digit n = char_of (if n < 10 then 48 + n else 87 + n)"

definition hex4 :: "u16 \<Rightarrow> string" where
  "hex4 w = map (\<lambda>k. hex_digit (unat w div 16 ^ k mod 16)) [3, 2, 1, 0]"

text \<open>What follows the POST of a Print-Job.\<close>

definition job_answered ::
    "DirectIpp \<Rightarrow> clock \<Rightarrow> PrintJobInfo \<Rightarrow> string \<Rightarrow> PageOfJob \<Rightarrow> poll_env \<Rightarrow> string + u8 list \<Rightarrow> EventEmitter \<Rightarrow>
     ((anyerr + unit) \<times> EventEmitter) option" where
  "job_answered b clock job display page env answer em =
     (let fail = (\<lambda>what e. case fail_with_cause clock page (pi_job_id job) (ipp_address b) what (Msg e) em of
                              (e', em') \<Rightarrow> Some (Inl e', em'))
      in case answer of
           Inl e \<Rightarrow> fail ''IPP Print-Job send failed'' e
         | Inr resp_bytes \<Rightarrow>
             (case parse_response resp_bytes of
                Inl e \<Rightarrow> fail ''IPP Print-Job response unreadable'' (ipp_error_text e)
              | Inr r \<Rightarrow>
                  if \<not> is_success r then
                    let detail = ''IPP error status: 0x'' @ hex4 (ir_status_code r)
                    in Some (Inl (Msg detail),
                             page_failure page (event_fail (stamp clock em) (pi_job_id job) PS_Failed detail) em)
                  else
                    let printer_job_id = (word_of_int (i32_of ''job-id'' r) :: u32);
                        job_state = i32_of ''job-state'' r;
                        em1 = tell_ok clock (pi_job_id job) PS_Acknowledged
                                (display @ '' accepted job-id='' @ nat_digits (unat printer_job_id) @ '', processing'') em
                    in poll_job_completion b clock page printer_job_id job_state (pi_job_id job) display env em1))"

definition send_ipp_job ::
    "DirectIpp \<Rightarrow> clock \<Rightarrow> PrintJobInfo \<Rightarrow> string \<Rightarrow> PageOfJob \<Rightarrow> page_env \<Rightarrow> EventEmitter \<Rightarrow>
     ((anyerr + unit) \<times> EventEmitter) option" where
  "send_ipp_job b clock job display page env em =
     (case pv_file env of
        Inl e \<Rightarrow> Some (Inl (Msg e), em)
      | Inr raster_data \<Rightarrow>
          let em1 = tell_ok clock (pi_job_id job) PS_Sending
                      (''IPP Print-Job'' @ right_arrow @ display @ '' ('' @ ipp_address b @ '')'') em;
              body = build_print_job_request (printer_uri b) (gs_device_to_ipp_mime (ipp_gs_device b))
                       (pi_document_name job) 1 (pi_copies job) @ raster_data
          in case pv_client env of
               Inl e \<Rightarrow> Some (Inl (Msg e), em1)
             | Inr _ \<Rightarrow> job_answered b clock job display page (pv_poll env) (pv_post env body) em1)"

text \<open>The check of the token before a page, then the page.\<close>

definition send_page ::
    "DirectIpp \<Rightarrow> clock \<Rightarrow> PrintJobInfo \<Rightarrow> string \<Rightarrow> PageOfJob \<Rightarrow> page_env \<Rightarrow> EventEmitter \<Rightarrow>
     ((anyerr + unit) \<times> EventEmitter) option" where
  "send_page b clock job display page env em =
     (let point = cancel_point page;
          checked = (if failure_is_the_jobs page
                     then bail_if_cancelled clock (pv_cancelled env) (pi_job_id job) point em
                     else if pv_cancelled env then (Inl (Msg (cancel_text point)), em)
                     else (Inr (), em))
      in case checked of
           (Inl e, em1) \<Rightarrow> Some (Inl e, em1)
         | (Inr _, em1) \<Rightarrow> send_ipp_job b clock job display page env em1)"

text \<open>The loop of \<open>send_pages\<close>: page \<open>i\<close> of \<open>pages\<close> is the next of the page files.\<close>

primrec send_from ::
    "DirectIpp \<Rightarrow> clock \<Rightarrow> PrintJobInfo \<Rightarrow> string \<Rightarrow> nat \<Rightarrow> page_env list \<Rightarrow> nat \<Rightarrow> EventEmitter \<Rightarrow>
     ((anyerr + unit) \<times> EventEmitter) option" where
  "send_from b clock job display pages [] i em = Some (Inr (), em)"
| "send_from b clock job display pages (env # envs) i em =
     (let page = \<lparr>pg_index = i, pg_pages = pages\<rparr>
      in case send_page b clock job display page env em of
           None \<Rightarrow> None
         | Some (Inr _, em1) \<Rightarrow> send_from b clock job display pages envs (Suc i) em1
         | Some (Inl e, em1) \<Rightarrow>
             if failure_is_the_jobs page then Some (Inl e, em1)
             else
               let outcome = after_accepted_pages i pages e
               in Some (Inl (Unconf outcome), emit (unconfirmed_event clock (pi_job_id job) outcome em1) em1))"

definition send_pages ::
    "DirectIpp \<Rightarrow> clock \<Rightarrow> PrintJobInfo \<Rightarrow> page_env list \<Rightarrow> string \<Rightarrow> EventEmitter \<Rightarrow>
     ((anyerr + unit) \<times> EventEmitter) option" where
  "send_pages b clock job page_files display em =
     send_from b clock job display (length page_files) page_files 0 em"

text \<open>
  \<open>PrintBackend::print\<close>: the render, then the pages. \<open>render\<close> stands for the Ghostscript run of \<open>ghostscript.rs\<close>,
  with the events it emits; its page files are given with what each page meets.
\<close>

definition direct_ipp_print ::
    "DirectIpp \<Rightarrow> clock \<Rightarrow> PrintJobInfo \<Rightarrow> (EventEmitter \<Rightarrow> (anyerr + page_env list) \<times> EventEmitter) \<Rightarrow> EventEmitter \<Rightarrow>
     ((anyerr + unit) \<times> EventEmitter) option" where
  "direct_ipp_print b clock job render em =
     (case render em of
        (Inl e, em1) \<Rightarrow> Some (Inl e, em1)
      | (Inr page_files, em1) \<Rightarrow> send_pages b clock job page_files (display_name job) em1)"

end
