(* ===== verification/Print_Task.thy ===== *)
theory Print_Task
  imports Print_Backend
begin

text \<open>
  The print tasks of a client (\<open>crates/devbridge-client/src/inflight.rs\<close>, \<open>print_lock.rs\<close>): the registry
  of jobs in flight, the lock of the printer, a print under a timeout. The two job sources, the
  gRPC receiver and the Odoo label source, have a registry each and share the lock. A task that
  overran its timeout is abandoned: its outcome is reported, its thread goes on until it returns.

  The tasks are a transition system, one step per access to shared state: a source dispatches a
  job, a task takes the lock, the printer accepts its job, the print returns and then the task ends
  (the lock is dropped before the registry entry, as the guards are nested), the timeout fires. The
  source that waits gets its outcome in the step that decides it.
\<close>

section \<open>The registry of jobs in flight\<close>

type_synonym InFlightJobs = "string set"

definition try_begin :: "string \<Rightarrow> InFlightJobs \<Rightarrow> InFlightJobs option" where
  "try_begin job_id jobs = (if job_id \<in> jobs then None else Some (insert job_id jobs))"

text \<open>\<open>impl Drop for InFlightGuard\<close>\<close>

definition drop_guard :: "string \<Rightarrow> InFlightJobs \<Rightarrow> InFlightJobs" where
  "drop_guard job_id jobs = jobs - {job_id}"

datatype PrintDispatch = PD_Completed "anyerr + unit" | PD_TimedOut | PD_DuplicateSuppressed

text \<open>How a spawned print ends for the one who waits for it.\<close>

datatype task_end = Returned "anyerr + unit" | Panicked string | Overran

definition run_print_task_with_timeout :: "InFlightJobs \<Rightarrow> string \<Rightarrow> task_end \<Rightarrow> PrintDispatch" where
  "run_print_task_with_timeout jobs job_id te =
     (case try_begin job_id jobs of
        None \<Rightarrow> PD_DuplicateSuppressed
      | Some _ \<Rightarrow>
          (case te of
             Returned r \<Rightarrow> PD_Completed r
           | Panicked e \<Rightarrow> PD_Completed (Inl (Msg (''print task panicked: '' @ e)))
           | Overran \<Rightarrow> PD_TimedOut))"

section \<open>Tasks\<close>

datatype job_source = Grpc | Odoo_Labels

datatype task_stage = Waiting | Holding | Returning

record task =
  tk_source :: job_source
  tk_job :: string
  tk_stage :: task_stage
  tk_cancelled :: bool      \<comment> \<open>the token; set when the task is abandoned\<close>
  tk_accepted :: bool       \<comment> \<open>the flag of the job's emitter\<close>
  tk_result :: "anyerr + unit"  \<comment> \<open>what the print returned, once it did\<close>

record printing =
  pt_inflight :: "job_source \<Rightarrow> InFlightJobs"
  pt_lock :: "nat option"
  pt_tasks :: "nat \<rightharpoonup> task"
  pt_next :: nat
  pt_accepts :: "(job_source \<times> string) list"                  \<comment> \<open>jobs the printer accepted\<close>
  pt_reports :: "(job_source \<times> string \<times> PrintDispatch \<times> bool) list"
    \<comment> \<open>what the waiting source got, and whether the printer had accepted the job by then\<close>

definition printing_start :: printing where
  "printing_start = \<lparr>pt_inflight = (\<lambda>_. {}), pt_lock = None, pt_tasks = Map.empty, pt_next = 0, pt_accepts = [],
     pt_reports = []\<rparr>"

definition set_task :: "nat \<Rightarrow> task \<Rightarrow> printing \<Rightarrow> printing" where
  "set_task n t s = s\<lparr>pt_tasks := (pt_tasks s)(n \<mapsto> t)\<rparr>"

definition report :: "task \<Rightarrow> PrintDispatch \<Rightarrow> printing \<Rightarrow> printing" where
  "report t d s = s\<lparr>pt_reports := pt_reports s @ [(tk_source t, tk_job t, d, tk_accepted t)]\<rparr>"

text \<open>A dispatch: refused, or the slot and the thread of a new task.\<close>

definition dispatch :: "job_source \<Rightarrow> string \<Rightarrow> printing \<Rightarrow> printing" where
  "dispatch src job s =
     (let t = \<lparr>tk_source = src, tk_job = job, tk_stage = Waiting, tk_cancelled = False, tk_accepted = False,
                tk_result = Inr ()\<rparr>
      in case try_begin job (pt_inflight s src) of
           None \<Rightarrow> report t PD_DuplicateSuppressed s
         | Some jobs \<Rightarrow>
             s\<lparr>pt_inflight := (pt_inflight s)(src := jobs), pt_tasks := (pt_tasks s)(pt_next s \<mapsto> t),
               pt_next := Suc (pt_next s)\<rparr>)"

text \<open>\<open>PrintLock::hold\<close> returned to the task.\<close>

definition hold :: "nat \<Rightarrow> task \<Rightarrow> printing \<Rightarrow> printing" where
  "hold n t s = (set_task n (t\<lparr>tk_stage := Holding\<rparr>) s)\<lparr>pt_lock := Some n\<rparr>"

definition printer_accepts :: "nat \<Rightarrow> task \<Rightarrow> printing \<Rightarrow> printing" where
  "printer_accepts n t s =
     (set_task n (t\<lparr>tk_accepted := True\<rparr>) s)\<lparr>pt_accepts := pt_accepts s @ [(tk_source t, tk_job t)]\<rparr>"

text \<open>The print returns: the lock is free again.\<close>

definition task_returns :: "nat \<Rightarrow> task \<Rightarrow> anyerr + unit \<Rightarrow> printing \<Rightarrow> printing" where
  "task_returns n t r s = (set_task n (t\<lparr>tk_stage := Returning, tk_result := r\<rparr>) s)\<lparr>pt_lock := None\<rparr>"

text \<open>The thread ends: the slot is free again; whoever still waits gets the result.\<close>

definition task_ends :: "nat \<Rightarrow> task \<Rightarrow> printing \<Rightarrow> printing" where
  "task_ends n t s =
     (let s1 = s\<lparr>pt_inflight := (pt_inflight s)(tk_source t := drop_guard (tk_job t) (pt_inflight s (tk_source t))),
                 pt_tasks := (pt_tasks s)(n := None)\<rparr>
      in if tk_cancelled t then s1 else report t (PD_Completed (tk_result t)) s1)"

definition timeout_fires :: "nat \<Rightarrow> task \<Rightarrow> printing \<Rightarrow> printing" where
  "timeout_fires n t s = report t PD_TimedOut (set_task n (t\<lparr>tk_cancelled := True\<rparr>) s)"

inductive print_step :: "printing \<Rightarrow> printing \<Rightarrow> bool" where
  Dispatch: "print_step s (dispatch src job s)"
| Hold: "pt_tasks s n = Some t \<Longrightarrow> tk_stage t = Waiting \<Longrightarrow> pt_lock s = None \<Longrightarrow> print_step s (hold n t s)"
| Accept: "pt_tasks s n = Some t \<Longrightarrow> tk_stage t = Holding \<Longrightarrow> print_step s (printer_accepts n t s)"
| Return: "pt_tasks s n = Some t \<Longrightarrow> tk_stage t = Holding \<Longrightarrow> print_step s (task_returns n t r s)"
| End: "pt_tasks s n = Some t \<Longrightarrow> tk_stage t = Returning \<Longrightarrow> print_step s (task_ends n t s)"
| Timeout: "pt_tasks s n = Some t \<Longrightarrow> \<not> tk_cancelled t \<Longrightarrow> print_step s (timeout_fires n t s)"

inductive print_run :: "printing \<Rightarrow> bool" where
  Start: "print_run printing_start"
| Step: "print_run s \<Longrightarrow> print_step s s' \<Longrightarrow> print_run s'"

section \<open>One task per job, one task on the printer\<close>

lemmas print_ops = set_task_def report_def dispatch_def hold_def printer_accepts_def task_returns_def task_ends_def
  timeout_fires_def try_begin_def drop_guard_def Let_def

text \<open>
  What holds in every state: a registry holds exactly the jobs of the live tasks of its source, one
  task each; the lock is held exactly by the task that prints; the next task number is new.
\<close>

definition slots_held :: "printing \<Rightarrow> bool" where
  "slots_held s \<longleftrightarrow> (\<forall>src job. job \<in> pt_inflight s src \<longleftrightarrow>
     (\<exists>n t. pt_tasks s n = Some t \<and> tk_source t = src \<and> tk_job t = job))"

definition one_per_job :: "printing \<Rightarrow> bool" where
  "one_per_job s \<longleftrightarrow>
     (\<forall>m n t u. pt_tasks s m = Some t \<longrightarrow> pt_tasks s n = Some u \<longrightarrow> tk_source t = tk_source u \<longrightarrow>
        tk_job t = tk_job u \<longrightarrow> m = n)"

definition lock_held :: "printing \<Rightarrow> bool" where
  "lock_held s \<longleftrightarrow> (\<forall>n. pt_lock s = Some n \<longleftrightarrow> (\<exists>t. pt_tasks s n = Some t \<and> tk_stage t = Holding))"

definition next_new :: "printing \<Rightarrow> bool" where
  "next_new s \<longleftrightarrow> (\<forall>n. pt_tasks s n \<noteq> None \<longrightarrow> n < pt_next s)"

definition tasks_inv :: "printing \<Rightarrow> bool" where
  "tasks_inv s \<longleftrightarrow> slots_held s \<and> one_per_job s \<and> lock_held s \<and> next_new s"

lemmas tasks_inv_defs = tasks_inv_def slots_held_def one_per_job_def lock_held_def next_new_def

text \<open>A step that only changes a task, not its job, keeps the slots.\<close>

lemma set_task_keeps:
  assumes "pt_tasks s n = Some t" and "tk_source t' = tk_source t" and "tk_job t' = tk_job t"
    and "pt_tasks s' = (pt_tasks s)(n \<mapsto> t')" and "pt_inflight s' = pt_inflight s" and "pt_next s' = pt_next s"
    and "tasks_inv s" and "lock_held s'"
  shows "tasks_inv s'"
  unfolding tasks_inv_def
proof (intro conjI)
  have "(\<exists>m u. pt_tasks s' m = Some u \<and> tk_source u = src \<and> tk_job u = job) \<longleftrightarrow>
      (\<exists>m u. pt_tasks s m = Some u \<and> tk_source u = src \<and> tk_job u = job)" for src job
    using assms(1-4) by (metis fun_upd_apply option.inject)
  with assms(5,7) show "slots_held s'" by (simp add: tasks_inv_def slots_held_def)
  have "\<exists>u'. pt_tasks s m = Some u' \<and> tk_source u' = tk_source u \<and> tk_job u' = tk_job u"
    if "pt_tasks s' m = Some u" for m u
    using that assms(1-4) by (auto split: if_splits)
  with assms(7) show "one_per_job s'" unfolding tasks_inv_def one_per_job_def by metis
  show "next_new s'" using assms(1,4,6,7) by (auto simp: tasks_inv_def next_new_def)
  show "lock_held s'" by (rule assms(8))
qed

lemma tasks_inv_dispatch:
  assumes "tasks_inv s" shows "tasks_inv (dispatch src job s)"
proof (cases "job \<in> pt_inflight s src")
  case True
  with assms show ?thesis by (simp add: print_ops tasks_inv_defs)
next
  case False
  have none: "pt_tasks s (pt_next s) = None" using assms by (auto simp: tasks_inv_defs)
  have new: "\<not> (\<exists>n t. pt_tasks s n = Some t \<and> tk_source t = src \<and> tk_job t = job)"
    using assms False by (simp add: tasks_inv_defs)
  have "slots_held (dispatch src job s)"
    using assms False none unfolding tasks_inv_def slots_held_def
    by (auto simp: print_ops) (metis fun_upd_apply option.distinct(1) task.select_convs(1,2))+
  moreover have "one_per_job (dispatch src job s)"
    using assms new False by (auto simp: print_ops tasks_inv_def one_per_job_def)
  moreover have "lock_held (dispatch src job s)"
    using assms False none by (auto simp: print_ops tasks_inv_def lock_held_def)
  moreover have "next_new (dispatch src job s)"
    using assms False by (auto simp: print_ops tasks_inv_def next_new_def less_Suc_eq)
  ultimately show ?thesis by (simp add: tasks_inv_def)
qed

lemma tasks_inv_ends:
  assumes "tasks_inv s" and "pt_tasks s n = Some t" and "tk_stage t = Returning"
  shows "tasks_inv (task_ends n t s)"
proof -
  have "pt_lock s \<noteq> Some n" using assms by (auto simp: tasks_inv_defs)
  moreover have "slots_held (task_ends n t s)"
    using assms(1,2) unfolding tasks_inv_def slots_held_def one_per_job_def
    by (auto simp: print_ops) (metis option.inject)+
  ultimately show ?thesis
    using assms by (auto simp: print_ops tasks_inv_def one_per_job_def lock_held_def next_new_def)
qed

lemma lock_held_other:
  assumes "pt_tasks s n = Some t" and "tk_stage t' = tk_stage t" and "lock_held s"
    and "pt_tasks s' = (pt_tasks s)(n \<mapsto> t')" and "pt_lock s' = pt_lock s"
  shows "lock_held s'"
  using assms by (auto simp: lock_held_def)

lemma lock_held_return:
  assumes "lock_held s" and "pt_tasks s n = Some t" and "tk_stage t = Holding"
  shows "lock_held (task_returns n t r s)"
proof -
  have "pt_lock s = Some n" using assms by (auto simp: lock_held_def)
  then have "tk_stage u \<noteq> Holding" if "pt_tasks s m = Some u" "m \<noteq> n" for m u
    using assms(1) that by (auto simp: lock_held_def)
  then show ?thesis by (auto simp: print_ops lock_held_def)
qed

lemma lock_held_hold: "lock_held s \<Longrightarrow> pt_lock s = None \<Longrightarrow> lock_held (hold n t s)"
  by (auto simp: print_ops lock_held_def)

lemma tasks_inv_step: "print_step s s' \<Longrightarrow> tasks_inv s \<Longrightarrow> tasks_inv s'"
proof (induction rule: print_step.induct)
  case (Dispatch s src job)
  then show ?case by (rule tasks_inv_dispatch)
next
  case (Hold s n t)
  then have lock: "lock_held (hold n t s)" by (simp add: tasks_inv_def lock_held_hold)
  show ?case
    by (rule set_task_keeps [of s n t "t\<lparr>tk_stage := Holding\<rparr>"]) (use Hold lock in \<open>simp_all add: hold_def set_task_def\<close>)
next
  case (Accept s n t)
  have lock: "lock_held (printer_accepts n t s)"
    by (rule lock_held_other [of s n t "t\<lparr>tk_accepted := True\<rparr>"]) (use Accept in \<open>simp_all add: tasks_inv_def printer_accepts_def set_task_def\<close>)
  show ?case
    by (rule set_task_keeps [of s n t "t\<lparr>tk_accepted := True\<rparr>"]) (use Accept lock in \<open>simp_all add: printer_accepts_def set_task_def\<close>)
next
  case (Return s n t r)
  then have lock: "lock_held (task_returns n t r s)" by (intro lock_held_return) (simp_all add: tasks_inv_def)
  show ?case
    by (rule set_task_keeps [of s n t "t\<lparr>tk_stage := Returning, tk_result := r\<rparr>"]) (use Return lock in \<open>simp_all add: task_returns_def set_task_def\<close>)
next
  case (End s n t)
  then show ?case by (intro tasks_inv_ends)
next
  case (Timeout s n t)
  have lock: "lock_held (timeout_fires n t s)"
    by (rule lock_held_other [of s n t "t\<lparr>tk_cancelled := True\<rparr>"]) (use Timeout in \<open>simp_all add: tasks_inv_def timeout_fires_def report_def set_task_def\<close>)
  show ?case
    by (rule set_task_keeps [of s n t "t\<lparr>tk_cancelled := True\<rparr>"]) (use Timeout lock in \<open>simp_all add: timeout_fires_def report_def set_task_def\<close>)
qed

lemma tasks_inv_run: "print_run s \<Longrightarrow> tasks_inv s"
proof (induction rule: print_run.induct)
  case Start
  then show ?case by (simp add: printing_start_def tasks_inv_defs)
qed (rule tasks_inv_step)

text \<open>
  C17. In every run of the print tasks of a client, two live tasks of one source never print the
  same job, also not when one of them was abandoned after its timeout; only one task of either source
  is on the printer at a moment; and a source refuses a job exactly while a task for it is alive.
\<close>

theorem one_print_task_per_job:
  assumes "print_run s"
  shows "(\<forall>m n t u. pt_tasks s m = Some t \<and> pt_tasks s n = Some u \<and> m \<noteq> n \<longrightarrow>
            (tk_source t, tk_job t) \<noteq> (tk_source u, tk_job u) \<and> \<not> (tk_stage t = Holding \<and> tk_stage u = Holding)) \<and>
         (\<forall>src job. try_begin job (pt_inflight s src) = None \<longleftrightarrow>
            (\<exists>n t. pt_tasks s n = Some t \<and> tk_source t = src \<and> tk_job t = job))"
proof (intro conjI allI impI)
  have inv: "tasks_inv s" by (rule tasks_inv_run [OF assms])
  fix m n t u assume tu: "pt_tasks s m = Some t \<and> pt_tasks s n = Some u \<and> m \<noteq> n"
  with inv show "(tk_source t, tk_job t) \<noteq> (tk_source u, tk_job u)"
    unfolding tasks_inv_def one_per_job_def by blast
  have "tk_stage t = Holding \<Longrightarrow> pt_lock s = Some m" "tk_stage u = Holding \<Longrightarrow> pt_lock s = Some n"
    using inv tu by (auto simp: tasks_inv_def lock_held_def)
  with tu show "\<not> (tk_stage t = Holding \<and> tk_stage u = Holding)" by auto
next
  fix src job
  show "(try_begin job (pt_inflight s src) = None) \<longleftrightarrow>
      (\<exists>n t. pt_tasks s n = Some t \<and> tk_source t = src \<and> tk_job t = job)"
    using tasks_inv_run [OF assms] by (simp add: tasks_inv_def slots_held_def try_begin_def)
qed

section \<open>An abandoned print\<close>

text \<open>A step as a function, for runs that are computed.\<close>

datatype print_move = M_Dispatch job_source string | M_Hold nat | M_Accept nat | M_Return nat "anyerr + unit" | M_End nat | M_Timeout nat

definition print_move :: "print_move \<Rightarrow> printing \<Rightarrow> printing" where
  "print_move m s =
     (case m of
        M_Dispatch src job \<Rightarrow> dispatch src job s
      | M_Hold n \<Rightarrow> (case pt_tasks s n of
            Some t \<Rightarrow> if tk_stage t = Waiting \<and> pt_lock s = None then hold n t s else s | None \<Rightarrow> s)
      | M_Accept n \<Rightarrow> (case pt_tasks s n of Some t \<Rightarrow> if tk_stage t = Holding then printer_accepts n t s else s | None \<Rightarrow> s)
      | M_Return n r \<Rightarrow> (case pt_tasks s n of Some t \<Rightarrow> if tk_stage t = Holding then task_returns n t r s else s | None \<Rightarrow> s)
      | M_End n \<Rightarrow> (case pt_tasks s n of Some t \<Rightarrow> if tk_stage t = Returning then task_ends n t s else s | None \<Rightarrow> s)
      | M_Timeout n \<Rightarrow> (case pt_tasks s n of Some t \<Rightarrow> if \<not> tk_cancelled t then timeout_fires n t s else s | None \<Rightarrow> s))"

lemma print_move_run: "print_run s \<Longrightarrow> print_run (print_move m s)"
  by (cases m) (auto simp: print_move_def split: option.split intro: print_run.Step print_step.intros)

lemma print_moves_run: "print_run s \<Longrightarrow> print_run (fold print_move ms s)"
  by (induction ms arbitrary: s) (auto intro: print_move_run)

theorem one_print_task_per_job_witness:
  "\<exists>s. print_run s \<and> pt_tasks s 0 \<noteq> None \<and> pt_tasks s 1 \<noteq> None \<and>
     (\<forall>src job. try_begin job (pt_inflight s src) = None \<longleftrightarrow>
        (\<exists>n t. pt_tasks s n = Some t \<and> tk_source t = src \<and> tk_job t = job))"
proof -
  define s where "s = fold print_move [M_Dispatch Grpc ''a'', M_Dispatch Odoo_Labels ''a'', M_Dispatch Grpc ''a''] printing_start"
  have run: "print_run s" unfolding s_def by (intro print_moves_run Start)
  moreover have "pt_tasks s 0 \<noteq> None" "pt_tasks s 1 \<noteq> None"
    by (simp_all add: s_def print_move_def print_ops printing_start_def)
  ultimately show ?thesis using one_print_task_per_job [OF run] by blast
qed

text \<open>
  The timeout of a print fires while the job is on its way to the printer, so it is reported as
  one the printer never had; the printer accepts it afterwards, the abandoned task ends and its slot
  is free, and the job sent again is accepted a second time.
\<close>

theorem abandoned_print_repeated:
  "\<exists>s. print_run s \<and> pt_accepts s = [(Grpc, ''j''), (Grpc, ''j'')] \<and>
     pt_reports s = [(Grpc, ''j'', PD_TimedOut, False)] \<and>
     \<not> is_unconfirmed (Inl (print_timeout_error timeout_secs False))"
proof -
  let ?s = "fold print_move [M_Dispatch Grpc ''j'', M_Hold 0, M_Timeout 0, M_Accept 0, M_Return 0 (Inl (Unconf [])), M_End 0,
      M_Dispatch Grpc ''j'', M_Hold 1, M_Accept 1] printing_start"
  have "print_run ?s" by (intro print_moves_run Start)
  moreover have "pt_accepts ?s = [(Grpc, ''j''), (Grpc, ''j'')]" "pt_reports ?s = [(Grpc, ''j'', PD_TimedOut, False)]"
    by (simp_all add: print_move_def print_ops printing_start_def)
  ultimately show ?thesis by (intro exI [of _ ?s]) (simp add: is_unconfirmed_def print_timeout_error_def)
qed

end
