(* ===== verification/Receiver.thy ===== *)
theory Receiver
  imports Dispatch Direct_Ipp Print_Task
begin

text \<open>
  The gRPC receiver of the client (\<open>crates/devbridge-client/src/receiver.rs\<close>): the reconnect delay, the
  download of a payload with its resume and its check, and the life of one job from the stream
  to the completion the server gets.

  Everything outside is a parameter: the file system, the stream of the download, SHA-256, the
  print itself, the printer of an event as JSON. The client's job history is a \<open>JobQueue\<close> of the same
  kind as the server's; its failures are dropped.
\<close>

record Receiver =
  rc_machine_id :: string
  rc_print_backend :: string
  rc_print_timeout :: u64          \<comment> \<open>seconds\<close>
  rc_reconnect_interval :: nat     \<comment> \<open>nanoseconds, as below\<close>
  rc_max_reconnect_interval :: nat

section \<open>Reconnecting\<close>

text \<open>
  One round of \<open>run\<close>: the backoff before it and whether the connection was closed gracefully give
  the delay and the next backoff.
\<close>

definition reconnect_round :: "Receiver \<Rightarrow> bool \<Rightarrow> nat \<Rightarrow> nat \<times> nat" where
  "reconnect_round rc graceful backoff =
     (let b = (if graceful then rc_reconnect_interval rc else backoff)
      in (max b (10 ^ 9), min (b * 2) (rc_max_reconnect_interval rc)))"

section \<open>Download\<close>

text \<open>
  The file before the download and what the file system does: an error of opening or reading it,
  how many of the received bytes are in the file when the download breaks off, whether a file that
  fails the check can be removed.
\<close>

record file_env =
  fe_file :: "u8 list option"
  fe_open_error :: "string option"
  fe_kept :: nat
  fe_removable :: bool

text \<open>
  What the server sends for an offset: an error of the call, or chunks and then the error that
  ended the stream or the writing of the file, if one did.
\<close>

type_synonym download = "u64 \<Rightarrow> string + PayloadChunk list \<times> string option"

definition receive_payload ::
    "(u8 list \<Rightarrow> string) \<Rightarrow> download \<Rightarrow> file_env \<Rightarrow> string \<Rightarrow> (anyerr + unit) \<times> u8 list option" where
  "receive_payload sha256 serve env expected =
     (let existing = (case fe_file env of None \<Rightarrow> [] | Some d \<Rightarrow> d)
      in case fe_open_error env of
           Some e \<Rightarrow> (Inl (Msg e), fe_file env)
         | None \<Rightarrow>
             (case serve (word_of_nat (length existing)) of
                Inl e \<Rightarrow> (Inl (Msg e), Some existing)
              | Inr (chunks, broken) \<Rightarrow>
                  (let received = concat (map pc_data chunks)
                   in case broken of
                        Some e \<Rightarrow> (Inl (Msg e), Some (existing @ take (fe_kept env) received))
                      | None \<Rightarrow>
                          (let content = existing @ received;
                               actual = sha256 content
                           in if actual \<noteq> expected
                              then (Inl (Msg (''SHA256 mismatch: expected '' @ expected @ '', got '' @ actual)),
                                    if fe_removable env then None else Some content)
                              else (Inr (), Some content)))))"

section \<open>Messages\<close>

definition print_stage_to_proto_state :: "PrintStage \<Rightarrow> int" where
  "print_stage_to_proto_state stage =
     (case stage of
        PS_Received \<Rightarrow> 1 | PS_Routed \<Rightarrow> 1
      | PS_Downloading \<Rightarrow> 2 | PS_Downloaded \<Rightarrow> 2
      | PS_Rendering \<Rightarrow> 7 | PS_Rendered \<Rightarrow> 7
      | PS_Sending \<Rightarrow> 8 | PS_Sent \<Rightarrow> 8 | PS_Acknowledged \<Rightarrow> 8 | PS_Verified \<Rightarrow> 8
      | PS_Completed \<Rightarrow> 4
      | PS_Failed \<Rightarrow> 5
      | PS_Unconfirmed \<Rightarrow> 5
      | PS_Retrying \<Rightarrow> 1)"

text \<open>The status update of an event; the server has its own \<open>received\<close> and \<open>routed\<close>.\<close>

definition status_update_of :: "(PrintJobEvent \<Rightarrow> string) \<Rightarrow> PrintJobEvent \<Rightarrow> JobStatusUpdate option" where
  "status_update_of show_event ev =
     (if ev_stage ev \<noteq> PS_Received \<and> ev_stage ev \<noteq> PS_Routed
      then Some \<lparr>su_job_id = ev_job_id ev, su_state = print_stage_to_proto_state (ev_stage ev),
                 su_message = show_event ev\<rparr>
      else None)"

definition job_to_metadata :: "(int \<times> int \<Rightarrow> instant option) \<Rightarrow> instant \<Rightarrow> PrintJob \<Rightarrow> string \<Rightarrow> JobMetadata" where
  "job_to_metadata from_timestamp now job target_printer =
     \<lparr>jm_job_id = pj_job_id job, jm_document_name = pj_document_name job, jm_target_printer = target_printer,
      jm_target_client_id = None, jm_copies = pj_copies job, jm_paper_size = pj_paper_size job,
      jm_duplex = pj_duplex job, jm_color = pj_color job, jm_payload_size = pj_payload_size job,
      jm_payload_sha256 = pj_payload_sha256 job, jm_state = JS_Downloading, jm_retry_count = pj_retry_count job,
      jm_error_detail = [], jm_requesting_user = None,
      jm_created_at = (case from_timestamp (pj_created_at job) of Some t \<Rightarrow> t | None \<Rightarrow> now),
      jm_updated_at = now\<rparr>"

section \<open>One job\<close>

record job_env =
  je_now :: instant
  je_clock :: clock
  je_printer :: string
  je_spool_path :: string
  je_from_timestamp :: "int \<times> int \<Rightarrow> instant option"
  je_format_size :: "u64 \<Rightarrow> string"
  je_sha256 :: "u8 list \<Rightarrow> string"
  je_serve :: download
  je_file :: file_env
  je_inflight :: InFlightJobs
  je_print :: "EventEmitter \<Rightarrow> task_end \<times> EventEmitter"   \<comment> \<open>the backend, up to the end or the timeout\<close>
  je_persisted :: "PrintJobEvent list"                      \<comment> \<open>the events the history task stored\<close>
  je_states_at :: "instant \<times> instant"

definition on_own_history :: "(queue, 'a) op \<Rightarrow> queue option \<Rightarrow> queue option" where
  "on_own_history m q = map_option (\<lambda>q. snd (m q)) q"

definition persist_events :: "PrintJobEvent list \<Rightarrow> (queue, unit) op" where
  "persist_events evs = for_op evs (\<lambda>ev. ignore_op (queue_insert_job_event ev) (ok ()))"

text \<open>The events before the download.\<close>

definition arrival_events :: "Receiver \<Rightarrow> job_env \<Rightarrow> PrintJob \<Rightarrow> EventEmitter" where
  "arrival_events rc env job =
     (let j = pj_job_id job;
          e1 = tell_ok (je_clock env) j PS_Received
                 (''Print job received ('' @ je_format_size env (pj_payload_size job) @ '')'') emitter_new;
          e2 = tell_ok (je_clock env) j PS_Routed (pj_target_printer job @ right_arrow @ rc_machine_id rc) e1
      in tell_ok (je_clock env) j PS_Downloading ''Client started payload download'' e2)"

definition downloaded_events :: "Receiver \<Rightarrow> job_env \<Rightarrow> PrintJob \<Rightarrow> u8 list option \<Rightarrow> EventEmitter" where
  "downloaded_events rc env job content =
     tell_ok (je_clock env) (pj_job_id job) PS_Downloaded
       (''SHA256 verified ('' @ je_format_size env (word_of_nat (case content of None \<Rightarrow> 0 | Some d \<Rightarrow> length d)) @ '')'')
       (arrival_events rc env job)"

definition print_result_of :: "Receiver \<Rightarrow> EventEmitter \<Rightarrow> PrintDispatch \<Rightarrow> anyerr + unit" where
  "print_result_of rc em d =
     (case d of
        PD_Completed r \<Rightarrow> r
      | PD_TimedOut \<Rightarrow> Inl (print_timeout_error (rc_print_timeout rc) (em_printer_accepted em))
      | PD_DuplicateSuppressed \<Rightarrow>
          Inl (Msg (''duplicate print suppressed'' @ em_dash @ ''prior task for this job_id still in flight'')))"

definition completion_of :: "Receiver \<Rightarrow> PrintJob \<Rightarrow> EventEmitter \<Rightarrow> anyerr + unit \<Rightarrow> JobCompletion" where
  "completion_of rc job em result =
     (let rep = report_of result
      in \<lparr>jc_job_id = pj_job_id job, jc_success = pr_success rep, jc_error_detail = pr_error_detail rep,
          jc_pages_printed = (if pr_success rep then pj_copies job else 0), jc_printer_status = pr_printer_status rep,
          jc_spooler_status = rc_print_backend rc, jc_verification_method = fst (em_verification em),
          jc_verification_evidence = snd (em_verification em), jc_client_id = rc_machine_id rc,
          jc_unconfirmed = pr_unconfirmed rep\<rparr>)"

definition download_failed_completion :: "Receiver \<Rightarrow> PrintJob \<Rightarrow> anyerr \<Rightarrow> JobCompletion" where
  "download_failed_completion rc job e =
     \<lparr>jc_job_id = pj_job_id job, jc_success = False, jc_error_detail = chain_text e, jc_pages_printed = 0,
      jc_printer_status = [], jc_spooler_status = ''download_failed'', jc_verification_method = [],
      jc_verification_evidence = [], jc_client_id = rc_machine_id rc, jc_unconfirmed = False\<rparr>"

text \<open>
  A job of the stream: the completion for the server, the history after it, the events it left.
\<close>

definition handle_job ::
    "Receiver \<Rightarrow> job_env \<Rightarrow> PrintJob \<Rightarrow> queue option \<Rightarrow> JobCompletion \<times> queue option \<times> EventEmitter" where
  "handle_job rc env job q =
     (let j = pj_job_id job;
          q1 = on_own_history (record_job (job_to_metadata (je_from_timestamp env) (je_now env) job (je_printer env))
                 (je_spool_path env)) q;
          (downloaded, content) = receive_payload (je_sha256 env) (je_serve env) (je_file env) (pj_payload_sha256 job)
      in case downloaded of
           Inr _ \<Rightarrow>
             (let em = downloaded_events rc env job content;
                  q2 = on_own_history (queue_update_job_state (fst (je_states_at env)) j JS_Printing) q1;
                  free = (try_begin j (je_inflight env) \<noteq> None);
                  (te, em1) = (if free then je_print env em else (Overran, em));
                  result = print_result_of rc em1 (run_print_task_with_timeout (je_inflight env) j te);
                  q3 = on_own_history (persist_events (je_persisted env)) q2;
                  q4 = on_own_history (queue_update_job_state (snd (je_states_at env)) j
                         (pr_local_state (report_of result))) q3
              in (completion_of rc job em1 result, q4, em1))
         | Inl e \<Rightarrow>
             (let em = tell_fail (je_clock env) j PS_Failed (''Download failed: '' @ chain_text e) (arrival_events rc env job);
                  q2 = on_own_history (persist_events (je_persisted env)) q1;
                  q3 = on_own_history (queue_update_job_state (snd (je_states_at env)) j JS_Failed) q2
              in (download_failed_completion rc job e, q3, em)))"

end
