(* ===== verification/Ipp_Outcomes.thy ===== *)
theory Ipp_Outcomes
  imports Direct_Ipp
begin

text \<open>
  How a job of the direct IPP backend ends: the poll loop returns within its deadline, what it returns
  is what the printer reported, and the events of a job say how it ended.
\<close>

section \<open>How a poll ends\<close>

text \<open>The job state the printer reported in the n-th poll.\<close>

definition reported_state :: "DirectIpp \<Rightarrow> u32 \<Rightarrow> poll_env \<Rightarrow> nat \<Rightarrow> int option" where
  "reported_state b printer_job_id env n =
     (case pe_answer env n
             (build_get_job_attributes_request (printer_uri b) printer_job_id (100 + word_of_nat (Suc n))) of
        Inl _ \<Rightarrow> None
      | Inr body \<Rightarrow>
          (case parse_response body of Inl _ \<Rightarrow> None | Inr r \<Rightarrow> Some (i32_of ''job-state'' r)))"

definition poll_end :: "PageOfJob \<Rightarrow> int option \<Rightarrow> anyerr + unit \<Rightarrow> PrintJobEvent list \<Rightarrow> bool" where
  "poll_end page reported res evs \<longleftrightarrow>
     (case res of
        Inr _ \<Rightarrow> reported = Some 9 \<and> map ev_stage evs = [PS_Verified, printed_stage page] \<and> list_all ev_success evs
      | Inl e \<Rightarrow>
          map ev_stage evs =
            (if failure_is_the_jobs page then [if holds_unconfirmed e then PS_Unconfirmed else PS_Failed] else []) \<and>
          (holds_unconfirmed e \<or> reported \<in> {Some 7, Some 8}))"

lemma event_stages [simp]:
  "ev_stage (event_ok now j st d) = st" "ev_success (event_ok now j st d)"
  "ev_stage (event_fail now j st d) = st" "\<not> ev_success (event_fail now j st d)"
  "ev_stage (event_verified now j m d) = PS_Verified" "ev_success (event_verified now j m d)"
  "ev_stage (state_event clock j st d em) = st" "\<not> ev_success (state_event clock j st d em)"
  by (simp_all add: event_ok_def event_fail_def event_new_def event_verified_def state_event_def)

lemmas tells = tell_ok_def tell_fail_def tell_verified_def emit_ok_def emit_fail_def emit_verified_def

text \<open>The events an operation leaves are appended to those of the emitter.\<close>

definition leaves :: "EventEmitter \<Rightarrow> PrintJobEvent list \<Rightarrow> EventEmitter \<Rightarrow> bool" where
  "leaves em evs em' \<longleftrightarrow> em' = fold emit evs em"

lemma leaves_nothing [simp]: "leaves em [] em' \<longleftrightarrow> em' = em"
  by (simp add: leaves_def)

lemma leaves_one [simp]: "leaves em [ev] (emit ev em)"
  by (simp add: leaves_def)

lemma leaves_append: "leaves em evs em1 \<Longrightarrow> leaves em1 evs' em2 \<Longrightarrow> leaves em (evs @ evs') em2"
  by (simp add: leaves_def)

lemma leaves_failure:
  "leaves em (if failure_is_the_jobs page then [ev] else []) (page_failure page ev em)"
  by (simp add: page_failure_def)

lemma poll_tick_ends:
  assumes "poll_tick b clock page pjid job_id display env n st em = Inl (res, em')"
  shows "\<exists>evs. leaves em evs em' \<and> poll_end page (reported_state b pjid env n) res evs"
proof -
  have lost: ?thesis if "unconfirmed clock page job_id pjid why em = (res, em')" for why
    using that leaves_failure by (fastforce simp: unconfirmed_def unconfirmed_event_def Let_def poll_end_def)
  have printed: ?thesis
    if "reported_state b pjid env n = Some 9" "res = Inr ()"
      "em' = tell_ok clock job_id (printed_stage page) d1 (tell_verified clock job_id m d2 em)" for d1 d2 m
  proof -
    let ?evs = "[event_verified (stamp clock em) job_id m d2,
      event_ok (stamp clock (tell_verified clock job_id m d2 em)) job_id (printed_stage page) d1]"
    have "leaves em ?evs em'" using that(3) by (simp add: leaves_def tells)
    with that(1,2) show ?thesis by (intro exI [of _ ?evs]) (simp add: poll_end_def)
  qed
  have verdict: ?thesis
    if "reported_state b pjid env n \<in> {Some 7, Some 8}" "res = Inl (Msg d)"
      "em' = page_failure page (state_event clock job_id PS_Failed d em) em" for d
    using that leaves_failure by (fastforce simp: poll_end_def)
  show ?thesis
  proof (cases "pe_cancelled env n")
    case True
    with assms show ?thesis by (auto simp: poll_tick_def Let_def intro: lost)
  next
    case live: False
    let ?request = "build_get_job_attributes_request (printer_uri b) pjid (100 + word_of_nat (Suc n))"
    show ?thesis
    proof (cases "pe_answer env n ?request")
      case (Inl e)
      with live assms show ?thesis by (auto simp: poll_tick_def Let_def intro: lost)
    next
      case (Inr body)
      show ?thesis
      proof (cases "parse_response body")
        case (Inl e)
        with live \<open>pe_answer _ _ _ = _\<close> assms show ?thesis by (auto simp: poll_tick_def Let_def intro: lost)
      next
        case r: (Inr r)
        then have "reported_state b pjid env n = Some (i32_of ''job-state'' r)"
          using Inr by (simp add: reported_state_def)
        with live Inr r assms lost printed verdict show ?thesis
          by (auto simp: poll_tick_def Let_def split: if_splits)
      qed
    qed
  qed
qed

lemma poll_loop_last_tick:
  assumes "poll_loop b clock page pjid job_id display env n st em = Some res"
  shows "\<exists>m st'. poll_tick b clock page pjid job_id display env m st' em = Inl res"
proof (rule poll_loop.raw_induct [OF _ assms, where
      P = "\<lambda>b clock page pjid job_id display env n st em res.
             \<exists>m st'. poll_tick b clock page pjid job_id display env m st' em = Inl res"])
  fix f b clock page pjid job_id display env n st em res
  assume rec: "\<And>b clock page pjid job_id display env n st em res.
      f b clock page pjid job_id display env n st em = Some res \<Longrightarrow>
      \<exists>m st'. poll_tick b clock page pjid job_id display env m st' em = Inl res"
    and "(case poll_tick b clock page pjid job_id display env n st em of Inl res \<Rightarrow> Some res
          | Inr state \<Rightarrow> f b clock page pjid job_id display env (Suc n) state em) = Some res"
  then show "\<exists>m st'. poll_tick b clock page pjid job_id display env m st' em = Inl res"
    by (auto split: sum.splits dest!: rec)
qed

lemma poll_job_completion_ends:
  assumes "pe_client env = Inr ()"
    and "poll_job_completion b clock page pjid st job_id display env em = Some (res, em')"
  shows "\<exists>n evs. leaves em evs em' \<and> poll_end page (reported_state b pjid env n) res evs"
proof -
  from assms obtain m st' where "poll_tick b clock page pjid job_id display env m st' em = Inl (res, em')"
    using poll_loop_last_tick by (fastforce simp: poll_job_completion_def)
  from poll_tick_ends [OF this] show ?thesis by blast
qed

text \<open>
  Two rounds are at least two seconds apart, since \<open>std::thread::sleep\<close> never wakes early and
  \<open>Instant\<close> never goes back.
\<close>

definition ticks_apart :: "poll_env \<Rightarrow> bool" where
  "ticks_apart env \<longleftrightarrow> (\<forall>n. pe_start env + int n * (2 * 10 ^ 9) \<le> pe_now env n)"

lemma poll_tick_deadline:
  assumes "pe_start env + int (ipp_poll_timeout b) < pe_now env n"
  shows "\<exists>res. poll_tick b clock page pjid job_id display env n st em = Inl res"
  using assms by (simp add: poll_tick_def Let_def split: sum.split)

lemma poll_loop_returns:
  assumes "pe_start env + int (ipp_poll_timeout b) < pe_now env (n + k)"
  shows "\<exists>m \<le> n + k. \<exists>st' res. poll_tick b clock page pjid job_id display env m st' em = Inl res \<and>
           poll_loop b clock page pjid job_id display env n st em = Some res"
  using assms
proof (induction k arbitrary: n st)
  case 0
  then obtain res where res: "poll_tick b clock page pjid job_id display env n st em = Inl res"
    using poll_tick_deadline [of env b n] by fastforce
  then have "poll_loop b clock page pjid job_id display env n st em = Some res"
    by (subst poll_loop.simps) simp
  with res show ?case by (metis add_0_right order_refl)
next
  case (Suc k)
  show ?case
  proof (cases "poll_tick b clock page pjid job_id display env n st em")
    case (Inl res)
    then have "poll_loop b clock page pjid job_id display env n st em = Some res"
      by (subst poll_loop.simps) simp
    with Inl show ?thesis by (metis le_add1)
  next
    case (Inr st')
    then have "poll_loop b clock page pjid job_id display env n st em =
        poll_loop b clock page pjid job_id display env (Suc n) st' em"
      by (subst poll_loop.simps) simp
    with Suc.IH [of "Suc n" st'] Suc.prems show ?thesis by simp
  qed
qed

lemma poll_returns:
  assumes "ticks_apart env"
  shows "\<exists>res. poll_job_completion b clock page pjid st job_id display env em = Some res"
    and "pe_client env = Inr () \<Longrightarrow>
      \<exists>m \<le> ipp_poll_timeout b div (2 * 10 ^ 9) + 1. \<exists>st' res.
        poll_tick b clock page pjid job_id display env m st' em = Inl res \<and>
        poll_job_completion b clock page pjid st job_id display env em = Some res"
proof -
  define n where "n = ipp_poll_timeout b div (2 * 10 ^ 9) + 1"
  have "ipp_poll_timeout b < n * (2 * 10 ^ 9)"
    unfolding n_def using div_mult_mod_eq [of "ipp_poll_timeout b" "2 * 10 ^ 9"]
      mod_less_divisor [of "2 * 10 ^ 9" "ipp_poll_timeout b"] by (simp add: algebra_simps)
  then have "int (ipp_poll_timeout b) < int (n * (2 * 10 ^ 9))"
    by (simp only: of_nat_less_iff)
  then have "pe_start env + int (ipp_poll_timeout b) < pe_start env + int n * (2 * 10 ^ 9)"
    by simp
  also have "\<dots> \<le> pe_now env (0 + n)"
    using assms by (simp add: ticks_apart_def)
  finally have "\<exists>m \<le> n. \<exists>st' res. poll_tick b clock page pjid job_id display env m st' em = Inl res \<and>
      poll_loop b clock page pjid job_id display env 0 st em = Some res"
    using poll_loop_returns [of env b 0 n] by simp
  then show "\<exists>res. poll_job_completion b clock page pjid st job_id display env em = Some res"
    "pe_client env = Inr () \<Longrightarrow>
      \<exists>m \<le> ipp_poll_timeout b div (2 * 10 ^ 9) + 1. \<exists>st' res.
        poll_tick b clock page pjid job_id display env m st' em = Inl res \<and>
        poll_job_completion b clock page pjid st job_id display env em = Some res"
    unfolding n_def [symmetric] by (auto simp: poll_job_completion_def split: sum.split)
qed

section \<open>How a job ends\<close>

abbreviation stages :: "PrintJobEvent list \<Rightarrow> PrintStage list" where
  "stages \<equiv> map ev_stage"

definition verdicts :: "PrintJobEvent list \<Rightarrow> PrintStage list" where
  "verdicts evs = filter (\<lambda>st. st \<in> {PS_Failed, PS_Unconfirmed, PS_Completed}) (stages evs)"

lemma verdicts_simps [simp]:
  "verdicts [] = []" "verdicts (evs @ evs') = verdicts evs @ verdicts evs'"
  "verdicts (ev # evs) =
     (if ev_stage ev \<in> {PS_Failed, PS_Unconfirmed, PS_Completed} then ev_stage ev # verdicts evs else verdicts evs)"
  by (auto simp: verdicts_def)

text \<open>What a page leaves when it failed, and when it printed.\<close>

definition page_failed :: "DirectIpp \<Rightarrow> page_env \<Rightarrow> PageOfJob \<Rightarrow> anyerr \<Rightarrow> PrintJobEvent list \<Rightarrow> bool" where
  "page_failed b env page e evs \<longleftrightarrow>
     (if holds_unconfirmed e then verdicts evs = (if failure_is_the_jobs page then [PS_Unconfirmed] else [])
      else set (verdicts evs) \<subseteq> (if failure_is_the_jobs page then {PS_Failed} else {}) \<and>
           (PS_Acknowledged \<notin> set (stages evs) \<or>
            (\<exists>pjid n. reported_state b pjid (pv_poll env) n \<in> {Some 7, Some 8}) \<or> pe_client (pv_poll env) \<noteq> Inr ()))"

definition page_printed :: "DirectIpp \<Rightarrow> page_env \<Rightarrow> PageOfJob \<Rightarrow> PrintJobEvent list \<Rightarrow> bool" where
  "page_printed b env page evs \<longleftrightarrow>
     stages evs = [PS_Sending, PS_Acknowledged, PS_Verified, printed_stage page] \<and> list_all ev_success evs \<and>
     (\<exists>pjid n. reported_state b pjid (pv_poll env) n = Some 9)"

definition page_end :: "DirectIpp \<Rightarrow> page_env \<Rightarrow> PageOfJob \<Rightarrow> anyerr + unit \<Rightarrow> PrintJobEvent list \<Rightarrow> bool" where
  "page_end b env page res evs \<longleftrightarrow>
     (case res of Inl e \<Rightarrow> page_failed b env page e evs | Inr _ \<Rightarrow> page_printed b env page evs)"

lemma leaves_tell_ok: "leaves em [event_ok (stamp clock em) j st d] (tell_ok clock j st d em)"
  by (simp add: leaves_def tells)

lemma poll_end_page_end:
  assumes "poll_end page (reported_state b pjid (pv_poll env) n) res evs"
    and "stages pre = [PS_Sending, PS_Acknowledged]" "list_all ev_success pre"
  shows "page_end b env page res (pre @ evs)"
proof (cases res)
  case (Inl e)
  have pre: "verdicts pre = []" using assms(2) by (simp add: verdicts_def)
  from assms(1) Inl have st: "stages evs =
      (if failure_is_the_jobs page then [if holds_unconfirmed e then PS_Unconfirmed else PS_Failed] else [])"
    and "holds_unconfirmed e \<or> reported_state b pjid (pv_poll env) n \<in> {Some 7, Some 8}"
    by (simp_all add: poll_end_def)
  moreover have "verdicts evs = stages evs" using st by (simp add: verdicts_def split: if_splits)
  ultimately show ?thesis using Inl pre by (auto simp: page_end_def page_failed_def)
next
  case (Inr u)
  with assms show ?thesis by (auto simp: poll_end_def page_end_def page_printed_def)
qed

lemma job_answered_ends:
  assumes sending: "leaves em0 [sending] em" "ev_stage sending = PS_Sending" "ev_success sending"
    and answered: "job_answered b clock job display page env answer em = Some (res, em')"
    and penv: "pv_poll penv = env"
  shows "\<exists>evs. leaves em0 evs em' \<and> page_end b penv page res evs"
proof -
  have refused: ?thesis
    if "res = Inl e" "\<not> holds_unconfirmed e" "em' = page_failure page ev em" "ev_stage ev = PS_Failed" for e ev
    using that sending(2,3) leaves_append [OF sending(1) leaves_failure [of em page ev]]
    by (intro exI conjI) (auto simp: page_end_def page_failed_def)
  have polled: ?thesis
    if "poll_job_completion b clock page pjid st (pi_job_id job) display env
          (tell_ok clock (pi_job_id job) PS_Acknowledged d em) = Some (res, em')" for pjid st d
  proof (cases "pe_client env")
    case (Inl e)
    let ?pre = "[sending] @ [event_ok (stamp clock em) (pi_job_id job) PS_Acknowledged d]"
    have "leaves em0 ?pre em'" "res = Inl (Msg e)"
      using that Inl leaves_append [OF sending(1) leaves_tell_ok] by (auto simp: poll_job_completion_def)
    moreover have "page_end b penv page (Inl (Msg e)) ?pre"
      using sending(2) Inl penv by (simp add: page_end_def page_failed_def)
    ultimately show ?thesis by blast
  next
    case (Inr u)
    then have client: "pe_client env = Inr ()" by simp
    from poll_job_completion_ends [OF client that] obtain n evs
      where evs: "leaves (tell_ok clock (pi_job_id job) PS_Acknowledged d em) evs em'"
        "poll_end page (reported_state b pjid (pv_poll penv) n) res evs"
      using penv by blast
    let ?pre = "[sending] @ [event_ok (stamp clock em) (pi_job_id job) PS_Acknowledged d]"
    have "leaves em0 (?pre @ evs) em'"
      by (intro leaves_append [OF leaves_append [OF sending(1) leaves_tell_ok] evs(1)])
    moreover have "page_end b penv page res (?pre @ evs)"
      using sending(2,3) by (intro poll_end_page_end [OF evs(2)]) simp_all
    ultimately show ?thesis by blast
  qed
  show ?thesis
    using answered refused polled
    by (auto simp: job_answered_def fail_with_cause_def Let_def split: sum.splits if_splits)
qed

lemma send_ipp_job_ends:
  assumes sent: "send_ipp_job b clock job display page env em = Some (res, em')"
  shows "\<exists>evs. leaves em evs em' \<and> page_end b env page res evs"
proof (cases "pv_file env")
  case (Inl e)
  with sent show ?thesis by (auto simp: send_ipp_job_def page_end_def page_failed_def intro: exI [of _ "[]"])
next
  case (Inr raster)
  note step = leaves_tell_ok [of em clock "pi_job_id job" PS_Sending
      "''IPP Print-Job'' @ right_arrow @ display @ '' ('' @ ipp_address b @ '')''"]
  show ?thesis
  proof (cases "pv_client env")
    case (Inl e)
    with sent \<open>pv_file env = Inr raster\<close> step show ?thesis
      by (auto simp: send_ipp_job_def Let_def page_end_def page_failed_def intro!: exI)
  next
    case c: (Inr u)
    with sent \<open>pv_file env = Inr raster\<close> show ?thesis
      by (auto simp: send_ipp_job_def Let_def intro: job_answered_ends [OF step])
  qed
qed

lemma send_page_ends:
  assumes "send_page b clock job display page env em = Some (res, em')"
  shows "\<exists>evs. leaves em evs em' \<and> page_end b env page res evs"
proof (cases "pv_cancelled env")
  case True
  show ?thesis
  proof (cases "failure_is_the_jobs page")
    case True
    with \<open>pv_cancelled env\<close> assms show ?thesis
      by (auto simp: send_page_def bail_if_cancelled_def Let_def page_end_def page_failed_def tells
          intro!: exI [of _ "[event_fail (stamp clock em) (pi_job_id job) PS_Failed (cancel_text (cancel_point page))]"])
  next
    case False
    with \<open>pv_cancelled env\<close> assms show ?thesis
      by (auto simp: send_page_def Let_def page_end_def page_failed_def intro!: exI [of _ "[]"])
  qed
next
  case False
  with assms show ?thesis
    by (intro send_ipp_job_ends) (auto simp: send_page_def bail_if_cancelled_def Let_def split: if_splits)
qed

lemma printed_verdicts:
  "page_printed b env page evs \<Longrightarrow> verdicts evs = (if is_last_page page then [PS_Completed] else [])"
  by (simp add: page_printed_def verdicts_def printed_stage_def)

lemma later_page_fails:
  assumes "send_from b clock job display pages envs i em = Some (Inl e, em')"
    and "0 < i" and "i + length envs = pages"
  shows "holds_unconfirmed e \<and> (\<exists>evs. leaves em evs em' \<and> verdicts evs = [PS_Unconfirmed])"
  using assms
proof (induction envs arbitrary: i em)
  case (Cons env envs)
  let ?page = "\<lparr>pg_index = i, pg_pages = pages\<rparr>"
  have later: "\<not> failure_is_the_jobs ?page" using Cons.prems(2) by (simp add: failure_is_the_jobs_def)
  obtain res em1 where sent: "send_page b clock job display ?page env em = Some (res, em1)"
    using Cons.prems(1) by (auto simp: Let_def split: option.splits)
  then obtain evs where evs: "leaves em evs em1" "page_end b env ?page res evs"
    using send_page_ends by blast
  show ?case
  proof (cases res)
    case (Inl e1)
    let ?o = "after_accepted_pages i pages e1"
    let ?ev = "unconfirmed_event clock (pi_job_id job) ?o em1"
    have fin: "e = Unconf ?o" "em' = emit ?ev em1"
      using Cons.prems(1) sent Inl later by (simp_all add: Let_def)
    have "verdicts evs = []"
      using evs(2) Inl later by (simp add: page_end_def page_failed_def split: if_splits)
    then have "verdicts (evs @ [?ev]) = [PS_Unconfirmed]" by (simp add: unconfirmed_event_def)
    moreover have "leaves em (evs @ [?ev]) em'" unfolding fin by (intro leaves_append [OF evs(1)] leaves_one)
    ultimately show ?thesis using fin(1) by auto
  next
    case (Inr u)
    then have rest: "send_from b clock job display pages envs (Suc i) em1 = Some (Inl e, em')"
      using Cons.prems(1) sent by (simp add: Let_def)
    then have "envs \<noteq> []" by auto
    then have "verdicts evs = []"
      using evs(2) Inr Cons.prems(3) printed_verdicts by (fastforce simp: page_end_def is_last_page_def)
    with Cons.IH [OF rest] Cons.prems(3) leaves_append [OF evs(1)] show ?thesis by fastforce
  qed
qed simp

lemma all_pages_printed:
  assumes "send_from b clock job display pages envs i em = Some (Inr u, em')"
  shows "\<exists>evs. leaves em evs em' \<and> list_all ev_success evs \<and>
     stages evs = concat (map (\<lambda>k. [PS_Sending, PS_Acknowledged, PS_Verified,
                                 if Suc k = pages then PS_Completed else PS_Sent]) [i..<i + length envs]) \<and>
     list_all (\<lambda>env. \<exists>pjid n. reported_state b pjid (pv_poll env) n = Some 9) envs"
  using assms
proof (induction envs arbitrary: i em)
  case (Cons env envs)
  let ?page = "\<lparr>pg_index = i, pg_pages = pages\<rparr>"
  obtain em1 where sent: "send_page b clock job display ?page env em = Some (Inr (), em1)"
    and rest: "send_from b clock job display pages envs (Suc i) em1 = Some (Inr u, em')"
    using Cons.prems(1) by (auto simp: Let_def split: option.splits sum.splits if_splits)
  from sent obtain evs where evs: "leaves em evs em1" "page_printed b env ?page evs"
    using send_page_ends by (fastforce simp: page_end_def)
  from Cons.IH [OF rest] obtain evs' where evs': "leaves em1 evs' em'" "list_all ev_success evs'"
    "stages evs' = concat (map (\<lambda>k. [PS_Sending, PS_Acknowledged, PS_Verified,
        if Suc k = pages then PS_Completed else PS_Sent]) [Suc i..<Suc i + length envs])"
    "list_all (\<lambda>env. \<exists>pjid n. reported_state b pjid (pv_poll env) n = Some 9) envs"
    by auto
  have "[i..<i + length (env # envs)] = i # [Suc i..<Suc i + length envs]"
    by (subst upt_conv_Cons) simp_all
  with leaves_append [OF evs(1) evs'(1)] evs(2) evs'(2-4) show ?case
    by (intro exI [of _ "evs @ evs'"]) (simp add: page_printed_def printed_stage_def is_last_page_def)
qed (auto intro: exI [of _ "[]"])

lemma leaves_sender: "leaves em evs em' \<Longrightarrow> em_sender em' = em_sender em @ evs"
proof (unfold leaves_def, induction evs arbitrary: em)
  case (Cons ev evs)
  from Cons.IH [of "emit ev em"] Cons.prems show ?case by simp
qed simp

lemma send_pages_failed:
  assumes "send_pages b clock job envs display em = Some (Inl e, em')"
  shows "\<exists>evs. leaves em evs em' \<and>
     (if holds_unconfirmed e then verdicts evs = [PS_Unconfirmed]
      else set (verdicts evs) \<subseteq> {PS_Failed} \<and>
           (PS_Acknowledged \<notin> set (stages evs) \<or>
            (\<exists>pjid n. reported_state b pjid (pv_poll (hd envs)) n \<in> {Some 7, Some 8}) \<or>
            pe_client (pv_poll (hd envs)) \<noteq> Inr ()))"
proof (cases envs)
  case Nil
  with assms show ?thesis by (simp add: send_pages_def)
next
  case (Cons env rest)
  let ?page = "\<lparr>pg_index = 0, pg_pages = length envs\<rparr>"
  have first: "failure_is_the_jobs ?page" by (simp add: failure_is_the_jobs_def)
  obtain res em1 where sent: "send_page b clock job display ?page env em = Some (res, em1)"
    using assms Cons by (auto simp: send_pages_def Let_def split: option.splits)
  then obtain evs where evs: "leaves em evs em1" "page_end b env ?page res evs"
    using send_page_ends by blast
  show ?thesis
  proof (cases res)
    case (Inl e1)
    then have "e = e1" "em' = em1" using assms Cons sent first by (simp_all add: send_pages_def Let_def)
    with Inl evs first Cons show ?thesis
      by (intro exI [of _ evs]) (auto simp: page_end_def page_failed_def)
  next
    case (Inr u)
    then have later: "send_from b clock job display (length envs) rest (Suc 0) em1 = Some (Inl e, em')"
      using assms Cons sent by (simp add: send_pages_def Let_def)
    then have "rest \<noteq> []" by auto
    then have "verdicts evs = []"
      using evs(2) Inr Cons printed_verdicts by (fastforce simp: page_end_def is_last_page_def)
    moreover obtain evs' where "holds_unconfirmed e" "leaves em1 evs' em'" "verdicts evs' = [PS_Unconfirmed]"
      using later_page_fails [OF later] Cons by auto
    ultimately show ?thesis
      using leaves_append [OF evs(1)] by (intro exI [of _ "evs @ evs'"]) simp
  qed
qed

text \<open>
  C15. When a job of the direct IPP backend fails in a way the server retries, either no page of it was
  acknowledged, that is, no Print-Job was answered as accepted (a lost or unreadable answer is no
  acknowledgement), or the printer itself reported the first page as canceled or aborted, or the HTTP
  client for polling the first page could not be built. Every other failure is unconfirmed, says so with
  exactly one event, and leaves no \<open>failed\<close> event on the status stream. No failure leaves a \<open>completed\<close> event.
\<close>

theorem retried_only_if_not_printed:
  assumes "send_pages b clock job envs display em = Some (Inl e, em')"
  shows "\<exists>evs. em_sender em' = em_sender em @ evs \<and>
     (if holds_unconfirmed e then verdicts evs = [PS_Unconfirmed]
      else set (verdicts evs) \<subseteq> {PS_Failed} \<and>
           (PS_Acknowledged \<notin> set (stages evs) \<or>
            (\<exists>pjid n. reported_state b pjid (pv_poll (hd envs)) n \<in> {Some 7, Some 8}) \<or>
            pe_client (pv_poll (hd envs)) \<noteq> Inr ()))"
  using send_pages_failed [OF assms] leaves_sender by meson

text \<open>
  C27. A job of the direct IPP backend succeeds only when the printer reported every page as
  completed, and its events then are those of the pages in order, each sent, accepted and
  verified, with one \<open>completed\<close> event, the last of all.
\<close>

theorem printed_page_by_page:
  assumes "send_pages b clock job envs display em = Some (Inr (), em')"
  shows "\<exists>evs. em_sender em' = em_sender em @ evs \<and> list_all ev_success evs \<and>
     stages evs = concat (map (\<lambda>k. [PS_Sending, PS_Acknowledged, PS_Verified,
                          if Suc k = length envs then PS_Completed else PS_Sent]) [0..<length envs]) \<and>
     list_all (\<lambda>env. \<exists>pjid n. reported_state b pjid (pv_poll env) n = Some 9) envs"
  using all_pages_printed [OF assms [unfolded send_pages_def]] leaves_sender by fastforce

lemma send_page_returns:
  assumes "ticks_apart (pv_poll env)"
  shows "\<exists>res. send_page b clock job display page env em = Some res"
  using poll_returns(1) [OF assms]
  by (auto simp: send_page_def send_ipp_job_def job_answered_def fail_with_cause_def bail_if_cancelled_def
      Let_def split: sum.split)

lemma send_pages_ends:
  assumes "\<And>env. env \<in> set envs \<Longrightarrow> ticks_apart (pv_poll env)"
  shows "\<exists>res em'. send_pages b clock job envs display em = Some (res, em')"
proof -
  have "\<exists>res. send_from b clock job display pages envs i em = Some res" for pages i
    using assms
  proof (induction envs arbitrary: i em)
    case (Cons env envs)
    have "\<exists>res. send_page b clock job display page env em = Some res" for page
      using send_page_returns Cons.prems by simp
    moreover have "\<exists>res. send_from b clock job display pages envs (Suc i) em1 = Some res" for em1
      using Cons by simp
    ultimately show ?case by (fastforce simp: Let_def split: option.splits sum.splits)
  qed simp
  then show ?thesis by (auto simp: send_pages_def)
qed

text \<open>
  C16. A job of the direct IPP backend always ends, whatever the printer answers, when two polls
  are at least two seconds apart.
\<close>

theorem send_pages_returns:
  assumes "\<And>env. env \<in> set envs \<Longrightarrow> ticks_apart (pv_poll env)"
  shows "\<exists>res em'. send_pages b clock job envs display em = Some (res, em')"
  using assms by (rule send_pages_ends)

section \<open>A printer\<close>

text \<open>A printer that accepts every Print-Job and reports one job state to every poll.\<close>

definition state_answer :: "u32 \<Rightarrow> u8 list" where
  "state_answer s = ipp_header 0 101 @ [JOB_ATTRIBUTES_TAG] @ write_attribute 0x23 ''job-state'' (be32 s) @
     [END_OF_ATTRIBUTES_TAG]"

definition sample_page :: "u32 \<Rightarrow> page_env" where
  "sample_page s =
     \<lparr>pv_cancelled = False, pv_file = Inr [0x25], pv_client = Inr (), pv_post = (\<lambda>_. Inr (state_answer 3)),
      pv_poll = \<lparr>pe_client = Inr (), pe_start = 0, pe_cancelled = (\<lambda>_. False),
                 pe_answer = (\<lambda>_ _. Inr (state_answer s)), pe_now = (\<lambda>n. int n * (2 * 10 ^ 9))\<rparr>\<rparr>"

definition sample_print :: PrintJobInfo where
  "sample_print = \<lparr>pi_job_id = ''j'', pi_document_name = ''d'', pi_copies = 1, pi_duplex = False, pi_color = True,
     pi_printer_name = ''P'', pi_printer_display_name = None\<rparr>"

lemma parse_state_answer:
  "parse_response (state_answer s) =
     Inr \<lparr>ir_status_code = 0, ir_request_id = 101, ir_attributes = [attr 0x23 ''job-state'' (be32 s)]\<rparr>"
proof -
  have "writable 0x23 ''job-state'' (be32 s)" by (simp add: writable_def bytes_of_def utf8_defs)
  then show ?thesis
    by (simp add: state_answer_def parse_header parse_written parse_end parse_group group_tags)
qed

lemma sample_state: "i32_of ''job-state'' \<lparr>ir_status_code = c, ir_request_id = r, ir_attributes = [attr 0x23 ''job-state'' (be32 s)]\<rparr> = sint s"
  by (simp add: i32_of_def ipp_get_def attr_def as_i32_be32)

lemma sample_reported: "reported_state b pjid (pv_poll (sample_page s)) n = Some (sint s)"
  by (simp add: reported_state_def sample_page_def parse_state_answer sample_state)

lemma sample_ticks: "ticks_apart (pv_poll (sample_page s))" "pe_client (pv_poll (sample_page s)) = Inr ()"
  by (simp_all add: ticks_apart_def sample_page_def)

lemma sample_tick:
  "s = 9 \<Longrightarrow> \<exists>em'. poll_tick b clock page pjid j d (pv_poll (sample_page s)) n st em = Inl (Inr (), em')"
  "s = 8 \<Longrightarrow> \<exists>m em'. poll_tick b clock page pjid j d (pv_poll (sample_page s)) n st em = Inl (Inl (Msg m), em')"
  by (simp_all add: poll_tick_def sample_page_def parse_state_answer sample_state CLIENT_ERROR_NOT_FOUND_def Let_def)

lemma sample_accepted:
  "\<exists>pjid em1. send_page b clock job d page (sample_page s) em =
     poll_loop b clock page pjid (pi_job_id job) d (pv_poll (sample_page s)) 0 3 em1"
  by (simp add: send_page_def send_ipp_job_def job_answered_def bail_if_cancelled_def poll_job_completion_def
      sample_page_def parse_state_answer is_success_def sample_state Let_def) blast

lemma sample_sent:
  "\<exists>em'. send_page b clock job d page (sample_page 9) em = Some (Inr (), em')"
  "\<exists>m em'. send_page b clock job d page (sample_page 8) em = Some (Inl (Msg m), em')"
proof -
  obtain pjid em1 where e: "send_page b clock job d page (sample_page 9) em =
      poll_loop b clock page pjid (pi_job_id job) d (pv_poll (sample_page 9)) 0 3 em1"
    using sample_accepted by blast
  obtain em' where "poll_tick b clock page pjid (pi_job_id job) d (pv_poll (sample_page 9)) 0 3 em1 = Inl (Inr (), em')"
    using sample_tick(1) by blast
  then show "\<exists>em'. send_page b clock job d page (sample_page 9) em = Some (Inr (), em')"
    unfolding e by (subst poll_loop.simps) simp
next
  obtain pjid em1 where e: "send_page b clock job d page (sample_page 8) em =
      poll_loop b clock page pjid (pi_job_id job) d (pv_poll (sample_page 8)) 0 3 em1"
    using sample_accepted by blast
  obtain m em' where "poll_tick b clock page pjid (pi_job_id job) d (pv_poll (sample_page 8)) 0 3 em1 = Inl (Inl (Msg m), em')"
    using sample_tick(2) by blast
  then show "\<exists>m em'. send_page b clock job d page (sample_page 8) em = Some (Inl (Msg m), em')"
    unfolding e by (subst poll_loop.simps) simp
qed

definition sample_ipp :: DirectIpp where
  "sample_ipp = DirectIpp_new ''10.0.0.9'' ''jpeg'' 600 False"

theorem retried_only_if_not_printed_witness:
  "\<exists>e em' evs.
     send_pages sample_ipp (\<lambda>n. int n) sample_print [sample_page 9, sample_page 8] ''P'' emitter_new = Some (Inl e, em') \<and>
     holds_unconfirmed e \<and> em_sender em' = evs \<and> verdicts evs = [PS_Unconfirmed]"
proof -
  obtain em1 where p1: "send_page sample_ipp (\<lambda>n. int n) sample_print ''P'' \<lparr>pg_index = 0, pg_pages = Suc (Suc 0)\<rparr>
      (sample_page 9) emitter_new = Some (Inr (), em1)"
    using sample_sent(1) by blast
  obtain m em2 where p2: "send_page sample_ipp (\<lambda>n. int n) sample_print ''P'' \<lparr>pg_index = Suc 0, pg_pages = Suc (Suc 0)\<rparr>
      (sample_page 8) em1 = Some (Inl (Msg m), em2)"
    using sample_sent(2) by blast
  obtain e em' where r:
    "send_pages sample_ipp (\<lambda>n. int n) sample_print [sample_page 9, sample_page 8] ''P'' emitter_new = Some (Inl e, em')"
    "holds_unconfirmed e"
    by (simp add: send_pages_def p1 p2 failure_is_the_jobs_def Let_def)
  from retried_only_if_not_printed [OF r(1)] r sample_ticks show ?thesis
    by (fastforce simp: emitter_new_def)
qed

theorem printed_page_by_page_witness:
  "\<exists>em'. send_pages sample_ipp (\<lambda>n. int n) sample_print [sample_page 9, sample_page 9] ''P'' emitter_new = Some (Inr (), em') \<and>
     stages (em_sender em') =
       [PS_Sending, PS_Acknowledged, PS_Verified, PS_Sent, PS_Sending, PS_Acknowledged, PS_Verified, PS_Completed]"
proof -
  obtain em1 where p1: "send_page sample_ipp (\<lambda>n. int n) sample_print ''P'' \<lparr>pg_index = 0, pg_pages = Suc (Suc 0)\<rparr>
      (sample_page 9) emitter_new = Some (Inr (), em1)"
    using sample_sent(1) by blast
  obtain em2 where p2: "send_page sample_ipp (\<lambda>n. int n) sample_print ''P'' \<lparr>pg_index = Suc 0, pg_pages = Suc (Suc 0)\<rparr>
      (sample_page 9) em1 = Some (Inr (), em2)"
    using sample_sent(1) by blast
  have r: "send_pages sample_ipp (\<lambda>n. int n) sample_print [sample_page 9, sample_page 9] ''P'' emitter_new =
      Some (Inr (), em2)"
    by (simp add: send_pages_def p1 p2 Let_def)
  from printed_page_by_page [OF r] r sample_ticks(2) show ?thesis
    by (fastforce simp: emitter_new_def upt_rec)
qed

theorem send_pages_returns_witness:
  "\<exists>res em'. send_pages sample_ipp (\<lambda>n. int n) sample_print [sample_page 5] ''P'' emitter_new = Some (res, em')"
  using send_pages_returns [of "[sample_page 5]" sample_ipp "\<lambda>n. int n" sample_print "''P''" emitter_new] sample_ticks(1)
  by simp

text \<open>
  A poll whose HTTP client cannot be built fails an accepted job the way a refused one fails, so
  the server sends it again although the printer holds it.
\<close>

theorem accepted_job_retried:
  "\<exists>em'. send_pages sample_ipp (\<lambda>n. int n) sample_print
       [(sample_page 9)\<lparr>pv_poll := (pv_poll (sample_page 9))\<lparr>pe_client := Inl ''builder error''\<rparr>\<rparr>] ''P'' emitter_new =
         Some (Inl (Msg ''builder error''), em') \<and> em_printer_accepted em' \<and>
     \<not> is_unconfirmed (Inl (Msg ''builder error''))"
  by (simp add: send_pages_def send_page_def send_ipp_job_def job_answered_def bail_if_cancelled_def
      poll_job_completion_def sample_page_def parse_state_answer is_success_def sample_state failure_is_the_jobs_def
      is_unconfirmed_def tells accepts_def Let_def)

end
