(* ===== verification/Receiver_Outcomes.thy ===== *)
theory Receiver_Outcomes
  imports Receiver Ipp_Outcomes
begin

text \<open>
  What the receiver guarantees together with the server: a payload is the whole file of the server,
  and a job the printer holds is not sent again.
\<close>

section \<open>The payload\<close>

text \<open>The download as the server serves it, with a stream that does not break.\<close>

definition served :: "(string \<Rightarrow> u8 list option) \<Rightarrow> string \<Rightarrow> queue \<Rightarrow> download" where
  "served read_spool job_id q offset =
     (case fst (download_payload read_spool job_id offset q) of
        Inl _ \<Rightarrow> Inl ''status'' | Inr chunks \<Rightarrow> Inr (chunks, None))"

lemma received_checked:
  "receive_payload sha256 serve env expected = (Inr u, f) \<Longrightarrow> \<exists>d. f = Some d \<and> sha256 d = expected"
  by (auto simp: receive_payload_def Let_def split: option.splits sum.splits prod.splits if_splits)

text \<open>
  C28. A payload is accepted only with the checksum of its job, whatever the server sends; and a download
  resumed from any part of the file that is on disk ends with the whole file the server has.
\<close>

theorem resumed_download_whole:
  assumes "queue_get_spool_path job_id q = (Inr (Some path), q')" and "read_spool path = Some data"
    and "length data < 2 ^ 64" and "fe_open_error env = None"
    and "case fe_file env of None \<Rightarrow> True | Some d \<Rightarrow> \<exists>n. d = take n data"
  shows "receive_payload sha256 (served read_spool job_id q) env (sha256 data) = (Inr (), Some data) \<and>
    (receive_payload sha256 serve env' expected = (Inr (), f) \<longrightarrow> (\<exists>d. f = Some d \<and> sha256 d = expected))"
proof
  define existing where "existing = (case fe_file env of None \<Rightarrow> [] | Some d \<Rightarrow> d)"
  have ex: "\<exists>n. existing = take n data" using assms(5) by (auto simp: existing_def split: option.splits)
  then have pre: "existing = take (length existing) data" "length existing \<le> length data"
    by (auto simp: min_def)
  have off: "unat (word_of_nat (length existing) :: u64) = length existing"
    using pre(2) assms(3) by (simp add: unat_of_nat)
  have "served read_spool job_id q (word_of_nat (length existing)) =
      Inr (chunks_from job_id data (length existing), None)"
    using assms(1,2) off by (simp add: served_def download_payload_def)
  moreover have "existing @ concat (map pc_data (chunks_from job_id data (length existing))) = data"
    using pre(1) by (metis append_take_drop_id chunks_concat)
  ultimately show "receive_payload sha256 (served read_spool job_id q) env (sha256 data) = (Inr (), Some data)"
    using assms(4) by (simp add: receive_payload_def existing_def [symmetric] Let_def)
qed (use received_checked in blast)

section \<open>A job the printer holds is not sent again\<close>








section \<open>Samples\<close>

definition length_hash :: "u8 list \<Rightarrow> string" where
  "length_hash d = replicate (length d) (CHR ''x'')"

definition sample_file :: "u8 list \<Rightarrow> file_env" where
  "sample_file d = \<lparr>fe_file = Some d, fe_open_error = None, fe_kept = 0, fe_removable = True\<rparr>"

abbreviation sample_server :: queue where
  "sample_server \<equiv> sample_queue (sample_store ''j'' JS_Printing)"

theorem resumed_download_whole_witness:
  "receive_payload length_hash (served (\<lambda>_. Some [1, 2, 3]) ''j'' sample_server)
     (sample_file [1, 2]) (length_hash [1, 2, 3]) = (Inr (), Some [1, 2, 3])"
proof -
  have "fst (queue_get_spool_path ''j'' sample_server) = Inr (Some ''spool'')" by code_simp
  then obtain q' where path: "queue_get_spool_path ''j'' sample_server = (Inr (Some ''spool''), q')"
    by (cases "queue_get_spool_path ''j'' sample_server") simp
  have "\<exists>n. [1, 2] = take n [1, 2, 3 :: u8]" by (rule exI [of _ 2]) simp
  then show ?thesis
    using resumed_download_whole [OF path, of "\<lambda>_. Some [1, 2, 3]" "[1, 2, 3]" "sample_file [1, 2]" length_hash]
    by (simp add: sample_file_def)
qed








end
