(* ===== verification/Label_Ledger.thy ===== *)
theory Label_Ledger
  imports Prelude
begin

text \<open>
  The durable ledger of the Odoo label source (\<open>crates/devbridge-client/src/odoo_source/ledger.rs\<close>): one
  row per label line, written before its bytes reach the spooler. A row is \<open>sending\<close> or \<open>done\<close>; \<open>sent\<close>
  says that the bytes were handed to the spooler, \<open>acked\<close> and \<open>ack_note\<close> what Odoo answered.
\<close>

section \<open>Rows and entries\<close>

datatype LineState = Line_Sending | Line_Done

datatype AckState = Ack_Owed | Ack_Accepted | Ack_Refused

record line_row =
  ll_line_id :: int
  ll_batch_id :: int
  ll_state :: string
  ll_printed_qty :: int
  ll_error :: "string option"
  ll_acked :: int
  ll_sent :: int
  ll_ack_note :: "string option"
  ll_created_at :: instant
  ll_updated_at :: instant

record LedgerEntry =
  le_line_id :: int
  le_batch_id :: int
  le_state :: LineState
  le_printed_qty :: int
  le_error :: "string option"
  le_ack :: AckState
  le_sent :: bool

type_synonym ledger = "line_row list conn"

definition INTERRUPTED_REASON :: string where
  "INTERRUPTED_REASON =
     ''interrupted: devbridge client restarted before print verification - check the printer, reprint manually if missing''"

definition ACK_NOTE_OK :: string where "ACK_NOTE_OK = ''ok''"
definition ACK_NOTE_DUPLICATE :: string where "ACK_NOTE_DUPLICATE = ''duplicate''"
definition ACK_NOTE_REFUSED_PREFIX :: string where "ACK_NOTE_REFUSED_PREFIX = ''refused: ''"

definition ack_state :: "bool \<Rightarrow> string option \<Rightarrow> AckState" where
  "ack_state acked note =
     (if \<not> acked then Ack_Owed
      else case note of
        Some n \<Rightarrow> if starts_with ACK_NOTE_REFUSED_PREFIX n then Ack_Refused else Ack_Accepted
      | None \<Rightarrow> Ack_Accepted)"

definition ledger_entry :: "line_row \<Rightarrow> LedgerEntry" where
  "ledger_entry r =
     \<lparr>le_line_id = ll_line_id r, le_batch_id = ll_batch_id r,
      le_state = (if ll_state r = ''sending'' then Line_Sending else Line_Done),
      le_printed_qty = ll_printed_qty r, le_error = ll_error r,
      le_ack = ack_state (ll_acked r \<noteq> 0) (ll_ack_note r), le_sent = (ll_sent r \<noteq> 0)\<rparr>"

section \<open>Operations\<close>

definition ledger_get :: "int \<Rightarrow> (ledger, LedgerEntry option) op" where
  "ledger_get line_id = query (\<lambda>t. Inr (map_option ledger_entry (row_of ll_line_id line_id t)))"

definition sending_row :: "instant \<Rightarrow> int \<Rightarrow> int \<Rightarrow> line_row" where
  "sending_row now batch_id line_id =
     \<lparr>ll_line_id = line_id, ll_batch_id = batch_id, ll_state = ''sending'', ll_printed_qty = 0, ll_error = None,
      ll_acked = 0, ll_sent = 1, ll_ack_note = None, ll_created_at = now, ll_updated_at = now\<rparr>"

definition insert_sending :: "instant \<Rightarrow> int \<Rightarrow> int \<Rightarrow> (ledger, unit) op" where
  "insert_sending now batch_id line_id =
     sql (\<lambda>t. if line_id \<in> ll_line_id ` set t then (Inl (ConstraintErr ''line already recorded''), t)
              else (Inr (), t @ [sending_row now batch_id line_id]))"

definition mark_sending :: "instant \<Rightarrow> int \<Rightarrow> int list \<Rightarrow> (ledger, unit) op" where
  "mark_sending now batch_id line_ids =
     transaction
       (try_op tx_mark (\<lambda>_.
        try_op (for_op line_ids (insert_sending now batch_id)) (\<lambda>_. tx_mark)))"

definition result_row :: "instant \<Rightarrow> int \<Rightarrow> int \<Rightarrow> int \<Rightarrow> string option \<Rightarrow> line_row" where
  "result_row now batch_id line_id printed_qty error =
     \<lparr>ll_line_id = line_id, ll_batch_id = batch_id, ll_state = ''done'', ll_printed_qty = printed_qty, ll_error = error,
      ll_acked = 0, ll_sent = 0, ll_ack_note = None, ll_created_at = now, ll_updated_at = now\<rparr>"

definition record_result :: "instant \<Rightarrow> int \<Rightarrow> int \<Rightarrow> int \<Rightarrow> string option \<Rightarrow> (ledger, unit) op" where
  "record_result now batch_id line_id printed_qty error =
     sql (\<lambda>t. (Inr (),
       if line_id \<in> ll_line_id ` set t
       then upd_where (\<lambda>r. ll_line_id r = line_id)
              (\<lambda>r. r\<lparr>ll_state := ''done'', ll_printed_qty := printed_qty, ll_error := error, ll_acked := 0,
                     ll_ack_note := None, ll_updated_at := now\<rparr>) t
       else t @ [result_row now batch_id line_id printed_qty error]))"

definition ledger_mark_acked :: "instant \<Rightarrow> int \<Rightarrow> string \<Rightarrow> (ledger, unit) op" where
  "ledger_mark_acked now line_id note =
     sql (\<lambda>t. (Inr (), upd_where (\<lambda>r. ll_line_id r = line_id)
                         (\<lambda>r. r\<lparr>ll_acked := 1, ll_ack_note := Some note, ll_updated_at := now\<rparr>) t))"

definition ledger_reopen_ack :: "int \<Rightarrow> (ledger, unit) op" where
  "ledger_reopen_ack line_id =
     sql (\<lambda>t. (Inr (), upd_where (\<lambda>r. ll_line_id r = line_id \<and> ll_state r = ''done'') (\<lambda>r. r\<lparr>ll_acked := 0\<rparr>) t))"

definition forget :: "int \<Rightarrow> (ledger, unit) op" where
  "forget line_id = sql (\<lambda>t. (Inr (), delete_where (\<lambda>r. ll_line_id r = line_id) t))"

definition pending_acks :: "(ledger, LedgerEntry list) op" where
  "pending_acks =
     query (\<lambda>t. Inr (map ledger_entry
       (sort_key ll_batch_id (sort_key ll_line_id (filter (\<lambda>r. ll_state r = ''done'' \<and> ll_acked r = 0) t)))))"

definition recover_interrupted :: "instant \<Rightarrow> (ledger, int list) op" where
  "recover_interrupted now =
     transaction
       (try_op tx_mark (\<lambda>_.
        try_op (query (\<lambda>t. Inr (map ll_line_id (filter (\<lambda>r. ll_state r = ''sending'') t)))) (\<lambda>ids.
        try_op (sql (\<lambda>t. (Inr (), upd_where (\<lambda>r. ll_state r = ''sending'')
                  (\<lambda>r. r\<lparr>ll_state := ''done'', ll_printed_qty := 0, ll_error := Some INTERRUPTED_REASON,
                         ll_acked := 0, ll_updated_at := now\<rparr>) t))) (\<lambda>_.
        try_op tx_mark (\<lambda>_. ok ids)))))"

definition LEDGER_PRUNE_AFTER :: int where "LEDGER_PRUNE_AFTER = 90 * 86400 * 10 ^ 9"

text \<open>\<open>ack_note NOT LIKE 'refused: %'\<close>; \<open>LIKE\<close> ignores the case of ASCII letters.\<close>

definition ledger_prunable :: "instant \<Rightarrow> line_row \<Rightarrow> bool" where
  "ledger_prunable now r \<longleftrightarrow>
     ll_acked r = 1 \<and> ll_updated_at r < now - LEDGER_PRUNE_AFTER \<and>
     (case ll_ack_note r of
        None \<Rightarrow> True
      | Some note \<Rightarrow> \<not> starts_with ACK_NOTE_REFUSED_PREFIX (map ascii_lower note))"

definition ledger_prune :: "instant \<Rightarrow> (ledger, nat) op" where
  "ledger_prune now =
     sql (\<lambda>t. (Inr (count_where (ledger_prunable now) t), delete_where (ledger_prunable now) t))"

section \<open>A sent line stays sent\<close>

definition sent_in :: "int \<Rightarrow> line_row list \<Rightarrow> bool" where
  "sent_in k t \<longleftrightarrow> (\<exists>r. row_of ll_line_id k t = Some r \<and> ll_sent r \<noteq> 0)"

text \<open>The table stays keyed, and the line stays sent once it was.\<close>

definition remembers :: "int \<Rightarrow> line_row list \<Rightarrow> line_row list \<Rightarrow> bool" where
  "remembers k t t' \<longleftrightarrow> (keyed ll_line_id t \<longrightarrow> keyed ll_line_id t' \<and> (sent_in k t \<longrightarrow> sent_in k t'))"

abbreviation ledger_remembers :: "int \<Rightarrow> ledger \<Rightarrow> ledger \<Rightarrow> bool" where
  "ledger_remembers k \<equiv> (\<lambda>c c'. remembers k (cn_db c) (cn_db c'))"

interpretation ledger: step_relation "ledger_remembers k" for k
  by unfold_locales (auto simp: remembers_def)

lemma remembers_refl [simp]: "remembers k t t"
  by (simp add: remembers_def)

lemma remembers_snoc: "ll_line_id r \<notin> ll_line_id ` set t \<Longrightarrow> remembers k t (t @ [r])"
  by (auto simp: remembers_def keyed_snoc sent_in_def row_of_append split: option.splits)

lemma remembers_upd:
  assumes "\<And>r. ll_line_id (f r) = ll_line_id r" and "\<And>r. ll_sent (f r) = ll_sent r"
  shows "remembers k t (upd_where P f t)"
proof -
  have "sent_in k (upd_where P f t) \<longleftrightarrow> sent_in k t"
    using assms by (cases "row_of ll_line_id k t") (auto simp: sent_in_def row_of_upd_where)
  with assms(1) show ?thesis by (simp add: remembers_def keyed_upd_where)
qed

named_theorems ledger_keeps "operations that remember what was sent"

lemma keeps_tx_mark [ledger_keeps]: "moves (ledger_remembers k) tx_mark"
  unfolding tx_mark_def by (rule moves_sql) auto

lemma keeps_get [ledger_keeps]: "moves (ledger_remembers k) (ledger_get line_id)"
  unfolding ledger_get_def by (rule moves_query) simp

lemma keeps_pending [ledger_keeps]: "moves (ledger_remembers k) pending_acks"
  unfolding pending_acks_def by (rule moves_query) simp

lemma keeps_result [ledger_keeps]: "moves (ledger_remembers k) (record_result now b l q e)"
  unfolding record_result_def
  by (rule moves_sql) (auto intro!: remembers_upd remembers_snoc simp: result_row_def split: if_splits)

lemma keeps_acked [ledger_keeps]: "moves (ledger_remembers k) (ledger_mark_acked now l note)"
  unfolding ledger_mark_acked_def by (rule moves_sql) (auto intro!: remembers_upd)

lemma keeps_reopen [ledger_keeps]: "moves (ledger_remembers k) (ledger_reopen_ack l)"
  unfolding ledger_reopen_ack_def by (rule moves_sql) (auto intro!: remembers_upd)

lemma keeps_insert_sending [ledger_keeps]: "moves (ledger_remembers k) (insert_sending now b l)"
  unfolding insert_sending_def
  by (rule moves_sql) (auto intro!: remembers_snoc simp: sending_row_def split: if_splits)

lemma keeps_mark_sending [ledger_keeps]: "moves (ledger_remembers k) (mark_sending now b ls)"
  unfolding mark_sending_def by (intro moves_transaction ledger.moves_rules ledger_keeps) simp

lemma keeps_recover [ledger_keeps]: "moves (ledger_remembers k) (recover_interrupted now)"
proof -
  have "moves (ledger_remembers k) (sql (\<lambda>t. (Inr (), upd_where (\<lambda>r. ll_state r = ''sending'')
      (\<lambda>r. r\<lparr>ll_state := ''done'', ll_printed_qty := 0, ll_error := Some INTERRUPTED_REASON,
             ll_acked := 0, ll_updated_at := now\<rparr>) t)))"
    by (rule moves_sql) (auto intro!: remembers_upd)
  then show ?thesis
    unfolding recover_interrupted_def
    by (intro moves_transaction ledger.moves_rules ledger_keeps moves_query) simp_all
qed

text \<open>Pruning keeps a row that is not prunable, forgetting keeps the other lines.\<close>

lemma prune_remembers:
  assumes "\<And>r. row_of ll_line_id k (cn_db c) = Some r \<Longrightarrow> \<not> ledger_prunable now r"
    and "ledger_prune now c = (res, c')"
  shows "ledger_remembers k c c'"
proof (cases res)
  case (Inl e)
  with assms(2) show ?thesis by (auto simp: ledger_prune_def dest: sql_InlD)
next
  case (Inr n)
  with assms(2) have "cn_db c' = delete_where (ledger_prunable now) (cn_db c)"
    by (auto simp: ledger_prune_def dest: sql_InrD)
  with assms(1) show ?thesis
    by (auto simp: remembers_def sent_in_def keyed_delete_where row_of_delete_where)
qed

lemma forget_remembers:
  assumes "\<not> sent_in l (cn_db c)" and "forget l c = (res, c')"
  shows "ledger_remembers k c c'"
proof (cases res)
  case (Inl e)
  with assms(2) show ?thesis by (auto simp: forget_def dest: sql_InlD)
next
  case (Inr n)
  with assms(2) have "cn_db c' = delete_where (\<lambda>r. ll_line_id r = l) (cn_db c)"
    by (auto simp: forget_def dest: sql_InrD)
  moreover have "sent_in k (cn_db c) \<Longrightarrow> k \<noteq> l" using assms(1) by auto
  ultimately show ?thesis
    by (auto simp: remembers_def sent_in_def keyed_delete_where row_of_delete_where dest: row_of_SomeD)
qed

text \<open>Marking lines as sending succeeds only for lines no row knows, each once, and then all are sent.\<close>

lemma insert_sending_Inr:
  "insert_sending now b l c = (Inr u, c') \<Longrightarrow>
     l \<notin> ll_line_id ` set (cn_db c) \<and> cn_db c' = cn_db c @ [sending_row now b l]"
  by (auto simp: insert_sending_def dest!: sql_InrD split: if_splits)

lemma inserts_Inr:
  "for_op ls (insert_sending now b) c = (Inr u, c') \<Longrightarrow>
     distinct ls \<and> set ls \<inter> ll_line_id ` set (cn_db c) = {} \<and> cn_db c' = cn_db c @ map (sending_row now b) ls"
proof (induction ls arbitrary: c)
  case (Cons l ls)
  then obtain c1 where 1: "insert_sending now b l c = (Inr (), c1)"
    and 2: "for_op ls (insert_sending now b) c1 = (Inr u, c')"
    by (auto elim!: try_op_InrE)
  from insert_sending_Inr [OF 1] Cons.IH [OF 2] show ?case by (auto simp: sending_row_def)
qed (simp add: ok_def)

lemma mark_sending_Inr:
  assumes "mark_sending now b ls c = (Inr u, c')"
  shows "distinct ls \<and> set ls \<inter> ll_line_id ` set (cn_db c) = {} \<and>
     cn_db c' = cn_db c @ map (sending_row now b) ls"
proof -
  obtain c1 c2 where "tx_mark c = (Inr (), c1)" "for_op ls (insert_sending now b) c1 = (Inr (), c2)"
    "tx_mark c2 = (Inr u, c')"
    using assms unfolding mark_sending_def by (auto dest!: transaction_InrD elim!: try_op_InrE)
  then show ?thesis using inserts_Inr [of ls now b c1 "()" c2] by (auto simp: tx_mark_def dest!: sql_InrD)
qed

lemma mark_sending_sent:
  assumes "mark_sending now b ls c = (Inr u, c')" and "keyed ll_line_id (cn_db c)"
  shows "keyed ll_line_id (cn_db c')" and "l \<in> set ls \<Longrightarrow> sent_in l (cn_db c')"
    and "l \<in> set ls \<Longrightarrow> \<not> sent_in l (cn_db c)"
proof -
  from mark_sending_Inr [OF assms(1)] have ls: "distinct ls" "set ls \<inter> ll_line_id ` set (cn_db c) = {}"
    and db: "cn_db c' = cn_db c @ map (sending_row now b) ls" by auto
  have ids: "map ll_line_id (map (sending_row now b) ls) = ls" by (simp add: sending_row_def comp_def)
  show "keyed ll_line_id (cn_db c')"
    unfolding db keyed_def map_append ids using assms(2) ls by (auto simp: keyed_def)
  moreover assume l: "l \<in> set ls"
  ultimately have "row_of ll_line_id (ll_line_id (sending_row now b l)) (cn_db c') = Some (sending_row now b l)"
    using db by (intro keyed_row_of) auto
  then show "sent_in l (cn_db c')" by (simp add: sent_in_def sending_row_def)
  show "\<not> sent_in l (cn_db c)" using ls(2) l by (auto simp: sent_in_def dest: row_of_Some_key)
qed

end
