(* ===== verification/Label_Source.thy ===== *)
theory Label_Source
  imports Label_Ledger Print_Task Device_Api Job_Queue
begin

text \<open>
  The Odoo label source (\<open>crates/devbridge-client/src/odoo_source/mod.rs\<close>, the messages of \<open>rpc.rs\<close>):
  one poll sends the owed acks, fetches a batch, decides each of its lines against the ledger,
  spools the printable ones as one document and sends the acks again.

  The answers of Odoo, the label encoder, the check of a batch's label size, the spool
  directory and the print itself are parameters. The documents handed to
  the printer are logged in \<open>ls_spooled\<close>, each as the ids of its lines. A crash between two
  statements leaves the state of a failure of the second one, so runs with failing statements
  cover crashes.
\<close>

section \<open>Messages\<close>

datatype BatchNumber = BN_Absent | BN_Number rat | BN_NotANumber string

record BatchLabelSize =
  bl_width_mm :: BatchNumber
  bl_height_mm :: BatchNumber
  bl_dpi :: BatchNumber

text \<open>Labels on a roll (\<open>tspl.rs\<close>, \<open>layout.rs\<close>, \<open>label_size.rs\<close>); a size in millimetres is a finite \<open>f64\<close>.\<close>

record LabelGeometry =
  lg_width_mm :: rat
  lg_height_mm :: rat
  lg_dpi :: u32
  lg_rotate_180 :: bool
  lg_x_offset_dots :: int
  lg_y_offset_dots :: int

record MonoBitmap =
  mb_width :: u32
  mb_height :: u32
  mb_width_bytes :: u32
  mb_data :: "u8 list"

record DotRect =
  dr_x0 :: u32
  dr_y0 :: u32
  dr_x1 :: u32
  dr_y1 :: u32

record LabelLayout =
  lo_png :: "u32 \<times> u32"
  lo_canvas :: "u32 \<times> u32"
  lo_rotate_180 :: bool
  lo_bitmap_at :: "u32 \<times> u32"
  lo_ink :: "DotRect option"
  lo_ink_cropped :: bool

record PlacedLabel =
  pb_bitmap :: MonoBitmap
  pb_layout :: LabelLayout

record Roll =
  ro_width_mm :: rat
  ro_height_mm :: rat

definition Roll_of :: "LabelGeometry \<Rightarrow> Roll" where
  "Roll_of geometry = \<lparr>ro_width_mm = lg_width_mm geometry, ro_height_mm = lg_height_mm geometry\<rparr>"

record NextLine =
  nl_line_id :: int
  nl_sequence :: int
  nl_product_name :: string
  nl_print_qty :: int
  nl_best_before :: string
  nl_label_png_base64 :: string
  nl_line_type :: string

record InvalidLine =
  il_line_id :: "int option"
  il_reason :: string

record NextBatch =
  nb_batch_id :: "int option"
  nb_production_date :: string
  nb_lines :: "NextLine list"
  nb_invalid :: "InvalidLine list"
  nb_label_size :: BatchLabelSize

definition lines_in_order :: "NextBatch \<Rightarrow> NextLine list" where
  "lines_in_order batch = sort_key nl_sequence (nb_lines batch)"

definition MAX_LABEL_ERROR_CHARS :: nat where "MAX_LABEL_ERROR_CHARS = 200"

definition truncate_ack_error :: "string \<Rightarrow> string" where
  "truncate_ack_error text = concat (take MAX_LABEL_ERROR_CHARS (utf8_chars text))"

text \<open>An integer reads as \<open>f64\<close> too, and is zero there only when it is zero.\<close>

definition batch_number :: "(json \<Rightarrow> string) \<Rightarrow> (int \<Rightarrow> rat) \<Rightarrow> json \<Rightarrow> BatchNumber" where
  "batch_number show_json to_f64 v =
     (case v of
        JNull \<Rightarrow> BN_Absent
      | JBool False \<Rightarrow> BN_Absent
      | JInt n \<Rightarrow> if n = 0 then BN_Absent else BN_Number (to_f64 n)
      | JFloat r \<Rightarrow> if r = 0 then BN_Absent else BN_Number r
      | _ \<Rightarrow> BN_NotANumber (show_json v))"

definition label_ack_params :: "int \<Rightarrow> int \<Rightarrow> string option \<Rightarrow> json" where
  "label_ack_params line_id printed_qty error =
     JObj [(''error'', case error of None \<Rightarrow> JNull | Some e \<Rightarrow> JStr (truncate_ack_error e)),
           (''line_id'', JInt line_id), (''printed_qty'', JInt printed_qty)]"

definition label_parse_ack :: "(json \<Rightarrow> string) \<Rightarrow> json \<Rightarrow> RpcError + bool" where
  "label_parse_ack show_json result =
     (if Option.bind (jget ''ok'' result) as_bool \<noteq> Some True
      then Inl (Protocol (''/food/print/ack result without ok:true: '' @ show_json result))
      else Inr (Option.bind (jget ''duplicate'' result) as_bool = Some True))"

section \<open>State\<close>

record PrintableLine =
  pl_line_id :: int
  pl_qty :: int
  pl_label :: PlacedLabel

datatype PollOutcome =
    PO_Idle
  | PO_Batch int nat nat nat       \<comment> \<open>batch, printed, rejected, re-acked\<close>
  | PO_OnlyKnownLines int nat      \<comment> \<open>batch, re-acked\<close>
  | PO_AcksOwed nat

record label_source =
  ls_ledger :: ledger
  ls_spooled :: "int list list"
  ls_roll :: Roll
  ls_last_job_id :: "int option"
  ls_last_result :: string
  ls_queue :: "queue option"

definition on_ledger :: "(ledger, 'a) op \<Rightarrow> (label_source, 'a) op" where
  "on_ledger = zoom_op ls_ledger (\<lambda>c s. s\<lparr>ls_ledger := c\<rparr>)"

definition set_status :: "int \<Rightarrow> string \<Rightarrow> (label_source, unit) op" where
  "set_status batch_id result = modify_op (\<lambda>s. s\<lparr>ls_last_job_id := Some batch_id, ls_last_result := result\<rparr>)"

text \<open>A call on the client's job history, whose failure is dropped.\<close>

definition on_history :: "(queue, 'a) op \<Rightarrow> (label_source, unit) op" where
  "on_history m s =
     (case ls_queue s of
        None \<Rightarrow> (Inr (), s)
      | Some q \<Rightarrow> (Inr (), s\<lparr>ls_queue := Some (snd (m q))\<rparr>))"

section \<open>Deciding a line\<close>

definition handle_known_line :: "instant \<Rightarrow> int \<Rightarrow> (label_source, bool) op" where
  "handle_known_line now line_id =
     try_op (on_ledger (ledger_get line_id)) (\<lambda>entry. case entry of
        None \<Rightarrow> ok False
      | Some known \<Rightarrow>
          (if le_state known = Line_Sending then
             try_op (on_ledger (record_result now (le_batch_id known) line_id 0 (Some INTERRUPTED_REASON))) (\<lambda>_. ok True)
           else if le_ack known = Ack_Owed then ok True
           else if \<not> le_sent known then try_op (on_ledger (forget line_id)) (\<lambda>_. ok False)
           else try_op (on_ledger (ledger_reopen_ack line_id)) (\<lambda>_. ok True)))"

record tally =
  ty_seen :: "int set"
  ty_rejected :: nat
  ty_reacked :: nat
  ty_unackable :: nat
  ty_printable :: "PrintableLine list"

definition new_tally :: "tally" where
  "new_tally = \<lparr>ty_seen = {}, ty_rejected = 0, ty_reacked = 0, ty_unackable = 0, ty_printable = []\<rparr>"

definition see :: "int \<Rightarrow> tally \<Rightarrow> tally" where
  "see line_id ty = ty\<lparr>ty_seen := insert line_id (ty_seen ty)\<rparr>"

definition reject :: "instant \<Rightarrow> int \<Rightarrow> int \<Rightarrow> string option \<Rightarrow> tally \<Rightarrow> (label_source, tally) op" where
  "reject now batch_id line_id reason ty =
     try_op (on_ledger (record_result now batch_id line_id 0 reason))
       (\<lambda>_. ok (ty\<lparr>ty_rejected := Suc (ty_rejected ty)\<rparr>))"

text \<open>The loops over the malformed and over the well-formed lines; \<open>clock\<close> is the reading at a line.\<close>

primrec invalid_lines ::
    "(int \<Rightarrow> instant) \<Rightarrow> int \<Rightarrow> InvalidLine list \<Rightarrow> tally \<Rightarrow> (label_source, tally) op" where
  "invalid_lines clock batch_id [] ty = ok ty"
| "invalid_lines clock batch_id (bad # rest) ty =
     (case il_line_id bad of
        None \<Rightarrow> invalid_lines clock batch_id rest (ty\<lparr>ty_unackable := Suc (ty_unackable ty)\<rparr>)
      | Some line_id \<Rightarrow>
          if line_id \<in> ty_seen ty then invalid_lines clock batch_id rest ty
          else try_op (handle_known_line (clock line_id) line_id) (\<lambda>known.
            if known then invalid_lines clock batch_id rest ((see line_id ty)\<lparr>ty_reacked := Suc (ty_reacked ty)\<rparr>)
            else try_op (reject (clock line_id) batch_id line_id (Some (truncate_ack_error (il_reason bad))) (see line_id ty))
              (invalid_lines clock batch_id rest)))"

definition encode_line :: "(LabelGeometry \<Rightarrow> string \<Rightarrow> string + PlacedLabel) \<Rightarrow> string + LabelGeometry \<Rightarrow> string \<Rightarrow> string + PlacedLabel" where
  "encode_line decode_label geometry png =
     (case geometry of Inl ack \<Rightarrow> Inl ack | Inr g \<Rightarrow> decode_label g png)"

definition decide_line ::
    "(int \<Rightarrow> instant) \<Rightarrow> (LabelGeometry \<Rightarrow> string \<Rightarrow> string + PlacedLabel) \<Rightarrow> string + LabelGeometry \<Rightarrow> int \<Rightarrow> NextLine \<Rightarrow> tally \<Rightarrow>
     (label_source, tally) op" where
  "decide_line clock decode_label geometry batch_id line ty =
     (let line_id = nl_line_id line
      in if line_id \<in> ty_seen ty then ok ty
         else try_op (handle_known_line (clock line_id) line_id) (\<lambda>known.
           let ty1 = see line_id ty
           in if known then ok (ty1\<lparr>ty_reacked := Suc (ty_reacked ty1)\<rparr>)
              else if nl_print_qty line < 0
                then reject (clock line_id) batch_id line_id (Some (''invalid print_qty '' @ int_text (nl_print_qty line))) ty1
              else if nl_print_qty line = 0 then reject (clock line_id) batch_id line_id None ty1
              else (case encode_line decode_label geometry (nl_label_png_base64 line) of
                      Inr label \<Rightarrow>
                        ok (ty1\<lparr>ty_printable := ty_printable ty1 @
                                  [\<lparr>pl_line_id = line_id, pl_qty = nl_print_qty line, pl_label = label\<rparr>]\<rparr>)
                    | Inl ack \<Rightarrow> reject (clock line_id) batch_id line_id (Some ack) ty1)))"

primrec batch_lines ::
    "(int \<Rightarrow> instant) \<Rightarrow> (LabelGeometry \<Rightarrow> string \<Rightarrow> string + PlacedLabel) \<Rightarrow> string + LabelGeometry \<Rightarrow> int \<Rightarrow> NextLine list \<Rightarrow> tally \<Rightarrow>
     (label_source, tally) op" where
  "batch_lines clock decode_label geometry batch_id [] ty = ok ty"
| "batch_lines clock decode_label geometry batch_id (line # rest) ty =
     try_op (decide_line clock decode_label geometry batch_id line ty)
       (batch_lines clock decode_label geometry batch_id rest)"

section \<open>Printing a batch\<close>

text \<open>What one print meets: the directory, the file, the registry of jobs in flight, the end of the print.\<close>

record spool_env =
  se_short :: string                         \<comment> \<open>the eight digits of the new UUID\<close>
  se_printer :: string
  se_spool_dir :: string
  se_dir_error :: "string option"
  se_write_error :: "string option"
  se_sha256 :: "u8 list \<Rightarrow> string"
  se_inflight :: InFlightJobs
  se_end :: task_end
  se_print_timeout :: u64
  se_emitter :: EventEmitter                 \<comment> \<open>of the job, when the print is over\<close>
  se_persisted :: "PrintJobEvent list"       \<comment> \<open>the events the history task stored\<close>
  se_started :: instant
  se_ended :: instant

definition timed_out_ack_text :: "u64 \<Rightarrow> string" where
  "timed_out_ack_text secs =
     ''outcome unknown: print not confirmed within '' @ nat_digits (unat secs) @
     ''s - check the printer before reprinting''"

definition history_job :: "spool_env \<Rightarrow> string \<Rightarrow> string \<Rightarrow> string \<Rightarrow> u8 list \<Rightarrow> JobMetadata" where
  "history_job env job_id doc_name paper document =
     \<lparr>jm_job_id = job_id, jm_document_name = doc_name, jm_target_printer = se_printer env, jm_target_client_id = None,
      jm_copies = 1, jm_paper_size = paper, jm_duplex = False, jm_color = False,
      jm_payload_size = word_of_nat (length document), jm_payload_sha256 = se_sha256 env document,
      jm_state = JS_Printing, jm_retry_count = 0, jm_error_detail = [], jm_requesting_user = None,
      jm_created_at = se_started env, jm_updated_at = se_started env\<rparr>"

definition dispatch_result :: "spool_env \<Rightarrow> PrintDispatch \<Rightarrow> string + string" where
  "dispatch_result env d =
     (case d of
        PD_Completed (Inr _) \<Rightarrow> Inr (snd (em_verification (se_emitter env)))
      | PD_Completed (Inl e) \<Rightarrow> Inl (chain_text e)
      | PD_TimedOut \<Rightarrow> Inl (timed_out_ack_text (se_print_timeout env))
      | PD_DuplicateSuppressed \<Rightarrow> Inl (''duplicate print suppressed'' @ em_dash @ ''batch document still in flight''))"

definition spool_document ::
    "spool_env \<Rightarrow> int \<Rightarrow> u8 list \<Rightarrow> int list \<Rightarrow> int \<Rightarrow> string \<Rightarrow> (label_source, string + string) op" where
  "spool_document env batch_id document ids copies paper =
     (let job_id = ''odoo-'' @ int_text batch_id @ ''-'' @ se_short env;
          path = se_spool_dir env @ ''/'' @ job_id @ ''.tspl'';
          doc_name = ''Odoo batch '' @ int_text batch_id @ '' ('' @ nat_digits (length ids) @ '' labels, '' @
                     int_text copies @ '' copies)''
      in case se_dir_error env of
           Some e \<Rightarrow> ok (Inl (''spool dir '' @ se_spool_dir env @ '': '' @ e))
         | None \<Rightarrow>
             (case se_write_error env of
                Some e \<Rightarrow> ok (Inl (''write spool file '' @ path @ '': '' @ e))
              | None \<Rightarrow>
                  ignore_op (on_history (record_job (history_job env job_id doc_name paper document) path))
                  (let d = run_print_task_with_timeout (se_inflight env) job_id (se_end env);
                       result = dispatch_result env d
                   in ignore_op (modify_op (\<lambda>s. if d = PD_DuplicateSuppressed then s
                                              else s\<lparr>ls_spooled := ls_spooled s @ [ids]\<rparr>))
                      (ignore_op (on_history (for_op (se_persisted env)
                                   (\<lambda>ev. ignore_op (queue_insert_job_event ev) (ok ()))))
                      (ignore_op (on_history (queue_update_job_state (se_ended env) job_id
                                   (case result of Inr _ \<Rightarrow> JS_Completed | Inl _ \<Rightarrow> JS_Failed)))
                        (ok result))))))"

text \<open>
  What a batch meets besides: the clock, the encoder, the roll. A roll is compared and printed
  as the source does it.
\<close>

record batch_env =
  be_clock :: "int \<Rightarrow> instant"                \<comment> \<open>at the decision of a line\<close>
  be_mark_at :: instant
  be_result_at :: "int \<Rightarrow> instant"            \<comment> \<open>at the result of a line\<close>
  be_geometry_for :: "BatchLabelSize \<Rightarrow> string + LabelGeometry"
  be_decode_label :: "LabelGeometry \<Rightarrow> string \<Rightarrow> string + PlacedLabel"
  be_build_document :: "LabelGeometry \<Rightarrow> (PlacedLabel \<times> u32) list \<Rightarrow> u8 list"
  be_roll_text :: "Roll \<Rightarrow> string"
  be_spool :: spool_env

text \<open>\<open>u32::try_from(qty).unwrap_or(u32::MAX)\<close>\<close>

definition qty_u32 :: "int \<Rightarrow> u32" where
  "qty_u32 q = (if 0 \<le> q \<and> q < 2 ^ 32 then word_of_int q else - 1)"

text \<open>The outcome of the document, recorded for each of its lines.\<close>

definition record_outcomes ::
    "(int \<Rightarrow> instant) \<Rightarrow> int \<Rightarrow> PrintableLine list \<Rightarrow> string + string \<Rightarrow> (label_source, unit) op" where
  "record_outcomes clock batch_id lines result =
     (case result of
        Inr evidence \<Rightarrow>
          try_op (for_op lines (\<lambda>l.
              on_ledger (record_result (clock (pl_line_id l)) batch_id (pl_line_id l) (pl_qty l) None))) (\<lambda>_.
            set_status batch_id (''printed '' @ nat_digits (length lines) @ '' labels ('' @
              int_text (sum_list (map pl_qty lines)) @ '' copies), '' @ evidence))
      | Inl reason \<Rightarrow>
          try_op (for_op lines (\<lambda>l.
              on_ledger (record_result (clock (pl_line_id l)) batch_id (pl_line_id l) 0 (Some (truncate_ack_error reason)))))
            (\<lambda>_. set_status batch_id (''error: '' @ truncate_ack_error reason)))"

definition print_batch ::
    "batch_env \<Rightarrow> int \<Rightarrow> PrintableLine list \<Rightarrow> LabelGeometry \<Rightarrow> (label_source, unit) op" where
  "print_batch env batch_id lines geometry =
     (let document = be_build_document env geometry (map (\<lambda>l. (pl_label l, qty_u32 (pl_qty l))) lines);
          copies = sum_list (map pl_qty lines);
          ids = map pl_line_id lines;
          roll = Roll_of geometry
      in try_op (on_ledger (mark_sending (be_mark_at env) batch_id ids)) (\<lambda>_.
         ignore_op (modify_op (\<lambda>s. s\<lparr>ls_roll := roll\<rparr>))
         (try_op (spool_document (be_spool env) batch_id document ids copies (be_roll_text env roll))
            (record_outcomes (be_result_at env) batch_id lines))))"

definition batch_end :: "int \<Rightarrow> tally \<Rightarrow> (label_source, PollOutcome) op" where
  "batch_end batch_id ty =
     (if ty_rejected ty = 0 then
        try_op (set_status batch_id
                 (if 0 < ty_unackable ty
                  then nat_digits (ty_unackable ty) @ '' lines without line_id - cannot ack, the Odoo batch is blocked ('' @
                       nat_digits (ty_reacked ty) @ '' lines re-acked)''
                  else ''already handled ('' @ nat_digits (ty_reacked ty) @ '' lines re-acked)''))
          (\<lambda>_. ok (PO_OnlyKnownLines batch_id (ty_reacked ty)))
      else
        try_op (set_status batch_id (''nothing printable ('' @ nat_digits (ty_rejected ty) @ '' lines rejected)''))
          (\<lambda>_. ok (PO_Batch batch_id (length (ty_printable ty)) (ty_rejected ty) (ty_reacked ty))))"

definition handle_batch ::
    "batch_env \<Rightarrow> int \<Rightarrow> NextBatch \<Rightarrow> (label_source, PollOutcome) op" where
  "handle_batch env batch_id batch =
     (let geometry = be_geometry_for env (nb_label_size batch)
      in try_op (invalid_lines (be_clock env) batch_id (nb_invalid batch) new_tally) (\<lambda>ty1.
         try_op (batch_lines (be_clock env) (be_decode_label env) geometry batch_id (lines_in_order batch) ty1) (\<lambda>ty.
           case geometry of
             Inr g \<Rightarrow>
               if ty_printable ty \<noteq> [] then
                 try_op (print_batch env batch_id (ty_printable ty) g) (\<lambda>_.
                   ok (PO_Batch batch_id (length (ty_printable ty)) (ty_rejected ty) (ty_reacked ty)))
               else batch_end batch_id ty
           | Inl _ \<Rightarrow> batch_end batch_id ty)))"

section \<open>Acks and the poll\<close>

text \<open>The answer of Odoo to the ack of a line: refused transport, refused business, accepted.\<close>

type_synonym ack_answers = "int \<Rightarrow> int \<Rightarrow> string option \<Rightarrow> RpcError + bool"

definition kept_for_retry :: "LedgerEntry \<Rightarrow> err" where
  "kept_for_retry entry =
     ContextErr (''ack of line '' @ int_text (le_line_id entry) @ '' (batch '' @ int_text (le_batch_id entry) @ '')'' @
       em_dash @ ''kept for retry'')"

primrec label_flush_loop ::
    "(int \<Rightarrow> instant) \<Rightarrow> ack_answers \<Rightarrow> LedgerEntry list \<Rightarrow> nat \<Rightarrow> (label_source, nat) op" where
  "label_flush_loop clock ack [] owed = ok owed"
| "label_flush_loop clock ack (entry # rest) owed =
     (let mark = (\<lambda>note. try_op (on_ledger (ledger_mark_acked (clock (le_line_id entry)) (le_line_id entry) note))
                    (\<lambda>_. label_flush_loop clock ack rest owed))
      in case ack (le_line_id entry) (le_printed_qty entry) (le_error entry) of
           Inr duplicate \<Rightarrow> mark (if duplicate then ACK_NOTE_DUPLICATE else ACK_NOTE_OK)
         | Inl (Business text) \<Rightarrow> mark (ACK_NOTE_REFUSED_PREFIX @ text)
         | Inl (Transport _) \<Rightarrow> bail (kept_for_retry entry)
         | Inl _ \<Rightarrow> label_flush_loop clock ack rest (Suc owed))"

definition label_flush_acks :: "(int \<Rightarrow> instant) \<Rightarrow> ack_answers \<Rightarrow> (label_source, nat) op" where
  "label_flush_acks clock ack =
     try_op (on_ledger pending_acks) (\<lambda>entries. label_flush_loop clock ack entries 0)"

definition poll_once ::
    "batch_env \<Rightarrow> RpcError + NextBatch \<Rightarrow> ack_answers \<Rightarrow> ack_answers \<Rightarrow>
     (int \<Rightarrow> instant) \<Rightarrow> (int \<Rightarrow> instant) \<Rightarrow> (label_source, PollOutcome) op" where
  "poll_once env next_batch ack1 ack2 clock1 clock2 =
     try_op (label_flush_acks clock1 ack1) (\<lambda>_.
     case next_batch of
       Inl e \<Rightarrow> bail (ContextErr (rpc_display e))
     | Inr batch \<Rightarrow>
         let has_lines = \<not> (nb_lines batch = [] \<and> nb_invalid batch = [])
         in try_op (case nb_batch_id batch of
                      Some batch_id \<Rightarrow> if has_lines then handle_batch env batch_id batch else ok PO_Idle
                    | None \<Rightarrow> ok PO_Idle) (\<lambda>outcome.
            try_op (label_flush_acks clock2 ack2) (\<lambda>owed.
              ok (if outcome = PO_Idle \<and> 0 < owed then PO_AcksOwed owed else outcome))))"

text \<open>The start of \<open>run\<close>: recovery has to succeed, pruning may fail.\<close>

definition label_start :: "instant \<Rightarrow> instant \<Rightarrow> (label_source, int list) op" where
  "label_start now prune_at =
     try_op (on_ledger (recover_interrupted now)) (\<lambda>ids.
       ignore_op (on_ledger (ledger_prune prune_at)) (ok ids))"

section \<open>Delays\<close>

definition MAX_BACKOFF :: nat where "MAX_BACKOFF = 60 * 10 ^ 9"
definition AFTER_BATCH_DELAY :: nat where "AFTER_BATCH_DELAY = 10 ^ 9"

definition label_backoff :: "nat \<Rightarrow> nat \<Rightarrow> nat" where
  "label_backoff current base = min (max (current * 2) base) (max MAX_BACKOFF base)"

definition label_next_delay :: "err + PollOutcome \<Rightarrow> nat \<Rightarrow> nat \<Rightarrow> nat" where
  "label_next_delay outcome current base =
     (case outcome of
        Inr PO_Idle \<Rightarrow> base
      | Inr (PO_Batch _ _ _ _) \<Rightarrow> min AFTER_BATCH_DELAY base
      | _ \<Rightarrow> label_backoff current base)"

end
