(* ===== verification/Label_Runs.thy ===== *)
theory Label_Runs
  imports Label_Source
begin

text \<open>
  Runs of the Odoo label source: polls and restarts with any answers and any failures. A line is
  handed to the printer at most once.
\<close>

section \<open>A line is spooled once\<close>

abbreviation ledger_of :: "label_source \<Rightarrow> line_row list" where
  "ledger_of s \<equiv> cn_db (ls_ledger s)"

abbreviation spooled :: "label_source \<Rightarrow> int list" where
  "spooled s \<equiv> concat (ls_spooled s)"

text \<open>Nothing is spooled and the ledger remembers the line.\<close>

definition quiet_step :: "int \<Rightarrow> label_source \<Rightarrow> label_source \<Rightarrow> bool" where
  "quiet_step k s s' \<longleftrightarrow> ls_spooled s' = ls_spooled s \<and> remembers k (ledger_of s) (ledger_of s')"

interpretation quiet: step_relation "quiet_step k" for k
  by unfold_locales (auto simp: quiet_step_def remembers_def)

named_theorems quiet_keeps "operations that spool nothing"

lemma quiet_on_ledger: "moves (ledger_remembers k) m \<Longrightarrow> moves (quiet_step k) (on_ledger m)"
  by (auto intro!: movesI simp: quiet_step_def on_ledger_def zoom_op_def split: prod.split dest: movesD)

lemmas quiet_ledger [quiet_keeps] = ledger_keeps [THEN quiet_on_ledger]

lemma quiet_status [quiet_keeps]: "moves (quiet_step k) (set_status b r)"
  unfolding set_status_def by (rule moves_modify) (simp add: quiet_step_def)

lemma quiet_reject [quiet_keeps]: "moves (quiet_step k) (reject now b l r ty)"
  unfolding reject_def by (intro quiet.moves_rules quiet_keeps)

lemma get_answer:
  "on_ledger (ledger_get l) s = (Inr x, s') \<Longrightarrow>
     x = map_option ledger_entry (row_of ll_line_id l (ledger_of s)) \<and> ledger_of s' = ledger_of s"
  by (auto simp: on_ledger_def zoom_op_def ledger_get_def split: prod.splits dest!: query_InrD)

lemma quiet_forget:
  assumes "\<not> sent_in l (ledger_of s)"
  shows "quiet_step k s (snd (try_op (on_ledger (forget l)) (\<lambda>_. ok x) s))"
proof -
  obtain r c' where f: "forget l (ls_ledger s) = (r, c')" by fastforce
  from forget_remembers [OF assms f, of k] show ?thesis
    by (cases r) (auto simp: quiet_step_def try_op_def on_ledger_def zoom_op_def f ok_def)
qed

lemma quiet_known [quiet_keeps]: "moves (quiet_step k) (handle_known_line now l)"
proof (rule movesI)
  fix s :: label_source
  show "quiet_step k s (snd (handle_known_line now l s))"
    unfolding handle_known_line_def
  proof (rule quiet.step_try)
    show "moves (quiet_step k) (on_ledger (ledger_get l))" by (intro quiet_keeps)
  next
    fix x s1 assume get: "on_ledger (ledger_get l) s = (Inr x, s1)"
    have forget: "quiet_step k s1 (snd (try_op (on_ledger (forget l)) (\<lambda>_. ok False) s1))"
      if "x = Some e" "\<not> le_sent e" for e
      using that get_answer [OF get] by (intro quiet_forget) (auto simp: ledger_entry_def sent_in_def)
    have other: "moves (quiet_step k) (try_op (on_ledger (record_result now b l 0 r)) (\<lambda>_. ok y))"
      "moves (quiet_step k) (try_op (on_ledger (ledger_reopen_ack l)) (\<lambda>_. ok y))"
      "moves (quiet_step k) (ok y)" for b r y
      by (intro quiet.moves_rules quiet_keeps)+
    show "quiet_step k s1 (snd ((case x of None \<Rightarrow> ok False
        | Some known \<Rightarrow>
          (if le_state known = Line_Sending then
             try_op (on_ledger (record_result now (le_batch_id known) l 0 (Some INTERRUPTED_REASON))) (\<lambda>_. ok True)
           else if le_ack known = Ack_Owed then ok True
           else if \<not> le_sent known then try_op (on_ledger (forget l)) (\<lambda>_. ok False)
           else try_op (on_ledger (ledger_reopen_ack l)) (\<lambda>_. ok True))) s1))"
      using forget other [THEN movesD, OF surjective_pairing] by (auto split: option.split)
  qed
qed

lemma quiet_decide [quiet_keeps]: "moves (quiet_step k) (decide_line clock dec g b line ty)"
  unfolding decide_line_def Let_def by (intro quiet.moves_rules quiet_keeps)

lemma quiet_lines [quiet_keeps]: "moves (quiet_step k) (batch_lines clock dec g b lines ty)"
  by (induction lines arbitrary: ty) (auto intro!: quiet.moves_rules quiet_keeps)

lemma quiet_invalid [quiet_keeps]: "moves (quiet_step k) (invalid_lines clock b bad ty)"
  by (induction bad arbitrary: ty) (auto intro!: quiet.moves_rules quiet_keeps)

lemma quiet_flush_loop [quiet_keeps]: "moves (quiet_step k) (label_flush_loop clock ack es owed)"
  by (induction es arbitrary: owed)
    (auto intro!: quiet.moves_rules quiet_keeps simp: Let_def split: sum.split RpcError.split)

lemma quiet_flush [quiet_keeps]: "moves (quiet_step k) (label_flush_acks clock ack)"
  unfolding label_flush_acks_def by (intro quiet.moves_rules quiet_keeps)

lemma quiet_batch_end [quiet_keeps]: "moves (quiet_step k) (batch_end b ty)"
  unfolding batch_end_def by (intro quiet.moves_rules quiet_keeps)

lemma on_history_keeps:
  "ls_ledger (snd (on_history m s)) = ls_ledger s \<and> ls_spooled (snd (on_history m s)) = ls_spooled s"
  by (simp add: on_history_def split: option.split)

lemma snd_ignore_op: "snd (ignore_op m k s) = snd (k (snd (m s)))"
  by (simp add: ignore_op_def match_op_def split: prod.split)

lemma spool_document_effect:
  fixes env b doc ids copies paper s
  defines "s' \<equiv> snd (spool_document env b doc ids copies paper s)"
  shows "ls_ledger s' = ls_ledger s \<and> (ls_spooled s' = ls_spooled s \<or> ls_spooled s' = ls_spooled s @ [ids])"
  unfolding s'_def spool_document_def Let_def
  by (simp add: snd_ignore_op on_history_keeps modify_op_def ok_def split: option.split)

text \<open>
  The line is in the log at most once, and when it is there the ledger says that it was sent.
\<close>

definition spooled_once :: "int \<Rightarrow> label_source \<Rightarrow> bool" where
  "spooled_once k s \<longleftrightarrow> keyed ll_line_id (ledger_of s) \<and> count_list (spooled s) k \<le> 1 \<and>
     (k \<in> set (spooled s) \<longrightarrow> sent_in k (ledger_of s))"

interpretation once: invariant "spooled_once k" for k .

lemma quiet_once: "quiet_step k s s' \<Longrightarrow> spooled_once k s \<longrightarrow> spooled_once k s'"
  by (auto simp: quiet_step_def spooled_once_def remembers_def)

lemma quiet_moves_once: "moves (quiet_step k) m \<Longrightarrow> moves (\<lambda>s s'. spooled_once k s \<longrightarrow> spooled_once k s') m"
  unfolding moves_def using quiet_once by blast

lemmas once_keeps = quiet_keeps [THEN quiet_moves_once]

lemma count_distinct: "distinct xs \<Longrightarrow> count_list xs k \<le> 1"
  by (induction xs) (auto simp: count_list_0_iff)

lemma once_spool:
  assumes "spooled_once k s" and "distinct ids"
    and "k \<in> set ids \<Longrightarrow> k \<notin> set (spooled s) \<and> sent_in k (ledger_of s)"
  shows "spooled_once k (snd (spool_document env b doc ids copies paper s))"
proof -
  have "count_list (spooled s @ ids) k \<le> 1"
    using assms count_distinct [OF assms(2), of k]
    by (cases "k \<in> set ids") (auto simp: spooled_once_def count_list_0_iff)
  then show ?thesis
    using spool_document_effect [of env b doc ids copies paper s] assms(1,3) by (auto simp: spooled_once_def)
qed

lemma mark_step:
  assumes "spooled_once k s" and "on_ledger (mark_sending now b ids) s = (Inr u, s1)"
  shows "spooled_once k s1" and "distinct ids"
    and "k \<in> set ids \<Longrightarrow> k \<notin> set (spooled s1) \<and> sent_in k (ledger_of s1)"
proof -
  from assms(2) obtain c' where c': "mark_sending now b ids (ls_ledger s) = (Inr u, c')" "s1 = s\<lparr>ls_ledger := c'\<rparr>"
    by (auto simp: on_ledger_def zoom_op_def split: prod.splits)
  have keyed: "keyed ll_line_id (ledger_of s)" using assms(1) by (simp add: spooled_once_def)
  show "spooled_once k s1"
    using movesD [OF keeps_mark_sending c'(1), of k] assms(1) c'(2) by (auto simp: spooled_once_def remembers_def)
  show "distinct ids" using mark_sending_Inr [OF c'(1)] by simp
  assume "k \<in> set ids"
  then show "k \<notin> set (spooled s1) \<and> sent_in k (ledger_of s1)"
    using mark_sending_sent(2,3) [OF c'(1) keyed] assms(1) c'(2) by (auto simp: spooled_once_def)
qed

lemma quiet_outcomes [quiet_keeps]: "moves (quiet_step k) (record_outcomes clock b lines r)"
  unfolding record_outcomes_def by (intro quiet.moves_rules quiet_keeps)

lemma once_print_batch:
  shows "moves (\<lambda>s s'. spooled_once k s \<longrightarrow> spooled_once k s') (print_batch env b lines g)"
proof (rule movesI, rule impI)
  fix s :: label_source
  assume once: "spooled_once k s"
  let ?ids = "map pl_line_id lines"
  obtain r s1 where mark: "on_ledger (mark_sending (be_mark_at env) b ?ids) s = (r, s1)" by fastforce
  let ?s2 = "s1\<lparr>ls_roll := Roll_of g\<rparr>"
  show "spooled_once k (snd (print_batch env b lines g s))"
  proof (cases r)
    case (Inl e)
    have "quiet_step k s s1" by (rule movesD [OF quiet_on_ledger [OF keeps_mark_sending] mark])
    with Inl mark once quiet_once show ?thesis by (auto simp: print_batch_def try_op_def Let_def)
  next
    case (Inr u)
    from mark_step [OF once mark [unfolded Inr]]
    have ready: "spooled_once k ?s2" "distinct ?ids" "k \<in> set ?ids \<Longrightarrow> k \<notin> set (spooled ?s2) \<and> sent_in k (ledger_of ?s2)"
      by (simp_all add: spooled_once_def)
    define spool where "spool = spool_document (be_spool env) b
      (be_build_document env g (map (\<lambda>l. (pl_label l, qty_u32 (pl_qty l))) lines)) ?ids (sum_list (map pl_qty lines))
      (be_roll_text env (Roll_of g))"
    have spooled: "spooled_once k (snd (spool ?s2))"
      unfolding spool_def by (rule once_spool [OF ready])
    have after: "moves (\<lambda>s s'. spooled_once k s \<longrightarrow> spooled_once k s') (record_outcomes (be_result_at env) b lines x)" for x
      by (rule quiet_moves_once [OF quiet_outcomes])
    have "print_batch env b lines g s = try_op spool (record_outcomes (be_result_at env) b lines) ?s2"
      using mark Inr by (simp add: print_batch_def try_op_def Let_def ignore_op_def match_op_def modify_op_def spool_def)
    moreover have "spooled_once k (snd (try_op spool (record_outcomes (be_result_at env) b lines) ?s2))"
      using spooled after by (cases "spool ?s2") (auto simp: try_op_def moves_def split: sum.split)
    ultimately show ?thesis by simp
  qed
qed

lemma once_poll: "moves (\<lambda>s s'. spooled_once k s \<longrightarrow> spooled_once k s') (poll_once env nb a1 a2 c1 c2)"
  unfolding poll_once_def handle_batch_def Let_def
  by (intro once.inv.moves_rules once_print_batch quiet_keeps [THEN quiet_moves_once])

text \<open>The rows of a line that a start prunes.\<close>

definition keeps_line :: "int \<Rightarrow> instant \<Rightarrow> label_source \<Rightarrow> bool" where
  "keeps_line k prune_at s \<longleftrightarrow>
     (case row_of ll_line_id k (ledger_of s) of None \<Rightarrow> True | Some r \<Rightarrow> \<not> ledger_prunable prune_at r)"

lemma recover_Inr:
  assumes "recover_interrupted now c = (Inr ids, c')"
  shows "cn_db c' = upd_where (\<lambda>r. ll_state r = ''sending'')
     (\<lambda>r. r\<lparr>ll_state := ''done'', ll_printed_qty := 0, ll_error := Some INTERRUPTED_REASON, ll_acked := 0,
            ll_updated_at := now\<rparr>) (cn_db c)"
  using assms unfolding recover_interrupted_def tx_mark_def
  by (auto simp: ok_def dest!: transaction_InrD sql_InrD query_InrD elim!: try_op_InrE)

lemma once_start:
  assumes "keeps_line k prune_at s" and "spooled_once k s"
  shows "spooled_once k (snd (label_start now prune_at s))"
proof -
  obtain r c1 where rec: "recover_interrupted now (ls_ledger s) = (r, c1)" by fastforce
  let ?s1 = "s\<lparr>ls_ledger := c1\<rparr>"
  have q1: "quiet_step k s ?s1" using movesD [OF keeps_recover rec] by (simp add: quiet_step_def)
  then have once1: "spooled_once k ?s1" using quiet_once assms(2) by blast
  show ?thesis
  proof (cases r)
    case (Inl e)
    with rec once1 show ?thesis by (simp add: label_start_def on_ledger_def zoom_op_def try_op_def)
  next
    case (Inr ids)
    obtain n c2 where prune: "ledger_prune prune_at c1 = (n, c2)" by fastforce
    have "\<not> ledger_prunable prune_at row" if "row_of ll_line_id k (cn_db c1) = Some row" for row
      using that assms(1) recover_Inr [OF rec [unfolded Inr]]
      by (auto simp: keeps_line_def row_of_upd_where ledger_prunable_def split: option.splits if_splits)
    from prune_remembers [OF this prune] have "quiet_step k ?s1 (?s1\<lparr>ls_ledger := c2\<rparr>)" by (simp add: quiet_step_def)
    then have "spooled_once k (?s1\<lparr>ls_ledger := c2\<rparr>)" using quiet_once once1 by blast
    moreover have "snd (label_start now prune_at s) = ?s1\<lparr>ls_ledger := c2\<rparr>"
      using rec Inr prune by (simp add: label_start_def on_ledger_def zoom_op_def try_op_def snd_ignore_op ok_def)
    ultimately show ?thesis by simp
  qed
qed

text \<open>
  A run of the source: polls with whatever Odoo, the encoder and the printer answer, and starts
  after the process ended. What memory held is gone at a start; the line is not pruned.
\<close>

inductive label_run :: "int \<Rightarrow> label_source \<Rightarrow> label_source \<Rightarrow> bool" for k where
  Done: "label_run k s s"
| Poll: "label_run k (snd (poll_once env next_batch ack1 ack2 clock1 clock2 s)) s' \<Longrightarrow> label_run k s s'"
| Restart: "keeps_line k prune_at s \<Longrightarrow>
    label_run k (snd (label_start now prune_at
        (s\<lparr>ls_roll := roll, ls_last_job_id := None, ls_last_result := []\<rparr>))) s' \<Longrightarrow> label_run k s s'"

lemma once_run: "label_run k s s' \<Longrightarrow> spooled_once k s \<Longrightarrow> spooled_once k s'"
proof (induction rule: label_run.induct)
  case (Poll env next_batch ack1 ack2 clock1 clock2 s s')
  then show ?case using once_poll [of k env next_batch ack1 ack2 clock1 clock2] by (simp add: moves_def)
next
  case (Restart prune_at s now roll s')
  have "spooled_once k (s\<lparr>ls_roll := roll, ls_last_job_id := None, ls_last_result := []\<rparr>)"
    using Restart.prems by (simp add: spooled_once_def)
  moreover have "keeps_line k prune_at (s\<lparr>ls_roll := roll, ls_last_job_id := None, ls_last_result := []\<rparr>)"
    using Restart.hyps(1) by (simp add: keeps_line_def)
  ultimately show ?case using Restart.IH once_start by blast
qed simp

text \<open>
  C11. A label line is handed to the printer at most once. Whatever Odoo offers, how often it offers
  a line, which of its lines are malformed, however the print ends, whichever ledger statement
  fails and however often the client is restarted: as long as the row of the line is not pruned
  (90 days after Odoo accepted its result), no second document contains it, and no document twice.
\<close>

theorem label_spooled_at_most_once:
  assumes "ledger_of s0 = []" and "ls_spooled s0 = []" and "label_run k s0 s"
  shows "count_list (spooled s) k \<le> 1"
proof -
  have "spooled_once k s0" using assms(1,2) by (simp add: spooled_once_def)
  from once_run [OF assms(3) this] show ?thesis by (simp add: spooled_once_def)
qed

definition sample_geometry :: LabelGeometry where
  "sample_geometry = \<lparr>lg_width_mm = 50, lg_height_mm = 30, lg_dpi = 203, lg_rotate_180 = False, lg_x_offset_dots = 0,
     lg_y_offset_dots = 0\<rparr>"

definition sample_label :: PlacedLabel where
  "sample_label = \<lparr>pb_bitmap = \<lparr>mb_width = 8, mb_height = 1, mb_width_bytes = 1, mb_data = [0]\<rparr>,
     pb_layout = \<lparr>lo_png = (8, 1), lo_canvas = (8, 1), lo_rotate_180 = False, lo_bitmap_at = (0, 0), lo_ink = None,
       lo_ink_cropped = False\<rparr>\<rparr>"

definition sample_spool :: "task_end \<Rightarrow> spool_env" where
  "sample_spool te = \<lparr>se_short = ''12345678'', se_printer = ''TSC'', se_spool_dir = ''spool'', se_dir_error = None,
     se_write_error = None, se_sha256 = (\<lambda>_. []), se_inflight = {}, se_end = te, se_print_timeout = 60,
     se_emitter = emitter_new, se_persisted = [], se_started = 0, se_ended = 0\<rparr>"

definition sample_env :: "task_end \<Rightarrow> batch_env" where
  "sample_env te = \<lparr>be_clock = (\<lambda>_. 0), be_mark_at = 0, be_result_at = (\<lambda>_. 0),
     be_geometry_for = (\<lambda>_. Inr sample_geometry), be_decode_label = (\<lambda>_ _. Inr sample_label),
     be_build_document = (\<lambda>_ _. [0]), be_roll_text = (\<lambda>_. ''50x30 mm''), be_spool = sample_spool te\<rparr>"

definition sample_batch :: "int list \<Rightarrow> NextBatch" where
  "sample_batch ids = \<lparr>nb_batch_id = Some 12, nb_production_date = [],
     nb_lines = map (\<lambda>i. \<lparr>nl_line_id = i, nl_sequence = 0, nl_product_name = [], nl_print_qty = 2, nl_best_before = [],
        nl_label_png_base64 = [], nl_line_type = []\<rparr>) ids,
     nb_invalid = [], nb_label_size = \<lparr>bl_width_mm = BN_Absent, bl_height_mm = BN_Absent, bl_dpi = BN_Absent\<rparr>\<rparr>"

definition sample_label_source :: "bool list \<Rightarrow> label_source" where
  "sample_label_source fs = \<lparr>ls_ledger = \<lparr>cn_db = [], cn_faults = fs\<rparr>, ls_spooled = [], ls_roll = Roll_of sample_geometry,
     ls_last_job_id = None, ls_last_result = [], ls_queue = None\<rparr>"

definition sample_poll :: "task_end \<Rightarrow> int list \<Rightarrow> label_source \<Rightarrow> label_source" where
  "sample_poll te ids s =
     snd (poll_once (sample_env te) (Inr (sample_batch ids)) (\<lambda>_ _ _. Inl (Rpc [])) (\<lambda>_ _ _. Inl (Rpc [])) (\<lambda>_. 0) (\<lambda>_. 0) s)"

lemma sample_poll_run: "label_run k (sample_poll te ids s) s' \<Longrightarrow> label_run k s s'"
  unfolding sample_poll_def by (rule label_run.Poll)

text \<open>
  Odoo offers line 345 three times; the first print is abandoned, and the journal then fails as if
  the process had died before the outcome was stored.
\<close>

definition after_crash :: label_source where
  "after_crash = sample_poll Overran [345, 346, 345] (sample_label_source (replicate 7 False @ [True]))"

definition after_offers :: label_source where
  "after_offers = sample_poll (Returned (Inr ())) [345] (sample_poll (Returned (Inr ())) [345]
     (snd (label_start 5 6 (after_crash\<lparr>ls_roll := Roll_of sample_geometry, ls_last_job_id := None, ls_last_result := []\<rparr>))))"

lemma offers_spooled: "ls_spooled after_crash = [[345, 346]] \<and> ls_spooled after_offers = [[345, 346]] \<and>
    map ll_state (ledger_of after_crash) = [''sending'', ''sending''] \<and> keeps_line 345 6 after_crash"
  by code_simp

theorem label_spooled_at_most_once_witness:
  "\<exists>s. label_run 345 (sample_label_source (replicate 7 False @ [True])) s \<and> ls_spooled s = [[345, 346]] \<and>
     count_list (spooled s) 345 \<le> 1"
proof -
  have "label_run 345 after_crash after_offers"
    unfolding after_offers_def
    by (rule label_run.Restart [OF conjunct2 [OF conjunct2 [OF conjunct2 [OF offers_spooled]]]])
      (rule sample_poll_run, rule sample_poll_run, rule label_run.Done)
  then have "label_run 345 (sample_label_source (replicate 7 False @ [True])) after_offers"
    unfolding after_crash_def by (rule sample_poll_run)
  moreover have "ledger_of (sample_label_source fs) = []" "ls_spooled (sample_label_source fs) = []" for fs
    by (simp_all add: sample_label_source_def)
  ultimately show ?thesis using label_spooled_at_most_once offers_spooled by blast
qed
end
