(* ===== verification/Label_Layout.thy ===== *)
theory Label_Layout
  imports Label_Source Portos_Payload
begin

text \<open>
  Where a label lands on the roll (\<open>odoo_source/layout.rs\<close>) and how it is encoded (\<open>tspl.rs\<close>,
  \<open>label_size.rs\<close>). Coordinates of dots are natural numbers (\<open>usize\<close>); sizes are \<open>u32\<close>; the arithmetic of
  the placement is that of the source on \<open>i64\<close>, which holds every value that can occur.
\<close>

section \<open>Bitmaps\<close>

definition div_ceil :: "u32 \<Rightarrow> u32 \<Rightarrow> u32" where
  "div_ceil a b = a div b + of_bool (a mod b \<noteq> 0)"

definition blank_bitmap :: "u32 \<Rightarrow> u32 \<Rightarrow> MonoBitmap" where
  "blank_bitmap w h =
     \<lparr>mb_width = w, mb_height = h, mb_width_bytes = div_ceil w 8,
      mb_data = replicate (unat (div_ceil w 8) * unat h) 0xFF\<rparr>"

definition byte_and_mask :: "MonoBitmap \<Rightarrow> nat \<Rightarrow> nat \<Rightarrow> nat \<times> u8" where
  "byte_and_mask bm x y = (y * unat (mb_width_bytes bm) + x div 8, drop_bit (x mod 8) 0x80)"

definition is_black :: "MonoBitmap \<Rightarrow> nat \<Rightarrow> nat \<Rightarrow> bool" where
  "is_black bm x y = (case byte_and_mask bm x y of (i, m) \<Rightarrow> and (mb_data bm ! i) m = 0)"

definition set_black :: "nat \<times> nat \<Rightarrow> MonoBitmap \<Rightarrow> MonoBitmap" where
  "set_black p bm =
     (case byte_and_mask bm (fst p) (snd p) of (i, m) \<Rightarrow>
        bm\<lparr>mb_data := (mb_data bm)[i := and (mb_data bm ! i) (not m)]\<rparr>)"

text \<open>\<open>for y in y0..y1 { for x in x0..x1 {\<close>\<close>

definition dots :: "nat \<Rightarrow> nat \<Rightarrow> nat \<Rightarrow> nat \<Rightarrow> (nat \<times> nat) list" where
  "dots x0 x1 y0 y1 = concat (map (\<lambda>y. map (\<lambda>x. (x, y)) [x0..<x1]) [y0..<y1])"

definition all_dots :: "MonoBitmap \<Rightarrow> (nat \<times> nat) list" where
  "all_dots bm = dots 0 (unat (mb_width bm)) 0 (unat (mb_height bm))"

definition rotated_180 :: "MonoBitmap \<Rightarrow> MonoBitmap" where
  "rotated_180 bm =
     fold (\<lambda>(x, y) out. if is_black bm x y then set_black (unat (mb_width bm) - 1 - x, unat (mb_height bm) - 1 - y) out else out)
       (all_dots bm) (blank_bitmap (mb_width bm) (mb_height bm))"

definition crop :: "DotRect \<Rightarrow> MonoBitmap \<Rightarrow> MonoBitmap" where
  "crop r bm =
     fold (\<lambda>(x, y) out. if is_black bm x y then set_black (x - unat (dr_x0 r), y - unat (dr_y0 r)) out else out)
       (dots (unat (dr_x0 r)) (unat (dr_x1 r)) (unat (dr_y0 r)) (unat (dr_y1 r)))
       (blank_bitmap (dr_x1 r - dr_x0 r) (dr_y1 r - dr_y0 r))"

definition extend_bbox :: "u32 \<Rightarrow> u32 \<Rightarrow> DotRect option \<Rightarrow> DotRect" where
  "extend_bbox x y b =
     (case b of
        None \<Rightarrow> \<lparr>dr_x0 = x, dr_y0 = y, dr_x1 = x + 1, dr_y1 = y + 1\<rparr>
      | Some b \<Rightarrow> \<lparr>dr_x0 = min (dr_x0 b) x, dr_y0 = min (dr_y0 b) y, dr_x1 = max (dr_x1 b) (x + 1), dr_y1 = max (dr_y1 b) (y + 1)\<rparr>)"

definition ink_bbox :: "MonoBitmap \<Rightarrow> DotRect option" where
  "ink_bbox bm =
     fold (\<lambda>(x, y) b. if is_black bm x y then Some (extend_bbox (of_nat x) (of_nat y) b) else b) (all_dots bm) None"

definition rect_contains :: "DotRect \<Rightarrow> DotRect \<Rightarrow> bool" where
  "rect_contains r s \<longleftrightarrow> dr_x0 r \<le> dr_x0 s \<and> dr_y0 r \<le> dr_y0 s \<and> dr_x1 s \<le> dr_x1 r \<and> dr_y1 s \<le> dr_y1 r"

section \<open>Placement\<close>

text \<open>\<open>mm * f64::from(dpi) / 25.4\<close>, rounded and cast; the cast saturates.\<close>

definition mm_to_dots :: "rat \<Rightarrow> u32 \<Rightarrow> u32" where
  "mm_to_dots mm dpi =
     (case Option.bind (to_f64 (mm * of_nat (unat dpi))) (\<lambda>p. to_f64 (p / the (to_f64 (254 / 10)))) of
        None \<Rightarrow> if 0 < mm then 0xFFFFFFFF else 0
      | Some d \<Rightarrow> of_int (min (max (round_away d) 0) (2 ^ 32 - 1)))"

definition max_dots :: "LabelGeometry \<Rightarrow> u32 \<times> u32" where
  "max_dots g = (mm_to_dots (lg_width_mm g) (lg_dpi g), mm_to_dots (lg_height_mm g) (lg_dpi g))"

definition clamp_dots :: "int \<Rightarrow> u32 \<Rightarrow> u32" where
  "clamp_dots v m = of_int (min (max v 0) (uint m))"

definition place_at :: "MonoBitmap \<Rightarrow> LabelGeometry \<Rightarrow> u32 \<Rightarrow> u32 \<Rightarrow> PlacedLabel" where
  "place_at bm g canvas_w canvas_h =
     (let cw = uint canvas_w; ch = uint canvas_h; w = uint (mb_width bm); h = uint (mb_height bm);
          centre_x = max (cw - w) 0 div 2; centre_y = max (ch - h) 0 div 2;
          rx = (if lg_rotate_180 g then cw - w - centre_x else centre_x) + lg_x_offset_dots g;
          ry = (if lg_rotate_180 g then ch - h - centre_y else centre_y) + lg_y_offset_dots g;
          visible = \<lparr>dr_x0 = clamp_dots (- rx) (mb_width bm), dr_y0 = clamp_dots (- ry) (mb_height bm),
                     dr_x1 = clamp_dots (cw - rx) (mb_width bm), dr_y1 = clamp_dots (ch - ry) (mb_height bm)\<rparr>;
          whole = \<lparr>dr_x0 = 0, dr_y0 = 0, dr_x1 = mb_width bm, dr_y1 = mb_height bm\<rparr>;
          shown = (if visible = whole then bm else crop visible bm);
          ink_cropped = (visible \<noteq> whole \<and> (case ink_bbox bm of None \<Rightarrow> False | Some ink \<Rightarrow> \<not> rect_contains visible ink));
          sx = clamp_dots rx canvas_w; sy = clamp_dots ry canvas_h;
          ink = map_option (\<lambda>i. \<lparr>dr_x0 = dr_x0 i + sx, dr_y0 = dr_y0 i + sy, dr_x1 = dr_x1 i + sx, dr_y1 = dr_y1 i + sy\<rparr>)
                  (ink_bbox shown);
          bitmap_at = (if lg_rotate_180 g then (canvas_w - sx - mb_width shown, canvas_h - sy - mb_height shown) else (sx, sy))
      in \<lparr>pb_bitmap = (if lg_rotate_180 g then rotated_180 shown else shown),
          pb_layout = \<lparr>lo_png = (mb_width bm, mb_height bm), lo_canvas = (canvas_w, canvas_h), lo_rotate_180 = lg_rotate_180 g,
                       lo_bitmap_at = bitmap_at, lo_ink = ink, lo_ink_cropped = ink_cropped\<rparr>\<rparr>)"

definition place_label :: "MonoBitmap \<Rightarrow> LabelGeometry \<Rightarrow> PlacedLabel" where
  "place_label bm g = (case max_dots g of (canvas_w, canvas_h) \<Rightarrow> place_at bm g canvas_w canvas_h)"

section \<open>Warnings\<close>

record Margins =
  mg_left :: u32
  mg_top :: u32
  mg_right :: u32
  mg_bottom :: u32

definition BARTENDER_SAFE_MARGINS :: Margins where
  "BARTENDER_SAFE_MARGINS = \<lparr>mg_left = 13, mg_top = 47, mg_right = 13, mg_bottom = 17\<rparr>"

definition BARTENDER_CANVAS :: "u32 \<times> u32" where
  "BARTENDER_CANVAS = (581, 880)"

definition ink_margins :: "LabelLayout \<Rightarrow> Margins option" where
  "ink_margins l =
     map_option (\<lambda>ink. \<lparr>mg_left = dr_x0 ink, mg_top = dr_y0 ink, mg_right = fst (lo_canvas l) - dr_x1 ink,
                        mg_bottom = snd (lo_canvas l) - dr_y1 ink\<rparr>) (lo_ink l)"

definition margin_warning :: "string \<Rightarrow> u32 \<Rightarrow> u32 \<Rightarrow> string list" where
  "margin_warning side got least =
     (if got < least
      then [''ink '' @ nat_digits (unat got) @ '' dots from the '' @ side @ '' edge, BarTender keeps >= '' @ nat_digits (unat least)]
      else [])"

definition layout_warnings :: "LabelLayout \<Rightarrow> string list" where
  "layout_warnings l =
     (if lo_ink_cropped l then [''ink cut off at the label edge by x_offset_dots / y_offset_dots''] else []) @
     (if lo_canvas l \<noteq> BARTENDER_CANVAS then []
      else case ink_margins l of
        None \<Rightarrow> []
      | Some m \<Rightarrow>
          let safe = BARTENDER_SAFE_MARGINS
          in margin_warning ''left'' (mg_left m) (mg_left safe) @ margin_warning ''top'' (mg_top m) (mg_top safe) @
             margin_warning ''right'' (mg_right m) (mg_right safe) @ margin_warning ''bottom'' (mg_bottom m) (mg_bottom safe))"

section \<open>From a PNG\<close>

text \<open>
  What the \<open>png\<close> crate gives of a file: the size in its header, then the first frame in 8-bit channels
  or an error.
\<close>

datatype ColorType = Grayscale | GrayscaleAlpha | Rgb | Rgba | Indexed

datatype BitDepth = Bits_One | Bits_Two | Bits_Four | Bits_Eight | Bits_Sixteen

fun depth_debug :: "BitDepth \<Rightarrow> string" where
  "depth_debug Bits_One = ''One''"
| "depth_debug Bits_Two = ''Two''"
| "depth_debug Bits_Four = ''Four''"
| "depth_debug Bits_Eight = ''Eight''"
| "depth_debug Bits_Sixteen = ''Sixteen''"

record png_frame =
  pf_color_type :: ColorType
  pf_bit_depth :: BitDepth
  pf_line_size :: nat
  pf_buf :: "u8 list"

fun channels :: "ColorType \<Rightarrow> nat option" where
  "channels Grayscale = Some 1"
| "channels GrayscaleAlpha = Some 2"
| "channels Rgb = Some 3"
| "channels Rgba = Some 4"
| "channels Indexed = None"

datatype LabelError =
    LE_Empty
  | LE_Base64 string
  | LE_Png string
  | LE_Size u32 u32 u32 u32     \<comment> \<open>width, height, and the largest\<close>

fun label_ack_text :: "LabelError \<Rightarrow> string" where
  "label_ack_text LE_Empty = ''empty png''"
| "label_ack_text (LE_Size _ _ _ _) = ''size''"
| "label_ack_text (LE_Base64 e) = ''invalid png base64: '' @ e"
| "label_ack_text (LE_Png e) = ''invalid png: '' @ e"

definition luminance :: "u8 \<Rightarrow> u8 \<Rightarrow> u8 \<Rightarrow> u32" where
  "luminance r g b = (299 * ucast r + 587 * ucast g + 114 * ucast b) div 1000"

definition px_black :: "u8 list \<Rightarrow> bool" where
  "px_black px =
     (case (case px of
              [g] \<Rightarrow> Some (ucast g, 255 :: u32)
            | [g, a] \<Rightarrow> Some (ucast g, ucast a)
            | [r, g, b] \<Rightarrow> Some (luminance r g b, 255)
            | [r, g, b, a] \<Rightarrow> Some (luminance r g b, ucast a)
            | _ \<Rightarrow> None) of
        None \<Rightarrow> False
      | Some (luma, alpha) \<Rightarrow> luma * alpha + 255 * (255 - alpha) < 128 * 255)"

definition pixel :: "png_frame \<Rightarrow> nat \<Rightarrow> nat \<Rightarrow> nat \<Rightarrow> u8 list" where
  "pixel f n x y = take n (drop (y * pf_line_size f + x * n) (pf_buf f))"

definition bitmap_of :: "u32 \<Rightarrow> u32 \<Rightarrow> nat \<Rightarrow> png_frame \<Rightarrow> MonoBitmap" where
  "bitmap_of w h n f =
     fold (\<lambda>(x, y) out. if px_black (pixel f n x y) then set_black (x, y) out else out)
       (dots 0 (unat w) 0 (unat h)) (blank_bitmap w h)"

type_synonym png_reader = "u8 list \<Rightarrow> string + (u32 \<times> u32) \<times> (string + png_frame)"

definition decode_png :: "png_reader \<Rightarrow> u8 list \<Rightarrow> u32 \<times> u32 \<Rightarrow> LabelError + MonoBitmap" where
  "decode_png read_png bytes mx =
     (case read_png bytes of
        Inl e \<Rightarrow> Inl (LE_Png e)
      | Inr ((w, h), frame) \<Rightarrow>
          if fst mx < w \<or> snd mx < h then Inl (LE_Size w h (fst mx) (snd mx))
          else (case frame of
                  Inl e \<Rightarrow> Inl (LE_Png e)
                | Inr f \<Rightarrow>
                    (case channels (pf_color_type f) of
                       None \<Rightarrow> Inl (LE_Png ''indexed PNG was not expanded to RGB'')
                     | Some n \<Rightarrow>
                         if pf_bit_depth f \<noteq> Bits_Eight
                         then Inl (LE_Png (''unexpected bit depth '' @ depth_debug (pf_bit_depth f) @ '' after normalization''))
                         else Inr (bitmap_of w h n f))))"

definition decode_label ::
    "png_reader \<Rightarrow> (string \<Rightarrow> string + u8 list) \<Rightarrow> string \<Rightarrow> LabelGeometry \<Rightarrow>
     LabelError + PlacedLabel" where
  "decode_label read_png base64 png g =
     (let trimmed = trim png
      in if trimmed = [] then Inl LE_Empty
         else case base64 trimmed of
           Inl e \<Rightarrow> Inl (LE_Base64 e)
         | Inr bytes \<Rightarrow>
             (case decode_png read_png bytes (max_dots g) of
                Inl e \<Rightarrow> Inl e | Inr bm \<Rightarrow> Inr (place_label bm g)))"

section \<open>TSPL\<close>

text \<open>\<open>show_mm\<close> is \<open>{mm}\<close>, the shortest decimal of an \<open>f64\<close>.\<close>

definition crlf :: string where "crlf = [CHR 0x0D, CHR 0x0A]"

definition tspl_bytes :: "string \<Rightarrow> u8 list" where
  "tspl_bytes s = map (\<lambda>c. of_nat (of_char c)) s"

definition document_header :: "(rat \<Rightarrow> string) \<Rightarrow> LabelGeometry \<Rightarrow> u8 list" where
  "document_header show_mm g =
     tspl_bytes (''SIZE '' @ show_mm (lg_width_mm g) @ '' mm, '' @ show_mm (lg_height_mm g) @ '' mm'' @ crlf @
       ''DIRECTION 0,0'' @ crlf @ ''REFERENCE 0,0'' @ crlf @ ''OFFSET 0 mm'' @ crlf @ ''SET TEAR ON'' @ crlf)"

definition label_commands :: "MonoBitmap \<Rightarrow> u32 \<times> u32 \<Rightarrow> u32 \<Rightarrow> u8 list" where
  "label_commands bm pos copies =
     tspl_bytes (''CLS'' @ crlf) @
     (if 0 < mb_width bm \<and> 0 < mb_height bm
      then tspl_bytes (''BITMAP '' @ nat_digits (unat (fst pos)) @ '','' @ nat_digits (unat (snd pos)) @ '','' @
             nat_digits (unat (mb_width_bytes bm)) @ '','' @ nat_digits (unat (mb_height bm)) @ '',0,'') @
           mb_data bm @ tspl_bytes crlf
      else []) @
     tspl_bytes (''PRINT 1,'' @ nat_digits (unat copies) @ crlf)"

definition build_document :: "(rat \<Rightarrow> string) \<Rightarrow> LabelGeometry \<Rightarrow> (PlacedLabel \<times> u32) list \<Rightarrow> u8 list" where
  "build_document show_mm g labels =
     document_header show_mm g @
     concat (map (\<lambda>(l, copies). label_commands (pb_bitmap l) (lo_bitmap_at (pb_layout l)) copies) labels)"

section \<open>The roll of a batch\<close>

datatype SizeSource = Src_Batch | Src_Config

record BatchGeometry =
  bg_geometry :: LabelGeometry
  bg_source :: SizeSource

definition size_ack_text :: "string \<Rightarrow> string" where
  "size_ack_text e = ''size: '' @ e"

fun given :: "string \<Rightarrow> BatchNumber \<Rightarrow> string + rat option" where
  "given name BN_Absent = Inr None"
| "given name (BN_Number n) = Inr (Some n)"
| "given name (BN_NotANumber raw) = Inl (name @ '' '' @ raw @ '' is not a number'')"

definition mm_within :: "(rat \<Rightarrow> string) \<Rightarrow> string \<Rightarrow> rat \<Rightarrow> rat \<Rightarrow> rat \<Rightarrow> string option" where
  "mm_within show_mm name mm lo hi =
     (if lo \<le> mm \<and> mm \<le> hi then None
      else Some (name @ '' '' @ show_mm mm @ '' mm outside '' @ show_mm lo @ ''-'' @ show_mm hi @ '' mm''))"

definition DPIS :: "u32 list" where "DPIS = [203, 300]"

definition supported_dpi :: "(rat \<Rightarrow> string) \<Rightarrow> rat \<Rightarrow> string + u32" where
  "supported_dpi show_mm dpi =
     (case find (\<lambda>d. of_nat (unat d) = dpi) DPIS of
        Some d \<Rightarrow> Inr d | None \<Rightarrow> Inl (''dpi '' @ show_mm dpi @ '' is not 203 or 300''))"

definition batch_pair :: "rat option \<Rightarrow> rat option \<Rightarrow> rat option \<Rightarrow> string + (rat \<times> rat) option" where
  "batch_pair width height dpi =
     (case (width, height) of
        (Some w, Some h) \<Rightarrow> Inr (Some (w, h))
      | (Some _, None) \<Rightarrow> Inl ''label_width_mm without label_height_mm''
      | (None, Some _) \<Rightarrow> Inl ''label_height_mm without label_width_mm''
      | (None, None) \<Rightarrow>
          (case dpi of None \<Rightarrow> Inr None | Some _ \<Rightarrow> Inl ''dpi without label_width_mm / label_height_mm''))"

definition sized_geometry ::
    "(rat \<Rightarrow> string) \<Rightarrow> LabelGeometry \<Rightarrow> rat \<Rightarrow> rat \<Rightarrow> rat option \<Rightarrow> string + BatchGeometry" where
  "sized_geometry show_mm config w h dpi =
     (case mm_within show_mm ''label_width_mm'' w 10 108 of
        Some e \<Rightarrow> Inl e
      | None \<Rightarrow>
     (case mm_within show_mm ''label_height_mm'' h 10 300 of
        Some e \<Rightarrow> Inl e
      | None \<Rightarrow>
     (case (case dpi of Some d \<Rightarrow> supported_dpi show_mm d | None \<Rightarrow> Inr (lg_dpi config)) of
        Inl e \<Rightarrow> Inl e
      | Inr d \<Rightarrow> Inr \<lparr>bg_geometry = config\<lparr>lg_width_mm := w, lg_height_mm := h, lg_dpi := d\<rparr>, bg_source = Src_Batch\<rparr>)))"

definition geometry_for :: "(rat \<Rightarrow> string) \<Rightarrow> LabelGeometry \<Rightarrow> BatchLabelSize \<Rightarrow> string + BatchGeometry" where
  "geometry_for show_mm config sz =
     (case given ''label_width_mm'' (bl_width_mm sz) of
        Inl e \<Rightarrow> Inl e
      | Inr width \<Rightarrow>
     (case given ''label_height_mm'' (bl_height_mm sz) of
        Inl e \<Rightarrow> Inl e
      | Inr height \<Rightarrow>
     (case given ''dpi'' (bl_dpi sz) of
        Inl e \<Rightarrow> Inl e
      | Inr dpi \<Rightarrow>
     (case batch_pair width height dpi of
        Inl e \<Rightarrow> Inl e
      | Inr None \<Rightarrow> Inr \<lparr>bg_geometry = config, bg_source = Src_Config\<rparr>
      | Inr (Some (w, h)) \<Rightarrow> sized_geometry show_mm config w h dpi))))"

definition roll_text :: "(rat \<Rightarrow> string) \<Rightarrow> Roll \<Rightarrow> string" where
  "roll_text show_mm r = show_mm (ro_width_mm r) @ ''x'' @ show_mm (ro_height_mm r) @ '' mm''"

definition roll_change :: "(rat \<Rightarrow> string) \<Rightarrow> Roll \<Rightarrow> Roll \<Rightarrow> string option" where
  "roll_change show_mm previous next_roll =
     (if previous \<noteq> next_roll
      then Some (''roll changed '' @ roll_text show_mm previous @ '' -> '' @ roll_text show_mm next_roll @
        '': the printer must hold the '' @ roll_text show_mm next_roll @ '' roll (calibrate the TSC label gap after a roll swap)'')
      else None)"

section \<open>The source with its rendering\<close>

definition batch_geometry :: "(rat \<Rightarrow> string) \<Rightarrow> LabelGeometry \<Rightarrow> BatchLabelSize \<Rightarrow> string + LabelGeometry" where
  "batch_geometry show_mm config sz =
     (case geometry_for show_mm config sz of Inl e \<Rightarrow> Inl (size_ack_text e) | Inr bg \<Rightarrow> Inr (bg_geometry bg))"

text \<open>What a batch meets, with the label size, the decoder and the encoder of the client.\<close>

definition rendering ::
    "(rat \<Rightarrow> string) \<Rightarrow> png_reader \<Rightarrow> (string \<Rightarrow> string + u8 list) \<Rightarrow> LabelGeometry \<Rightarrow> batch_env \<Rightarrow> batch_env" where
  "rendering show_mm read_png base64 config env =
     env\<lparr>be_geometry_for := batch_geometry show_mm config,
         be_decode_label := (\<lambda>g png. case decode_label read_png base64 png g of Inl e \<Rightarrow> Inl (label_ack_text e) | Inr l \<Rightarrow> Inr l),
         be_build_document := build_document show_mm,
         be_roll_text := roll_text show_mm\<rparr>"

end
