(* ===== verification/Label_Placement.thy ===== *)
theory Label_Placement
  imports Label_Layout
begin

text \<open>
  What is printed is the label: every dot of the roll, as a person reads the label, is black exactly where
  the PNG placed at its position is.
\<close>

section \<open>Dots\<close>

definition wf_bitmap :: "MonoBitmap \<Rightarrow> bool" where
  "wf_bitmap bm \<longleftrightarrow>
     unat (mb_width bm) \<le> unat (mb_width_bytes bm) * 8 \<and> length (mb_data bm) = unat (mb_width_bytes bm) * unat (mb_height bm)"

definition inside :: "MonoBitmap \<Rightarrow> nat \<Rightarrow> nat \<Rightarrow> bool" where
  "inside bm x y \<longleftrightarrow> x < unat (mb_width bm) \<and> y < unat (mb_height bm)"

text \<open>The dots of the bytes, with the padding of a row up to its last byte; the padding is white.\<close>

definition on_grid :: "MonoBitmap \<Rightarrow> nat \<Rightarrow> nat \<Rightarrow> bool" where
  "on_grid bm x y \<longleftrightarrow> x div 8 < unat (mb_width_bytes bm) \<and> y < unat (mb_height bm)"

definition white_padding :: "MonoBitmap \<Rightarrow> bool" where
  "white_padding bm \<longleftrightarrow> (\<forall>x y. on_grid bm x y \<and> unat (mb_width bm) \<le> x \<longrightarrow> \<not> is_black bm x y)"

lemma inside_on_grid: "wf_bitmap bm \<Longrightarrow> inside bm x y \<Longrightarrow> on_grid bm x y"
  by (auto simp: wf_bitmap_def inside_def on_grid_def)

lemma set_black_size [simp]:
  "mb_width (set_black p bm) = mb_width bm" "mb_height (set_black p bm) = mb_height bm"
  "mb_width_bytes (set_black p bm) = mb_width_bytes bm" "length (mb_data (set_black p bm)) = length (mb_data bm)"
  by (simp_all add: set_black_def byte_and_mask_def)

lemma set_black_wf [simp]: "wf_bitmap (set_black p bm) = wf_bitmap bm"
  by (simp add: wf_bitmap_def)

lemma blank_size [simp]: "mb_width (blank_bitmap w h) = w" "mb_height (blank_bitmap w h) = h"
  by (simp_all add: blank_bitmap_def)

lemma byte_index:
  assumes "wf_bitmap bm" and "on_grid bm x y"
  shows "x div 8 < unat (mb_width_bytes bm)" and "y * unat (mb_width_bytes bm) + x div 8 < length (mb_data bm)"
proof -
  let ?n = "unat (mb_width_bytes bm)"
  show col: "x div 8 < ?n" using assms by (simp add: on_grid_def)
  have "y * ?n + x div 8 < y * ?n + ?n" using col by simp
  also have "\<dots> = (y + 1) * ?n" by simp
  also have "\<dots> \<le> unat (mb_height bm) * ?n" using assms(2) by (intro mult_le_mono1) (simp add: on_grid_def)
  finally show "y * ?n + x div 8 < length (mb_data bm)" using assms(1) by (simp add: wf_bitmap_def mult.commute)
qed

lemma same_byte:
  assumes "x div 8 < (n :: nat)" and "x' div 8 < n" and "y * n + x div 8 = y' * n + x' div 8"
  shows "y = y' \<and> x div 8 = x' div 8"
proof -
  have "(y * n + x div 8) div n = y" "(y' * n + x' div 8) div n = y'" using assms(1,2) by (simp_all add: div_add1_eq)
  then show ?thesis using assms(3) by simp
qed

lemma mask_bits: "k < 8 \<Longrightarrow> bit (drop_bit k (0x80 :: u8)) j \<longleftrightarrow> j + k = 7"
proof -
  have "bit (0x80 :: u8) i \<longleftrightarrow> i = 7" for i
    using bit_exp_iff [of 7 i, where 'a = "8 word"] by (auto dest: bit_imp_le_length)
  then show ?thesis by (auto simp: bit_drop_bit_eq add.commute)
qed

lemma black_bit: "is_black bm x y \<longleftrightarrow> \<not> bit (mb_data bm ! (y * unat (mb_width_bytes bm) + x div 8)) (7 - x mod 8)"
proof -
  have "and b (drop_bit (x mod 8) (0x80 :: u8)) = 0 \<longleftrightarrow> \<not> bit b (7 - x mod 8)" for b :: u8
  proof
    assume z: "and b (drop_bit (x mod 8) (0x80 :: u8)) = 0"
    show "\<not> bit b (7 - x mod 8)"
    proof
      assume "bit b (7 - x mod 8)"
      then have "bit (and b (drop_bit (x mod 8) (0x80 :: u8))) (7 - x mod 8)"
        by (simp add: bit_and_iff mask_bits less_Suc_eq_le [symmetric])
      then show False by (simp add: z)
    qed
  next
    assume n: "\<not> bit b (7 - x mod 8)"
    show "and b (drop_bit (x mod 8) (0x80 :: u8)) = 0"
    proof (rule bit_eqI)
      fix j
      have "j = 7 - x mod 8" if "j + x mod 8 = 7" using that by simp
      then have "\<not> (bit b j \<and> j + x mod 8 = 7)" using n by blast
      then show "bit (and b (drop_bit (x mod 8) (0x80 :: u8))) j = bit (0 :: u8) j"
        by (simp add: bit_and_iff mask_bits)
    qed
  qed
  then show ?thesis by (simp add: is_black_def byte_and_mask_def)
qed

lemma is_black_set_black:
  assumes "wf_bitmap bm" and "on_grid bm (fst p) (snd p)" and "on_grid bm x y"
  shows "is_black (set_black p bm) x y \<longleftrightarrow> is_black bm x y \<or> p = (x, y)"
proof -
  obtain px py where p: "p = (px, py)" by fastforce
  let ?n = "unat (mb_width_bytes bm)"
  have pos: "x mod 8 < 8" "px mod 8 < 8" by simp_all
  note i = byte_index [OF assms(1,2)] and j = byte_index [OF assms(1,3)]
  show ?thesis
  proof (cases "py * ?n + px div 8 = y * ?n + x div 8")
    case False
    then have "p \<noteq> (x, y)" using p by auto
    moreover have "is_black (set_black p bm) x y = is_black bm x y"
      using False p by (simp add: black_bit) (simp add: set_black_def byte_and_mask_def)
    ultimately show ?thesis by simp
  next
    case True
    then have eq: "py = y" "px div 8 = x div 8" using same_byte [of px ?n x] i(1) j(1) p by auto
    have "bit (not (drop_bit (px mod 8) (0x80 :: u8))) (7 - x mod 8) \<longleftrightarrow> px mod 8 \<noteq> x mod 8"
      using pos by (auto simp: bit_not_iff mask_bits)
    then have "is_black (set_black p bm) x y \<longleftrightarrow> is_black bm x y \<or> px mod 8 = x mod 8"
      using i(2) p True eq(1) by (simp add: black_bit set_black_def byte_and_mask_def bit_and_iff eq)
    moreover have "px mod 8 = x mod 8 \<longleftrightarrow> px = x" using eq(2) by (metis div_mod_decomp)
    ultimately show ?thesis using p eq by simp
  qed
qed

lemma unat_bound: "unat (v :: u32) < 2 ^ 32"
  using unsigned_less [of v] by simp

lemma unat_div_ceil: "unat (div_ceil w 8) = (unat w + 7) div 8"
proof -
  have d: "unat (w div 8) = unat w div 8" and m: "unat (w mod 8) = unat w mod 8" by (simp_all add: unat_div unat_mod)
  have lt: "unat w < 2 ^ 32" by (rule unat_bound)
  have z: "w mod 8 = 0 \<longleftrightarrow> unat w mod 8 = 0" by (metis m unat_eq_zero)
  show ?thesis
  proof (cases "unat w mod 8 = 0")
    case True
    then show ?thesis using d z by (simp add: div_ceil_def) presburger
  next
    case False
    have "unat (w div 8 + 1) = unat (w div 8) + 1"
      using lt d by (subst unat_add_lem [THEN iffD1]) (simp_all add: div_le_dividend less_mult_imp_div_less)
    then show ?thesis using d z False by (simp add: div_ceil_def) presburger
  qed
qed

lemma blank_wf [simp]: "wf_bitmap (blank_bitmap w h)"
  by (simp add: wf_bitmap_def blank_bitmap_def unat_div_ceil)

lemma blank_white [simp]: "on_grid (blank_bitmap w h) x y \<Longrightarrow> \<not> is_black (blank_bitmap w h) x y"
proof -
  assume i: "on_grid (blank_bitmap w h) x y"
  have "(0xFF :: u8) = - 1" by simp
  then have "bit (0xFF :: u8) (7 - x mod 8)" by (simp only: bit_minus_1_iff) simp
  then show ?thesis using byte_index(2) [OF blank_wf i] by (simp add: black_bit) (simp add: blank_bitmap_def)
qed

text \<open>Painting some dots of a blank bitmap.\<close>

lemma painted:
  assumes "wf_bitmap bm" and "\<And>q. q \<in> set ps \<Longrightarrow> P q \<Longrightarrow> inside bm (fst (f q)) (snd (f q))"
  shows "wf_bitmap (fold (\<lambda>q out. if P q then set_black (f q) out else out) ps bm)"
    and "mb_width (fold (\<lambda>q out. if P q then set_black (f q) out else out) ps bm) = mb_width bm"
    and "mb_height (fold (\<lambda>q out. if P q then set_black (f q) out else out) ps bm) = mb_height bm"
    and "mb_width_bytes (fold (\<lambda>q out. if P q then set_black (f q) out else out) ps bm) = mb_width_bytes bm"
    and "on_grid bm x y \<Longrightarrow> is_black (fold (\<lambda>q out. if P q then set_black (f q) out else out) ps bm) x y \<longleftrightarrow>
      is_black bm x y \<or> (\<exists>q \<in> set ps. P q \<and> f q = (x, y))"
  using assms
proof (induction ps arbitrary: bm)
  case (Cons q ps)
  case 5
  show ?case
  proof (cases "P q")
    case True
    have "inside (set_black (f q) bm) (fst (f r)) (snd (f r))" if "r \<in> set ps" "P r" for r
      using 5(3) [of r] that by (simp add: inside_def)
    moreover have "on_grid bm (fst (f q)) (snd (f q))" using 5(2) 5(3) [of q] True by (simp add: inside_on_grid)
    ultimately show ?thesis
      using True 5 Cons.IH(5) [of "set_black (f q) bm"] is_black_set_black [of bm "f q" x y]
      by (auto simp: on_grid_def)
  next
    case False
    then show ?thesis using 5 Cons.IH(5) [of bm] by auto
  qed
qed (auto simp: inside_def)

lemma set_dots: "set (dots x0 x1 y0 y1) = {x0..<x1} \<times> {y0..<y1}"
  by (auto simp: dots_def)

lemma painted_blank:
  assumes "\<And>q. q \<in> set ps \<Longrightarrow> P q \<Longrightarrow> inside (blank_bitmap w h) (fst (f q)) (snd (f q))"
  shows "wf_bitmap (fold (\<lambda>q out. if P q then set_black (f q) out else out) ps (blank_bitmap w h))"
    and "mb_width (fold (\<lambda>q out. if P q then set_black (f q) out else out) ps (blank_bitmap w h)) = w"
    and "mb_height (fold (\<lambda>q out. if P q then set_black (f q) out else out) ps (blank_bitmap w h)) = h"
    and "x < unat w \<Longrightarrow> y < unat h \<Longrightarrow> is_black (fold (\<lambda>q out. if P q then set_black (f q) out else out) ps (blank_bitmap w h)) x y \<longleftrightarrow>
      (\<exists>q \<in> set ps. P q \<and> f q = (x, y))"
    and "white_padding (fold (\<lambda>q out. if P q then set_black (f q) out else out) ps (blank_bitmap w h))"
proof -
  let ?b = "fold (\<lambda>q out. if P q then set_black (f q) out else out) ps (blank_bitmap w h)"
  note p = painted [where bm = "blank_bitmap w h" and ps = ps and P = P and f = f, OF blank_wf assms]
  have black: "is_black ?b x y \<longleftrightarrow> (\<exists>q \<in> set ps. P q \<and> f q = (x, y))" if "on_grid (blank_bitmap w h) x y" for x y
    using p(5) [of x y] that blank_white [OF that] by auto
  show "wf_bitmap ?b" "mb_width ?b = w" "mb_height ?b = h" using p(1-3) by auto
  show "is_black ?b x y \<longleftrightarrow> (\<exists>q \<in> set ps. P q \<and> f q = (x, y))" if "x < unat w" "y < unat h"
  proof -
    have "on_grid (blank_bitmap w h) x y" using that by (intro inside_on_grid) (simp_all add: inside_def)
    then show ?thesis by (rule black)
  qed
  show "white_padding ?b"
    unfolding white_padding_def
  proof (intro allI impI)
    fix x y assume g: "on_grid ?b x y \<and> unat (mb_width ?b) \<le> x"
    then have o: "on_grid (blank_bitmap w h) x y" using p(3,4) by (simp add: on_grid_def)
    have "f q \<noteq> (x, y)" if "q \<in> set ps" "P q" for q using assms [OF that] g p(2) by (auto simp: inside_def)
    then show "\<not> is_black ?b x y" using black [OF o] by blast
  qed
qed

section \<open>Rotation and crop\<close>

lemma rotated_180_fold:
  "rotated_180 bm = fold (\<lambda>q out. if is_black bm (fst q) (snd q)
     then set_black (unat (mb_width bm) - 1 - fst q, unat (mb_height bm) - 1 - snd q) out else out)
     (all_dots bm) (blank_bitmap (mb_width bm) (mb_height bm))"
  by (simp add: rotated_180_def case_prod_unfold)

lemma rotated_180_dots:
  shows "wf_bitmap (rotated_180 bm)" and "mb_width (rotated_180 bm) = mb_width bm" and "mb_height (rotated_180 bm) = mb_height bm"
    and "x < unat (mb_width bm) \<Longrightarrow> y < unat (mb_height bm) \<Longrightarrow>
      is_black (rotated_180 bm) x y \<longleftrightarrow> is_black bm (unat (mb_width bm) - 1 - x) (unat (mb_height bm) - 1 - y)"
    and "white_padding (rotated_180 bm)"
proof -
  let ?w = "unat (mb_width bm)" and ?h = "unat (mb_height bm)"
  have ins: "inside (blank_bitmap (mb_width bm) (mb_height bm)) (fst (?w - 1 - fst q, ?h - 1 - snd q)) (snd (?w - 1 - fst q, ?h - 1 - snd q))"
    if "q \<in> set (all_dots bm)" for q using that by (auto simp: inside_def all_dots_def set_dots)
  note p = painted_blank [where f = "\<lambda>q. (?w - 1 - fst q, ?h - 1 - snd q)" and P = "\<lambda>q. is_black bm (fst q) (snd q)"
      and ps = "all_dots bm" and w = "mb_width bm" and h = "mb_height bm", OF ins, folded rotated_180_fold]
  show "wf_bitmap (rotated_180 bm)" "mb_width (rotated_180 bm) = mb_width bm" "mb_height (rotated_180 bm) = mb_height bm"
    using p(1-3) by auto
  show "white_padding (rotated_180 bm)" using p(5) by auto
  assume xy: "x < ?w" "y < ?h"
  have "(\<exists>q \<in> set (all_dots bm). is_black bm (fst q) (snd q) \<and> (?w - 1 - fst q, ?h - 1 - snd q) = (x, y)) \<longleftrightarrow>
      is_black bm (?w - 1 - x) (?h - 1 - y)" (is "?l \<longleftrightarrow> ?r")
  proof
    assume ?l
    then obtain q where q: "q \<in> set (all_dots bm)" "is_black bm (fst q) (snd q)" "?w - 1 - fst q = x" "?h - 1 - snd q = y" by auto
    then have "fst q = ?w - 1 - x" "snd q = ?h - 1 - y" by (auto simp: all_dots_def set_dots)
    then show ?r using q(2) by simp
  next
    assume ?r
    then show ?l using xy by (intro bexI [of _ "(?w - 1 - x, ?h - 1 - y)"]) (auto simp: all_dots_def set_dots)
  qed
  then show "is_black (rotated_180 bm) x y \<longleftrightarrow> is_black bm (?w - 1 - x) (?h - 1 - y)" using p(4) [of x y] xy by blast
qed

lemma crop_fold:
  "crop r bm = fold (\<lambda>q out. if is_black bm (fst q) (snd q)
     then set_black (fst q - unat (dr_x0 r), snd q - unat (dr_y0 r)) out else out)
     (dots (unat (dr_x0 r)) (unat (dr_x1 r)) (unat (dr_y0 r)) (unat (dr_y1 r))) (blank_bitmap (dr_x1 r - dr_x0 r) (dr_y1 r - dr_y0 r))"
  by (simp add: crop_def case_prod_unfold)

lemma crop_dots:
  assumes "dr_x0 r \<le> dr_x1 r" and "dr_y0 r \<le> dr_y1 r"
  shows "wf_bitmap (crop r bm)" and "mb_width (crop r bm) = dr_x1 r - dr_x0 r" and "mb_height (crop r bm) = dr_y1 r - dr_y0 r"
    and "x < unat (dr_x1 r) - unat (dr_x0 r) \<Longrightarrow> y < unat (dr_y1 r) - unat (dr_y0 r) \<Longrightarrow>
      is_black (crop r bm) x y \<longleftrightarrow> is_black bm (x + unat (dr_x0 r)) (y + unat (dr_y0 r))"
    and "white_padding (crop r bm)"
proof -
  let ?x0 = "unat (dr_x0 r)" and ?x1 = "unat (dr_x1 r)" and ?y0 = "unat (dr_y0 r)" and ?y1 = "unat (dr_y1 r)"
  have size: "unat (dr_x1 r - dr_x0 r) = ?x1 - ?x0" "unat (dr_y1 r - dr_y0 r) = ?y1 - ?y0"
    using assms by (simp_all add: unat_sub)
  have ins: "inside (blank_bitmap (dr_x1 r - dr_x0 r) (dr_y1 r - dr_y0 r)) (fst (fst q - ?x0, snd q - ?y0)) (snd (fst q - ?x0, snd q - ?y0))"
    if "q \<in> set (dots ?x0 ?x1 ?y0 ?y1)" for q using that by (auto simp: inside_def set_dots size)
  note p = painted_blank [where f = "\<lambda>q. (fst q - ?x0, snd q - ?y0)" and P = "\<lambda>q. is_black bm (fst q) (snd q)"
      and ps = "dots ?x0 ?x1 ?y0 ?y1" and w = "dr_x1 r - dr_x0 r" and h = "dr_y1 r - dr_y0 r", OF ins, folded crop_fold]
  show "wf_bitmap (crop r bm)" "mb_width (crop r bm) = dr_x1 r - dr_x0 r" "mb_height (crop r bm) = dr_y1 r - dr_y0 r"
    using p(1-3) by auto
  show "white_padding (crop r bm)" using p(5) by auto
  assume xy: "x < ?x1 - ?x0" "y < ?y1 - ?y0"
  have "(\<exists>q \<in> set (dots ?x0 ?x1 ?y0 ?y1). is_black bm (fst q) (snd q) \<and> (fst q - ?x0, snd q - ?y0) = (x, y)) \<longleftrightarrow>
      is_black bm (x + ?x0) (y + ?y0)" (is "?l \<longleftrightarrow> ?r")
  proof
    assume ?l
    then obtain q where q: "q \<in> set (dots ?x0 ?x1 ?y0 ?y1)" "is_black bm (fst q) (snd q)" "fst q - ?x0 = x" "snd q - ?y0 = y" by auto
    then have "fst q = x + ?x0" "snd q = y + ?y0" by (auto simp: set_dots)
    then show ?r using q(2) by simp
  next
    assume ?r
    then show ?l using xy by (intro bexI [of _ "(x + ?x0, y + ?y0)"]) (auto simp: set_dots)
  qed
  then show "is_black (crop r bm) x y \<longleftrightarrow> is_black bm (x + ?x0) (y + ?y0)" using p(4) [of x y] xy size by simp
qed

section \<open>Where the dots land\<close>

text \<open>One axis: the part of a stretch of \<open>w\<close> dots from \<open>r\<close> on that lies on a canvas of \<open>c\<close> dots.\<close>

lemma uint_clamp: "uint (clamp_dots v m) = min (max v 0) (uint m)"
proof -
  have "0 \<le> min (max v 0) (uint m)" "min (max v 0) (uint m) < 2 ^ 32"
    using unsigned_less [of m] by (auto simp: min_def max_def)
  then show ?thesis by (simp add: clamp_dots_def unsigned_of_int take_bit_int_eq_self)
qed

lemma axis:
  fixes r :: int
  assumes "0 \<le> X" and "X < c" and "0 \<le> w"
  defines "a \<equiv> min (max (- r) 0) w" and "b \<equiv> min (max (c - r) 0) w" and "s \<equiv> min (max r 0) c"
  shows "a \<le> b" and "s \<le> X \<and> X < s + (b - a) \<longleftrightarrow> 0 \<le> X - r \<and> X - r < w"
    and "s \<le> X \<Longrightarrow> X < s + (b - a) \<Longrightarrow> X - s + a = X - r" and "s + (b - a) \<le> c"
  using assms(1-3) unfolding a_def b_def s_def by (auto simp: min_def max_def split: if_splits)

definition png_dot :: "MonoBitmap \<Rightarrow> int \<Rightarrow> int \<Rightarrow> bool" where
  "png_dot bm x y \<longleftrightarrow>
     0 \<le> x \<and> x < uint (mb_width bm) \<and> 0 \<le> y \<and> y < uint (mb_height bm) \<and> is_black bm (nat x) (nat y)"

text \<open>What the printer puts on the roll: in its own coordinates, and as the label is read.\<close>

definition printed_dot :: "PlacedLabel \<Rightarrow> int \<Rightarrow> int \<Rightarrow> bool" where
  "printed_dot l px py =
     png_dot (pb_bitmap l) (px - uint (fst (lo_bitmap_at (pb_layout l)))) (py - uint (snd (lo_bitmap_at (pb_layout l))))"

definition read_dot :: "PlacedLabel \<Rightarrow> int \<Rightarrow> int \<Rightarrow> bool" where
  "read_dot l x y =
     (if lo_rotate_180 (pb_layout l)
      then printed_dot l (uint (fst (lo_canvas (pb_layout l))) - 1 - x) (uint (snd (lo_canvas (pb_layout l))) - 1 - y)
      else printed_dot l x y)"

text \<open>Where the label is read: centred, of an odd gap the smaller part first in printer coordinates, then moved.\<close>

definition read_at :: "bool \<Rightarrow> int \<Rightarrow> u32 \<Rightarrow> u32 \<Rightarrow> int" where
  "read_at rotated offset canvas png =
     (if rotated then (uint canvas - uint png) - (uint canvas - uint png) div 2 else (uint canvas - uint png) div 2) + offset"

lemma png_dot_rotated:
  "png_dot (rotated_180 bm) x y \<longleftrightarrow> png_dot bm (uint (mb_width bm) - 1 - x) (uint (mb_height bm) - 1 - y)"
proof (cases "0 \<le> x \<and> x < uint (mb_width bm) \<and> 0 \<le> y \<and> y < uint (mb_height bm)")
  case True
  then have "nat x < unat (mb_width bm)" "nat y < unat (mb_height bm)" by (simp_all add: nat_less_iff)
  moreover have "nat (uint (mb_width bm) - 1 - x) = unat (mb_width bm) - 1 - nat x"
    "nat (uint (mb_height bm) - 1 - y) = unat (mb_height bm) - 1 - nat y"
    using True by (simp_all add: nat_diff_distrib')
  ultimately show ?thesis using True by (auto simp: png_dot_def rotated_180_dots)
qed (auto simp: png_dot_def rotated_180_dots)

lemma png_dot_crop:
  assumes "dr_x0 r \<le> dr_x1 r" and "dr_y0 r \<le> dr_y1 r" and "dr_x1 r \<le> mb_width bm" and "dr_y1 r \<le> mb_height bm"
  shows "png_dot (crop r bm) x y \<longleftrightarrow>
    0 \<le> x \<and> x < uint (dr_x1 r) - uint (dr_x0 r) \<and> 0 \<le> y \<and> y < uint (dr_y1 r) - uint (dr_y0 r) \<and>
    png_dot bm (x + uint (dr_x0 r)) (y + uint (dr_y0 r))"
proof -
  have size: "uint (dr_x1 r - dr_x0 r) = uint (dr_x1 r) - uint (dr_x0 r)" "uint (dr_y1 r - dr_y0 r) = uint (dr_y1 r) - uint (dr_y0 r)"
    using assms by (simp_all add: uint_sub_if' word_le_def)
  have fits: "uint (dr_x1 r) \<le> uint (mb_width bm)" "uint (dr_y1 r) \<le> uint (mb_height bm)" using assms by (simp_all add: word_le_def)
  show ?thesis
  proof (cases "0 \<le> x \<and> x < uint (dr_x1 r) - uint (dr_x0 r) \<and> 0 \<le> y \<and> y < uint (dr_y1 r) - uint (dr_y0 r)")
    case True
    moreover have "int (unat (dr_x1 r) - unat (dr_x0 r)) = uint (dr_x1 r) - uint (dr_x0 r)"
        "int (unat (dr_y1 r) - unat (dr_y0 r)) = uint (dr_y1 r) - uint (dr_y0 r)"
      using assms(1,2) by (simp_all add: of_nat_diff word_le_nat_alt)
    ultimately have "nat x < unat (dr_x1 r) - unat (dr_x0 r)" "nat y < unat (dr_y1 r) - unat (dr_y0 r)"
      by (simp_all add: nat_less_iff)
    moreover have "nat (x + uint (dr_x0 r)) = nat x + unat (dr_x0 r)" "nat (y + uint (dr_y0 r)) = nat y + unat (dr_y0 r)"
      using True by (simp_all add: nat_add_distrib)
    ultimately show ?thesis using True fits by (simp add: png_dot_def crop_dots [OF assms(1,2)] size)
  qed (auto simp: png_dot_def crop_dots [OF assms(1,2)] size)
qed

lemma placed_axis:
  fixes canvas png :: u32 and r X :: int
  assumes "0 \<le> X" and "X < uint canvas"
  shows "clamp_dots (- r) png \<le> clamp_dots (uint canvas - r) png"
    and "clamp_dots (uint canvas - r) png \<le> png"
    and "uint (clamp_dots r canvas) \<le> X \<and> X < uint (clamp_dots r canvas) + (uint (clamp_dots (uint canvas - r) png) - uint (clamp_dots (- r) png))
      \<longleftrightarrow> 0 \<le> X - r \<and> X - r < uint png"
    and "0 \<le> X - r \<Longrightarrow> X - r < uint png \<Longrightarrow> X - uint (clamp_dots r canvas) + uint (clamp_dots (- r) png) = X - r"
proof -
  have png: "0 \<le> uint png" by simp
  note a = axis [OF assms png, of r]
  show "clamp_dots (- r) png \<le> clamp_dots (uint canvas - r) png" unfolding word_le_def uint_clamp by (rule a(1))
  show "clamp_dots (uint canvas - r) png \<le> png" unfolding word_le_def uint_clamp by simp
  show iff: "uint (clamp_dots r canvas) \<le> X \<and>
      X < uint (clamp_dots r canvas) + (uint (clamp_dots (uint canvas - r) png) - uint (clamp_dots (- r) png))
      \<longleftrightarrow> 0 \<le> X - r \<and> X - r < uint png" unfolding uint_clamp by (rule a(2))
  assume "0 \<le> X - r" "X - r < uint png"
  with iff show "X - uint (clamp_dots r canvas) + uint (clamp_dots (- r) png) = X - r"
    unfolding uint_clamp using a(3) by blast
qed

definition visible_part :: "MonoBitmap \<Rightarrow> u32 \<Rightarrow> u32 \<Rightarrow> int \<Rightarrow> int \<Rightarrow> MonoBitmap" where
  "visible_part bm canvas_w canvas_h rx ry =
     (let visible = \<lparr>dr_x0 = clamp_dots (- rx) (mb_width bm), dr_y0 = clamp_dots (- ry) (mb_height bm),
                     dr_x1 = clamp_dots (uint canvas_w - rx) (mb_width bm), dr_y1 = clamp_dots (uint canvas_h - ry) (mb_height bm)\<rparr>
      in if visible = \<lparr>dr_x0 = 0, dr_y0 = 0, dr_x1 = mb_width bm, dr_y1 = mb_height bm\<rparr> then bm else crop visible bm)"

lemma visible_part_dots:
  assumes "0 \<le> X" and "X < uint canvas_w" and "0 \<le> Y" and "Y < uint canvas_h"
  shows "png_dot (visible_part bm canvas_w canvas_h rx ry) (X - uint (clamp_dots rx canvas_w)) (Y - uint (clamp_dots ry canvas_h)) \<longleftrightarrow>
      png_dot bm (X - rx) (Y - ry)"
proof -
  let ?v = "\<lparr>dr_x0 = clamp_dots (- rx) (mb_width bm), dr_y0 = clamp_dots (- ry) (mb_height bm),
             dr_x1 = clamp_dots (uint canvas_w - rx) (mb_width bm), dr_y1 = clamp_dots (uint canvas_h - ry) (mb_height bm)\<rparr>"
  note ax = placed_axis [OF assms(1,2), of rx "mb_width bm"] and ay = placed_axis [OF assms(3,4), of ry "mb_height bm"]
  define x y where "x = X - uint (clamp_dots rx canvas_w)" and "y = Y - uint (clamp_dots ry canvas_h)"
  have inx: "0 \<le> x \<and> x < uint (dr_x1 ?v) - uint (dr_x0 ?v) \<longleftrightarrow> 0 \<le> X - rx \<and> X - rx < uint (mb_width bm)"
    and iny: "0 \<le> y \<and> y < uint (dr_y1 ?v) - uint (dr_y0 ?v) \<longleftrightarrow> 0 \<le> Y - ry \<and> Y - ry < uint (mb_height bm)"
    using ax(3) ay(3) unfolding x_def y_def by auto
  have whole: "png_dot bm x y \<longleftrightarrow> 0 \<le> x \<and> x < uint (dr_x1 ?v) - uint (dr_x0 ?v) \<and> 0 \<le> y \<and> y < uint (dr_y1 ?v) - uint (dr_y0 ?v) \<and>
      png_dot bm (x + uint (dr_x0 ?v)) (y + uint (dr_y0 ?v))"
    if "?v = \<lparr>dr_x0 = 0, dr_y0 = 0, dr_x1 = mb_width bm, dr_y1 = mb_height bm\<rparr>"
    using that by (auto simp: png_dot_def)
  have crop: "png_dot (crop ?v bm) x y \<longleftrightarrow> 0 \<le> x \<and> x < uint (dr_x1 ?v) - uint (dr_x0 ?v) \<and> 0 \<le> y \<and>
      y < uint (dr_y1 ?v) - uint (dr_y0 ?v) \<and> png_dot bm (x + uint (dr_x0 ?v)) (y + uint (dr_y0 ?v))"
    using ax(1,2) ay(1,2) by (intro png_dot_crop) simp_all
  have "png_dot (visible_part bm canvas_w canvas_h rx ry) x y \<longleftrightarrow>
      (0 \<le> x \<and> x < uint (dr_x1 ?v) - uint (dr_x0 ?v)) \<and> (0 \<le> y \<and> y < uint (dr_y1 ?v) - uint (dr_y0 ?v)) \<and>
      png_dot bm (x + uint (dr_x0 ?v)) (y + uint (dr_y0 ?v))"
    using whole crop by (auto simp: visible_part_def Let_def simp del: DotRect.simps)
  also have "\<dots> \<longleftrightarrow> png_dot bm (X - rx) (Y - ry)"
  proof (cases "(0 \<le> X - rx \<and> X - rx < uint (mb_width bm)) \<and> (0 \<le> Y - ry \<and> Y - ry < uint (mb_height bm))")
    case True
    then have "x + uint (dr_x0 ?v) = X - rx" "y + uint (dr_y0 ?v) = Y - ry" using ax(4) ay(4) by (simp_all only: x_def y_def DotRect.simps)
    then show ?thesis unfolding inx iny using True by simp
  next
    case False
    then show ?thesis unfolding inx iny by (auto simp: png_dot_def)
  qed
  finally show ?thesis by (simp add: x_def y_def)
qed

lemma axis_fits:
  fixes r :: int
  assumes "0 \<le> c" and "0 \<le> w"
  shows "min (max (- r) 0) w \<le> min (max (c - r) 0) w"
    and "min (max r 0) c + (min (max (c - r) 0) w - min (max (- r) 0) w) \<le> c"
  using assms by (auto simp: min_def max_def split: if_splits)

lemma visible_part_size:
  shows "uint (clamp_dots rx canvas_w) + uint (mb_width (visible_part bm canvas_w canvas_h rx ry)) \<le> uint canvas_w"
    and "uint (clamp_dots ry canvas_h) + uint (mb_height (visible_part bm canvas_w canvas_h rx ry)) \<le> uint canvas_h"
    and "wf_bitmap bm \<Longrightarrow> wf_bitmap (visible_part bm canvas_w canvas_h rx ry)"
    and "white_padding bm \<Longrightarrow> white_padding (visible_part bm canvas_w canvas_h rx ry)"
proof -
  let ?v = "\<lparr>dr_x0 = clamp_dots (- rx) (mb_width bm), dr_y0 = clamp_dots (- ry) (mb_height bm),
             dr_x1 = clamp_dots (uint canvas_w - rx) (mb_width bm), dr_y1 = clamp_dots (uint canvas_h - ry) (mb_height bm)\<rparr>"
  note ax = axis_fits [of "uint canvas_w" "uint (mb_width bm)" rx] and ay = axis_fits [of "uint canvas_h" "uint (mb_height bm)" ry]
  have le: "dr_x0 ?v \<le> dr_x1 ?v" "dr_y0 ?v \<le> dr_y1 ?v" using ax(1) ay(1) by (simp_all add: word_le_def uint_clamp)
  note c = crop_dots [OF le, where bm = bm]
  have w: "uint (mb_width (visible_part bm canvas_w canvas_h rx ry)) = uint (dr_x1 ?v) - uint (dr_x0 ?v)"
      "uint (mb_height (visible_part bm canvas_w canvas_h rx ry)) = uint (dr_y1 ?v) - uint (dr_y0 ?v)"
    using le c(2,3) by (auto simp: visible_part_def Let_def uint_sub_if' word_le_def)
  show "uint (clamp_dots rx canvas_w) + uint (mb_width (visible_part bm canvas_w canvas_h rx ry)) \<le> uint canvas_w"
    "uint (clamp_dots ry canvas_h) + uint (mb_height (visible_part bm canvas_w canvas_h rx ry)) \<le> uint canvas_h"
    unfolding w using ax(2) ay(2) by (simp_all add: uint_clamp)
  show "wf_bitmap bm \<Longrightarrow> wf_bitmap (visible_part bm canvas_w canvas_h rx ry)" using c(1) by (simp add: visible_part_def Let_def)
  show "white_padding bm \<Longrightarrow> white_padding (visible_part bm canvas_w canvas_h rx ry)" using c(5) by (simp add: visible_part_def Let_def)
qed

lemma place_at_fields:
  fixes bm g canvas_w canvas_h
  assumes "mb_width bm \<le> canvas_w" and "mb_height bm \<le> canvas_h"
  defines "l \<equiv> place_at bm g canvas_w canvas_h"
    and "rx \<equiv> read_at (lg_rotate_180 g) (lg_x_offset_dots g) canvas_w (mb_width bm)"
    and "ry \<equiv> read_at (lg_rotate_180 g) (lg_y_offset_dots g) canvas_h (mb_height bm)"
  defines "shown \<equiv> visible_part bm canvas_w canvas_h rx ry"
  shows "pb_bitmap l = (if lg_rotate_180 g then rotated_180 shown else shown)"
    and "lo_rotate_180 (pb_layout l) = lg_rotate_180 g" and "lo_canvas (pb_layout l) = (canvas_w, canvas_h)"
    and "lo_bitmap_at (pb_layout l) =
      (if lg_rotate_180 g then (canvas_w - clamp_dots rx canvas_w - mb_width shown, canvas_h - clamp_dots ry canvas_h - mb_height shown)
       else (clamp_dots rx canvas_w, clamp_dots ry canvas_h))"
proof -
  have "max (uint canvas_w - uint (mb_width bm)) 0 = uint canvas_w - uint (mb_width bm)"
    "max (uint canvas_h - uint (mb_height bm)) 0 = uint canvas_h - uint (mb_height bm)"
    using assms(1,2) by (simp_all add: word_le_def)
  then show "pb_bitmap l = (if lg_rotate_180 g then rotated_180 shown else shown)"
    "lo_rotate_180 (pb_layout l) = lg_rotate_180 g" "lo_canvas (pb_layout l) = (canvas_w, canvas_h)"
    "lo_bitmap_at (pb_layout l) =
      (if lg_rotate_180 g then (canvas_w - clamp_dots rx canvas_w - mb_width shown, canvas_h - clamp_dots ry canvas_h - mb_height shown)
       else (clamp_dots rx canvas_w, clamp_dots ry canvas_h))"
    unfolding l_def shown_def rx_def ry_def place_at_def visible_part_def read_at_def Let_def by simp_all
qed

lemma uint_rest:
  fixes c s w :: u32
  assumes "uint s + uint w \<le> uint c"
  shows "uint (c - s - w) = uint c - uint s - uint w"
proof -
  have "uint s \<le> uint c" using assms uint_ge_0 [of w] by linarith
  then have "uint (c - s) = uint c - uint s" by (simp add: uint_sub_if')
  then show ?thesis using assms by (simp add: uint_sub_if')
qed

lemma place_at_dots:
  assumes "mb_width bm \<le> canvas_w" and "mb_height bm \<le> canvas_h"
    and "0 \<le> X" and "X < uint canvas_w" and "0 \<le> Y" and "Y < uint canvas_h"
  shows "read_dot (place_at bm g canvas_w canvas_h) X Y \<longleftrightarrow>
    png_dot bm (X - read_at (lg_rotate_180 g) (lg_x_offset_dots g) canvas_w (mb_width bm))
      (Y - read_at (lg_rotate_180 g) (lg_y_offset_dots g) canvas_h (mb_height bm))"
proof -
  define rx where "rx = read_at (lg_rotate_180 g) (lg_x_offset_dots g) canvas_w (mb_width bm)"
  define ry where "ry = read_at (lg_rotate_180 g) (lg_y_offset_dots g) canvas_h (mb_height bm)"
  define shown where "shown = visible_part bm canvas_w canvas_h rx ry"
  note f = place_at_fields [OF assms(1,2), of g, folded rx_def ry_def, folded shown_def]
  note dots = visible_part_dots [OF assms(3-6), of bm rx ry, folded shown_def]
  have fit: "uint (clamp_dots rx canvas_w) + uint (mb_width shown) \<le> uint canvas_w"
      "uint (clamp_dots ry canvas_h) + uint (mb_height shown) \<le> uint canvas_h"
    using visible_part_size(1,2) by (simp_all add: shown_def)
  have x: "uint (mb_width shown) - 1 - (uint canvas_w - 1 - X - uint (canvas_w - clamp_dots rx canvas_w - mb_width shown)) =
      X - uint (clamp_dots rx canvas_w)" using uint_rest [OF fit(1)] by linarith
  have y: "uint (mb_height shown) - 1 - (uint canvas_h - 1 - Y - uint (canvas_h - clamp_dots ry canvas_h - mb_height shown)) =
      Y - uint (clamp_dots ry canvas_h)" using uint_rest [OF fit(2)] by linarith
  have "read_dot (place_at bm g canvas_w canvas_h) X Y \<longleftrightarrow>
      png_dot shown (X - uint (clamp_dots rx canvas_w)) (Y - uint (clamp_dots ry canvas_h))"
    by (simp add: read_dot_def printed_dot_def f png_dot_rotated x y)
  then show ?thesis using dots by (simp add: rx_def ry_def)
qed

lemma place_at_on_roll:
  fixes g :: LabelGeometry
  assumes "mb_width bm \<le> canvas_w" and "mb_height bm \<le> canvas_h"
  defines "l \<equiv> place_at bm g canvas_w canvas_h"
  shows "uint (fst (lo_bitmap_at (pb_layout l))) + uint (mb_width (pb_bitmap l)) \<le> uint canvas_w"
    and "uint (snd (lo_bitmap_at (pb_layout l))) + uint (mb_height (pb_bitmap l)) \<le> uint canvas_h"
proof -
  define rx where "rx = read_at (lg_rotate_180 g) (lg_x_offset_dots g) canvas_w (mb_width bm)"
  define ry where "ry = read_at (lg_rotate_180 g) (lg_y_offset_dots g) canvas_h (mb_height bm)"
  define shown where "shown = visible_part bm canvas_w canvas_h rx ry"
  note f = place_at_fields [OF assms(1,2), of g, folded rx_def ry_def l_def, folded shown_def]
  have fit: "uint (clamp_dots rx canvas_w) + uint (mb_width shown) \<le> uint canvas_w"
      "uint (clamp_dots ry canvas_h) + uint (mb_height shown) \<le> uint canvas_h"
    using visible_part_size(1,2) by (simp_all add: shown_def)
  show "uint (fst (lo_bitmap_at (pb_layout l))) + uint (mb_width (pb_bitmap l)) \<le> uint canvas_w"
    "uint (snd (lo_bitmap_at (pb_layout l))) + uint (mb_height (pb_bitmap l)) \<le> uint canvas_h"
    using fit uint_rest [OF fit(1)] uint_rest [OF fit(2)] by (auto simp: f rotated_180_dots)
qed

section \<open>Ink\<close>

definition dot_in :: "DotRect \<Rightarrow> nat \<times> nat \<Rightarrow> bool" where
  "dot_in r q \<longleftrightarrow> uint (dr_x0 r) \<le> int (fst q) \<and> int (fst q) < uint (dr_x1 r) \<and> uint (dr_y0 r) \<le> int (snd q) \<and> int (snd q) < uint (dr_y1 r)"

lemma extend_bbox_contains:
  assumes "x + 1 < 2 ^ 32" and "y + 1 < 2 ^ 32"
  shows "rect_contains r (extend_bbox (of_nat x) (of_nat y) b) \<longleftrightarrow>
    (case b of None \<Rightarrow> True | Some b \<Rightarrow> rect_contains r b) \<and> dot_in r (x, y)"
proof -
  have u: "uint (of_nat x :: u32) = int x" "uint (of_nat x + 1 :: u32) = int x + 1"
    "uint (of_nat y :: u32) = int y" "uint (of_nat y + 1 :: u32) = int y + 1"
    using assms by (simp_all add: uint_plus_if' unsigned_of_nat take_bit_nat_eq_self nat_less_iff)
  have d: "uint v \<le> int x \<longleftrightarrow> v \<le> of_nat x" "int x < uint v \<longleftrightarrow> of_nat x + 1 \<le> v"
    "uint v \<le> int y \<longleftrightarrow> v \<le> of_nat y" "int y < uint v \<longleftrightarrow> of_nat y + 1 \<le> v" for v :: u32
    by (auto simp: word_le_def u)
  show ?thesis by (cases b) (auto simp: extend_bbox_def rect_contains_def dot_in_def d)
qed

lemma ink_fold_contains:
  assumes "\<And>q. q \<in> set ps \<Longrightarrow> fst q + 1 < 2 ^ 32 \<and> snd q + 1 < 2 ^ 32"
  shows "(case fold (\<lambda>(x, y) b. if is_black bm x y then Some (extend_bbox (of_nat x) (of_nat y) b) else b) ps b of
      None \<Rightarrow> True | Some ink \<Rightarrow> rect_contains r ink) \<longleftrightarrow>
    (case b of None \<Rightarrow> True | Some ink \<Rightarrow> rect_contains r ink) \<and> (\<forall>q \<in> set ps. is_black bm (fst q) (snd q) \<longrightarrow> dot_in r q)"
  using assms
proof (induction ps arbitrary: b)
  case (Cons q ps)
  obtain x y where q: "q = (x, y)" by fastforce
  have xy: "x + 1 < 2 ^ 32" "y + 1 < 2 ^ 32" using Cons.prems [of q] q by simp_all
  show ?case
    using Cons.IH [of "if is_black bm x y then Some (extend_bbox (of_nat x) (of_nat y) b) else b"] Cons.prems
      extend_bbox_contains [OF xy, of r b] q
    by (cases "is_black bm x y") auto
qed simp

lemma ink_bbox_contains:
  "(case ink_bbox bm of None \<Rightarrow> True | Some ink \<Rightarrow> rect_contains r ink) \<longleftrightarrow>
   (\<forall>q \<in> set (all_dots bm). is_black bm (fst q) (snd q) \<longrightarrow> dot_in r q)"
proof -
  have "fst q + 1 < 2 ^ 32 \<and> snd q + 1 < 2 ^ 32" if "q \<in> set (all_dots bm)" for q
  proof -
    have "unat (mb_width bm) < 2 ^ 32" "unat (mb_height bm) < 2 ^ 32"
      by (rule unat_bound)+
    then show ?thesis using that by (auto simp: all_dots_def set_dots)
  qed
  then show ?thesis unfolding ink_bbox_def by (subst ink_fold_contains) simp_all
qed

lemma all_dots_whole:
  "q \<in> set (all_dots bm) \<Longrightarrow> dot_in \<lparr>dr_x0 = 0, dr_y0 = 0, dr_x1 = mb_width bm, dr_y1 = mb_height bm\<rparr> q"
  by (auto simp: dot_in_def all_dots_def set_dots simp flip: of_nat_less_iff [where 'a = int])

lemma place_at_cropped:
  fixes g :: LabelGeometry
  assumes "mb_width bm \<le> canvas_w" and "mb_height bm \<le> canvas_h"
  defines "rx \<equiv> read_at (lg_rotate_180 g) (lg_x_offset_dots g) canvas_w (mb_width bm)"
    and "ry \<equiv> read_at (lg_rotate_180 g) (lg_y_offset_dots g) canvas_h (mb_height bm)"
  shows "lo_ink_cropped (pb_layout (place_at bm g canvas_w canvas_h)) \<longleftrightarrow>
    (\<exists>x y. png_dot bm x y \<and> \<not> (0 \<le> x + rx \<and> x + rx < uint canvas_w \<and> 0 \<le> y + ry \<and> y + ry < uint canvas_h))"
proof -
  define v where "v = \<lparr>dr_x0 = clamp_dots (- rx) (mb_width bm), dr_y0 = clamp_dots (- ry) (mb_height bm),
             dr_x1 = clamp_dots (uint canvas_w - rx) (mb_width bm), dr_y1 = clamp_dots (uint canvas_h - ry) (mb_height bm)\<rparr>"
  define whole where "whole = \<lparr>dr_x0 = 0, dr_y0 = 0, dr_x1 = mb_width bm, dr_y1 = mb_height bm\<rparr>"
  have "max (uint canvas_w - uint (mb_width bm)) 0 = uint canvas_w - uint (mb_width bm)"
    "max (uint canvas_h - uint (mb_height bm)) 0 = uint canvas_h - uint (mb_height bm)"
    using assms(1,2) by (simp_all add: word_le_def)
  then have "lo_ink_cropped (pb_layout (place_at bm g canvas_w canvas_h)) \<longleftrightarrow>
      v \<noteq> whole \<and> \<not> (case ink_bbox bm of None \<Rightarrow> True | Some ink \<Rightarrow> rect_contains v ink)"
    unfolding place_at_def Let_def v_def whole_def rx_def ry_def read_at_def by (simp split: option.splits)
  also have "\<dots> \<longleftrightarrow> v \<noteq> whole \<and> (\<exists>q \<in> set (all_dots bm). is_black bm (fst q) (snd q) \<and> \<not> dot_in v q)"
    unfolding ink_bbox_contains by blast
  also have "\<dots> \<longleftrightarrow> (\<exists>q \<in> set (all_dots bm). is_black bm (fst q) (snd q) \<and> \<not> dot_in v q)"
    using all_dots_whole [of _ bm, folded whole_def] by blast
  also have "\<dots> \<longleftrightarrow> (\<exists>x y. png_dot bm x y \<and> \<not> (0 \<le> x + rx \<and> x + rx < uint canvas_w \<and> 0 \<le> y + ry \<and> y + ry < uint canvas_h))"
    (is "?l \<longleftrightarrow> ?r")
  proof -
    have dot: "dot_in v (nat x, nat y) \<longleftrightarrow> 0 \<le> x + rx \<and> x + rx < uint canvas_w \<and> 0 \<le> y + ry \<and> y + ry < uint canvas_h"
      if "png_dot bm x y" for x y
      using that unfolding png_dot_def dot_in_def v_def by (simp add: uint_clamp) linarith
    show ?thesis
    proof
      assume ?l
      then obtain a b where q: "(a, b) \<in> set (all_dots bm)" "is_black bm a b" "\<not> dot_in v (a, b)" by auto
      have p: "png_dot bm (int a) (int b)" using q(2) all_dots_whole [OF q(1)] by (simp add: png_dot_def dot_in_def)
      show ?r using p dot [OF p] q(3) by auto
    next
      assume ?r
      then obtain x y where p: "png_dot bm x y" "\<not> dot_in v (nat x, nat y)" using dot by blast
      then show ?l by (intro bexI [of _ "(nat x, nat y)"]) (auto simp: png_dot_def all_dots_def set_dots nat_less_iff)
    qed
  qed
  finally show ?thesis .
qed

lemma bitmap_of_dots:
  shows "wf_bitmap (bitmap_of w h n f)" and "mb_width (bitmap_of w h n f) = w" and "mb_height (bitmap_of w h n f) = h"
    and "x < unat w \<Longrightarrow> y < unat h \<Longrightarrow> is_black (bitmap_of w h n f) x y \<longleftrightarrow> px_black (pixel f n x y)"
    and "white_padding (bitmap_of w h n f)"
proof -
  have eq: "bitmap_of w h n f = fold (\<lambda>q out. if px_black (pixel f n (fst q) (snd q)) then set_black q out else out)
      (dots 0 (unat w) 0 (unat h)) (blank_bitmap w h)" by (simp add: bitmap_of_def case_prod_unfold cong: if_cong)
  have ins: "inside (blank_bitmap w h) (fst q) (snd q)" if "q \<in> set (dots 0 (unat w) 0 (unat h))" for q
    using that by (auto simp: inside_def set_dots)
  note p = painted_blank [where f = "\<lambda>q. q" and P = "\<lambda>q. px_black (pixel f n (fst q) (snd q))" and ps = "dots 0 (unat w) 0 (unat h)"
      and w = w and h = h, OF ins, folded eq]
  show "wf_bitmap (bitmap_of w h n f)" "mb_width (bitmap_of w h n f) = w" "mb_height (bitmap_of w h n f) = h" using p(1-3) by auto
  show "white_padding (bitmap_of w h n f)" using p(5) by auto
  assume "x < unat w" "y < unat h"
  then show "is_black (bitmap_of w h n f) x y \<longleftrightarrow> px_black (pixel f n x y)" using p(4) [of x y] by (auto simp: set_dots)
qed

lemma decoded_placed:
  assumes "decode_label read_png base64 png g = Inr l" and "max_dots g = (cw, ch)"
  obtains bytes w h frame n where "base64 (trim png) = Inr bytes" "read_png bytes = Inr ((w, h), Inr frame)"
    "channels (pf_color_type frame) = Some n" "w \<le> cw" "h \<le> ch" "l = place_at (bitmap_of w h n frame) g cw ch"
  using assms
  by (auto simp: decode_label_def decode_png_def place_label_def Let_def split: if_splits sum.splits prod.splits option.splits)

lemma decoded_canvas:
  assumes "decode_label read_png base64 png g = Inr l" and "max_dots g = (cw, ch)"
  shows "lo_rotate_180 (pb_layout l) = lg_rotate_180 g" and "lo_canvas (pb_layout l) = (cw, ch)"
proof -
  obtain w h frame n where l: "l = place_at (bitmap_of w h n frame) g cw ch" by (rule decoded_placed [OF assms])
  show "lo_rotate_180 (pb_layout l) = lg_rotate_180 g" "lo_canvas (pb_layout l) = (cw, ch)" by (simp_all add: l place_at_def Let_def)
qed

definition frame_dot :: "u32 \<Rightarrow> u32 \<Rightarrow> nat \<Rightarrow> png_frame \<Rightarrow> int \<Rightarrow> int \<Rightarrow> bool" where
  "frame_dot w h n f x y \<longleftrightarrow> 0 \<le> x \<and> x < uint w \<and> 0 \<le> y \<and> y < uint h \<and> px_black (pixel f n (nat x) (nat y))"

lemma png_dot_bitmap_of: "png_dot (bitmap_of w h n f) x y = frame_dot w h n f x y"
  using bitmap_of_dots(4) [of "nat x" w "nat y" h n f]
  by (auto simp: png_dot_def frame_dot_def bitmap_of_dots nat_less_iff)

text \<open>
  C29. A label is printed where it is read. Of a PNG that is accepted, every dot of the roll, as a person
  reads the label, is black exactly where the pixel of the PNG, centred on the roll and moved by the
  configured offsets, is darker than half over white paper, whether the label is rotated for the printer
  or not. The bitmap that is sent lies wholly on the roll, and the layout reports cut-off ink exactly when
  a black pixel falls off it.
\<close>

theorem label_printed_where_read:
  assumes "decode_label read_png base64 png g = Inr l" and "max_dots g = (cw, ch)"
  shows "\<exists>bytes w h frame n. base64 (trim png) = Inr bytes \<and> read_png bytes = Inr ((w, h), Inr frame) \<and>
    channels (pf_color_type frame) = Some n \<and> w \<le> cw \<and> h \<le> ch \<and>
    (let rx = read_at (lg_rotate_180 g) (lg_x_offset_dots g) cw w; ry = read_at (lg_rotate_180 g) (lg_y_offset_dots g) ch h
     in uint (fst (lo_bitmap_at (pb_layout l))) + uint (mb_width (pb_bitmap l)) \<le> uint cw \<and>
        uint (snd (lo_bitmap_at (pb_layout l))) + uint (mb_height (pb_bitmap l)) \<le> uint ch \<and>
        (\<forall>X Y. 0 \<le> X \<and> X < uint cw \<and> 0 \<le> Y \<and> Y < uint ch \<longrightarrow>
           read_dot l X Y = frame_dot w h n frame (X - rx) (Y - ry)) \<and>
        (lo_ink_cropped (pb_layout l) \<longleftrightarrow>
           (\<exists>x y. frame_dot w h n frame x y \<and> \<not> (0 \<le> x + rx \<and> x + rx < uint cw \<and> 0 \<le> y + ry \<and> y + ry < uint ch))))"
proof -
  obtain bytes w h frame n where r: "base64 (trim png) = Inr bytes" "read_png bytes = Inr ((w, h), Inr frame)"
      "channels (pf_color_type frame) = Some n" and fit: "w \<le> cw" "h \<le> ch" and l: "l = place_at (bitmap_of w h n frame) g cw ch"
    by (rule decoded_placed [OF assms])
  have f: "mb_width (bitmap_of w h n frame) \<le> cw" "mb_height (bitmap_of w h n frame) \<le> ch" using fit by (simp_all add: bitmap_of_dots)
  show ?thesis
    using r fit place_at_dots [OF f] place_at_cropped [OF f, of g] place_at_on_roll [OF f, of g]
    by (intro exI [of _ bytes] exI [of _ w] exI [of _ h] exI [of _ frame] exI [of _ n])
      (simp add: l Let_def png_dot_bitmap_of bitmap_of_dots)
qed

text \<open>A roll of 8 by 8 dots: an inch, as \<open>f64\<close>, at 8 dots per inch.\<close>

definition inch :: rat where "inch = 3574732204225331 / 140737488355328"

lemma inch_dots: "mm_to_dots inch 8 = 8"
proof -
  have q: "quotient_of (127 / 5) = (127, 5)" "quotient_of (3574732204225331 / 17592186044416) = (3574732204225331, 17592186044416)"
    "quotient_of 8 = (8, 1)" by code_simp+
  have b: "bitlen 127 = 7" "bitlen 5 = 3" "bitlen 8 = 4" "bitlen 1 = 1" "bitlen 3574732204225331 = 52" "bitlen 17592186044416 = 45" by code_simp+
  have "binary_exponent (127 / 5) = 4" "binary_exponent (3574732204225331 / 17592186044416) = 7" "binary_exponent 8 = 3"
    by (simp_all add: binary_exponent_def pow2_def q b)
  moreover have "\<lfloor>35747322042253312 / 5 :: rat\<rfloor> = 7149464408450662" by (simp add: floor_eq_iff)
  ultimately have f: "to_f64 (127 / 5) = Some inch" "to_f64 (3574732204225331 / 17592186044416) = Some (3574732204225331 / 17592186044416)" "to_f64 8 = Some 8"
    by (simp_all add: to_f64_def pow2_def round_even_def Let_def inch_def)
  moreover have "\<lfloor>17 / 2 :: rat\<rfloor> = 8" by (simp add: floor_eq_iff)
  ultimately show ?thesis by (simp add: mm_to_dots_def round_away_def inch_def)
qed

definition sample_roll :: LabelGeometry where
  "sample_roll =
     \<lparr>lg_width_mm = inch, lg_height_mm = inch, lg_dpi = 8, lg_rotate_180 = True, lg_x_offset_dots = 0, lg_y_offset_dots = 0\<rparr>"

definition sample_frame :: png_frame where
  "sample_frame = \<lparr>pf_color_type = Grayscale, pf_bit_depth = Bits_Eight, pf_line_size = 2, pf_buf = [0, 255]\<rparr>"

lemma sample_max_dots: "max_dots sample_roll = (8, 8)"
  by (simp add: max_dots_def sample_roll_def inch_dots)

theorem label_printed_where_read_witness:
  "\<exists>l. decode_label (\<lambda>_. Inr ((2, 1), Inr sample_frame)) (\<lambda>_. Inr []) ''A'' sample_roll = Inr l \<and>
       read_dot l 3 4 \<and> \<not> read_dot l 4 4 \<and> \<not> lo_ink_cropped (pb_layout l)"
proof -
  define rd :: png_reader where "rd = (\<lambda>_. Inr ((2, 1), Inr sample_frame))"
  define b64 :: "string \<Rightarrow> string + u8 list" where "b64 = (\<lambda>_. Inr [])"
  have "trim ''A'' = ''A''" by code_simp
  then have "\<exists>l. decode_label rd b64 ''A'' sample_roll = Inr l"
    by (simp add: decode_label_def decode_png_def rd_def b64_def sample_max_dots sample_frame_def word_less_def)
  then obtain l where l: "decode_label rd b64 ''A'' sample_roll = Inr l" by blast
  have at: "read_at True 0 8 2 = 3" "read_at True 0 8 1 = 4" by (simp_all add: read_at_def)
  have "frame_dot 2 1 1 sample_frame 0 0" "\<not> frame_dot 2 1 1 sample_frame 1 0"
    by (simp_all add: frame_dot_def pixel_def sample_frame_def px_black_def word_less_def)
  moreover have "0 \<le> x + 3 \<and> x + 3 < 8 \<and> 0 \<le> y + 4 \<and> y + 4 < 8" if "frame_dot 2 1 1 sample_frame x y" for x y
    using that by (simp add: frame_dot_def)
  ultimately have "read_dot l 3 4" "\<not> read_dot l 4 4" "\<not> lo_ink_cropped (pb_layout l)"
    using label_printed_where_read [OF l sample_max_dots]
    by (auto simp: rd_def b64_def sample_frame_def sample_roll_def at Let_def)
  then show ?thesis using l unfolding rd_def b64_def by blast
qed

end
