(* ===== verification/Label_Document.thy ===== *)
theory Label_Document
  imports Label_Placement
begin

text \<open>
  What the bytes of a batch document mean: the part of TSPL that \<open>tspl.rs\<close> writes, read as its
  documentation in that file says (rows top to bottom, the leftmost dot in the highest bit, a 1 is white).
  The labels of a document are read back as they were placed.
\<close>

section \<open>Reading TSPL\<close>

type_synonym image = "int \<Rightarrow> int \<Rightarrow> bool"

definition expect :: "string \<Rightarrow> u8 list \<Rightarrow> u8 list option" where
  "expect s bs = (if take (length s) bs = tspl_bytes s then Some (drop (length s) bs) else None)"

definition digit_byte :: "u8 \<Rightarrow> bool" where
  "digit_byte b \<longleftrightarrow> 48 \<le> unat b \<and> unat b \<le> 57"

definition number :: "u8 list \<Rightarrow> nat \<times> u8 list" where
  "number bs = (foldl (\<lambda>n b. 10 * n + (unat b - 48)) 0 (takeWhile digit_byte bs), dropWhile digit_byte bs)"

definition bitmap_image :: "nat \<Rightarrow> nat \<Rightarrow> nat \<Rightarrow> nat \<Rightarrow> u8 list \<Rightarrow> image" where
  "bitmap_image x y width_bytes height data = (\<lambda>X Y.
     int x \<le> X \<and> int y \<le> Y \<and>
     (let a = nat (X - int x); b = nat (Y - int y)
      in a div 8 < width_bytes \<and> b < height \<and> \<not> bit (data ! (b * width_bytes + a div 8)) (7 - a mod 8)))"

definition bitmap_command :: "u8 list \<Rightarrow> (image \<times> u8 list) option" where
  "bitmap_command bs =
     (case expect ''BITMAP '' bs of
        None \<Rightarrow> Some (\<lambda>_ _. False, bs)
      | Some bs \<Rightarrow>
          case number bs of (x, bs) \<Rightarrow> Option.bind (expect '','' bs) (\<lambda>bs.
          case number bs of (y, bs) \<Rightarrow> Option.bind (expect '','' bs) (\<lambda>bs.
          case number bs of (w, bs) \<Rightarrow> Option.bind (expect '','' bs) (\<lambda>bs.
          case number bs of (h, bs) \<Rightarrow> Option.bind (expect '',0,'' bs) (\<lambda>bs.
            map_option (Pair (bitmap_image x y w h (take (w * h) bs))) (expect crlf (drop (w * h) bs)))))))"

definition label_block :: "u8 list \<Rightarrow> ((image \<times> nat) \<times> u8 list) option" where
  "label_block bs =
     Option.bind (expect (''CLS'' @ crlf) bs) (\<lambda>bs.
     Option.bind (bitmap_command bs) (\<lambda>(image, bs).
     Option.bind (expect ''PRINT 1,'' bs) (\<lambda>bs.
       case number bs of (copies, bs) \<Rightarrow> map_option (Pair (image, copies)) (expect crlf bs))))"

partial_function (option) label_blocks :: "u8 list \<Rightarrow> (image \<times> nat) list option" where
  "label_blocks bs =
     (if bs = [] then Some []
      else Option.bind (label_block bs) (\<lambda>p. Option.bind (label_blocks (snd p)) (\<lambda>ls. Some (fst p # ls))))"

text \<open>The settings that put the origin of the image at the origin of the label.\<close>

definition settings_text :: string where
  "settings_text = ''DIRECTION 0,0'' @ crlf @ ''REFERENCE 0,0'' @ crlf @ ''OFFSET 0 mm'' @ crlf @ ''SET TEAR ON'' @ crlf"

definition tspl_document :: "u8 list \<Rightarrow> (u8 list \<times> (image \<times> nat) list) option" where
  "tspl_document bs =
     Option.bind (expect ''SIZE '' bs) (\<lambda>bs.
     Option.bind (expect (crlf @ settings_text) (dropWhile (\<lambda>b. b \<noteq> 13) bs)) (\<lambda>rest.
       map_option (Pair (takeWhile (\<lambda>b. b \<noteq> 13) bs)) (label_blocks rest)))"

section \<open>What was written is read\<close>

lemma tspl_bytes_append [simp]: "tspl_bytes (a @ b) = tspl_bytes a @ tspl_bytes b"
  by (simp add: tspl_bytes_def)

lemma length_tspl_bytes [simp]: "length (tspl_bytes s) = length s"
  by (simp add: tspl_bytes_def)

lemma expect_same: "expect s (tspl_bytes s @ r) = Some r"
  by (simp add: expect_def)

lemma expect_append: "expect (s @ t) (tspl_bytes s @ tspl_bytes t @ r) = Some r"
  by (simp add: expect_def)

lemma digit_char:
  assumes "k < 10"
  shows "digit_byte (of_nat (of_char (char_of (48 + k))))" and "unat (of_nat (of_char (char_of (48 + k))) :: u8) = 48 + k"
proof -
  have c: "of_char (char_of (48 + k) :: char) = 48 + k" using assms by simp
  show u: "unat (of_nat (of_char (char_of (48 + k))) :: u8) = 48 + k"
    unfolding c unsigned_of_nat using assms by (simp add: take_bit_nat_eq_self)
  show "digit_byte (of_nat (of_char (char_of (48 + k))))" unfolding digit_byte_def u using assms by simp
qed

lemma digits_value:
  "(\<forall>b \<in> set (tspl_bytes (nat_digits n)). digit_byte b) \<and> foldl (\<lambda>n b. 10 * n + (unat b - 48)) 0 (tspl_bytes (nat_digits n)) = n"
proof (induction n rule: nat_digits.induct)
  case (1 n)
  show ?case
  proof (cases "n < 10")
    case True
    then show ?thesis using digit_char [of n] by (subst (1 2) nat_digits.simps) (simp add: tspl_bytes_def)
  next
    case False
    have eq: "tspl_bytes (nat_digits n) = tspl_bytes (nat_digits (n div 10)) @ [of_nat (of_char (char_of (48 + n mod 10)))]"
      using False by (subst nat_digits.simps) (simp add: tspl_bytes_def)
    have m: "n mod 10 < 10" by simp
    show ?thesis using "1.IH" [OF False] digit_char [OF m] unfolding eq by simp
  qed
qed

lemma number_digits:
  assumes "r \<noteq> []" and "\<not> digit_byte (hd r)"
  shows "number (tspl_bytes (nat_digits n) @ r) = (n, r)"
proof -
  have t: "takeWhile digit_byte r = []" "dropWhile digit_byte r = r" using assms by (cases r; simp)+
  then show ?thesis using digits_value [of n] by (simp add: number_def)
qed

lemma number_comma: "number (tspl_bytes (nat_digits n) @ tspl_bytes '','' @ r) = (n, tspl_bytes '','' @ r)"
  by (rule number_digits) (simp_all add: tspl_bytes_def digit_byte_def)

lemma number_mode: "number (tspl_bytes (nat_digits n) @ tspl_bytes '',0,'' @ r) = (n, tspl_bytes '',0,'' @ r)"
  by (rule number_digits) (simp_all add: tspl_bytes_def digit_byte_def)

lemma number_crlf: "number (tspl_bytes (nat_digits n) @ tspl_bytes crlf @ r) = (n, tspl_bytes crlf @ r)"
  by (rule number_digits) (simp_all add: tspl_bytes_def digit_byte_def crlf_def)

lemma bitmap_image_printed:
  assumes "wf_bitmap (pb_bitmap l)" and "white_padding (pb_bitmap l)"
  shows "bitmap_image (unat (fst (lo_bitmap_at (pb_layout l)))) (unat (snd (lo_bitmap_at (pb_layout l))))
      (unat (mb_width_bytes (pb_bitmap l))) (unat (mb_height (pb_bitmap l))) (mb_data (pb_bitmap l)) = printed_dot l"
proof (intro ext)
  fix X Y
  define bm where "bm = pb_bitmap l"
  define x y where "x = fst (lo_bitmap_at (pb_layout l))" and "y = snd (lo_bitmap_at (pb_layout l))"
  have grid: "on_grid bm a b \<and> is_black bm a b \<longleftrightarrow> inside bm a b \<and> is_black bm a b" for a b
  proof
    assume g: "on_grid bm a b \<and> is_black bm a b"
    then have "\<not> unat (mb_width bm) \<le> a" using assms(2) unfolding white_padding_def bm_def [symmetric] by blast
    then show "inside bm a b \<and> is_black bm a b" using g by (simp add: inside_def on_grid_def)
  qed (use assms(1) inside_on_grid [of bm a b] bm_def in simp)
  have "bitmap_image (unat x) (unat y) (unat (mb_width_bytes bm)) (unat (mb_height bm)) (mb_data bm) X Y \<longleftrightarrow>
      int (unat x) \<le> X \<and> int (unat y) \<le> Y \<and>
      on_grid bm (nat (X - int (unat x))) (nat (Y - int (unat y))) \<and> is_black bm (nat (X - int (unat x))) (nat (Y - int (unat y)))"
    by (auto simp: bitmap_image_def Let_def on_grid_def black_bit)
  also have "\<dots> \<longleftrightarrow> printed_dot l X Y"
    unfolding grid printed_dot_def png_dot_def x_def [symmetric] y_def [symmetric] bm_def [symmetric] inside_def
    by (auto simp: nat_less_iff)
  finally show "bitmap_image (unat (fst (lo_bitmap_at (pb_layout l)))) (unat (snd (lo_bitmap_at (pb_layout l))))
      (unat (mb_width_bytes (pb_bitmap l))) (unat (mb_height (pb_bitmap l))) (mb_data (pb_bitmap l)) X Y = printed_dot l X Y"
    unfolding x_def y_def bm_def .
qed

lemma take_all_append: "take (length xs) (xs @ ys) = xs" and drop_all_append: "drop (length xs) (xs @ ys) = ys"
  by simp_all

lemmas tspl_read = expect_same expect_append number_comma number_mode number_crlf Option.bind.simps option.map option.case prod.case

lemma label_block_read:
  assumes "wf_bitmap (pb_bitmap l)" and "white_padding (pb_bitmap l)"
  shows "label_block (label_commands (pb_bitmap l) (lo_bitmap_at (pb_layout l)) copies @ r) = Some ((printed_dot l, unat copies), r)"
proof (cases "0 < mb_width (pb_bitmap l) \<and> 0 < mb_height (pb_bitmap l)")
  case True
  have len: "length (mb_data (pb_bitmap l)) = unat (mb_width_bytes (pb_bitmap l)) * unat (mb_height (pb_bitmap l))"
    using assms(1) by (simp add: wf_bitmap_def)
  show ?thesis
    unfolding label_block_def label_commands_def bitmap_command_def
    by (simp only: True if_True simp_thms tspl_bytes_append append_assoc tspl_read len [symmetric] take_all_append drop_all_append
        bitmap_image_printed [OF assms])
next
  case False
  then have "printed_dot l = (\<lambda>_ _. False)" by (auto simp: printed_dot_def png_dot_def fun_eq_iff word_less_def)
  moreover have "expect ''BITMAP '' (tspl_bytes ''PRINT 1,'' @ s) = None" for s by (simp add: expect_def tspl_bytes_def)
  ultimately show ?thesis
    unfolding label_block_def label_commands_def bitmap_command_def
    by (simp only: False if_False append_Nil tspl_bytes_append append_assoc tspl_read)
qed

lemma label_commands_not_nil: "label_commands bm pos copies \<noteq> []"
  by (simp add: label_commands_def tspl_bytes_def)

lemma label_blocks_read:
  assumes "\<forall>p \<in> set labels. wf_bitmap (pb_bitmap (fst p)) \<and> white_padding (pb_bitmap (fst p))"
  shows "label_blocks (concat (map (\<lambda>(l, copies). label_commands (pb_bitmap l) (lo_bitmap_at (pb_layout l)) copies) labels)) =
    Some (map (\<lambda>(l, copies). (printed_dot l, unat copies)) labels)"
  using assms
proof (induction labels)
  case Nil
  then show ?case by (simp add: label_blocks.simps)
next
  case (Cons p labels)
  obtain l c where p: "p = (l, c)" by fastforce
  have wf: "wf_bitmap (pb_bitmap l)" "white_padding (pb_bitmap l)" using Cons.prems p by simp_all
  show ?case
    using Cons.IH Cons.prems p label_commands_not_nil by (subst label_blocks.simps) (simp add: label_block_read [OF wf])
qed

lemma place_at_bitmap:
  assumes "mb_width bm \<le> canvas_w" and "mb_height bm \<le> canvas_h" and "wf_bitmap bm" and "white_padding bm"
  shows "wf_bitmap (pb_bitmap (place_at bm g canvas_w canvas_h))" and "white_padding (pb_bitmap (place_at bm g canvas_w canvas_h))"
  using assms(3,4) by (simp_all add: place_at_fields(1) [OF assms(1,2)] rotated_180_dots visible_part_size(3,4))

lemma decoded_bitmap:
  assumes "decode_label read_png base64 png g = Inr l"
  shows "wf_bitmap (pb_bitmap l) \<and> white_padding (pb_bitmap l)"
proof -
  obtain cw ch where m: "max_dots g = (cw, ch)" by fastforce
  obtain w h n frame where fit: "w \<le> cw" "h \<le> ch" and l: "l = place_at (bitmap_of w h n frame) g cw ch"
    by (rule decoded_placed [OF assms m])
  show ?thesis unfolding l using fit by (intro conjI place_at_bitmap) (simp_all add: bitmap_of_dots)
qed

lemma upto_cr:
  assumes "\<forall>b \<in> set s. b \<noteq> (13 :: u8)" and "hd r = 13" and "r \<noteq> []"
  shows "takeWhile (\<lambda>b. b \<noteq> 13) (s @ r) = s" and "dropWhile (\<lambda>b. b \<noteq> 13) (s @ r) = r"
  using assms by (induction s) (cases r; simp)+

lemma not_cr: "CHR 0x0D \<notin> set s \<Longrightarrow> \<forall>b \<in> set (tspl_bytes s). b \<noteq> 13"
proof
  fix b assume cr: "CHR 0x0D \<notin> set s" and "b \<in> set (tspl_bytes s)"
  then obtain c where c: "c \<in> set s" "b = of_nat (of_char c)" by (auto simp: tspl_bytes_def)
  have "of_char c < (256 :: nat)" by simp
  then have "unat b = of_char c" by (simp add: c unsigned_of_nat take_bit_nat_eq_self)
  moreover have "of_char c \<noteq> (13 :: nat)"
  proof
    assume "of_char c = (13 :: nat)"
    then have "char_of (of_char c :: nat) = (char_of (13 :: nat) :: char)" by simp
    moreover have "(char_of (13 :: nat) :: char) = CHR 0x0D" by code_simp
    ultimately show False using c(1) cr by simp
  qed
  ultimately show "b \<noteq> 13" by auto
qed

text \<open>
  C30. A batch document says what was placed. Read as TSPL, the document of a batch names the size of the
  roll and then, in the order of the lines, for every label the image with exactly the dots of the placed
  label and its number of copies.
\<close>

theorem batch_document_read_back:
  assumes "\<forall>(l, copies) \<in> set labels. \<exists>png. decode_label read_png base64 png g = Inr l"
    and "\<forall>mm. CHR 0x0D \<notin> set (show_mm mm)"
  shows "tspl_document (build_document show_mm g labels) =
    Some (tspl_bytes (show_mm (lg_width_mm g) @ '' mm, '' @ show_mm (lg_height_mm g) @ '' mm''),
      map (\<lambda>(l, copies). (printed_dot l, unat copies)) labels)"
proof -
  define sz where "sz = show_mm (lg_width_mm g) @ '' mm, '' @ show_mm (lg_height_mm g) @ '' mm''"
  have wf: "\<forall>p \<in> set labels. wf_bitmap (pb_bitmap (fst p)) \<and> white_padding (pb_bitmap (fst p))"
    using assms(1) decoded_bitmap by fastforce
  have "\<forall>b \<in> set (tspl_bytes sz). b \<noteq> 13" using assms(2) by (intro not_cr) (simp add: sz_def)
  moreover have "hd (tspl_bytes crlf @ r) = 13" "tspl_bytes crlf @ r \<noteq> []" for r by (simp_all add: crlf_def tspl_bytes_def)
  ultimately have line: "takeWhile (\<lambda>b. b \<noteq> 13) (tspl_bytes sz @ tspl_bytes crlf @ r) = tspl_bytes sz"
      "dropWhile (\<lambda>b. b \<noteq> 13) (tspl_bytes sz @ tspl_bytes crlf @ r) = tspl_bytes crlf @ r" for r
    using upto_cr [of "tspl_bytes sz" "tspl_bytes crlf @ r"] by auto
  have doc: "build_document show_mm g labels = tspl_bytes ''SIZE '' @ tspl_bytes sz @ tspl_bytes crlf @ tspl_bytes settings_text @
      concat (map (\<lambda>(l, copies). label_commands (pb_bitmap l) (lo_bitmap_at (pb_layout l)) copies) labels)"
    unfolding build_document_def document_header_def sz_def settings_text_def by (simp only: tspl_bytes_append append_assoc)
  show ?thesis
    unfolding tspl_document_def doc sz_def [symmetric]
    by (simp only: tspl_read line label_blocks_read [OF wf])
qed

lemma sample_label:
  "\<exists>l. decode_label (\<lambda>_. Inr ((2, 1), Inr sample_frame)) (\<lambda>_. Inr []) ''A'' sample_roll = Inr l \<and> read_dot l 3 4"
proof -
  let ?l = "place_at (bitmap_of 2 1 1 sample_frame) sample_roll 8 8"
  have "trim ''A'' = ''A''" by code_simp
  then have "decode_label (\<lambda>_. Inr ((2, 1), Inr sample_frame)) (\<lambda>_. Inr []) ''A'' sample_roll = Inr ?l"
    by (simp add: decode_label_def decode_png_def place_label_def sample_max_dots sample_frame_def word_less_def)
  moreover have "frame_dot 2 1 1 sample_frame 0 0"
    by (simp add: frame_dot_def pixel_def sample_frame_def px_black_def word_less_def)
  then have "read_dot ?l 3 4"
    using place_at_dots [of "bitmap_of 2 1 1 sample_frame" 8 8 3 4 sample_roll]
    by (simp add: bitmap_of_dots read_at_def sample_roll_def png_dot_bitmap_of word_le_def)
  ultimately show ?thesis by blast
qed

theorem batch_document_read_back_witness:
  "\<exists>l. decode_label (\<lambda>_. Inr ((2, 1), Inr sample_frame)) (\<lambda>_. Inr []) ''A'' sample_roll = Inr l \<and>
       map_option (\<lambda>d. (fst d, map snd (snd d))) (tspl_document (build_document (\<lambda>_. ''25.4'') sample_roll [(l, 3)])) =
         Some (tspl_bytes ''25.4 mm, 25.4 mm'', [3]) \<and>
       map_option (\<lambda>d. fst (snd d ! 0) 4 3) (tspl_document (build_document (\<lambda>_. ''25.4'') sample_roll [(l, 3)])) = Some True"
proof -
  obtain l where l: "decode_label (\<lambda>_. Inr ((2, 1), Inr sample_frame)) (\<lambda>_. Inr []) ''A'' sample_roll = Inr l" and d: "read_dot l 3 4"
    using sample_label by blast
  have r: "lo_rotate_180 (pb_layout l)" "lo_canvas (pb_layout l) = (8, 8)"
    using decoded_canvas [OF l sample_max_dots] by (simp_all add: sample_roll_def)
  have p: "printed_dot l 4 3" using d by (simp add: read_dot_def r)
  have "tspl_document (build_document (\<lambda>_. ''25.4'') sample_roll [(l, 3)]) =
      Some (tspl_bytes (''25.4'' @ '' mm, '' @ ''25.4'' @ '' mm''), [(printed_dot l, 3)])"
    using batch_document_read_back [of "[(l, 3)]" "\<lambda>_. Inr ((2, 1), Inr sample_frame)" "\<lambda>_. Inr []" sample_roll "\<lambda>_. ''25.4''"] l by auto
  then show ?thesis using l p by (intro exI [of _ l]) simp
qed

end
