(* ===== verification/Printer_Status.thy ===== *)
theory Printer_Status
  imports Label_Layout Direct_Ipp
begin

text \<open>
  The state of the label printer in the heartbeat (\<open>odoo_source/printer_status.rs\<close>, \<open>platform_windows.rs\<close>,
  \<open>heartbeat_payload\<close> of \<open>mod.rs\<close>): the mapping of the status bits, the log decision, and the reader as a
  transition system in which a read that hangs goes on after its guard time.
\<close>

section \<open>Status bits\<close>

definition UNKNOWN :: string where "UNKNOWN = ''unknown''"

definition ATTRIBUTE_WORK_OFFLINE :: u32 where "ATTRIBUTE_WORK_OFFLINE = 0x400"

definition STATUS_OFFLINE :: u32 where "STATUS_OFFLINE = 0x80"

definition STATUS_NAMES :: "(u32 \<times> string) list" where
  "STATUS_NAMES =
     [(0x1, ''paused''), (0x2, ''error''), (0x4, ''pending_deletion''), (0x8, ''paper_jam''), (0x10, ''paper_out''),
      (0x20, ''manual_feed''), (0x40, ''paper_problem''), (0x80, ''offline''), (0x100, ''io_active''), (0x200, ''busy''),
      (0x400, ''printing''), (0x800, ''output_bin_full''), (0x1000, ''not_available''), (0x2000, ''waiting''),
      (0x4000, ''processing''), (0x8000, ''initializing''), (0x10000, ''warming_up''), (0x20000, ''toner_low''),
      (0x40000, ''no_toner''), (0x80000, ''page_punt''), (0x100000, ''user_intervention''), (0x200000, ''out_of_memory''),
      (0x400000, ''door_open''), (0x800000, ''server_unknown''), (0x1000000, ''power_save''), (0x2000000, ''server_offline''),
      (0x4000000, ''driver_update_needed'')]"

definition KNOWN_BITS :: u32 where "KNOWN_BITS = push_bit 27 1 - 1"

record QueueState =
  qs_status :: u32
  qs_attributes :: u32

datatype StatusError =
    SE_Open int
  | SE_Get int
  | SE_TimedOut
  | SE_StillRunning
  | SE_TaskFailed
  | SE_Unsupported

fun status_error_display :: "StatusError \<Rightarrow> string" where
  "status_error_display (SE_Open code) = ''OpenPrinterW failed (Win32 error '' @ int_text code @ '')''"
| "status_error_display (SE_Get code) = ''GetPrinterW level 2 failed (Win32 error '' @ int_text code @ '')''"
| "status_error_display SE_TimedOut = ''the spooler did not answer in time (hung?)''"
| "status_error_display SE_StillRunning = ''the previous status read is still waiting for the spooler (hung?)''"
| "status_error_display SE_TaskFailed = ''the status read did not finish (panic or shutdown)''"
| "status_error_display SE_Unsupported = ''no Windows print queue on this platform''"

fun is_hung :: "StatusError \<Rightarrow> bool" where
  "is_hung SE_TimedOut = True"
| "is_hung SE_StillRunning = True"
| "is_hung _ = False"

text \<open>\<open>{:x}\<close>\<close>

fun hex_text :: "nat \<Rightarrow> string" where
  "hex_text n = (if n < 16 then [hex_digit n] else hex_text (n div 16) @ [hex_digit (n mod 16)])"

declare hex_text.simps [simp del]

definition join_or_ok :: "string list \<Rightarrow> string" where
  "join_or_ok conditions = (if conditions = [] then ''ok'' else join '','' conditions)"

definition queue_bits :: "u32 \<Rightarrow> u32 \<Rightarrow> u32" where
  "queue_bits status attributes = (if and attributes ATTRIBUTE_WORK_OFFLINE \<noteq> 0 then or status STATUS_OFFLINE else status)"

definition conditions :: "u32 \<Rightarrow> string list" where
  "conditions bits =
     map snd (filter (\<lambda>(b, _). and bits b \<noteq> 0) STATUS_NAMES) @
     (let undocumented = and bits (not KNOWN_BITS)
      in if undocumented \<noteq> 0 then [''status_0x'' @ hex_text (unat undocumented)] else [])"

definition map_status_bits :: "u32 \<Rightarrow> u32 \<Rightarrow> string \<times> string" where
  "map_status_bits status attributes =
     (let cs = conditions (queue_bits status attributes)
      in (join_or_ok (filter (\<lambda>c. take 6 c = ''paper_'') cs), join_or_ok cs))"

definition heartbeat_status :: "StatusError + QueueState \<Rightarrow> string \<times> string" where
  "heartbeat_status rd =
     (case rd of Inr q \<Rightarrow> map_status_bits (qs_status q) (qs_attributes q) | Inl _ \<Rightarrow> (UNKNOWN, UNKNOWN))"

section \<open>Log decision\<close>

datatype Seen = Seen_Nothing | Seen_Status string string | Seen_Failed StatusError

definition Seen_of :: "StatusError + QueueState \<Rightarrow> Seen" where
  "Seen_of rd =
     (case rd of
        Inr q \<Rightarrow> (case map_status_bits (qs_status q) (qs_attributes q) of (paper, er) \<Rightarrow> Seen_Status paper er)
      | Inl e \<Rightarrow> Seen_Failed e)"

datatype StatusLog = Log_Quiet | Log_Unreadable | Log_Changed

definition status_log :: "Seen \<Rightarrow> Seen \<Rightarrow> StatusLog" where
  "status_log previous now =
     (case now of
        Seen_Failed e \<Rightarrow>
          (case previous of
             Seen_Failed p \<Rightarrow> if p = e \<or> is_hung p \<and> is_hung e then Log_Quiet else Log_Unreadable
           | _ \<Rightarrow> Log_Unreadable)
      | Seen_Nothing \<Rightarrow> Log_Quiet
      | Seen_Status _ _ \<Rightarrow> if previous = now then Log_Quiet else Log_Changed)"

section \<open>The Windows query\<close>

text \<open>
  \<open>GetPrinterW\<close> is a function from the number of the call and the size of the buffer to what it answers: the
  state or the Win32 error, and the size it needs. \<open>open\<close> may fail. \<open>info_size\<close> is the size of the structure.
\<close>

definition ERROR_INSUFFICIENT_BUFFER :: int where "ERROR_INSUFFICIENT_BUFFER = 122"

definition READ_ATTEMPTS :: nat where "READ_ATTEMPTS = 3"

type_synonym get_printer = "nat \<Rightarrow> u32 \<Rightarrow> (int + QueueState) \<times> u32"

fun query_attempts :: "get_printer \<Rightarrow> nat \<Rightarrow> nat \<Rightarrow> u32 \<Rightarrow> StatusError + QueueState" where
  "query_attempts get k 0 needed = Inl (SE_Get ERROR_INSUFFICIENT_BUFFER)"
| "query_attempts get k (Suc n) needed =
     (case get k needed of
        (Inr q, _) \<Rightarrow> Inr q
      | (Inl e, needed') \<Rightarrow>
          if e \<noteq> ERROR_INSUFFICIENT_BUFFER \<or> needed' \<le> needed then Inl (SE_Get e)
          else query_attempts get (Suc k) n needed')"

definition query_windows :: "nat \<Rightarrow> int option \<Rightarrow> int \<Rightarrow> get_printer \<Rightarrow> StatusError + QueueState" where
  "query_windows info_size open_error sizing_error get =
     (case open_error of
        Some e \<Rightarrow> Inl (SE_Open e)
      | None \<Rightarrow>
          let needed = snd (get 0 0)
          in if unat needed < info_size then Inl (SE_Get sizing_error) else query_attempts get 1 READ_ATTEMPTS needed)"

section \<open>The reader\<close>

text \<open>
  A call of \<open>read\<close> waits for the thread it started, or holds its answer, or has returned. The thread keeps the
  in-flight flag until it ends, whoever still waits for it. The state keeps the lines that were logged
  and the statuses that were returned.
\<close>

datatype read_pc = Rd_Idle | Rd_Waiting | Rd_Ready "StatusError + QueueState"

record status_reader =
  sr_in_flight :: bool
  sr_last :: Seen
  sr_threads :: "nat set"           \<comment> \<open>the blocking reads that run, by their call\<close>
  sr_calls :: "nat \<Rightarrow> read_pc"
  sr_logged :: "(StatusLog \<times> Seen) list"
  sr_sent :: "(string \<times> string) list"

definition reader_new :: status_reader where
  "reader_new =
     \<lparr>sr_in_flight = False, sr_last = Seen_Nothing, sr_threads = {}, sr_calls = (\<lambda>_. Rd_Idle), sr_logged = [], sr_sent = []\<rparr>"

definition record_seen :: "Seen \<Rightarrow> status_reader \<Rightarrow> (StatusLog \<times> Seen) \<times> status_reader" where
  "record_seen now r = ((status_log (sr_last r) now, sr_last r), r\<lparr>sr_last := now\<rparr>)"

text \<open>The end of \<open>read\<close>, when \<open>read_state\<close> has returned.\<close>

definition read_end :: "nat \<Rightarrow> StatusError + QueueState \<Rightarrow> status_reader \<Rightarrow> status_reader" where
  "read_end c rd r =
     (case record_seen (Seen_of rd) r of
        ((lg, _), r1) \<Rightarrow>
          r1\<lparr>sr_calls := (sr_calls r1)(c := Rd_Idle), sr_sent := sr_sent r1 @ [heartbeat_status rd],
             sr_logged := sr_logged r1 @ (if lg = Log_Quiet then [] else [(lg, Seen_of rd)])\<rparr>)"

text \<open>\<open>swap(true)\<close>, then either the error or the blocking read.\<close>

definition read_begin :: "nat \<Rightarrow> status_reader \<Rightarrow> status_reader" where
  "read_begin c r =
     (if sr_in_flight r then read_end c (Inl SE_StillRunning) r
      else r\<lparr>sr_in_flight := True, sr_threads := insert c (sr_threads r), sr_calls := (sr_calls r)(c := Rd_Waiting)\<rparr>)"

text \<open>The thread of call \<open>c\<close> ends, with an answer or by a panic (\<open>None\<close>). Its flag is cleared on drop.\<close>

definition thread_end :: "nat \<Rightarrow> (StatusError + QueueState) option \<Rightarrow> status_reader \<Rightarrow> status_reader" where
  "thread_end c answer r =
     r\<lparr>sr_in_flight := False, sr_threads := sr_threads r - {c},
       sr_calls := (if sr_calls r c = Rd_Waiting
                    then (sr_calls r)(c := Rd_Ready (case answer of Some rd \<Rightarrow> rd | None \<Rightarrow> Inl SE_TaskFailed))
                    else sr_calls r)\<rparr>"

inductive reader_step :: "status_reader \<Rightarrow> status_reader \<Rightarrow> bool" where
  Rd_begin: "sr_calls r c = Rd_Idle \<Longrightarrow> c \<notin> sr_threads r \<Longrightarrow> reader_step r (read_begin c r)"
| Rd_thread: "c \<in> sr_threads r \<Longrightarrow> reader_step r (thread_end c answer r)"
| Rd_answer: "sr_calls r c = Rd_Ready rd \<Longrightarrow> reader_step r (read_end c rd r)"
| Rd_guard: "sr_calls r c = Rd_Waiting \<Longrightarrow> reader_step r (read_end c (Inl SE_TimedOut) r)"

inductive reader_run :: "status_reader \<Rightarrow> bool" where
  Run_new: "reader_run reader_new"
| Run_step: "reader_run r \<Longrightarrow> reader_step r r' \<Longrightarrow> reader_run r'"

section \<open>The heartbeat\<close>

record Heartbeat =
  hb_printer_name :: string
  hb_paper_status :: string
  hb_error_status :: string
  hb_client_version :: string
  hb_last_job_id :: "int option"
  hb_last_result :: string
  hb_paper_size :: string

definition heartbeat_payload :: "(rat \<Rightarrow> string) \<Rightarrow> string \<Rightarrow> string \<Rightarrow> string \<times> string \<Rightarrow> label_source \<Rightarrow> Heartbeat" where
  "heartbeat_payload show_mm name version st s =
     \<lparr>hb_printer_name = name, hb_paper_status = fst st, hb_error_status = snd st, hb_client_version = version,
      hb_last_job_id = ls_last_job_id s, hb_last_result = ls_last_result s, hb_paper_size = roll_text show_mm (ls_roll s)\<rparr>"

definition heartbeat_params :: "Heartbeat \<Rightarrow> json" where
  "heartbeat_params hb =
     JObj [(''printer_name'', JStr (hb_printer_name hb)), (''paper_status'', JStr (hb_paper_status hb)),
           (''error_status'', JStr (hb_error_status hb)), (''client_version'', JStr (hb_client_version hb)),
           (''last_job_id'', (case hb_last_job_id hb of None \<Rightarrow> JNull | Some n \<Rightarrow> JInt n)),
           (''last_result'', JStr (hb_last_result hb)), (''paper_size'', JStr (hb_paper_size hb))]"

section \<open>One read at a time, one line per change\<close>

text \<open>A hung spooler is one failure, whether this read timed out or found the previous one still stuck.\<close>

definition same_report :: "Seen \<Rightarrow> Seen \<Rightarrow> bool" where
  "same_report a b \<longleftrightarrow>
     a = b \<or> (case (a, b) of (Seen_Failed p, Seen_Failed e) \<Rightarrow> is_hung p \<and> is_hung e | _ \<Rightarrow> False)"

lemma status_log_quiet: "now \<noteq> Seen_Nothing \<Longrightarrow> status_log previous now = Log_Quiet \<longleftrightarrow> same_report previous now"
  by (auto simp: status_log_def same_report_def split: Seen.splits)

lemma same_report_trans: "same_report a b \<Longrightarrow> same_report b c \<Longrightarrow> same_report a c"
  by (auto simp: same_report_def split: Seen.splits)

lemma same_report_refl [simp]: "same_report a a"
  by (simp add: same_report_def)

lemma Seen_of_something [simp]: "Seen_of rd \<noteq> Seen_Nothing"
  by (simp add: Seen_of_def split: sum.splits prod.splits)

definition log_current :: "status_reader \<Rightarrow> bool" where
  "log_current r \<longleftrightarrow>
     successively (\<lambda>a b. \<not> same_report (snd a) (snd b)) (sr_logged r) \<and>
     (if sr_logged r = [] then sr_last r = Seen_Nothing else same_report (snd (last (sr_logged r))) (sr_last r))"

definition one_thread :: "status_reader \<Rightarrow> bool" where
  "one_thread r \<longleftrightarrow> (\<exists>c. sr_threads r \<subseteq> {c}) \<and> (sr_in_flight r \<longleftrightarrow> sr_threads r \<noteq> {})"

lemma read_end_fields [simp]:
  "sr_threads (read_end c rd r) = sr_threads r" "sr_in_flight (read_end c rd r) = sr_in_flight r"
  "sr_last (read_end c rd r) = Seen_of rd"
  "sr_logged (read_end c rd r) =
     sr_logged r @ (if same_report (sr_last r) (Seen_of rd) then [] else [(status_log (sr_last r) (Seen_of rd), Seen_of rd)])"
  by (simp_all add: read_end_def record_seen_def status_log_quiet)

lemma log_current_read_end: "log_current r \<Longrightarrow> log_current (read_end c rd r)"
proof (cases "same_report (sr_last r) (Seen_of rd)")
  case True
  assume l: "log_current r"
  show ?thesis
  proof (cases "sr_logged r = []")
    case nil: True
    then have "same_report Seen_Nothing (Seen_of rd)" using l True by (simp add: log_current_def)
    then show ?thesis using Seen_of_something [of rd] by (auto simp: same_report_def simp del: Seen_of_something dest: sym)
  next
    case False
    then show ?thesis using l True same_report_trans by (auto simp: log_current_def)
  qed
next
  case False
  assume l: "log_current r"
  have "\<not> same_report (snd (last (sr_logged r))) (Seen_of rd)" if "sr_logged r \<noteq> []"
  proof
    assume s: "same_report (snd (last (sr_logged r))) (Seen_of rd)"
    have "same_report (sr_last r) (snd (last (sr_logged r)))"
      using l that by (auto simp: log_current_def same_report_def split: Seen.splits)
    then show False using s False same_report_trans by blast
  qed
  then show ?thesis using False l by (auto simp: log_current_def successively_append_iff)
qed

lemma log_current_cong: "sr_logged r' = sr_logged r \<Longrightarrow> sr_last r' = sr_last r \<Longrightarrow> log_current r' = log_current r"
  by (simp add: log_current_def)

inductive_cases reader_stepE: "reader_step r r'"

lemma one_thread_step: "reader_step r r' \<Longrightarrow> one_thread r \<Longrightarrow> one_thread r'"
  by (erule reader_stepE) (auto simp: one_thread_def read_begin_def thread_end_def)

lemma log_current_step: "reader_step r r' \<Longrightarrow> log_current r \<Longrightarrow> log_current r'"
proof (erule reader_stepE)
  fix c assume l: "log_current r" and r': "r' = read_begin c r"
  show "log_current r'"
  proof (cases "sr_in_flight r")
    case True
    then show ?thesis using l r' by (simp add: read_begin_def log_current_read_end)
  next
    case False
    then show ?thesis using l log_current_cong [of "read_begin c r" r] by (simp add: r' read_begin_def)
  qed
next
  fix c answer assume "log_current r" "r' = thread_end c answer r"
  then show "log_current r'" using log_current_cong [of "thread_end c answer r" r] by (simp add: thread_end_def)
qed (simp_all add: log_current_read_end)

text \<open>
  The reader of the printer status. However many reads are asked for and however long the spooler hangs, at
  most one blocking read runs, and while it runs every other read reports at once. A line is logged exactly when what is seen
  changes: two lines in a row never report the same, a hung spooler is one failure, and the last line
  is what the last read saw.
\<close>

theorem one_read_one_line_per_change:
  assumes "reader_run r"
  shows "(\<exists>c. sr_threads r \<subseteq> {c}) \<and> (sr_in_flight r \<longleftrightarrow> sr_threads r \<noteq> {}) \<and>
    (sr_threads r \<noteq> {} \<longrightarrow> (\<forall>c. sr_sent (read_begin c r) = sr_sent r @ [(UNKNOWN, UNKNOWN)])) \<and>
    successively (\<lambda>a b. \<not> same_report (snd a) (snd b)) (sr_logged r) \<and>
    (if sr_logged r = [] then sr_last r = Seen_Nothing else same_report (snd (last (sr_logged r))) (sr_last r))"
proof -
  have "one_thread r \<and> log_current r"
    using assms
  proof (induction rule: reader_run.induct)
    case Run_new
    show ?case by (simp add: one_thread_def log_current_def reader_new_def)
  next
    case (Run_step r r')
    then show ?case using one_thread_step log_current_step by blast
  qed
  then show ?thesis
    by (simp add: one_thread_def log_current_def read_begin_def read_end_def record_seen_def heartbeat_status_def)
qed

theorem one_read_one_line_per_change_witness:
  "\<exists>r. reader_run r \<and> sr_threads r = {0} \<and> sr_logged r = [(Log_Unreadable, Seen_Failed SE_TimedOut)] \<and>
       sr_sent r = [(UNKNOWN, UNKNOWN), (UNKNOWN, UNKNOWN)] \<and> sr_in_flight r"
proof -
  let ?r1 = "read_begin 0 reader_new"
  let ?r2 = "read_end 0 (Inl SE_TimedOut) ?r1"
  let ?r3 = "read_begin 1 ?r2"
  note eval = read_begin_def read_end_def record_seen_def reader_new_def Seen_of_def status_log_def heartbeat_status_def
  have "reader_run ?r1" by (rule Run_step [OF Run_new Rd_begin]) (simp_all add: reader_new_def)
  then have "reader_run ?r2" by (rule Run_step [OF _ Rd_guard]) (simp add: eval)
  then have run: "reader_run ?r3" by (rule Run_step [OF _ Rd_begin]) (simp_all add: eval)
  have "sr_threads ?r3 = {0}" by (simp add: eval)
  moreover from this have "sr_in_flight ?r3" using one_read_one_line_per_change [OF run] by simp
  ultimately show ?thesis using run by (intro exI [of _ ?r3]) (simp add: eval)
qed

section \<open>The status tells every bit\<close>

lemma join_split:
  assumes "\<forall>x \<in> set (x # xs). CHR '','' \<notin> set x"
  shows "takeWhile (\<lambda>c. c \<noteq> CHR '','') (join '','' (x # xs)) = x"
    and "dropWhile (\<lambda>c. c \<noteq> CHR '','') (join '','' (x # xs)) = (if xs = [] then [] else CHR '','' # join '','' xs)"
proof -
  have x: "\<forall>c \<in> set x. c \<noteq> CHR '',''" using assms by auto
  then have "takeWhile (\<lambda>c. c \<noteq> CHR '','') (x @ CHR '','' # r) = x" "dropWhile (\<lambda>c. c \<noteq> CHR '','') (x @ CHR '','' # r) = CHR '','' # r" for r
    by (simp_all add: takeWhile_append2 dropWhile_append2)
  then show "takeWhile (\<lambda>c. c \<noteq> CHR '','') (join '','' (x # xs)) = x"
    "dropWhile (\<lambda>c. c \<noteq> CHR '','') (join '','' (x # xs)) = (if xs = [] then [] else CHR '','' # join '','' xs)"
    using x by (cases xs; simp)+
qed

lemma join_inj:
  assumes "\<forall>x \<in> set xs \<union> set ys. CHR '','' \<notin> set x" and "xs \<noteq> []" and "ys \<noteq> []" and "join '','' xs = join '','' ys"
  shows "xs = ys"
  using assms
proof (induction xs arbitrary: ys)
  case (Cons x xs)
  obtain y ys' where ys: "ys = y # ys'" using Cons.prems(3) by (cases ys) auto
  have a: "\<forall>z \<in> set (x # xs). CHR '','' \<notin> set z" "\<forall>z \<in> set (y # ys'). CHR '','' \<notin> set z" using Cons.prems(1) ys by auto
  have eq: "x = y" using join_split(1) [OF a(1)] join_split(1) [OF a(2)] Cons.prems(4) ys by simp
  have tl: "(if xs = [] then [] else CHR '','' # join '','' xs) = (if ys' = [] then [] else CHR '','' # join '','' ys')"
    using join_split(2) [OF a(1)] join_split(2) [OF a(2)] Cons.prems(4) ys by simp
  have "xs = ys'"
  proof (cases "xs = []")
    case True
    then show ?thesis using tl by (simp split: if_splits)
  next
    case False
    then show ?thesis using tl Cons.IH [of ys'] a by (auto split: if_splits)
  qed
  then show ?case using eq ys by simp
qed simp

lemma join_or_ok_inj:
  assumes "\<forall>x \<in> set xs \<union> set ys. CHR '','' \<notin> set x \<and> x \<noteq> ''ok''" and "join_or_ok xs = join_or_ok ys"
  shows "xs = ys"
proof -
  have ok: "zs = []" if "\<forall>x \<in> set zs. CHR '','' \<notin> set x \<and> x \<noteq> ''ok''" "join_or_ok zs = ''ok''" for zs
  proof (rule ccontr)
    assume "zs \<noteq> []"
    then have "zs = [''ok'']" using that join_inj [of zs "[''ok'']"] by (auto simp: join_or_ok_def)
    then show False using that(1) by simp
  qed
  show ?thesis
  proof (cases "xs = [] \<or> ys = []")
    case True
    then have "join_or_ok xs = ''ok''" "join_or_ok ys = ''ok''" using assms(2) unfolding join_or_ok_def by metis+
    then have "xs = []" "ys = []" using assms(1) ok [of xs] ok [of ys] by blast+
    then show ?thesis by simp
  next
    case False
    then have "join '','' xs = join '','' ys" using assms(2) by (simp add: join_or_ok_def)
    then show ?thesis using assms(1) False by (intro join_inj) blast+
  qed
qed

fun hex_value :: "string \<Rightarrow> nat" where
  "hex_value s = foldl (\<lambda>n c. 16 * n + (if of_char c < (58 :: nat) then of_char c - 48 else of_char c - 87)) 0 s"

lemma hex_digit_value:
  assumes "k < 16"
  shows "of_char (hex_digit k) = (if k < 10 then 48 + k else 87 + k)" and "hex_digit k \<noteq> CHR '',''"
proof -
  show v: "of_char (hex_digit k) = (if k < 10 then 48 + k else 87 + k)" using assms by (simp add: hex_digit_def)
  have "of_char CHR '','' = (44 :: nat)" by code_simp
  then show "hex_digit k \<noteq> CHR '',''" using v by (auto split: if_splits)
qed

lemma hex_text_value: "hex_value (hex_text n) = n \<and> CHR '','' \<notin> set (hex_text n)"
proof (induction n rule: hex_text.induct)
  case (1 n)
  show ?case
  proof (cases "n < 16")
    case True
    then show ?thesis using hex_digit_value [OF True] by (subst (1 2) hex_text.simps) auto
  next
    case False
    have eq: "hex_text n = hex_text (n div 16) @ [hex_digit (n mod 16)]" using False by (subst hex_text.simps) simp
    have m: "n mod 16 < 16" by simp
    show ?thesis unfolding eq using "1.IH" [OF False] hex_digit_value [OF m] by (auto simp: mult.commute [of 16])
  qed
qed

lemma status_names:
  "map fst STATUS_NAMES = map (\<lambda>k. 2 ^ k) [0..<27]" "distinct (map snd STATUS_NAMES)"
  "list_all (\<lambda>p. CHR '','' \<notin> set (snd p) \<and> snd p \<noteq> ''ok'' \<and> take 7 (snd p) \<noteq> ''status_'') STATUS_NAMES"
  "filter (\<lambda>p. take 6 (snd p) = ''paper_'') STATUS_NAMES = [(0x8, ''paper_jam''), (0x10, ''paper_out''), (0x40, ''paper_problem'')]"
  by code_simp+

lemma conditions_clean: "\<forall>x \<in> set (conditions bits). CHR '','' \<notin> set x \<and> x \<noteq> ''ok''"
  using status_names(3) hex_text_value by (auto simp: conditions_def Let_def list_all_iff)

lemma hex_not_name: "p \<in> set STATUS_NAMES \<Longrightarrow> snd p \<noteq> ''status_0x'' @ h"
  using status_names(3) by (auto simp: list_all_iff)

lemma name_in_conditions:
  assumes "p \<in> set STATUS_NAMES"
  shows "snd p \<in> set (conditions bits) \<longleftrightarrow> and bits (fst p) \<noteq> 0"
proof -
  have "snd p \<in> set (conditions bits) \<longleftrightarrow> (\<exists>q \<in> set STATUS_NAMES. and bits (fst q) \<noteq> 0 \<and> snd p = snd q)"
    using hex_not_name [OF assms] by (force simp: conditions_def Let_def)
  moreover have "q = p" if "q \<in> set STATUS_NAMES" "snd p = snd q" for q
    using status_names(2) that assms by (auto simp: distinct_map dest: inj_onD)
  ultimately show ?thesis using assms by blast
qed

lemma known_bit:
  assumes "k < 27"
  shows "\<exists>name. (2 ^ k, name) \<in> set STATUS_NAMES"
proof -
  have "(2 ^ k :: u32) \<in> set (map fst STATUS_NAMES)" unfolding status_names(1) using assms by simp
  then show ?thesis by auto
qed

lemma undocumented_condition:
  "filter (\<lambda>c. take 7 c = ''status_'') (conditions bits) =
     (if and bits (not KNOWN_BITS) \<noteq> 0 then [''status_0x'' @ hex_text (unat (and bits (not KNOWN_BITS)))] else [])"
  using status_names(3) by (auto simp: conditions_def Let_def filter_empty_conv list_all_iff)

lemma conditions_inj:
  assumes "conditions a = conditions b"
  shows "a = b"
proof (rule bit_eqI)
  fix n
  have "and a (not KNOWN_BITS) = and b (not KNOWN_BITS)"
    using undocumented_condition [of a] undocumented_condition [of b] assms hex_text_value
    by (metis append_same_eq list.inject same_append_eq unsigned_word_eqI not_Cons_self2)
  then have high: "bit (and a (not KNOWN_BITS)) n = bit (and b (not KNOWN_BITS)) n" by simp
  have known: "bit KNOWN_BITS n \<longleftrightarrow> n < 27"
  proof -
    have "KNOWN_BITS = mask 27" by (simp add: KNOWN_BITS_def mask_eq_exp_minus_1)
    moreover have "possible_bit TYPE(u32) n" if "n < 27" using that by simp
    ultimately show ?thesis unfolding bit_mask_iff by (metis bit_mask_iff)
  qed
  show "bit a n = bit b n"
  proof (cases "n < 27")
    case True
    then obtain name where "(2 ^ n, name) \<in> set STATUS_NAMES" using known_bit by blast
    then have "and a (2 ^ n) \<noteq> 0 \<longleftrightarrow> and b (2 ^ n) \<noteq> 0" 
      using name_in_conditions [of "(2 ^ n, name)" a] name_in_conditions [of "(2 ^ n, name)" b] assms by simp
    then show ?thesis by (simp add: and_exp_eq_0_iff_not_bit)
  next
    case False
    then show ?thesis using high known by (auto simp: bit_and_iff bit_not_iff dest: bit_imp_le_length)
  qed
qed

lemma paper_conditions:
  "filter (\<lambda>c. take 6 c = ''paper_'') (conditions bits) = [] \<longleftrightarrow> and bits 8 = 0 \<and> and bits 0x10 = 0 \<and> and bits 0x40 = 0"
proof -
  have "filter (\<lambda>c. take 6 c = ''paper_'') (conditions bits) =
      map snd (filter (\<lambda>(b, _). and bits b \<noteq> 0) (filter (\<lambda>p. take 6 (snd p) = ''paper_'') STATUS_NAMES))"
    by (simp add: conditions_def Let_def filter_map o_def) (simp add: conj_commute)
  then show ?thesis unfolding status_names(4) by simp
qed

text \<open>
  C31. The heartbeat tells every bit of the printer queue, documented or not: two queue states give the same \<open>error_status\<close> exactly when their status
  bits, with the offline attribute, are the same, so it is \<open>ok\<close> only for a queue with none; and
  \<open>paper_status\<close> is \<open>ok\<close> exactly when none of the three paper conditions is reported.
\<close>

theorem error_status_tells_every_bit:
  "(snd (map_status_bits s a) = snd (map_status_bits s' a') \<longleftrightarrow> queue_bits s a = queue_bits s' a') \<and>
   (snd (map_status_bits s a) = ''ok'' \<longleftrightarrow> queue_bits s a = 0) \<and>
   (fst (map_status_bits s a) = ''ok'' \<longleftrightarrow>
      and (queue_bits s a) 8 = 0 \<and> and (queue_bits s a) 0x10 = 0 \<and> and (queue_bits s a) 0x40 = 0)"
proof -
  have inj: "join_or_ok (conditions v) = join_or_ok (conditions w) \<longleftrightarrow> v = w" for v w
    using join_or_ok_inj [of "conditions v" "conditions w"] conditions_clean conditions_inj by blast
  have "conditions 0 = []" by (simp add: conditions_def filter_empty_conv)
  then have zero: "join_or_ok (conditions v) = ''ok'' \<longleftrightarrow> v = 0" for v using inj [of v 0] by (simp add: join_or_ok_def)
  have "join_or_ok (filter (\<lambda>c. take 6 c = ''paper_'') (conditions v)) = join_or_ok [] \<longleftrightarrow>
      filter (\<lambda>c. take 6 c = ''paper_'') (conditions v) = []" for v
    using join_or_ok_inj [of "filter (\<lambda>c. take 6 c = ''paper_'') (conditions v)" "[]"] conditions_clean [of v] by auto
  then have "join_or_ok (filter (\<lambda>c. take 6 c = ''paper_'') (conditions v)) = ''ok'' \<longleftrightarrow>
      and v 8 = 0 \<and> and v 0x10 = 0 \<and> and v 0x40 = 0" for v
    using paper_conditions [of v] by (simp add: join_or_ok_def [of "[]"])
  then show ?thesis using inj zero by (simp add: map_status_bits_def Let_def)
qed

end
