(* ===== verification/Spec2Isabelle.thy ===== *)
theory Spec2Isabelle
  imports Storage_Schema Server_Races Fiscal_Truth Tim_Truth Receiver_Outcomes Label_Runs Label_Document Printer_Status
begin

text \<open>
  \<^bold>\<open>DevBridge.\<close> A print server (crate \<open>devbridge-server\<close>) keeps print jobs in SQLite, routes them to
  the clients of the stores over gRPC and retries the failed ones. A client
  (\<open>devbridge-client\<close>) also runs the device jobs of the store's tills, eKasa receipts and card
  payments, exactly once, from Odoo or from the tills' LAN API.

  \<^bold>\<open>Theories.\<close>
  \<^item> \<open>Prelude\<close>: fallible stateful operations, SQLite connections with a supply of statement failures,
    tables as lists of rows, the locales \<open>step_relation\<close> and \<open>invariant\<close> that carry a relation on
    states through every way of composing operations; UTF-8 text helpers.
  \<^item> \<open>Core_Types\<close>: \<open>devbridge-core\<close> (\<open>job.rs\<close>, \<open>job_event.rs\<close>, \<open>client_registration.rs\<close>,
    \<open>virtual_printer.rs\<close>).
  \<^item> \<open>Server_Storage\<close>, \<open>Storage_Schema\<close>: \<open>storage.rs\<close>. One definition per method; a table is a list of
    rows, a statement that fails leaves the database as it was. The job commands refine an abstract
    job board (locale \<open>job_board\<close>). Schema creation and migrations work on the columns of a table.
  \<^item> \<open>Job_Queue\<close>: \<open>queue.rs\<close>, every method of \<open>JobQueue\<close>.
  \<^item> \<open>Dispatch\<close>: \<open>dispatch.rs\<close>. A job stream is a process whose position is \<open>conn_pc\<close>, one step per
    access to shared state; the state check of \<open>send_job\<close> and its message on the stream, which waits for
    room, are two steps; downloads, status updates, completions, heartbeats and the stale-job
    task (\<open>runtime.rs\<close>) are operations on the queue.
  \<^item> \<open>Server_Steps\<close>, \<open>Server_Routing\<close>, \<open>Server_Lost\<close>, \<open>Server_Races\<close>: the server as a transition system, what
    holds in every run, and runs that break what comments of the source promise. A job is received with
    or without a target client, so the dashboard's reprint is one of the steps. The configuration says
    on which jobs clients may report and whether the server may restart; both are free in every
    statement that does not name them.
  \<^item> \<open>Json\<close>: \<open>serde_json\<close> values.
  \<^item> \<open>Device_Journal\<close>, \<open>Journal_Properties\<close>: the durable journal (\<open>journal.rs\<close>, \<open>journal_lan.rs\<close>,
    \<open>journal_card.rs\<close>, \<open>journal_card_balance.rs\<close>). A negative job id names a LAN job. The locale
    \<open>claim_once\<close> is the contract the workers rely on; it is interpreted on \<open>start_execution\<close>.
  \<^item> \<open>Device_Api\<close>: the contract with Odoo (\<open>odoo_rpc.rs\<close>, \<open>api.rs\<close>, \<open>report_offline.rs\<close>).
  \<^item> \<open>Device_Source\<close>, \<open>Lan_Jobs\<close>: \<open>executor.rs\<close>, \<open>mod.rs\<close>, \<open>tasks.rs\<close>, \<open>lan.rs\<close>. A worker awaits at an
    executor call, so \<open>execute_job\<close> is one definition per stretch between two awaits.
  \<^item> \<open>Device_Steps\<close>: the source as a transition system with crashes and restarts.
  \<^item> \<open>Portos_Payload\<close>, \<open>Portos_Outcome\<close>, \<open>Portos_Executor\<close>: the eKasa executor (\<open>portos/\<close>). Amounts are the
    rationals an \<open>f64\<close> stands for, with its rounding; text is UTF-8 bytes. \<open>execute\<close> and \<open>reconcile\<close> are
    one definition per stretch between two HTTP requests.
  \<^item> \<open>Journal_Fixed\<close>, \<open>Fiscal_Steps\<close>, \<open>Fiscal_Routing\<close>, \<open>Fiscal_Inv\<close>, \<open>Fiscal_Runs\<close>, \<open>Fiscal_Truth\<close>: the source, the
    calls of the Portos executor and Portos as one transition system. What the journal says about a
    receipt is true of Portos, in every interleaving, with lost answers, failing statements and
    crashes. Portos is restricted only by its documented answers (\<open>portos_documented\<close>).
  \<^item> \<open>Tim_Card\<close>, \<open>Tim_Reports\<close>, \<open>Tim_Session\<close>, \<open>Tim_Purchase\<close>, \<open>Tim_Jobs\<close>, \<open>Tim_Ops\<close>: the card terminal executor
    (\<open>tim/card.rs\<close>, \<open>reports.rs\<close>, \<open>mod.rs\<close>, \<open>purchase.rs\<close>, \<open>jobs.rs\<close>, \<open>ops.rs\<close>, \<open>safety.rs\<close>). The TIM library is a
    record of calls on a \<open>desk\<close>, which holds the journal, the clocks and the executor's shared state; a
    call may change all of it, since other tasks run meanwhile. The loops that hold a payment and
    release a terminal end with the clock.
  \<^item> \<open>Tim_Money\<close>, \<open>Tim_Truth\<close>: for a terminal that behaves as documented (\<open>tim_documented\<close>) the outcome of a
    payment is the truth about the money; the terminal is asked only after the journal knows; the
    reconcile moves no money; the safety balance runs once a day. A simulated terminal shows that
    the documented behaviour is possible.
  \<^item> \<open>Ipp_Codec\<close>: the binary codec of the direct IPP backend (\<open>ipp_codec.rs\<close>).
  \<^item> \<open>Print_Backend\<close>, \<open>Direct_Ipp\<close>, \<open>Ipp_Outcomes\<close>: \<open>print_backend.rs\<close>, \<open>backend_direct_ipp.rs\<close>. The printer
    is a function from requests to answers, the Ghostscript render a parameter; the poll loop is a
    partial function that is shown to return within its deadline. A failure is retried only when no page
    was acknowledged, with two exceptions: the printer itself reported the first page as canceled
    or aborted, or the HTTP client for polling that page could not be built.
  \<^item> \<open>Print_Task\<close>: \<open>inflight.rs\<close>, \<open>print_lock.rs\<close>, the print tasks of both job sources as a transition
    system in which a timed-out task goes on.
  \<^item> \<open>Receiver\<close>, \<open>Receiver_Outcomes\<close>: \<open>receiver.rs\<close>, from a job of the stream to its completion, and
    the composition with the server's handlers, for a print task that returns and for one that outlasts
    the outer timeout. A panic of the task, and what an abandoned one does later, are left out there.
  \<^item> \<open>Label_Ledger\<close>, \<open>Label_Source\<close>, \<open>Label_Runs\<close>: \<open>odoo_source/ledger.rs\<close>, \<open>odoo_source/mod.rs\<close>, the messages
    of \<open>odoo_source/rpc.rs\<close>; every run of polls and restarts, for any decoder and encoder of labels.
  \<^item> \<open>Label_Layout\<close>, \<open>Label_Placement\<close>, \<open>Label_Document\<close>: \<open>layout.rs\<close>, \<open>tspl.rs\<close>, \<open>label_size.rs\<close>: the bitmap of a
    decoded PNG, its place on the roll, the TSPL document of a batch, the roll a batch names; the label is
    printed where it is read, and a reader of TSPL finds in the document what was placed.
  \<^item> \<open>Printer_Status\<close>: \<open>printer_status.rs\<close>, \<open>platform_windows.rs\<close>, the heartbeat. The status tells every bit of
    the queue; the reader is a transition system whose reads can hang, one at a time.

  \<^bold>\<open>Choices.\<close> A clock reading is an argument. An instant column holds the instant, a JSON column the
  value. The printer of timestamps, the printer and parser of \<open>serde_json\<close>, reads of spool files
  and the answers of devices, clients and Odoo are parameters. Failures of SQLite are a list of
  booleans on the connection, so a theorem about every connection is one about every pattern of
  failures; theorems about the plain effect of an operation ask for a connection with no failure
  ahead. No definition uses fuel: loops are structural, have a termination proof, or are partial
  functions shown to return.
  A handler of the server that does not wait (completion, push, status update, requeue) is one step;
  job streams and device workers are split wherever other tasks can come in between.

  \<^bold>\<open>Not modelled.\<close> The Ghostscript and PNG libraries, the other print backends, the web UI, the tray application, end-to-end tests, installers, native FFI, the
  HTTP and gRPC transports, logging.
\<close>

end
